(* ===== verification/Driver_Prelude.thy ===== *)
theory Driver_Prelude
  imports Main "HOL-Library.Word"
begin

text \<open>
  Shared vocabulary of the development: the machine integers of the C++ sources as words,
  the named collections the component proofs draw on, \<open>std::to_string\<close> on unsigned numbers,
  the \<open>operator[]\<close> of the standard maps (which inserts a default), the byte splitting and
  joining idioms of the protocol encoders, and a few list lemmas on queues.
\<close>

unbundle bit_operations_syntax

named_theorems byte_simps "joining the bytes a word was split into"
named_theorems store_simps "what a lookup returns after an update of a store"
named_theorems queue_simps "the four transmit queues after an operation"

type_synonym u8 = "8 word"
type_synonym u16 = "16 word"
type_synonym u32 = "32 word"
type_synonym u64 = "64 word"

text \<open>Signed fixed-width integers are words read through \<^const>\<open>sint\<close>.\<close>

type_synonym i8 = "8 word"
type_synonym i16 = "16 word"
type_synonym i32 = "32 word"

text \<open>
  Steady-clock time points and durations, in nanoseconds.  The default-constructed
  \<open>time_point {}\<close> the code uses as "never" is \<open>0\<close>.
\<close>

type_synonym time_ns = int

abbreviation ms :: "int \<Rightarrow> time_ns" where
  "ms n \<equiv> n * 1000000"

section \<open>Standard maps\<close>

text \<open>
  \<open>m[k]\<close> of \<open>std::map\<close> and \<open>std::unordered_map\<close>: the entry of \<open>k\<close>, which is
  default-constructed and inserted when there is none.  \<open>map_at\<close> reads it;
  \<open>map_modify\<close> applies a mutation through the returned reference.
\<close>

definition map_at :: "'v \<Rightarrow> ('k \<rightharpoonup> 'v) \<Rightarrow> 'k \<Rightarrow> 'v" where
  "map_at d m k = (case m k of None \<Rightarrow> d | Some v \<Rightarrow> v)"

definition map_modify :: "'v \<Rightarrow> 'k \<Rightarrow> ('v \<Rightarrow> 'v) \<Rightarrow> ('k \<rightharpoonup> 'v) \<Rightarrow> ('k \<rightharpoonup> 'v)" where
  "map_modify d k f m = m(k \<mapsto> f (map_at d m k))"

lemma map_at_Some [simp, store_simps]: "m k = Some v \<Longrightarrow> map_at d m k = v"
  by (simp add: map_at_def)

lemma map_at_None [simp, store_simps]: "m k = None \<Longrightarrow> map_at d m k = d"
  by (simp add: map_at_def)

lemma map_at_upd [simp, store_simps]: "map_at d (m(k \<mapsto> v)) k' = (if k' = k then v else map_at d m k')"
  by (simp add: map_at_def)

lemma map_modify_same [simp, store_simps]: "map_modify d k f m k = Some (f (map_at d m k))"
  by (simp add: map_modify_def)

lemma map_modify_other [simp, store_simps]: "k' \<noteq> k \<Longrightarrow> map_modify d k f m k' = m k'"
  by (simp add: map_modify_def)

lemma map_at_modify [simp, store_simps]:
  "map_at d (map_modify d k f m) k' = (if k' = k then f (map_at d m k) else map_at d m k')"
  by (simp add: map_modify_def)

lemma dom_map_modify [simp, store_simps]: "dom (map_modify d k f m) = insert k (dom m)"
  by (simp add: map_modify_def)

lemma map_modify_modify [simp, store_simps]:
  "map_modify d k g (map_modify d k f m) = map_modify d k (g \<circ> f) m"
  by (simp add: map_modify_def fun_eq_iff)

section \<open>Decimal printing\<close>

text \<open>\<open>std::to_string\<close> of an unsigned number.\<close>

fun show_nat :: "nat \<Rightarrow> string" where
  "show_nat n = (if n < 10 then [char_of (48 + n)]
                 else show_nat (n div 10) @ [char_of (48 + n mod 10)])"

declare show_nat.simps [simp del]

lemma digit_char_inj: "m < 10 \<Longrightarrow> n < 10 \<Longrightarrow> (char_of (48 + m :: nat) = char_of (48 + n)) = (m = n)"
  by (simp add: char_of_eq_iff take_bit_eq_mod)

lemma digit_char_not_bar: "n < 10 \<Longrightarrow> char_of (48 + n :: nat) \<noteq> CHR ''|''"
  by (simp add: char_of_eq_iff take_bit_eq_mod)

lemma show_nat_ne_Nil [simp]: "show_nat n \<noteq> []"
  by (subst show_nat.simps) simp

lemma show_nat_no_bar: "CHR ''|'' \<notin> set (show_nat n)"
proof (induction n rule: show_nat.induct)
  case (1 n)
  then show ?case
    using digit_char_not_bar [of n] digit_char_not_bar [of "n mod 10"]
    by (subst show_nat.simps) auto
qed

lemma show_nat_inj: "show_nat m = show_nat n \<Longrightarrow> m = n"
proof (induction m arbitrary: n rule: show_nat.induct)
  case (1 m)
  note eq = "1.prems"
  show ?case
  proof (cases "m < 10"; cases "n < 10")
    assume "m < 10" "n < 10"
    with eq show ?thesis by (simp add: show_nat.simps [of m] show_nat.simps [of n] digit_char_inj)
  next
    assume "m < 10" "\<not> n < 10"
    with eq show ?thesis
      by (simp add: show_nat.simps [of m] show_nat.simps [of n] show_nat_ne_Nil [symmetric])
  next
    assume "\<not> m < 10" "n < 10"
    with eq show ?thesis by (simp add: show_nat.simps [of m] show_nat.simps [of n])
  next
    assume mn: "\<not> m < 10" "\<not> n < 10"
    with eq have d: "show_nat (m div 10) = show_nat (n div 10)"
      and r: "m mod 10 = n mod 10"
      by (simp_all add: show_nat.simps [of m] show_nat.simps [of n] digit_char_inj)
    from "1.IH" [OF mn(1) d] have "m div 10 = n div 10" .
    with r show ?thesis by (metis div_mult_mod_eq)
  qed
qed

text \<open>A field without the separator can be split off the right end of a composed key.\<close>

lemma append_sep_inj:
  assumes "xs @ c # ys = xs' @ c # ys'" and "c \<notin> set ys" and "c \<notin> set ys'"
  shows "xs = xs' \<and> ys = ys'"
proof -
  have rev_eq: "rev ys @ c # rev xs = rev ys' @ c # rev xs'"
    using assms(1) by (metis append.assoc append_Cons append_Nil rev.simps(2) rev_append)
  have "rev ys = takeWhile (\<lambda>d. d \<noteq> c) (rev ys @ c # rev xs)"
    using assms(2) by (subst takeWhile_append2) auto
  also have "\<dots> = rev ys'"
    using assms(3) rev_eq by (subst rev_eq, subst takeWhile_append2) auto
  finally have "ys = ys'" by simp
  with assms(1) show ?thesis by simp
qed

section \<open>Characters\<close>

text \<open>\<open>std::isspace\<close> in the C locale.\<close>

definition isspace :: "char \<Rightarrow> bool" where
  "isspace c \<longleftrightarrow> c \<in> {CHR 0x20, CHR 0x09, CHR 0x0A, CHR 0x0B, CHR 0x0C, CHR 0x0D}"

section \<open>Word ranges\<close>

lemma unat_ucast_mod: "unat (ucast (w :: 'a::len word) :: 'b::len word) = unat w mod 2 ^ LENGTH('b)"
  by (simp add: unsigned_ucast_eq take_bit_eq_mod)

lemma unat_u8: "unat (w :: u8) < 256"
  using unsigned_less [of w, where 'a = nat] by simp

lemma unat_u16: "unat (w :: u16) < 65536"
  using unsigned_less [of w, where 'a = nat] by simp

lemma unat_u32: "unat (w :: u32) < 4294967296"
  using unsigned_less [of w, where 'a = nat] by simp

lemma unat_u8_widen [simp]: "unat (ucast (w :: u8) :: u16) = unat w"
    "unat (ucast (w :: u8) :: u32) = unat w"
  using unat_u8 [of w] by (simp_all add: unat_ucast_mod)

text \<open>An 11-bit identifier survives the masking of the receive handlers.\<close>

lemma standard_can_id:
  assumes "unat (w :: u16) < 0x800"
  shows "ucast ((ucast w :: u32) AND 0x7FF) = w"
proof -
  have "(ucast w :: u32) AND 0x7FF = take_bit 11 (ucast w)"
    by (simp add: take_bit_eq_mask mask_eq_exp_minus_1)
  then have "unat ((ucast w :: u32) AND 0x7FF) = take_bit 11 (unat (ucast w :: u32))"
    by (simp only: unsigned_take_bit_eq)
  then have "unat ((ucast w :: u32) AND 0x7FF) = unat w"
    using assms unat_u16 [of w] by (simp add: take_bit_eq_mod unat_ucast_mod)
  then show ?thesis using assms by (simp add: word_unat_eq_iff unat_ucast_mod)
qed

section \<open>Bytes of a word\<close>

text \<open>
  The encoders write \<open>static_cast<uint8_t>((value >> s) & 0xFF)\<close>; the decoders shift the
  bytes back and join them with \<open>|\<close>.
\<close>

definition byte_at :: "nat \<Rightarrow> 'a::len word \<Rightarrow> u8" where
  "byte_at s v = ucast (drop_bit s v AND 0xFF)"

definition join16 :: "u8 \<Rightarrow> u8 \<Rightarrow> u16" where
  "join16 lo hi = ucast lo OR push_bit 8 (ucast hi)"

definition join32 :: "u8 \<Rightarrow> u8 \<Rightarrow> u8 \<Rightarrow> u8 \<Rightarrow> u32" where
  "join32 b0 b1 b2 b3 = ucast b0 OR push_bit 8 (ucast b1) OR push_bit 16 (ucast b2) OR push_bit 24 (ucast b3)"

lemma mask8: "(0xFF :: 'a::len word) = mask 8"
  by (simp add: mask_eq_exp_minus_1)

lemma bit_byte_at: "bit (byte_at s v) n \<longleftrightarrow> n < 8 \<and> bit v (s + n)"
  unfolding byte_at_def mask8 by (auto simp: bit_simps dest: bit_imp_le_length)

lemma join16_bytes [byte_simps]: "join16 (byte_at 0 v) (byte_at 8 v) = v"
proof (rule bit_word_eqI)
  fix n assume "n < LENGTH(16)"
  then show "bit (join16 (byte_at 0 v) (byte_at 8 v)) n = bit v n"
    by (cases "n < 8") (auto simp: join16_def bit_simps bit_byte_at)
qed

lemma join32_bytes [byte_simps]:
  "join32 (byte_at 0 v) (byte_at 8 v) (byte_at 16 v) (byte_at 24 v) = v"
proof (rule bit_word_eqI)
  fix n assume n: "n < LENGTH(32)"
  consider "n < 8" | "8 \<le> n \<and> n < 16" | "16 \<le> n \<and> n < 24" | "24 \<le> n \<and> n < 32"
    using n by force
  then show "bit (join32 (byte_at 0 v) (byte_at 8 v) (byte_at 16 v) (byte_at 24 v)) n = bit v n"
    by cases (auto simp: join32_def bit_simps bit_byte_at)
qed

lemma byte_at_join32 [byte_simps]:
  "byte_at 0 (join32 b0 b1 b2 b3) = b0" "byte_at 8 (join32 b0 b1 b2 b3) = b1"
  "byte_at 16 (join32 b0 b1 b2 b3) = b2" "byte_at 24 (join32 b0 b1 b2 b3) = b3"
  by (rule bit_word_eqI, auto simp: join32_def bit_simps bit_byte_at dest: bit_imp_le_length)+

end
