(* ===== verification/Can_Types.thy ===== *)
theory Can_Types
  imports Driver_Prelude
begin

text \<open>
  The vocabulary every component shares: protocol families (\<open>CanType.h\<close>), motor identifiers
  and their protocol node numbers (\<open>MotorID.h\<close>), operating modes (\<open>CanProtocol.h\<close>), CAN frames
  and send results (\<open>CanTransport.h\<close>), and the transmit requests protocols hand to the
  dispatcher (\<open>CanTxDispatcher.h\<close>), with the dispatcher's priority as the order on categories.
\<close>

section \<open>Protocol families and motor modes\<close>

datatype CanType = MT | PP | DM | ECB

datatype MotorMode = ModePosition | ModeVelocity | ModeCSP

section \<open>Motor identifiers\<close>

text \<open>
  \<open>enum class MotorID : uint16_t\<close>: the named constants are the wired joints, and every
  16-bit value is produced by \<open>static_cast\<close>, so the type is the full 16-bit range.
\<close>

type_synonym motor_id = u16

definition LeftWheel :: motor_id where
  "LeftWheel = 0x141"

definition kMtSendBaseId :: u16 where
  "kMtSendBaseId = 0x140"

definition toSystemMotorId :: "motor_id \<Rightarrow> u16" where
  "toSystemMotorId mid = mid"

definition toMtProtocolNodeId :: "motor_id \<Rightarrow> u8" where
  "toMtProtocolNodeId mid =
     (let systemId = toSystemMotorId mid
      in ucast (if kMtSendBaseId \<le> systemId then systemId - kMtSendBaseId else systemId AND 0xFF))"

definition motorIdFromMtProtocolNodeId :: "u8 \<Rightarrow> motor_id" where
  "motorIdFromMtProtocolNodeId nodeId = kMtSendBaseId + ucast nodeId"

definition toProtocolNodeId :: "motor_id \<Rightarrow> u8" where
  "toProtocolNodeId mid = ucast (toSystemMotorId mid AND 0xFF)"

definition motorIdFromProtocolNodeId :: "u8 \<Rightarrow> motor_id" where
  "motorIdFromProtocolNodeId nodeId = ucast nodeId"

section \<open>Frames and transports\<close>

record frame =
  fr_id :: u32
  fr_isExtended :: bool
  fr_isRemoteRequest :: bool
  fr_dlc :: u8
  fr_data :: "u8 list"

text \<open>A default-constructed frame; \<open>data\<close> is a \<open>std::array\<close> of eight bytes.\<close>

definition empty_frame :: frame where
  "empty_frame = \<lparr>fr_id = 0, fr_isExtended = False, fr_isRemoteRequest = False, fr_dlc = 0,
                  fr_data = replicate 8 0\<rparr>"

definition wf_frame :: "frame \<Rightarrow> bool" where
  "wf_frame f \<longleftrightarrow> length (fr_data f) = 8 \<and> unat (fr_dlc f) \<le> 8"

datatype SendResult = SendOk | SendBackpressure | SendLinkDown | SendError

section \<open>Transmit requests\<close>

datatype Category = Control | Query | Recover | Config

text \<open>
  The completion of a request is a closure; the only closures the protocols install call
  \<open>onReadDispatchResult\<close> of the protocol with the captured node and command, so a
  completion is those two captured bytes.
\<close>

type_synonym completion = "u8 \<times> u8"

record request =
  rq_frame :: frame
  rq_category :: Category
  rq_source :: string
  rq_completion :: "completion option"

text \<open>Categories are ordered by the dispatcher's priority: control, recover, config, query.\<close>

fun category_rank :: "Category \<Rightarrow> nat" where
  "category_rank Control = 0"
| "category_rank Recover = 1"
| "category_rank Config = 2"
| "category_rank Query = 3"

lemma category_rank_inj: "category_rank a = category_rank b \<Longrightarrow> a = b"
  by (cases a; cases b) simp_all

instantiation Category :: linorder
begin

definition less_eq_Category :: "Category \<Rightarrow> Category \<Rightarrow> bool" where
  "less_eq_Category a b \<longleftrightarrow> category_rank a \<le> category_rank b"

definition less_Category :: "Category \<Rightarrow> Category \<Rightarrow> bool" where
  "less_Category a b \<longleftrightarrow> category_rank a < category_rank b"

instance
  by intro_classes (auto simp: less_eq_Category_def less_Category_def intro: category_rank_inj)

end

lemma category_order [simp]:
  "Control \<le> c" "c \<le> Query" "Recover \<le> Config" "\<not> Recover \<le> Control"
  "\<not> Config \<le> Control" "\<not> Query \<le> Control" "\<not> Config \<le> Recover"
  "\<not> Query \<le> Recover" "\<not> Query \<le> Config"
  by (cases c; simp add: less_eq_Category_def)+

section \<open>Identifier round trips\<close>

lemma unat_motorIdFromMt [simp]: "unat (motorIdFromMtProtocolNodeId n) = 0x140 + unat n"
  using unat_u8 [of n]
  by (simp add: motorIdFromMtProtocolNodeId_def kMtSendBaseId_def unat_word_ariths)

lemma unat_toMtProtocolNodeId:
  assumes "0x140 \<le> unat mid"
  shows "unat (toMtProtocolNodeId mid) = (unat mid - 0x140) mod 256"
proof -
  have le: "kMtSendBaseId \<le> mid"
    using assms by (simp add: kMtSendBaseId_def word_le_nat_alt)
  then have "unat (mid - kMtSendBaseId) = unat mid - 0x140"
    by (simp add: unat_sub kMtSendBaseId_def)
  with le show ?thesis
    by (simp add: toMtProtocolNodeId_def toSystemMotorId_def unat_ucast_mod)
qed

lemma toMt_fromMt [simp]: "toMtProtocolNodeId (motorIdFromMtProtocolNodeId n) = n"
  using unat_u8 [of n] by (simp add: word_unat_eq_iff unat_toMtProtocolNodeId)

lemma fromMt_toMt_iff:
  "motorIdFromMtProtocolNodeId (toMtProtocolNodeId mid) = mid \<longleftrightarrow> 0x140 \<le> unat mid \<and> unat mid < 0x240"
  (is "?eq \<longleftrightarrow> ?range")
proof
  assume ?eq
  then have "unat mid = 0x140 + unat (toMtProtocolNodeId mid)"
    by (metis unat_motorIdFromMt)
  then show ?range using unat_u8 [of "toMtProtocolNodeId mid"] by simp
next
  assume r: ?range
  then have "unat (toMtProtocolNodeId mid) = unat mid - 0x140"
    by (simp add: unat_toMtProtocolNodeId less_diff_conv2)
  with r have "unat (motorIdFromMtProtocolNodeId (toMtProtocolNodeId mid)) = unat mid"
    by simp
  then show ?eq by (simp add: word_unat_eq_iff)
qed

lemma toProtocolNodeId_from [simp]: "toProtocolNodeId (motorIdFromProtocolNodeId n) = n"
proof (rule bit_word_eqI)
  fix i assume "i < LENGTH(8)"
  then show "bit (toProtocolNodeId (motorIdFromProtocolNodeId n)) i = bit n i"
    by (simp add: toProtocolNodeId_def motorIdFromProtocolNodeId_def toSystemMotorId_def mask8 bit_simps)
qed

end
