(* ===== verification/Ieee_Double.thy ===== *)
theory Ieee_Double
  imports Complex_Main "HOL-Library.Log_Nat"
begin

text \<open>
  The \<open>double\<close> and \<open>float\<close> arithmetic the sources use: IEEE 754 binary64 and binary32 values
  with the default rounding (to nearest, ties to even), over exact rationals.  A value is
  a rational, an infinity or a NaN; the sign of a zero is not represented (the sources divide
  only by values they have checked to be non-zero, and compare zeros only with \<open>==\<close> and \<open><\<close>).
  The main facts: the error of one rounding is at most half a unit in the last place, and
  integers of at most 53 bits are exact.
\<close>

datatype dbl = Fin rat | PosInf | NegInf | NaN

section \<open>Rounding\<close>

text \<open>The exponent of the leading binary digit of a positive rational.\<close>

definition ilog2 :: "rat \<Rightarrow> int" where
  "ilog2 x = (let (n, d) = quotient_of x; e = bitlen n - bitlen d
              in if 2 powi e \<le> x then e else e - 1)"

text \<open>Round to the nearest integer, ties to the even neighbour.\<close>

definition round_half_even :: "rat \<Rightarrow> int" where
  "round_half_even q =
     (let f = \<lfloor>q\<rfloor>; r = q - of_int f
      in if r < 1/2 then f else if 1/2 < r then f + 1 else if even f then f else f + 1)"

text \<open>The weight of the last digit kept of \<open>x\<close>, in a format with \<open>p\<close> digits.\<close>

definition ulp_exp :: "nat \<Rightarrow> int \<Rightarrow> rat \<Rightarrow> int" where
  "ulp_exp p emin x = max (ilog2 \<bar>x\<bar> - int p + 1) emin"

definition fp_round :: "nat \<Rightarrow> int \<Rightarrow> int \<Rightarrow> rat \<Rightarrow> dbl" where
  "fp_round p emin emax x =
     (if x = 0 then Fin 0
      else let e = ulp_exp p emin x; v = of_int (round_half_even (x / 2 powi e)) * 2 powi e
           in if 2 powi emax \<le> \<bar>v\<bar> then (if 0 < x then PosInf else NegInf) else Fin v)"

definition round64 :: "rat \<Rightarrow> dbl" where
  "round64 = fp_round 53 (-1074) 1024"

definition round32 :: "rat \<Rightarrow> dbl" where
  "round32 = fp_round 24 (-149) 128"

section \<open>Operations\<close>

fun isfinite :: "dbl \<Rightarrow> bool" where
  "isfinite (Fin _) = True"
| "isfinite _ = False"

fun dlt :: "dbl \<Rightarrow> dbl \<Rightarrow> bool" where
  "dlt (Fin a) (Fin b) = (a < b)"
| "dlt NaN _ = False"
| "dlt _ NaN = False"
| "dlt PosInf _ = False"
| "dlt _ NegInf = False"
| "dlt _ _ = True"

fun deq :: "dbl \<Rightarrow> dbl \<Rightarrow> bool" where
  "deq (Fin a) (Fin b) = (a = b)"
| "deq PosInf PosInf = True"
| "deq NegInf NegInf = True"
| "deq _ _ = False"

definition dle :: "dbl \<Rightarrow> dbl \<Rightarrow> bool" where
  "dle a b \<longleftrightarrow> dlt a b \<or> deq a b"

text \<open>\<open>std::max(a, b)\<close> is \<open>(a < b) ? b : a\<close> and \<open>std::min(a, b)\<close> is \<open>(b < a) ? b : a\<close>.\<close>

definition dmax :: "dbl \<Rightarrow> dbl \<Rightarrow> dbl" where
  "dmax a b = (if dlt a b then b else a)"

definition dmin :: "dbl \<Rightarrow> dbl \<Rightarrow> dbl" where
  "dmin a b = (if dlt b a then b else a)"

fun dabs :: "dbl \<Rightarrow> dbl" where
  "dabs (Fin a) = Fin \<bar>a\<bar>"
| "dabs NaN = NaN"
| "dabs _ = PosInf"

fun dneg :: "dbl \<Rightarrow> dbl" where
  "dneg (Fin a) = Fin (- a)"
| "dneg PosInf = NegInf"
| "dneg NegInf = PosInf"
| "dneg NaN = NaN"

fun dadd :: "dbl \<Rightarrow> dbl \<Rightarrow> dbl" where
  "dadd (Fin a) (Fin b) = round64 (a + b)"
| "dadd NaN _ = NaN"
| "dadd _ NaN = NaN"
| "dadd PosInf NegInf = NaN"
| "dadd NegInf PosInf = NaN"
| "dadd PosInf _ = PosInf"
| "dadd NegInf _ = NegInf"
| "dadd (Fin _) b = b"

definition dsub :: "dbl \<Rightarrow> dbl \<Rightarrow> dbl" where
  "dsub a b = dadd a (dneg b)"

definition inf_of_sign :: "rat \<Rightarrow> dbl" where
  "inf_of_sign s = (if s = 0 then NaN else if 0 < s then PosInf else NegInf)"

fun sign_of :: "dbl \<Rightarrow> rat" where
  "sign_of (Fin a) = sgn a"
| "sign_of PosInf = 1"
| "sign_of NegInf = -1"
| "sign_of NaN = 0"

fun dmul :: "dbl \<Rightarrow> dbl \<Rightarrow> dbl" where
  "dmul (Fin a) (Fin b) = round64 (a * b)"
| "dmul NaN _ = NaN"
| "dmul _ NaN = NaN"
| "dmul a b = inf_of_sign (sign_of a * sign_of b)"

fun ddiv :: "dbl \<Rightarrow> dbl \<Rightarrow> dbl" where
  "ddiv (Fin a) (Fin b) = (if b = 0 then inf_of_sign (sgn a) else round64 (a / b))"
| "ddiv NaN _ = NaN"
| "ddiv _ NaN = NaN"
| "ddiv (Fin _) _ = Fin 0"
| "ddiv a (Fin b) = (if b = 0 then a else inf_of_sign (sign_of a * sgn b))"
| "ddiv _ _ = NaN"

text \<open>\<open>static_cast<double>\<close> of an integer.\<close>

definition dbl_of_int :: "int \<Rightarrow> dbl" where
  "dbl_of_int n = round64 (of_int n)"

text \<open>
  \<open>std::lround\<close> and \<open>std::llround\<close>: nearest integer, ties away from zero.  Outside the 64-bit
  range and on non-finite arguments the C library leaves the value unspecified: that value
  is the argument \<open>oob\<close>.
\<close>

definition round_away :: "rat \<Rightarrow> int" where
  "round_away q = (if 0 \<le> q then \<lfloor>q + 1/2\<rfloor> else - \<lfloor>- q + 1/2\<rfloor>)"

fun llround :: "int \<Rightarrow> dbl \<Rightarrow> int" where
  "llround oob (Fin q) =
     (let n = round_away q in if - (2 ^ 63) \<le> n \<and> n < 2 ^ 63 then n else oob)"
| "llround oob _ = oob"

section \<open>The leading exponent\<close>

lemma ilog2_bounds:
  assumes "0 < x"
  shows "2 powi ilog2 x \<le> x" and "x < 2 powi (ilog2 x + 1)"
proof -
  obtain n d where q: "quotient_of x = (n, d)" by (cases "quotient_of x")
  have d: "0 < d" using q by (rule quotient_of_denom_pos)
  have x: "x = of_int n / of_int d" using q by (rule quotient_of_div)
  with assms d have n: "0 < n" by (simp add: zero_less_divide_iff)
  have bits: "2 powi (bitlen k - 1) \<le> (of_int k :: rat) \<and> (of_int k :: rat) < 2 powi bitlen k"
    if "0 < k" for k
  proof -
    have b: "0 < bitlen k"
      using that bitlen_eq_zero_iff [of k] bitlen_nonneg [of k] by linarith
    have "2 ^ nat (bitlen k - 1) \<le> k \<and> k < 2 ^ nat (bitlen k)"
      using that by (rule bitlen_bounds)
    then have "(of_int (2 ^ nat (bitlen k - 1)) :: rat) \<le> of_int k \<and> (of_int k :: rat) < of_int (2 ^ nat (bitlen k))"
      by (simp only: of_int_le_iff of_int_less_iff)
    with b show ?thesis by (simp add: power_int_def)
  qed
  let ?e = "bitlen n - bitlen d"
  have low: "2 powi (?e - 1) < x"
  proof -
    have "2 powi (?e - 1) * of_int d < 2 powi (?e - 1) * (2 powi bitlen d :: rat)"
      using bits [OF d] by simp
    also have "\<dots> = 2 powi (bitlen n - 1)" by (simp flip: power_int_add)
    also have "\<dots> \<le> of_int n" using bits [OF n] by simp
    finally show ?thesis using d x by (simp add: pos_less_divide_eq)
  qed
  have high: "x < 2 powi (?e + 1)"
  proof -
    have "of_int n < (2 powi bitlen n :: rat)" using bits [OF n] by simp
    also have "\<dots> = 2 powi (?e + 1) * 2 powi (bitlen d - 1)" by (simp flip: power_int_add)
    also have "\<dots> \<le> 2 powi (?e + 1) * of_int d" using bits [OF d] by (simp add: mult_left_mono)
    finally show ?thesis using d x by (simp add: pos_divide_less_eq)
  qed
  have i: "ilog2 x = (if 2 powi ?e \<le> x then ?e else ?e - 1)"
    by (simp add: ilog2_def q)
  show "2 powi ilog2 x \<le> x" using low by (simp add: i)
  show "x < 2 powi (ilog2 x + 1)" using high by (auto simp: i)
qed

section \<open>Rounding error and exactness\<close>

lemma floor_rat_bounds: "of_int \<lfloor>q\<rfloor> \<le> q" "q < of_int \<lfloor>q\<rfloor> + (1 :: rat)"
  using floor_correct [of q] by simp_all

lemma round_half_even_err: "\<bar>of_int (round_half_even q) - q\<bar> \<le> 1/2"
proof -
  define f where "f = \<lfloor>q\<rfloor>"
  have "of_int f \<le> q" "q < of_int f + 1" unfolding f_def by (rule floor_rat_bounds)+
  then show ?thesis by (auto simp: round_half_even_def Let_def abs_if simp flip: f_def)
qed

lemma round_half_even_int [simp]: "round_half_even (of_int n) = n"
  by (simp add: round_half_even_def)

lemma fp_round_val_err:
  assumes "x \<noteq> 0" and e_def: "e = ulp_exp p emin x"
  shows "\<bar>of_int (round_half_even (x / 2 powi e)) * 2 powi e - x\<bar> \<le> max (\<bar>x\<bar> * 2 powi (- int p)) (2 powi (emin - 1))"
    (is "\<bar>?v - x\<bar> \<le> _")
proof -
  have "?v - x = (of_int (round_half_even (x / 2 powi e)) - x / 2 powi e) * 2 powi e"
    by (simp add: left_diff_distrib)
  then have "\<bar>?v - x\<bar> = \<bar>of_int (round_half_even (x / 2 powi e)) - x / 2 powi e\<bar> * 2 powi e"
    by (simp add: abs_mult)
  also have "\<dots> \<le> 1/2 * 2 powi e"
    by (rule mult_right_mono [OF round_half_even_err]) simp
  also have "\<dots> = 2 powi (e - 1)" by (simp add: power_int_diff)
  also have "\<dots> \<le> max (\<bar>x\<bar> * 2 powi (- int p)) (2 powi (emin - 1))"
  proof (cases "emin \<le> ilog2 \<bar>x\<bar> - int p + 1")
    case True
    then have "2 powi (e - 1) = (2 powi ilog2 \<bar>x\<bar> * 2 powi (- int p) :: rat)"
      by (simp add: e_def ulp_exp_def flip: power_int_add)
    also have "\<dots> \<le> \<bar>x\<bar> * 2 powi (- int p)"
      using ilog2_bounds(1) [of "\<bar>x\<bar>"] assms(1) by (intro mult_right_mono) simp_all
    finally show ?thesis by simp
  qed (simp add: e_def ulp_exp_def)
  finally show ?thesis .
qed

lemma fp_round_err:
  assumes "fp_round p emin emax x = Fin v"
  shows "\<bar>v - x\<bar> \<le> max (\<bar>x\<bar> * 2 powi (- int p)) (2 powi (emin - 1))"
proof (cases "x = 0")
  case True
  with assms show ?thesis by (simp add: fp_round_def)
next
  case False
  then show ?thesis
    using assms fp_round_val_err [OF False, of _ p emin]
    by (auto simp: fp_round_def Let_def split: if_splits)
qed

text \<open>Far from both ends of the exponent range, rounding is finite with a relative error of \<open>2^-53\<close>.\<close>

lemma round64_near:
  assumes x: "\<bar>x\<bar> \<le> B" and B: "2 powi (- 1000) \<le> B" "B \<le> 2 ^ 1000"
  shows "\<exists>v. round64 x = Fin v \<and> \<bar>v - x\<bar> \<le> B / 2 ^ 53"
proof (cases "x = 0")
  case True
  moreover have "0 \<le> B" using x by linarith
  ultimately show ?thesis by (simp add: round64_def fp_round_def)
next
  case False
  define e where "e = ulp_exp 53 (- 1074) x"
  define v :: rat where "v = of_int (round_half_even (x / 2 powi e)) * 2 powi e"
  have "\<bar>v - x\<bar> \<le> max (\<bar>x\<bar> * 2 powi (- 53)) (2 powi (- 1075))"
    using fp_round_val_err [OF False e_def] by (simp add: v_def e_def)
  also have "\<dots> \<le> B / 2 ^ 53"
  proof (rule max.boundedI)
    show "\<bar>x\<bar> * 2 powi (- 53) \<le> B / 2 ^ 53"
      using x by (simp add: power_int_def field_simps)
    have "(2 powi (- 1075) :: rat) \<le> 2 powi (- 1053)" by (rule power_int_increasing) simp_all
    also have "\<dots> = 2 powi (- 1000) * 2 powi (- 53)" by (simp flip: power_int_add)
    also have "\<dots> \<le> B * 2 powi (- 53)" by (rule mult_right_mono [OF B(1)]) simp
    also have "\<dots> = B / 2 ^ 53" by (simp add: power_int_def field_simps)
    finally show "2 powi (- 1075) \<le> B / 2 ^ 53" .
  qed
  finally have err: "\<bar>v - x\<bar> \<le> B / 2 ^ 53" .
  moreover have "B / 2 ^ 53 \<le> B" using x by (simp add: field_simps)
  ultimately have "\<bar>v\<bar> \<le> 2 * 2 ^ 1000" using x B(2) by linarith
  also have "(2 * 2 ^ 1000 :: rat) < 2 ^ 1024" by simp
  finally have "\<not> 2 powi 1024 \<le> \<bar>v\<bar>" by simp
  with False have "round64 x = Fin v"
    by (simp add: round64_def fp_round_def Let_def flip: e_def v_def)
  with err show ?thesis by blast
qed

lemma fp_round_int:
  assumes m: "\<bar>m\<bar> \<le> 2 ^ p" and p: "0 < p" and small: "int p < emax" and emin: "emin \<le> 0"
  shows "fp_round p emin emax (of_int m) = Fin (of_int m)"
proof (cases "m = 0")
  case True
  then show ?thesis by (simp add: fp_round_def)
next
  case False
  define x :: rat where "x = of_int m"
  define e where "e = ulp_exp p emin x"
  have x: "x \<noteq> 0" "\<bar>x\<bar> \<le> 2 ^ p"
    using False m by (simp_all add: x_def flip: of_int_abs of_int_power_le_of_int_cancel_iff)
  have il: "2 powi ilog2 \<bar>x\<bar> \<le> (2 powi int p :: rat)"
    using ilog2_bounds(1) [of "\<bar>x\<bar>"] x by (simp add: power_int_def)
  then have ile: "ilog2 \<bar>x\<bar> \<le> int p"
    using power_int_le_imp_le_exp [of "2 :: rat"] by simp
  have "\<exists>k. x / 2 powi e = of_int k"
  proof (cases "ilog2 \<bar>x\<bar> = int p")
    case True
    then have "\<bar>x\<bar> = 2 ^ p"
      using ilog2_bounds(1) [of "\<bar>x\<bar>"] x by simp
    moreover have "e \<le> int p" using True emin p by (auto simp: e_def ulp_exp_def)
    ultimately have "\<bar>x\<bar> / 2 powi e = 2 powi (int p - e)"
      by (simp add: power_int_diff)
    then have "\<bar>x / 2 powi e\<bar> = of_int (2 ^ nat (int p - e))"
      using \<open>e \<le> int p\<close> by (simp add: abs_divide power_int_def)
    then show ?thesis by (metis abs_if_raw abs_minus_cancel abs_of_nonneg abs_of_nonpos linear of_int_minus minus_minus)
  next
    case False
    then have "e \<le> 0" using ile emin by (simp add: e_def ulp_exp_def)
    then have "x / 2 powi e = of_int (m * 2 ^ nat (- e))"
      by (simp add: x_def power_int_def field_simps)
    then show ?thesis by blast
  qed
  then have v: "of_int (round_half_even (x / 2 powi e)) * 2 powi e = x"
    by (auto simp: field_simps)
  have "(2 powi int p :: rat) < 2 powi emax"
    using small by (rule power_int_strict_increasing) simp
  with x have "\<not> 2 powi emax \<le> \<bar>x\<bar>" by (simp add: power_int_def)
  with v x(1) show ?thesis by (simp add: fp_round_def Let_def flip: x_def e_def)
qed

lemma round64_int: "\<bar>m\<bar> \<le> 2 ^ 53 \<Longrightarrow> round64 (of_int m) = Fin (of_int m)"
  by (simp add: round64_def fp_round_int)

lemma round32_int: "\<bar>m\<bar> \<le> 2 ^ 24 \<Longrightarrow> round32 (of_int m) = Fin (of_int m)"
  by (simp add: round32_def fp_round_int)

lemma dbl_of_int_exact: "\<bar>m\<bar> \<le> 2 ^ 53 \<Longrightarrow> dbl_of_int m = Fin (of_int m)"
  by (simp add: dbl_of_int_def round64_int)

lemma round_away_err: "\<bar>of_int (round_away q) - q\<bar> \<le> 1/2"
proof -
  define f g where "f = \<lfloor>q + 1/2\<rfloor>" and "g = \<lfloor>1/2 - q\<rfloor>"
  have "of_int f \<le> q + 1/2" "q + 1/2 < of_int f + 1" "of_int g \<le> 1/2 - q" "1/2 - q < of_int g + 1"
    unfolding f_def g_def by (rule floor_rat_bounds)+
  then show ?thesis by (auto simp: round_away_def abs_if simp flip: f_def g_def)
qed

lemma round_away_unique:
  assumes "\<bar>of_int n - q\<bar> < 1/2"
  shows "round_away q = n"
proof -
  have "\<bar>of_int (round_away q) - of_int n :: rat\<bar> < 1"
    using round_away_err [of q] assms by linarith
  then have "\<bar>(of_int (round_away q - n) :: rat)\<bar> < of_int 1" by simp
  then have "\<bar>round_away q - n\<bar> < 1" by (simp only: of_int_abs [symmetric] of_int_less_iff)
  then show ?thesis by simp
qed

lemma round_away_int [simp]: "round_away (of_int n) = n"
  by (rule round_away_unique) simp

lemma round_away_mono_ge: "of_int n \<le> q \<Longrightarrow> n \<le> round_away q"
  by (auto simp: round_away_def le_floor_iff) linarith

lemma round_away_mono_le: "q \<le> of_int n \<Longrightarrow> round_away q \<le> n"
  by (auto simp: round_away_def) linarith+

section \<open>Comparisons on finite values\<close>

lemma dmax_Fin [simp]: "dmax (Fin a) (Fin b) = Fin (max a b)"
  by (auto simp: dmax_def)

lemma dmin_Fin [simp]: "dmin (Fin a) (Fin b) = Fin (min a b)"
  by (auto simp: dmin_def)

lemma dle_Fin [simp]: "dle (Fin a) (Fin b) = (a \<le> b)"
  by (auto simp: dle_def)

lemma isfinite_iff: "isfinite x \<longleftrightarrow> (\<exists>q. x = Fin q)"
  by (cases x) auto

lemma llround_Fin_small [simp]: "\<bar>round_away q\<bar> < 2 ^ 63 \<Longrightarrow> llround oob (Fin q) = round_away q"
  by (auto simp: Let_def abs_less_iff)

lemma round_away_clamp:
  assumes "lo \<le> hi"
  shows "round_away (max (of_int lo) (min (of_int hi) q)) = max lo (min hi (round_away q))"
proof -
  consider "of_int hi \<le> q" | "q \<le> of_int lo" | "of_int lo \<le> q" "q \<le> of_int hi"
    by linarith
  then show ?thesis
  proof cases
    case 1
    with assms show ?thesis
      using round_away_mono_ge [of hi q] by simp
  next
    case 2
    moreover from this assms have "q \<le> of_int hi" by (meson of_int_le_iff order_trans)
    ultimately show ?thesis
      using round_away_mono_le [of q lo] by simp
  next
    case 3
    then show ?thesis
      using round_away_mono_ge [of lo q] round_away_mono_le [of q hi] by simp
  qed
qed

end
