(* ===== verification/Safe_Command.thy ===== *)
theory Safe_Command
  imports Driver_Prelude Ieee_Double
begin

text \<open>
  \<open>SafeCommand.cpp\<close>: the conversion of SI-unit commands to the raw integers that go on the
  bus.  Non-finite values become 0, finite ones are clamped to the target range and rounded;
  a command whose scale is unusable is refused and the output variable keeps its value.
\<close>

definition clampToInt32 :: "dbl \<Rightarrow> i32" where
  "clampToInt32 v =
     (if \<not> isfinite v then 0
      else let clamped = dmax (dbl_of_int (- 2147483648)) (dmin (dbl_of_int 2147483647) v)
           in word_of_int (llround 0 clamped))"

definition clampToInt16 :: "dbl \<Rightarrow> i16" where
  "clampToInt16 v =
     (if \<not> isfinite v then 0
      else let clamped = dmax (dbl_of_int (- 32768)) (dmin (dbl_of_int 32767) v)
           in word_of_int (llround 0 clamped))"

text \<open>
  The result pairs the returned \<open>bool\<close> with the value of the output parameter, whose value
  before the call is \<open>rawValueOut\<close>.  The joint name only appears in log messages.
\<close>

definition scaleAndClampToInt32 :: "dbl \<Rightarrow> dbl \<Rightarrow> i32 \<Rightarrow> bool \<times> i32" where
  "scaleAndClampToInt32 cmdValue scale rawValueOut =
     (if \<not> isfinite cmdValue \<or> \<not> isfinite scale \<or> deq scale (Fin 0) then (False, rawValueOut)
      else let raw = ddiv cmdValue scale
           in if \<not> isfinite raw then (False, rawValueOut) else (True, clampToInt32 raw))"

section \<open>Clamping\<close>

lemma sint_word_of_int_32: "- 2147483648 \<le> n \<Longrightarrow> n \<le> 2147483647 \<Longrightarrow> sint (word_of_int n :: i32) = n"
  by (simp add: signed_of_int signed_take_bit_int_eq_self_iff)

lemma sint_word_of_int_16: "- 32768 \<le> n \<Longrightarrow> n \<le> 32767 \<Longrightarrow> sint (word_of_int n :: i16) = n"
  by (simp add: signed_of_int signed_take_bit_int_eq_self_iff)

lemma sint_clampToInt32_Fin:
  "sint (clampToInt32 (Fin q)) = max (- 2147483648) (min 2147483647 (round_away q))"
proof -
  let ?n = "max (- 2147483648) (min 2147483647 (round_away q))"
  have "round_away (max (- 2147483648) (min 2147483647 q)) = ?n"
    using round_away_clamp [of "- 2147483648" 2147483647 q] by simp
  then have "llround 0 (Fin (max (- 2147483648) (min 2147483647 q))) = ?n"
    by (subst llround_Fin_small) (auto simp: abs_less_iff)
  then have "clampToInt32 (Fin q) = word_of_int ?n"
    by (simp add: clampToInt32_def Let_def dbl_of_int_exact)
  then show ?thesis by (simp add: sint_word_of_int_32)
qed

lemma sint_clampToInt16_Fin:
  "sint (clampToInt16 (Fin q)) = max (- 32768) (min 32767 (round_away q))"
proof -
  let ?n = "max (- 32768) (min 32767 (round_away q))"
  have "round_away (max (- 32768) (min 32767 q)) = ?n"
    using round_away_clamp [of "- 32768" 32767 q] by simp
  then have "llround 0 (Fin (max (- 32768) (min 32767 q))) = ?n"
    by (subst llround_Fin_small) (auto simp: abs_less_iff)
  then have "clampToInt16 (Fin q) = word_of_int ?n"
    by (simp add: clampToInt16_def Let_def dbl_of_int_exact)
  then show ?thesis by (simp add: sint_word_of_int_16)
qed

lemma clamp_nonfinite [simp]: "\<not> isfinite v \<Longrightarrow> clampToInt32 v = 0" "\<not> isfinite v \<Longrightarrow> clampToInt16 v = 0"
  by (simp_all add: clampToInt32_def clampToInt16_def)

section \<open>Scaling\<close>

lemma scaleAndClamp_ok_iff:
  "fst (scaleAndClampToInt32 cmd scale old) \<longleftrightarrow>
     isfinite cmd \<and> isfinite scale \<and> \<not> deq scale (Fin 0) \<and> isfinite (ddiv cmd scale)"
  by (simp add: scaleAndClampToInt32_def Let_def)

lemma scaleAndClamp_refused_keeps:
  "\<not> fst (scaleAndClampToInt32 cmd scale old) \<Longrightarrow> snd (scaleAndClampToInt32 cmd scale old) = old"
  by (auto simp: scaleAndClampToInt32_def Let_def split: if_splits)

lemma round64_err_range:
  assumes "round64 x = Fin v" and "\<bar>x\<bar> \<le> 2147483648"
  shows "\<bar>v - x\<bar> \<le> 1 / 2 ^ 22"
proof -
  have "\<bar>v - x\<bar> \<le> max (\<bar>x\<bar> * 2 powi (- 53)) (2 powi (- 1075))"
    using fp_round_err [OF assms(1) [unfolded round64_def]] by simp
  also have "\<dots> \<le> 1 / 2 ^ 22"
  proof (rule max.boundedI)
    have "\<bar>x\<bar> * 2 powi (- 53) \<le> 2147483648 * 2 powi (- 53)"
      using assms(2) by (rule mult_right_mono) simp
    also have "\<dots> = 1 / 2 ^ 22" by (simp add: power_int_def power_one_over)
    finally show "\<bar>x\<bar> * 2 powi (- 53) \<le> 1 / 2 ^ 22" .
    have "2 powi (- 1075) \<le> (2 powi (- 22) :: rat)"
      by (rule power_int_increasing) simp_all
    also have "\<dots> = 1 / 2 ^ 22" by (simp add: power_int_def power_one_over)
    finally show "2 powi (- 1075) \<le> (1 / 2 ^ 22 :: rat)" .
  qed
  finally show ?thesis .
qed

lemma scaleAndClamp_accuracy_aux:
  assumes ok: "scaleAndClampToInt32 (Fin c) (Fin s) old = (True, r)"
    and range: "- 2147483648 \<le> c / s" "c / s \<le> 2147483647"
  shows "\<bar>of_int (sint r) - c / s\<bar> \<le> 1 / 2 + 1 / 2 ^ 22"
proof -
  from ok obtain v where v: "round64 (c / s) = Fin v" and r: "r = clampToInt32 (Fin v)"
    by (auto simp: scaleAndClampToInt32_def Let_def isfinite_iff split: if_splits)
  define w where "w = max (- 2147483648) (min 2147483647 v)"
  have "\<bar>v - c / s\<bar> \<le> 1 / 2 ^ 22"
    using range by (intro round64_err_range [OF v]) (simp add: abs_le_iff)
  with range have w: "\<bar>w - c / s\<bar> \<le> 1 / 2 ^ 22"
    unfolding w_def by (auto simp: max_def min_def abs_if split: if_splits)
  have "sint r = round_away w"
    using round_away_clamp [of "- 2147483648" 2147483647 v]
    by (simp add: r sint_clampToInt32_Fin w_def)
  with round_away_err [of w] w show ?thesis by linarith
qed

section \<open>Properties\<close>

text \<open>
  An accepted conversion of a finite command by a finite scale is the exact quotient to
  within half a count (plus \<open>2^-22\<close> for the rounding of the division) whenever that quotient is
  in the 32-bit range.
\<close>

lemma scaleAndClamp_accuracy:
  assumes "scaleAndClampToInt32 (Fin c) (Fin s) old = (True, r)"
    and "- 2147483648 \<le> c / s" and "c / s \<le> 2147483647"
  shows "\<bar>of_int (sint r) - c / s\<bar> \<le> 1 / 2 + 1 / 2 ^ 22"
  using assms by (rule scaleAndClamp_accuracy_aux)

lemma scaleAndClamp_accuracy_witness:
  "\<bar>of_int (sint (14 :: i32)) - 7 / (1/2 :: rat)\<bar> \<le> 1 / 2 + 1 / 2 ^ 22"
proof (rule scaleAndClamp_accuracy)
  have "ddiv (Fin 7) (Fin (1/2)) = Fin 14" using round64_int [of 14] by simp
  moreover have "clampToInt32 (Fin 14) = 14"
    using sint_clampToInt32_Fin [of 14] round_away_int [of 14]
    by (intro signed_word_eqI) simp
  ultimately show "scaleAndClampToInt32 (Fin 7) (Fin (1/2)) 0 = (True, 14)"
    by (simp add: scaleAndClampToInt32_def)
qed simp_all

text \<open>
  The clamp saturates and is never poisoned: a finite value is rounded half away from zero
  and confined to the 32-bit (16-bit) range, and NaN and the infinities give 0.
\<close>

lemma clamp_saturates:
  "sint (clampToInt32 (Fin q)) = max (- 2147483648) (min 2147483647 (round_away q)) \<and>
   sint (clampToInt16 (Fin q)) = max (- 32768) (min 32767 (round_away q)) \<and>
   clampToInt32 ` {NaN, PosInf, NegInf} = {0} \<and> clampToInt16 ` {NaN, PosInf, NegInf} = {0}"
  by (simp add: sint_clampToInt32_Fin sint_clampToInt16_Fin)

text \<open>
  A conversion is refused exactly when the command or the scale is not finite, the scale is
  zero or the quotient overflows, and then the output value is left untouched.
\<close>

lemma scaleAndClamp_refusal:
  "(fst (scaleAndClampToInt32 cmd scale old) \<longleftrightarrow>
      isfinite cmd \<and> isfinite scale \<and> scale \<noteq> Fin 0 \<and> isfinite (ddiv cmd scale)) \<and>
   snd (scaleAndClampToInt32 cmd scale old) =
     (if fst (scaleAndClampToInt32 cmd scale old) then clampToInt32 (ddiv cmd scale) else old)"
  by (cases scale) (auto simp: scaleAndClampToInt32_def Let_def)

end
