(* ===== verification/Axis_Command_Semantics.thy ===== *)
theory Axis_Command_Semantics
  imports Can_Types Safe_Command
begin

text \<open>
  \<open>AxisCommandSemantics.h\<close> and \<open>CanDriverHwTypes.h\<close>: what a joint's control mode means for its
  command (velocity or position semantics, dispatch route, direct or controller command) and
  the conversion between raw counts and joint units.
\<close>

section \<open>Joint configuration\<close>

datatype PreparedCommandRoute = RoutePosition | RouteVelocity | RouteCsp

text \<open>
  \<open>CanDriverJointConfig\<close>.  \<open>ros::Time\<close> stamps are integers (nanoseconds); the third-party
  \<open>joint_limits_interface::JointLimits\<close> member is the type parameter \<open>'lim\<close>.
\<close>

record 'lim CanDriverJointConfig =
  jc_name :: string
  jc_motorId :: motor_id
  jc_protocol :: CanType
  jc_canDevice :: string
  jc_controlMode :: string
  jc_positionScale :: dbl
  jc_velocityScale :: dbl
  jc_directionSign :: dbl
  jc_zeroOffsetRad :: dbl
  jc_ipMaxVelocity :: dbl
  jc_ipMaxAcceleration :: dbl
  jc_ipMaxJerk :: dbl
  jc_ipGoalTolerance :: dbl
  jc_ecbIp :: string
  jc_ecbAutoDiscovery :: bool
  jc_ecbRefreshMs :: i32
  jc_ecbProfilePositionMaxRpm :: dbl
  jc_ecbProfilePositionAccelerationRpmS :: dbl
  jc_ecbProfilePositionDecelerationRpmS :: dbl
  jc_ecbProfileVelocityAccelerationRpmS :: dbl
  jc_ecbProfileVelocityDecelerationRpmS :: dbl
  jc_pos :: dbl
  jc_vel :: dbl
  jc_eff :: dbl
  jc_posCmd :: dbl
  jc_velCmd :: dbl
  jc_directPosCmd :: dbl
  jc_directVelCmd :: dbl
  jc_hasDirectPosCmd :: bool
  jc_hasDirectVelCmd :: bool
  jc_lastDirectPosTime :: int
  jc_lastDirectVelTime :: int
  jc_limits :: 'lim
  jc_hasLimits :: bool
  jc_stopIssuedOnFault :: bool
  jc_requireCommandAlignment :: bool

text \<open>A default-constructed configuration around given limits (the members' initialisers).\<close>

definition default_joint :: "'lim \<Rightarrow> 'lim CanDriverJointConfig" where
  "default_joint lims = \<lparr>jc_name = [], jc_motorId = LeftWheel, jc_protocol = MT, jc_canDevice = [],
     jc_controlMode = [], jc_positionScale = Fin 1, jc_velocityScale = Fin 1, jc_directionSign = Fin 1,
     jc_zeroOffsetRad = Fin 0, jc_ipMaxVelocity = Fin 1, jc_ipMaxAcceleration = Fin 2,
     jc_ipMaxJerk = Fin 10, jc_ipGoalTolerance = round64 (1/1000), jc_ecbIp = [],
     jc_ecbAutoDiscovery = False, jc_ecbRefreshMs = 20, jc_ecbProfilePositionMaxRpm = Fin 500,
     jc_ecbProfilePositionAccelerationRpmS = Fin 300, jc_ecbProfilePositionDecelerationRpmS = Fin (- 300),
     jc_ecbProfileVelocityAccelerationRpmS = Fin 300, jc_ecbProfileVelocityDecelerationRpmS = Fin (- 300),
     jc_pos = Fin 0, jc_vel = Fin 0, jc_eff = Fin 0, jc_posCmd = Fin 0, jc_velCmd = Fin 0,
     jc_directPosCmd = Fin 0, jc_directVelCmd = Fin 0, jc_hasDirectPosCmd = False,
     jc_hasDirectVelCmd = False, jc_lastDirectPosTime = 0, jc_lastDirectVelTime = 0,
     jc_limits = lims, jc_hasLimits = False, jc_stopIssuedOnFault = False,
     jc_requireCommandAlignment = False\<rparr>"

section \<open>Control modes\<close>

datatype AxisControlMode = AxisPosition | AxisVelocity | AxisCsp | AxisUnknown

definition axisControlModeFromString :: "string \<Rightarrow> AxisControlMode" where
  "axisControlModeFromString controlMode =
     (if controlMode = ''velocity'' then AxisVelocity
      else if controlMode = ''csp'' then AxisCsp
      else if controlMode = ''position'' then AxisPosition
      else AxisUnknown)"

fun axisControlModeName :: "AxisControlMode \<Rightarrow> string" where
  "axisControlModeName AxisPosition = ''position''"
| "axisControlModeName AxisVelocity = ''velocity''"
| "axisControlModeName AxisCsp = ''csp''"
| "axisControlModeName AxisUnknown = ''unknown''"

definition controlModeUsesVelocitySemantics :: "AxisControlMode \<Rightarrow> bool" where
  "controlModeUsesVelocitySemantics mode \<longleftrightarrow> mode = AxisVelocity"

definition controlModeUsesPositionSemantics :: "AxisControlMode \<Rightarrow> bool" where
  "controlModeUsesPositionSemantics mode \<longleftrightarrow> \<not> controlModeUsesVelocitySemantics mode"

definition controlModeDispatchRoute :: "AxisControlMode \<Rightarrow> PreparedCommandRoute" where
  "controlModeDispatchRoute mode =
     (if mode = AxisVelocity then RouteVelocity else if mode = AxisCsp then RouteCsp else RoutePosition)"

definition controlModeSemanticLabel :: "AxisControlMode \<Rightarrow> string" where
  "controlModeSemanticLabel mode = (if controlModeUsesVelocitySemantics mode then ''velocity'' else ''position'')"

fun protocolMotorModeFromAxisControlMode :: "AxisControlMode \<Rightarrow> MotorMode" where
  "protocolMotorModeFromAxisControlMode AxisVelocity = ModeVelocity"
| "protocolMotorModeFromAxisControlMode AxisCsp = ModeCSP"
| "protocolMotorModeFromAxisControlMode AxisPosition = ModePosition"
| "protocolMotorModeFromAxisControlMode AxisUnknown = ModePosition"

section \<open>Command selection\<close>

definition controlModeHasDirectCommand :: "'lim CanDriverJointConfig \<Rightarrow> AxisControlMode \<Rightarrow> bool" where
  "controlModeHasDirectCommand joint mode =
     (if controlModeUsesVelocitySemantics mode then jc_hasDirectVelCmd joint else jc_hasDirectPosCmd joint)"

definition controlModeLastDirectCommandTime :: "'lim CanDriverJointConfig \<Rightarrow> AxisControlMode \<Rightarrow> int" where
  "controlModeLastDirectCommandTime joint mode =
     (if controlModeUsesVelocitySemantics mode then jc_lastDirectVelTime joint else jc_lastDirectPosTime joint)"

definition controlModeDirectCommandValue :: "'lim CanDriverJointConfig \<Rightarrow> AxisControlMode \<Rightarrow> dbl" where
  "controlModeDirectCommandValue joint mode =
     (if controlModeUsesVelocitySemantics mode then jc_directVelCmd joint else jc_directPosCmd joint)"

definition controlModeFallbackCommandValue :: "'lim CanDriverJointConfig \<Rightarrow> AxisControlMode \<Rightarrow> dbl" where
  "controlModeFallbackCommandValue joint mode =
     (if controlModeUsesVelocitySemantics mode then jc_velCmd joint else jc_posCmd joint)"

text \<open>The selected value and the optional output \<open>usesDirect\<close>.\<close>

definition controlModeSelectedCommandValue ::
    "'lim CanDriverJointConfig \<Rightarrow> AxisControlMode \<Rightarrow> dbl \<times> bool" where
  "controlModeSelectedCommandValue joint mode =
     (let direct = controlModeHasDirectCommand joint mode
      in (if direct then controlModeDirectCommandValue joint mode
          else controlModeFallbackCommandValue joint mode, direct))"

definition controlModeActualFeedbackValue :: "'lim CanDriverJointConfig \<Rightarrow> AxisControlMode \<Rightarrow> dbl" where
  "controlModeActualFeedbackValue joint mode =
     (if controlModeUsesVelocitySemantics mode then jc_vel joint else jc_pos joint)"

definition clearDirectCommandForControlMode ::
    "'lim CanDriverJointConfig \<Rightarrow> AxisControlMode \<Rightarrow> 'lim CanDriverJointConfig" where
  "clearDirectCommandForControlMode joint mode =
     (if controlModeUsesVelocitySemantics mode then joint\<lparr>jc_hasDirectVelCmd := False\<rparr>
      else joint\<lparr>jc_hasDirectPosCmd := False\<rparr>)"

section \<open>Units\<close>

definition effectivePositionScale :: "'lim CanDriverJointConfig \<Rightarrow> dbl" where
  "effectivePositionScale joint = dmul (jc_positionScale joint) (jc_directionSign joint)"

definition effectiveVelocityScale :: "'lim CanDriverJointConfig \<Rightarrow> dbl" where
  "effectiveVelocityScale joint = dmul (jc_velocityScale joint) (jc_directionSign joint)"

definition rawPositionToJointPosition :: "'lim CanDriverJointConfig \<Rightarrow> dbl \<Rightarrow> dbl" where
  "rawPositionToJointPosition joint rawPosition =
     dadd (dmul rawPosition (effectivePositionScale joint)) (jc_zeroOffsetRad joint)"

definition jointPositionToRawPositionCommand :: "'lim CanDriverJointConfig \<Rightarrow> dbl \<Rightarrow> dbl" where
  "jointPositionToRawPositionCommand joint jointPosition = dsub jointPosition (jc_zeroOffsetRad joint)"

definition controlModeScale :: "'lim CanDriverJointConfig \<Rightarrow> AxisControlMode \<Rightarrow> dbl" where
  "controlModeScale joint mode =
     (if controlModeUsesVelocitySemantics mode then effectiveVelocityScale joint else effectivePositionScale joint)"

definition controlModeAlignmentTolerance :: "'lim CanDriverJointConfig \<Rightarrow> AxisControlMode \<Rightarrow> dbl" where
  "controlModeAlignmentTolerance joint mode =
     dmax (dabs (controlModeScale joint mode)) (round64 (1 / 10 ^ 9))"

definition controlModeTargetNearActual :: "'lim CanDriverJointConfig \<Rightarrow> AxisControlMode \<Rightarrow> bool" where
  "controlModeTargetNearActual joint mode =
     (let target = fst (controlModeSelectedCommandValue joint mode);
          actual = controlModeActualFeedbackValue joint mode;
          tolerance = controlModeAlignmentTolerance joint mode
      in isfinite target \<and> isfinite actual \<and> dle (dabs (dsub target actual)) tolerance)"

section \<open>Facts\<close>

lemma axisControlMode_roundtrip_aux: "axisControlModeFromString (axisControlModeName m) = m"
  by (cases m) (simp_all add: axisControlModeFromString_def)

text \<open>
  One rounding step of the round trip: with every operand within \<open>2^34\<close> counts, the error of
  an operation is below \<open>2^-19\<close> counts.
\<close>

lemma round64_counts:
  assumes s: "2 powi (- 500) \<le> \<bar>s\<bar>" "\<bar>s\<bar> \<le> 2 ^ 500" and x: "\<bar>x\<bar> \<le> 2 ^ 34 * \<bar>s\<bar>"
  shows "\<exists>v. round64 x = Fin v \<and> \<bar>v - x\<bar> \<le> \<bar>s\<bar> / 2 ^ 19"
proof -
  have "(2 powi (- 1000) :: rat) \<le> 2 powi (- 500)" by (rule power_int_increasing) simp_all
  also have "\<dots> \<le> \<bar>s\<bar>" by (rule s)
  also have "\<dots> \<le> 2 ^ 34 * \<bar>s\<bar>" by simp
  finally have lo: "2 powi (- 1000) \<le> 2 ^ 34 * \<bar>s\<bar>" .
  have "2 ^ 34 * \<bar>s\<bar> \<le> 2 ^ 34 * 2 ^ 500" by (rule mult_left_mono [OF s(2)]) simp
  also have "\<dots> \<le> (2 ^ 1000 :: rat)" by simp
  finally show ?thesis using round64_near [OF x lo] by simp
qed

lemma hold_error_chain:
  assumes "\<bar>m\<bar> \<le> 2147483648 * (S::rat)" "\<bar>z\<bar> \<le> 2147483648 * S" "\<bar>a - m\<bar> \<le> S / 524288"
  shows "\<bar>a + z\<bar> \<le> 17179869184 * S"
    and "\<bar>p - (a + z)\<bar> \<le> S / 524288 \<Longrightarrow> \<bar>p - z\<bar> \<le> 17179869184 * S"
    and "\<bar>p - (a + z)\<bar> \<le> S / 524288 \<Longrightarrow> \<bar>c - (p - z)\<bar> \<le> S / 524288 \<Longrightarrow> \<bar>c - m\<bar> \<le> 3 / 524288 * S"
  using assms by linarith+

lemma hold_roundtrip_aux:
  assumes s: "effectivePositionScale joint = Fin s" "2 powi (- 500) \<le> \<bar>s\<bar>" "\<bar>s\<bar> \<le> 2 ^ 500"
    and z: "jc_zeroOffsetRad joint = Fin z" "\<bar>z\<bar> \<le> 2 ^ 31 * \<bar>s\<bar>"
    and n: "- 2147483648 \<le> n" "n \<le> 2147483647"
  shows "scaleAndClampToInt32
      (jointPositionToRawPositionCommand joint (rawPositionToJointPosition joint (dbl_of_int n)))
      (effectivePositionScale joint) old = (True, word_of_int n)"
proof -
  have s0: "s \<noteq> 0" "0 < \<bar>s\<bar>" using s(2) power_int_not_zero [of "2::rat" "- 500"] by (auto simp: not_le)
  have nq: "\<bar>of_int n :: rat\<bar> \<le> 2147483648" using n by (simp add: abs_le_iff)
  have m: "\<bar>of_int n * s\<bar> \<le> 2 ^ 31 * \<bar>s\<bar>" using nq by (simp add: abs_mult mult_right_mono)
  then have "\<bar>of_int n * s\<bar> \<le> 2 ^ 34 * \<bar>s\<bar>" by simp
  from round64_counts [OF s(2,3) this] obtain a where
    a: "round64 (of_int n * s) = Fin a" "\<bar>a - of_int n * s\<bar> \<le> \<bar>s\<bar> / 2 ^ 19" by blast
  have "\<bar>a + z\<bar> \<le> 2 ^ 34 * \<bar>s\<bar>" 
    using a(2) m z(2) hold_error_chain(1) [of "of_int n * s" "\<bar>s\<bar>" z a] by simp
  from round64_counts [OF s(2,3) this] obtain p where
    p: "round64 (a + z) = Fin p" "\<bar>p - (a + z)\<bar> \<le> \<bar>s\<bar> / 2 ^ 19" by blast
  have "\<bar>p - z\<bar> \<le> 2 ^ 34 * \<bar>s\<bar>"
    using a(2) p(2) m z(2) hold_error_chain(2) [of "of_int n * s" "\<bar>s\<bar>" z a p] by simp
  from round64_counts [OF s(2,3) this] obtain c where
    c: "round64 (p - z) = Fin c" "\<bar>c - (p - z)\<bar> \<le> \<bar>s\<bar> / 2 ^ 19" by blast
  have "\<bar>c - of_int n * s\<bar> \<le> 3 / 2 ^ 19 * \<bar>s\<bar>"
    using a(2) p(2) c(2) m z(2) hold_error_chain(3) [of "of_int n * s" "\<bar>s\<bar>" z a p c] by simp
  then have "\<bar>(c / s - of_int n) * s\<bar> \<le> 3 / 2 ^ 19 * \<bar>s\<bar>" using s0 by (simp add: left_diff_distrib)
  then have q: "\<bar>c / s - of_int n\<bar> \<le> 3 / 524288" using s0 by (simp add: abs_mult)
  then have "\<bar>c / s\<bar> \<le> 17179869184" using nq by linarith
  then have "\<bar>c / s\<bar> \<le> 2 ^ 34 * \<bar>1\<bar>" by simp
  from round64_counts [OF _ _ this] obtain r where
    r: "round64 (c / s) = Fin r" "\<bar>r - c / s\<bar> \<le> 1 / 524288" by (auto simp: power_int_le_one)
  have "round_away r = n" using q r(2) by (intro round_away_unique) linarith
  then have "clampToInt32 (Fin r) = word_of_int n"
    using n sint_clampToInt32_Fin [of r] by (intro signed_word_eqI [where ?'a = int]) (simp add: sint_word_of_int_32)
  moreover have "\<bar>n\<bar> \<le> 2 ^ 53" using n by simp
  ultimately show ?thesis
    using a p c r s0 s(1) z(1)
    by (simp add: scaleAndClampToInt32_def jointPositionToRawPositionCommand_def
        rawPositionToJointPosition_def dsub_def dbl_of_int_exact)
qed

section \<open>Properties\<close>

text \<open>
  Holding position is exact: a raw 32-bit position count converted to a joint position
  (scale, direction and zero offset applied, in double arithmetic) and commanded back gives
  the same raw count, for every scale that is not extreme and every zero offset of at most
  \<open>2^31\<close> counts.
\<close>

lemma position_hold_roundtrip:
  assumes "effectivePositionScale joint = Fin s" and "2 powi (- 500) \<le> \<bar>s\<bar>" and "\<bar>s\<bar> \<le> 2 ^ 500"
    and "jc_zeroOffsetRad joint = Fin z" and "\<bar>z\<bar> \<le> 2 ^ 31 * \<bar>s\<bar>"
    and "- 2147483648 \<le> n" and "n \<le> 2147483647"
  shows "scaleAndClampToInt32
      (jointPositionToRawPositionCommand joint (rawPositionToJointPosition joint (dbl_of_int n)))
      (effectivePositionScale joint) old = (True, word_of_int n)"
  using assms by (rule hold_roundtrip_aux)

definition witness_joint :: "unit CanDriverJointConfig" where
  "witness_joint = (default_joint ())\<lparr>jc_positionScale := Fin 3, jc_directionSign := Fin (- 1),
     jc_zeroOffsetRad := Fin (1/2)\<rparr>"

lemma position_hold_roundtrip_witness:
  "scaleAndClampToInt32
     (jointPositionToRawPositionCommand witness_joint (rawPositionToJointPosition witness_joint (dbl_of_int (- 1000))))
     (effectivePositionScale witness_joint) 0 = (True, word_of_int (- 1000))"
proof (rule position_hold_roundtrip [where s = "- 3" and z = "1/2"])
  show "effectivePositionScale witness_joint = Fin (- 3)"
    using round64_int [of "- 3"] by (simp add: effectivePositionScale_def witness_joint_def default_joint_def)
qed (simp_all add: witness_joint_def default_joint_def power_int_le_one order_trans [OF power_int_le_one])

text \<open>
  Clearing the direct command of a mode makes the controller command of that mode the
  selected one, keeps what is selected under the other semantics, and changes no command value.
\<close>

lemma clear_direct_selects_fallback:
  "controlModeSelectedCommandValue (clearDirectCommandForControlMode joint m) m' =
     (if controlModeUsesVelocitySemantics m' = controlModeUsesVelocitySemantics m
      then (controlModeFallbackCommandValue joint m', False)
      else controlModeSelectedCommandValue joint m')"
  by (auto simp: controlModeSelectedCommandValue_def clearDirectCommandForControlMode_def
      controlModeHasDirectCommand_def controlModeFallbackCommandValue_def
      controlModeDirectCommandValue_def Let_def)

end
