(* ===== verification/Command_Gate.thy ===== *)
theory Command_Gate
  imports Axis_Command_Semantics
begin

text \<open>
  \<open>command_gate.cpp\<close>: after an enable, release, init or recover, no old command may reach the
  motors.  Arming the latch records the commands of all joints; the latch opens when some
  joint's command has changed since, or already agrees with its measured state, or the set of
  joints has changed.  The gate also turns ready flags of devices into lost and recovered events.
  The snapshot provider and the hold callback are closures over the rest of the driver; they
  are functions of the driver's world \<open>'w\<close>.
\<close>

section \<open>State and operations\<close>

record Snapshot =
  sn_controlMode :: AxisControlMode
  sn_commandValue :: dbl
  sn_hasDirectCommand :: bool
  sn_targetNearActual :: bool

datatype DeviceEvent = EventNone | EventLost | EventRecovered

record 'w CommandGate =
  cg_snapshotProvider :: "('w \<Rightarrow> Snapshot list) option"
  cg_holdCallback :: "('w \<Rightarrow> 'w) option"
  cg_baselines :: "Snapshot list"
  cg_lastDeviceReadyState :: "string \<rightharpoonup> bool"
  cg_freshCommandRequired :: bool

definition default_CommandGate :: "'w CommandGate" where
  "default_CommandGate = \<lparr>cg_snapshotProvider = None, cg_holdCallback = None, cg_baselines = [],
     cg_lastDeviceReadyState = Map.empty, cg_freshCommandRequired = False\<rparr>"

definition snapshotCommandChanged :: "Snapshot \<Rightarrow> Snapshot \<Rightarrow> bool" where
  "snapshotCommandChanged current baseline =
     (if sn_controlMode current \<noteq> sn_controlMode baseline then True
      else if sn_hasDirectCommand current \<noteq> sn_hasDirectCommand baseline then True
      else dlt (round64 (1 / 10 ^ 12)) (dabs (dsub (sn_commandValue current) (sn_commandValue baseline))))"

definition snapshotTargetAlreadyAligned :: "Snapshot \<Rightarrow> bool" where
  "snapshotTargetAlreadyAligned snapshot = sn_targetNearActual snapshot"

definition configure ::
    "('w \<Rightarrow> Snapshot list) option \<Rightarrow> ('w \<Rightarrow> 'w) option \<Rightarrow> 'w CommandGate \<Rightarrow> 'w CommandGate" where
  "configure snapshotProvider holdCallback g =
     g\<lparr>cg_snapshotProvider := snapshotProvider, cg_holdCallback := holdCallback\<rparr>"

definition reset :: "'w CommandGate \<Rightarrow> 'w CommandGate" where
  "reset g = g\<lparr>cg_baselines := [], cg_lastDeviceReadyState := Map.empty, cg_freshCommandRequired := False\<rparr>"

definition holdCommands :: "'w CommandGate \<Rightarrow> 'w \<Rightarrow> 'w" where
  "holdCommands g w = (case cg_holdCallback g of None \<Rightarrow> w | Some callback \<Rightarrow> callback w)"

definition armFreshCommandLatch :: "'w \<Rightarrow> 'w CommandGate \<Rightarrow> 'w CommandGate" where
  "armFreshCommandLatch w g =
     (case cg_snapshotProvider g of
        None \<Rightarrow> g
      | Some provider \<Rightarrow> g\<lparr>cg_baselines := provider w, cg_freshCommandRequired := True\<rparr>)"

text \<open>The loop over the joints, which leaves at the first satisfied one.\<close>

fun latch_loop :: "Snapshot list \<Rightarrow> Snapshot list \<Rightarrow> bool" where
  "latch_loop (current # snapshots) (baseline # baselines) =
     (if snapshotCommandChanged current baseline \<or> snapshotTargetAlreadyAligned current then True
      else latch_loop snapshots baselines)"
| "latch_loop _ _ = False"

definition consumeFreshCommandLatchIfSatisfied :: "'w \<Rightarrow> 'w CommandGate \<Rightarrow> bool \<times> 'w CommandGate" where
  "consumeFreshCommandLatchIfSatisfied w g =
     (if \<not> cg_freshCommandRequired g then (True, g)
      else case cg_snapshotProvider g of
        None \<Rightarrow> (True, g\<lparr>cg_freshCommandRequired := False, cg_baselines := []\<rparr>)
      | Some provider \<Rightarrow>
          let snapshots = provider w
          in if length (cg_baselines g) \<noteq> length snapshots
             then (True, g\<lparr>cg_freshCommandRequired := False, cg_baselines := []\<rparr>)
             else if \<not> latch_loop snapshots (cg_baselines g) then (False, g)
             else (True, g\<lparr>cg_freshCommandRequired := False\<rparr>))"

definition observeDeviceReady :: "string \<Rightarrow> bool \<Rightarrow> 'w CommandGate \<Rightarrow> DeviceEvent \<times> 'w CommandGate" where
  "observeDeviceReady device isReady g =
     (let it = cg_lastDeviceReadyState g device;
          hadReadyState = (it \<noteq> None);
          wasReady = (case it of None \<Rightarrow> False | Some r \<Rightarrow> r);
          g' = g\<lparr>cg_lastDeviceReadyState := (cg_lastDeviceReadyState g)(device \<mapsto> isReady)\<rparr>
      in if \<not> isReady then (if \<not> hadReadyState \<or> wasReady then EventLost else EventNone, g')
         else if hadReadyState \<and> \<not> wasReady then (EventRecovered, g')
         else (EventNone, g'))"

section \<open>The latch against its specification\<close>

text \<open>When the snapshots \<open>now\<close> open a latch armed over \<open>base\<close>.\<close>

definition opens :: "Snapshot list \<Rightarrow> Snapshot list \<Rightarrow> bool" where
  "opens base now \<longleftrightarrow> length base \<noteq> length now \<or>
     (\<exists>i < length now. snapshotCommandChanged (now ! i) (base ! i) \<or> sn_targetNearActual (now ! i))"

lemma latch_loop_iff:
  "length base = length now \<Longrightarrow>
   latch_loop now base \<longleftrightarrow> (\<exists>i < length now. snapshotCommandChanged (now ! i) (base ! i) \<or> sn_targetNearActual (now ! i))"
proof (induction now base rule: latch_loop.induct)
  case (1 c cs b bs)
  then show ?case
    by (auto simp: less_Suc_eq_0_disj snapshotTargetAlreadyAligned_def)
qed auto

lemma consume_armed:
  assumes "cg_snapshotProvider g = Some p" "cg_freshCommandRequired g"
  shows "fst (consumeFreshCommandLatchIfSatisfied w g) = opens (cg_baselines g) (p w)"
    and "\<not> opens (cg_baselines g) (p w) \<Longrightarrow> snd (consumeFreshCommandLatchIfSatisfied w g) = g"
    and "opens (cg_baselines g) (p w) \<Longrightarrow> \<not> cg_freshCommandRequired (snd (consumeFreshCommandLatchIfSatisfied w g))"
  using assms latch_loop_iff [of "cg_baselines g" "p w"]
  by (auto simp: consumeFreshCommandLatchIfSatisfied_def opens_def Let_def)

lemma consume_open: "\<not> cg_freshCommandRequired g \<Longrightarrow> consumeFreshCommandLatchIfSatisfied w g = (True, g)"
  by (simp add: consumeFreshCommandLatchIfSatisfied_def)

text \<open>The answers of the gate to a sequence of polls, one per control cycle.\<close>

fun poll :: "'w list \<Rightarrow> 'w CommandGate \<Rightarrow> bool list" where
  "poll [] g = []"
| "poll (w # ws) g = (let (ok, g') = consumeFreshCommandLatchIfSatisfied w g in ok # poll ws g')"

lemma poll_open: "\<not> cg_freshCommandRequired g \<Longrightarrow> poll ws g = replicate (length ws) True"
  by (induction ws) (simp_all add: consume_open)

lemma poll_armed:
  assumes "cg_snapshotProvider g = Some p" "cg_freshCommandRequired g"
  shows "poll ws g = (let k = length (takeWhile (\<lambda>w. \<not> opens (cg_baselines g) (p w)) ws)
                      in replicate k False @ replicate (length ws - k) True)"
proof (induction ws)
  case (Cons w ws)
  obtain ok g' where c: "consumeFreshCommandLatchIfSatisfied w g = (ok, g')" by force
  show ?case
    using Cons.IH c consume_armed [OF assms, of w] by (auto simp: poll_open Let_def)
qed simp

section \<open>Device events\<close>

text \<open>The gate after a history of observations, oldest first.\<close>

definition observed :: "(string \<times> bool) list \<Rightarrow> 'w CommandGate \<Rightarrow> 'w CommandGate" where
  "observed h g = fold (\<lambda>(d, r) g. snd (observeDeviceReady d r g)) h g"

lemma ready_after_observe:
  "cg_lastDeviceReadyState (snd (observeDeviceReady d r g)) = (cg_lastDeviceReadyState g)(d \<mapsto> r)"
  by (simp add: observeDeviceReady_def Let_def)

lemma ready_after_history:
  "cg_lastDeviceReadyState (observed h g) = cg_lastDeviceReadyState g ++ map_of (rev h)"
  unfolding observed_def
  by (induction h arbitrary: g) (auto simp: ready_after_observe)

text \<open>An event is an edge of the ready flag; a first observation counts as a falling edge only.\<close>

fun event_spec :: "bool option \<Rightarrow> bool \<Rightarrow> DeviceEvent" where
  "event_spec None True = EventNone"
| "event_spec None False = EventLost"
| "event_spec (Some True) False = EventLost"
| "event_spec (Some False) True = EventRecovered"
| "event_spec (Some True) True = EventNone"
| "event_spec (Some False) False = EventNone"

lemma observe_event: "fst (observeDeviceReady d r g) = event_spec (cg_lastDeviceReadyState g d) r"
  by (cases "(cg_lastDeviceReadyState g d, r)" rule: event_spec.cases)
    (simp_all add: observeDeviceReady_def Let_def del: not_None_eq)

section \<open>Properties\<close>


text \<open>
  Device events are the edges of each device's own ready flag: after any history of
  observations of any devices, the event reported for a device depends only on its latest
  observation, is \<open>Lost\<close> on a fall or on a first observation that is not ready, \<open>Recovered\<close>
  on a rise, and \<open>None\<close> otherwise.
\<close>

lemma device_events_are_edges:
  "fst (observeDeviceReady d r (observed h (reset g))) = event_spec (map_of (rev h) d) r"
  by (simp add: observe_event ready_after_history reset_def)

end
