(* ===== verification/Operational_Coordinator.thy ===== *)
theory Operational_Coordinator
  imports Command_Gate "HOL-Library.Sublist"
begin

text \<open>
  \<open>operational_coordinator.cpp\<close>: the driver's operating modes and the requests that move between
  them.  The driver operations a request calls are optional closures over the rest of the
  driver; they are functions of its world \<open>'w\<close>, and a coordinator state is the mode, the
  installed operations and that world.  Requests hold \<open>transitionMutex_\<close> and so are atomic with
  respect to each other; the mode itself is also written without the lock, by
  \<open>UpdateFromFeedback\<close> and \<open>ForceMode\<close>, which the section on interference models.
\<close>

section \<open>State\<close>

datatype SystemOpMode =
  Inactive | Configured | Standby | Armed | Running | Faulted | Recovering | ShuttingDown

record Result =
  res_ok :: bool
  res_message :: string

abbreviation result :: "bool \<Rightarrow> string \<Rightarrow> Result" where
  "result ok message \<equiv> \<lparr>res_ok = ok, res_message = message\<rparr>"

text \<open>A health check may write to the detail string it is given, whatever it answers.\<close>

type_synonym 'w check_fn = "string \<Rightarrow> 'w \<Rightarrow> bool \<times> string \<times> 'w"

record 'w DriverOps =
  op_init_device :: "(string \<Rightarrow> bool \<Rightarrow> 'w \<Rightarrow> Result \<times> 'w) option"
  op_enable_all :: "('w \<Rightarrow> Result \<times> 'w) option"
  op_disable_all :: "('w \<Rightarrow> Result \<times> 'w) option"
  op_halt_all :: "('w \<Rightarrow> Result \<times> 'w) option"
  op_recover_all :: "('w \<Rightarrow> Result \<times> 'w) option"
  op_shutdown_all :: "(bool \<Rightarrow> 'w \<Rightarrow> Result \<times> 'w) option"
  op_enable_healthy :: "'w check_fn option"
  op_motion_healthy :: "'w check_fn option"
  op_any_fault_active :: "('w \<Rightarrow> bool \<times> 'w) option"
  op_hold_commands :: "('w \<Rightarrow> 'w) option"
  op_arm_fresh_command_latch :: "('w \<Rightarrow> 'w) option"

record 'w OperationalCoordinator =
  oc_mode :: SystemOpMode
  oc_driverOps :: "'w DriverOps"
  oc_world :: 'w

definition no_ops :: "'w DriverOps" where
  "no_ops = \<lparr>op_init_device = None, op_enable_all = None, op_disable_all = None, op_halt_all = None,
     op_recover_all = None, op_shutdown_all = None, op_enable_healthy = None, op_motion_healthy = None,
     op_any_fault_active = None, op_hold_commands = None, op_arm_fresh_command_latch = None\<rparr>"

definition new_coordinator :: "'w DriverOps \<Rightarrow> 'w \<Rightarrow> 'w OperationalCoordinator" where
  "new_coordinator driverOps w = \<lparr>oc_mode = Inactive, oc_driverOps = driverOps, oc_world = w\<rparr>"

fun SystemOpModeName :: "SystemOpMode \<Rightarrow> string" where
  "SystemOpModeName Inactive = ''Inactive''"
| "SystemOpModeName Configured = ''Configured''"
| "SystemOpModeName Standby = ''Standby''"
| "SystemOpModeName Armed = ''Armed''"
| "SystemOpModeName Running = ''Running''"
| "SystemOpModeName Faulted = ''Faulted''"
| "SystemOpModeName Recovering = ''Recovering''"
| "SystemOpModeName ShuttingDown = ''ShuttingDown''"

section \<open>Transitions\<close>

text \<open>The \<open>exchange\<close> of \<open>ForceMode\<close>; what follows it only logs.\<close>

definition ForceMode :: "SystemOpMode \<Rightarrow> 'w OperationalCoordinator \<Rightarrow> 'w OperationalCoordinator" where
  "ForceMode to c = c\<lparr>oc_mode := to\<rparr>"

definition SetInactive :: "'w OperationalCoordinator \<Rightarrow> 'w OperationalCoordinator" where
  "SetInactive c = ForceMode Inactive c"

definition SetConfigured :: "'w OperationalCoordinator \<Rightarrow> 'w OperationalCoordinator" where
  "SetConfigured c = ForceMode Configured c"

definition SetFaulted :: "'w OperationalCoordinator \<Rightarrow> 'w OperationalCoordinator" where
  "SetFaulted c = ForceMode Faulted c"

definition SetDriverOps :: "'w DriverOps \<Rightarrow> 'w OperationalCoordinator \<Rightarrow> 'w OperationalCoordinator" where
  "SetDriverOps driverOps c = c\<lparr>oc_driverOps := driverOps\<rparr>"

text \<open>An action reads and writes the coordinator and the detail string it is handed.\<close>

type_synonym 'w action = "string \<Rightarrow> 'w OperationalCoordinator \<Rightarrow> bool \<times> string \<times> 'w OperationalCoordinator"

definition refuse :: "SystemOpMode \<Rightarrow> SystemOpMode \<Rightarrow> Result" where
  "refuse current to =
     (if current = to then result True (''already '' @ SystemOpModeName to)
      else result False (''cannot transition from '' @ SystemOpModeName current @ '' to '' @ SystemOpModeName to))"

definition or_default :: "string \<Rightarrow> string \<Rightarrow> string" where
  "or_default detail d = (if detail = [] then d else detail)"

definition DoTransition ::
    "SystemOpMode list \<Rightarrow> SystemOpMode \<Rightarrow> 'w action option \<Rightarrow> 'w OperationalCoordinator \<Rightarrow>
     Result \<times> 'w OperationalCoordinator" where
  "DoTransition allowedFrom to action c =
     (let current = oc_mode c
      in if current \<notin> set allowedFrom then (refuse current to, c)
         else case (case action of None \<Rightarrow> (True, [], c) | Some act \<Rightarrow> act [] c) of
           (ok, detail, c') \<Rightarrow>
             if \<not> ok then (result False (or_default detail ''action failed''), c')
             else (result True (or_default detail (''-> '' @ SystemOpModeName to)), c'\<lparr>oc_mode := to\<rparr>))"

definition RevalidateArmedEnable :: "'w OperationalCoordinator \<Rightarrow> Result \<times> 'w OperationalCoordinator" where
  "RevalidateArmedEnable c =
     (case op_motion_healthy (oc_driverOps c) of
        None \<Rightarrow> (result True ''already Armed'', c)
      | Some healthy \<Rightarrow>
          (case healthy [] (oc_world c) of (ok, detail, w) \<Rightarrow>
             if \<not> ok then (result False (or_default detail ''armed enable validation failed''), c\<lparr>oc_world := w\<rparr>)
             else (result True ''already Armed'', c\<lparr>oc_world := w\<rparr>)))"

section \<open>Pieces of the actions\<close>

text \<open>\<open>if (fn) { fn(); }\<close> for the two notifications.\<close>

definition notify :: "('w \<Rightarrow> 'w) option \<Rightarrow> 'w OperationalCoordinator \<Rightarrow> 'w OperationalCoordinator" where
  "notify fn c = (case fn of None \<Rightarrow> c | Some f \<Rightarrow> c\<lparr>oc_world := f (oc_world c)\<rparr>)"

definition hold_commands :: "'w OperationalCoordinator \<Rightarrow> 'w OperationalCoordinator" where
  "hold_commands c = notify (op_hold_commands (oc_driverOps c)) c"

definition arm_fresh_command_latch :: "'w OperationalCoordinator \<Rightarrow> 'w OperationalCoordinator" where
  "arm_fresh_command_latch c = notify (op_arm_fresh_command_latch (oc_driverOps c)) c"

text \<open>\<open>if (check && !check(detail)) return false;\<close> before \<open>k\<close>.\<close>

definition guarded :: "'w check_fn option \<Rightarrow> 'w action \<Rightarrow> 'w action" where
  "guarded check k detail c =
     (case check of
        None \<Rightarrow> k detail c
      | Some healthy \<Rightarrow>
          (case healthy detail (oc_world c) of (ok, detail', w) \<Rightarrow>
             if \<not> ok then (False, detail', c\<lparr>oc_world := w\<rparr>) else k detail' (c\<lparr>oc_world := w\<rparr>)))"

text \<open>
  The common body: refuse when the operation is not installed, fail with its message, otherwise
  run \<open>done\<close> and pass the message on when there is one; \<open>failed\<close> is what the failing
  branches do to the mode.
\<close>

definition call_op ::
    "('w \<Rightarrow> Result \<times> 'w) option \<Rightarrow> string \<Rightarrow> ('w OperationalCoordinator \<Rightarrow> 'w OperationalCoordinator) \<Rightarrow>
     ('w OperationalCoordinator \<Rightarrow> 'w OperationalCoordinator) \<Rightarrow> 'w action" where
  "call_op operation unavailable failed fin detail c =
     (case operation of
        None \<Rightarrow> (False, unavailable, failed c)
      | Some f \<Rightarrow>
          (case f (oc_world c) of (r, w) \<Rightarrow>
             if \<not> res_ok r then (False, res_message r, failed (c\<lparr>oc_world := w\<rparr>))
             else (True, or_default (res_message r) detail, fin (c\<lparr>oc_world := w\<rparr>))))"

section \<open>Requests\<close>

definition RequestInit :: "string \<Rightarrow> bool \<Rightarrow> 'w OperationalCoordinator \<Rightarrow> Result \<times> 'w OperationalCoordinator" where
  "RequestInit device loopback c =
     DoTransition [Configured] Standby
       (Some (\<lambda>detail c. call_op (map_option (\<lambda>f. f device loopback) (op_init_device (oc_driverOps c)))
          ''init path not available'' (\<lambda>c. c) (arm_fresh_command_latch \<circ> hold_commands) detail c)) c"

definition RequestEnable :: "'w OperationalCoordinator \<Rightarrow> Result \<times> 'w OperationalCoordinator" where
  "RequestEnable c =
     (if oc_mode c = Armed then RevalidateArmedEnable c
      else DoTransition [Standby] Armed
        (Some (\<lambda>detail c. guarded (op_enable_healthy (oc_driverOps c))
           (\<lambda>detail c. call_op (op_enable_all (oc_driverOps c)) ''enable path not available''
              (\<lambda>c. c) (arm_fresh_command_latch \<circ> hold_commands) detail c) detail c)) c)"

definition RequestDisable :: "'w OperationalCoordinator \<Rightarrow> Result \<times> 'w OperationalCoordinator" where
  "RequestDisable c =
     DoTransition [Standby, Armed, Running] Standby
       (Some (\<lambda>detail c. let c1 = hold_commands c
          in call_op (op_disable_all (oc_driverOps c1)) ''disable path not available'' (\<lambda>c. c) (\<lambda>c. c) detail c1)) c"

definition RequestRelease :: "'w OperationalCoordinator \<Rightarrow> Result \<times> 'w OperationalCoordinator" where
  "RequestRelease c =
     DoTransition [Armed] Running
       (Some (\<lambda>detail c. guarded (op_motion_healthy (oc_driverOps c))
          (\<lambda>detail c. (True, detail, arm_fresh_command_latch c)) detail c)) c"

definition RequestHalt :: "'w OperationalCoordinator \<Rightarrow> Result \<times> 'w OperationalCoordinator" where
  "RequestHalt c =
     DoTransition [Running] Armed
       (Some (\<lambda>detail c. let c1 = hold_commands c
          in call_op (op_halt_all (oc_driverOps c1)) ''halt path not available'' (\<lambda>c. c) (\<lambda>c. c) detail c1)) c"

definition RequestRecover :: "'w OperationalCoordinator \<Rightarrow> Result \<times> 'w OperationalCoordinator" where
  "RequestRecover c =
     DoTransition [Faulted] Standby
       (Some (\<lambda>detail c. let c1 = c\<lparr>oc_mode := Recovering\<rparr>
          in call_op (op_recover_all (oc_driverOps c1)) ''recover path not available''
               (\<lambda>c. c\<lparr>oc_mode := Faulted\<rparr>) (arm_fresh_command_latch \<circ> hold_commands) detail c1)) c"

definition RequestShutdown :: "bool \<Rightarrow> 'w OperationalCoordinator \<Rightarrow> Result \<times> 'w OperationalCoordinator" where
  "RequestShutdown force c =
     DoTransition [Inactive, Configured, Standby, Armed, Running, Faulted, Recovering, ShuttingDown] Configured
       (Some (\<lambda>detail c. let c1 = c\<lparr>oc_mode := ShuttingDown\<rparr>
          in call_op (map_option (\<lambda>f. f force) (op_shutdown_all (oc_driverOps c1))) ''shutdown path not available''
               (\<lambda>c. c\<lparr>oc_mode := Configured\<rparr>) (\<lambda>c. c\<lparr>oc_mode := Configured\<rparr>) detail c1)) c"

text \<open>Without interference the compare-and-exchange finds the mode just loaded.\<close>

definition UpdateFromFeedback :: "bool \<Rightarrow> 'w OperationalCoordinator \<Rightarrow> 'w OperationalCoordinator" where
  "UpdateFromFeedback unhealthy c =
     (if \<not> unhealthy then c
      else let current = oc_mode c
           in if current \<noteq> Armed \<and> current \<noteq> Running then c else c\<lparr>oc_mode := Faulted\<rparr>)"

section \<open>Requests as data\<close>

datatype OpRequest =
  ReqInit string bool | ReqEnable | ReqDisable | ReqRelease | ReqHalt | ReqRecover | ReqShutdown bool

fun serve :: "OpRequest \<Rightarrow> 'w OperationalCoordinator \<Rightarrow> Result \<times> 'w OperationalCoordinator" where
  "serve (ReqInit device loopback) c = RequestInit device loopback c"
| "serve ReqEnable c = RequestEnable c"
| "serve ReqDisable c = RequestDisable c"
| "serve ReqRelease c = RequestRelease c"
| "serve ReqHalt c = RequestHalt c"
| "serve ReqRecover c = RequestRecover c"
| "serve (ReqShutdown force) c = RequestShutdown force c"

text \<open>The transition table the requests promise.\<close>

fun target :: "OpRequest \<Rightarrow> SystemOpMode" where
  "target (ReqInit _ _) = Standby"
| "target ReqEnable = Armed"
| "target ReqDisable = Standby"
| "target ReqRelease = Running"
| "target ReqHalt = Armed"
| "target ReqRecover = Standby"
| "target (ReqShutdown _) = Configured"

fun allowed :: "OpRequest \<Rightarrow> SystemOpMode set" where
  "allowed (ReqInit _ _) = {Configured}"
| "allowed ReqEnable = {Standby, Armed}"
| "allowed ReqDisable = {Standby, Armed, Running}"
| "allowed ReqRelease = {Armed}"
| "allowed ReqHalt = {Running}"
| "allowed ReqRecover = {Faulted}"
| "allowed (ReqShutdown _) = UNIV"

lemma notify_sel [simp]: "oc_mode (notify f c) = oc_mode c" "oc_driverOps (notify f c) = oc_driverOps c"
  by (simp_all add: notify_def split: option.splits)

lemma hold_arm_sel [simp]:
  "oc_mode (hold_commands c) = oc_mode c" "oc_driverOps (hold_commands c) = oc_driverOps c"
  "oc_mode (arm_fresh_command_latch c) = oc_mode c" "oc_driverOps (arm_fresh_command_latch c) = oc_driverOps c"
  by (simp_all add: hold_commands_def arm_fresh_command_latch_def)

lemmas request_defs = RequestInit_def RequestEnable_def RequestDisable_def RequestRelease_def
  RequestHalt_def RequestRecover_def RequestShutdown_def DoTransition_def RevalidateArmedEnable_def
  guarded_def call_op_def refuse_def Let_def

text \<open>Where each request leaves the mode, by its outcome.\<close>

lemma request_mode_simps:
  "oc_mode (snd (RequestInit d l c)) = (if res_ok (fst (RequestInit d l c)) then Standby else oc_mode c)"
  "oc_mode (snd (RequestEnable c)) = (if res_ok (fst (RequestEnable c)) then Armed else oc_mode c)"
  "oc_mode (snd (RequestDisable c)) = (if res_ok (fst (RequestDisable c)) then Standby else oc_mode c)"
  "oc_mode (snd (RequestRelease c)) = (if res_ok (fst (RequestRelease c)) then Running else oc_mode c)"
  "oc_mode (snd (RequestHalt c)) = (if res_ok (fst (RequestHalt c)) then Armed else oc_mode c)"
  "oc_mode (snd (RequestRecover c)) = (if res_ok (fst (RequestRecover c)) then Standby else oc_mode c)"
  by (auto simp: request_defs split: prod.splits option.splits)

lemma shutdown_mode: "oc_mode (snd (RequestShutdown force c)) = Configured"
proof -
  have "oc_mode c \<in> set [Inactive, Configured, Standby, Armed, Running, Faulted, Recovering, ShuttingDown]"
    by (cases "oc_mode c") simp_all
  then show ?thesis by (auto simp: request_defs split: prod.splits option.splits)
qed

lemma serve_mode:
  "oc_mode (snd (serve r c)) = (if res_ok (fst (serve r c)) \<or> (\<exists>force. r = ReqShutdown force) then target r else oc_mode c)"
  by (cases r) (simp_all add: request_mode_simps shutdown_mode)

lemma serve_ops [simp]: "oc_driverOps (snd (serve r c)) = oc_driverOps c"
  by (cases r) (auto simp: request_defs split: prod.splits option.splits)

lemma serve_refused:
  "oc_mode c \<notin> allowed r \<Longrightarrow> serve r c = (refuse (oc_mode c) (target r), c)"
  by (cases r) (auto simp: request_defs)

lemma refuse_ok [simp]: "res_ok (refuse m to) \<longleftrightarrow> m = to"
  by (simp add: refuse_def)

lemma DoTransition_ok:
  assumes "res_ok (fst (DoTransition from to (Some act) c))" and "oc_mode c \<in> set from"
  obtains detail c' where "act [] c = (True, detail, c')" "snd (DoTransition from to (Some act) c) = c'\<lparr>oc_mode := to\<rparr>"
  using assms by (cases "act [] c") (auto simp: DoTransition_def Let_def split: if_splits)

lemma serve_moved:
  assumes "oc_mode (snd (serve r c)) \<noteq> oc_mode c" and "\<nexists>force. r = ReqShutdown force"
  shows "res_ok (fst (serve r c)) \<and> oc_mode c \<in> allowed r"
  using assms by (cases "oc_mode c \<in> allowed r") (auto simp: serve_mode serve_refused split: if_splits)

text \<open>A successful release from another mode starts armed and passes the motion check.\<close>

lemma enters_running:
  assumes "oc_mode (snd (serve r c)) = Running" and "oc_mode c \<noteq> Running"
  shows "r = ReqRelease \<and> oc_mode c = Armed \<and>
    (case op_motion_healthy (oc_driverOps c) of None \<Rightarrow> True | Some h \<Rightarrow> fst (h [] (oc_world c)))"
proof -
  have r: "r = ReqRelease" using assms unfolding serve_mode by (cases r) (auto split: if_splits)
  moreover have "oc_mode c \<in> allowed r"
    using assms by (cases "oc_mode c \<in> allowed r") (simp_all add: serve_refused)
  ultimately show ?thesis
    using assms by (auto simp: request_defs split: option.splits prod.splits if_splits)
qed

section \<open>Runs\<close>

text \<open>
  What can happen to a coordinator: requests, the forced modes, feedback, a new set of driver
  operations, and any change of the world by the rest of the driver.
\<close>

datatype 'w event =
  EvRequest OpRequest | EvSetInactive | EvSetConfigured | EvSetFaulted | EvFeedback bool
  | EvSetDriverOps "'w DriverOps" | EvWorld "'w \<Rightarrow> 'w"

fun handle :: "'w event \<Rightarrow> 'w OperationalCoordinator \<Rightarrow> 'w OperationalCoordinator" where
  "handle (EvRequest r) c = snd (serve r c)"
| "handle EvSetInactive c = SetInactive c"
| "handle EvSetConfigured c = SetConfigured c"
| "handle EvSetFaulted c = SetFaulted c"
| "handle (EvFeedback unhealthy) c = UpdateFromFeedback unhealthy c"
| "handle (EvSetDriverOps ops) c = SetDriverOps ops c"
| "handle (EvWorld f) c = c\<lparr>oc_world := f (oc_world c)\<rparr>"

abbreviation run_events :: "'w event list \<Rightarrow> 'w OperationalCoordinator \<Rightarrow> 'w OperationalCoordinator" where
  "run_events es c \<equiv> fold handle es c"

lemmas set_mode_defs = SetInactive_def SetConfigured_def SetFaulted_def SetDriverOps_def ForceMode_def
  UpdateFromFeedback_def Let_def

lemma handle_mode_cases:
  "oc_mode (handle e c) = oc_mode c \<or> oc_mode (handle e c) \<in> {Inactive, Configured, Faulted} \<or>
   (\<exists>r. e = EvRequest r \<and> oc_mode c \<in> allowed r \<and> oc_mode (handle e c) = target r)"
proof (cases e)
  case (EvRequest r)
  then show ?thesis
    by (cases "oc_mode c \<in> allowed r") (auto simp: serve_refused serve_mode split: if_splits)
qed (auto simp: set_mode_defs)

text \<open>What a run up to a mode must contain, from a coordinator that has just been made.\<close>

definition prepares :: "'w event \<Rightarrow> bool" where
  "prepares e \<longleftrightarrow> (\<exists>d l. e = EvRequest (ReqInit d l)) \<or> e = EvRequest ReqRecover"

definition evidence :: "SystemOpMode \<Rightarrow> 'w event list \<Rightarrow> bool" where
  "evidence m es = (case m of
     Standby \<Rightarrow> (\<exists>e. prepares e \<and> subseq [e] es)
   | Armed \<Rightarrow> (\<exists>e. prepares e \<and> subseq [e, EvRequest ReqEnable] es)
   | Running \<Rightarrow> (\<exists>e. prepares e \<and> subseq [e, EvRequest ReqEnable, EvRequest ReqRelease] es)
   | _ \<Rightarrow> True)"

lemma subseq_snoc_mono: "subseq xs es \<Longrightarrow> subseq xs (es @ [e])"
  by (rule subseq_order.trans) auto

lemma subseq_snoc: "subseq xs es \<Longrightarrow> subseq (xs @ [e]) (es @ [e])"
  by (simp add: list_emb_append_mono)

lemma subseq_appendD: "subseq (xs @ ys) es \<Longrightarrow> subseq xs es"
  by (rule subseq_order.trans [of xs "xs @ ys"]) auto

lemma evidence_mono: "evidence m es \<Longrightarrow> evidence m (es @ [e])"
  by (cases m) (auto simp: evidence_def intro: subseq_snoc_mono)

lemma evidence_drop:
  "evidence Armed es \<Longrightarrow> evidence Standby es" "evidence Running es \<Longrightarrow> evidence Armed es"
  using subseq_appendD [of "[_]" "[_]" es] subseq_appendD [of "[_, _]" "[_]" es]
  unfolding evidence_def by auto

lemma run_evidence:
  assumes "oc_mode c0 = Inactive"
  shows "evidence (oc_mode (run_events es c0)) es"
proof (induction es rule: rev_induct)
  case Nil
  with assms show ?case by (simp add: evidence_def)
next
  case (snoc e es)
  let ?c = "run_events es c0"
  from handle_mode_cases [of e ?c] consider
      "oc_mode (handle e ?c) = oc_mode ?c" | "oc_mode (handle e ?c) \<in> {Inactive, Configured, Faulted}"
    | r where "e = EvRequest r" "oc_mode ?c \<in> allowed r" "oc_mode (handle e ?c) = target r"
    by blast
  then show ?case
  proof cases
    case 1
    with snoc show ?thesis by (simp add: evidence_mono)
  next
    case 2
    then show ?thesis by (auto simp: evidence_def)
  next
    case 3
    have "evidence (target r) (es @ [e])"
    proof (cases r)
      case (ReqInit d l)
      with 3 show ?thesis
        by (auto simp: evidence_def prepares_def intro!: exI [of _ e])
    next
      case ReqEnable
      with 3 snoc show ?thesis
        using subseq_snoc [of "[_]" es e] evidence_mono [of Armed es e]
        by (fastforce simp: evidence_def)
    next
      case ReqDisable
      with 3 snoc evidence_drop [of es] show ?thesis by (auto intro: evidence_mono)
    next
      case ReqRelease
      with 3 snoc show ?thesis
        using subseq_snoc [of "[_, _]" es e] by (fastforce simp: evidence_def)
    next
      case ReqHalt
      with 3 snoc evidence_drop [of es] show ?thesis by (auto intro: evidence_mono)
    next
      case ReqRecover
      with 3 show ?thesis by (auto simp: evidence_def prepares_def intro!: exI [of _ e])
    qed (simp add: evidence_def)
    with 3 show ?thesis by simp
  qed
qed

text \<open>What can take a coordinator out of the faulted mode.\<close>

fun leaves_fault :: "'w event \<Rightarrow> bool" where
  "leaves_fault (EvRequest ReqRecover) = True"
| "leaves_fault (EvRequest (ReqShutdown _)) = True"
| "leaves_fault EvSetInactive = True"
| "leaves_fault EvSetConfigured = True"
| "leaves_fault _ = False"

lemma handle_faulted: "oc_mode c = Faulted \<Longrightarrow> \<not> leaves_fault e \<Longrightarrow> oc_mode (handle e c) = Faulted"
  by (cases e rule: leaves_fault.cases) (simp_all add: set_mode_defs serve_refused request_defs)

lemma run_faulted: "oc_mode c = Faulted \<Longrightarrow> list_all (\<lambda>e. \<not> leaves_fault e) es \<Longrightarrow> oc_mode (run_events es c) = Faulted"
  by (induction es arbitrary: c) (simp_all add: handle_faulted)

section \<open>The command latch\<close>

text \<open>
  What the coordinator relies on for its two notifications: \<open>hold\<close> and \<open>arm\<close> act on a
  world that is \<open>ready\<close> for them, and after \<open>arm\<close> commands are \<open>blocked\<close>.
\<close>

locale command_latch =
  fixes hold :: "'w \<Rightarrow> 'w" and arm :: "'w \<Rightarrow> 'w" and ready :: "'w \<Rightarrow> bool" and blocked :: "'w \<Rightarrow> bool"
  assumes ready_hold: "ready w \<Longrightarrow> ready (hold w)"
    and arm_blocks: "ready w \<Longrightarrow> blocked (arm w)"
begin

text \<open>Driver operations bound to this latch, none of which disturbs its readiness.\<close>

definition bound :: "'w DriverOps \<Rightarrow> bool" where
  "bound ops \<longleftrightarrow> op_hold_commands ops = Some hold \<and> op_arm_fresh_command_latch ops = Some arm \<and>
     (\<forall>f d l w. op_init_device ops = Some f \<longrightarrow> ready w \<longrightarrow> ready (snd (f d l w))) \<and>
     (\<forall>f w. op_enable_all ops = Some f \<longrightarrow> ready w \<longrightarrow> ready (snd (f w))) \<and>
     (\<forall>f w. op_recover_all ops = Some f \<longrightarrow> ready w \<longrightarrow> ready (snd (f w))) \<and>
     (\<forall>f s w. op_enable_healthy ops = Some f \<longrightarrow> ready w \<longrightarrow> ready (snd (snd (f s w)))) \<and>
     (\<forall>f s w. op_motion_healthy ops = Some f \<longrightarrow> ready w \<longrightarrow> ready (snd (snd (f s w))))"

lemma blocked_arm_hold:
  "bound (oc_driverOps c) \<Longrightarrow> ready (oc_world c) \<Longrightarrow> blocked (oc_world (arm_fresh_command_latch (hold_commands c)))"
  "bound (oc_driverOps c) \<Longrightarrow> ready (oc_world c) \<Longrightarrow> blocked (oc_world (arm_fresh_command_latch c))"
  by (simp_all add: bound_def arm_fresh_command_latch_def hold_commands_def notify_def ready_hold arm_blocks)

lemma call_op_blocks:
  assumes "bound (oc_driverOps c)" and "ready (oc_world c)"
    and "\<And>f w. operation = Some f \<Longrightarrow> ready w \<Longrightarrow> ready (snd (f w))"
    and "call_op operation m failed (arm_fresh_command_latch \<circ> hold_commands) detail c = (True, detail', c')"
  shows "blocked (oc_world c')"
proof -
  from assms(4) obtain f r w where f: "operation = Some f" "f (oc_world c) = (r, w)"
    and c': "c' = arm_fresh_command_latch (hold_commands (c\<lparr>oc_world := w\<rparr>))"
    by (auto simp: call_op_def split: option.splits prod.splits if_splits)
  from assms(3) [OF f(1) assms(2)] f(2) assms(1) show ?thesis
    unfolding c' by (intro blocked_arm_hold) simp_all
qed

lemma DoTransition_blocks:
  assumes "res_ok (fst (DoTransition from to (Some act) c))" and "oc_mode c \<in> set from"
    and "\<And>detail c'. act [] c = (True, detail, c') \<Longrightarrow> blocked (oc_world c')"
  shows "blocked (oc_world (snd (DoTransition from to (Some act) c)))"
proof -
  from DoTransition_ok [OF assms(1,2)] obtain detail c' where
    "act [] c = (True, detail, c')" "snd (DoTransition from to (Some act) c) = c'\<lparr>oc_mode := to\<rparr>" .
  with assms(3) show ?thesis by simp
qed

lemma guarded_blocks:
  assumes "guarded check k detail c = (True, detail', c')" and "ready (oc_world c)"
    and "\<And>f s w. check = Some f \<Longrightarrow> ready w \<Longrightarrow> ready (snd (snd (f s w)))"
    and "\<And>d w. ready w \<Longrightarrow> k d (c\<lparr>oc_world := w\<rparr>) = (True, detail', c') \<Longrightarrow> blocked (oc_world c')"
  shows "blocked (oc_world c')"
proof (cases check)
  case None
  with assms(1,2) assms(4) [of "oc_world c"] show ?thesis by (simp add: guarded_def)
next
  case (Some f)
  obtain ok d w where f: "f detail (oc_world c) = (ok, d, w)" by (cases "f detail (oc_world c)") auto
  with assms(3) [OF Some assms(2), of detail] have "ready w" by simp
  with assms(1) assms(4) [of w d] Some f show ?thesis by (simp add: guarded_def split: if_splits)
qed

lemma bound_keeps:
  assumes "bound ops"
  shows "op_init_device ops = Some f \<Longrightarrow> ready w \<Longrightarrow> ready (snd (f d l w))"
    and "op_enable_all ops = Some g \<Longrightarrow> ready w \<Longrightarrow> ready (snd (g w))"
    and "op_recover_all ops = Some g \<Longrightarrow> ready w \<Longrightarrow> ready (snd (g w))"
    and "op_enable_healthy ops = Some h \<Longrightarrow> ready w \<Longrightarrow> ready (snd (snd (h s w)))"
    and "op_motion_healthy ops = Some h \<Longrightarrow> ready w \<Longrightarrow> ready (snd (snd (h s w)))"
  using assms unfolding bound_def by blast+

text \<open>Every request that brings the driver closer to moving leaves stale commands blocked.\<close>

lemma request_blocks:
  assumes b: "bound (oc_driverOps c)" and r: "ready (oc_world c)"
    and moves: "oc_mode (snd (serve req c)) \<noteq> oc_mode c"
    and req: "(\<exists>d l. req = ReqInit d l) \<or> req \<in> {ReqEnable, ReqRelease, ReqRecover}"
  shows "blocked (oc_world (snd (serve req c)))"
proof -
  have ok: "res_ok (fst (serve req c))" "oc_mode c \<in> allowed req"
    using serve_moved [OF moves] req by auto
  note keeps = bound_keeps [OF b]
  from req consider d l where "req = ReqInit d l" | "req = ReqEnable" | "req = ReqRelease" | "req = ReqRecover"
    by blast
  then show ?thesis
  proof cases
    case 1
    with ok show ?thesis
      unfolding 1 serve.simps RequestInit_def
      by (intro DoTransition_blocks) (auto intro: keeps elim!: call_op_blocks [OF b r, rotated])
  next
    case 2
    have "oc_mode c \<noteq> Armed" using moves ok(1) unfolding serve_mode 2 by simp
    with 2 ok show ?thesis
      unfolding 2 serve.simps RequestEnable_def
      by (auto simp: b intro: keeps intro!: DoTransition_blocks elim!: guarded_blocks [OF _ r] call_op_blocks [rotated -1])
  next
    case 3
    with ok show ?thesis
      unfolding 3 serve.simps RequestRelease_def
      by (intro DoTransition_blocks) (auto simp: b intro: keeps blocked_arm_hold elim!: guarded_blocks [OF _ r])
  next
    case 4
    with ok show ?thesis
      unfolding 4 serve.simps RequestRecover_def
      by (intro DoTransition_blocks) (auto simp: b r Let_def intro: keeps elim!: call_op_blocks [rotated -1])
  qed
qed

end

section \<open>The gate as the coordinator's latch\<close>

text \<open>
  \<open>CanDriverRuntime\<close> installs the gate's operations as the two notifications.  The world holds
  the gate and the joints \<open>'j\<close> its closures read and write.
\<close>

record 'j gate_world =
  gw_gate :: "'j CommandGate"
  gw_joints :: 'j

definition gate_hold :: "'j gate_world \<Rightarrow> 'j gate_world" where
  "gate_hold w = w\<lparr>gw_joints := holdCommands (gw_gate w) (gw_joints w)\<rparr>"

definition gate_arm :: "'j gate_world \<Rightarrow> 'j gate_world" where
  "gate_arm w = w\<lparr>gw_gate := armFreshCommandLatch (gw_joints w) (gw_gate w)\<rparr>"

definition gate_ready :: "'j gate_world \<Rightarrow> bool" where
  "gate_ready w \<longleftrightarrow> cg_snapshotProvider (gw_gate w) \<noteq> None"

definition gate_blocked :: "'j gate_world \<Rightarrow> bool" where
  "gate_blocked w = cg_freshCommandRequired (gw_gate w)"

interpretation gl: command_latch gate_hold gate_arm gate_ready gate_blocked
  by unfold_locales (auto simp: gate_hold_def gate_arm_def gate_ready_def gate_blocked_def armFreshCommandLatch_def)

text \<open>Driver operations that use the gate and never unconfigure it.\<close>

definition uses_gate :: "'j gate_world DriverOps \<Rightarrow> bool" where
  "uses_gate ops \<longleftrightarrow> op_hold_commands ops = Some gate_hold \<and> op_arm_fresh_command_latch ops = Some gate_arm \<and>
     (\<forall>f d l w. op_init_device ops = Some f \<longrightarrow> gate_ready w \<longrightarrow> gate_ready (snd (f d l w))) \<and>
     (\<forall>f w. op_enable_all ops = Some f \<longrightarrow> gate_ready w \<longrightarrow> gate_ready (snd (f w))) \<and>
     (\<forall>f w. op_recover_all ops = Some f \<longrightarrow> gate_ready w \<longrightarrow> gate_ready (snd (f w))) \<and>
     (\<forall>f s w. op_enable_healthy ops = Some f \<longrightarrow> gate_ready w \<longrightarrow> gate_ready (snd (snd (f s w)))) \<and>
     (\<forall>f s w. op_motion_healthy ops = Some f \<longrightarrow> gate_ready w \<longrightarrow> gate_ready (snd (snd (f s w))))"

section \<open>Interference with the feedback thread\<close>

text \<open>
  \<open>DoTransition\<close> when other threads run \<open>env\<close>, which does not take the lock, after the action has
  returned and before \<open>mode_.store(to)\<close>.
\<close>

definition DoTransition_interleaved ::
    "('w OperationalCoordinator \<Rightarrow> 'w OperationalCoordinator) \<Rightarrow> SystemOpMode list \<Rightarrow> SystemOpMode \<Rightarrow>
     'w action option \<Rightarrow> 'w OperationalCoordinator \<Rightarrow> Result \<times> 'w OperationalCoordinator" where
  "DoTransition_interleaved env allowedFrom to action c =
     (let current = oc_mode c
      in if current \<notin> set allowedFrom then (refuse current to, c)
         else case (case action of None \<Rightarrow> (True, [], c) | Some act \<Rightarrow> act [] c) of
           (ok, detail, c') \<Rightarrow>
             if \<not> ok then (result False (or_default detail ''action failed''), c')
             else (result True (or_default detail (''-> '' @ SystemOpModeName to)), (env c')\<lparr>oc_mode := to\<rparr>))"

lemma DoTransition_no_interference: "DoTransition_interleaved (\<lambda>c. c) = DoTransition"
  by (simp add: DoTransition_interleaved_def DoTransition_def fun_eq_iff)

definition RequestRelease_interleaved ::
    "('w OperationalCoordinator \<Rightarrow> 'w OperationalCoordinator) \<Rightarrow> 'w OperationalCoordinator \<Rightarrow>
     Result \<times> 'w OperationalCoordinator" where
  "RequestRelease_interleaved env c =
     DoTransition_interleaved env [Armed] Running
       (Some (\<lambda>detail c. guarded (op_motion_healthy (oc_driverOps c))
          (\<lambda>detail c. (True, detail, arm_fresh_command_latch c)) detail c)) c"

section \<open>Properties\<close>

text \<open>
  The transition table: a request that succeeds leaves its target mode, one that fails
  leaves the mode as it was (a shutdown leaves \<open>Configured\<close> even then), and a request made in
  a mode it is not allowed in changes nothing and is answered by success exactly when the
  target is already the mode.
\<close>

lemma request_moves_mode:
  "oc_mode (snd (serve r c)) =
     (if res_ok (fst (serve r c)) then target r
      else case r of ReqShutdown _ \<Rightarrow> Configured | _ \<Rightarrow> oc_mode c) \<and>
   (oc_mode c \<in> allowed r \<or> serve r c = (refuse (oc_mode c) (target r), c))"
  using serve_refused [of c r] unfolding serve_mode by (cases r) auto

text \<open>
  The driver starts moving only by a release of an armed driver whose motion check passes:
  no other request, from any other mode, leads to \<open>Running\<close>.
\<close>

lemma running_requires_release:
  assumes "oc_mode (snd (serve r c)) = Running" and "oc_mode c \<noteq> Running"
  shows "r = ReqRelease \<and> oc_mode c = Armed \<and>
    (case op_motion_healthy (oc_driverOps c) of None \<Rightarrow> True | Some h \<Rightarrow> fst (h [] (oc_world c)))"
  using assms by (rule enters_running)

definition witness_coordinator :: "SystemOpMode \<Rightarrow> nat OperationalCoordinator" where
  "witness_coordinator m = \<lparr>oc_mode = m,
     oc_driverOps = no_ops\<lparr>op_motion_healthy := Some (\<lambda>d w. (0 < w, d, w)),
       op_init_device := Some (\<lambda>d l w. (result True ''ok'', w)),
       op_enable_all := Some (\<lambda>w. (result True [], w))\<rparr>,
     oc_world = 1\<rparr>"

lemma running_requires_release_witness:
  "oc_mode (witness_coordinator Armed) = Armed \<and> oc_mode (snd (serve ReqRelease (witness_coordinator Armed))) = Running"
  using running_requires_release [of ReqRelease "witness_coordinator Armed"]
  by (simp add: witness_coordinator_def request_defs no_ops_def)



text \<open>
  C33: faults latch: an unhealthy report makes an armed or running driver \<open>Faulted\<close>, and it then
  stays \<open>Faulted\<close> through any events other than a recover or shutdown request or a forced
  inactive or configured mode.
\<close>

theorem fault_latched:
  assumes "oc_mode c \<in> {Armed, Running}" and "list_all (\<lambda>e. \<not> leaves_fault e) es"
  shows "oc_mode (run_events (EvFeedback True # es) c) = Faulted"
  using assms run_faulted [of "UpdateFromFeedback True c" es] by (auto simp: UpdateFromFeedback_def)

theorem fault_latched_witness:
  "oc_mode (run_events [EvFeedback True, EvRequest ReqEnable, EvFeedback False, EvRequest ReqRelease, EvRequest ReqDisable]
     (witness_coordinator Running)) = Faulted"
  using fault_latched [of "witness_coordinator Running"
      "[EvRequest ReqEnable, EvFeedback False, EvRequest ReqRelease, EvRequest ReqDisable]"]
  by (simp add: witness_coordinator_def)

text \<open>
  Stale commands are blocked at every step towards motion: when an initialisation, enable,
  release or recover request changes the mode, the command gate is left requiring a fresh
  command.
\<close>

lemma transition_blocks_stale_commands:
  assumes "uses_gate (oc_driverOps c)" and "cg_snapshotProvider (gw_gate (oc_world c)) \<noteq> None"
    and "oc_mode (snd (serve req c)) \<noteq> oc_mode c"
    and "(\<exists>d l. req = ReqInit d l) \<or> req \<in> {ReqEnable, ReqRelease, ReqRecover}"
  shows "cg_freshCommandRequired (gw_gate (oc_world (snd (serve req c))))"
proof -
  have "gl.bound (oc_driverOps c)" using assms(1) by (simp add: gl.bound_def uses_gate_def)
  from gl.request_blocks [OF this _ assms(3,4)] assms(2) show ?thesis
    by (simp add: gate_ready_def gate_blocked_def)
qed

definition witness_gate_coordinator :: "rat gate_world OperationalCoordinator" where
  "witness_gate_coordinator = \<lparr>oc_mode = Standby,
     oc_driverOps = no_ops\<lparr>op_enable_all := Some (\<lambda>w. (result True [], w)),
       op_hold_commands := Some gate_hold, op_arm_fresh_command_latch := Some gate_arm\<rparr>,
     oc_world = \<lparr>gw_gate = configure (Some (\<lambda>q. [\<lparr>sn_controlMode = AxisVelocity, sn_commandValue = Fin q,
         sn_hasDirectCommand = False, sn_targetNearActual = False\<rparr>])) None default_CommandGate, gw_joints = 2\<rparr>\<rparr>"

lemma transition_blocks_stale_commands_witness:
  "cg_freshCommandRequired (gw_gate (oc_world (snd (serve ReqEnable witness_gate_coordinator))))"
proof (rule transition_blocks_stale_commands)
  show "uses_gate (oc_driverOps witness_gate_coordinator)"
    by (simp add: uses_gate_def witness_gate_coordinator_def no_ops_def)
  show "cg_snapshotProvider (gw_gate (oc_world witness_gate_coordinator)) \<noteq> None"
    by (simp add: witness_gate_coordinator_def configure_def)
  show "oc_mode (snd (serve ReqEnable witness_gate_coordinator)) \<noteq> oc_mode witness_gate_coordinator"
    by (simp add: witness_gate_coordinator_def no_ops_def request_defs)
qed simp

text \<open>
  C34: a fault raised while a release is in progress is lost: when an unhealthy report arrives
  after the release's action and before its final store, the driver ends \<open>Running\<close>, although
  both orders of the two operations run one after the other end \<open>Faulted\<close>.
\<close>

theorem release_overwrites_fault:
  assumes "oc_mode c = Armed"
    and "case op_motion_healthy (oc_driverOps c) of None \<Rightarrow> True | Some h \<Rightarrow> fst (h [] (oc_world c))"
  shows "oc_mode (snd (RequestRelease_interleaved (UpdateFromFeedback True) c)) = Running \<and>
    oc_mode (UpdateFromFeedback True (snd (RequestRelease c))) = Faulted \<and>
    oc_mode (snd (RequestRelease (UpdateFromFeedback True c))) = Faulted"
  using assms
  by (auto simp: RequestRelease_interleaved_def DoTransition_interleaved_def UpdateFromFeedback_def
      request_defs split: option.splits prod.splits)

theorem release_overwrites_fault_witness:
  "oc_mode (snd (RequestRelease_interleaved (UpdateFromFeedback True) (witness_coordinator Armed))) = Running"
  using release_overwrites_fault [of "witness_coordinator Armed"]
  by (simp add: witness_coordinator_def no_ops_def)

end
