(* ===== verification/Shared_Driver_State.thy ===== *)
theory Shared_Driver_State
  imports Can_Types
begin

text \<open>
  \<open>SharedDriverState.h\<close>: the store every protocol back end, the readiness evaluator and the
  transmit runtime share.  Four maps hold, per axis, its feedback, command and intent, and,
  per device, its health.  The axis maps are keyed by a composed string; \<open>axisMapKey_inj\<close>
  shows the composition never confuses two axes, so the store refines a store keyed by the
  axis itself.  The interface the clients rely on is the locale \<open>axis_store\<close>, interpreted
  here for the feedback, the command, the intent and the health maps.
\<close>

section \<open>Data\<close>

definition kDefaultFeedbackDegradedTimeoutThreshold :: u32 where
  "kDefaultFeedbackDegradedTimeoutThreshold = 3"

datatype AxisIntent =
  IntentNone | IntentDisable | IntentEnable | IntentHold | IntentRun | IntentRecover

record AxisKey =
  ak_device :: string
  ak_protocol :: CanType
  ak_motorId :: u16

text \<open>64-bit positions and time stamps are integers: they are copied and compared only.\<close>

record AxisFeedbackState =
  fb_key :: AxisKey
  fb_position :: int
  fb_velocity :: i32
  fb_current :: i32
  fb_mode :: MotorMode
  fb_positionValid :: bool
  fb_velocityValid :: bool
  fb_currentValid :: bool
  fb_modeValid :: bool
  fb_enabled :: bool
  fb_fault :: bool
  fb_enabledValid :: bool
  fb_faultValid :: bool
  fb_feedbackSeen :: bool
  fb_degraded :: bool
  fb_lastRxSteadyNs :: int
  fb_lastValidStateSteadyNs :: int
  fb_consecutiveTimeoutCount :: u32

record AxisCommandState =
  ac_key :: AxisKey
  ac_targetPosition :: int
  ac_targetVelocity :: i32
  ac_targetCurrent :: i32
  ac_desiredMode :: MotorMode
  ac_desiredModeValid :: bool
  ac_valid :: bool
  ac_lastCommandSteadyNs :: int

record DeviceHealthState =
  dh_device :: string
  dh_transportReady :: bool
  dh_txBackpressure :: u64
  dh_txLinkUnavailable :: u64
  dh_txError :: u64
  dh_rxError :: u64
  dh_lastTxLinkUnavailableSteadyNs :: int
  dh_lastRxSteadyNs :: int

record SharedDriverState =
  sds_axisFeedback :: "string \<rightharpoonup> AxisFeedbackState"
  sds_axisCommands :: "string \<rightharpoonup> AxisCommandState"
  sds_axisIntents :: "string \<rightharpoonup> AxisIntent"
  sds_deviceHealth :: "string \<rightharpoonup> DeviceHealthState"

definition default_AxisKey :: AxisKey where
  "default_AxisKey = \<lparr>ak_device = [], ak_protocol = MT, ak_motorId = 0\<rparr>"

definition default_feedback :: AxisFeedbackState where
  "default_feedback = \<lparr>fb_key = default_AxisKey, fb_position = 0, fb_velocity = 0, fb_current = 0,
     fb_mode = ModePosition, fb_positionValid = False, fb_velocityValid = False,
     fb_currentValid = False, fb_modeValid = False, fb_enabled = False, fb_fault = False,
     fb_enabledValid = False, fb_faultValid = False, fb_feedbackSeen = False, fb_degraded = False,
     fb_lastRxSteadyNs = 0, fb_lastValidStateSteadyNs = 0, fb_consecutiveTimeoutCount = 0\<rparr>"

definition default_command :: AxisCommandState where
  "default_command = \<lparr>ac_key = default_AxisKey, ac_targetPosition = 0, ac_targetVelocity = 0,
     ac_targetCurrent = 0, ac_desiredMode = ModePosition, ac_desiredModeValid = False,
     ac_valid = False, ac_lastCommandSteadyNs = 0\<rparr>"

definition default_health :: DeviceHealthState where
  "default_health = \<lparr>dh_device = [], dh_transportReady = False, dh_txBackpressure = 0,
     dh_txLinkUnavailable = 0, dh_txError = 0, dh_rxError = 0,
     dh_lastTxLinkUnavailableSteadyNs = 0, dh_lastRxSteadyNs = 0\<rparr>"

definition empty_SharedDriverState :: SharedDriverState where
  "empty_SharedDriverState = \<lparr>sds_axisFeedback = Map.empty, sds_axisCommands = Map.empty,
     sds_axisIntents = Map.empty, sds_deviceHealth = Map.empty\<rparr>"

section \<open>Operations\<close>

definition NormalizeProtocolMotorId :: "motor_id \<Rightarrow> u16" where
  "NormalizeProtocolMotorId mid = toSystemMotorId mid"

definition MakeAxisKey :: "string \<Rightarrow> CanType \<Rightarrow> motor_id \<Rightarrow> AxisKey" where
  "MakeAxisKey device protocol mid =
     \<lparr>ak_device = device, ak_protocol = protocol, ak_motorId = NormalizeProtocolMotorId mid\<rparr>"

fun protocolName :: "CanType \<Rightarrow> string" where
  "protocolName MT = ''mt''"
| "protocolName PP = ''pp''"
| "protocolName DM = ''dm''"
| "protocolName ECB = ''ecb''"

definition axisMapKey :: "AxisKey \<Rightarrow> string" where
  "axisMapKey key = ak_device key @ ''|'' @ protocolName (ak_protocol key) @ ''|'' @
                    show_nat (unat (ak_motorId key))"

text \<open>\<open>std::map::emplace\<close> keeps an entry that is already there.\<close>

definition emplace :: "'k \<Rightarrow> 'v \<Rightarrow> ('k \<rightharpoonup> 'v) \<Rightarrow> ('k \<rightharpoonup> 'v)" where
  "emplace k v m = (case m k of None \<Rightarrow> m(k \<mapsto> v) | Some _ \<Rightarrow> m)"

definition touchAxisLocked :: "AxisKey \<Rightarrow> SharedDriverState \<Rightarrow> SharedDriverState" where
  "touchAxisLocked key s =
     s\<lparr>sds_axisFeedback := map_modify default_feedback (axisMapKey key) (fb_key_update (\<lambda>_. key)) (sds_axisFeedback s),
       sds_axisCommands := map_modify default_command (axisMapKey key) (ac_key_update (\<lambda>_. key)) (sds_axisCommands s),
       sds_axisIntents := emplace (axisMapKey key) IntentNone (sds_axisIntents s),
       sds_deviceHealth := map_modify default_health (ak_device key) (dh_device_update (\<lambda>_. ak_device key)) (sds_deviceHealth s)\<rparr>"

definition recomputeAxisObservedLocked :: "AxisFeedbackState \<Rightarrow> AxisFeedbackState" where
  "recomputeAxisObservedLocked feedback =
     feedback\<lparr>fb_degraded := kDefaultFeedbackDegradedTimeoutThreshold \<le> fb_consecutiveTimeoutCount feedback\<rparr>"

definition registerAxis :: "AxisKey \<Rightarrow> SharedDriverState \<Rightarrow> SharedDriverState" where
  "registerAxis key s = touchAxisLocked key s"

definition hasAxis :: "SharedDriverState \<Rightarrow> AxisKey \<Rightarrow> bool" where
  "hasAxis s key \<longleftrightarrow> sds_axisFeedback s (axisMapKey key) \<noteq> None"

definition mutateAxisFeedback ::
    "AxisKey \<Rightarrow> (AxisFeedbackState \<Rightarrow> AxisFeedbackState) \<Rightarrow> SharedDriverState \<Rightarrow> SharedDriverState" where
  "mutateAxisFeedback key fn s =
     (let s1 = touchAxisLocked key s;
          state = recomputeAxisObservedLocked (fn (map_at default_feedback (sds_axisFeedback s1) (axisMapKey key)));
          health = (map_at default_health (sds_deviceHealth s1) (ak_device key))\<lparr>dh_device := ak_device key\<rparr>;
          health' = (if 0 < fb_lastRxSteadyNs state
                     then health\<lparr>dh_lastRxSteadyNs := max (dh_lastRxSteadyNs health) (fb_lastRxSteadyNs state)\<rparr>
                     else health)
      in s1\<lparr>sds_axisFeedback := (sds_axisFeedback s1)(axisMapKey key \<mapsto> state),
            sds_deviceHealth := (sds_deviceHealth s1)(ak_device key \<mapsto> health')\<rparr>)"

definition getAxisFeedback :: "SharedDriverState \<Rightarrow> AxisKey \<Rightarrow> AxisFeedbackState option" where
  "getAxisFeedback s key = sds_axisFeedback s (axisMapKey key)"

definition mutateAxisCommand ::
    "AxisKey \<Rightarrow> (AxisCommandState \<Rightarrow> AxisCommandState) \<Rightarrow> SharedDriverState \<Rightarrow> SharedDriverState" where
  "mutateAxisCommand key fn s =
     (let s1 = touchAxisLocked key s
      in s1\<lparr>sds_axisCommands := map_modify default_command (axisMapKey key) fn (sds_axisCommands s1)\<rparr>)"

definition getAxisCommand :: "SharedDriverState \<Rightarrow> AxisKey \<Rightarrow> AxisCommandState option" where
  "getAxisCommand s key = sds_axisCommands s (axisMapKey key)"

definition setAxisIntent :: "AxisKey \<Rightarrow> AxisIntent \<Rightarrow> SharedDriverState \<Rightarrow> SharedDriverState" where
  "setAxisIntent key intent s =
     (let s1 = touchAxisLocked key s
      in s1\<lparr>sds_axisIntents := (sds_axisIntents s1)(axisMapKey key \<mapsto> intent)\<rparr>)"

definition getAxisIntent :: "SharedDriverState \<Rightarrow> AxisKey \<Rightarrow> AxisIntent" where
  "getAxisIntent s key = (case sds_axisIntents s (axisMapKey key) of None \<Rightarrow> IntentNone | Some i \<Rightarrow> i)"

definition mutateDeviceHealth ::
    "string \<Rightarrow> (DeviceHealthState \<Rightarrow> DeviceHealthState) \<Rightarrow> SharedDriverState \<Rightarrow> SharedDriverState" where
  "mutateDeviceHealth device fn s =
     s\<lparr>sds_deviceHealth :=
         map_modify default_health device (\<lambda>h. fn (h\<lparr>dh_device := device\<rparr>)) (sds_deviceHealth s)\<rparr>"

definition getDeviceHealth :: "SharedDriverState \<Rightarrow> string \<Rightarrow> DeviceHealthState option" where
  "getDeviceHealth s device = sds_deviceHealth s device"

section \<open>The composed key is injective\<close>

lemma protocolName_inj: "protocolName p = protocolName q \<Longrightarrow> p = q"
  by (cases p; cases q) simp_all

lemma protocolName_no_bar: "CHR ''|'' \<notin> set (protocolName p)"
  by (cases p) simp_all

lemma axisMapKey_eq_iff [simp]: "axisMapKey k = axisMapKey k' \<longleftrightarrow> k = k'"
proof
  assume eq: "axisMapKey k = axisMapKey k'"
  then have "(ak_device k @ ''|'' @ protocolName (ak_protocol k)) = (ak_device k' @ ''|'' @ protocolName (ak_protocol k'))
      \<and> show_nat (unat (ak_motorId k)) = show_nat (unat (ak_motorId k'))"
    unfolding axisMapKey_def
    by (intro append_sep_inj [where c = "CHR ''|''"]) (simp_all add: show_nat_no_bar)
  moreover from this have "ak_device k = ak_device k' \<and> protocolName (ak_protocol k) = protocolName (ak_protocol k')"
    by (intro append_sep_inj [where c = "CHR ''|''"]) (simp_all add: protocolName_no_bar)
  ultimately show "k = k'"
    by (auto intro!: AxisKey.equality dest: show_nat_inj protocolName_inj simp: word_unat_eq_iff)
qed simp

section \<open>The store interface\<close>

text \<open>
  What a client may assume of one of the keyed stores: an update at a key is visible at that
  key, through the normalisation \<open>post\<close> the store applies and from the entry \<open>touch\<close> makes
  of what was there, and is invisible at every other key.
\<close>

locale axis_store =
  fixes upd :: "'k \<Rightarrow> ('v \<Rightarrow> 'v) \<Rightarrow> 's \<Rightarrow> 's"
    and look :: "'s \<Rightarrow> 'k \<Rightarrow> 'v option"
    and touch :: "'k \<Rightarrow> 'v option \<Rightarrow> 'v"
    and post :: "'v \<Rightarrow> 'v"
  assumes look_same: "look (upd k f s) k = Some (post (f (touch k (look s k))))"
    and look_other: "k' \<noteq> k \<Longrightarrow> look (upd k f s) k' = look s k'"
begin

text \<open>A run of updates, oldest first.\<close>

definition run :: "('k \<times> ('v \<Rightarrow> 'v)) list \<Rightarrow> 's \<Rightarrow> 's" where
  "run us s = fold (\<lambda>(k, f). upd k f) us s"

lemma run_simps: "run [] s = s" "run (u # us) s = run us (upd (fst u) (snd u) s)"
  by (simp_all add: run_def case_prod_unfold)

lemma run_isolated: "k \<notin> fst ` set us \<Longrightarrow> look (run us s) k = look s k"
  by (induction us arbitrary: s) (auto simp: run_simps look_other)

text \<open>Updates at different keys commute, as seen through every lookup.\<close>

lemma look_upd_commute:
  assumes "k1 \<noteq> k2"
  shows "look (upd k1 f (upd k2 g s)) k = look (upd k2 g (upd k1 f s)) k"
proof -
  consider "k = k1" | "k = k2" | "k \<noteq> k1" "k \<noteq> k2" by blast
  then show ?thesis
    using assms by cases (simp_all add: look_same look_other)
qed

text \<open>What a run leaves at a key depends only on the updates of that key.\<close>

lemma run_filter: "look (run us s) k = look (run (filter (\<lambda>u. fst u = k) us) s) k"
proof -
  have "look (run us s) k = look (run (filter (\<lambda>u. fst u = k) us) s') k" if "look s k = look s' k" for s s'
    using that
  proof (induction us arbitrary: s s')
    case (Cons u us)
    show ?case
    proof (cases "fst u = k")
      case True
      with Cons.prems have "look (upd (fst u) (snd u) s) k = look (upd (fst u) (snd u) s') k"
        by (simp add: look_same)
      from Cons.IH [OF this] True show ?thesis by (simp add: run_simps)
    next
      case False
      with Cons.prems have "look (upd (fst u) (snd u) s) k = look s' k" by (simp add: look_other)
      from Cons.IH [OF this] False show ?thesis by (simp add: run_simps)
    qed
  qed (simp add: run_simps)
  then show ?thesis by blast
qed

end

lemma emplace_same [simp]: "emplace k v m k = Some (case m k of None \<Rightarrow> v | Some w \<Rightarrow> w)"
  by (simp add: emplace_def split: option.splits)

lemma emplace_other [simp]: "k' \<noteq> k \<Longrightarrow> emplace k v m k' = m k'"
  by (simp add: emplace_def split: option.splits)

lemma dom_emplace [simp]: "dom (emplace k v m) = insert k (dom m)"
  by (auto simp: emplace_def split: option.splits)

definition touch_feedback :: "AxisKey \<Rightarrow> AxisFeedbackState option \<Rightarrow> AxisFeedbackState" where
  "touch_feedback key v = (case v of None \<Rightarrow> default_feedback | Some fb \<Rightarrow> fb)\<lparr>fb_key := key\<rparr>"

definition touch_command :: "AxisKey \<Rightarrow> AxisCommandState option \<Rightarrow> AxisCommandState" where
  "touch_command key v = (case v of None \<Rightarrow> default_command | Some c \<Rightarrow> c)\<lparr>ac_key := key\<rparr>"

definition touch_health :: "string \<Rightarrow> DeviceHealthState option \<Rightarrow> DeviceHealthState" where
  "touch_health device v = (case v of None \<Rightarrow> default_health | Some h \<Rightarrow> h)\<lparr>dh_device := device\<rparr>"

lemmas sds_defs = touchAxisLocked_def registerAxis_def mutateAxisFeedback_def mutateAxisCommand_def
  setAxisIntent_def mutateDeviceHealth_def Let_def

lemmas sds_gets = getAxisFeedback_def getAxisCommand_def getAxisIntent_def getDeviceHealth_def hasAxis_def

interpretation fb: axis_store mutateAxisFeedback getAxisFeedback touch_feedback recomputeAxisObservedLocked
  by unfold_locales (auto simp: sds_defs sds_gets touch_feedback_def map_at_def map_modify_def split: option.splits)

interpretation cmd: axis_store mutateAxisCommand getAxisCommand touch_command "\<lambda>c. c"
  by unfold_locales (auto simp: sds_defs sds_gets touch_command_def map_at_def map_modify_def split: option.splits)

interpretation hlt: axis_store mutateDeviceHealth getDeviceHealth touch_health "\<lambda>h. h"
  by unfold_locales (auto simp: sds_defs sds_gets touch_health_def map_at_def map_modify_def split: option.splits)

interpretation intent: axis_store "\<lambda>k f s. setAxisIntent k (f (getAxisIntent s k)) s" "\<lambda>s k. Some (getAxisIntent s k)"
    "\<lambda>_ v. the v" "\<lambda>i. i"
  by unfold_locales (auto simp: sds_defs sds_gets split: option.splits)

section \<open>Effects across the maps\<close>

lemma getAxisFeedback_frame [simp, store_simps]:
  "k' \<noteq> k \<Longrightarrow> getAxisFeedback (touchAxisLocked k s) k' = getAxisFeedback s k'"
  "k' \<noteq> k \<Longrightarrow> getAxisFeedback (mutateAxisCommand k g s) k' = getAxisFeedback s k'"
  "k' \<noteq> k \<Longrightarrow> getAxisFeedback (setAxisIntent k i s) k' = getAxisFeedback s k'"
  "getAxisFeedback (mutateDeviceHealth d h s) k' = getAxisFeedback s k'"
  by (simp_all add: sds_defs sds_gets)

lemma getAxisCommand_frame [simp, store_simps]:
  "k' \<noteq> k \<Longrightarrow> getAxisCommand (touchAxisLocked k s) k' = getAxisCommand s k'"
  "k' \<noteq> k \<Longrightarrow> getAxisCommand (mutateAxisFeedback k f s) k' = getAxisCommand s k'"
  "k' \<noteq> k \<Longrightarrow> getAxisCommand (setAxisIntent k i s) k' = getAxisCommand s k'"
  "getAxisCommand (mutateDeviceHealth d h s) k' = getAxisCommand s k'"
  by (simp_all add: sds_defs sds_gets)

lemma getAxisIntent_frame [simp, store_simps]:
  "getAxisIntent (touchAxisLocked k s) k' = getAxisIntent s k'"
  "getAxisIntent (mutateAxisFeedback k f s) k' = getAxisIntent s k'"
  "getAxisIntent (mutateAxisCommand k g s) k' = getAxisIntent s k'"
  "getAxisIntent (mutateDeviceHealth d h s) k' = getAxisIntent s k'"
  by (auto simp: sds_defs sds_gets emplace_def split: option.splits)

lemma getAxisIntent_set [simp, store_simps]:
  "getAxisIntent (setAxisIntent k i s) k' = (if k' = k then i else getAxisIntent s k')"
  by (auto simp: sds_defs sds_gets emplace_def split: option.splits)

lemma getAxisFeedback_same [simp, store_simps]:
  "getAxisFeedback (mutateAxisCommand k g s) k = Some (touch_feedback k (getAxisFeedback s k))"
  "getAxisFeedback (setAxisIntent k i s) k = Some (touch_feedback k (getAxisFeedback s k))"
  "getAxisFeedback (touchAxisLocked k s) k = Some (touch_feedback k (getAxisFeedback s k))"
  by (simp_all add: sds_defs sds_gets touch_feedback_def map_at_def split: option.splits)

lemma getAxisCommand_same [simp, store_simps]:
  "getAxisCommand (mutateAxisFeedback k f s) k = Some (touch_command k (getAxisCommand s k))"
  "getAxisCommand (setAxisIntent k i s) k = Some (touch_command k (getAxisCommand s k))"
  "getAxisCommand (touchAxisLocked k s) k = Some (touch_command k (getAxisCommand s k))"
  by (simp_all add: sds_defs sds_gets touch_command_def map_at_def split: option.splits)

lemmas fb_look [simp, store_simps] = fb.look_same fb.look_other
lemmas cmd_look [simp, store_simps] = cmd.look_same cmd.look_other

section \<open>Invariant\<close>

text \<open>
  The three axis maps have the same keys; an entry sits under the key composed from the axis
  it names; an axis is degraded exactly when its timeout counter has reached the threshold;
  and the device of an axis has a health entry.  The last reception of a device is not kept above
  those of its axes: \<open>DeviceManager\<close> overwrites it with the statistics of the transport.
\<close>

definition feedback_ok :: "SharedDriverState \<Rightarrow> string \<Rightarrow> AxisFeedbackState \<Rightarrow> bool" where
  "feedback_ok s k f \<longleftrightarrow> k = axisMapKey (fb_key f)
     \<and> (fb_degraded f \<longleftrightarrow> kDefaultFeedbackDegradedTimeoutThreshold \<le> fb_consecutiveTimeoutCount f)
     \<and> (\<exists>h. sds_deviceHealth s (ak_device (fb_key f)) = Some h)"

definition sds_inv :: "SharedDriverState \<Rightarrow> bool" where
  "sds_inv s \<longleftrightarrow> dom (sds_axisCommands s) = dom (sds_axisFeedback s)
     \<and> dom (sds_axisIntents s) = dom (sds_axisFeedback s)
     \<and> (\<forall>k f. sds_axisFeedback s k = Some f \<longrightarrow> feedback_ok s k f)
     \<and> (\<forall>k c. sds_axisCommands s k = Some c \<longrightarrow> k = axisMapKey (ac_key c))
     \<and> (\<forall>d h. sds_deviceHealth s d = Some h \<longrightarrow> dh_device h = d)"

text \<open>
  The steps clients make.  Their mutations keep the axis an entry names, and the health
  mutations keep the device name.
\<close>

inductive sds_step :: "SharedDriverState \<Rightarrow> SharedDriverState \<Rightarrow> bool" where
  st_register: "sds_step s (registerAxis key s)"
| st_feedback: "(\<And>f. fb_key (fn f) = fb_key f) \<Longrightarrow> sds_step s (mutateAxisFeedback key fn s)"
| st_command: "(\<And>c. ac_key (fn c) = ac_key c) \<Longrightarrow> sds_step s (mutateAxisCommand key fn s)"
| st_intent: "sds_step s (setAxisIntent key intent s)"
| st_health: "(\<And>h. dh_device (fn h) = dh_device h) \<Longrightarrow>
     sds_step s (mutateDeviceHealth device fn s)"

inductive sds_reachable :: "SharedDriverState \<Rightarrow> bool" where
  sr_init: "sds_reachable empty_SharedDriverState"
| sr_step: "sds_reachable s \<Longrightarrow> sds_step s t \<Longrightarrow> sds_reachable t"

lemma sds_inv_empty: "sds_inv empty_SharedDriverState"
  by (simp add: sds_inv_def empty_SharedDriverState_def)

text \<open>The health map only grows.\<close>

definition health_grows :: "SharedDriverState \<Rightarrow> SharedDriverState \<Rightarrow> bool" where
  "health_grows s t \<longleftrightarrow> (\<forall>d x. sds_deviceHealth s d = Some x \<longrightarrow>
     (\<exists>y. sds_deviceHealth t d = Some y))"

lemma feedback_ok_grows: "feedback_ok s k f \<Longrightarrow> health_grows s t \<Longrightarrow> feedback_ok t k f"
  unfolding feedback_ok_def health_grows_def by blast

lemma sds_invD:
  assumes "sds_inv s"
  shows "sds_axisFeedback s k = Some f \<Longrightarrow> feedback_ok s k f"
    and "sds_axisCommands s k = Some c \<Longrightarrow> k = axisMapKey (ac_key c)"
    and "sds_deviceHealth s d = Some h \<Longrightarrow> dh_device h = d"
    and "dom (sds_axisCommands s) = dom (sds_axisFeedback s)"
    and "dom (sds_axisIntents s) = dom (sds_axisFeedback s)"
  using assms by (auto simp: sds_inv_def)

lemma health_grows_touch: "health_grows s (touchAxisLocked key s)"
  by (auto simp: health_grows_def touchAxisLocked_def map_modify_def map_at_def)

lemma sds_inv_touch:
  assumes inv: "sds_inv s"
  shows "sds_inv (touchAxisLocked key s)"
proof -
  let ?t = "touchAxisLocked key s"
  have fb: "feedback_ok ?t k f" if "sds_axisFeedback ?t k = Some f" for k f
  proof (cases "k = axisMapKey key \<and> sds_axisFeedback s k = None")
    case True
    with that have "f = default_feedback\<lparr>fb_key := key\<rparr>"
      by (auto simp: touchAxisLocked_def map_at_def)
    with True show ?thesis
      using sds_invD(3) [OF inv, of "ak_device key"]
      by (auto simp: feedback_ok_def default_feedback_def default_health_def touchAxisLocked_def
          kDefaultFeedbackDegradedTimeoutThreshold_def map_modify_def map_at_def split: option.splits)
  next
    case False
    with that obtain g where g: "sds_axisFeedback s k = Some g" and f: "f = g \<or> (f = g\<lparr>fb_key := key\<rparr> \<and> k = axisMapKey key)"
      by (cases "k = axisMapKey key") (auto simp: touchAxisLocked_def map_modify_def map_at_def)
    have ok: "feedback_ok ?t k g"
      using sds_invD(1) [OF inv g] health_grows_touch by (rule feedback_ok_grows)
    then have "k = axisMapKey (fb_key g)" by (simp add: feedback_ok_def)
    with f have "f = g" by auto
    with ok show ?thesis by simp
  qed
  moreover have "k = axisMapKey (ac_key c)" if "sds_axisCommands ?t k = Some c" for k c
    using that sds_invD(2) [OF inv] by (cases "k = axisMapKey key") (auto simp: touchAxisLocked_def map_modify_def)
  moreover have "dh_device h = d" if "sds_deviceHealth ?t d = Some h" for d h
    using that sds_invD(3) [OF inv, of d]
    by (cases "d = ak_device key")
      (auto simp: touchAxisLocked_def map_modify_def map_at_def default_health_def split: option.splits)
  ultimately show ?thesis
    using sds_invD(4,5) [OF inv] unfolding sds_inv_def by (auto simp: touchAxisLocked_def)
qed

lemma touch_entry:
  obtains f c i h where "sds_axisFeedback (touchAxisLocked key s) (axisMapKey key) = Some f" "fb_key f = key"
    "sds_axisCommands (touchAxisLocked key s) (axisMapKey key) = Some c" "ac_key c = key"
    "sds_axisIntents (touchAxisLocked key s) (axisMapKey key) = Some i"
    "sds_deviceHealth (touchAxisLocked key s) (ak_device key) = Some h"
proof -
  have "sds_axisFeedback (touchAxisLocked key s) (axisMapKey key) = Some ((map_at default_feedback (sds_axisFeedback s) (axisMapKey key))\<lparr>fb_key := key\<rparr>)"
    "sds_axisCommands (touchAxisLocked key s) (axisMapKey key) = Some ((map_at default_command (sds_axisCommands s) (axisMapKey key))\<lparr>ac_key := key\<rparr>)"
    "sds_axisIntents (touchAxisLocked key s) (axisMapKey key) \<noteq> None"
    "sds_deviceHealth (touchAxisLocked key s) (ak_device key) \<noteq> None"
    by (simp_all add: touchAxisLocked_def)
  then show thesis by (elim not_None_eq [THEN iffD1, elim_format] exE) (rule that, auto)
qed

text \<open>Replacing entries of a touched axis by entries that name the same axis.\<close>

lemma sds_inv_replace:
  assumes inv: "sds_inv s" and f: "sds_axisFeedback s (axisMapKey key) = Some f"
    and c': "ac_key c' = key"
  shows "sds_inv (s\<lparr>sds_axisCommands := (sds_axisCommands s)(axisMapKey key \<mapsto> c')\<rparr>)"
    and "sds_inv (s\<lparr>sds_axisIntents := (sds_axisIntents s)(axisMapKey key \<mapsto> i)\<rparr>)"
proof -
  have key: "axisMapKey key \<in> dom (sds_axisFeedback s)" using f by blast
  have ok: "feedback_ok (s\<lparr>sds_axisCommands := m\<rparr>) k g = feedback_ok s k g"
    "feedback_ok (s\<lparr>sds_axisIntents := n\<rparr>) k g = feedback_ok s k g" for k g m n
    by (simp_all add: feedback_ok_def)
  show "sds_inv (s\<lparr>sds_axisCommands := (sds_axisCommands s)(axisMapKey key \<mapsto> c')\<rparr>)"
    using inv key c' by (simp add: sds_inv_def ok insert_absorb)
  show "sds_inv (s\<lparr>sds_axisIntents := (sds_axisIntents s)(axisMapKey key \<mapsto> i)\<rparr>)"
    using inv key by (simp add: sds_inv_def ok insert_absorb)
qed

lemma sds_inv_setIntent: "sds_inv s \<Longrightarrow> sds_inv (setAxisIntent key i s)"
  by (rule touch_entry [of key s])
    (simp add: setAxisIntent_def Let_def sds_inv_replace(2) [OF sds_inv_touch])

lemma sds_inv_command:
  assumes inv: "sds_inv s" and fn: "\<And>c. ac_key (fn c) = ac_key c"
  shows "sds_inv (mutateAxisCommand key fn s)"
proof (rule touch_entry [of key s])
  fix f c
  assume "sds_axisFeedback (touchAxisLocked key s) (axisMapKey key) = Some f"
    "sds_axisCommands (touchAxisLocked key s) (axisMapKey key) = Some c" "ac_key c = key"
  then show ?thesis
    by (simp add: mutateAxisCommand_def Let_def map_modify_def fn sds_inv_replace(1) [OF sds_inv_touch [OF inv]])
qed

lemma sds_inv_health:
  assumes inv: "sds_inv s" and fn: "\<And>h. dh_device (fn h) = dh_device h"
  shows "sds_inv (mutateDeviceHealth d fn s)"
proof -
  have "health_grows s (mutateDeviceHealth d fn s)"
    by (auto simp: health_grows_def mutateDeviceHealth_def map_modify_def)
  with inv have "feedback_ok (mutateDeviceHealth d fn s) k f" if "sds_axisFeedback s k = Some f" for k f
    using that by (blast intro: feedback_ok_grows sds_invD(1))
  with inv fn show ?thesis
    unfolding sds_inv_def by (auto simp: mutateDeviceHealth_def map_modify_def)
qed

lemma sds_inv_feedback:
  assumes inv: "sds_inv s" and fn: "\<And>f. fb_key (fn f) = fb_key f"
  shows "sds_inv (mutateAxisFeedback key fn s)"
proof -
  let ?s1 = "touchAxisLocked key s" and ?t = "mutateAxisFeedback key fn s"
  from touch_entry [of key s] obtain f h where e:
    "sds_axisFeedback ?s1 (axisMapKey key) = Some f" "fb_key f = key"
    "sds_deviceHealth ?s1 (ak_device key) = Some h"
    by metis
  let ?st = "recomputeAxisObservedLocked (fn f)"
  have inv1: "sds_inv ?s1" using inv by (rule sds_inv_touch)
  have h0: "dh_device h = ak_device key" using sds_invD(3) [OF inv1 e(3)] .
  have grow: "health_grows ?s1 ?t"
    using e by (auto simp: health_grows_def mutateAxisFeedback_def Let_def)
  have new: "feedback_ok ?t (axisMapKey key) ?st"
    using e fn h0
    by (auto simp: feedback_ok_def mutateAxisFeedback_def Let_def recomputeAxisObservedLocked_def)
  have "feedback_ok ?t k g" if "sds_axisFeedback ?t k = Some g" for k g
  proof (cases "k = axisMapKey key")
    case True
    with that e new show ?thesis by (simp add: mutateAxisFeedback_def Let_def)
  next
    case False
    with that have "sds_axisFeedback ?s1 k = Some g" by (simp add: mutateAxisFeedback_def Let_def)
    from sds_invD(1) [OF inv1 this] grow show ?thesis by (rule feedback_ok_grows)
  qed
  with inv1 e h0 show ?thesis
    unfolding sds_inv_def by (auto simp: mutateAxisFeedback_def Let_def)
qed

lemma sds_step_inv: "sds_step s t \<Longrightarrow> sds_inv s \<Longrightarrow> sds_inv t"
  by (induction rule: sds_step.induct)
    (simp_all add: registerAxis_def sds_inv_touch sds_inv_setIntent sds_inv_command sds_inv_health sds_inv_feedback)

lemma sds_reachable_inv: "sds_reachable s \<Longrightarrow> sds_inv s"
  by (induction rule: sds_reachable.induct) (auto intro: sds_inv_empty sds_step_inv)

section \<open>Properties\<close>

text \<open>
  The composed string keys never confuse two axes: different device, protocol or motor id
  give different keys, whatever characters the device name has.
\<close>

lemma axisMapKey_inj: "inj axisMapKey"
  by (rule injI) simp

text \<open>
  Axes are isolated: what any run of feedback updates leaves at an axis is what the updates
  of that axis alone would have left, in their order.
\<close>

lemma feedback_updates_isolated:
  "getAxisFeedback (fold (\<lambda>(k, f). mutateAxisFeedback k f) us s) k =
   getAxisFeedback (fold (\<lambda>(k, f). mutateAxisFeedback k f) (filter (\<lambda>u. fst u = k) us) s) k"
  using fb.run_filter [of us s k] by (simp add: fb.run_def)

text \<open>
  Every state of the shared store that registrations, feedback, command, intent and health
  updates can reach is consistent: the three axis maps have the same keys, entries sit under
  their own key, an axis is degraded exactly from the third consecutive timeout on, and the
  device of every axis has a health entry under its name.
\<close>

lemma shared_state_invariant: "sds_reachable s \<Longrightarrow> sds_inv s"
  by (rule sds_reachable_inv)

lemma shared_state_invariant_witness:
  "sds_inv (mutateAxisFeedback (MakeAxisKey ''can0'' PP 5)
      (\<lambda>f. f\<lparr>fb_feedbackSeen := True, fb_lastRxSteadyNs := 7, fb_consecutiveTimeoutCount := 3\<rparr>)
      (setAxisIntent (MakeAxisKey ''can0'' MT 0x141) IntentRun
        (registerAxis (MakeAxisKey ''can0'' MT 0x141) empty_SharedDriverState)))"
  by (intro shared_state_invariant sr_step [OF _ st_feedback] sr_step [OF _ st_intent]
      sr_step [OF _ st_register] sr_init) simp

end
