(* ===== verification/Device_Runtime.thy ===== *)
theory Device_Runtime
  imports Shared_Driver_State "HOL-Library.Multiset"
begin

text \<open>
  \<open>DeviceRuntime.cpp\<close>: the transmit dispatcher of one CAN device.  Four bounded queues, one per
  category, are filled by \<open>submit\<close> and emptied by a worker thread in priority order; control
  frames of one CAN id replace each other while they wait.  The worker is a program counter in
  the state and a step per critical section, interleaved with the other operations by the
  relation \<open>rt_step\<close>; the transport's answers, the clock and the outcome of timed waits are
  the nondeterminism.
\<close>

section \<open>State\<close>

record Options =
  o_maxControlQueueDepth :: nat
  o_maxRecoverQueueDepth :: nat
  o_maxConfigQueueDepth :: nat
  o_maxQueryQueueDepth :: nat
  o_maxBackpressureRetries :: nat
  o_backpressureSleepUs :: int
  o_controlBurstCoalesceUs :: int
  o_controlInterFrameGapUs :: int
  o_autostart :: bool

definition default_Options :: Options where
  "default_Options = \<lparr>o_maxControlQueueDepth = 256, o_maxRecoverQueueDepth = 128, o_maxConfigQueueDepth = 128,
     o_maxQueryQueueDepth = 64, o_maxBackpressureRetries = 3, o_backpressureSleepUs = 500,
     o_controlBurstCoalesceUs = 500, o_controlInterFrameGapUs = 0, o_autostart = True\<rparr>"

text \<open>
  Where the worker thread is: not running, waiting for work, about to send a request it has
  popped, about to retake the lock after a send, in the coalescing wait, in the inter-frame
  sleep, or returned.  The number is the local \<open>consecutiveBackpressure\<close>.
\<close>

datatype worker =
  WNone | WWait nat | WSend request nat | WSent request nat | WCoalesce request nat | WGap request nat | WExit

text \<open>
  The counters are the atomics of the class.  \<open>rt_attempts\<close> are the frames handed to the
  transport with its answers and \<open>rt_completions\<close> the calls of completions, oldest first;
  \<open>rt_offered\<close> is the history of \<open>submit\<close>.  \<open>rt_undefined\<close> records a \<open>pop_front\<close> or
  \<open>front\<close> of an empty deque, which C++ leaves undefined.
\<close>

record DeviceRuntime =
  rt_transport :: bool
  rt_sharedState :: "SharedDriverState option"
  rt_deviceName :: string
  rt_options :: Options
  rt_controlQueue :: "request list"
  rt_recoverQueue :: "request list"
  rt_configQueue :: "request list"
  rt_queryQueue :: "request list"
  rt_started :: bool
  rt_stopRequested :: bool
  rt_sending :: bool
  rt_submittedCount :: u64
  rt_sentCount :: u64
  rt_sendBackpressureCount :: u64
  rt_sendLinkDownCount :: u64
  rt_sendErrorCount :: u64
  rt_droppedControlCount :: u64
  rt_droppedRecoverCount :: u64
  rt_droppedConfigCount :: u64
  rt_droppedQueryCount :: u64
  rt_evictedControlCount :: u64
  rt_worker :: worker
  rt_attempts :: "(request \<times> SendResult) list"
  rt_completions :: "(request \<times> bool \<times> SendResult \<times> time_ns) list"
  rt_offered :: "request list"
  rt_undefined :: bool

section \<open>Queues\<close>

definition allQueuesEmptyLocked :: "DeviceRuntime \<Rightarrow> bool" where
  "allQueuesEmptyLocked s \<longleftrightarrow> rt_controlQueue s = [] \<and> rt_recoverQueue s = [] \<and>
     rt_configQueue s = [] \<and> rt_queryQueue s = []"

fun queueFor :: "Category \<Rightarrow> DeviceRuntime \<Rightarrow> request list" where
  "queueFor Control s = rt_controlQueue s"
| "queueFor Recover s = rt_recoverQueue s"
| "queueFor Config s = rt_configQueue s"
| "queueFor Query s = rt_queryQueue s"

text \<open>\<open>queueFor(category).push_back(request)\<close>.\<close>

fun push_back :: "Category \<Rightarrow> request \<Rightarrow> DeviceRuntime \<Rightarrow> DeviceRuntime" where
  "push_back Control r s = s\<lparr>rt_controlQueue := rt_controlQueue s @ [r]\<rparr>"
| "push_back Recover r s = s\<lparr>rt_recoverQueue := rt_recoverQueue s @ [r]\<rparr>"
| "push_back Config r s = s\<lparr>rt_configQueue := rt_configQueue s @ [r]\<rparr>"
| "push_back Query r s = s\<lparr>rt_queryQueue := rt_queryQueue s @ [r]\<rparr>"

fun maxDepthFor :: "Category \<Rightarrow> Options \<Rightarrow> nat" where
  "maxDepthFor Control opts = o_maxControlQueueDepth opts"
| "maxDepthFor Recover opts = o_maxRecoverQueueDepth opts"
| "maxDepthFor Config opts = o_maxConfigQueueDepth opts"
| "maxDepthFor Query opts = o_maxQueryQueueDepth opts"

fun categoryName :: "Category \<Rightarrow> string" where
  "categoryName Control = ''control''"
| "categoryName Recover = ''recover''"
| "categoryName Config = ''config''"
| "categoryName Query = ''query''"

fun count_dropped :: "Category \<Rightarrow> DeviceRuntime \<Rightarrow> DeviceRuntime" where
  "count_dropped Control s = s\<lparr>rt_droppedControlCount := rt_droppedControlCount s + 1\<rparr>"
| "count_dropped Recover s = s\<lparr>rt_droppedRecoverCount := rt_droppedRecoverCount s + 1\<rparr>"
| "count_dropped Config s = s\<lparr>rt_droppedConfigCount := rt_droppedConfigCount s + 1\<rparr>"
| "count_dropped Query s = s\<lparr>rt_droppedQueryCount := rt_droppedQueryCount s + 1\<rparr>"

text \<open>The scan of \<open>enqueueControlLocked\<close>: overwrite the first entry of the same CAN id.\<close>

fun replace_same_id :: "request \<Rightarrow> request list \<Rightarrow> request list option" where
  "replace_same_id r [] = None"
| "replace_same_id r (queued # q) =
     (if fr_id (rq_frame queued) = fr_id (rq_frame r) then Some (r # q)
      else map_option ((#) queued) (replace_same_id r q))"

definition enqueueControlLocked :: "request \<Rightarrow> DeviceRuntime \<Rightarrow> DeviceRuntime" where
  "enqueueControlLocked r s =
     (case replace_same_id r (rt_controlQueue s) of
        Some q \<Rightarrow> s\<lparr>rt_controlQueue := q, rt_evictedControlCount := rt_evictedControlCount s + 1\<rparr>
      | None \<Rightarrow>
          let s1 = (if o_maxControlQueueDepth (rt_options s) \<le> length (rt_controlQueue s)
                    then s\<lparr>rt_controlQueue := tl (rt_controlQueue s),
                           rt_evictedControlCount := rt_evictedControlCount s + 1,
                           rt_undefined := rt_undefined s \<or> rt_controlQueue s = []\<rparr>
                    else s)
          in push_back Control r s1)"

definition enqueueLocked :: "request \<Rightarrow> DeviceRuntime \<Rightarrow> bool \<times> DeviceRuntime" where
  "enqueueLocked r s =
     (if rt_stopRequested s then (False, count_dropped (rq_category r) s)
      else if rq_category r = Control
      then let s1 = enqueueControlLocked r s in (True, s1\<lparr>rt_submittedCount := rt_submittedCount s1 + 1\<rparr>)
      else if maxDepthFor (rq_category r) (rt_options s) \<le> length (queueFor (rq_category r) s)
      then (False, count_dropped (rq_category r) s)
      else let s1 = push_back (rq_category r) r s in (True, s1\<lparr>rt_submittedCount := rt_submittedCount s1 + 1\<rparr>))"

definition complete :: "request \<Rightarrow> bool \<Rightarrow> SendResult \<Rightarrow> time_ns \<Rightarrow> DeviceRuntime \<Rightarrow> DeviceRuntime" where
  "complete r attempted res t s =
     (if rq_completion r = None then s
      else s\<lparr>rt_completions := rt_completions s @ [(r, attempted, res, t)]\<rparr>)"

definition completeDropped :: "time_ns \<Rightarrow> request \<Rightarrow> DeviceRuntime \<Rightarrow> DeviceRuntime" where
  "completeDropped now r s = complete r False SendError now s"

definition submit :: "time_ns \<Rightarrow> request \<Rightarrow> DeviceRuntime \<Rightarrow> DeviceRuntime" where
  "submit now r s =
     (let (accepted, s1) = enqueueLocked r (s\<lparr>rt_offered := rt_offered s @ [r]\<rparr>)
      in if \<not> accepted then completeDropped now r s1 else s1)"

text \<open>Each queue is tried in turn; the result is the popped request.\<close>

definition popNextLocked :: "DeviceRuntime \<Rightarrow> (request \<times> DeviceRuntime) option" where
  "popNextLocked s =
     (case rt_controlQueue s of r # q \<Rightarrow> Some (r, s\<lparr>rt_controlQueue := q\<rparr>)
      | [] \<Rightarrow> (case rt_recoverQueue s of r # q \<Rightarrow> Some (r, s\<lparr>rt_recoverQueue := q\<rparr>)
      | [] \<Rightarrow> (case rt_configQueue s of r # q \<Rightarrow> Some (r, s\<lparr>rt_configQueue := q\<rparr>)
      | [] \<Rightarrow> (case rt_queryQueue s of r # q \<Rightarrow> Some (r, s\<lparr>rt_queryQueue := q\<rparr>)
      | [] \<Rightarrow> None))))"

section \<open>Life cycle and settings\<close>

definition start :: "DeviceRuntime \<Rightarrow> DeviceRuntime" where
  "start s = (if rt_started s then s
     else s\<lparr>rt_stopRequested := False, rt_started := True, rt_worker := WWait 0\<rparr>)"

definition new_runtime :: "bool \<Rightarrow> string \<Rightarrow> Options \<Rightarrow> DeviceRuntime" where
  "new_runtime transport deviceName options =
     (let s = \<lparr>rt_transport = transport, rt_sharedState = None, rt_deviceName = deviceName,
        rt_options = options, rt_controlQueue = [], rt_recoverQueue = [], rt_configQueue = [],
        rt_queryQueue = [], rt_started = False, rt_stopRequested = False, rt_sending = False,
        rt_submittedCount = 0, rt_sentCount = 0, rt_sendBackpressureCount = 0,
        rt_sendLinkDownCount = 0, rt_sendErrorCount = 0, rt_droppedControlCount = 0,
        rt_droppedRecoverCount = 0, rt_droppedConfigCount = 0, rt_droppedQueryCount = 0,
        rt_evictedControlCount = 0, rt_worker = WNone, rt_attempts = [], rt_completions = [],
        rt_offered = [], rt_undefined = False\<rparr>
      in if o_autostart options then start s else s)"

definition setSharedDriverState :: "SharedDriverState option \<Rightarrow> DeviceRuntime \<Rightarrow> DeviceRuntime" where
  "setSharedDriverState sharedState s = s\<lparr>rt_sharedState := sharedState\<rparr>"

definition setControlInterFrameGapUs :: "u32 \<Rightarrow> DeviceRuntime \<Rightarrow> DeviceRuntime" where
  "setControlInterFrameGapUs gapUs s =
     s\<lparr>rt_options := (rt_options s)\<lparr>o_controlInterFrameGapUs := uint gapUs\<rparr>\<rparr>"

text \<open>\<open>shutdown\<close> asks the worker to stop, joins it, and then resets the flags.\<close>

definition shutdown_begin :: "DeviceRuntime \<Rightarrow> DeviceRuntime" where
  "shutdown_begin s = s\<lparr>rt_stopRequested := True\<rparr>"

definition joinable :: "DeviceRuntime \<Rightarrow> bool" where
  "joinable s \<longleftrightarrow> rt_worker s \<noteq> WNone"

definition shutdown_end :: "DeviceRuntime \<Rightarrow> DeviceRuntime" where
  "shutdown_end s = s\<lparr>rt_started := False, rt_sending := False, rt_worker := WNone\<rparr>"

text \<open>The predicate \<open>waitUntilIdleFor\<close> waits for.\<close>

definition idle :: "DeviceRuntime \<Rightarrow> bool" where
  "idle s \<longleftrightarrow> allQueuesEmptyLocked s \<and> \<not> rt_sending s"

section \<open>Statistics\<close>

record Stats =
  st_submitted :: u64
  st_sent :: u64
  st_sendBackpressure :: u64
  st_sendLinkDown :: u64
  st_sendError :: u64
  st_droppedControl :: u64
  st_droppedRecover :: u64
  st_droppedConfig :: u64
  st_droppedQuery :: u64
  st_evictedControl :: u64
  st_pendingControl :: nat
  st_pendingRecover :: nat
  st_pendingConfig :: nat
  st_pendingQuery :: nat
  st_pendingTotal :: nat
  st_workerRunning :: bool

definition snapshotStats :: "DeviceRuntime \<Rightarrow> Stats" where
  "snapshotStats s =
     (let pendingControl = length (rt_controlQueue s); pendingRecover = length (rt_recoverQueue s);
          pendingConfig = length (rt_configQueue s); pendingQuery = length (rt_queryQueue s)
      in \<lparr>st_submitted = rt_submittedCount s, st_sent = rt_sentCount s,
          st_sendBackpressure = rt_sendBackpressureCount s, st_sendLinkDown = rt_sendLinkDownCount s,
          st_sendError = rt_sendErrorCount s, st_droppedControl = rt_droppedControlCount s,
          st_droppedRecover = rt_droppedRecoverCount s, st_droppedConfig = rt_droppedConfigCount s,
          st_droppedQuery = rt_droppedQueryCount s, st_evictedControl = rt_evictedControlCount s,
          st_pendingControl = pendingControl, st_pendingRecover = pendingRecover,
          st_pendingConfig = pendingConfig, st_pendingQuery = pendingQuery,
          st_pendingTotal = pendingControl + pendingRecover + pendingConfig + pendingQuery,
          st_workerRunning = (rt_started s \<and> \<not> rt_stopRequested s)\<rparr>)"

section \<open>The worker\<close>

fun note_send_result :: "time_ns \<Rightarrow> SendResult \<Rightarrow> DeviceHealthState \<Rightarrow> DeviceHealthState" where
  "note_send_result now SendOk h = h"
| "note_send_result now SendBackpressure h = h\<lparr>dh_txBackpressure := dh_txBackpressure h + 1\<rparr>"
| "note_send_result now SendLinkDown h =
     h\<lparr>dh_txLinkUnavailable := dh_txLinkUnavailable h + 1, dh_transportReady := False,
       dh_lastTxLinkUnavailableSteadyNs := now\<rparr>"
| "note_send_result now SendError h = h\<lparr>dh_txError := dh_txError h + 1\<rparr>"

definition noteSharedSendResult :: "time_ns \<Rightarrow> SendResult \<Rightarrow> DeviceRuntime \<Rightarrow> DeviceRuntime" where
  "noteSharedSendResult now res s =
     (case rt_sharedState s of
        None \<Rightarrow> s
      | Some shared \<Rightarrow>
          if rt_deviceName s = [] \<or> res = SendOk then s
          else s\<lparr>rt_sharedState := Some (mutateDeviceHealth (rt_deviceName s) (note_send_result now res) shared)\<rparr>)"

fun count_result :: "SendResult \<Rightarrow> DeviceRuntime \<Rightarrow> DeviceRuntime" where
  "count_result SendOk s = s\<lparr>rt_sentCount := rt_sentCount s + 1\<rparr>"
| "count_result SendBackpressure s = s\<lparr>rt_sendBackpressureCount := rt_sendBackpressureCount s + 1\<rparr>"
| "count_result SendLinkDown s = s\<lparr>rt_sendLinkDownCount := rt_sendLinkDownCount s + 1\<rparr>"
| "count_result SendError s = s\<lparr>rt_sendErrorCount := rt_sendErrorCount s + 1\<rparr>"

definition next_backpressure :: "Options \<Rightarrow> SendResult \<Rightarrow> nat \<Rightarrow> nat" where
  "next_backpressure opts res n =
     (if res = SendBackpressure then (if o_maxBackpressureRetries opts \<le> n + 1 then 0 else n + 1) else 0)"

text \<open>The outer loop's critical section.\<close>

definition worker_wait :: "nat \<Rightarrow> DeviceRuntime \<Rightarrow> DeviceRuntime" where
  "worker_wait n s =
     (if \<not> (rt_stopRequested s \<or> \<not> allQueuesEmptyLocked s) then s
      else if rt_stopRequested s \<and> allQueuesEmptyLocked s then s\<lparr>rt_sending := False, rt_worker := WExit\<rparr>
      else case popNextLocked s of
        None \<Rightarrow> s
      | Some (r, s1) \<Rightarrow> s1\<lparr>rt_sending := True, rt_worker := WSend r n\<rparr>)"

text \<open>Send, completion, counters and shared health; without a transport the result is \<open>Error\<close>.\<close>

definition worker_send :: "time_ns \<Rightarrow> SendResult \<Rightarrow> request \<Rightarrow> nat \<Rightarrow> DeviceRuntime \<Rightarrow> DeviceRuntime" where
  "worker_send now answer r n s =
     (let res = (if rt_transport s then answer else SendError);
          s1 = (if rt_transport s then s\<lparr>rt_attempts := rt_attempts s @ [(r, answer)]\<rparr> else s);
          s2 = noteSharedSendResult now res (count_result res (complete r True res now s1))
      in s2\<lparr>rt_worker := WSent r (next_backpressure (rt_options s) res n)\<rparr>)"

definition take_control :: "nat \<Rightarrow> DeviceRuntime \<Rightarrow> DeviceRuntime" where
  "take_control n s =
     (case rt_controlQueue s of
        [] \<Rightarrow> s\<lparr>rt_undefined := True\<rparr>
      | r # q \<Rightarrow> s\<lparr>rt_controlQueue := q, rt_worker := WSend r n\<rparr>)"

text \<open>From the end of the coalescing wait to the next send of the inner loop, or out of it.\<close>

definition worker_continue :: "request \<Rightarrow> nat \<Rightarrow> DeviceRuntime \<Rightarrow> DeviceRuntime" where
  "worker_continue r n s =
     (if rt_controlQueue s = [] then s\<lparr>rt_sending := False, rt_worker := WWait n\<rparr>
      else if rq_category r = Control \<and> 0 < o_controlInterFrameGapUs (rt_options s) then s\<lparr>rt_worker := WGap r n\<rparr>
      else take_control n s)"

definition worker_sent :: "request \<Rightarrow> nat \<Rightarrow> DeviceRuntime \<Rightarrow> DeviceRuntime" where
  "worker_sent r n s =
     (if rt_controlQueue s = [] \<and> rq_category r = Control \<and> 0 < o_controlBurstCoalesceUs (rt_options s)
      then s\<lparr>rt_worker := WCoalesce r n\<rparr>
      else worker_continue r n s)"

text \<open>One step of the worker thread, with the clock and the transport's answer.\<close>

definition worker_step :: "time_ns \<Rightarrow> SendResult \<Rightarrow> DeviceRuntime \<Rightarrow> DeviceRuntime" where
  "worker_step now answer s =
     (case rt_worker s of
        WNone \<Rightarrow> s
      | WWait n \<Rightarrow> worker_wait n s
      | WSend r n \<Rightarrow> worker_send now answer r n s
      | WSent r n \<Rightarrow> worker_sent r n s
      | WCoalesce r n \<Rightarrow> worker_continue r n s
      | WGap r n \<Rightarrow> take_control n s
      | WExit \<Rightarrow> s)"

section \<open>Interleavings\<close>

inductive rt_step :: "DeviceRuntime \<Rightarrow> DeviceRuntime \<Rightarrow> bool" where
  rs_submit: "rt_step s (submit now r s)"
| rs_worker: "rt_step s (worker_step now answer s)"
| rs_start: "rt_step s (start s)"
| rs_shutdown_begin: "rt_step s (shutdown_begin s)"
| rs_shutdown_end: "rt_stopRequested s \<Longrightarrow> rt_worker s \<in> {WNone, WExit} \<Longrightarrow> rt_step s (shutdown_end s)"
| rs_shared: "rt_step s (setSharedDriverState shared s)"
| rs_gap: "rt_step s (setControlInterFrameGapUs gapUs s)"

inductive rt_reachable :: "DeviceRuntime \<Rightarrow> bool" where
  rr_new: "0 < o_maxControlQueueDepth options \<Longrightarrow> rt_reachable (new_runtime transport deviceName options)"
| rr_step: "rt_reachable s \<Longrightarrow> rt_step s t \<Longrightarrow> rt_reachable t"

inductive_cases rt_stepE: "rt_step s t"

section \<open>The control queue\<close>

abbreviation can_id :: "request \<Rightarrow> u32" where
  "can_id r \<equiv> fr_id (rq_frame r)"

lemma replace_same_id_None: "replace_same_id r q = None \<longleftrightarrow> can_id r \<notin> can_id ` set q"
  by (induction q) auto

lemma replace_same_id_Some:
  "replace_same_id r q = Some q' \<Longrightarrow>
     map can_id q' = map can_id q \<and> length q' = length q \<and> set q' \<subseteq> insert r (set q) \<and> r \<in> set q'"
  by (induction q arbitrary: q') (auto split: if_splits)

text \<open>The queue as the map from CAN ids to the request waiting under each.\<close>

definition waiting :: "request list \<Rightarrow> u32 \<rightharpoonup> request" where
  "waiting q = map_of (map (\<lambda>r. (can_id r, r)) q)"

lemma waiting_simps [simp]: "waiting [] = Map.empty" "waiting (r # q) = (waiting q)(can_id r \<mapsto> r)"
  by (simp_all add: waiting_def)

lemma waiting_snoc: "can_id r \<notin> can_id ` set q \<Longrightarrow> waiting (q @ [r]) = (waiting q)(can_id r \<mapsto> r)"
  by (induction q) (auto simp: fun_upd_twist)

lemma waiting_None: "waiting q i = None \<longleftrightarrow> i \<notin> can_id ` set q"
  by (induction q) auto

lemma waiting_replace:
  "replace_same_id r q = Some q' \<Longrightarrow> waiting q' = (waiting q)(can_id r \<mapsto> r)"
  by (induction q arbitrary: q') (auto split: if_splits simp: fun_upd_twist)

lemma waiting_tl:
  assumes "distinct (map can_id q)" and "q \<noteq> []"
  shows "waiting (tl q) = (waiting q)(can_id (hd q) := None)"
  using assms waiting_None [of "tl q" "can_id (hd q)"] by (cases q) (auto simp: fun_eq_iff)

lemma enqueueControl_waiting:
  assumes d: "distinct (map can_id (rt_controlQueue s))" and pos: "0 < o_maxControlQueueDepth (rt_options s)"
  shows "waiting (rt_controlQueue (enqueueControlLocked r s)) =
    (if can_id r \<in> can_id ` set (rt_controlQueue s) \<or> length (rt_controlQueue s) < o_maxControlQueueDepth (rt_options s)
     then (waiting (rt_controlQueue s))(can_id r \<mapsto> r)
     else (waiting (rt_controlQueue s))(can_id (hd (rt_controlQueue s)) := None, can_id r \<mapsto> r))"
proof (cases "replace_same_id r (rt_controlQueue s)")
  case None
  then have new: "can_id r \<notin> can_id ` set (rt_controlQueue s)" by (simp add: replace_same_id_None)
  show ?thesis
  proof (cases "length (rt_controlQueue s) < o_maxControlQueueDepth (rt_options s)")
    case True
    with None new show ?thesis by (simp add: enqueueControlLocked_def waiting_snoc)
  next
    case False
    with pos have ne: "rt_controlQueue s \<noteq> []" by auto
    then have "can_id r \<notin> can_id ` set (tl (rt_controlQueue s))" using new list.set_sel(2) by fastforce
    with waiting_tl [OF d ne] None new False show ?thesis
      by (simp add: enqueueControlLocked_def waiting_snoc)
  qed
next
  case (Some q)
  then have "can_id r \<in> can_id ` set (rt_controlQueue s)"
    by (metis option.distinct(1) replace_same_id_None)
  with Some show ?thesis by (simp add: enqueueControlLocked_def waiting_replace)
qed

section \<open>Invariants\<close>

definition in_hand :: "DeviceRuntime \<Rightarrow> request list" where
  "in_hand s = (case rt_worker s of WSend r n \<Rightarrow> [r] | _ \<Rightarrow> [])"

definition pending :: "DeviceRuntime \<Rightarrow> request list" where
  "pending s = rt_controlQueue s @ rt_recoverQueue s @ rt_configQueue s @ rt_queryQueue s"

text \<open>Bounded queues that hold their own category, at most one control request per CAN id.\<close>

definition queues_ok :: "DeviceRuntime \<Rightarrow> bool" where
  "queues_ok s \<longleftrightarrow> 0 < o_maxControlQueueDepth (rt_options s) \<and> distinct (map can_id (rt_controlQueue s)) \<and>
     (\<forall>c. length (queueFor c s) \<le> maxDepthFor c (rt_options s) \<and> rq_category ` set (queueFor c s) \<subseteq> {c})"

text \<open>No undefined deque access, and the flags agree with where the worker is.\<close>

definition worker_ok :: "DeviceRuntime \<Rightarrow> bool" where
  "worker_ok s \<longleftrightarrow> \<not> rt_undefined s \<and>
     (case rt_worker s of
        WNone \<Rightarrow> \<not> rt_started s \<and> \<not> rt_sending s
      | WWait n \<Rightarrow> rt_started s \<and> \<not> rt_sending s
      | WExit \<Rightarrow> rt_started s \<and> \<not> rt_sending s \<and> rt_stopRequested s \<and> pending s = []
      | WGap r n \<Rightarrow> rt_started s \<and> rt_sending s \<and> rt_controlQueue s \<noteq> []
      | _ \<Rightarrow> rt_started s \<and> rt_sending s)"

text \<open>Every accepted request is sent, failed, evicted, waiting or in the worker's hand.\<close>

definition conserved :: "DeviceRuntime \<Rightarrow> bool" where
  "conserved s \<longleftrightarrow> rt_submittedCount s =
     rt_sentCount s + rt_sendBackpressureCount s + rt_sendLinkDownCount s + rt_sendErrorCount s +
     rt_evictedControlCount s + of_nat (length (pending s) + length (in_hand s))"

text \<open>Requests other than control whose submitter waits for an answer.\<close>

definition tracked :: "request \<Rightarrow> bool" where
  "tracked r \<longleftrightarrow> rq_category r \<noteq> Control \<and> rq_completion r \<noteq> None"

definition answered :: "DeviceRuntime \<Rightarrow> bool" where
  "answered s \<longleftrightarrow> mset (filter tracked (rt_offered s)) =
     mset (filter tracked (map fst (rt_completions s))) + mset (filter tracked (pending s @ in_hand s))"

lemma queues_okD:
  assumes "queues_ok s"
  shows "0 < o_maxControlQueueDepth (rt_options s)" "distinct (map can_id (rt_controlQueue s))"
    "length (queueFor c s) \<le> maxDepthFor c (rt_options s)"
    "r \<in> set (queueFor c s) \<Longrightarrow> rq_category r = c"
  using assms by (auto simp: queues_ok_def image_subset_iff)

lemma all_categories: "(\<forall>c. P c) \<longleftrightarrow> P Control \<and> P Recover \<and> P Config \<and> P Query"
  by (metis Category.exhaust)

lemma queues_ok_cong:
  assumes "rt_options t = rt_options s" "rt_controlQueue t = rt_controlQueue s" "rt_recoverQueue t = rt_recoverQueue s"
    "rt_configQueue t = rt_configQueue s" "rt_queryQueue t = rt_queryQueue s"
  shows "queues_ok t = queues_ok s"
  using assms by (simp add: queues_ok_def all_categories)

lemma pushed_queues [queue_simps]:
  "rt_controlQueue (push_back c r s) = (if c = Control then rt_controlQueue s @ [r] else rt_controlQueue s)"
  "rt_recoverQueue (push_back c r s) = (if c = Recover then rt_recoverQueue s @ [r] else rt_recoverQueue s)"
  "rt_configQueue (push_back c r s) = (if c = Config then rt_configQueue s @ [r] else rt_configQueue s)"
  "rt_queryQueue (push_back c r s) = (if c = Query then rt_queryQueue s @ [r] else rt_queryQueue s)"
  "rt_options (push_back c r s) = rt_options s"
  by (cases c; simp)+

lemma enqueueControl_queue:
  assumes ok: "queues_ok s" and c: "rq_category r = Control"
  defines "q \<equiv> rt_controlQueue (enqueueControlLocked r s)"
  shows "distinct (map can_id q)" "length q \<le> o_maxControlQueueDepth (rt_options s)"
    "rq_category ` set q \<subseteq> {Control}" "q \<noteq> []"
proof -
  note d = queues_okD(2) [OF ok] and l = queues_okD(3) [OF ok, of Control] and p = queues_okD(1) [OF ok]
  have cats: "rq_category ` set (rt_controlQueue s) \<subseteq> {Control}"
    using queues_okD(4) [OF ok, of _ Control] by auto
  have "distinct (map can_id q) \<and> length q \<le> o_maxControlQueueDepth (rt_options s) \<and> rq_category ` set q \<subseteq> {Control} \<and> q \<noteq> []"
  proof (cases "replace_same_id r (rt_controlQueue s)")
    case (Some q')
    from replace_same_id_Some [OF Some] Some d l cats c show ?thesis
      unfolding q_def by (auto simp: enqueueControlLocked_def)
  next
    case None
    let ?t = "if o_maxControlQueueDepth (rt_options s) \<le> length (rt_controlQueue s) then tl (rt_controlQueue s) else rt_controlQueue s"
    have q: "q = ?t @ [r]" using None by (simp add: q_def enqueueControlLocked_def Let_def)
    have sub: "set ?t \<subseteq> set (rt_controlQueue s)" by (cases "rt_controlQueue s") auto
    have "distinct (map can_id ?t)" using d by (simp add: distinct_tl map_tl)
    moreover have "can_id r \<notin> can_id ` set ?t" using None sub by (auto simp: replace_same_id_None)
    moreover have "length ?t < o_maxControlQueueDepth (rt_options s)" using l p by auto
    moreover have "rq_category ` set ?t \<subseteq> {Control}" using sub cats by blast
    ultimately show ?thesis using c unfolding q by auto
  qed
  then show "distinct (map can_id q)" "length q \<le> o_maxControlQueueDepth (rt_options s)"
    "rq_category ` set q \<subseteq> {Control}" "q \<noteq> []" by auto
qed

lemma enqueueControl_frame [simp]:
  "rt_recoverQueue (enqueueControlLocked r s) = rt_recoverQueue s"
  "rt_configQueue (enqueueControlLocked r s) = rt_configQueue s"
  "rt_queryQueue (enqueueControlLocked r s) = rt_queryQueue s"
  "rt_options (enqueueControlLocked r s) = rt_options s"
  "rt_worker (enqueueControlLocked r s) = rt_worker s"
  "rt_started (enqueueControlLocked r s) = rt_started s"
  "rt_sending (enqueueControlLocked r s) = rt_sending s"
  "rt_stopRequested (enqueueControlLocked r s) = rt_stopRequested s"
  "rt_completions (enqueueControlLocked r s) = rt_completions s"
  "rt_offered (enqueueControlLocked r s) = rt_offered s"
  "rt_submittedCount (enqueueControlLocked r s) = rt_submittedCount s"
  "rt_sentCount (enqueueControlLocked r s) = rt_sentCount s"
  "rt_sendBackpressureCount (enqueueControlLocked r s) = rt_sendBackpressureCount s"
  "rt_sendLinkDownCount (enqueueControlLocked r s) = rt_sendLinkDownCount s"
  "rt_sendErrorCount (enqueueControlLocked r s) = rt_sendErrorCount s"
  by (simp_all add: enqueueControlLocked_def Let_def split: option.splits)

text \<open>The eviction counter moves by one exactly when the queue does not grow.\<close>

lemma enqueueControl_evicts:
  assumes "queues_ok s"
  shows "rt_evictedControlCount (enqueueControlLocked r s) + of_nat (length (rt_controlQueue (enqueueControlLocked r s))) =
     rt_evictedControlCount s + of_nat (length (rt_controlQueue s)) + 1"
    and "rt_undefined (enqueueControlLocked r s) = rt_undefined s"
proof -
  have ne: "o_maxControlQueueDepth (rt_options s) \<le> length (rt_controlQueue s) \<Longrightarrow> rt_controlQueue s \<noteq> []"
    using queues_okD(1) [OF assms] by auto
  then have len: "o_maxControlQueueDepth (rt_options s) \<le> length (rt_controlQueue s) \<Longrightarrow>
     1 + of_nat (length (tl (rt_controlQueue s))) = (of_nat (length (rt_controlQueue s)) :: u64)"
    by (cases "rt_controlQueue s") simp_all
  show "rt_evictedControlCount (enqueueControlLocked r s) + of_nat (length (rt_controlQueue (enqueueControlLocked r s))) =
     rt_evictedControlCount s + of_nat (length (rt_controlQueue s)) + 1"
  proof (cases "replace_same_id r (rt_controlQueue s)")
    case None
    then show ?thesis using len by (auto simp: enqueueControlLocked_def Let_def algebra_simps)
  next
    case (Some q)
    with replace_same_id_Some [OF Some] show ?thesis by (simp add: enqueueControlLocked_def)
  qed
  show "rt_undefined (enqueueControlLocked r s) = rt_undefined s"
    using ne by (auto simp: enqueueControlLocked_def Let_def split: option.splits)
qed

section \<open>Submission keeps the invariants\<close>

definition rt_inv :: "DeviceRuntime \<Rightarrow> bool" where
  "rt_inv s \<longleftrightarrow> queues_ok s \<and> worker_ok s \<and> conserved s \<and> answered s"

lemma submit_cases:
  assumes s0_def: "s0 = s\<lparr>rt_offered := rt_offered s @ [r]\<rparr>"
  obtains (dropped) "submit now r s = complete r False SendError now (count_dropped (rq_category r) s0)"
      "rt_stopRequested s \<or> rq_category r \<noteq> Control"
  | (control) "submit now r s = (enqueueControlLocked r s0)\<lparr>rt_submittedCount := rt_submittedCount s + 1\<rparr>"
      "\<not> rt_stopRequested s" "rq_category r = Control"
  | (pushed) "submit now r s = (push_back (rq_category r) r s0)\<lparr>rt_submittedCount := rt_submittedCount s + 1\<rparr>"
      "\<not> rt_stopRequested s" "rq_category r \<noteq> Control"
      "length (queueFor (rq_category r) s) < maxDepthFor (rq_category r) (rt_options s)"
proof -
  have q0: "queueFor c s0 = queueFor c s" for c by (cases c) (simp_all add: s0_def)
  have p0: "rt_submittedCount (push_back c r s0) = rt_submittedCount s" for c by (cases c) (simp_all add: s0_def)
  show thesis
  proof (cases "rt_stopRequested s \<or> (rq_category r \<noteq> Control \<and>
      maxDepthFor (rq_category r) (rt_options s) \<le> length (queueFor (rq_category r) s))")
    case True
    then show thesis
      by (intro dropped) (auto simp: submit_def enqueueLocked_def completeDropped_def q0 simp flip: s0_def, simp_all add: s0_def)
  next
    case False
    show thesis
    proof (cases "rq_category r = Control")
      case True
      with False show thesis
        by (intro control) (auto simp: submit_def enqueueLocked_def Let_def simp flip: s0_def, simp_all add: s0_def)
    next
      case nc: False
      with False show thesis
        by (intro pushed) (auto simp: submit_def enqueueLocked_def Let_def q0 p0 simp flip: s0_def, simp_all add: s0_def)
    qed
  qed
qed

lemma count_dropped_frame [simp]:
  "rt_controlQueue (count_dropped c s) = rt_controlQueue s" "rt_recoverQueue (count_dropped c s) = rt_recoverQueue s"
  "rt_configQueue (count_dropped c s) = rt_configQueue s" "rt_queryQueue (count_dropped c s) = rt_queryQueue s"
  "rt_options (count_dropped c s) = rt_options s" "rt_worker (count_dropped c s) = rt_worker s"
  "rt_started (count_dropped c s) = rt_started s" "rt_sending (count_dropped c s) = rt_sending s"
  "rt_stopRequested (count_dropped c s) = rt_stopRequested s" "rt_undefined (count_dropped c s) = rt_undefined s"
  "rt_completions (count_dropped c s) = rt_completions s" "rt_offered (count_dropped c s) = rt_offered s"
  "rt_submittedCount (count_dropped c s) = rt_submittedCount s" "rt_sentCount (count_dropped c s) = rt_sentCount s"
  "rt_sendBackpressureCount (count_dropped c s) = rt_sendBackpressureCount s"
  "rt_sendLinkDownCount (count_dropped c s) = rt_sendLinkDownCount s"
  "rt_sendErrorCount (count_dropped c s) = rt_sendErrorCount s"
  "rt_evictedControlCount (count_dropped c s) = rt_evictedControlCount s"
  by (cases c; simp)+

lemma complete_frame [simp]:
  "rt_controlQueue (complete r a x t s) = rt_controlQueue s" "rt_recoverQueue (complete r a x t s) = rt_recoverQueue s"
  "rt_configQueue (complete r a x t s) = rt_configQueue s" "rt_queryQueue (complete r a x t s) = rt_queryQueue s"
  "rt_options (complete r a x t s) = rt_options s" "rt_worker (complete r a x t s) = rt_worker s"
  "rt_started (complete r a x t s) = rt_started s" "rt_sending (complete r a x t s) = rt_sending s"
  "rt_stopRequested (complete r a x t s) = rt_stopRequested s" "rt_undefined (complete r a x t s) = rt_undefined s"
  "rt_offered (complete r a x t s) = rt_offered s"
  "rt_submittedCount (complete r a x t s) = rt_submittedCount s" "rt_sentCount (complete r a x t s) = rt_sentCount s"
  "rt_sendBackpressureCount (complete r a x t s) = rt_sendBackpressureCount s"
  "rt_sendLinkDownCount (complete r a x t s) = rt_sendLinkDownCount s"
  "rt_sendErrorCount (complete r a x t s) = rt_sendErrorCount s"
  "rt_evictedControlCount (complete r a x t s) = rt_evictedControlCount s"
  by (simp_all add: complete_def)

lemma tracked_completions [simp]:
  "filter tracked (map fst (rt_completions (complete r a x t s))) =
     filter tracked (map fst (rt_completions s)) @ filter tracked [r]"
  by (simp add: complete_def tracked_def)

lemma tracked_completions_mset [simp]:
  "filter_mset tracked (image_mset fst (mset (rt_completions (complete r a x t s)))) =
     filter_mset tracked (image_mset fst (mset (rt_completions s))) + (if tracked r then {#r#} else {#})"
  by (simp add: complete_def tracked_def)

lemma push_back_frame [simp]:
  "rt_worker (push_back c r s) = rt_worker s" "rt_started (push_back c r s) = rt_started s"
  "rt_sending (push_back c r s) = rt_sending s" "rt_stopRequested (push_back c r s) = rt_stopRequested s"
  "rt_undefined (push_back c r s) = rt_undefined s" "rt_completions (push_back c r s) = rt_completions s"
  "rt_offered (push_back c r s) = rt_offered s" "rt_submittedCount (push_back c r s) = rt_submittedCount s"
  "rt_sentCount (push_back c r s) = rt_sentCount s" "rt_sendBackpressureCount (push_back c r s) = rt_sendBackpressureCount s"
  "rt_sendLinkDownCount (push_back c r s) = rt_sendLinkDownCount s" "rt_sendErrorCount (push_back c r s) = rt_sendErrorCount s"
  "rt_evictedControlCount (push_back c r s) = rt_evictedControlCount s"
  by (cases c; simp)+

lemma mset_pending_push: "mset (pending (push_back c r s)) = add_mset r (mset (pending s))"
  by (cases c) (simp_all add: pending_def)

lemma tracked_control_empty: "queues_ok s \<Longrightarrow> filter tracked (rt_controlQueue s) = []"
  using queues_okD(4) [of s _ Control] by (auto simp: filter_empty_conv tracked_def)

lemma queues_ok_offered [simp]: "queues_ok (s\<lparr>rt_offered := x\<rparr>) = queues_ok s"
  by (rule queues_ok_cong) simp_all

lemma submit_inv:
  assumes inv: "rt_inv s"
  shows "rt_inv (submit now r s)"
proof -
  define s0 where "s0 = s\<lparr>rt_offered := rt_offered s @ [r]\<rparr>"
  from inv have ok: "queues_ok s" and ok0: "queues_ok s0" and w: "worker_ok s" and c: "conserved s" and a: "answered s"
    by (simp_all add: rt_inv_def s0_def)
  show ?thesis
  proof (cases rule: submit_cases [OF s0_def, of now, case_names dropped control pushed])
    case dropped
    have "queues_ok (submit now r s) = queues_ok s"
      by (rule queues_ok_cong) (simp_all add: dropped s0_def)
    moreover have "worker_ok (submit now r s)"
      using w by (simp add: dropped worker_ok_def pending_def s0_def split: worker.splits)
    moreover have "conserved (submit now r s)"
      using c by (simp add: dropped conserved_def pending_def in_hand_def s0_def)
    moreover have "answered (submit now r s)"
      using a by (simp add: dropped answered_def pending_def in_hand_def s0_def)
    ultimately show ?thesis using ok by (simp add: rt_inv_def)
  next
    case control
    note e = enqueueControl_queue [OF ok0 control(3)] and ev = enqueueControl_evicts [OF ok0, of r]
    have "queues_ok (submit now r s)"
      using ok e by (simp add: control(1) queues_ok_def all_categories s0_def)
    moreover have "worker_ok (submit now r s)"
      using w e ev control(2) by (simp add: control(1) worker_ok_def s0_def split: worker.splits)
    moreover have "conserved (submit now r s)"
      using c ev(1) by (simp add: control(1) conserved_def pending_def in_hand_def s0_def algebra_simps)
    moreover have "answered (submit now r s)"
      using a control(3) tracked_control_empty [OF ok] tracked_control_empty [of "submit now r s"] \<open>queues_ok (submit now r s)\<close>
      by (simp add: control(1) answered_def pending_def in_hand_def s0_def tracked_def)
    ultimately show ?thesis by (simp add: rt_inv_def)
  next
    case pushed
    have "queues_ok (submit now r s)"
      using ok pushed(3,4)
      by (cases "rq_category r") (auto simp: pushed(1) queues_ok_def all_categories s0_def)
    moreover have "worker_ok (submit now r s)"
      using w pushed(2,3) by (simp add: pushed(1) worker_ok_def queue_simps s0_def split: worker.splits)
    moreover have "conserved (submit now r s)"
    proof -
      have "length (pending (push_back (rq_category r) r s0)) = Suc (length (pending s0))"
        using mset_pending_push [of "rq_category r" r s0] by (metis size_add_mset size_mset)
      then show ?thesis
        using c by (simp add: pushed(1) conserved_def pending_def in_hand_def s0_def)
    qed
    moreover have "answered (submit now r s)"
    proof -
      have "mset (filter tracked (pending (push_back (rq_category r) r s0))) = mset (filter tracked [r]) + mset (filter tracked (pending s0))"
        using arg_cong [OF mset_pending_push [of "rq_category r" r s0], of "filter_mset tracked"] by simp
      then show ?thesis
        using a by (simp add: pushed(1) answered_def pending_def in_hand_def s0_def)
    qed
    ultimately show ?thesis by (simp add: rt_inv_def)
  qed
qed

section \<open>The worker keeps the invariants\<close>

lemma empty_iff_pending: "allQueuesEmptyLocked s \<longleftrightarrow> pending s = []"
  by (simp add: allQueuesEmptyLocked_def pending_def)

text \<open>The worker always pops the first pending request in priority order.\<close>

lemma popNext_None: "popNextLocked s = None \<longleftrightarrow> pending s = []"
  by (auto simp: popNextLocked_def pending_def split: list.splits)

lemma popNext_Some:
  assumes "popNextLocked s = Some (r, s1)"
  shows "pending s = r # pending s1"
    and "\<exists>c q r0 v g. s1 = s\<lparr>rt_controlQueue := c, rt_recoverQueue := q, rt_configQueue := r0, rt_queryQueue := v\<rparr>"
    and "queues_ok s \<Longrightarrow> queues_ok s1"
proof -
  show "pending s = r # pending s1"
    using assms by (auto simp: popNextLocked_def pending_def split: list.splits)
  show "\<exists>c q r0 v g. s1 = s\<lparr>rt_controlQueue := c, rt_recoverQueue := q, rt_configQueue := r0, rt_queryQueue := v\<rparr>"
    using assms by (intro exI [of _ "rt_controlQueue s1"] exI [of _ "rt_recoverQueue s1"]
        exI [of _ "rt_configQueue s1"] exI [of _ "rt_queryQueue s1"])
      (auto simp: popNextLocked_def split: list.splits)
  show "queues_ok s \<Longrightarrow> queues_ok s1"
    using assms by (auto simp: popNextLocked_def queues_ok_def all_categories image_subset_iff split: list.splits)
qed

lemma popNext_frame:
  assumes "popNextLocked s = Some (r, s1)"
  shows "rt_options s1 = rt_options s" "rt_started s1 = rt_started s" "rt_undefined s1 = rt_undefined s"
    "rt_stopRequested s1 = rt_stopRequested s"
    "rt_completions s1 = rt_completions s" "rt_offered s1 = rt_offered s" "rt_attempts s1 = rt_attempts s"
    "rt_submittedCount s1 = rt_submittedCount s" "rt_sentCount s1 = rt_sentCount s"
    "rt_sendBackpressureCount s1 = rt_sendBackpressureCount s" "rt_sendLinkDownCount s1 = rt_sendLinkDownCount s"
    "rt_sendErrorCount s1 = rt_sendErrorCount s" "rt_evictedControlCount s1 = rt_evictedControlCount s"
    "rt_transport s1 = rt_transport s"
  using popNext_Some(2) [OF assms] by auto

lemma pending_flags [simp]:
  "pending (s\<lparr>rt_sending := b\<rparr>) = pending s" "pending (s\<lparr>rt_worker := w\<rparr>) = pending s"
  "pending (s\<lparr>rt_started := b\<rparr>) = pending s" "pending (s\<lparr>rt_stopRequested := b\<rparr>) = pending s"
  "pending (s\<lparr>rt_attempts := h\<rparr>) = pending s" "pending (s\<lparr>rt_sharedState := sh\<rparr>) = pending s"
  by (simp_all add: pending_def)

lemma queues_ok_flags [simp]:
  "queues_ok (s\<lparr>rt_sending := b\<rparr>) = queues_ok s" "queues_ok (s\<lparr>rt_worker := w\<rparr>) = queues_ok s"
  "queues_ok (s\<lparr>rt_started := b\<rparr>) = queues_ok s" "queues_ok (s\<lparr>rt_stopRequested := b\<rparr>) = queues_ok s"
  "queues_ok (s\<lparr>rt_sharedState := sh\<rparr>) = queues_ok s"
  by (simp_all add: queues_ok_def all_categories)

lemma worker_wait_inv:
  assumes inv: "rt_inv s" and n: "rt_worker s = WWait n"
  shows "rt_inv (worker_wait n s)"
proof (cases "popNextLocked s")
  case None
  with inv n show ?thesis
    by (auto simp: rt_inv_def worker_wait_def empty_iff_pending popNext_None worker_ok_def conserved_def
        answered_def in_hand_def)
next
  case (Some p)
  then obtain r s1 where p: "popNextLocked s = Some (r, s1)" by (cases p) auto
  note pn = popNext_Some [OF p] and f = popNext_frame [OF p]
  have "worker_wait n s = s1\<lparr>rt_sending := True, rt_worker := WSend r n\<rparr>"
    using p pn(1) by (simp add: worker_wait_def empty_iff_pending)
  with inv n pn f show ?thesis
    by (simp add: rt_inv_def worker_ok_def conserved_def answered_def in_hand_def)
qed

lemma count_result_frame [simp]:
  "rt_controlQueue (count_result x s) = rt_controlQueue s" "rt_recoverQueue (count_result x s) = rt_recoverQueue s"
  "rt_configQueue (count_result x s) = rt_configQueue s" "rt_queryQueue (count_result x s) = rt_queryQueue s"
  "rt_options (count_result x s) = rt_options s" "rt_worker (count_result x s) = rt_worker s"
  "rt_started (count_result x s) = rt_started s" "rt_sending (count_result x s) = rt_sending s"
  "rt_stopRequested (count_result x s) = rt_stopRequested s" "rt_undefined (count_result x s) = rt_undefined s"
  "rt_completions (count_result x s) = rt_completions s" "rt_offered (count_result x s) = rt_offered s"
  "rt_attempts (count_result x s) = rt_attempts s"
  "rt_submittedCount (count_result x s) = rt_submittedCount s"
  "rt_evictedControlCount (count_result x s) = rt_evictedControlCount s"
  by (cases x; simp)+

abbreviation results_counted :: "DeviceRuntime \<Rightarrow> u64" where
  "results_counted s \<equiv> rt_sentCount s + rt_sendBackpressureCount s + rt_sendLinkDownCount s + rt_sendErrorCount s"

lemma count_result_total: "results_counted (count_result x s) = results_counted s + 1"
  by (cases x) simp_all

lemma noteShared_eq:
  "\<exists>sh. noteSharedSendResult now res s = s\<lparr>rt_sharedState := sh\<rparr>"
proof (cases "noteSharedSendResult now res s = s")
  case True
  then show ?thesis by (intro exI [of _ "rt_sharedState s"]) simp
qed (auto simp: noteSharedSendResult_def split: option.splits if_splits)

text \<open>What a send leaves, up to the shared health: one more result counted and one completion.\<close>

lemma worker_send_eq:
  obtains sh res h where
    "worker_send now answer r n s = (count_result res (complete r True res now (s\<lparr>rt_attempts := h\<rparr>)))
       \<lparr>rt_sharedState := sh, rt_worker := WSent r (next_backpressure (rt_options s) res n)\<rparr>"
    "h = (if rt_transport s then rt_attempts s @ [(r, answer)] else rt_attempts s)"
    "res = (if rt_transport s then answer else SendError)"
proof -
  let ?res = "if rt_transport s then answer else SendError"
  let ?h = "if rt_transport s then rt_attempts s @ [(r, answer)] else rt_attempts s"
  obtain sh where sh: "noteSharedSendResult now ?res (count_result ?res (complete r True ?res now (s\<lparr>rt_attempts := ?h\<rparr>))) =
      (count_result ?res (complete r True ?res now (s\<lparr>rt_attempts := ?h\<rparr>)))\<lparr>rt_sharedState := sh\<rparr>"
    using noteShared_eq by blast
  show thesis
    by (rule that [of ?res sh ?h]) (use sh in \<open>auto simp: worker_send_def Let_def\<close>)
qed

lemma worker_send_inv:
  assumes inv: "rt_inv s" and n: "rt_worker s = WSend r n"
  shows "rt_inv (worker_send now answer r n s)"
proof (rule worker_send_eq [of now answer r n s])
  fix sh res h
  assume eq: "worker_send now answer r n s = (count_result res (complete r True res now (s\<lparr>rt_attempts := h\<rparr>)))
       \<lparr>rt_sharedState := sh, rt_worker := WSent r (next_backpressure (rt_options s) res n)\<rparr>"
  have q: "queues_ok (worker_send now answer r n s) = queues_ok s"
    by (rule queues_ok_cong) (simp_all add: eq)
  have p: "pending (worker_send now answer r n s) = pending s" by (simp add: eq pending_def)
  have "results_counted (worker_send now answer r n s) = results_counted s + 1"
    using count_result_total [of res "complete r True res now (s\<lparr>rt_attempts := h\<rparr>)"] by (simp add: eq)
  then have "conserved (worker_send now answer r n s)"
    using inv n p by (simp add: rt_inv_def conserved_def in_hand_def) (simp add: eq)
  moreover have "answered (worker_send now answer r n s)"
    using inv n p
    by (simp add: rt_inv_def answered_def in_hand_def) (simp add: eq)
  ultimately show ?thesis
    using inv n q by (simp add: rt_inv_def worker_ok_def) (simp add: eq)
qed

lemma take_control_inv:
  assumes inv: "rt_inv s" and w: "rt_worker s \<in> {WSent r m, WCoalesce r m, WGap r m}" and ne: "rt_controlQueue s \<noteq> []"
  shows "rt_inv (take_control n s)"
proof -
  obtain x q where q: "rt_controlQueue s = x # q" using ne by (cases "rt_controlQueue s") auto
  have "queues_ok (take_control n s)"
    using inv q by (auto simp: rt_inv_def take_control_def queues_ok_def all_categories)
  moreover have "worker_ok (take_control n s)"
    using inv q w by (auto simp: rt_inv_def worker_ok_def take_control_def)
  moreover have "conserved (take_control n s)"
    using inv q w by (auto simp: rt_inv_def conserved_def in_hand_def take_control_def pending_def algebra_simps)
  moreover have "answered (take_control n s)"
    using inv q w by (auto simp: rt_inv_def answered_def in_hand_def take_control_def pending_def)
  ultimately show ?thesis by (simp add: rt_inv_def)
qed

lemma rt_inv_parked:
  assumes "rt_inv s" and "rt_worker s \<in> {WSent r m, WCoalesce r m}"
    and "w = WCoalesce r' k \<or> (w = WGap r' k \<and> rt_controlQueue s \<noteq> [])"
  shows "rt_inv (s\<lparr>rt_worker := w\<rparr>)"
  using assms by (auto simp: rt_inv_def worker_ok_def conserved_def answered_def in_hand_def)

lemma worker_continue_inv:
  assumes inv: "rt_inv s" and w: "rt_worker s \<in> {WSent r m, WCoalesce r m}"
  shows "rt_inv (worker_continue r n s)"
proof (cases "rt_controlQueue s = []")
  case True
  with inv w show ?thesis
    by (auto simp: worker_continue_def rt_inv_def worker_ok_def conserved_def answered_def in_hand_def)
next
  case False
  have "rt_inv (take_control n s)" by (rule take_control_inv [OF inv _ False, where r = r and m = m]) (use w in auto)
  moreover have "rt_inv (s\<lparr>rt_worker := WGap r n\<rparr>)"
    using inv w False by (intro rt_inv_parked [where r = r and m = m]) auto
  ultimately show ?thesis using False by (simp add: worker_continue_def)
qed

lemma worker_step_inv:
  assumes inv: "rt_inv s"
  shows "rt_inv (worker_step now answer s)"
proof (cases "rt_worker s")
  case (WSent r n)
  then have "rt_inv (s\<lparr>rt_worker := WCoalesce r n\<rparr>)"
    using inv by (intro rt_inv_parked [where r = r and m = n]) auto
  with inv WSent show ?thesis
    by (auto simp: worker_step_def worker_sent_def intro: worker_continue_inv)
next
  case (WGap r n)
  with inv have "rt_controlQueue s \<noteq> []" by (simp add: rt_inv_def worker_ok_def)
  with inv WGap show ?thesis by (auto simp: worker_step_def intro: take_control_inv)
qed (use inv in \<open>auto simp: worker_step_def intro: worker_wait_inv worker_send_inv worker_continue_inv\<close>)

lemma rt_step_inv: "rt_step s t \<Longrightarrow> rt_inv s \<Longrightarrow> rt_inv t"
proof (induction rule: rt_step.induct)
  case (rs_start s)
  then show ?case
    by (auto simp: start_def rt_inv_def worker_ok_def conserved_def answered_def in_hand_def split: worker.splits)
next
  case (rs_shutdown_begin s)
  then show ?case
    by (auto simp: shutdown_begin_def rt_inv_def worker_ok_def conserved_def answered_def in_hand_def split: worker.splits)
next
  case (rs_shutdown_end s)
  then show ?case
    by (auto simp: shutdown_end_def rt_inv_def worker_ok_def conserved_def answered_def in_hand_def)
next
  case (rs_shared s shared)
  then show ?case
    by (auto simp: setSharedDriverState_def rt_inv_def worker_ok_def conserved_def answered_def in_hand_def
        split: worker.splits)
next
  case (rs_gap s gapUs)
  then show ?case
    by (auto simp: setControlInterFrameGapUs_def rt_inv_def worker_ok_def conserved_def answered_def in_hand_def
        pending_def queues_ok_def all_categories split: worker.splits)
qed (simp_all add: submit_inv worker_step_inv)

lemma new_runtime_inv: "0 < o_maxControlQueueDepth options \<Longrightarrow> rt_inv (new_runtime transport deviceName options)"
  by (simp add: new_runtime_def start_def rt_inv_def worker_ok_def conserved_def answered_def in_hand_def
      pending_def queues_ok_def all_categories Let_def)

lemma rt_reachable_inv: "rt_reachable s \<Longrightarrow> rt_inv s"
  by (induction rule: rt_reachable.induct) (auto intro: new_runtime_inv rt_step_inv)

section \<open>Draining\<close>

text \<open>The worker alone, one clock value and one transport answer per step.\<close>

definition worker_run :: "(time_ns \<times> SendResult) list \<Rightarrow> DeviceRuntime \<Rightarrow> DeviceRuntime" where
  "worker_run xs s = fold (\<lambda>(now, answer). worker_step now answer) xs s"

definition todo :: "DeviceRuntime \<Rightarrow> request list" where
  "todo s = in_hand s @ pending s"

definition settled :: "DeviceRuntime \<Rightarrow> bool" where
  "settled s \<longleftrightarrow> todo s = [] \<and> (rt_worker s = WExit \<or> (\<exists>n. rt_worker s = WWait n \<and> \<not> rt_stopRequested s))"

definition work_left :: "DeviceRuntime \<Rightarrow> nat" where
  "work_left s = 4 * length (pending s) +
     (case rt_worker s of WNone \<Rightarrow> 0 | WWait n \<Rightarrow> 1 | WSend r n \<Rightarrow> 4 | WSent r n \<Rightarrow> 3 | WCoalesce r n \<Rightarrow> 2
      | WGap r n \<Rightarrow> 1 | WExit \<Rightarrow> 0)"

lemma take_control_progress:
  assumes "rt_controlQueue s \<noteq> []" and "in_hand s = []"
  shows "todo (take_control n s) = todo s" "rt_attempts (take_control n s) = rt_attempts s"
    "rt_transport (take_control n s) = rt_transport s" "rt_worker (take_control n s) \<noteq> WNone"
    "work_left (take_control n s) = 4 * length (pending s)"
  using assms
  by (auto simp: take_control_def todo_def in_hand_def pending_def work_left_def split: list.splits)

text \<open>A step keeps the order of what has been attempted and what is still to do, and makes progress.\<close>

lemma worker_step_progress:
  assumes inv: "rt_inv s" and tr: "rt_transport s" and w: "rt_worker s \<noteq> WNone"
  shows "map fst (rt_attempts (worker_step now a s)) @ todo (worker_step now a s) = map fst (rt_attempts s) @ todo s
     \<and> rt_transport (worker_step now a s) \<and> rt_worker (worker_step now a s) \<noteq> WNone
     \<and> (worker_step now a s = s \<and> settled s \<or> work_left (worker_step now a s) < work_left s)"
proof (cases "rt_worker s")
  case WNone
  with w show ?thesis by simp
next
  case (WWait n)
  show ?thesis
  proof (cases "popNextLocked s")
    case None
    with WWait tr show ?thesis
      by (auto simp: worker_step_def worker_wait_def empty_iff_pending popNext_None settled_def todo_def in_hand_def work_left_def)
  next
    case (Some p)
    then obtain r s1 where p: "popNextLocked s = Some (r, s1)" by (cases p) auto
    note pn = popNext_Some [OF p] popNext_frame [OF p]
    have "worker_step now a s = s1\<lparr>rt_sending := True, rt_worker := WSend r n\<rparr>"
      using p pn(1) WWait by (simp add: worker_step_def worker_wait_def empty_iff_pending)
    with pn tr WWait show ?thesis by (simp add: todo_def in_hand_def work_left_def)
  qed
next
  case (WSend r n)
  show ?thesis
  proof (rule worker_send_eq [of now a r n s])
    fix sh res h
    assume eq: "worker_send now a r n s = (count_result res (complete r True res now (s\<lparr>rt_attempts := h\<rparr>)))
         \<lparr>rt_sharedState := sh, rt_worker := WSent r (next_backpressure (rt_options s) res n)\<rparr>"
      and h: "h = (if rt_transport s then rt_attempts s @ [(r, a)] else rt_attempts s)"
    have tr': "rt_transport (count_result x (complete r True y now u)) = rt_transport u" for x y u
      by (cases x) (simp_all add: complete_def)
    have at: "rt_attempts (complete r True y now u) = rt_attempts u" for y u by (simp add: complete_def)
    have "pending (worker_send now a r n s) = pending s" by (simp add: eq pending_def)
    with WSend tr h show ?thesis
      by (simp add: worker_step_def todo_def in_hand_def work_left_def) (simp add: eq tr' at)
  qed
next
  case (WGap r n)
  with inv have "rt_controlQueue s \<noteq> []" by (simp add: rt_inv_def worker_ok_def)
  moreover from WGap have "in_hand s = []" by (simp add: in_hand_def)
  ultimately show ?thesis
    using take_control_progress [of s n] WGap tr by (simp add: worker_step_def work_left_def)
next
  case WExit
  with inv tr show ?thesis by (simp add: worker_step_def settled_def todo_def in_hand_def rt_inv_def worker_ok_def)
next
  case (WSent r n)
  then have "in_hand s = []" by (simp add: in_hand_def)
  with take_control_progress [of s n] WSent tr show ?thesis
    by (auto simp: worker_step_def worker_sent_def worker_continue_def work_left_def todo_def in_hand_def)
next
  case (WCoalesce r n)
  then have "in_hand s = []" by (simp add: in_hand_def)
  with take_control_progress [of s n] WCoalesce tr show ?thesis
    by (auto simp: worker_step_def worker_continue_def work_left_def todo_def in_hand_def)
qed

lemma worker_run_drains:
  assumes "rt_inv s" "rt_transport s" "rt_worker s \<noteq> WNone" "work_left s \<le> length xs"
  shows "settled (worker_run xs s) \<and> map fst (rt_attempts (worker_run xs s)) = map fst (rt_attempts s) @ todo s"
  using assms
proof (induction xs arbitrary: s)
  case Nil
  then show ?case
    using worker_step_progress [of s 0 SendOk] by (auto simp: worker_run_def settled_def)
next
  case (Cons x xs)
  obtain now a where x: "x = (now, a)" by force
  let ?t = "worker_step now a s"
  note p = worker_step_progress [OF Cons.prems(1-3), of now a]
  have inv: "rt_inv ?t" using Cons.prems(1) by (rule worker_step_inv)
  have run: "worker_run (x # xs) s = worker_run xs ?t" by (simp add: worker_run_def x)
  show ?case
  proof (cases "?t = s \<and> settled s")
    case True
    then have stay: "worker_step now' a' s = s" for now' a'
      using worker_step_progress [OF Cons.prems(1-3), of now' a']
      by (auto simp: settled_def worker_step_def worker_wait_def todo_def empty_iff_pending)
    have "worker_run ys s = s" for ys
      by (induction ys) (auto simp: worker_run_def stay)
    with True run show ?thesis by (simp add: settled_def)
  next
    case False
    with p have "work_left ?t \<le> length xs" using Cons.prems(4) by auto
    from Cons.IH [OF inv _ _ this] p run show ?thesis by simp
  qed
qed

lemma work_left_bound: "work_left s \<le> 4 * length (pending s) + 4"
  by (simp add: work_left_def split: worker.splits)

lemma pending_sorted: "queues_ok s \<Longrightarrow> sorted (map rq_category (pending s))"
proof -
  assume ok: "queues_ok s"
  have "map rq_category (queueFor c s) = replicate (length (queueFor c s)) c" for c
    using queues_okD(4) [OF ok, of _ c] by (auto simp: map_eq_conv simp flip: map_replicate_const)
  from this [of Control] this [of Recover] this [of Config] this [of Query]
  show ?thesis by (auto simp: pending_def sorted_append)
qed

section \<open>Bursts to one identifier\<close>

lemma submit_stop [simp]: "rt_stopRequested (submit now r s) = rt_stopRequested s"
  by (rule submit_cases [OF refl, where now = now and r = r and s = s]) simp_all

lemma submit_control_latest:
  assumes inv: "rt_inv s" and "\<not> rt_stopRequested s" and c: "rq_category r = Control"
  shows "{x \<in> set (rt_controlQueue (submit now r s)). can_id x = can_id r} = {r}"
proof -
  have ok: "queues_ok (s\<lparr>rt_offered := rt_offered s @ [r]\<rparr>)" using inv by (simp add: rt_inv_def)
  let ?q = "rt_controlQueue (submit now r s)"
  have q: "?q = rt_controlQueue (enqueueControlLocked r (s\<lparr>rt_offered := rt_offered s @ [r]\<rparr>))"
    using assms(2) c by (simp add: submit_def enqueueLocked_def Let_def)
  have "waiting ?q (can_id r) = Some r"
    using enqueueControl_waiting [OF queues_okD(2,1) [OF ok], of r] by (simp add: q)
  then have w: "map_of (map (\<lambda>r. (can_id r, r)) ?q) (can_id r) = Some r" by (simp add: waiting_def)
  have d: "distinct (map fst (map (\<lambda>r. (can_id r, r)) ?q))"
    using enqueueControl_queue(1) [OF ok c] by (simp add: q comp_def)
  have "x = r" if "x \<in> set ?q" "can_id x = can_id r" for x
  proof -
    have "(can_id r, x) \<in> set (map (\<lambda>r. (can_id r, r)) ?q)"
      using that by (simp add: image_iff prod_eq_iff)
    from map_of_is_SomeI [OF d this] w show ?thesis by simp
  qed
  moreover have "r \<in> set ?q" using map_of_SomeD [OF w] by auto
  ultimately show ?thesis by auto
qed

text \<open>Control requests to one identifier that are submitted while the worker does not run: only the last waits.\<close>

lemma burst_keeps_last:
  assumes "rt_inv s" and "\<not> rt_stopRequested s" and "rs \<noteq> []"
    and "\<And>r. r \<in> set rs \<Longrightarrow> rq_category r = Control \<and> can_id r = i"
  shows "{x \<in> set (rt_controlQueue (fold (submit now) rs s)). can_id x = i} = {last rs}"
proof -
  obtain qs r where rs: "rs = qs @ [r]" using assms(3) by (metis rev_exhaust)
  have "rt_inv (fold (submit now) qs s) \<and> \<not> rt_stopRequested (fold (submit now) qs s)"
    using assms(1,2) by (induction qs arbitrary: s) (simp_all add: submit_inv)
  then show ?thesis using submit_control_latest [of "fold (submit now) qs s" r now] assms(4) [of r] by (simp add: rs)
qed

section \<open>Properties\<close>

text \<open>
  C1: the transmit queues are safe in every interleaving of submitters, worker, start, shutdown
  and settings: each queue stays within its depth and holds only its own category, at most one
  control request waits per CAN id, and no empty deque is ever popped, provided the configured
  control depth is positive.
\<close>

theorem runtime_queues_safe:
  assumes "rt_reachable s"
  shows "\<not> rt_undefined s \<and> distinct (map can_id (rt_controlQueue s)) \<and>
    length (queueFor c s) \<le> maxDepthFor c (rt_options s) \<and> rq_category ` set (queueFor c s) \<subseteq> {c}"
  using rt_reachable_inv [OF assms] by (simp add: rt_inv_def queues_ok_def worker_ok_def)

definition witness_request :: "u32 \<Rightarrow> Category \<Rightarrow> u8 \<Rightarrow> request" where
  "witness_request i c b = \<lparr>rq_frame = empty_frame\<lparr>fr_id := i, fr_dlc := 1, fr_data := [b, 0, 0, 0, 0, 0, 0, 0]\<rparr>,
     rq_category = c, rq_source = ''w'', rq_completion = (if c = Query then Some (5, b) else None)\<rparr>"

definition witness_runtime :: DeviceRuntime where
  "witness_runtime =
     submit 2 (witness_request 0x105 Control 9) (submit 1 (witness_request 0x141 Query 3)
       (submit 1 (witness_request 0x105 Control 7) (new_runtime True ''can0'' default_Options)))"

lemma witness_runtime_reachable: "rt_reachable witness_runtime"
  unfolding witness_runtime_def
  by (intro rr_step [OF _ rs_submit] rr_new) (simp add: default_Options_def)

lemmas witness_eval = witness_runtime_def witness_request_def new_runtime_def start_def default_Options_def
  submit_def enqueueLocked_def enqueueControlLocked_def Let_def empty_frame_def

theorem runtime_queues_safe_witness:
  "length (queueFor Control witness_runtime) \<le> maxDepthFor Control (rt_options witness_runtime) \<and>
   map can_id (rt_controlQueue witness_runtime) = [0x105]"
  using runtime_queues_safe [OF witness_runtime_reachable, of Control]
  by (simp add: witness_eval)

text \<open>
  C9: no frame is lost unaccounted: in every reachable state the number of accepted requests
  equals the requests sent, refused by the transport (backpressure, link down, error), evicted
  from the control queue, still pending, or just taken by the worker, in 64-bit arithmetic.
\<close>

theorem tx_conservation:
  assumes "rt_reachable s"
  shows "st_submitted (snapshotStats s) =
    st_sent (snapshotStats s) + st_sendBackpressure (snapshotStats s) + st_sendLinkDown (snapshotStats s) +
    st_sendError (snapshotStats s) + st_evictedControl (snapshotStats s) +
    of_nat (st_pendingTotal (snapshotStats s) + (case rt_worker s of WSend r n \<Rightarrow> 1 | _ \<Rightarrow> 0))"
proof -
  have "length (in_hand s) = (case rt_worker s of WSend r n \<Rightarrow> 1 | _ \<Rightarrow> 0)"
    by (simp add: in_hand_def split: worker.splits)
  with rt_reachable_inv [OF assms] show ?thesis
    by (simp add: rt_inv_def conserved_def snapshotStats_def Let_def pending_def add.assoc)
qed

theorem tx_conservation_witness:
  "st_submitted (snapshotStats witness_runtime) = 3 \<and> st_evictedControl (snapshotStats witness_runtime) = 1 \<and>
   st_pendingTotal (snapshotStats witness_runtime) = 2"
  using tx_conservation [OF witness_runtime_reachable]
  by (simp add: witness_eval snapshotStats_def)

text \<open>
  C2: every tracked read is answered exactly once: of the non-control requests with a
  completion that were ever submitted, each has had its completion called once, or is still
  waiting or being sent; when the runtime is idle, all have been answered.
\<close>

theorem completions_exactly_once:
  assumes "rt_reachable s"
  shows "mset (filter tracked (rt_offered s)) =
      mset (filter tracked (map fst (rt_completions s))) + mset (filter tracked (pending s @ in_hand s)) \<and>
    (if idle s then mset (filter tracked (rt_offered s)) = mset (filter tracked (map fst (rt_completions s))) else True)"
proof -
  have inv: "rt_inv s" using assms by (rule rt_reachable_inv)
  then have "mset (filter tracked (rt_offered s)) =
      mset (filter tracked (map fst (rt_completions s))) + mset (filter tracked (pending s @ in_hand s))"
    by (simp add: rt_inv_def answered_def)
  moreover have "pending s @ in_hand s = []" if "idle s"
    using that inv by (auto simp: idle_def empty_iff_pending rt_inv_def worker_ok_def in_hand_def split: worker.splits)
  ultimately show ?thesis by auto
qed

theorem completions_exactly_once_witness:
  "mset (filter tracked (pending witness_runtime)) = {#witness_request 0x141 Query 3#}"
  using completions_exactly_once [OF witness_runtime_reachable]
  by (simp add: witness_eval tracked_def in_hand_def)

text \<open>
  C3: the worker drains the queues in priority order: left alone for four steps per pending
  request and four more, whatever the transport answers, it hands the request it holds and
  then every pending request to the transport, each once, control before recover before config
  before query and oldest first within a category, and is idle afterwards.
\<close>

theorem worker_drains:
  assumes "rt_reachable s" and "rt_transport s" and "rt_worker s \<noteq> WNone"
    and "4 * length (pending s) + 4 \<le> length xs"
  shows "map fst (rt_attempts (worker_run xs s)) = map fst (rt_attempts s) @ in_hand s @
      rt_controlQueue s @ rt_recoverQueue s @ rt_configQueue s @ rt_queryQueue s \<and>
    sorted (map rq_category (pending s)) \<and> idle (worker_run xs s)"
proof -
  have inv: "rt_inv s" using assms(1) by (rule rt_reachable_inv)
  have "rt_inv (worker_run xs s)"
    unfolding worker_run_def using inv by (induction xs arbitrary: s) (auto intro: worker_step_inv)
  moreover have "settled (worker_run xs s)" and
    att: "map fst (rt_attempts (worker_run xs s)) = map fst (rt_attempts s) @ todo s"
    using worker_run_drains [OF inv assms(2,3), of xs] work_left_bound [of s] assms(4) by auto
  ultimately have "idle (worker_run xs s)"
    by (auto simp: settled_def idle_def empty_iff_pending todo_def rt_inv_def worker_ok_def)
  moreover have "sorted (map rq_category (pending s))" using inv by (simp add: rt_inv_def pending_sorted)
  ultimately show ?thesis using att by (simp add: todo_def pending_def)
qed

theorem worker_drains_witness:
  "map fst (rt_attempts (worker_run (replicate 12 (5, SendBackpressure)) witness_runtime)) =
     [witness_request 0x105 Control 9, witness_request 0x141 Query 3]"
  using worker_drains [OF witness_runtime_reachable, of "replicate 12 (5, SendBackpressure)"]
  by (simp add: witness_eval in_hand_def pending_def)

text \<open>
  C18: the control queue is the map from CAN ids to the latest request: submitting a control
  request to a runtime that is not stopping replaces what waits under its CAN id and keeps what
  waits under every other, except that a full queue gives up its oldest entry for a new id.
\<close>

theorem control_queue_keeps_latest:
  assumes "rt_reachable s" and "\<not> rt_stopRequested s" and "rq_category r = Control"
  shows "waiting (rt_controlQueue (submit now r s)) =
    (if can_id r \<in> can_id ` set (rt_controlQueue s) \<or> length (rt_controlQueue s) < o_maxControlQueueDepth (rt_options s)
     then (waiting (rt_controlQueue s))(can_id r \<mapsto> r)
     else (waiting (rt_controlQueue s))(can_id (hd (rt_controlQueue s)) := None, can_id r \<mapsto> r))"
proof -
  have "queues_ok s" using rt_reachable_inv [OF assms(1)] by (simp add: rt_inv_def)
  then show ?thesis
    using enqueueControl_waiting [of "s\<lparr>rt_offered := rt_offered s @ [r]\<rparr>" r] assms(2,3)
    by (simp add: queues_ok_def submit_def enqueueLocked_def Let_def)
qed

theorem control_queue_keeps_latest_witness:
  "waiting (rt_controlQueue (submit 3 (witness_request 0x105 Control 1) witness_runtime)) 0x105 =
     Some (witness_request 0x105 Control 1)"
  using control_queue_keeps_latest [OF witness_runtime_reachable, of "witness_request 0x105 Control 1" 3]
  by (simp add: witness_eval)

end
