(* ===== verification/Axis_Readiness.thy ===== *)
theory Axis_Readiness
  imports Shared_Driver_State
begin

text \<open>
  \<open>AxisReadinessEvaluator.h\<close>: from the shared feedback, command, intent and device health of
  an axis, decide whether it may be enabled and whether it may move, and describe what blocks
  it.  The clock value \<open>nowNs\<close> is an argument.
\<close>

record AxisReadiness =
  rd_key :: AxisKey
  rd_intent :: AxisIntent
  rd_deviceReady :: bool
  rd_feedbackSeen :: bool
  rd_feedbackFresh :: bool
  rd_degraded :: bool
  rd_fault :: bool
  rd_faultKnown :: bool
  rd_faultCleared :: bool
  rd_enabled :: bool
  rd_enabledKnown :: bool
  rd_enabledReady :: bool
  rd_commandValid :: bool
  rd_modeExpected :: bool
  rd_modeKnown :: bool
  rd_modeMatched :: bool
  rd_modeReady :: bool
  rd_feedbackReady :: bool
  rd_axisReadyForEnable :: bool
  rd_axisReadyForRun :: bool
  rd_recoverConfirmed :: bool

record readiness_config =
  cfg_feedbackFreshnessTimeoutNs :: int
  cfg_degradedTimeoutThreshold :: u32
  cfg_recoverConfirmCycles :: u32

definition default_readiness_config :: readiness_config where
  "default_readiness_config = \<lparr>cfg_feedbackFreshnessTimeoutNs = 500000000,
     cfg_degradedTimeoutThreshold = kDefaultFeedbackDegradedTimeoutThreshold,
     cfg_recoverConfirmCycles = 2\<rparr>"

definition recoverConfirmCycles :: "readiness_config \<Rightarrow> u32" where
  "recoverConfirmCycles cfg = max 1 (cfg_recoverConfirmCycles cfg)"

definition feedback_fresh :: "readiness_config \<Rightarrow> AxisFeedbackState \<Rightarrow> int \<Rightarrow> bool" where
  "feedback_fresh cfg feedback nowNs =
     (let fresh = fb_feedbackSeen feedback \<and> 0 < fb_lastRxSteadyNs feedback
      in if fresh \<and> 0 < cfg_feedbackFreshnessTimeoutNs cfg \<and> fb_lastRxSteadyNs feedback < nowNs
         then nowNs - fb_lastRxSteadyNs feedback \<le> cfg_feedbackFreshnessTimeoutNs cfg
         else fresh)"

definition EvaluateBase ::
    "readiness_config \<Rightarrow> AxisFeedbackState \<Rightarrow> AxisCommandState option \<Rightarrow> AxisIntent \<Rightarrow>
     DeviceHealthState option \<Rightarrow> int \<Rightarrow> AxisReadiness" where
  "EvaluateBase cfg feedback command intent deviceHealth nowNs =
     (let deviceReady = (case deviceHealth of None \<Rightarrow> True | Some h \<Rightarrow> dh_transportReady h);
          feedbackSeen = fb_feedbackSeen feedback;
          degraded = (fb_degraded feedback \<or>
                      max 1 (cfg_degradedTimeoutThreshold cfg) \<le> fb_consecutiveTimeoutCount feedback);
          commandValid = (case command of None \<Rightarrow> False | Some c \<Rightarrow> ac_valid c);
          modeExpected = (case command of None \<Rightarrow> False | Some c \<Rightarrow> ac_desiredModeValid c);
          feedbackFresh = feedback_fresh cfg feedback nowNs;
          modeKnown = (if modeExpected then fb_modeValid feedback else True);
          modeMatched = (if modeExpected
                         then fb_modeValid feedback \<and> fb_feedbackSeen feedback \<and>
                              (case command of None \<Rightarrow> False | Some c \<Rightarrow> fb_mode feedback = ac_desiredMode c)
                         else True);
          feedbackReady = (deviceReady \<and> feedbackSeen \<and> feedbackFresh \<and> \<not> degraded);
          faultCleared = (fb_faultValid feedback \<and> \<not> fb_fault feedback);
          enabledReady = (fb_enabledValid feedback \<and> fb_enabled feedback);
          modeReady = (\<not> modeExpected \<or> modeMatched);
          axisReadyForEnable = (feedbackReady \<and> faultCleared);
          axisReadyForRun = (axisReadyForEnable \<and> enabledReady \<and> modeReady)
      in \<lparr>rd_key = fb_key feedback, rd_intent = intent, rd_deviceReady = deviceReady,
          rd_feedbackSeen = feedbackSeen, rd_feedbackFresh = feedbackFresh, rd_degraded = degraded,
          rd_fault = fb_fault feedback, rd_faultKnown = fb_faultValid feedback,
          rd_faultCleared = faultCleared, rd_enabled = fb_enabled feedback,
          rd_enabledKnown = fb_enabledValid feedback, rd_enabledReady = enabledReady,
          rd_commandValid = commandValid, rd_modeExpected = modeExpected, rd_modeKnown = modeKnown,
          rd_modeMatched = modeMatched, rd_modeReady = modeReady, rd_feedbackReady = feedbackReady,
          rd_axisReadyForEnable = axisReadyForEnable, rd_axisReadyForRun = axisReadyForRun,
          rd_recoverConfirmed = False\<rparr>)"

definition Evaluate ::
    "readiness_config \<Rightarrow> AxisFeedbackState \<Rightarrow> AxisCommandState option \<Rightarrow> AxisIntent \<Rightarrow>
     DeviceHealthState option \<Rightarrow> int \<Rightarrow> AxisReadiness" where
  "Evaluate cfg feedback command intent deviceHealth nowNs =
     (let readiness = EvaluateBase cfg feedback command intent deviceHealth nowNs
      in readiness\<lparr>rd_recoverConfirmed := intent \<noteq> IntentRecover \<and> rd_axisReadyForEnable readiness\<rparr>)"

definition ReadyForEnable :: "AxisReadiness \<Rightarrow> bool" where
  "ReadyForEnable readiness = rd_axisReadyForEnable readiness"

definition RecoverConfirmed :: "AxisReadiness \<Rightarrow> bool" where
  "RecoverConfirmed readiness = rd_recoverConfirmed readiness"

definition ReadyForRun :: "AxisReadiness \<Rightarrow> bool" where
  "ReadyForRun readiness = rd_axisReadyForRun readiness"

definition MotionReady :: "AxisReadiness \<Rightarrow> bool" where
  "MotionReady readiness = ReadyForRun readiness"

definition RecoverPending :: "AxisReadiness \<Rightarrow> bool" where
  "RecoverPending readiness \<longleftrightarrow> rd_intent readiness = IntentRecover \<and> \<not> rd_recoverConfirmed readiness \<and>
     rd_axisReadyForEnable readiness"

definition DescribeBlockReason :: "AxisReadiness \<Rightarrow> string" where
  "DescribeBlockReason readiness =
     (if \<not> rd_deviceReady readiness \<or> \<not> rd_feedbackSeen readiness then ''Feedback offline.''
      else if rd_degraded readiness then ''Feedback degraded.''
      else if \<not> rd_feedbackFresh readiness then ''Feedback stale.''
      else if \<not> rd_faultKnown readiness then ''Fault state unknown.''
      else if \<not> rd_faultCleared readiness then ''Fault still active.''
      else if \<not> rd_enabledKnown readiness then ''Enable state unknown.''
      else if \<not> rd_enabledReady readiness then ''Axis not enabled.''
      else if \<not> rd_modeReady readiness then ''Mode not ready.''
      else if RecoverPending readiness then ''Axis still recovering.''
      else [])"

definition DescribeMotionBlock :: "AxisReadiness \<Rightarrow> string" where
  "DescribeMotionBlock readiness = DescribeBlockReason readiness"

section \<open>Facts\<close>

lemma Evaluate_sel [simp]:
  "rd_axisReadyForEnable (Evaluate cfg fb c i h t) = rd_axisReadyForEnable (EvaluateBase cfg fb c i h t)"
  "rd_axisReadyForRun (Evaluate cfg fb c i h t) = rd_axisReadyForRun (EvaluateBase cfg fb c i h t)"
  "rd_intent (Evaluate cfg fb c i h t) = i"
  by (simp_all add: Evaluate_def EvaluateBase_def Let_def)

text \<open>The verdict over the inputs.\<close>

lemma readyForEnable_iff:
  "rd_axisReadyForEnable (EvaluateBase cfg fb c i h t) \<longleftrightarrow>
     (case h of None \<Rightarrow> True | Some d \<Rightarrow> dh_transportReady d) \<and> fb_feedbackSeen fb \<and>
     feedback_fresh cfg fb t \<and> \<not> fb_degraded fb \<and>
     \<not> max 1 (cfg_degradedTimeoutThreshold cfg) \<le> fb_consecutiveTimeoutCount fb \<and>
     fb_faultValid fb \<and> \<not> fb_fault fb"
  by (simp add: EvaluateBase_def Let_def conj_ac del: max.bounded_iff)

lemma readyForRun_iff:
  "rd_axisReadyForRun (EvaluateBase cfg fb c i h t) \<longleftrightarrow>
     rd_axisReadyForEnable (EvaluateBase cfg fb c i h t) \<and> fb_enabledValid fb \<and> fb_enabled fb \<and>
     (case c of None \<Rightarrow> True | Some d \<Rightarrow> ac_desiredModeValid d \<longrightarrow> fb_modeValid fb \<and> fb_mode fb = ac_desiredMode d)"
  by (auto simp: EvaluateBase_def Let_def split: option.splits)

text \<open>How the derived verdicts of an evaluation relate to its observations.\<close>

definition rd_wf :: "AxisReadiness \<Rightarrow> bool" where
  "rd_wf r \<longleftrightarrow> (rd_faultCleared r \<longleftrightarrow> rd_faultKnown r \<and> \<not> rd_fault r)
     \<and> (rd_enabledReady r \<longleftrightarrow> rd_enabledKnown r \<and> rd_enabled r)
     \<and> (rd_feedbackReady r \<longleftrightarrow> rd_deviceReady r \<and> rd_feedbackSeen r \<and> rd_feedbackFresh r \<and> \<not> rd_degraded r)
     \<and> (rd_axisReadyForEnable r \<longleftrightarrow> rd_feedbackReady r \<and> rd_faultCleared r)
     \<and> (rd_axisReadyForRun r \<longleftrightarrow> rd_axisReadyForEnable r \<and> rd_enabledReady r \<and> rd_modeReady r)"

lemma Evaluate_wf: "rd_wf (Evaluate cfg fb c i h t)"
  by (simp add: rd_wf_def Evaluate_def EvaluateBase_def Let_def del: max.bounded_iff)

text \<open>An empty block reason is exactly readiness to run with no recovery pending.\<close>

lemma block_reason_empty_iff:
  "rd_wf r \<Longrightarrow> DescribeBlockReason r = [] \<longleftrightarrow> MotionReady r \<and> \<not> RecoverPending r"
  unfolding DescribeBlockReason_def MotionReady_def ReadyForRun_def rd_wf_def by auto

text \<open>Without new receptions an axis only gets staler.\<close>

lemma feedback_fresh_antimono:
  assumes "t \<le> t'" and "feedback_fresh cfg fb t'"
  shows "feedback_fresh cfg fb t"
  using assms by (auto simp: feedback_fresh_def Let_def split: if_splits)

lemma feedback_fresh_bound:
  assumes "feedback_fresh cfg fb t" and "0 < cfg_feedbackFreshnessTimeoutNs cfg"
  shows "t \<le> fb_lastRxSteadyNs fb + cfg_feedbackFreshnessTimeoutNs cfg"
  using assms by (auto simp: feedback_fresh_def Let_def split: if_splits)

section \<open>Properties\<close>

text \<open>
  An axis is reported ready to move exactly when its device transport is up, its feedback
  has been seen, is fresh and not degraded, its fault state is known and clear, it is known to
  be enabled, and, when a mode was commanded, that mode is known to be the actual one.
\<close>

lemma motion_ready_iff:
  "MotionReady (Evaluate cfg fb c i h t) \<longleftrightarrow>
     (case h of None \<Rightarrow> True | Some d \<Rightarrow> dh_transportReady d) \<and> fb_feedbackSeen fb \<and>
     feedback_fresh cfg fb t \<and> \<not> fb_degraded fb \<and>
     fb_consecutiveTimeoutCount fb < max 1 (cfg_degradedTimeoutThreshold cfg) \<and>
     fb_faultValid fb \<and> \<not> fb_fault fb \<and> fb_enabledValid fb \<and> fb_enabled fb \<and>
     (case c of None \<Rightarrow> True
      | Some d \<Rightarrow> if ac_desiredModeValid d then fb_modeValid fb \<and> fb_mode fb = ac_desiredMode d else True)"
  by (auto simp: MotionReady_def ReadyForRun_def readyForRun_iff readyForEnable_iff not_le
      simp del: max.bounded_iff less_max_iff_disj split: option.splits)

text \<open>
  The operator is given a reason exactly when the axis may not move or is still recovering:
  the block reason of an evaluation is empty if and only if the axis is ready to move and no
  recovery is pending.
\<close>

lemma block_reason_complete:
  "DescribeBlockReason (Evaluate cfg fb c i h t) = [] \<longleftrightarrow>
     MotionReady (Evaluate cfg fb c i h t) \<and> \<not> RecoverPending (Evaluate cfg fb c i h t)"
  by (rule block_reason_empty_iff) (rule Evaluate_wf)

text \<open>
  Readiness expires: an axis that is ready to move received feedback within the configured
  freshness window, so without new receptions it stops being ready when the window has passed.
\<close>

lemma motion_ready_expires:
  assumes "MotionReady (Evaluate cfg fb c i h t)" and "0 < cfg_feedbackFreshnessTimeoutNs cfg"
  shows "t \<le> fb_lastRxSteadyNs fb + cfg_feedbackFreshnessTimeoutNs cfg"
  using assms
  by (intro feedback_fresh_bound) (simp_all add: MotionReady_def ReadyForRun_def readyForRun_iff readyForEnable_iff)

end
