(* ===== verification/Protocol_Io.thy ===== *)
theory Protocol_Io
  imports Axis_Readiness Ieee_Double
begin

text \<open>
  What the protocol back ends (\<open>MtCan\<close>, \<open>EyouCan\<close>, \<open>DamiaoCan\<close>) have in common: their connections to the
  transport, the transmit dispatcher and the shared driver state, the key under which a
  pending read is tracked, the refresh interval, the blocking waits, and the interface \<open>read_slots\<close>, which says that
  a read is not issued again while it waits in the dispatcher.
\<close>

section \<open>Connections\<close>

text \<open>
  \<open>canController\<close> and \<open>txDispatcher_\<close> may be null.  \<open>io_outbox\<close> are the requests handed to the
  dispatcher, oldest first; the dispatcher is \<open>Device_Runtime\<close>, and the completions it calls
  back are the protocols' \<open>onReadDispatchResult\<close>.
\<close>

record proto_io =
  io_canController :: bool
  io_txDispatcher :: bool
  io_sharedState :: "SharedDriverState option"
  io_deviceName :: string
  io_outbox :: "request list"

definition submitTx :: "frame \<Rightarrow> Category \<Rightarrow> string \<Rightarrow> 'a proto_io_scheme \<Rightarrow> bool \<times> 'a proto_io_scheme" where
  "submitTx f category source s =
     (if \<not> io_txDispatcher s then (False, s)
      else (True, s\<lparr>io_outbox := io_outbox s @
          [\<lparr>rq_frame = f, rq_category = category, rq_source = source, rq_completion = None\<rparr>]\<rparr>))"

text \<open>\<open>if (!sharedState_ || deviceName_.empty()) return;\<close> before an access to the shared state.\<close>

definition on_shared :: "(SharedDriverState \<Rightarrow> SharedDriverState) \<Rightarrow> 'a proto_io_scheme \<Rightarrow> 'a proto_io_scheme" where
  "on_shared f s =
     (case io_sharedState s of
        None \<Rightarrow> s
      | Some shared \<Rightarrow> if io_deviceName s = [] then s else s\<lparr>io_sharedState := Some (f shared)\<rparr>)"

definition pendingReadKey :: "u8 \<Rightarrow> u8 \<Rightarrow> u16" where
  "pendingReadKey motorId command = push_bit 8 (ucast motorId) OR ucast command"

text \<open>\<open>computeRefreshSleep\<close>, in milliseconds, for a given number of queries per motor and cycle.\<close>

definition computeRefreshSleep :: "nat \<Rightarrow> dbl \<Rightarrow> nat \<Rightarrow> int" where
  "computeRefreshSleep queriesPerMotor hz motorCount =
     (if isfinite hz \<and> dlt (Fin 0) hz then max 1 (llround 0 (ddiv (Fin 1000) hz))
      else max 5 (int (motorCount * queriesPerMotor)))"

definition normalizeRefreshRateHz :: "dbl \<Rightarrow> dbl" where
  "normalizeRefreshRateHz hz = (if \<not> isfinite hz \<or> dle hz (Fin 0) then Fin 0 else hz)"

section \<open>Waiting\<close>

text \<open>
  While an operation waits, other threads act on the object: receive handlers, dispatch
  completions, commands.  \<open>wait_for\<close> is the wait on a condition variable with a predicate: the
  predicate is checked, then the next action of the others happens; when they are used up the
  timeout has passed and the predicate decides.  \<open>poll_until\<close> is a polling loop with sleeps: each
  element is what happens before one check, and no element is left at the deadline.
\<close>

fun wait_for :: "('s \<Rightarrow> bool) \<Rightarrow> ('s \<Rightarrow> 's) list \<Rightarrow> 's \<Rightarrow> bool \<times> 's" where
  "wait_for ready [] s = (ready s, s)"
| "wait_for ready (e # es) s = (if ready s then (True, s) else wait_for ready es (e s))"

fun poll_until :: "('s \<Rightarrow> 'v option) \<Rightarrow> ('s \<Rightarrow> 's) list \<Rightarrow> 's \<Rightarrow> 'v option \<times> 's" where
  "poll_until ready [] s = (None, s)"
| "poll_until ready (e # es) s =
     (let s1 = e s in case ready s1 of Some v \<Rightarrow> (Some v, s1) | None \<Rightarrow> poll_until ready es s1)"

text \<open>Whatever every action of the others keeps holds after the wait.\<close>

lemma wait_for_keeps:
  assumes "P s" and "\<And>e s. e \<in> set others \<Longrightarrow> P s \<Longrightarrow> P (e s)"
  shows "P (snd (wait_for ready others s))"
  using assms by (induction ready others s rule: wait_for.induct) auto

lemma poll_until_keeps:
  assumes "P s" and "\<And>e s. e \<in> set others \<Longrightarrow> P s \<Longrightarrow> P (e s)"
  shows "P (snd (poll_until ready others s))"
  using assms by (induction ready others s rule: poll_until.induct) (auto simp: Let_def split: option.split)

lemma wait_for_ready: "fst (wait_for ready others s) = ready (snd (wait_for ready others s))"
  by (induction ready others s rule: wait_for.induct) auto

section \<open>Facts\<close>

lemma pendingReadKey_inj: "pendingReadKey m c = pendingReadKey m' c' \<longleftrightarrow> m = m' \<and> c = c'"
proof
  assume eq: "pendingReadKey m c = pendingReadKey m' c'"
  have bits: "bit (pendingReadKey m c) n = (if n < 8 then bit c n else bit m (n - 8))" for m c n
    by (auto simp: pendingReadKey_def bit_simps dest: bit_imp_le_length)
  have "bit c n = bit c' n" if "n < 8" for n using arg_cong [OF eq, of "\<lambda>w. bit w n"] that by (simp add: bits)
  moreover have "bit m n = bit m' n" if "n < 8" for n
    using arg_cong [OF eq, of "\<lambda>w. bit w (n + 8)"] by (simp add: bits)
  ultimately show "m = m' \<and> c = c'" by (auto intro: bit_word_eqI)
qed simp

lemma submitTx_frame [simp]:
  "io_canController (snd (submitTx f c src s)) = io_canController s"
  "io_txDispatcher (snd (submitTx f c src s)) = io_txDispatcher s"
  "io_sharedState (snd (submitTx f c src s)) = io_sharedState s"
  "io_deviceName (snd (submitTx f c src s)) = io_deviceName s"
  "proto_io.more (snd (submitTx f c src s)) = proto_io.more s"
  by (simp_all add: submitTx_def)

lemma submitTx_outbox:
  "io_txDispatcher s \<Longrightarrow> io_outbox (snd (submitTx f c src s)) = io_outbox s @
     [\<lparr>rq_frame = f, rq_category = c, rq_source = src, rq_completion = None\<rparr>]"
  "\<not> io_txDispatcher s \<Longrightarrow> submitTx f c src s = (False, s)"
  by (simp_all add: submitTx_def)

lemma on_shared_frame [simp]:
  "io_canController (on_shared f s) = io_canController s"
  "io_txDispatcher (on_shared f s) = io_txDispatcher s"
  "io_deviceName (on_shared f s) = io_deviceName s"
  "io_outbox (on_shared f s) = io_outbox s"
  "proto_io.more (on_shared f s) = proto_io.more s"
  by (simp_all add: on_shared_def split: option.splits)

lemma on_shared_state:
  "io_deviceName s \<noteq> [] \<Longrightarrow> io_sharedState (on_shared f s) = map_option f (io_sharedState s)"
  by (simp add: on_shared_def split: option.splits)

section \<open>Read slots\<close>

text \<open>
  The completions in an outbox name the reads that were handed to the dispatcher.
\<close>

definition reads_sent :: "'a proto_io_scheme \<Rightarrow> completion list" where
  "reads_sent s = List.map_filter rq_completion (io_outbox s)"

text \<open>
  A back end that tracks its reads: \<open>issue now q\<close> either declines, leaving the set of queued
  reads and what was sent, or sends the read \<open>key q\<close>, which was not queued and now is.
\<close>

locale read_slots =
  fixes issue :: "time_ns \<Rightarrow> 'q \<Rightarrow> 's \<Rightarrow> 's"
    and key :: "'q \<Rightarrow> completion"
    and queued :: "'s \<Rightarrow> completion set"
    and sent :: "'s \<Rightarrow> completion list"
  assumes issue_cases: "queued (issue now q s) = queued s \<and> sent (issue now q s) = sent s \<or>
      key q \<notin> queued s \<and> queued (issue now q s) = insert (key q) (queued s) \<and> sent (issue now q s) = sent s @ [key q]"
begin

definition issue_all :: "(time_ns \<times> 'q) list \<Rightarrow> 's \<Rightarrow> 's" where
  "issue_all xs s = fold (\<lambda>(now, q). issue now q) xs s"

lemma issue_all_sent:
  "\<exists>ks. sent (issue_all xs s) = sent s @ ks \<and> distinct ks \<and> set ks \<inter> queued s = {} \<and>
     set ks \<subseteq> key ` snd ` set xs \<and> queued (issue_all xs s) = queued s \<union> set ks"
proof (induction xs arbitrary: s)
  case (Cons x xs)
  obtain now q where x: "x = (now, q)" by (cases x)
  from Cons.IH [of "issue now q s"] obtain ks where ks:
    "sent (issue_all (x # xs) s) = sent (issue now q s) @ ks" "distinct ks"
    "set ks \<inter> queued (issue now q s) = {}" "set ks \<subseteq> key ` snd ` set xs"
    "queued (issue_all (x # xs) s) = queued (issue now q s) \<union> set ks"
    by (auto simp: issue_all_def x)
  from issue_cases [of now q s] show ?case
  proof
    assume "queued (issue now q s) = queued s \<and> sent (issue now q s) = sent s"
    with ks show ?thesis by auto
  next
    assume "key q \<notin> queued s \<and> queued (issue now q s) = insert (key q) (queued s) \<and> sent (issue now q s) = sent s @ [key q]"
    with ks x show ?thesis by (intro exI [of _ "key q # ks"]) auto
  qed
qed (simp add: issue_all_def)

end

end
