(* ===== verification/Mt_Rmd_Protocol.thy ===== *)
theory Mt_Rmd_Protocol
  imports Can_Types Safe_Command
begin

text \<open>
  \<open>MtRmdProtocol.h\<close>: the wire format of the MT motors.  Little-endian encoders and decoders of
  the eight data bytes, the command bytes, and the unit conversions; the facts are the round
  trips of the encoders, the ranges of what is sent, and that a current read in steps of
  0.01 A survives the detour through a \<open>double\<close>.
\<close>

section \<open>Commands and identifiers\<close>

definition kSendBaseId :: u16 where "kSendBaseId = 0x140"

definition kResponseBaseId :: u16 where "kResponseBaseId = 0x240"

text \<open>\<open>enum class Command : uint8_t\<close>; unnamed values are produced by \<open>static_cast\<close>.\<close>

type_synonym Command = u8

definition WriteAccelerationToRamAndRom :: Command where "WriteAccelerationToRamAndRom = 0x43"
definition WriteCurrentMultiTurnPositionToRomAsZero :: Command where
  "WriteCurrentMultiTurnPositionToRomAsZero = 0x64"
definition ResetSystem :: Command where "ResetSystem = 0x76"
definition ShutdownMotor :: Command where "ShutdownMotor = 0x80"
definition StopMotor :: Command where "StopMotor = 0x81"
definition ReadMultiTurnAngle :: Command where "ReadMultiTurnAngle = 0x92"
definition ReadMotorStatus1AndErrorFlag :: Command where "ReadMotorStatus1AndErrorFlag = 0x9A"
definition ReadMotorStatus2 :: Command where "ReadMotorStatus2 = 0x9C"
definition TorqueClosedLoopControl :: Command where "TorqueClosedLoopControl = 0xA1"
definition SpeedClosedLoopControl :: Command where "SpeedClosedLoopControl = 0xA2"
definition AbsolutePositionClosedLoopControl :: Command where "AbsolutePositionClosedLoopControl = 0xA4"
definition SingleTurnPositionControl :: Command where "SingleTurnPositionControl = 0xA6"
definition IncrementalPositionClosedLoopControl :: Command where "IncrementalPositionClosedLoopControl = 0xA8"
definition ForcePositionMixedControl :: Command where "ForcePositionMixedControl = 0xA9"
definition CommunicationInterruptionProtectionTimeSetting :: Command where
  "CommunicationInterruptionProtectionTimeSetting = 0xB3"

lemmas mt_commands = WriteAccelerationToRamAndRom_def WriteCurrentMultiTurnPositionToRomAsZero_def
  ResetSystem_def ShutdownMotor_def StopMotor_def ReadMultiTurnAngle_def ReadMotorStatus1AndErrorFlag_def
  ReadMotorStatus2_def TorqueClosedLoopControl_def SpeedClosedLoopControl_def
  AbsolutePositionClosedLoopControl_def SingleTurnPositionControl_def
  IncrementalPositionClosedLoopControl_def ForcePositionMixedControl_def
  CommunicationInterruptionProtectionTimeSetting_def

datatype AccelerationType =
  PositionPlanningAcceleration | PositionPlanningDeceleration
  | VelocityPlanningAcceleration | VelocityPlanningDeceleration

text \<open>The index byte of an acceleration type, and \<open>static_cast<AccelerationType>(index)\<close> back.\<close>

fun accelerationIndex :: "AccelerationType \<Rightarrow> u8" where
  "accelerationIndex PositionPlanningAcceleration = 0"
| "accelerationIndex PositionPlanningDeceleration = 1"
| "accelerationIndex VelocityPlanningAcceleration = 2"
| "accelerationIndex VelocityPlanningDeceleration = 3"

record FeedbackStatus =
  fs_temperature :: i8
  fs_currentAmp :: dbl
  fs_shaftSpeedDps :: i16
  fs_shaftAngleRaw :: u16

record FaultStatus =
  ft_temperature :: i8
  ft_voltageRaw :: u16
  ft_brakeOrVoltageRaw :: u16
  ft_errorCode :: u16

definition commandByte :: "Command \<Rightarrow> u8" where
  "commandByte command = command"

definition sendCanId :: "u8 \<Rightarrow> u16" where
  "sendCanId nodeId = kSendBaseId + ucast nodeId"

definition isResponseCanId :: "u16 \<Rightarrow> bool" where
  "isResponseCanId canId \<longleftrightarrow> kResponseBaseId \<le> canId \<and> canId < kResponseBaseId + 0x100"

definition responseNodeId :: "u16 \<Rightarrow> u8" where
  "responseNodeId canId = ucast (canId - kResponseBaseId)"

section \<open>Encoding\<close>

definition makeFrame :: "u16 \<Rightarrow> Command \<Rightarrow> frame" where
  "makeFrame canId command =
     \<lparr>fr_id = ucast canId, fr_isExtended = False, fr_isRemoteRequest = False, fr_dlc = 8,
      fr_data = (replicate 8 0)[0 := commandByte command]\<rparr>"

definition writeUInt16LE :: "frame \<Rightarrow> nat \<Rightarrow> u16 \<Rightarrow> frame" where
  "writeUInt16LE f index value =
     f\<lparr>fr_data := (fr_data f)[index := byte_at 0 value, index + 1 := byte_at 8 value]\<rparr>"

definition writeInt32LE :: "frame \<Rightarrow> nat \<Rightarrow> i32 \<Rightarrow> frame" where
  "writeInt32LE f index value =
     f\<lparr>fr_data := (fr_data f)[index := byte_at 0 value, index + 1 := byte_at 8 value,
                             index + 2 := byte_at 16 value, index + 3 := byte_at 24 value]\<rparr>"

definition writeUInt32LE :: "frame \<Rightarrow> nat \<Rightarrow> u32 \<Rightarrow> frame" where
  "writeUInt32LE f index value =
     f\<lparr>fr_data := (fr_data f)[index := byte_at 0 value, index + 1 := byte_at 8 value,
                             index + 2 := byte_at 16 value, index + 3 := byte_at 24 value]\<rparr>"

definition clampAcceleration :: "u32 \<Rightarrow> u32" where
  "clampAcceleration value = max 100 (min 60000 value)"

definition makeSpeedClosedLoopFrame :: "u16 \<Rightarrow> i32 \<Rightarrow> frame" where
  "makeSpeedClosedLoopFrame canId speedCentidegPerSec =
     writeInt32LE (makeFrame canId SpeedClosedLoopControl) 4 speedCentidegPerSec"

definition makeAbsolutePositionFrame :: "u16 \<Rightarrow> i32 \<Rightarrow> u16 \<Rightarrow> frame" where
  "makeAbsolutePositionFrame canId positionCentideg maxSpeedDps =
     writeInt32LE (writeUInt16LE (makeFrame canId AbsolutePositionClosedLoopControl) 2 maxSpeedDps) 4 positionCentideg"

text \<open>The type argument is the index byte: \<open>writeAcceleration\<close> casts any byte to the enum.\<close>

definition makeAccelerationFrame :: "u16 \<Rightarrow> u8 \<Rightarrow> u32 \<Rightarrow> frame" where
  "makeAccelerationFrame canId typ accelerationDpsPerSec =
     (let f = makeFrame canId WriteAccelerationToRamAndRom
      in writeUInt32LE (f\<lparr>fr_data := (fr_data f)[1 := typ]\<rparr>) 4 (clampAcceleration accelerationDpsPerSec))"

text \<open>The timeout is a count of milliseconds, cut to 32 bits.\<close>

definition makeCommunicationTimeoutFrame :: "u16 \<Rightarrow> int \<Rightarrow> frame" where
  "makeCommunicationTimeoutFrame canId timeout =
     writeUInt32LE (makeFrame canId CommunicationInterruptionProtectionTimeSetting) 4 (word_of_int timeout)"

definition makeReadFrame :: "u16 \<Rightarrow> Command \<Rightarrow> frame" where
  "makeReadFrame canId command = makeFrame canId command"

definition makeZeroPositionFrame :: "u16 \<Rightarrow> frame" where
  "makeZeroPositionFrame canId = makeFrame canId WriteCurrentMultiTurnPositionToRomAsZero"

definition makeResetFrame :: "u16 \<Rightarrow> frame" where
  "makeResetFrame canId = makeFrame canId ResetSystem"

definition makeShutdownFrame :: "u16 \<Rightarrow> frame" where
  "makeShutdownFrame canId = makeFrame canId ShutdownMotor"

definition makeStopFrame :: "u16 \<Rightarrow> frame" where
  "makeStopFrame canId = makeFrame canId StopMotor"

section \<open>Decoding\<close>

definition readInt16LE :: "frame \<Rightarrow> nat \<Rightarrow> i16" where
  "readInt16LE f index =
     (if unat (fr_dlc f) \<le> index + 1 then 0 else join16 (fr_data f ! index) (fr_data f ! (index + 1)))"

definition readUInt16LE :: "frame \<Rightarrow> nat \<Rightarrow> u16" where
  "readUInt16LE f index =
     (if unat (fr_dlc f) \<le> index + 1 then 0 else join16 (fr_data f ! index) (fr_data f ! (index + 1)))"

definition readInt32LE :: "frame \<Rightarrow> nat \<Rightarrow> i32" where
  "readInt32LE f index =
     (if unat (fr_dlc f) \<le> index + 3 then 0
      else join32 (fr_data f ! index) (fr_data f ! (index + 1)) (fr_data f ! (index + 2)) (fr_data f ! (index + 3)))"

definition default_FeedbackStatus :: FeedbackStatus where
  "default_FeedbackStatus = \<lparr>fs_temperature = 0, fs_currentAmp = Fin 0, fs_shaftSpeedDps = 0, fs_shaftAngleRaw = 0\<rparr>"

definition default_FaultStatus :: FaultStatus where
  "default_FaultStatus = \<lparr>ft_temperature = 0, ft_voltageRaw = 0, ft_brakeOrVoltageRaw = 0, ft_errorCode = 0\<rparr>"

definition parseFeedbackStatus :: "frame \<Rightarrow> FeedbackStatus" where
  "parseFeedbackStatus f =
     (if 8 \<le> unat (fr_dlc f)
      then \<lparr>fs_temperature = fr_data f ! 1,
            fs_currentAmp = dmul (dbl_of_int (sint (readInt16LE f 2))) (round64 (1 / 100)),
            fs_shaftSpeedDps = readInt16LE f 4, fs_shaftAngleRaw = readUInt16LE f 6\<rparr>
      else default_FeedbackStatus)"

definition parseFaultStatus :: "frame \<Rightarrow> FaultStatus" where
  "parseFaultStatus f =
     (if 8 \<le> unat (fr_dlc f)
      then \<lparr>ft_temperature = fr_data f ! 1, ft_voltageRaw = readUInt16LE f 2,
            ft_brakeOrVoltageRaw = readUInt16LE f 4, ft_errorCode = readUInt16LE f 6\<rparr>
      else default_FaultStatus)"

definition parseMultiTurnAngleCentideg :: "frame \<Rightarrow> int" where
  "parseMultiTurnAngleCentideg f = sint (readInt32LE f 4)"

definition parseCommunicationTimeoutMs :: "frame \<Rightarrow> u32" where
  "parseCommunicationTimeoutMs f =
     (if unat (fr_dlc f) < 8 then 0
      else join32 (fr_data f ! 4) (fr_data f ! 5) (fr_data f ! 6) (fr_data f ! 7))"

definition positionMaxSpeedDpsFromSpeedCommand :: "i32 \<Rightarrow> u16 \<Rightarrow> u16" where
  "positionMaxSpeedDpsFromSpeedCommand speedCentidegPerSec defaultSpeedDps =
     (let absSpeed = \<bar>sint speedCentidegPerSec\<bar>
      in if absSpeed = 0 then defaultSpeedDps
         else let speedDps = (absSpeed + 50) div 100;
                  speedDps' = (if speedDps = 0 then 1 else speedDps)
              in word_of_int (min speedDps' 0xFFFF))"

definition isFeedbackCommand :: "u8 \<Rightarrow> bool" where
  "isFeedbackCommand command \<longleftrightarrow>
     command = commandByte ReadMotorStatus2 \<or> command = commandByte TorqueClosedLoopControl \<or>
     command = commandByte SpeedClosedLoopControl \<or> command = commandByte AbsolutePositionClosedLoopControl \<or>
     command = commandByte SingleTurnPositionControl \<or>
     command = commandByte IncrementalPositionClosedLoopControl \<or>
     command = commandByte ForcePositionMixedControl \<or> command = commandByte ShutdownMotor \<or>
     command = commandByte StopMotor"

section \<open>Facts\<close>

lemmas mt_frame_defs = makeFrame_def writeUInt16LE_def writeInt32LE_def writeUInt32LE_def
  makeSpeedClosedLoopFrame_def makeAbsolutePositionFrame_def makeAccelerationFrame_def
  makeCommunicationTimeoutFrame_def makeReadFrame_def makeZeroPositionFrame_def makeResetFrame_def
  makeShutdownFrame_def makeStopFrame_def commandByte_def Let_def

lemma nth_update8 [simp]:
  "length xs = 8 \<Longrightarrow> i < 8 \<Longrightarrow> (xs[i := v]) ! j = (if j = i then v else xs ! j)"
  by simp

lemma response_node_roundtrip:
  "isResponseCanId (kResponseBaseId + ucast n) \<and> responseNodeId (kResponseBaseId + ucast n) = n"
proof -
  have u: "unat (kResponseBaseId + ucast n) = 0x240 + unat n"
    using unat_u8 [of n] by (simp add: kResponseBaseId_def unat_word_ariths)
  then have "isResponseCanId (kResponseBaseId + ucast n)"
    using unat_u8 [of n] by (simp add: isResponseCanId_def kResponseBaseId_def word_le_nat_alt word_less_nat_alt)
  moreover have "responseNodeId (kResponseBaseId + ucast n) = n"
    by (simp add: responseNodeId_def) (simp add: word_unat_eq_iff unat_ucast_mod unat_u8)
  ultimately show ?thesis by simp
qed

lemma unat_sendCanId: "unat (sendCanId n) = 0x140 + unat n"
  using unat_u8 [of n] by (simp add: sendCanId_def kSendBaseId_def unat_word_ariths)

text \<open>A raw current of \<open>n\<close> hundredths, times 0.01 and times 100 in doubles, is \<open>n\<close> to within a quarter.\<close>

lemma round64_small:
  assumes "\<bar>x\<bar> \<le> 16777216"
  shows "\<exists>v. round64 x = Fin v \<and> \<bar>v - x\<bar> \<le> 1 / 2 ^ 29"
proof -
  have "(2 powi (- 1000) :: rat) \<le> 1" by (simp add: power_int_le_one)
  then have "2 powi (- 1000) \<le> (16777216 :: rat)" by simp
  moreover have "(16777216 :: rat) \<le> 2 ^ 1000" by simp
  ultimately show ?thesis using round64_near [OF assms] by simp
qed

lemma current_roundtrip:
  assumes n: "\<bar>n\<bar> \<le> 32768"
  shows "\<exists>v. dmul (dmul (dbl_of_int n) (round64 (1 / 100))) (Fin 100) = Fin v \<and> round_away v = n"
proof -
  obtain c where c: "round64 (1 / 100) = Fin c" "\<bar>c - 1 / 100\<bar> \<le> 1 / 536870912"
    using round64_small [of "1 / 100"] by auto
  have nq: "\<bar>of_int n :: rat\<bar> \<le> 32768" using n by (simp add: abs_le_iff)
  have p: "\<bar>of_int n * c - of_int n / 100\<bar> \<le> 32768 * (1 / 536870912)"
  proof -
    have "\<bar>of_int n * c - of_int n / 100\<bar> = \<bar>of_int n\<bar> * \<bar>c - 1 / 100\<bar>"
      by (simp add: abs_mult [symmetric] right_diff_distrib)
    also have "\<dots> \<le> 32768 * (1 / 536870912)" by (rule mult_mono [OF nq c(2)]) simp_all
    finally show ?thesis .
  qed
  have "\<bar>of_int n * c\<bar> \<le> 16777216" using p nq by linarith
  then obtain a where a: "round64 (of_int n * c) = Fin a" "\<bar>a - of_int n * c\<bar> \<le> 1 / 536870912"
    using round64_small [of "of_int n * c"] by auto
  have "\<bar>a * 100\<bar> \<le> 16777216" using a(2) p nq by linarith
  then obtain v where v: "round64 (a * 100) = Fin v" "\<bar>v - a * 100\<bar> \<le> 1 / 536870912"
    using round64_small [of "a * 100"] by auto
  have "\<bar>of_int n - v\<bar> < 1 / 2" using v(2) a(2) p by linarith
  then have "round_away v = n" by (rule round_away_unique)
  moreover have "\<bar>n\<bar> \<le> 2 ^ 53" using n by simp
  ultimately show ?thesis using a(1) c(1) v(1) by (simp add: dbl_of_int_exact)
qed

lemma max_speed_value:
  "sint s \<noteq> 0 \<Longrightarrow> uint (positionMaxSpeedDpsFromSpeedCommand s d) = min (max 1 ((\<bar>sint s\<bar> + 50) div 100)) 65535"
  by (auto simp: positionMaxSpeedDpsFromSpeedCommand_def Let_def uint_word_of_int max_def min_def)

section \<open>Properties\<close>

text \<open>
  What an MT motor decodes is what was commanded: the speed, position, acceleration and
  communication-timeout frames are well formed, carry their command byte, and read back the
  32-bit value (and the speed limit) they were built from, the acceleration confined to
  100 to 60000.
\<close>

lemma mt_frames_roundtrip:
  "(let f = makeSpeedClosedLoopFrame canId v in
      wf_frame f \<and> fr_id f = ucast canId \<and> fr_data f ! 0 = 0xA2 \<and> readInt32LE f 4 = v) \<and>
   (let f = makeAbsolutePositionFrame canId v m in
      wf_frame f \<and> fr_id f = ucast canId \<and> fr_data f ! 0 = 0xA4 \<and> readInt32LE f 4 = v \<and> readUInt16LE f 2 = m) \<and>
   (let f = makeAccelerationFrame canId i a in
      wf_frame f \<and> fr_id f = ucast canId \<and> fr_data f ! 0 = 0x43 \<and> fr_data f ! 1 = i \<and>
      parseCommunicationTimeoutMs f = max 100 (min 60000 a)) \<and>
   (let f = makeCommunicationTimeoutFrame canId (uint a) in
      wf_frame f \<and> fr_id f = ucast canId \<and> fr_data f ! 0 = 0xB3 \<and> parseCommunicationTimeoutMs f = a)"
  by (simp add: mt_frame_defs mt_commands wf_frame_def readInt32LE_def readUInt16LE_def
      parseCommunicationTimeoutMs_def clampAcceleration_def byte_simps)

text \<open>
  The speed limit sent with a position command follows the commanded speed: it is never
  zero for a non-zero speed, saturates at 65535 degrees per second, and is otherwise within half
  a degree per second of the commanded speed (half a degree above for speeds below it).
\<close>

lemma mt_position_speed_limit:
  assumes "sint s \<noteq> 0"
  shows "uint (positionMaxSpeedDpsFromSpeedCommand s d) = min (max 1 ((\<bar>sint s\<bar> + 50) div 100)) 65535 \<and>
    1 \<le> uint (positionMaxSpeedDpsFromSpeedCommand s d) \<and>
    \<bar>100 * uint (positionMaxSpeedDpsFromSpeedCommand s d) - min (max 50 \<bar>sint s\<bar>) 6553500\<bar> \<le> 50"
proof -
  define a where "a = \<bar>sint s\<bar>"
  have "a = 100 * ((a + 50) div 100) - 50 + (a + 50) mod 100" using mult_div_mod_eq [of 100 "a + 50"] by linarith
  moreover have "0 \<le> (a + 50) mod 100" "(a + 50) mod 100 < 100" "0 \<le> a" by (simp_all add: a_def)
  ultimately show ?thesis
    unfolding max_speed_value [OF assms] a_def [symmetric] by (auto simp: max_def min_def abs_if)
qed

end
