(* ===== verification/Refresh_Scheduler.thy ===== *)
theory Refresh_Scheduler
  imports Shared_Driver_State
begin

text \<open>
  \<open>RefreshScheduler.h\<close>: which status queries are sent to an axis in one refresh cycle.  The PP
  planner sends every query whose period has elapsed, or, when queries are under pressure, at
  most four of them starting from a rotating cursor; the MT planner alternates; the DM planner
  sends a keepalive.  The main facts are the budget, that only due queries are planned, that
  without pressure none is left out, and that under pressure a query left out once is planned
  the next time (no field starves).
\<close>

section \<open>Data\<close>

datatype PpRefreshQuery = PpPosition | PpVelocity | PpMode | PpEnable | PpFault | PpCurrent

datatype MtRefreshQuery = MtState | MtMultiTurnAngle | MtError

datatype DmRefreshQuery = DmKeepalive

text \<open>\<open>RefreshPlan::push\<close> on a plan of a given capacity; the plan is the list of its items.\<close>

definition plan_push :: "nat \<Rightarrow> 'q \<Rightarrow> 'q list \<Rightarrow> 'q list" where
  "plan_push capacity query plan = (if length plan < capacity then plan @ [query] else plan)"

definition kPpRefreshQueryCount :: nat where
  "kPpRefreshQueryCount = 6"

definition kPpPressureBudgetPerCycle :: nat where
  "kPpPressureBudgetPerCycle = 4"

record PpAxisRefreshSnapshot =
  ps_feedbackSeen :: bool
  ps_enabled :: bool
  ps_fault :: bool
  ps_degraded :: bool
  ps_desiredModeValid :: bool
  ps_feedbackMode :: MotorMode
  ps_desiredMode :: MotorMode
  ps_intent :: AxisIntent

text \<open>The two \<open>std::array\<close>s of time points have one entry per query, by query index.\<close>

record PpAxisRefreshScheduleState =
  pp_lastDue :: "time_ns list"
  pp_lastIssued :: "time_ns list"
  pp_pressureCursor :: nat

definition default_PpSchedule :: PpAxisRefreshScheduleState where
  "default_PpSchedule = \<lparr>pp_lastDue = replicate 6 0, pp_lastIssued = replicate 6 0, pp_pressureCursor = 0\<rparr>"

record DmAxisRefreshSnapshot =
  ds_feedbackSeen :: bool
  ds_enabled :: bool
  ds_fault :: bool
  ds_intent :: AxisIntent

record DmAxisRefreshScheduleState =
  dm_lastIssued :: time_ns

section \<open>PP planning\<close>

definition NeedsPpPriorityLifecycleQueries :: "PpAxisRefreshSnapshot \<Rightarrow> bool" where
  "NeedsPpPriorityLifecycleQueries snapshot =
     (if \<not> ps_feedbackSeen snapshot \<or> ps_degraded snapshot \<or> ps_fault snapshot \<or> \<not> ps_enabled snapshot then True
      else if ps_intent snapshot = IntentEnable \<or> ps_intent snapshot = IntentRecover then True
      else ps_desiredModeValid snapshot \<and> ps_feedbackMode snapshot \<noteq> ps_desiredMode snapshot)"

definition PpRefreshQueryOrder :: "PpRefreshQuery list" where
  "PpRefreshQueryOrder = [PpPosition, PpVelocity, PpMode, PpEnable, PpFault, PpCurrent]"

fun PpRefreshQueryIndex :: "PpRefreshQuery \<Rightarrow> nat" where
  "PpRefreshQueryIndex PpPosition = 0"
| "PpRefreshQueryIndex PpVelocity = 1"
| "PpRefreshQueryIndex PpMode = 2"
| "PpRefreshQueryIndex PpEnable = 3"
| "PpRefreshQueryIndex PpFault = 4"
| "PpRefreshQueryIndex PpCurrent = 5"

definition PpRefreshPeriod :: "PpRefreshQuery \<Rightarrow> bool \<Rightarrow> PpAxisRefreshSnapshot \<Rightarrow> time_ns" where
  "PpRefreshPeriod query queryPressureActive snapshot =
     (let priority = NeedsPpPriorityLifecycleQueries snapshot
      in case query of
           PpPosition \<Rightarrow> ms 50
         | PpVelocity \<Rightarrow> (if priority then ms 50 else ms 100)
         | PpMode \<Rightarrow> (if priority then ms 50 else ms 100)
         | PpEnable \<Rightarrow> (if priority then ms 50 else ms 100)
         | PpFault \<Rightarrow> (if priority then ms 50 else ms 100)
         | PpCurrent \<Rightarrow> ms 100)"

text \<open>The guard all planners share: the last issue is known, not in the future, and too recent.\<close>

definition recently_issued :: "time_ns \<Rightarrow> time_ns \<Rightarrow> time_ns \<Rightarrow> bool" where
  "recently_issued lastIssued now period \<longleftrightarrow> lastIssued \<noteq> 0 \<and> lastIssued \<le> now \<and> now - lastIssued < period"

text \<open>The first loop of \<open>BuildPpRefreshPlan\<close>: the \<open>due\<close> flag of one query.\<close>

definition pp_due ::
    "time_ns \<Rightarrow> bool \<Rightarrow> PpAxisRefreshSnapshot \<Rightarrow> PpAxisRefreshScheduleState option \<Rightarrow> PpRefreshQuery \<Rightarrow> bool" where
  "pp_due now queryPressureActive snapshot state query =
     (let period = PpRefreshPeriod query queryPressureActive snapshot;
          lastIssued = (case state of None \<Rightarrow> 0 | Some st \<Rightarrow> pp_lastIssued st ! PpRefreshQueryIndex query)
      in if period \<le> 0 then False else \<not> recently_issued lastIssued now period)"

text \<open>
  The second loop: visit the indices in order, plan the due ones, stop at the budget.  The
  result is the plan with the index selected last.
\<close>

fun pp_select :: "nat \<Rightarrow> (nat \<Rightarrow> bool) \<Rightarrow> nat list \<Rightarrow> PpRefreshQuery list \<times> nat \<Rightarrow> PpRefreshQuery list \<times> nat" where
  "pp_select budget due [] (plan, lastSelected) = (plan, lastSelected)"
| "pp_select budget due (i # is) (plan, lastSelected) =
     (if \<not> due i then pp_select budget due is (plan, lastSelected)
      else let plan' = plan_push kPpRefreshQueryCount (PpRefreshQueryOrder ! i) plan
           in if budget \<le> length plan' then (plan', i) else pp_select budget due is (plan', i))"

definition pp_indices :: "bool \<Rightarrow> nat \<Rightarrow> nat list" where
  "pp_indices queryPressureActive start =
     map (\<lambda>offset. if queryPressureActive then (start + offset) mod kPpRefreshQueryCount else offset)
       [0..<kPpRefreshQueryCount]"

definition BuildPpRefreshPlan ::
    "time_ns \<Rightarrow> bool \<Rightarrow> PpAxisRefreshSnapshot \<Rightarrow> PpAxisRefreshScheduleState option \<Rightarrow>
     PpRefreshQuery list \<times> PpAxisRefreshScheduleState option" where
  "BuildPpRefreshPlan now queryPressureActive snapshot state =
     (let due = (\<lambda>i. pp_due now queryPressureActive snapshot state (PpRefreshQueryOrder ! i));
          budget = (if queryPressureActive then min kPpPressureBudgetPerCycle kPpRefreshQueryCount
                    else kPpRefreshQueryCount);
          start = (case state of
                     None \<Rightarrow> 0
                   | Some st \<Rightarrow> if queryPressureActive then pp_pressureCursor st mod kPpRefreshQueryCount else 0);
          (plan, lastSelected) = pp_select budget due (pp_indices queryPressureActive start) ([], start);
          state' = (case state of
                      None \<Rightarrow> None
                    | Some st \<Rightarrow> if queryPressureActive \<and> 0 < length plan
                                then Some (st\<lparr>pp_pressureCursor := (lastSelected + 1) mod kPpRefreshQueryCount\<rparr>)
                                else Some st)
      in (plan, state'))"

definition NotePpRefreshQueryDue ::
    "time_ns \<Rightarrow> PpAxisRefreshScheduleState \<Rightarrow> PpRefreshQuery \<Rightarrow> PpAxisRefreshScheduleState" where
  "NotePpRefreshQueryDue now state query =
     state\<lparr>pp_lastDue := (pp_lastDue state)[PpRefreshQueryIndex query := now]\<rparr>"

definition NotePpRefreshQueryIssued ::
    "time_ns \<Rightarrow> PpAxisRefreshScheduleState \<Rightarrow> PpRefreshQuery \<Rightarrow> PpAxisRefreshScheduleState" where
  "NotePpRefreshQueryIssued now state query =
     state\<lparr>pp_lastIssued := (pp_lastIssued state)[PpRefreshQueryIndex query := now]\<rparr>"

section \<open>MT and DM planning\<close>

definition BuildMtRefreshPlan :: "u64 \<Rightarrow> u64 \<Rightarrow> bool \<Rightarrow> MtRefreshQuery list" where
  "BuildMtRefreshPlan cycle motorIndex queryPressureActive =
     (if queryPressureActive
      then plan_push 3 MtError
             (plan_push 3 (if (cycle + motorIndex) mod 2 = 0 then MtState else MtMultiTurnAngle) [])
      else plan_push 3 MtError (plan_push 3 MtMultiTurnAngle (plan_push 3 MtState [])))"

definition NeedsDmKeepalive :: "DmAxisRefreshSnapshot \<Rightarrow> bool" where
  "NeedsDmKeepalive snapshot =
     (if ds_intent snapshot = IntentNone then False else ds_intent snapshot \<noteq> IntentRun)"

definition DmRefreshPeriod :: "DmAxisRefreshSnapshot \<Rightarrow> time_ns" where
  "DmRefreshPeriod snapshot =
     (if \<not> NeedsDmKeepalive snapshot then 0
      else if \<not> ds_feedbackSeen snapshot \<or> ds_intent snapshot = IntentEnable \<or> ds_intent snapshot = IntentRecover
           then ms 50
      else ms 100)"

definition BuildDmRefreshPlan ::
    "time_ns \<Rightarrow> DmAxisRefreshSnapshot \<Rightarrow> DmAxisRefreshScheduleState option \<Rightarrow> DmRefreshQuery list" where
  "BuildDmRefreshPlan now snapshot state =
     (let period = DmRefreshPeriod snapshot;
          lastIssued = (case state of None \<Rightarrow> 0 | Some st \<Rightarrow> dm_lastIssued st)
      in if period \<le> 0 then [] else if recently_issued lastIssued now period then []
         else plan_push 1 DmKeepalive [])"

fun NoteDmRefreshQueryIssued ::
    "time_ns \<Rightarrow> DmAxisRefreshScheduleState \<Rightarrow> DmRefreshQuery \<Rightarrow> DmAxisRefreshScheduleState" where
  "NoteDmRefreshQueryIssued now state DmKeepalive = state\<lparr>dm_lastIssued := now\<rparr>"

section \<open>The selection loop\<close>

lemma order_index [simp]: "PpRefreshQueryOrder ! PpRefreshQueryIndex q = q"
  by (cases q) (simp_all add: PpRefreshQueryOrder_def)

lemma index_lt [simp]: "PpRefreshQueryIndex q < kPpRefreshQueryCount"
  by (cases q) (simp_all add: kPpRefreshQueryCount_def)

lemma less6_cases: "i < 6 \<longleftrightarrow> i \<in> {0, 1, 2, 3, 4, 5 :: nat}"
  by auto

lemma index_order [simp]: "i < kPpRefreshQueryCount \<Longrightarrow> PpRefreshQueryIndex (PpRefreshQueryOrder ! i) = i"
  unfolding kPpRefreshQueryCount_def less6_cases by (auto simp: PpRefreshQueryOrder_def)

text \<open>
  With a budget within the capacity, the loop plans the first \<open>budget\<close> due indices and stops
  at the last of them.
\<close>

lemma pp_select_plan:
  assumes "length plan < budget" and "budget \<le> kPpRefreshQueryCount"
  shows "fst (pp_select budget due is (plan, l)) =
     plan @ map ((!) PpRefreshQueryOrder) (take (budget - length plan) (filter due is))"
  using assms
proof (induction "is" arbitrary: plan l)
  case (Cons i "is")
  show ?case
  proof (cases "due i")
    case True
    have push: "plan_push kPpRefreshQueryCount (PpRefreshQueryOrder ! i) plan = plan @ [PpRefreshQueryOrder ! i]"
      using Cons.prems by (simp add: plan_push_def)
    show ?thesis
    proof (cases "budget = Suc (length plan)")
      case True
      with \<open>due i\<close> push show ?thesis by (simp add: Let_def)
    next
      case False
      with Cons.prems have lt: "length (plan @ [PpRefreshQueryOrder ! i]) < budget" by simp
      then have "budget - length plan = Suc (budget - Suc (length plan))" by simp
      with Cons.IH [OF lt Cons.prems(2)] \<open>due i\<close> push lt show ?thesis by (simp add: Let_def)
    qed
  next
    case False
    with Cons show ?thesis by simp
  qed
qed simp

lemma pp_select_last:
  assumes "length plan < budget" and "budget \<le> kPpRefreshQueryCount"
    and "pp_select budget due is (plan, l) = (plan', l')" and "plan' \<noteq> plan"
  shows "l' = last (take (budget - length plan) (filter due is)) \<and> take (budget - length plan) (filter due is) \<noteq> []"
  using assms
proof (induction "is" arbitrary: plan l)
  case (Cons i "is")
  show ?case
  proof (cases "due i")
    case True
    have push: "plan_push kPpRefreshQueryCount (PpRefreshQueryOrder ! i) plan = plan @ [PpRefreshQueryOrder ! i]"
      using Cons.prems by (simp add: plan_push_def)
    let ?p = "plan @ [PpRefreshQueryOrder ! i]"
    show ?thesis
    proof (cases "budget = Suc (length plan)")
      case True
      with \<open>due i\<close> push Cons.prems(3) show ?thesis by (simp add: Let_def)
    next
      case False
      with Cons.prems have lt: "length ?p < budget" by simp
      with \<open>due i\<close> push Cons.prems(3) have rest: "pp_select budget due is (?p, i) = (plan', l')"
        by (simp add: Let_def)
      have b: "budget - length plan = Suc (budget - length ?p)" using lt by simp
      show ?thesis
      proof (cases "plan' = ?p")
        case True
        with rest pp_select_plan [OF lt Cons.prems(2), of due "is" i]
        have nil: "take (budget - length ?p) (filter due is) = []" by simp
        with lt have "filter due is = []" by simp
        moreover have "l' = i"
          using rest calculation by (induction "is") (auto split: if_splits)
        ultimately show ?thesis using \<open>due i\<close> b by simp
      next
        case False
        from Cons.IH [OF lt Cons.prems(2) rest this] \<open>due i\<close> b show ?thesis by simp
      qed
    qed
  next
    case False
    with Cons show ?thesis by simp
  qed
qed simp

lemma pp_indices_nth:
  "o' < kPpRefreshQueryCount \<Longrightarrow> pp_indices p start ! o' = (if p then (start + o') mod kPpRefreshQueryCount else o')"
  by (simp add: pp_indices_def)

lemma length_pp_indices [simp]: "length (pp_indices p start) = kPpRefreshQueryCount"
  by (simp add: pp_indices_def)

lemma pp_indices_rotated:
  "start < kPpRefreshQueryCount \<Longrightarrow> pp_indices True start = [start..<kPpRefreshQueryCount] @ [0..<start]"
  unfolding kPpRefreshQueryCount_def less6_cases
  by (auto simp: pp_indices_def kPpRefreshQueryCount_def upt_rec)

lemma pp_indices_plain [simp]: "pp_indices False start = [0..<kPpRefreshQueryCount]"
  by (simp add: pp_indices_def)

lemma set_pp_indices: "start < kPpRefreshQueryCount \<Longrightarrow> set (pp_indices p start) = {0..<kPpRefreshQueryCount}"
  by (cases p) (auto simp: pp_indices_rotated)

lemma distinct_pp_indices: "start < kPpRefreshQueryCount \<Longrightarrow> distinct (pp_indices p start)"
  by (cases p) (auto simp: pp_indices_rotated)

section \<open>Windows of a filtered list\<close>

lemma filter_take_append: "filter P xs = filter P (take n xs) @ filter P (drop n xs)"
  by (metis append_take_drop_id filter_append)

text \<open>An element that is met among the first \<open>n\<close> and satisfies the filter is selected.\<close>

lemma in_take_filter:
  assumes "j < n" and "j < length xs" and "P (xs ! j)"
  shows "xs ! j \<in> set (take n (filter P xs))"
proof -
  have "xs ! j \<in> set (filter P (take (Suc j) xs))"
    using assms by (auto simp: in_set_conv_nth)
  moreover have "length (filter P (take (Suc j) xs)) \<le> n"
    using assms(1) length_filter_le [of P "take (Suc j) xs"] by simp
  then have "take n (filter P xs) = filter P (take (Suc j) xs) @ take (n - length (filter P (take (Suc j) xs))) (filter P (drop (Suc j) xs))"
    by (subst filter_take_append [of P xs "Suc j"]) simp
  ultimately show ?thesis by simp
qed

lemma filter_nth_position:
  "n < length (filter P xs) \<Longrightarrow> \<exists>i. n \<le> i \<and> i < length xs \<and> xs ! i = filter P xs ! n"
proof (induction xs arbitrary: n)
  case (Cons x xs)
  show ?case
  proof (cases "P x \<and> n = 0")
    case True
    then show ?thesis by (intro exI [of _ 0]) simp
  next
    case False
    define m where "m = (if P x then n - 1 else n)"
    with Cons.prems False have "m < length (filter P xs)" by (auto split: if_splits)
    from Cons.IH [OF this] obtain i where "m \<le> i" "i < length xs" "xs ! i = filter P xs ! m" by blast
    with False m_def show ?thesis
      by (intro exI [of _ "Suc i"]) (auto simp: nth_Cons' split: if_splits)
  qed
qed simp

text \<open>
  If an element that satisfies the filter is not selected, the last selected one comes
  before it, at position \<open>n - 1\<close> or later.
\<close>

lemma last_selected_position:
  assumes "0 < n" and "j < length xs" and "P (xs ! j)" and "distinct xs"
    and out: "xs ! j \<notin> set (take n (filter P xs))"
  shows "\<exists>i. n - 1 \<le> i \<and> i < j \<and> xs ! i = last (take n (filter P xs))"
proof -
  let ?A = "filter P (take j xs)"
  have eq: "filter P xs = ?A @ xs ! j # filter P (drop (Suc j) xs)"
    by (subst filter_take_append [of P xs j]) (simp add: assms Cons_nth_drop_Suc [symmetric])
  have len: "n \<le> length ?A"
  proof (rule ccontr)
    assume "\<not> n \<le> length ?A"
    then obtain m where "n = length ?A + Suc m" by (metis add_Suc_right less_imp_Suc_add not_le)
    with out show False by (simp add: eq)
  qed
  then have "take n (filter P xs) = take n ?A" by (simp add: eq)
  with len assms(1) have l: "last (take n (filter P xs)) = ?A ! (n - 1)"
    by (subst last_conv_nth) (auto simp: min_def)
  from len assms(1) have "n - 1 < length ?A" by simp
  from filter_nth_position [OF this] obtain i where
    "n - 1 \<le> i" "i < length (take j xs)" "take j xs ! i = ?A ! (n - 1)" by blast
  with l assms(2) show ?thesis by (intro exI [of _ i]) simp
qed

section \<open>Plans\<close>

definition pp_start :: "bool \<Rightarrow> PpAxisRefreshScheduleState option \<Rightarrow> nat" where
  "pp_start p state = (case state of None \<Rightarrow> 0
     | Some st \<Rightarrow> if p then pp_pressureCursor st mod kPpRefreshQueryCount else 0)"

definition pp_budget :: "bool \<Rightarrow> nat" where
  "pp_budget p = (if p then min kPpPressureBudgetPerCycle kPpRefreshQueryCount else kPpRefreshQueryCount)"

lemma pp_budget_simps [simp]: "pp_budget True = 4" "pp_budget False = 6" "0 < pp_budget p"
    "pp_budget p \<le> kPpRefreshQueryCount"
  by (simp_all add: pp_budget_def kPpPressureBudgetPerCycle_def kPpRefreshQueryCount_def)

lemma pp_start_lt [simp]: "pp_start p state < kPpRefreshQueryCount"
  by (simp add: pp_start_def kPpRefreshQueryCount_def split: option.splits)

abbreviation pp_due_at where
  "pp_due_at now p snapshot state \<equiv> (\<lambda>i. pp_due now p snapshot state (PpRefreshQueryOrder ! i))"

lemma plan_eq:
  "fst (BuildPpRefreshPlan now p snapshot state) =
     map ((!) PpRefreshQueryOrder)
       (take (pp_budget p) (filter (pp_due_at now p snapshot state) (pp_indices p (pp_start p state))))"
proof -
  have "fst (BuildPpRefreshPlan now p snapshot state) =
      fst (pp_select (pp_budget p) (pp_due_at now p snapshot state) (pp_indices p (pp_start p state)) ([], pp_start p state))"
    by (simp add: BuildPpRefreshPlan_def pp_start_def pp_budget_def Let_def split: prod.splits)
  then show ?thesis by (simp add: pp_select_plan)
qed

lemma plan_mem_iff_index:
  assumes "start < kPpRefreshQueryCount"
  shows "q \<in> (!) PpRefreshQueryOrder ` set (take n (filter P (pp_indices p start))) \<longleftrightarrow>
    PpRefreshQueryIndex q \<in> set (take n (filter P (pp_indices p start)))"
proof
  assume "q \<in> (!) PpRefreshQueryOrder ` set (take n (filter P (pp_indices p start)))"
  then obtain i where i: "i \<in> set (take n (filter P (pp_indices p start)))" and q: "q = PpRefreshQueryOrder ! i" by blast
  from i have "i \<in> set (pp_indices p start)" by (auto dest: in_set_takeD)
  with assms have "i < kPpRefreshQueryCount" by (simp add: set_pp_indices)
  with i q show "PpRefreshQueryIndex q \<in> set (take n (filter P (pp_indices p start)))" by simp
next
  assume "PpRefreshQueryIndex q \<in> set (take n (filter P (pp_indices p start)))"
  then show "q \<in> (!) PpRefreshQueryOrder ` set (take n (filter P (pp_indices p start)))"
    by (intro image_eqI [of _ _ "PpRefreshQueryIndex q"]) simp_all
qed

lemma mem_plan_iff:
  "q \<in> set (fst (BuildPpRefreshPlan now p snapshot state)) \<longleftrightarrow>
     PpRefreshQueryIndex q \<in> set (take (pp_budget p)
       (filter (pp_due_at now p snapshot state) (pp_indices p (pp_start p state))))"
  by (simp add: plan_eq plan_mem_iff_index)

lemma cursor_after_plan:
  assumes "fst (BuildPpRefreshPlan now True snapshot (Some st)) \<noteq> []"
  shows "snd (BuildPpRefreshPlan now True snapshot (Some st)) =
    Some (st\<lparr>pp_pressureCursor := (last (take 4 (filter (pp_due_at now True snapshot (Some st))
       (pp_indices True (pp_start True (Some st))))) + 1) mod kPpRefreshQueryCount\<rparr>)"
proof -
  let ?sel = "pp_select (pp_budget True) (pp_due_at now True snapshot (Some st))
     (pp_indices True (pp_start True (Some st))) ([], pp_start True (Some st))"
  obtain plan l where sel: "?sel = (plan, l)" by (cases ?sel)
  have build: "BuildPpRefreshPlan now True snapshot (Some st) =
      (plan, if 0 < length plan then Some (st\<lparr>pp_pressureCursor := (l + 1) mod kPpRefreshQueryCount\<rparr>) else Some st)"
    using sel by (simp add: BuildPpRefreshPlan_def pp_start_def pp_budget_def Let_def)
  with assms have ne: "plan \<noteq> []" by simp
  have "l = last (take 4 (filter (pp_due_at now True snapshot (Some st)) (pp_indices True (pp_start True (Some st)))))"
    using pp_select_last [OF _ pp_budget_simps(4) sel ne] by simp
  with build ne show ?thesis by simp
qed

text \<open>
  Under pressure, the position of a left-out query counted from the next cursor is at most 1.
\<close>

lemma next_offset:
  assumes "(start + i) mod 6 = (l :: nat)" "(start + j) mod 6 = q" "3 \<le> i" "i < j" "j < 6"
  shows "\<exists>k < 2. ((l + 1) mod 6 + k) mod 6 = q"
proof (intro exI [of _ "j - i - 1"] conjI)
  show "j - i - 1 < 2" using assms by simp
  have "((l + 1) mod 6 + (j - i - 1)) mod 6 = (start + i + 1 + (j - i - 1)) mod 6"
    unfolding assms(1) [symmetric] by (simp add: mod_simps)
  also have "start + i + 1 + (j - i - 1) = start + j" using assms by simp
  finally show "((l + 1) mod 6 + (j - i - 1)) mod 6 = q" using assms by simp
qed

lemma left_out_then_planned:
  assumes due1: "pp_due now True snapshot (Some st) q"
    and out: "q \<notin> set (fst (BuildPpRefreshPlan now True snapshot (Some st)))"
    and nxt: "snd (BuildPpRefreshPlan now True snapshot (Some st)) = Some st1"
    and cursor: "pp_pressureCursor st2 = pp_pressureCursor st1"
    and due2: "pp_due now' True snapshot' (Some st2) q"
  shows "q \<in> set (fst (BuildPpRefreshPlan now' True snapshot' (Some st2)))"
proof -
  let ?start = "pp_start True (Some st)"
  let ?xs = "pp_indices True ?start" and ?P = "pp_due_at now True snapshot (Some st)"
  have "PpRefreshQueryIndex q \<in> set ?xs" by (simp add: set_pp_indices)
  then obtain j where j: "j < 6" "?xs ! j = PpRefreshQueryIndex q"
    by (metis in_set_conv_nth kPpRefreshQueryCount_def length_pp_indices)
  have "distinct ?xs" by (rule distinct_pp_indices) simp
  moreover have "j < length ?xs" using j(1) by (simp add: kPpRefreshQueryCount_def)
  ultimately have "\<exists>i. 4 - 1 \<le> i \<and> i < j \<and> ?xs ! i = last (take 4 (filter ?P ?xs))"
    using j(2) due1 out
    by (intro last_selected_position) (simp_all add: mem_plan_iff)
  then obtain i where i: "3 \<le> i" "i < j" "?xs ! i = last (take 4 (filter ?P ?xs))" by auto
  let ?l = "last (take 4 (filter ?P ?xs))"
  have "filter ?P ?xs \<noteq> []" using j due1 by (auto simp: filter_empty_conv set_pp_indices intro!: bexI [of _ "PpRefreshQueryIndex q"])
  then have "fst (BuildPpRefreshPlan now True snapshot (Some st)) \<noteq> []" by (simp add: plan_eq)
  from cursor_after_plan [OF this] nxt cursor
  have start2: "pp_start True (Some st2) = (?l + 1) mod 6"
    by (auto simp: pp_start_def kPpRefreshQueryCount_def)
  have "(?start + i) mod 6 = ?l" "(?start + j) mod 6 = PpRefreshQueryIndex q"
    using i j pp_indices_nth [of i True ?start] pp_indices_nth [of j True ?start]
    by (simp_all add: kPpRefreshQueryCount_def)
  from next_offset [OF this i(1,2) j(1)] start2
  obtain k where k: "k < 2" "pp_indices True (pp_start True (Some st2)) ! k = PpRefreshQueryIndex q"
    using pp_indices_nth [of _ True "pp_start True (Some st2)"] by (auto simp: kPpRefreshQueryCount_def)
  then show ?thesis
    using in_take_filter [of k 4 "pp_indices True (pp_start True (Some st2))" "pp_due_at now' True snapshot' (Some st2)"] due2
    by (simp add: mem_plan_iff kPpRefreshQueryCount_def)
qed

section \<open>Properties\<close>

text \<open>
  A PP refresh plan never exceeds its budget (four queries under pressure, six otherwise),
  repeats no query, and contains only queries that are due.
\<close>

lemma pp_plan_sound:
  "length (fst (BuildPpRefreshPlan now p snapshot state)) \<le> (if p then 4 else 6) \<and>
   distinct (fst (BuildPpRefreshPlan now p snapshot state)) \<and>
   set (fst (BuildPpRefreshPlan now p snapshot state)) \<subseteq> {q. pp_due now p snapshot state q}"
proof (intro conjI)
  let ?sel = "take (pp_budget p) (filter (pp_due_at now p snapshot state) (pp_indices p (pp_start p state)))"
  show "length (fst (BuildPpRefreshPlan now p snapshot state)) \<le> (if p then 4 else 6)"
    by (simp add: plan_eq)
  have "inj_on ((!) PpRefreshQueryOrder) (set ?sel)"
    by (rule inj_on_inverseI [of _ PpRefreshQueryIndex])
      (auto dest!: in_set_takeD simp: set_pp_indices)
  then show "distinct (fst (BuildPpRefreshPlan now p snapshot state))"
    by (simp add: plan_eq distinct_map distinct_take distinct_pp_indices)
  show "set (fst (BuildPpRefreshPlan now p snapshot state)) \<subseteq> {q. pp_due now p snapshot state q}"
    by (auto simp: mem_plan_iff dest!: in_set_takeD)
qed

text \<open>
  Without query pressure the PP plan is exactly the set of due queries.
\<close>

lemma pp_plan_complete_without_pressure:
  "q \<in> set (fst (BuildPpRefreshPlan now False snapshot state)) \<longleftrightarrow> pp_due now False snapshot state q"
proof -
  have "length (filter (pp_due_at now False snapshot state) [0..<kPpRefreshQueryCount]) \<le> 6"
    using length_filter_le [of _ "[0..<kPpRefreshQueryCount]"] by (simp add: kPpRefreshQueryCount_def)
  then show ?thesis by (simp add: mem_plan_iff)
qed

text \<open>
  No PP query starves under pressure: a due query that one pressure plan leaves out is in
  the next pressure plan of that axis if it is still due, whatever happened to the issue times
  in between.
\<close>

lemma pp_pressure_no_starvation:
  assumes "pp_due now True snapshot (Some st) q"
    and "q \<notin> set (fst (BuildPpRefreshPlan now True snapshot (Some st)))"
    and "snd (BuildPpRefreshPlan now True snapshot (Some st)) = Some st1"
    and "pp_pressureCursor st2 = pp_pressureCursor st1"
    and "pp_due now' True snapshot' (Some st2) q"
  shows "q \<in> set (fst (BuildPpRefreshPlan now' True snapshot' (Some st2)))"
  using assms by (rule left_out_then_planned)

definition witness_snapshot :: PpAxisRefreshSnapshot where
  "witness_snapshot = \<lparr>ps_feedbackSeen = True, ps_enabled = True, ps_fault = False, ps_degraded = False,
     ps_desiredModeValid = False, ps_feedbackMode = ModePosition, ps_desiredMode = ModePosition,
     ps_intent = IntentRun\<rparr>"

lemma pp_pressure_no_starvation_witness:
  "PpFault \<notin> set (fst (BuildPpRefreshPlan (ms 1000) True witness_snapshot (Some default_PpSchedule))) \<and>
   PpFault \<in> set (fst (BuildPpRefreshPlan (ms 1010) True witness_snapshot
      (Some (default_PpSchedule\<lparr>pp_pressureCursor := 4\<rparr>))))"
proof -
  have due: "pp_due t True witness_snapshot (Some (default_PpSchedule\<lparr>pp_pressureCursor := c\<rparr>)) PpFault" for t c
    by (simp add: pp_due_def default_PpSchedule_def recently_issued_def PpRefreshPeriod_def Let_def)
  have d0: "default_PpSchedule\<lparr>pp_pressureCursor := 0\<rparr> = default_PpSchedule"
    by (simp add: default_PpSchedule_def)
  have plan: "BuildPpRefreshPlan (ms 1000) True witness_snapshot (Some default_PpSchedule) =
     ([PpPosition, PpVelocity, PpMode, PpEnable], Some (default_PpSchedule\<lparr>pp_pressureCursor := 4\<rparr>))"
    by code_simp
  show ?thesis
    using pp_pressure_no_starvation [of "ms 1000" witness_snapshot default_PpSchedule PpFault
        "default_PpSchedule\<lparr>pp_pressureCursor := 4\<rparr>" "default_PpSchedule\<lparr>pp_pressureCursor := 4\<rparr>" "ms 1010" witness_snapshot]
      due [of "ms 1000" 0] due [of "ms 1010" 4] plan d0
    by simp
qed

text \<open>
  In two consecutive pressure cycles an MT motor is asked for its state, its multi-turn
  angle and its error flags, also when the 64-bit cycle counter wraps around.
\<close>

lemma mt_pressure_covers_all_in_two_cycles:
  "set (BuildMtRefreshPlan cycle motorIndex True) \<union> set (BuildMtRefreshPlan (cycle + 1) motorIndex True) =
     {MtState, MtMultiTurnAngle, MtError} \<and>
   MtError \<in> set (BuildMtRefreshPlan cycle motorIndex True)"
proof -
  have "even (cycle + 1 + motorIndex) \<longleftrightarrow> odd (cycle + motorIndex)" by auto
  then show ?thesis
    by (auto simp: BuildMtRefreshPlan_def plan_push_def even_iff_mod_2_eq_zero [symmetric] simp del: even_add odd_add)
qed

end
