(* ===== verification/Mt_Can.thy ===== *)
theory Mt_Can
  imports Protocol_Io Mt_Rmd_Protocol Refresh_Scheduler
begin

text \<open>
  \<open>MtCan.cpp\<close>: the driver of the MT motors on one device.  Each public operation and each
  handler is a function on the state \<open>mt_can\<close>; an operation that reads the clock takes the
  time \<open>now\<close>.  Locks are not modelled: every operation takes them one after the other and calls
  nothing that takes the same one.  Log output is left out.
\<close>

section \<open>State\<close>

record mt_motor_state =
  ms_position :: i32
  ms_multiTurnAngle :: int
  ms_velocity :: i16
  ms_current :: dbl
  ms_commandedVelocity :: i32
  ms_temperature :: i8
  ms_voltageRaw1 :: u16
  ms_voltageRaw2 :: u16
  ms_encoderPosition :: u16
  ms_enabled :: bool
  ms_error :: bool
  ms_positionReceived :: bool
  ms_velocityReceived :: bool
  ms_currentReceived :: bool
  ms_modeReceived :: bool
  ms_enabledReceived :: bool
  ms_faultReceived :: bool
  ms_mode :: MotorMode

definition default_mt_motor :: mt_motor_state where
  "default_mt_motor = \<lparr>ms_position = 0, ms_multiTurnAngle = 0, ms_velocity = 0, ms_current = Fin 0,
     ms_commandedVelocity = 0, ms_temperature = 0, ms_voltageRaw1 = 0, ms_voltageRaw2 = 0,
     ms_encoderPosition = 0, ms_enabled = False, ms_error = False, ms_positionReceived = False,
     ms_velocityReceived = False, ms_currentReceived = False, ms_modeReceived = False,
     ms_enabledReceived = False, ms_faultReceived = False, ms_mode = ModeVelocity\<rparr>"

record mt_pending_read =
  pr_lastSent :: time_ns
  pr_nextEligibleSend :: time_ns
  pr_queued :: bool
  pr_inFlight :: bool
  pr_consecutiveTimeouts :: nat

definition default_mt_pending :: mt_pending_read where
  "default_mt_pending = \<lparr>pr_lastSent = 0, pr_nextEligibleSend = 0, pr_queued = False,
     pr_inFlight = False, pr_consecutiveTimeouts = 0\<rparr>"

record mt_can = proto_io +
  mc_motorStates :: "u8 \<rightharpoonup> mt_motor_state"
  mc_refreshMotorIds :: "u8 list"
  mc_systemMotorIdsByNodeId :: "u8 \<rightharpoonup> motor_id"
  mc_refreshRateHz :: dbl
  mc_shuttingDown :: bool
  mc_pendingReadRequests :: "u16 \<rightharpoonup> mt_pending_read"
  mc_communicationTimeoutOnInitMs :: u32

definition new_MtCan :: "bool \<Rightarrow> bool \<Rightarrow> SharedDriverState option \<Rightarrow> string \<Rightarrow> mt_can" where
  "new_MtCan controller txDispatcher sharedState deviceName =
     \<lparr>io_canController = controller, io_txDispatcher = txDispatcher, io_sharedState = sharedState,
      io_deviceName = deviceName, io_outbox = [], mc_motorStates = Map.empty, mc_refreshMotorIds = [],
      mc_systemMotorIdsByNodeId = Map.empty, mc_refreshRateHz = Fin 0, mc_shuttingDown = False,
      mc_pendingReadRequests = Map.empty, mc_communicationTimeoutOnInitMs = 0\<rparr>"

definition kDefaultPositionSpeedDps :: u16 where "kDefaultPositionSpeedDps = 100"
definition kQueriesPerMotorPerCycle :: nat where "kQueriesPerMotorPerCycle = 3"
definition kBaseReadTimeoutCycles :: int where "kBaseReadTimeoutCycles = 3"
definition kMaxReadTimeoutCycles :: int where "kMaxReadTimeoutCycles = 8"
definition kMinReadRequestTimeout :: int where "kMinReadRequestTimeout = 250"
definition kMaxReadRequestTimeout :: int where "kMaxReadRequestTimeout = 1500"

section \<open>Identifiers and shared state\<close>

definition rememberSystemMotorId :: "motor_id \<Rightarrow> mt_can \<Rightarrow> mt_can" where
  "rememberSystemMotorId mid s =
     s\<lparr>mc_systemMotorIdsByNodeId := (mc_systemMotorIdsByNodeId s)(toMtProtocolNodeId mid \<mapsto> mid)\<rparr>"

definition resolveSystemMotorId :: "mt_can \<Rightarrow> u8 \<Rightarrow> motor_id" where
  "resolveSystemMotorId s motorId =
     (case mc_systemMotorIdsByNodeId s motorId of Some mid \<Rightarrow> mid | None \<Rightarrow> motorIdFromMtProtocolNodeId motorId)"

definition makeAxisKey :: "mt_can \<Rightarrow> u8 \<Rightarrow> AxisKey" where
  "makeAxisKey s motorId = MakeAxisKey (io_deviceName s) MT (resolveSystemMotorId s motorId)"

definition mt_feedback :: "time_ns \<Rightarrow> mt_motor_state \<Rightarrow> AxisFeedbackState \<Rightarrow> AxisFeedbackState" where
  "mt_feedback nowNs state feedback =
     feedback\<lparr>fb_position := ms_multiTurnAngle state, fb_velocity := scast (ms_velocity state),
       fb_current := word_of_int (llround 0 (dmul (ms_current state) (Fin 100))),
       fb_mode := ms_mode state, fb_positionValid := ms_positionReceived state,
       fb_velocityValid := ms_velocityReceived state, fb_currentValid := ms_currentReceived state,
       fb_modeValid := ms_modeReceived state, fb_enabled := ms_enabled state, fb_fault := ms_error state,
       fb_enabledValid := ms_enabledReceived state, fb_faultValid := ms_faultReceived state,
       fb_feedbackSeen := True, fb_lastRxSteadyNs := nowNs, fb_lastValidStateSteadyNs := nowNs,
       fb_consecutiveTimeoutCount := 0, fb_degraded := False\<rparr>"

definition syncSharedFeedback :: "time_ns \<Rightarrow> u8 \<Rightarrow> mt_motor_state \<Rightarrow> mt_can \<Rightarrow> mt_can" where
  "syncSharedFeedback now motorId state s =
     on_shared (mutateAxisFeedback (makeAxisKey s motorId) (mt_feedback now state)) s"

definition mt_command :: "time_ns \<Rightarrow> int \<Rightarrow> i32 \<Rightarrow> MotorMode \<Rightarrow> bool \<Rightarrow> AxisCommandState \<Rightarrow> AxisCommandState" where
  "mt_command nowNs targetPosition targetVelocity desiredMode valid command =
     command\<lparr>ac_targetPosition := targetPosition, ac_targetVelocity := targetVelocity,
       ac_desiredMode := desiredMode, ac_desiredModeValid := True, ac_valid := valid,
       ac_lastCommandSteadyNs := (if valid then nowNs else 0)\<rparr>"

definition syncSharedCommand :: "time_ns \<Rightarrow> u8 \<Rightarrow> int \<Rightarrow> i32 \<Rightarrow> MotorMode \<Rightarrow> bool \<Rightarrow> mt_can \<Rightarrow> mt_can" where
  "syncSharedCommand now motorId targetPosition targetVelocity desiredMode valid s =
     on_shared (mutateAxisCommand (makeAxisKey s motorId)
       (mt_command now targetPosition targetVelocity desiredMode valid)) s"

definition mode_selection :: "MotorMode \<Rightarrow> AxisCommandState \<Rightarrow> AxisCommandState" where
  "mode_selection desiredMode command =
     command\<lparr>ac_targetPosition := 0, ac_targetVelocity := 0, ac_targetCurrent := 0,
       ac_desiredMode := desiredMode, ac_desiredModeValid := True, ac_valid := False,
       ac_lastCommandSteadyNs := 0\<rparr>"

definition syncSharedModeSelection :: "u8 \<Rightarrow> MotorMode \<Rightarrow> mt_can \<Rightarrow> mt_can" where
  "syncSharedModeSelection motorId desiredMode s =
     on_shared (mutateAxisCommand (makeAxisKey s motorId) (mode_selection desiredMode)) s"

definition syncSharedIntent :: "u8 \<Rightarrow> AxisIntent \<Rightarrow> mt_can \<Rightarrow> mt_can" where
  "syncSharedIntent motorId intent s = on_shared (setAxisIntent (makeAxisKey s motorId) intent) s"

definition timeout_noted :: "nat \<Rightarrow> AxisFeedbackState \<Rightarrow> AxisFeedbackState" where
  "timeout_noted consecutiveTimeouts feedback =
     (let f = feedback\<lparr>fb_consecutiveTimeoutCount := of_nat consecutiveTimeouts\<rparr>
      in f\<lparr>fb_degraded := kDefaultFeedbackDegradedTimeoutThreshold \<le> fb_consecutiveTimeoutCount f\<rparr>)"

definition noteSharedTimeout :: "u8 \<Rightarrow> nat \<Rightarrow> mt_can \<Rightarrow> mt_can" where
  "noteSharedTimeout motorId consecutiveTimeouts s =
     on_shared (mutateAxisFeedback (makeAxisKey s motorId) (timeout_noted consecutiveTimeouts)) s"

section \<open>Intervals\<close>

definition mt_computeRefreshSleep :: "mt_can \<Rightarrow> nat \<Rightarrow> int" where
  "mt_computeRefreshSleep s motorCount =
     computeRefreshSleep kQueriesPerMotorPerCycle (mc_refreshRateHz s) motorCount"

definition computeReadRequestTimeout :: "mt_can \<Rightarrow> int" where
  "computeReadRequestTimeout s =
     (let motorCount = max 1 (length (mc_refreshMotorIds s));
          refreshSleep = mt_computeRefreshSleep s motorCount;
          timeoutCycles = min kMaxReadTimeoutCycles (kBaseReadTimeoutCycles + int motorCount);
          timeout = refreshSleep * timeoutCycles
      in max kMinReadRequestTimeout (min timeout kMaxReadRequestTimeout))"

definition computeTimeoutBackoff :: "nat \<Rightarrow> int \<Rightarrow> int" where
  "computeTimeoutBackoff consecutiveTimeouts baseTimeout =
     (let cappedTimeouts = min consecutiveTimeouts 4;
          multiplier = 2 ^ cappedTimeouts;
          backoff = baseTimeout * multiplier
      in min 500 (max baseTimeout backoff))"

definition refreshSleepInterval :: "mt_can \<Rightarrow> int" where
  "refreshSleepInterval s = mt_computeRefreshSleep s (max 1 (length (mc_refreshMotorIds s)))"

definition readResponseTimeout :: "mt_can \<Rightarrow> int" where
  "readResponseTimeout s = computeReadRequestTimeout s"

section \<open>Read tracking\<close>

definition resetReadTracking :: "mt_can \<Rightarrow> mt_can" where
  "resetReadTracking s = s\<lparr>mc_pendingReadRequests := Map.empty\<rparr>"

definition stopRefreshLoop :: "mt_can \<Rightarrow> mt_can" where
  "stopRefreshLoop s = resetReadTracking s"

definition tryIssueReadCommand :: "time_ns \<Rightarrow> u8 \<Rightarrow> u8 \<Rightarrow> mt_can \<Rightarrow> bool \<times> mt_can" where
  "tryIssueReadCommand now motorId command s =
     (if mc_shuttingDown s \<or> \<not> io_canController s then (False, s)
      else let timeout = computeReadRequestTimeout s;
               key = pendingReadKey motorId command;
               request = map_at default_mt_pending (mc_pendingReadRequests s) key;
               store = (\<lambda>r. s\<lparr>mc_pendingReadRequests := (mc_pendingReadRequests s)(key \<mapsto> r)\<rparr>)
           in if pr_nextEligibleSend request \<noteq> 0 \<and> now < pr_nextEligibleSend request then (False, store request)
              else if pr_queued request then (False, store request)
              else if pr_inFlight request \<and> now - pr_lastSent request < ms timeout then (False, store request)
              else if pr_inFlight request
              then let timeouts = min (pr_consecutiveTimeouts request + 1) 8;
                       r = request\<lparr>pr_inFlight := False, pr_consecutiveTimeouts := timeouts,
                             pr_nextEligibleSend := now + ms (computeTimeoutBackoff timeouts timeout)\<rparr>
                   in (False, noteSharedTimeout motorId timeouts (store r))
              else (True, store (request\<lparr>pr_queued := True, pr_nextEligibleSend := 0\<rparr>)))"

definition onReadDispatchResult ::
    "u8 \<Rightarrow> u8 \<Rightarrow> bool \<Rightarrow> SendResult \<Rightarrow> time_ns \<Rightarrow> mt_can \<Rightarrow> mt_can" where
  "onReadDispatchResult motorId command attemptedSend sendResult eventTime s =
     (if mc_shuttingDown s then s
      else case mc_pendingReadRequests s (pendingReadKey motorId command) of
        None \<Rightarrow> s
      | Some request \<Rightarrow>
          let r = request\<lparr>pr_queued := False, pr_inFlight := False\<rparr>;
              r' = (if attemptedSend \<and> sendResult = SendOk then r\<lparr>pr_inFlight := True, pr_lastSent := eventTime\<rparr> else r)
          in s\<lparr>mc_pendingReadRequests := (mc_pendingReadRequests s)(pendingReadKey motorId command \<mapsto> r')\<rparr>)"

definition markReadResponseReceived :: "u8 \<Rightarrow> u8 \<Rightarrow> mt_can \<Rightarrow> mt_can" where
  "markReadResponseReceived motorId command s =
     (case mc_pendingReadRequests s (pendingReadKey motorId command) of
        None \<Rightarrow> s
      | Some request \<Rightarrow>
          s\<lparr>mc_pendingReadRequests := (mc_pendingReadRequests s)(pendingReadKey motorId command \<mapsto>
              request\<lparr>pr_queued := False, pr_inFlight := False, pr_nextEligibleSend := 0,
                      pr_consecutiveTimeouts := 0\<rparr>)\<rparr>)"

section \<open>Sending\<close>

definition encodeSendCanId :: "u8 \<Rightarrow> u16" where
  "encodeSendCanId motorId = sendCanId motorId"

definition makeCommandFrame :: "u16 \<Rightarrow> u8 \<Rightarrow> u8 \<times> u8 \<times> u8 \<times> u8 \<Rightarrow> frame" where
  "makeCommandFrame canId command payload =
     (case payload of (p0, p1, p2, p3) \<Rightarrow>
        let f = makeFrame canId command
        in f\<lparr>fr_data := (fr_data f)[4 := p0, 5 := p1, 6 := p2, 7 := p3]\<rparr>)"

definition sendFrame :: "u16 \<Rightarrow> u8 \<Rightarrow> u8 \<times> u8 \<times> u8 \<times> u8 \<Rightarrow> mt_can \<Rightarrow> mt_can" where
  "sendFrame canId command payload s =
     (if \<not> io_canController s then s
      else let category = (if command = commandByte ResetSystem then Recover
                           else if command = commandByte WriteCurrentMultiTurnPositionToRomAsZero \<or>
                                   command = commandByte CommunicationInterruptionProtectionTimeSetting \<or>
                                   command = commandByte WriteAccelerationToRamAndRom then Config
                           else Control)
           in snd (submitTx (makeCommandFrame canId command payload) category ''MtCan::sendFrame'' s))"

text \<open>The common body of \<open>requestState\<close>, \<open>requestError\<close> and \<open>requestMultiTurnAngle\<close>.\<close>

definition request_read :: "Command \<Rightarrow> string \<Rightarrow> time_ns \<Rightarrow> u8 \<Rightarrow> mt_can \<Rightarrow> bool \<times> mt_can" where
  "request_read command source now motorId s =
     (if \<not> io_canController s then (False, s)
      else case tryIssueReadCommand now motorId (commandByte command) s of
        (issued, s1) \<Rightarrow>
          if \<not> issued then (False, s1)
          else if \<not> io_txDispatcher s1
          then (False, onReadDispatchResult motorId (commandByte command) False SendError now s1)
          else (True, s1\<lparr>io_outbox := io_outbox s1 @
                 [\<lparr>rq_frame = makeReadFrame (encodeSendCanId motorId) command, rq_category = Query,
                   rq_source = source, rq_completion = Some (motorId, commandByte command)\<rparr>]\<rparr>))"

definition requestState :: "time_ns \<Rightarrow> u8 \<Rightarrow> mt_can \<Rightarrow> bool \<times> mt_can" where
  "requestState = request_read ReadMotorStatus2 ''MtCan::requestState''"

definition requestError :: "time_ns \<Rightarrow> u8 \<Rightarrow> mt_can \<Rightarrow> bool \<times> mt_can" where
  "requestError = request_read ReadMotorStatus1AndErrorFlag ''MtCan::requestError''"

definition requestMultiTurnAngle :: "time_ns \<Rightarrow> u8 \<Rightarrow> mt_can \<Rightarrow> bool \<times> mt_can" where
  "requestMultiTurnAngle = request_read ReadMultiTurnAngle ''MtCan::requestMultiTurnAngle''"

definition resetSystem :: "u8 \<Rightarrow> mt_can \<Rightarrow> mt_can" where
  "resetSystem motorId s = snd (submitTx (makeResetFrame (encodeSendCanId motorId)) Recover ''MtCan::resetSystem'' s)"

definition setZeroPosition :: "u8 \<Rightarrow> mt_can \<Rightarrow> mt_can" where
  "setZeroPosition motorId s =
     snd (submitTx (makeZeroPositionFrame (encodeSendCanId motorId)) Config ''MtCan::setZeroPosition'' s)"

section \<open>Public operations\<close>

definition motor :: "mt_can \<Rightarrow> u8 \<Rightarrow> mt_motor_state" where
  "motor s motorId = map_at default_mt_motor (mc_motorStates s) motorId"

definition modify_motor :: "u8 \<Rightarrow> (mt_motor_state \<Rightarrow> mt_motor_state) \<Rightarrow> mt_can \<Rightarrow> mt_can" where
  "modify_motor motorId f s = s\<lparr>mc_motorStates := map_modify default_mt_motor motorId f (mc_motorStates s)\<rparr>"

definition mt_setMode :: "motor_id \<Rightarrow> MotorMode \<Rightarrow> mt_can \<Rightarrow> bool \<times> mt_can" where
  "mt_setMode mid mode s =
     (let motorId = toMtProtocolNodeId mid;
          s1 = modify_motor motorId (ms_mode_update (\<lambda>_. mode)) (rememberSystemMotorId mid s)
      in (True, syncSharedModeSelection motorId mode s1))"

fun mt_issueRefreshQuery :: "time_ns \<Rightarrow> motor_id \<Rightarrow> MtRefreshQuery \<Rightarrow> mt_can \<Rightarrow> bool \<times> mt_can" where
  "mt_issueRefreshQuery now mid MtState s = requestState now (toMtProtocolNodeId mid) (rememberSystemMotorId mid s)"
| "mt_issueRefreshQuery now mid MtMultiTurnAngle s =
     requestMultiTurnAngle now (toMtProtocolNodeId mid) (rememberSystemMotorId mid s)"
| "mt_issueRefreshQuery now mid MtError s = requestError now (toMtProtocolNodeId mid) (rememberSystemMotorId mid s)"

definition mt_setVelocity :: "time_ns \<Rightarrow> motor_id \<Rightarrow> i32 \<Rightarrow> mt_can \<Rightarrow> bool \<times> mt_can" where
  "mt_setVelocity now mid velocity s =
     (if \<not> io_canController s then (False, s)
      else let motorId = toMtProtocolNodeId mid;
               s1 = modify_motor motorId (ms_commandedVelocity_update (\<lambda>_. velocity)) (rememberSystemMotorId mid s);
               s2 = syncSharedCommand now motorId 0 velocity ModeVelocity True s1;
               f = makeSpeedClosedLoopFrame (encodeSendCanId motorId) velocity
           in (True, snd (submitTx f Control ''MtCan::setVelocity'' s2)))"

definition writeAcceleration :: "u8 \<Rightarrow> u8 \<Rightarrow> u32 \<Rightarrow> mt_can \<Rightarrow> bool \<times> mt_can" where
  "writeAcceleration motorId index value s =
     (if \<not> io_canController s then (False, s)
      else submitTx (makeAccelerationFrame (encodeSendCanId motorId) index value) Config ''MtCan::writeAcceleration'' s)"

definition setSpeedAcceleration :: "motor_id \<Rightarrow> u32 \<Rightarrow> mt_can \<Rightarrow> bool \<times> mt_can" where
  "setSpeedAcceleration mid v s = writeAcceleration (toMtProtocolNodeId mid) 0x02 v (rememberSystemMotorId mid s)"

definition setSpeedDeceleration :: "motor_id \<Rightarrow> u32 \<Rightarrow> mt_can \<Rightarrow> bool \<times> mt_can" where
  "setSpeedDeceleration mid v s = writeAcceleration (toMtProtocolNodeId mid) 0x03 v (rememberSystemMotorId mid s)"

definition setPositionAcceleration :: "motor_id \<Rightarrow> u32 \<Rightarrow> mt_can \<Rightarrow> bool \<times> mt_can" where
  "setPositionAcceleration mid v s = writeAcceleration (toMtProtocolNodeId mid) 0x00 v (rememberSystemMotorId mid s)"

definition setPositionDeceleration :: "motor_id \<Rightarrow> u32 \<Rightarrow> mt_can \<Rightarrow> bool \<times> mt_can" where
  "setPositionDeceleration mid v s = writeAcceleration (toMtProtocolNodeId mid) 0x01 v (rememberSystemMotorId mid s)"

definition mt_setAcceleration :: "motor_id \<Rightarrow> i32 \<Rightarrow> mt_can \<Rightarrow> bool \<times> mt_can" where
  "mt_setAcceleration mid acceleration s =
     setSpeedAcceleration mid (if sint acceleration \<le> 0 then 100 else acceleration) s"

definition mt_setDeceleration :: "motor_id \<Rightarrow> i32 \<Rightarrow> mt_can \<Rightarrow> bool \<times> mt_can" where
  "mt_setDeceleration mid deceleration s =
     setSpeedDeceleration mid (if sint deceleration \<le> 0 then 100 else deceleration) s"

fun timeout_loop :: "u32 \<Rightarrow> u8 list \<Rightarrow> mt_can \<Rightarrow> bool \<times> mt_can" where
  "timeout_loop timeoutMs [] s = (True, s)"
| "timeout_loop timeoutMs (motorId # motorIds) s =
     (case submitTx (makeCommunicationTimeoutFrame (encodeSendCanId motorId) (uint timeoutMs)) Config
             ''MtCan::setCommunicationTimeout'' s of
        (ok, s1) \<Rightarrow> if \<not> ok then (False, s1) else timeout_loop timeoutMs motorIds s1)"

definition setCommunicationTimeout :: "u32 \<Rightarrow> mt_can \<Rightarrow> bool \<times> mt_can" where
  "setCommunicationTimeout timeoutMs s =
     (if \<not> io_canController s then (False, s)
      else if mc_refreshMotorIds s = [] then (False, s)
      else timeout_loop timeoutMs (mc_refreshMotorIds s) s)"

definition broadcastCommunicationTimeout :: "u32 \<Rightarrow> mt_can \<Rightarrow> mt_can" where
  "broadcastCommunicationTimeout timeoutMs s = snd (setCommunicationTimeout timeoutMs s)"

text \<open>The loop body of \<open>initializeMotorRefresh\<close>.\<close>

definition register_motor :: "motor_id \<Rightarrow> mt_can \<Rightarrow> mt_can" where
  "register_motor mid s =
     (let motorId = toMtProtocolNodeId mid;
          s1 = s\<lparr>mc_refreshMotorIds := mc_refreshMotorIds s @ [motorId],
                 mc_systemMotorIdsByNodeId := (mc_systemMotorIdsByNodeId s)(motorId \<mapsto> mid)\<rparr>
      in on_shared (registerAxis (MakeAxisKey (io_deviceName s) MT mid)) s1)"

definition mt_initializeMotorRefresh :: "motor_id list \<Rightarrow> mt_can \<Rightarrow> mt_can" where
  "mt_initializeMotorRefresh motorIds s =
     (let s1 = fold register_motor motorIds (s\<lparr>mc_refreshMotorIds := [], mc_systemMotorIdsByNodeId := Map.empty\<rparr>);
          s2 = resetReadTracking s1
      in if motorIds = [] then stopRefreshLoop s2
         else broadcastCommunicationTimeout (mc_communicationTimeoutOnInitMs s2) s2)"

definition mt_setRefreshRateHz :: "dbl \<Rightarrow> mt_can \<Rightarrow> mt_can" where
  "mt_setRefreshRateHz hz s = s\<lparr>mc_refreshRateHz := normalizeRefreshRateHz hz\<rparr>"

definition setCommunicationTimeoutOnInit :: "u32 \<Rightarrow> mt_can \<Rightarrow> mt_can" where
  "setCommunicationTimeoutOnInit timeoutMs s = s\<lparr>mc_communicationTimeoutOnInitMs := timeoutMs\<rparr>"

definition mt_setPosition :: "time_ns \<Rightarrow> motor_id \<Rightarrow> i32 \<Rightarrow> mt_can \<Rightarrow> bool \<times> mt_can" where
  "mt_setPosition now mid position s =
     (if \<not> io_canController s then (False, s)
      else let motorId = toMtProtocolNodeId mid;
               s1 = modify_motor motorId (ms_position_update (\<lambda>_. position)) (rememberSystemMotorId mid s);
               commandedVelocity = ms_commandedVelocity (motor s1 motorId);
               s2 = syncSharedCommand now motorId (sint position) commandedVelocity ModePosition True s1;
               maxSpeed = positionMaxSpeedDpsFromSpeedCommand commandedVelocity kDefaultPositionSpeedDps;
               f = makeAbsolutePositionFrame (encodeSendCanId motorId) position maxSpeed
           in submitTx f Control ''MtCan::setPosition'' s2)"

definition mt_quickSetPosition :: "motor_id \<Rightarrow> i32 \<Rightarrow> mt_can \<Rightarrow> bool \<times> mt_can" where
  "mt_quickSetPosition mid position s = (False, s)"

definition mt_Enable :: "time_ns \<Rightarrow> motor_id \<Rightarrow> mt_can \<Rightarrow> bool \<times> mt_can" where
  "mt_Enable now mid s =
     (if \<not> io_canController s then (False, s)
      else let motorId = toMtProtocolNodeId mid;
               s1 = modify_motor motorId (\<lambda>st. st\<lparr>ms_enabled := True, ms_enabledReceived := True\<rparr>) (rememberSystemMotorId mid s);
               s2 = syncSharedIntent motorId IntentEnable s1
           in (True, syncSharedFeedback now motorId (motor s1 motorId) s2))"

definition mt_Disable :: "time_ns \<Rightarrow> motor_id \<Rightarrow> mt_can \<Rightarrow> bool \<times> mt_can" where
  "mt_Disable now mid s =
     (if \<not> io_canController s then (False, s)
      else let motorId = toMtProtocolNodeId mid;
               s1 = modify_motor motorId (\<lambda>st. st\<lparr>ms_enabled := False, ms_enabledReceived := True\<rparr>) (rememberSystemMotorId mid s);
               s2 = syncSharedIntent motorId IntentDisable s1;
               s3 = syncSharedFeedback now motorId (motor s1 motorId) s2
           in (True, snd (submitTx (makeShutdownFrame (encodeSendCanId motorId)) Control ''MtCan::Disable'' s3)))"

definition mt_Stop :: "motor_id \<Rightarrow> mt_can \<Rightarrow> bool \<times> mt_can" where
  "mt_Stop mid s =
     (if \<not> io_canController s then (False, s)
      else let motorId = toMtProtocolNodeId mid;
               s1 = syncSharedIntent motorId IntentHold (rememberSystemMotorId mid s)
           in (True, snd (submitTx (makeStopFrame (encodeSendCanId motorId)) Control ''MtCan::Stop'' s1)))"

definition mt_ResetFault :: "time_ns \<Rightarrow> motor_id \<Rightarrow> mt_can \<Rightarrow> bool \<times> mt_can" where
  "mt_ResetFault now mid s =
     (if \<not> io_canController s then (False, s)
      else let motorId = toMtProtocolNodeId mid;
               s1 = resetSystem motorId (syncSharedIntent motorId IntentRecover (rememberSystemMotorId mid s));
               s2 = markReadResponseReceived motorId (commandByte ReadMotorStatus1AndErrorFlag) s1
           in (True, snd (requestError now motorId s2)))"

definition mt_getPosition :: "motor_id \<Rightarrow> mt_can \<Rightarrow> int" where
  "mt_getPosition mid s =
     (case mc_motorStates s (toMtProtocolNodeId mid) of None \<Rightarrow> 0 | Some st \<Rightarrow> ms_multiTurnAngle st)"

definition mt_getCurrent :: "motor_id \<Rightarrow> mt_can \<Rightarrow> i16" where
  "mt_getCurrent mid s =
     (case mc_motorStates s (toMtProtocolNodeId mid) of None \<Rightarrow> 0
      | Some st \<Rightarrow> word_of_int (llround 0 (dmul (ms_current st) (Fin 100))))"

definition mt_getVelocity :: "motor_id \<Rightarrow> mt_can \<Rightarrow> i32" where
  "mt_getVelocity mid s =
     (case mc_motorStates s (toMtProtocolNodeId mid) of None \<Rightarrow> 0 | Some st \<Rightarrow> scast (ms_velocity st))"

definition mt_isEnabled :: "motor_id \<Rightarrow> mt_can \<Rightarrow> bool" where
  "mt_isEnabled mid s =
     (case mc_motorStates s (toMtProtocolNodeId mid) of None \<Rightarrow> False | Some st \<Rightarrow> ms_enabled st)"

definition mt_hasFault :: "motor_id \<Rightarrow> mt_can \<Rightarrow> bool" where
  "mt_hasFault mid s =
     (case mc_motorStates s (toMtProtocolNodeId mid) of None \<Rightarrow> False | Some st \<Rightarrow> ms_error st)"

text \<open>The destructor; the dispatcher it shuts down is not used afterwards.\<close>

definition destroy_MtCan :: "mt_can \<Rightarrow> mt_can" where
  "destroy_MtCan s = (stopRefreshLoop (s\<lparr>mc_shuttingDown := True\<rparr>))\<lparr>io_txDispatcher := False\<rparr>"

section \<open>Responses\<close>

definition absorb_feedback :: "frame \<Rightarrow> mt_motor_state \<Rightarrow> mt_motor_state" where
  "absorb_feedback f state =
     (if 8 \<le> unat (fr_dlc f)
      then let feedback = parseFeedbackStatus f
           in state\<lparr>ms_temperature := fs_temperature feedback, ms_current := fs_currentAmp feedback,
                ms_velocity := fs_shaftSpeedDps feedback, ms_encoderPosition := fs_shaftAngleRaw feedback,
                ms_currentReceived := True, ms_velocityReceived := True\<rparr>
      else state)"

definition absorb_fault :: "frame \<Rightarrow> mt_motor_state \<Rightarrow> mt_motor_state" where
  "absorb_fault f state =
     (if 8 \<le> unat (fr_dlc f)
      then let fault = parseFaultStatus f
           in state\<lparr>ms_temperature := ft_temperature fault, ms_voltageRaw1 := ft_voltageRaw fault,
                ms_voltageRaw2 := ft_brakeOrVoltageRaw fault, ms_error := (ft_errorCode fault \<noteq> 0),
                ms_faultReceived := True\<rparr>
      else state)"

definition absorb_angle :: "frame \<Rightarrow> mt_motor_state \<Rightarrow> mt_motor_state" where
  "absorb_angle f state =
     (if 8 \<le> unat (fr_dlc f)
      then state\<lparr>ms_multiTurnAngle := parseMultiTurnAngleCentideg f, ms_positionReceived := True\<rparr>
      else state)"

text \<open>The two switches over the command of a response: what it does to the motor, and whether it is feedback.\<close>

definition absorb :: "frame \<Rightarrow> u8 \<Rightarrow> mt_motor_state \<Rightarrow> mt_motor_state" where
  "absorb f command state =
     (if command = commandByte ReadMotorStatus2 then absorb_feedback f state
      else if command = commandByte ReadMotorStatus1AndErrorFlag then absorb_fault f state
      else if command = commandByte ReadMultiTurnAngle then absorb_angle f state
      else if command \<in> {commandByte TorqueClosedLoopControl, commandByte SpeedClosedLoopControl,
          commandByte AbsolutePositionClosedLoopControl, commandByte SingleTurnPositionControl,
          commandByte IncrementalPositionClosedLoopControl, commandByte ForcePositionMixedControl,
          commandByte ShutdownMotor, commandByte StopMotor} then absorb_feedback f state
      else state)"

definition feeds_back :: "u8 \<Rightarrow> bool" where
  "feeds_back command =
     (if command \<in> {commandByte ReadMotorStatus1AndErrorFlag, commandByte ReadMultiTurnAngle} then True
      else isFeedbackCommand command)"

definition mt_handleResponse :: "time_ns \<Rightarrow> frame \<Rightarrow> mt_can \<Rightarrow> mt_can" where
  "mt_handleResponse now f s =
     (if mc_shuttingDown s then s
      else if fr_isExtended f then s
      else let canId = ucast (fr_id f AND 0x7FF)
           in if \<not> isResponseCanId canId then s
              else if fr_dlc f = 0 then s
              else let command = fr_data f ! 0;
                       nodeId = responseNodeId canId;
                       s1 = (if command \<in> {commandByte ReadMotorStatus2, commandByte ReadMotorStatus1AndErrorFlag,
                                             commandByte ReadMultiTurnAngle}
                             then markReadResponseReceived nodeId command s else s);
                       s2 = modify_motor nodeId (absorb f command) s1;
                       s3 = (if feeds_back command then syncSharedFeedback now nodeId (motor s2 nodeId) s2 else s2)
                   in if command = commandByte WriteCurrentMultiTurnPositionToRomAsZero then resetSystem nodeId s3 else s3)"

section \<open>Frame facts\<close>

lemma mt_on_shared [simp]:
  "mc_motorStates (on_shared f s) = mc_motorStates s" "mc_refreshMotorIds (on_shared f s) = mc_refreshMotorIds s"
  "mc_systemMotorIdsByNodeId (on_shared f s) = mc_systemMotorIdsByNodeId s"
  "mc_refreshRateHz (on_shared f s) = mc_refreshRateHz s" "mc_shuttingDown (on_shared f s) = mc_shuttingDown s"
  "mc_pendingReadRequests (on_shared f s) = mc_pendingReadRequests s"
  "mc_communicationTimeoutOnInitMs (on_shared f s) = mc_communicationTimeoutOnInitMs s"
  by (simp_all add: on_shared_def split: option.splits)

lemma mt_submitTx [simp]:
  "mc_motorStates (snd (submitTx f c x s)) = mc_motorStates s" "mc_refreshMotorIds (snd (submitTx f c x s)) = mc_refreshMotorIds s"
  "mc_systemMotorIdsByNodeId (snd (submitTx f c x s)) = mc_systemMotorIdsByNodeId s"
  "mc_refreshRateHz (snd (submitTx f c x s)) = mc_refreshRateHz s" "mc_shuttingDown (snd (submitTx f c x s)) = mc_shuttingDown s"
  "mc_pendingReadRequests (snd (submitTx f c x s)) = mc_pendingReadRequests s"
  "mc_communicationTimeoutOnInitMs (snd (submitTx f c x s)) = mc_communicationTimeoutOnInitMs s"
  by (simp_all add: submitTx_def)

lemmas mt_sync_defs = syncSharedFeedback_def syncSharedCommand_def syncSharedModeSelection_def
  syncSharedIntent_def noteSharedTimeout_def

section \<open>Invariant\<close>

text \<open>A node is only ever resolved to a motor id of that node.\<close>

definition ids_ok :: "mt_can \<Rightarrow> bool" where
  "ids_ok s \<longleftrightarrow> (\<forall>n mid. mc_systemMotorIdsByNodeId s n = Some mid \<longrightarrow> toMtProtocolNodeId mid = n)"

text \<open>A read waits in the dispatcher or for its answer, not both, and its timeout count is capped.\<close>

definition slot_ok :: "mt_pending_read \<Rightarrow> bool" where
  "slot_ok r \<longleftrightarrow> \<not> (pr_queued r \<and> pr_inFlight r) \<and> pr_consecutiveTimeouts r \<le> 8"

definition mt_inv :: "mt_can \<Rightarrow> bool" where
  "mt_inv s \<longleftrightarrow> ids_ok s \<and> (\<forall>k r. mc_pendingReadRequests s k = Some r \<longrightarrow> slot_ok r) \<and>
     (\<forall>shared. io_sharedState s = Some shared \<longrightarrow> sds_inv shared)"

lemma resolve_node [simp]: "ids_ok s \<Longrightarrow> toMtProtocolNodeId (resolveSystemMotorId s n) = n"
  by (auto simp: ids_ok_def resolveSystemMotorId_def split: option.splits)

lemma axis_key_inj: "ids_ok s \<Longrightarrow> makeAxisKey s m = makeAxisKey s n \<longleftrightarrow> m = n"
  by (metis AxisKey.select_convs(3) MakeAxisKey_def NormalizeProtocolMotorId_def makeAxisKey_def
      resolve_node toSystemMotorId_def)

named_theorems mt_inv_intros "the primitive updates keep the invariant"

lemma mt_inv_remember [mt_inv_intros]: "mt_inv s \<Longrightarrow> mt_inv (rememberSystemMotorId mid s)"
  by (simp add: mt_inv_def ids_ok_def rememberSystemMotorId_def)

lemma mt_inv_modify [mt_inv_intros]: "mt_inv s \<Longrightarrow> mt_inv (modify_motor n f s)"
  by (simp add: mt_inv_def ids_ok_def modify_motor_def)

lemma mt_inv_submit [mt_inv_intros]: "mt_inv s \<Longrightarrow> mt_inv (snd (submitTx f c x s))"
  by (simp add: mt_inv_def ids_ok_def)

lemma mt_inv_outbox [mt_inv_intros]: "mt_inv s \<Longrightarrow> mt_inv (s\<lparr>io_outbox := q\<rparr>)"
  by (simp add: mt_inv_def ids_ok_def)

lemma mt_inv_on_shared:
  assumes "mt_inv s" and "\<And>sh. sds_inv sh \<Longrightarrow> sds_inv (f sh)"
  shows "mt_inv (on_shared f s)"
proof -
  have "sds_inv sh" if "io_sharedState (on_shared f s) = Some sh" for sh
    using that assms by (auto simp: on_shared_def mt_inv_def split: option.splits if_splits)
  with assms(1) show ?thesis by (simp add: mt_inv_def ids_ok_def)
qed

lemma mt_inv_sync [mt_inv_intros]:
  assumes "mt_inv s"
  shows "mt_inv (syncSharedFeedback now n st s)" "mt_inv (syncSharedCommand now n p v m b s)"
    "mt_inv (syncSharedModeSelection n m s)" "mt_inv (syncSharedIntent n i s)" "mt_inv (noteSharedTimeout n k s)"
  unfolding mt_sync_defs
  by (rule mt_inv_on_shared [OF assms];
      simp add: sds_inv_feedback sds_inv_command sds_inv_setIntent
        mt_feedback_def mt_command_def mode_selection_def timeout_noted_def Let_def)+

lemma mt_inv_slot: "mt_inv s \<Longrightarrow> slot_ok r \<Longrightarrow> mt_inv (s\<lparr>mc_pendingReadRequests := (mc_pendingReadRequests s)(k \<mapsto> r)\<rparr>)"
  by (simp add: mt_inv_def ids_ok_def)

lemma slot_at: "mt_inv s \<Longrightarrow> slot_ok (map_at default_mt_pending (mc_pendingReadRequests s) k)"
  by (cases "mc_pendingReadRequests s k")
    (auto simp: mt_inv_def slot_ok_def default_mt_pending_def)

lemma mt_inv_tryIssue [mt_inv_intros]:
  assumes inv: "mt_inv s"
  shows "mt_inv (snd (tryIssueReadCommand now n c s))"
proof -
  have ok: "slot_ok (map_at default_mt_pending (mc_pendingReadRequests s) (pendingReadKey n c))"
    using inv by (rule slot_at)
  then show ?thesis
    using inv unfolding tryIssueReadCommand_def Let_def
    by (auto simp: slot_ok_def intro!: mt_inv_slot mt_inv_sync)
qed

lemma mt_inv_dispatch [mt_inv_intros]: "mt_inv s \<Longrightarrow> mt_inv (onReadDispatchResult n c a x t s)"
  by (auto simp: onReadDispatchResult_def Let_def slot_ok_def mt_inv_def ids_ok_def split: option.splits)

lemma mt_inv_response [mt_inv_intros]: "mt_inv s \<Longrightarrow> mt_inv (markReadResponseReceived n c s)"
  by (auto simp: markReadResponseReceived_def slot_ok_def mt_inv_def ids_ok_def split: option.splits)

lemma mt_inv_reset [mt_inv_intros]: "mt_inv s \<Longrightarrow> mt_inv (resetReadTracking s)"
  by (simp add: mt_inv_def ids_ok_def resetReadTracking_def)

lemma mt_inv_request [mt_inv_intros]: "mt_inv s \<Longrightarrow> mt_inv (snd (request_read cmd src now n s))"
  using mt_inv_tryIssue [of s now n "commandByte cmd"]
  by (auto simp: request_read_def split: prod.splits intro: mt_inv_intros)

lemma mt_inv_register [mt_inv_intros]: "mt_inv s \<Longrightarrow> mt_inv (register_motor mid s)"
  unfolding register_motor_def Let_def
  by (rule mt_inv_on_shared) (auto simp: mt_inv_def ids_ok_def registerAxis_def sds_inv_touch)

lemma mt_inv_timeouts [mt_inv_intros]: "mt_inv s \<Longrightarrow> mt_inv (snd (timeout_loop tm ids s))"
proof (induction ids arbitrary: s)
  case (Cons n ids)
  let ?sub = "submitTx (makeCommunicationTimeoutFrame (encodeSendCanId n) (uint tm)) Config ''MtCan::setCommunicationTimeout'' s"
  have "mt_inv (snd ?sub)" using Cons.prems by (rule mt_inv_submit)
  with Cons.IH [of "snd ?sub"] show ?case by (cases ?sub) auto
qed simp

lemma mt_inv_init [mt_inv_intros]:
  assumes "mt_inv s"
  shows "mt_inv (mt_initializeMotorRefresh ids s)"
proof -
  have "mt_inv (fold register_motor ids s0)" if "mt_inv s0" for s0
    using that by (induction ids arbitrary: s0) (auto intro: mt_inv_register)
  moreover have "mt_inv (s\<lparr>mc_refreshMotorIds := [], mc_systemMotorIdsByNodeId := Map.empty\<rparr>)"
    using assms by (simp add: mt_inv_def ids_ok_def)
  ultimately show ?thesis
    by (auto simp: mt_initializeMotorRefresh_def Let_def stopRefreshLoop_def broadcastCommunicationTimeout_def
        setCommunicationTimeout_def intro: mt_inv_intros)
qed

lemma mt_inv_handle [mt_inv_intros]: "mt_inv s \<Longrightarrow> mt_inv (mt_handleResponse now f s)"
  unfolding mt_handleResponse_def Let_def resetSystem_def
  by (auto intro!: mt_inv_intros)

text \<open>Everything the rest of the driver can do to an MT protocol object.\<close>

inductive mt_step :: "mt_can \<Rightarrow> mt_can \<Rightarrow> bool" where
  mt_init: "mt_step s (mt_initializeMotorRefresh ids s)"
| "mt_step s (mt_setRefreshRateHz hz s)"
| "mt_step s (setCommunicationTimeoutOnInit t s)"
| "mt_step s (snd (setCommunicationTimeout t s))"
| "mt_step s (snd (mt_setMode mid mode s))"
| mt_query: "mt_step s (snd (mt_issueRefreshQuery now mid q s))"
| "mt_step s (snd (mt_setVelocity now mid v s))"
| "mt_step s (snd (mt_setPosition now mid p s))"
| "mt_step s (snd (mt_setAcceleration mid v s))"
| "mt_step s (snd (mt_setDeceleration mid v s))"
| "mt_step s (snd (setPositionAcceleration mid a s))"
| "mt_step s (snd (setPositionDeceleration mid a s))"
| "mt_step s (snd (mt_Enable now mid s))"
| "mt_step s (snd (mt_Disable now mid s))"
| "mt_step s (snd (mt_Stop mid s))"
| "mt_step s (snd (mt_ResetFault now mid s))"
| "mt_step s (setZeroPosition n s)"
| mt_rx: "mt_step s (mt_handleResponse now f s)"
| "mt_step s (onReadDispatchResult n c attempted res t s)"
| mt_destroyed: "mt_step s (destroy_MtCan s)"
| mt_others: "io_sharedState s = Some sh \<Longrightarrow> sds_step sh sh' \<Longrightarrow> mt_step s (s\<lparr>io_sharedState := Some sh'\<rparr>)"

inductive mt_reachable :: "mt_can \<Rightarrow> bool" where
  mtr_new: "(\<And>sh. sharedState = Some sh \<Longrightarrow> sds_reachable sh) \<Longrightarrow> mt_reachable (new_MtCan controller dispatcher sharedState dev)"
| mtr_step: "mt_reachable s \<Longrightarrow> mt_step s t \<Longrightarrow> mt_reachable t"

lemma mt_step_inv: "mt_step s t \<Longrightarrow> mt_inv s \<Longrightarrow> mt_inv t"
proof (induction rule: mt_step.induct)
  case (mt_query s now mid q)
  then show ?case
    by (cases q) (auto simp: requestState_def requestError_def requestMultiTurnAngle_def intro: mt_inv_intros)
next
  case (mt_destroyed s)
  then show ?case by (auto simp: destroy_MtCan_def stopRefreshLoop_def resetReadTracking_def mt_inv_def ids_ok_def)
next
  case (mt_others s sh sh')
  then show ?case by (auto simp: mt_inv_def ids_ok_def intro: sds_step_inv)
qed (auto simp: mt_setRefreshRateHz_def setCommunicationTimeoutOnInit_def setCommunicationTimeout_def
    mt_setMode_def mt_setVelocity_def mt_setPosition_def mt_setAcceleration_def mt_setDeceleration_def
    setSpeedAcceleration_def setSpeedDeceleration_def setPositionAcceleration_def setPositionDeceleration_def
    writeAcceleration_def mt_Enable_def mt_Disable_def mt_Stop_def mt_ResetFault_def requestError_def
    resetSystem_def setZeroPosition_def Let_def intro!: mt_inv_intros, auto simp: mt_inv_def ids_ok_def)

lemma mt_reachable_inv: "mt_reachable s \<Longrightarrow> mt_inv s"
proof (induction rule: mt_reachable.induct)
  case (mtr_new sharedState controller dispatcher dev)
  then show ?case
    by (auto simp: new_MtCan_def mt_inv_def ids_ok_def intro: sds_reachable_inv)
qed (auto intro: mt_step_inv)

section \<open>Reads are not issued twice\<close>

definition mt_queued :: "mt_can \<Rightarrow> completion set" where
  "mt_queued s = {(n, c). \<exists>r. mc_pendingReadRequests s (pendingReadKey n c) = Some r \<and> pr_queued r}"

lemma queued_slot:
  "mt_queued (s\<lparr>mc_pendingReadRequests := (mc_pendingReadRequests s)(pendingReadKey n c \<mapsto> r)\<rparr>) =
     (if pr_queued r then insert (n, c) (mt_queued s) else mt_queued s - {(n, c)})"
  by (auto simp: mt_queued_def pendingReadKey_inj)

lemma queued_at: "pr_queued (map_at default_mt_pending (mc_pendingReadRequests s) (pendingReadKey n c)) \<longleftrightarrow> (n, c) \<in> mt_queued s"
  by (cases "mc_pendingReadRequests s (pendingReadKey n c)") (auto simp: mt_queued_def default_mt_pending_def)

lemma queued_on_shared [simp]: "mt_queued (on_shared f s) = mt_queued s"
  by (simp add: mt_queued_def)

lemma tryIssue_slots:
  "tryIssueReadCommand now n c s = (ok, s1) \<Longrightarrow> io_outbox s1 = io_outbox s \<and> io_txDispatcher s1 = io_txDispatcher s \<and>
     mc_shuttingDown s1 = mc_shuttingDown s \<and>
     (if ok then (n, c) \<notin> mt_queued s \<and> mt_queued s1 = insert (n, c) (mt_queued s) \<and> \<not> mc_shuttingDown s
      else mt_queued s1 = mt_queued s)"
  by (auto simp: tryIssueReadCommand_def Let_def noteSharedTimeout_def queued_slot queued_at insert_absorb
      split: if_splits)

lemma request_read_slots:
  fixes s cmd src now n
  defines "s' \<equiv> snd (request_read cmd src now n s)"
  shows "mt_queued s' = mt_queued s \<and> reads_sent s' = reads_sent s \<or>
    (n, cmd) \<notin> mt_queued s \<and> mt_queued s' = insert (n, cmd) (mt_queued s) \<and> reads_sent s' = reads_sent s @ [(n, cmd)]"
proof (cases "io_canController s")
  case True
  obtain ok s1 where t: "tryIssueReadCommand now n cmd s = (ok, s1)" by (cases "tryIssueReadCommand now n cmd s")
  note slots = tryIssue_slots [OF t]
  have dispatch: "mt_queued (onReadDispatchResult n cmd False SendError now s1) = mt_queued s1 - {(n, cmd)}"
    if ok
  proof -
    from that slots have "(n, cmd) \<in> mt_queued s1" by simp
    then obtain r where "mc_pendingReadRequests s1 (pendingReadKey n cmd) = Some r" by (auto simp: mt_queued_def)
    with that slots show ?thesis by (simp add: onReadDispatchResult_def Let_def queued_slot)
  qed
  have outbox: "io_outbox (onReadDispatchResult n cmd False SendError now s1) = io_outbox s1"
    by (simp add: onReadDispatchResult_def Let_def split: option.splits)
  have queued_out: "mt_queued (s1\<lparr>io_outbox := q\<rparr>) = mt_queued s1" for q by (simp add: mt_queued_def)
  show ?thesis
    using True t slots dispatch outbox queued_out unfolding s'_def
    by (auto simp: request_read_def commandByte_def reads_sent_def map_filter_def split: if_splits)
qed (simp add: s'_def request_read_def)

fun mt_key :: "motor_id \<times> MtRefreshQuery \<Rightarrow> completion" where
  "mt_key (mid, MtState) = (toMtProtocolNodeId mid, ReadMotorStatus2)"
| "mt_key (mid, MtMultiTurnAngle) = (toMtProtocolNodeId mid, ReadMultiTurnAngle)"
| "mt_key (mid, MtError) = (toMtProtocolNodeId mid, ReadMotorStatus1AndErrorFlag)"

lemma remember_reads [simp]:
  "mt_queued (rememberSystemMotorId mid s) = mt_queued s" "reads_sent (rememberSystemMotorId mid s) = reads_sent s"
  by (simp_all add: mt_queued_def reads_sent_def rememberSystemMotorId_def)

interpretation mtr: read_slots "\<lambda>now q s. snd (mt_issueRefreshQuery now (fst q) (snd q) s)" mt_key mt_queued reads_sent
proof unfold_locales
  fix now q s
  show "mt_queued (snd (mt_issueRefreshQuery now (fst q) (snd q) s)) = mt_queued s \<and>
      reads_sent (snd (mt_issueRefreshQuery now (fst q) (snd q) s)) = reads_sent s \<or>
      mt_key q \<notin> mt_queued s \<and> mt_queued (snd (mt_issueRefreshQuery now (fst q) (snd q) s)) = insert (mt_key q) (mt_queued s) \<and>
      reads_sent (snd (mt_issueRefreshQuery now (fst q) (snd q) s)) = reads_sent s @ [mt_key q]"
    using request_read_slots [of _ _ now _ "rememberSystemMotorId (fst q) s"]
    by (cases q rule: mt_key.cases)
      (simp_all add: requestState_def requestError_def requestMultiTurnAngle_def)
qed

section \<open>Decoding responses\<close>

text \<open>A frame as a motor of node \<open>n\<close> answers.\<close>

definition response :: "u8 \<Rightarrow> u8 list \<Rightarrow> frame" where
  "response n bytes = \<lparr>fr_id = ucast (kResponseBaseId + ucast n :: u16), fr_isExtended = False,
     fr_isRemoteRequest = False, fr_dlc = 8, fr_data = bytes\<rparr>"

lemma response_ids:
  "ucast (fr_id (response n bytes) AND 0x7FF) = (kResponseBaseId + ucast n :: u16)"
  "isResponseCanId (kResponseBaseId + ucast n)" "responseNodeId (kResponseBaseId + ucast n) = n"
proof -
  have "unat (kResponseBaseId + ucast n) < 0x800"
    using unat_u8 [of n] by (simp add: kResponseBaseId_def unat_word_ariths)
  then show "ucast (fr_id (response n bytes) AND 0x7FF) = (kResponseBaseId + ucast n :: u16)"
    by (simp add: response_def standard_can_id)
qed (simp_all add: response_node_roundtrip)

lemma llround_current:
  fixes x :: i16
  shows "llround 0 (dmul (dmul (dbl_of_int (sint x)) (round64 (1 / 100))) (Fin 100)) = sint x"
proof -
  have "\<bar>sint x\<bar> \<le> 32768" using sint_ge [of x] sint_lt [of x] by (simp add: abs_le_iff)
  from current_roundtrip [OF this] obtain v where
    v: "dmul (dmul (dbl_of_int (sint x)) (round64 (1 / 100))) (Fin 100) = Fin v" "round_away v = sint x" by blast
  moreover have "\<bar>sint x\<bar> < 2 ^ 63" using \<open>\<bar>sint x\<bar> \<le> 32768\<close> by simp
  ultimately show ?thesis by (simp del: llround.simps)
qed

text \<open>What a response does to the motors and to the shared store.\<close>

lemma mark_frame [simp]:
  "mc_motorStates (markReadResponseReceived n c s) = mc_motorStates s"
  "mc_systemMotorIdsByNodeId (markReadResponseReceived n c s) = mc_systemMotorIdsByNodeId s"
  "io_sharedState (markReadResponseReceived n c s) = io_sharedState s"
  "io_deviceName (markReadResponseReceived n c s) = io_deviceName s"
  by (simp_all add: markReadResponseReceived_def split: option.splits)

lemma handleResponse_motors:
  assumes "\<not> mc_shuttingDown s"
  shows "mc_motorStates (mt_handleResponse now (response n bytes) s) =
    map_modify default_mt_motor n (absorb (response n bytes) (bytes ! 0)) (mc_motorStates s)"
  using assms response_ids
  by (simp add: mt_handleResponse_def Let_def syncSharedFeedback_def resetSystem_def modify_motor_def)
    (simp add: response_def)

lemma makeAxisKey_cong:
  "io_deviceName t = io_deviceName s \<Longrightarrow> mc_systemMotorIdsByNodeId t = mc_systemMotorIdsByNodeId s \<Longrightarrow>
   makeAxisKey t n = makeAxisKey s n"
  by (simp add: makeAxisKey_def resolveSystemMotorId_def)

lemma handleResponse_shared:
  assumes "\<not> mc_shuttingDown s" and "io_deviceName s \<noteq> []"
  shows "io_sharedState (mt_handleResponse now (response n bytes) s) =
    (if feeds_back (bytes ! 0)
     then map_option (mutateAxisFeedback (makeAxisKey s n)
       (mt_feedback now (absorb (response n bytes) (bytes ! 0) (motor s n)))) (io_sharedState s)
     else io_sharedState s)"
proof -
  define s1 where "s1 = (if bytes ! 0 \<in> {commandByte ReadMotorStatus2, commandByte ReadMotorStatus1AndErrorFlag,
      commandByte ReadMultiTurnAngle} then markReadResponseReceived n (bytes ! 0) s else s)"
  define s2 where "s2 = modify_motor n (absorb (response n bytes) (bytes ! 0)) s1"
  have s2: "mc_motorStates s2 = map_modify default_mt_motor n (absorb (response n bytes) (bytes ! 0)) (mc_motorStates s)"
    "mc_systemMotorIdsByNodeId s2 = mc_systemMotorIdsByNodeId s" "io_sharedState s2 = io_sharedState s"
    "io_deviceName s2 = io_deviceName s"
    by (simp_all add: s2_def modify_motor_def s1_def)
  have data: "fr_data (response n bytes) = bytes" "\<not> fr_isExtended (response n bytes)" "fr_dlc (response n bytes) \<noteq> 0"
    by (simp_all add: response_def)
  have "mt_handleResponse now (response n bytes) s =
      (let s3 = (if feeds_back (bytes ! 0) then syncSharedFeedback now n (motor s2 n) s2 else s2)
       in if bytes ! 0 = commandByte WriteCurrentMultiTurnPositionToRomAsZero then resetSystem n s3 else s3)"
    using assms(1) response_ids unfolding mt_handleResponse_def by (simp add: Let_def data s2_def s1_def)
  then show ?thesis
    using assms(2) s2 makeAxisKey_cong [of s2 s n]
    by (simp add: Let_def syncSharedFeedback_def resetSystem_def on_shared_state motor_def)
qed

section \<open>Silent motors\<close>

text \<open>
  One lost read: the read is requested at \<open>t0\<close>, its frame leaves at \<open>t1\<close>, no answer comes, and
  the next request at \<open>t2\<close> finds it overdue.
\<close>

definition lost_read :: "Command \<Rightarrow> u8 \<Rightarrow> time_ns \<times> time_ns \<times> time_ns \<Rightarrow> mt_can \<Rightarrow> mt_can" where
  "lost_read cmd n ts s =
     (case ts of (t0, t1, t2) \<Rightarrow>
        snd (request_read cmd ''lost'' t2 n
          (onReadDispatchResult n cmd True SendOk t1 (snd (request_read cmd ''lost'' t0 n s)))))"

definition slot :: "mt_can \<Rightarrow> u8 \<Rightarrow> Command \<Rightarrow> mt_pending_read" where
  "slot s n cmd = map_at default_mt_pending (mc_pendingReadRequests s) (pendingReadKey n cmd)"

definition idle_slot :: "mt_can \<Rightarrow> u8 \<Rightarrow> Command \<Rightarrow> time_ns \<Rightarrow> nat \<Rightarrow> bool" where
  "idle_slot s n cmd ready k \<longleftrightarrow> \<not> pr_queued (slot s n cmd) \<and> \<not> pr_inFlight (slot s n cmd) \<and>
     (pr_nextEligibleSend (slot s n cmd) = 0 \<or> pr_nextEligibleSend (slot s n cmd) \<le> ready) \<and>
     pr_consecutiveTimeouts (slot s n cmd) = k"

text \<open>A connected, live protocol object.\<close>

definition live :: "mt_can \<Rightarrow> bool" where
  "live s \<longleftrightarrow> io_canController s \<and> io_txDispatcher s \<and> \<not> mc_shuttingDown s \<and> io_deviceName s \<noteq> []"

lemma timeout_bounds: "250 \<le> computeReadRequestTimeout s" "computeReadRequestTimeout s \<le> 1500"
  by (simp_all add: computeReadRequestTimeout_def Let_def kMinReadRequestTimeout_def kMaxReadRequestTimeout_def)

lemma backoff_constant:
  assumes "250 \<le> t"
  shows "computeTimeoutBackoff (Suc k) t = 500"
proof -
  have "(2 :: int) \<le> 2 ^ min (Suc k) 4" by (simp add: min_def)
  then have "250 * 2 \<le> t * 2 ^ min (Suc k) 4" using assms by (intro mult_mono) simp_all
  then show ?thesis using assms by (simp add: computeTimeoutBackoff_def Let_def)
qed

lemma lost_read_eq:
  assumes live: "live s" and idle: "idle_slot s n cmd t0 k" and late: "ms (computeReadRequestTimeout s) \<le> t2 - t1"
  obtains q r where "lost_read cmd n (t0, t1, t2) s =
      noteSharedTimeout n (min (k + 1) 8)
        (s\<lparr>io_outbox := q, mc_pendingReadRequests := (mc_pendingReadRequests s)(pendingReadKey n cmd \<mapsto> r)\<rparr>)"
    "\<not> pr_queued r" "\<not> pr_inFlight r" "pr_nextEligibleSend r = t2 + ms 500" "pr_consecutiveTimeouts r = min (k + 1) 8"
proof -
  let ?key = "pendingReadKey n cmd" and ?r = "slot s n cmd"
  let ?q = "io_outbox s @ [\<lparr>rq_frame = makeReadFrame (encodeSendCanId n) cmd, rq_category = Query,
     rq_source = ''lost'', rq_completion = Some (n, cmd)\<rparr>]"
  let ?r1 = "?r\<lparr>pr_queued := True, pr_nextEligibleSend := 0\<rparr>"
  let ?r2 = "?r1\<lparr>pr_queued := False, pr_inFlight := False, pr_inFlight := True, pr_lastSent := t1\<rparr>"
  let ?r3 = "?r2\<lparr>pr_inFlight := False, pr_consecutiveTimeouts := min (k + 1) 8, pr_nextEligibleSend := t2 + ms 500\<rparr>"
  let ?s = "\<lambda>r. s\<lparr>io_outbox := ?q, mc_pendingReadRequests := (mc_pendingReadRequests s)(?key \<mapsto> r)\<rparr>"
  have 1: "snd (request_read cmd ''lost'' t0 n s) = ?s ?r1"
    using live idle
    by (auto simp: live_def idle_slot_def slot_def request_read_def tryIssueReadCommand_def Let_def commandByte_def)
  have 2: "onReadDispatchResult n cmd True SendOk t1 (?s ?r1) = ?s ?r2"
    using live by (simp add: live_def onReadDispatchResult_def Let_def)
  have tm: "computeReadRequestTimeout (?s ?r2) = computeReadRequestTimeout s"
    by (simp add: computeReadRequestTimeout_def mt_computeRefreshSleep_def)
  have bo: "computeTimeoutBackoff (min (k + 1) 8) (computeReadRequestTimeout s) = 500"
    using backoff_constant [OF timeout_bounds(1), of "min k 7" s] by (simp add: min_def split: if_splits)
  have "pr_consecutiveTimeouts ?r = k" using idle by (simp add: idle_slot_def)
  then have "snd (request_read cmd ''lost'' t2 n (?s ?r2)) = noteSharedTimeout n (min (k + 1) 8) (?s ?r3)"
    using live late tm bo
    by (simp add: live_def request_read_def tryIssueReadCommand_def Let_def commandByte_def del: One_nat_def)
  with 1 2 show thesis by (intro that [of ?r3 ?q]) (simp_all add: lost_read_def)
qed

lemma lost_read_shared:
  assumes "live s" "idle_slot s n cmd t0 k" "ms (computeReadRequestTimeout s) \<le> t2 - t1"
    and sh: "io_sharedState s = Some sh"
  shows "io_sharedState (lost_read cmd n (t0, t1, t2) s) =
    Some (mutateAxisFeedback (makeAxisKey s n) (timeout_noted (min (k + 1) 8)) sh)"
proof (rule lost_read_eq [OF assms(1-3)])
  fix q r
  assume "lost_read cmd n (t0, t1, t2) s = noteSharedTimeout n (min (k + 1) 8)
    (s\<lparr>io_outbox := q, mc_pendingReadRequests := (mc_pendingReadRequests s)(pendingReadKey n cmd \<mapsto> r)\<rparr>)"
  with assms(1) sh show ?thesis
    by (simp add: live_def noteSharedTimeout_def on_shared_def makeAxisKey_def resolveSystemMotorId_def)
qed

lemma lost_read_keeps:
  assumes "live s" "idle_slot s n cmd t0 k" "ms (computeReadRequestTimeout s) \<le> t2 - t1"
  shows "live (lost_read cmd n (t0, t1, t2) s)"
    and "idle_slot (lost_read cmd n (t0, t1, t2) s) n cmd (t2 + ms 500) (min (k + 1) 8)"
    and "computeReadRequestTimeout (lost_read cmd n (t0, t1, t2) s) = computeReadRequestTimeout s"
    and "makeAxisKey (lost_read cmd n (t0, t1, t2) s) m = makeAxisKey s m"
proof -
  obtain q r where eq: "lost_read cmd n (t0, t1, t2) s = noteSharedTimeout n (min (k + 1) 8)
      (s\<lparr>io_outbox := q, mc_pendingReadRequests := (mc_pendingReadRequests s)(pendingReadKey n cmd \<mapsto> r)\<rparr>)"
    and r: "\<not> pr_queued r" "\<not> pr_inFlight r" "pr_nextEligibleSend r = t2 + ms 500" "pr_consecutiveTimeouts r = min (k + 1) 8"
    using lost_read_eq [OF assms] by blast
  show "live (lost_read cmd n (t0, t1, t2) s)" using assms(1) by (simp add: eq live_def noteSharedTimeout_def)
  show "idle_slot (lost_read cmd n (t0, t1, t2) s) n cmd (t2 + ms 500) (min (k + 1) 8)"
    using r by (simp add: eq idle_slot_def slot_def noteSharedTimeout_def)
  show "computeReadRequestTimeout (lost_read cmd n (t0, t1, t2) s) = computeReadRequestTimeout s"
    by (simp add: eq noteSharedTimeout_def computeReadRequestTimeout_def mt_computeRefreshSleep_def)
  show "makeAxisKey (lost_read cmd n (t0, t1, t2) s) m = makeAxisKey s m"
    by (simp add: eq noteSharedTimeout_def makeAxisKey_def resolveSystemMotorId_def)
qed

text \<open>Lost reads that respect the read timeout \<open>tm\<close> and the back-off, from the time \<open>ready\<close> on.\<close>

fun spaced :: "int \<Rightarrow> time_ns \<Rightarrow> (time_ns \<times> time_ns \<times> time_ns) list \<Rightarrow> bool" where
  "spaced tm ready [] = True"
| "spaced tm ready ((t0, t1, t2) # ts) \<longleftrightarrow> ready \<le> t0 \<and> ms tm \<le> t2 - t1 \<and> spaced tm (t2 + ms 500) ts"

lemma idle_slot_mono: "idle_slot s n cmd r k \<Longrightarrow> r \<le> r' \<Longrightarrow> idle_slot s n cmd r' k"
  by (auto simp: idle_slot_def)

lemma lost_reads_count:
  assumes "live s" "idle_slot s n cmd ready k" "k \<le> 8" "spaced (computeReadRequestTimeout s) ready ts"
    "io_sharedState s = Some sh" "ts \<noteq> []"
  shows "\<exists>sh' fb. io_sharedState (fold (lost_read cmd n) ts s) = Some sh' \<and>
    getAxisFeedback sh' (makeAxisKey s n) = Some fb \<and>
    fb_consecutiveTimeoutCount fb = of_nat (min (k + length ts) 8) \<and>
    (fb_degraded fb \<longleftrightarrow> 3 \<le> min (k + length ts) 8)"
  using assms
proof (induction ts arbitrary: s ready k sh)
  case (Cons t ts)
  obtain t0 t1 t2 where t: "t = (t0, t1, t2)" by (cases t)
  let ?s = "lost_read cmd n t s" and ?k = "min (k + 1) 8"
  have idle: "idle_slot s n cmd t0 k" using Cons.prems(2,4) t by (auto intro: idle_slot_mono)
  have late: "ms (computeReadRequestTimeout s) \<le> t2 - t1" using Cons.prems(4) t by simp
  note keeps = lost_read_keeps [OF Cons.prems(1) idle late, folded t]
  note shared = lost_read_shared [OF Cons.prems(1) idle late Cons.prems(5), folded t]
  show ?case
  proof (cases "ts = []")
    case True
    have "(3 :: u32) \<le> of_nat ?k \<longleftrightarrow> 3 \<le> ?k"
      by (simp add: word_le_nat_alt unat_of_nat min_def)
    with True shared show ?thesis
      by (simp add: recomputeAxisObservedLocked_def timeout_noted_def Let_def
          kDefaultFeedbackDegradedTimeoutThreshold_def)
  next
    case False
    have "spaced (computeReadRequestTimeout ?s) (t2 + ms 500) ts" using Cons.prems(4) t keeps(3) by simp
    from Cons.IH [OF keeps(1,2) _ this shared False]
    have "\<exists>sh' fb. io_sharedState (fold (lost_read cmd n) ts ?s) = Some sh' \<and>
      getAxisFeedback sh' (makeAxisKey s n) = Some fb \<and>
      fb_consecutiveTimeoutCount fb = of_nat (min (?k + length ts) 8) \<and> (fb_degraded fb \<longleftrightarrow> 3 \<le> min (?k + length ts) 8)"
      by (simp add: keeps(4))
    moreover have "min (?k + length ts) 8 = min (k + length (t # ts)) 8" using Cons.prems(3) by (simp add: min_def)
    ultimately show ?thesis by (simp only: fold_simps)
  qed
qed simp

section \<open>Properties\<close>

text \<open>
  C21: an MT protocol object stays consistent through any sequence of commands, refresh queries,
  responses, dispatch results and updates of the shared store by others: nodes resolve to motor
  ids of that node, no read is both waiting in the dispatcher and in flight, timeout counts stay
  within 8, and the shared store keeps its own invariant.
\<close>

theorem mt_invariant: "mt_reachable s \<Longrightarrow> mt_inv s"
  by (rule mt_reachable_inv)

theorem mt_invariant_witness:
  "mt_inv (mt_handleResponse 7 (response 1 [0x92, 0, 0, 0, 1, 0, 0, 0])
     (mt_initializeMotorRefresh [0x141, 0x142] (new_MtCan True True (Some empty_SharedDriverState) ''can0'')))"
  by (rule mt_invariant, rule mtr_step [OF _ mt_rx], rule mtr_step [OF _ mt_init], rule mtr_new)
    (auto intro: sr_init)

text \<open>
  A read is never in the dispatcher twice: whatever queries are issued for whatever motors
  and at whatever times, the reads they hand to the dispatcher are pairwise different and none
  of them was already queued.
\<close>

lemma mt_no_duplicate_reads:
  "\<exists>ks. reads_sent (fold (\<lambda>(now, q). (\<lambda>s. snd (mt_issueRefreshQuery now (fst q) (snd q) s))) xs s) = reads_sent s @ ks \<and>
     distinct ks \<and> set ks \<inter> mt_queued s = {} \<and> set ks \<subseteq> mt_key ` snd ` set xs"
  using mtr.issue_all_sent [of xs s] unfolding mtr.issue_all_def by blast

text \<open>
  Readings are exact: the current, speed, multi-turn angle and error flag a motor reports in
  its response frames are what the getters return afterwards, the current in spite of being
  kept as a floating-point number of amperes.
\<close>

lemma mt_feedback_exact:
  assumes "\<not> mc_shuttingDown s" and "n = toMtProtocolNodeId mid"
  shows "mt_getCurrent mid (mt_handleResponse now (response n [0x9C, tp, c0, c1, v0, v1, a0, a1]) s) = join16 c0 c1 \<and>
    mt_getVelocity mid (mt_handleResponse now (response n [0x9C, tp, c0, c1, v0, v1, a0, a1]) s) = scast (join16 v0 v1) \<and>
    mt_getPosition mid (mt_handleResponse now (response n [0x92, x, y, z, p0, p1, p2, p3]) s) = sint (join32 p0 p1 p2 p3) \<and>
    mt_hasFault mid (mt_handleResponse now (response n [0x9A, tp, x, y, z, w, e0, e1]) s) = (join16 e0 e1 \<noteq> 0)"
  unfolding mt_getCurrent_def mt_getVelocity_def mt_getPosition_def mt_hasFault_def
    handleResponse_motors [OF assms(1)] assms(2)
  by (simp add: absorb_def absorb_feedback_def absorb_angle_def absorb_fault_def parseFeedbackStatus_def
      parseMultiTurnAngleCentideg_def parseFaultStatus_def commandByte_def mt_commands response_def
      readInt16LE_def readUInt16LE_def readInt32LE_def llround_current del: llround.simps)

lemma mt_feedback_exact_witness:
  "mt_getCurrent 0x141 (mt_handleResponse 5 (response (toMtProtocolNodeId 0x141) [0x9C, 30, 0x37, 0xFF, 0, 0, 0, 0])
     (new_MtCan True True None [])) = 0xFF37"
proof -
  have "join16 0x37 0xFF = 0xFF37" by (simp add: join16_def)
  then show ?thesis
    using mt_feedback_exact [of "new_MtCan True True None []" "toMtProtocolNodeId 0x141" "0x141" 5 30 "0x37" "0xFF" 0 0 0 0]
    by (simp add: new_MtCan_def)
qed

text \<open>
  A response concerns one motor: it leaves the cached state of every other node and the
  shared feedback of every other axis as they were.
\<close>

lemma mt_response_isolated:
  assumes "mt_reachable s" and "\<not> mc_shuttingDown s" and "io_deviceName s \<noteq> []"
    and "io_sharedState s = Some sh" and "m \<noteq> n"
  shows "mc_motorStates (mt_handleResponse now (response n bytes) s) m = mc_motorStates s m \<and>
    (\<exists>sh'. io_sharedState (mt_handleResponse now (response n bytes) s) = Some sh' \<and>
      getAxisFeedback sh' (makeAxisKey s m) = getAxisFeedback sh (makeAxisKey s m))"
proof -
  have "ids_ok s" using mt_reachable_inv [OF assms(1)] by (simp add: mt_inv_def)
  with assms(5) have "makeAxisKey s m \<noteq> makeAxisKey s n" by (simp add: axis_key_inj)
  with assms(2-5) show ?thesis
    by (simp add: handleResponse_motors handleResponse_shared)
qed


text \<open>
  C20: a silent motor loses its right to move: after three consecutive reads of one kind whose
  frames were sent and never answered, spaced by the read timeout and the back-off, the axis is
  degraded and the readiness evaluation refuses motion, whatever its configuration and inputs.
\<close>

theorem mt_silent_motor_not_ready:
  assumes "live s" and "idle_slot s n cmd ready 0" and "io_sharedState s = Some sh"
    and "spaced (computeReadRequestTimeout s) ready ts" and "3 \<le> length ts"
  shows "\<exists>sh' fb. io_sharedState (fold (lost_read cmd n) ts s) = Some sh' \<and>
    getAxisFeedback sh' (makeAxisKey s n) = Some fb \<and> fb_degraded fb \<and>
    \<not> MotionReady (Evaluate cfg fb command intent health nowNs)"
proof -
  have "ts \<noteq> []" using assms(5) by auto
  from lost_reads_count [OF assms(1,2) _ assms(4,3) this] assms(5) obtain sh' fb where
    "io_sharedState (fold (lost_read cmd n) ts s) = Some sh'"
    "getAxisFeedback sh' (makeAxisKey s n) = Some fb" "fb_degraded fb"
    by auto
  then show ?thesis
    by (auto simp: MotionReady_def ReadyForRun_def readyForRun_iff readyForEnable_iff)
qed

definition witness_mt :: mt_can where
  "witness_mt = new_MtCan True True (Some empty_SharedDriverState) ''can0''"

theorem mt_silent_motor_not_ready_witness:
  "\<exists>sh' fb. io_sharedState (fold (lost_read ReadMotorStatus2 1)
      [(ms 1000, ms 1001, ms 1300), (ms 2000, ms 2001, ms 2300), (ms 3000, ms 3001, ms 3300)] witness_mt) = Some sh' \<and>
    getAxisFeedback sh' (makeAxisKey witness_mt 1) = Some fb \<and> fb_degraded fb \<and>
    \<not> MotionReady (Evaluate default_readiness_config fb None IntentRun None (ms 3400))"
proof (rule mt_silent_motor_not_ready)
  have "computeReadRequestTimeout witness_mt = 250"
    by (simp add: witness_mt_def new_MtCan_def computeReadRequestTimeout_def mt_computeRefreshSleep_def
        computeRefreshSleep_def kQueriesPerMotorPerCycle_def kMaxReadTimeoutCycles_def kBaseReadTimeoutCycles_def
        kMinReadRequestTimeout_def kMaxReadRequestTimeout_def Let_def)
  then show "spaced (computeReadRequestTimeout witness_mt) (ms 1000)
      [(ms 1000, ms 1001, ms 1300), (ms 2000, ms 2001, ms 2300), (ms 3000, ms 3001, ms 3300)]" by simp
qed (simp_all add: witness_mt_def new_MtCan_def live_def idle_slot_def slot_def default_mt_pending_def)

text \<open>
  The degraded flag of an axis follows the read that timed out last, not the worst one: an
  axis that is degraded because one kind of read has timed out repeatedly is no longer degraded
  after the first timeout of another kind of read of the same, still silent, motor.
\<close>

lemma mt_other_read_clears_degraded:
  assumes "live s" and "idle_slot s n cmd t0 0" and "ms (computeReadRequestTimeout s) \<le> t2 - t1"
    and "io_sharedState s = Some sh" and "getAxisFeedback sh (makeAxisKey s n) = Some fb" and "fb_degraded fb"
  shows "\<exists>sh' fb'. io_sharedState (lost_read cmd n (t0, t1, t2) s) = Some sh' \<and>
    getAxisFeedback sh' (makeAxisKey s n) = Some fb' \<and> \<not> fb_degraded fb' \<and>
    fb_lastRxSteadyNs fb' = fb_lastRxSteadyNs fb"
  using lost_read_shared [OF assms(1-4)] assms(5)
  by (simp add: recomputeAxisObservedLocked_def timeout_noted_def Let_def touch_feedback_def
      kDefaultFeedbackDegradedTimeoutThreshold_def word_le_nat_alt)

definition witness_degraded :: SharedDriverState where
  "witness_degraded = mutateAxisFeedback (MakeAxisKey ''can0'' MT 0x141)
     (\<lambda>f. f\<lparr>fb_consecutiveTimeoutCount := 5\<rparr>) empty_SharedDriverState"

lemma mt_other_read_clears_degraded_witness:
  "\<exists>sh' fb'. io_sharedState (lost_read ReadMultiTurnAngle 1 (ms 10, ms 20, ms 300)
       (new_MtCan True True (Some witness_degraded) ''can0'')) = Some sh' \<and>
    getAxisFeedback sh' (MakeAxisKey ''can0'' MT 0x141) = Some fb' \<and> \<not> fb_degraded fb'"
proof -
  let ?s = "new_MtCan True True (Some witness_degraded) ''can0''"
  have tm: "computeReadRequestTimeout ?s = 250"
    by (simp add: new_MtCan_def computeReadRequestTimeout_def mt_computeRefreshSleep_def
        computeRefreshSleep_def kQueriesPerMotorPerCycle_def kMaxReadTimeoutCycles_def kBaseReadTimeoutCycles_def
        kMinReadRequestTimeout_def kMaxReadRequestTimeout_def Let_def)
  have key: "makeAxisKey ?s 1 = MakeAxisKey ''can0'' MT 0x141"
    by (simp add: makeAxisKey_def resolveSystemMotorId_def new_MtCan_def motorIdFromMtProtocolNodeId_def kMtSendBaseId_def)
  obtain fb where fb: "getAxisFeedback witness_degraded (MakeAxisKey ''can0'' MT 0x141) = Some fb" "fb_degraded fb"
    by (simp add: witness_degraded_def recomputeAxisObservedLocked_def kDefaultFeedbackDegradedTimeoutThreshold_def)
  have "live ?s" "idle_slot ?s 1 ReadMultiTurnAngle (ms 10) 0" "io_sharedState ?s = Some witness_degraded"
    by (simp_all add: new_MtCan_def live_def idle_slot_def slot_def default_mt_pending_def)
  from mt_other_read_clears_degraded [OF this(1,2) _ this(3), of "ms 300" "ms 20" fb] tm key fb show ?thesis
    by auto
qed

text \<open>
  Read timeouts stay between 250 ms and 1500 ms for every refresh rate and number of motors;
  the back-off after a timeout is 500 ms whatever the number of consecutive timeouts.
\<close>

lemma mt_timeout_bounds:
  "250 \<le> computeReadRequestTimeout s \<and> computeReadRequestTimeout s \<le> 1500 \<and>
   computeTimeoutBackoff (Suc k) (computeReadRequestTimeout s) = 500"
  by (simp add: timeout_bounds backoff_constant)

text \<open>
  A velocity command reaches the motor it names: with a dispatcher, \<open>setVelocity\<close> submits one
  control frame, to the CAN id \<open>0x140\<close> plus the node of the motor, that decodes to the velocity,
  and records the same velocity as a valid velocity-mode command of that axis.
\<close>

lemma mt_setVelocity_on_wire:
  assumes "io_canController s" and "io_txDispatcher s" and "io_deviceName s \<noteq> []" and "io_sharedState s = Some sh"
  shows "\<exists>r sh' c. mt_setVelocity now mid v s = (True, snd (mt_setVelocity now mid v s)) \<and>
    io_outbox (snd (mt_setVelocity now mid v s)) = io_outbox s @ [r] \<and> rq_category r = Control \<and>
    unat (fr_id (rq_frame r)) = 0x140 + unat (toMtProtocolNodeId mid) \<and> readInt32LE (rq_frame r) 4 = v \<and>
    io_sharedState (snd (mt_setVelocity now mid v s)) = Some sh' \<and>
    getAxisCommand sh' (MakeAxisKey (io_deviceName s) MT mid) = Some c \<and>
    ac_valid c \<and> ac_targetVelocity c = v \<and> ac_desiredMode c = ModeVelocity"
proof -
  let ?n = "toMtProtocolNodeId mid"
  let ?f = "makeSpeedClosedLoopFrame (encodeSendCanId ?n) v"
  have id: "unat (fr_id ?f) = 0x140 + unat ?n"
    using unat_u8 [of ?n] by (simp add: mt_frame_defs encodeSendCanId_def unat_ucast_mod unat_sendCanId)
  have val: "readInt32LE ?f 4 = v" by (simp add: mt_frame_defs readInt32LE_def byte_simps)
  show ?thesis
    using assms id val
    by (simp add: mt_setVelocity_def Let_def submitTx_outbox syncSharedCommand_def on_shared_state modify_motor_def
        rememberSystemMotorId_def makeAxisKey_def resolveSystemMotorId_def mt_command_def)
qed

lemma mt_setVelocity_on_wire_witness:
  "\<exists>r. io_outbox (snd (mt_setVelocity 9 0x141 (- 5) witness_mt)) = [r] \<and> readInt32LE (rq_frame r) 4 = - 5 \<and>
     unat (fr_id (rq_frame r)) = 0x141"
  using mt_setVelocity_on_wire [of witness_mt empty_SharedDriverState 9 "0x141" "- 5"]
  by (auto simp: witness_mt_def new_MtCan_def toMtProtocolNodeId_def toSystemMotorId_def kMtSendBaseId_def)

end
