(* ===== verification/Eyou_Can.thy ===== *)
theory Eyou_Can
  imports Protocol_Io Refresh_Scheduler
begin

text \<open>
  \<open>EyouCan.cpp\<close>: the driver of the PP motors on one device.  A motor is a set of registers that
  are written and read by CAN frames with the motor's node number as CAN id; values are
  big-endian.  Each public operation and each handler is a function on the state \<open>ey_can\<close>; an
  operation that reads the clock takes the time \<open>now\<close>, and one that blocks takes what the other
  threads do while it waits.  Locks, log output and the publication of the write counters on
  the ROS parameter server are left out.
\<close>

section \<open>State\<close>

definition kDefaultPositionVelocityRaw :: i32 where "kDefaultPositionVelocityRaw = 0x00002AAA"

record ey_motor_state =
  em_position :: i32
  em_commandedPosition :: i32
  em_commandedVelocity :: i32
  em_actualVelocity :: i32
  em_current :: i32
  em_acceleration :: i32
  em_deceleration :: i32
  em_lastPositionVelocityRaw :: i32
  em_enabled :: bool
  em_fault :: bool
  em_positionReceived :: bool
  em_positionOffsetReceived :: bool
  em_serialNumberReceived :: bool
  em_velocityReceived :: bool
  em_currentReceived :: bool
  em_modeReceived :: bool
  em_enabledReceived :: bool
  em_faultReceived :: bool
  em_positionVelocityConfigured :: bool
  em_positionOffset :: i32
  em_serialNumber :: u32
  em_mode :: MotorMode

definition default_ey_motor :: ey_motor_state where
  "default_ey_motor = \<lparr>em_position = 0, em_commandedPosition = 0, em_commandedVelocity = 0,
     em_actualVelocity = 0, em_current = 0, em_acceleration = 0, em_deceleration = 0,
     em_lastPositionVelocityRaw = kDefaultPositionVelocityRaw, em_enabled = False, em_fault = False,
     em_positionReceived = False, em_positionOffsetReceived = False, em_serialNumberReceived = False,
     em_velocityReceived = False, em_currentReceived = False, em_modeReceived = False,
     em_enabledReceived = False, em_faultReceived = False, em_positionVelocityConfigured = False,
     em_positionOffset = 0, em_serialNumber = 0, em_mode = ModePosition\<rparr>"

record ey_pending_read =
  ep_lastSent :: time_ns
  ep_lastResponse :: time_ns
  ep_queued :: bool
  ep_inFlight :: bool
  ep_missedRefreshWindows :: nat
  ep_warnedStaleBuckets :: nat

definition default_ey_pending :: ey_pending_read where
  "default_ey_pending = \<lparr>ep_lastSent = 0, ep_lastResponse = 0, ep_queued = False, ep_inFlight = False,
     ep_missedRefreshWindows = 0, ep_warnedStaleBuckets = 0\<rparr>"

record ey_write_ack =
  ea_received :: bool
  ea_state :: u8

definition default_ey_ack :: ey_write_ack where
  "default_ey_ack = \<lparr>ea_received = False, ea_state = 0\<rparr>"

record ey_can = proto_io +
  ec_motorStates :: "u8 \<rightharpoonup> ey_motor_state"
  ec_refreshMotorIds :: "u8 list"
  ec_managedMotorIds :: "u8 set"
  ec_systemMotorIdsByNodeId :: "u8 \<rightharpoonup> motor_id"
  ec_positionVelocityRawByMotorId :: "u8 \<rightharpoonup> i32"
  ec_cspVelocityRawByMotorId :: "u8 \<rightharpoonup> i32"
  ec_refreshRateHz :: dbl
  ec_fastWriteEnabled :: bool
  ec_defaultPositionVelocityRaw :: i32
  ec_defaultCspVelocityRaw :: i32
  ec_fastWriteSentCount :: u64
  ec_normalWriteSentCount :: u64
  ec_shuttingDown :: bool
  ec_pendingReadRequests :: "u16 \<rightharpoonup> ey_pending_read"
  ec_pendingWriteAcks :: "u16 \<rightharpoonup> ey_write_ack"

definition new_EyouCan :: "bool \<Rightarrow> bool \<Rightarrow> SharedDriverState option \<Rightarrow> string \<Rightarrow> ey_can" where
  "new_EyouCan controller txDispatcher sharedState deviceName =
     \<lparr>io_canController = controller, io_txDispatcher = txDispatcher, io_sharedState = sharedState,
      io_deviceName = deviceName, io_outbox = [], ec_motorStates = Map.empty, ec_refreshMotorIds = [],
      ec_managedMotorIds = {}, ec_systemMotorIdsByNodeId = Map.empty,
      ec_positionVelocityRawByMotorId = Map.empty, ec_cspVelocityRawByMotorId = Map.empty,
      ec_refreshRateHz = Fin 0, ec_fastWriteEnabled = False,
      ec_defaultPositionVelocityRaw = kDefaultPositionVelocityRaw,
      ec_defaultCspVelocityRaw = kDefaultPositionVelocityRaw, ec_fastWriteSentCount = 0,
      ec_normalWriteSentCount = 0, ec_shuttingDown = False, ec_pendingReadRequests = Map.empty,
      ec_pendingWriteAcks = Map.empty\<rparr>"

definition kWriteCommand :: u8 where "kWriteCommand = 0x01"
definition kFastWriteCommand :: u8 where "kFastWriteCommand = 0x05"
definition kReadCommand :: u8 where "kReadCommand = 0x03"
definition kWriteAck :: u8 where "kWriteAck = 0x02"
definition kReadResponse :: u8 where "kReadResponse = 0x04"
definition kReadSerialNumberSubCommand :: u8 where "kReadSerialNumberSubCommand = 0x02"
definition kPersistParametersSubCommand :: u8 where "kPersistParametersSubCommand = 0x4D"
definition kEyouIdFrameBase :: u16 where "kEyouIdFrameBase = 0x0000"
definition ey_kQueriesPerMotorPerCycle :: nat where "ey_kQueriesPerMotorPerCycle = 6"
definition kPersistWriteAckRetries :: nat where "kPersistWriteAckRetries = 3"

lemmas ey_bytes = kWriteCommand_def kFastWriteCommand_def kReadCommand_def kWriteAck_def kReadResponse_def
  kReadSerialNumberSubCommand_def kPersistParametersSubCommand_def

section \<open>Frames\<close>

definition readUInt32BE :: "frame \<Rightarrow> nat \<Rightarrow> u32" where
  "readUInt32BE f index =
     (if unat (fr_dlc f) \<le> index + 3 then 0
      else push_bit 24 (ucast (fr_data f ! index)) OR push_bit 16 (ucast (fr_data f ! (index + 1))) OR
           push_bit 8 (ucast (fr_data f ! (index + 2))) OR ucast (fr_data f ! (index + 3)))"

definition readInt32BE :: "frame \<Rightarrow> nat \<Rightarrow> i32" where
  "readInt32BE f index = readUInt32BE f index"

definition dataByteOrZero :: "frame \<Rightarrow> nat \<Rightarrow> u8" where
  "dataByteOrZero f index = (if unat (fr_dlc f) \<le> index then 0 else fr_data f ! index)"

definition clampInt32ToInt16WithWarn :: "i32 \<Rightarrow> i16" where
  "clampInt32ToInt16WithWarn value = word_of_int (max (- 32768) (min 32767 (sint value)))"

text \<open>The frame of \<open>sendWriteCommand\<close>: at most four payload bytes, most significant first.\<close>

definition write_frame :: "u8 \<Rightarrow> u8 \<Rightarrow> u32 \<Rightarrow> nat \<Rightarrow> u8 \<Rightarrow> frame" where
  "write_frame motorId subCommand value payloadBytes commandType =
     (let payloadBytes = (if payloadBytes < 1 then 1 else if 4 < payloadBytes then 4 else payloadBytes);
          maxPayload = min payloadBytes (8 - 2)
      in \<lparr>fr_id = ucast (kEyouIdFrameBase + ucast motorId), fr_isExtended = False, fr_isRemoteRequest = False,
          fr_dlc = 8,
          fr_data = [commandType, subCommand] @ map (\<lambda>i. byte_at ((payloadBytes - 1 - i) * 8) value) [0..<maxPayload] @
            replicate (6 - maxPayload) 0\<rparr>)"

text \<open>The frame of \<open>writeCommandBytesAndWaitForAck\<close>, whose payload is given byte by byte.\<close>

definition write_bytes_frame :: "u8 \<Rightarrow> u8 \<Rightarrow> u8 list \<Rightarrow> nat \<Rightarrow> frame" where
  "write_bytes_frame motorId subCommand payload payloadBytes =
     \<lparr>fr_id = ucast (kEyouIdFrameBase + ucast motorId), fr_isExtended = False, fr_isRemoteRequest = False,
      fr_dlc = 8,
      fr_data = [kWriteCommand, subCommand] @ take (min payloadBytes (length payload)) payload @
        replicate (6 - min payloadBytes (length payload)) 0\<rparr>"

definition read_frame :: "u8 \<Rightarrow> u8 \<Rightarrow> frame" where
  "read_frame motorId subCommand =
     \<lparr>fr_id = ucast (kEyouIdFrameBase + ucast motorId), fr_isExtended = False, fr_isRemoteRequest = False,
      fr_dlc = 2, fr_data = (replicate 8 0)[0 := kReadCommand, 1 := subCommand]\<rparr>"

section \<open>Identifiers and shared state\<close>

definition ey_registerManagedMotorId :: "motor_id \<Rightarrow> ey_can \<Rightarrow> ey_can" where
  "ey_registerManagedMotorId mid s =
     (let n = toProtocolNodeId mid;
          s1 = s\<lparr>ec_managedMotorIds := insert n (ec_managedMotorIds s),
                 ec_systemMotorIdsByNodeId := (ec_systemMotorIdsByNodeId s)(n \<mapsto> mid)\<rparr>
      in on_shared (registerAxis (MakeAxisKey (io_deviceName s) PP mid)) s1)"

definition ey_isManagedMotorId :: "ey_can \<Rightarrow> u8 \<Rightarrow> bool" where
  "ey_isManagedMotorId s motorId =
     (if ec_managedMotorIds s = {} then True else motorId \<in> ec_managedMotorIds s)"

definition ey_resolveSystemMotorId :: "ey_can \<Rightarrow> u8 \<Rightarrow> motor_id" where
  "ey_resolveSystemMotorId s motorId =
     (case ec_systemMotorIdsByNodeId s motorId of Some mid \<Rightarrow> mid | None \<Rightarrow> motorIdFromProtocolNodeId motorId)"

definition ey_makeAxisKey :: "ey_can \<Rightarrow> u8 \<Rightarrow> AxisKey" where
  "ey_makeAxisKey s motorId = MakeAxisKey (io_deviceName s) PP (ey_resolveSystemMotorId s motorId)"

definition ey_feedback :: "time_ns \<Rightarrow> ey_motor_state \<Rightarrow> AxisFeedbackState \<Rightarrow> AxisFeedbackState" where
  "ey_feedback nowNs state feedback =
     feedback\<lparr>fb_position := sint (em_position state), fb_velocity := em_actualVelocity state,
       fb_current := em_current state, fb_mode := em_mode state, fb_positionValid := em_positionReceived state,
       fb_velocityValid := em_velocityReceived state, fb_currentValid := em_currentReceived state,
       fb_modeValid := em_modeReceived state, fb_enabled := em_enabled state, fb_fault := em_fault state,
       fb_enabledValid := em_enabledReceived state, fb_faultValid := em_faultReceived state,
       fb_feedbackSeen := True, fb_lastRxSteadyNs := nowNs, fb_lastValidStateSteadyNs := nowNs,
       fb_consecutiveTimeoutCount := 0\<rparr>"

definition ey_syncSharedFeedback :: "time_ns \<Rightarrow> u8 \<Rightarrow> ey_motor_state \<Rightarrow> ey_can \<Rightarrow> ey_can" where
  "ey_syncSharedFeedback now motorId state s =
     on_shared (mutateAxisFeedback (ey_makeAxisKey s motorId) (ey_feedback now state)) s"

definition ey_command :: "time_ns \<Rightarrow> int \<Rightarrow> i32 \<Rightarrow> MotorMode \<Rightarrow> bool \<Rightarrow> AxisCommandState \<Rightarrow> AxisCommandState" where
  "ey_command nowNs targetPosition targetVelocity desiredMode valid command =
     command\<lparr>ac_targetPosition := targetPosition, ac_targetVelocity := targetVelocity,
       ac_desiredMode := desiredMode, ac_desiredModeValid := True, ac_valid := valid,
       ac_lastCommandSteadyNs := (if valid then nowNs else 0)\<rparr>"

definition ey_syncSharedCommand :: "time_ns \<Rightarrow> u8 \<Rightarrow> int \<Rightarrow> i32 \<Rightarrow> MotorMode \<Rightarrow> bool \<Rightarrow> ey_can \<Rightarrow> ey_can" where
  "ey_syncSharedCommand now motorId targetPosition targetVelocity desiredMode valid s =
     on_shared (mutateAxisCommand (ey_makeAxisKey s motorId)
       (ey_command now targetPosition targetVelocity desiredMode valid)) s"

definition ey_mode_selection :: "MotorMode \<Rightarrow> AxisCommandState \<Rightarrow> AxisCommandState" where
  "ey_mode_selection desiredMode command =
     command\<lparr>ac_targetPosition := 0, ac_targetVelocity := 0, ac_targetCurrent := 0,
       ac_desiredMode := desiredMode, ac_desiredModeValid := True, ac_valid := False,
       ac_lastCommandSteadyNs := 0\<rparr>"

definition ey_syncSharedModeSelection :: "u8 \<Rightarrow> MotorMode \<Rightarrow> ey_can \<Rightarrow> ey_can" where
  "ey_syncSharedModeSelection motorId desiredMode s =
     on_shared (mutateAxisCommand (ey_makeAxisKey s motorId) (ey_mode_selection desiredMode)) s"

definition ey_syncSharedIntent :: "u8 \<Rightarrow> AxisIntent \<Rightarrow> ey_can \<Rightarrow> ey_can" where
  "ey_syncSharedIntent motorId intent s = on_shared (setAxisIntent (ey_makeAxisKey s motorId) intent) s"

definition ey_motor :: "ey_can \<Rightarrow> u8 \<Rightarrow> ey_motor_state" where
  "ey_motor s motorId = map_at default_ey_motor (ec_motorStates s) motorId"

definition ey_modify :: "u8 \<Rightarrow> (ey_motor_state \<Rightarrow> ey_motor_state) \<Rightarrow> ey_can \<Rightarrow> ey_can" where
  "ey_modify motorId f s = s\<lparr>ec_motorStates := map_modify default_ey_motor motorId f (ec_motorStates s)\<rparr>"

section \<open>Read tracking\<close>

definition ey_resetReadTracking :: "ey_can \<Rightarrow> ey_can" where
  "ey_resetReadTracking s = s\<lparr>ec_pendingReadRequests := Map.empty\<rparr>"

definition ey_stopRefreshLoop :: "ey_can \<Rightarrow> ey_can" where
  "ey_stopRefreshLoop s = ey_resetReadTracking s"

definition feedbackStaleWarnWindowThreshold :: "u8 \<Rightarrow> nat" where
  "feedbackStaleWarnWindowThreshold subCommand =
     (if subCommand \<in> {0x07, 0x06} then 10 else if subCommand \<in> {0x05, 0x0F, 0x10, 0x15} then 20 else 0)"

definition feedbackStaleWarnThreshold :: "u8 \<Rightarrow> int" where
  "feedbackStaleWarnThreshold subCommand =
     (let windows = feedbackStaleWarnWindowThreshold subCommand in if windows = 0 then 0 else int windows * 100)"

definition ey_slot :: "ey_can \<Rightarrow> u8 \<Rightarrow> u8 \<Rightarrow> ey_pending_read" where
  "ey_slot s motorId subCommand = map_at default_ey_pending (ec_pendingReadRequests s) (pendingReadKey motorId subCommand)"

definition ey_set_slot :: "u8 \<Rightarrow> u8 \<Rightarrow> ey_pending_read \<Rightarrow> ey_can \<Rightarrow> ey_can" where
  "ey_set_slot motorId subCommand r s =
     s\<lparr>ec_pendingReadRequests := (ec_pendingReadRequests s)(pendingReadKey motorId subCommand \<mapsto> r)\<rparr>"

definition maybeWarnStaleFeedback :: "u8 \<Rightarrow> u8 \<Rightarrow> time_ns \<Rightarrow> ey_can \<Rightarrow> ey_can" where
  "maybeWarnStaleFeedback motorId subCommand now s =
     (let threshold = feedbackStaleWarnThreshold subCommand
      in if threshold \<le> 0 then s
         else let request = ey_slot s motorId subCommand;
                  s1 = ey_set_slot motorId subCommand request s;
                  staleSince = (if ep_lastResponse request \<noteq> 0 then ep_lastResponse request else ep_lastSent request)
              in if staleSince = 0 \<or> now < staleSince then s1
                 else let age = (now - staleSince) div 1000000
                      in if age < threshold then s1
                         else let warnBucket = nat (max 1 (age div max 1 threshold))
                              in if warnBucket \<le> ep_warnedStaleBuckets request then s1
                                 else ey_set_slot motorId subCommand (request\<lparr>ep_warnedStaleBuckets := warnBucket\<rparr>) s1)"

definition ey_onReadDispatchResult :: "u8 \<Rightarrow> u8 \<Rightarrow> bool \<Rightarrow> SendResult \<Rightarrow> time_ns \<Rightarrow> ey_can \<Rightarrow> ey_can" where
  "ey_onReadDispatchResult motorId subCommand attemptedSend sendResult eventTime s =
     (if ec_shuttingDown s then s
      else case ec_pendingReadRequests s (pendingReadKey motorId subCommand) of
        None \<Rightarrow> s
      | Some request \<Rightarrow>
          let r = request\<lparr>ep_queued := False\<rparr>
          in ey_set_slot motorId subCommand
               (if attemptedSend \<and> sendResult = SendOk
                then r\<lparr>ep_inFlight := True, ep_lastSent := eventTime,
                       ep_missedRefreshWindows := min (ep_missedRefreshWindows r + 1) 1024\<rparr>
                else r\<lparr>ep_inFlight := False\<rparr>) s)"

definition ey_markReadResponseReceived :: "time_ns \<Rightarrow> u8 \<Rightarrow> u8 \<Rightarrow> ey_can \<Rightarrow> ey_can" where
  "ey_markReadResponseReceived now motorId subCommand s =
     (case ec_pendingReadRequests s (pendingReadKey motorId subCommand) of
        None \<Rightarrow> s
      | Some request \<Rightarrow> ey_set_slot motorId subCommand
          (request\<lparr>ep_lastResponse := now, ep_queued := False, ep_inFlight := False,
                  ep_missedRefreshWindows := 0, ep_warnedStaleBuckets := 0\<rparr>) s)"

section \<open>Sending\<close>

definition sendWriteCommand :: "u8 \<Rightarrow> u8 \<Rightarrow> u32 \<Rightarrow> nat \<Rightarrow> u8 \<Rightarrow> ey_can \<Rightarrow> ey_can" where
  "sendWriteCommand motorId subCommand value payloadBytes commandType s =
     (if \<not> io_canController s then s
      else let f = write_frame motorId subCommand value payloadBytes commandType;
               category = (if subCommand = 0x15 then Recover else Control)
           in case submitTx f category ''EyouCan::sendWriteCommand'' s of
                (submitted, s1) \<Rightarrow>
                  if \<not> submitted then s1
                  else if commandType = kFastWriteCommand
                  then s1\<lparr>ec_fastWriteSentCount := ec_fastWriteSentCount s1 + 1\<rparr>
                  else if commandType = kWriteCommand
                  then s1\<lparr>ec_normalWriteSentCount := ec_normalWriteSentCount s1 + 1\<rparr>
                  else s1)"

definition sendReadCommand :: "time_ns \<Rightarrow> u8 \<Rightarrow> u8 \<Rightarrow> ey_can \<Rightarrow> ey_can" where
  "sendReadCommand now motorId subCommand s =
     (if \<not> io_canController s then s
      else if \<not> io_txDispatcher s then ey_onReadDispatchResult motorId subCommand False SendError now s
      else s\<lparr>io_outbox := io_outbox s @
             [\<lparr>rq_frame = read_frame motorId subCommand, rq_category = Query,
               rq_source = ''EyouCan::sendReadCommand'', rq_completion = Some (motorId, subCommand)\<rparr>]\<rparr>)"

definition ey_tryIssueReadCommand :: "time_ns \<Rightarrow> u8 \<Rightarrow> u8 \<Rightarrow> ey_can \<Rightarrow> bool \<times> ey_can" where
  "ey_tryIssueReadCommand now motorId subCommand s =
     (if ec_shuttingDown s \<or> \<not> io_canController s then (False, s)
      else let s1 = maybeWarnStaleFeedback motorId subCommand now s;
               request = ey_slot s1 motorId subCommand
           in if ep_queued request then (False, ey_set_slot motorId subCommand request s1)
              else (True, sendReadCommand now motorId subCommand
                            (ey_set_slot motorId subCommand (request\<lparr>ep_queued := True\<rparr>) s1)))"

definition requestPosition :: "time_ns \<Rightarrow> u8 \<Rightarrow> ey_can \<Rightarrow> bool \<times> ey_can" where
  "requestPosition now motorId = ey_tryIssueReadCommand now motorId 0x07"
definition requestPositionOffset :: "time_ns \<Rightarrow> u8 \<Rightarrow> ey_can \<Rightarrow> bool \<times> ey_can" where
  "requestPositionOffset now motorId = ey_tryIssueReadCommand now motorId 0x3B"
definition requestSerialNumber :: "time_ns \<Rightarrow> u8 \<Rightarrow> ey_can \<Rightarrow> bool \<times> ey_can" where
  "requestSerialNumber now motorId = ey_tryIssueReadCommand now motorId kReadSerialNumberSubCommand"
definition requestMode :: "time_ns \<Rightarrow> u8 \<Rightarrow> ey_can \<Rightarrow> bool \<times> ey_can" where
  "requestMode now motorId = ey_tryIssueReadCommand now motorId 0x0F"
definition requestEnable :: "time_ns \<Rightarrow> u8 \<Rightarrow> ey_can \<Rightarrow> bool \<times> ey_can" where
  "requestEnable now motorId = ey_tryIssueReadCommand now motorId 0x10"
definition requestFault :: "time_ns \<Rightarrow> u8 \<Rightarrow> ey_can \<Rightarrow> bool \<times> ey_can" where
  "requestFault now motorId = ey_tryIssueReadCommand now motorId 0x15"
definition requestCurrent :: "time_ns \<Rightarrow> u8 \<Rightarrow> ey_can \<Rightarrow> bool \<times> ey_can" where
  "requestCurrent now motorId = ey_tryIssueReadCommand now motorId 0x05"
definition requestVelocity :: "time_ns \<Rightarrow> u8 \<Rightarrow> ey_can \<Rightarrow> bool \<times> ey_can" where
  "requestVelocity now motorId = ey_tryIssueReadCommand now motorId 0x06"

lemmas ey_requests = requestPosition_def requestPositionOffset_def requestSerialNumber_def requestMode_def
  requestEnable_def requestFault_def requestCurrent_def requestVelocity_def

section \<open>Settings and registration\<close>

text \<open>The loop body of \<open>initializeMotorRefresh\<close>.\<close>

definition ey_register_motor :: "motor_id \<Rightarrow> ey_can \<Rightarrow> ey_can" where
  "ey_register_motor mid s =
     (let motorId = toProtocolNodeId mid;
          s1 = s\<lparr>ec_refreshMotorIds := ec_refreshMotorIds s @ [motorId],
                 ec_managedMotorIds := insert motorId (ec_managedMotorIds s),
                 ec_systemMotorIdsByNodeId := (ec_systemMotorIdsByNodeId s)(motorId \<mapsto> mid)\<rparr>
      in on_shared (registerAxis (MakeAxisKey (io_deviceName s) PP mid)) s1)"

definition ey_initializeMotorRefresh :: "motor_id list \<Rightarrow> ey_can \<Rightarrow> ey_can" where
  "ey_initializeMotorRefresh motorIds s =
     (let s1 = fold ey_register_motor motorIds
                 (s\<lparr>ec_refreshMotorIds := [], ec_managedMotorIds := {}, ec_systemMotorIdsByNodeId := Map.empty\<rparr>);
          s2 = ey_resetReadTracking s1
      in if motorIds = [] then ey_stopRefreshLoop s2 else s2)"

definition ey_setRefreshRateHz :: "dbl \<Rightarrow> ey_can \<Rightarrow> ey_can" where
  "ey_setRefreshRateHz hz s = s\<lparr>ec_refreshRateHz := normalizeRefreshRateHz hz\<rparr>"

definition ey_computeRefreshSleep :: "ey_can \<Rightarrow> nat \<Rightarrow> int" where
  "ey_computeRefreshSleep s motorCount =
     computeRefreshSleep ey_kQueriesPerMotorPerCycle (ec_refreshRateHz s) motorCount"

definition ey_refreshSleepInterval :: "ey_can \<Rightarrow> int" where
  "ey_refreshSleepInterval s = ey_computeRefreshSleep s (max 1 (length (ec_refreshMotorIds s)))"

definition setFastWriteEnabled :: "bool \<Rightarrow> ey_can \<Rightarrow> ey_can" where
  "setFastWriteEnabled enabled s = s\<lparr>ec_fastWriteEnabled := enabled\<rparr>"

definition setDefaultPositionVelocityRaw :: "i32 \<Rightarrow> ey_can \<Rightarrow> ey_can" where
  "setDefaultPositionVelocityRaw velocityRaw s =
     (if sint velocityRaw \<le> 0 then s else s\<lparr>ec_defaultPositionVelocityRaw := velocityRaw\<rparr>)"

definition setDefaultCspVelocityRaw :: "i32 \<Rightarrow> ey_can \<Rightarrow> ey_can" where
  "setDefaultCspVelocityRaw velocityRaw s =
     (if sint velocityRaw \<le> 0 then s else s\<lparr>ec_defaultCspVelocityRaw := velocityRaw\<rparr>)"

definition setMotorDefaultPositionVelocityRaw :: "motor_id \<Rightarrow> i32 \<Rightarrow> ey_can \<Rightarrow> ey_can" where
  "setMotorDefaultPositionVelocityRaw mid velocityRaw s =
     (if sint velocityRaw \<le> 0 then s
      else let s1 = ey_registerManagedMotorId mid s
           in s1\<lparr>ec_positionVelocityRawByMotorId :=
                   (ec_positionVelocityRawByMotorId s1)(toProtocolNodeId mid \<mapsto> velocityRaw)\<rparr>)"

definition setMotorDefaultCspVelocityRaw :: "motor_id \<Rightarrow> i32 \<Rightarrow> ey_can \<Rightarrow> ey_can" where
  "setMotorDefaultCspVelocityRaw mid velocityRaw s =
     (if sint velocityRaw \<le> 0 then s
      else let s1 = ey_registerManagedMotorId mid s
           in s1\<lparr>ec_cspVelocityRawByMotorId :=
                   (ec_cspVelocityRawByMotorId s1)(toProtocolNodeId mid \<mapsto> velocityRaw)\<rparr>)"

definition fastWriteSentCount :: "ey_can \<Rightarrow> u64" where
  "fastWriteSentCount s = ec_fastWriteSentCount s"

definition normalWriteSentCount :: "ey_can \<Rightarrow> u64" where
  "normalWriteSentCount s = ec_normalWriteSentCount s"

section \<open>Commands\<close>

fun ey_issueRefreshQuery :: "time_ns \<Rightarrow> motor_id \<Rightarrow> PpRefreshQuery \<Rightarrow> ey_can \<Rightarrow> bool \<times> ey_can" where
  "ey_issueRefreshQuery now mid PpPosition s = requestPosition now (toProtocolNodeId mid) (ey_registerManagedMotorId mid s)"
| "ey_issueRefreshQuery now mid PpVelocity s = requestVelocity now (toProtocolNodeId mid) (ey_registerManagedMotorId mid s)"
| "ey_issueRefreshQuery now mid PpMode s = requestMode now (toProtocolNodeId mid) (ey_registerManagedMotorId mid s)"
| "ey_issueRefreshQuery now mid PpEnable s = requestEnable now (toProtocolNodeId mid) (ey_registerManagedMotorId mid s)"
| "ey_issueRefreshQuery now mid PpFault s = requestFault now (toProtocolNodeId mid) (ey_registerManagedMotorId mid s)"
| "ey_issueRefreshQuery now mid PpCurrent s = requestCurrent now (toProtocolNodeId mid) (ey_registerManagedMotorId mid s)"

fun mode_value :: "MotorMode \<Rightarrow> u32" where
  "mode_value ModePosition = 0x00000001"
| "mode_value ModeVelocity = 0x00000003"
| "mode_value ModeCSP = 0x00000005"

definition ey_setMode :: "motor_id \<Rightarrow> MotorMode \<Rightarrow> ey_can \<Rightarrow> bool \<times> ey_can" where
  "ey_setMode mid mode s =
     (if \<not> io_canController s then (False, s)
      else let motorId = toProtocolNodeId mid;
               s1 = ey_modify motorId (\<lambda>st. st\<lparr>em_mode := mode, em_positionVelocityConfigured := False\<rparr>)
                      (ey_registerManagedMotorId mid s);
               s2 = ey_syncSharedModeSelection motorId mode s1
           in (True, sendWriteCommand motorId 0x0F (mode_value mode) 4 kWriteCommand s2))"

text \<open>A register write, preceded by a fast write of the same value when fast writes are on.\<close>

definition write_register :: "u8 \<Rightarrow> u8 \<Rightarrow> u32 \<Rightarrow> ey_can \<Rightarrow> ey_can" where
  "write_register motorId subCommand value s =
     (if ec_fastWriteEnabled s
      then sendWriteCommand motorId subCommand value 4 kWriteCommand
             (sendWriteCommand motorId subCommand value 4 kFastWriteCommand s)
      else sendWriteCommand motorId subCommand value 4 kWriteCommand s)"

definition ey_setVelocity :: "time_ns \<Rightarrow> motor_id \<Rightarrow> i32 \<Rightarrow> ey_can \<Rightarrow> bool \<times> ey_can" where
  "ey_setVelocity now mid velocity s =
     (if \<not> io_canController s then (False, s)
      else let motorId = toProtocolNodeId mid;
               s1 = ey_modify motorId (\<lambda>st. st\<lparr>em_commandedVelocity := velocity,
                        em_lastPositionVelocityRaw := velocity, em_positionVelocityConfigured := True\<rparr>)
                      (ey_registerManagedMotorId mid s);
               s2 = ey_syncSharedCommand now motorId 0 velocity ModeVelocity True s1
           in (True, write_register motorId 0x09 velocity s2))"

definition ensurePositionVelocityConfigured :: "u8 \<Rightarrow> i32 \<Rightarrow> bool \<Rightarrow> ey_can \<Rightarrow> bool \<times> ey_can" where
  "ensurePositionVelocityConfigured motorId velocityRaw forceWrite s =
     (if sint velocityRaw \<le> 0 then (False, s)
      else let s1 = ey_modify motorId (em_commandedVelocity_update (\<lambda>_. velocityRaw)) s;
               state = ey_motor s1 motorId;
               shouldWrite = (forceWrite \<or> \<not> em_positionVelocityConfigured state \<or>
                              em_lastPositionVelocityRaw state \<noteq> velocityRaw);
               s2 = (if shouldWrite
                     then ey_modify motorId (\<lambda>st. st\<lparr>em_lastPositionVelocityRaw := velocityRaw,
                            em_positionVelocityConfigured := True\<rparr>) s1
                     else s1)
           in (True, if shouldWrite then write_register motorId 0x09 velocityRaw s2 else s2))"

definition ey_setAcceleration :: "motor_id \<Rightarrow> i32 \<Rightarrow> ey_can \<Rightarrow> bool \<times> ey_can" where
  "ey_setAcceleration mid acceleration s =
     (if \<not> io_canController s then (False, s)
      else (True, sendWriteCommand (toProtocolNodeId mid) 0x0B acceleration 4 kWriteCommand
                    (ey_registerManagedMotorId mid s)))"

definition ey_setDeceleration :: "motor_id \<Rightarrow> i32 \<Rightarrow> ey_can \<Rightarrow> bool \<times> ey_can" where
  "ey_setDeceleration mid deceleration s =
     (if \<not> io_canController s then (False, s)
      else (True, sendWriteCommand (toProtocolNodeId mid) 0x0C deceleration 4 kWriteCommand
                    (ey_registerManagedMotorId mid s)))"

definition ey_setPosition :: "time_ns \<Rightarrow> motor_id \<Rightarrow> i32 \<Rightarrow> ey_can \<Rightarrow> bool \<times> ey_can" where
  "ey_setPosition now mid position s =
     (if \<not> io_canController s then (False, s)
      else let motorId = toProtocolNodeId mid;
               s1 = ey_modify motorId (em_commandedPosition_update (\<lambda>_. position)) (ey_registerManagedMotorId mid s);
               s2 = ey_syncSharedCommand now motorId (sint position) 0 ModePosition True s1;
               positionVelocityRaw = (case ec_positionVelocityRawByMotorId s2 motorId of
                   Some v \<Rightarrow> v | None \<Rightarrow> ec_defaultPositionVelocityRaw s2)
           in case ensurePositionVelocityConfigured motorId positionVelocityRaw True s2 of
                (configured, s3) \<Rightarrow>
                  if \<not> configured then (False, s3) else (True, write_register motorId 0x0A position s3))"

definition ey_quickSetPosition :: "time_ns \<Rightarrow> motor_id \<Rightarrow> i32 \<Rightarrow> ey_can \<Rightarrow> bool \<times> ey_can" where
  "ey_quickSetPosition now mid position s =
     (if \<not> io_canController s then (False, s)
      else let motorId = toProtocolNodeId mid;
               s1 = ey_modify motorId (em_commandedPosition_update (\<lambda>_. position)) (ey_registerManagedMotorId mid s);
               s2 = ey_syncSharedCommand now motorId (sint position) 0 ModeCSP True s1;
               positionVelocityRaw = (case ec_cspVelocityRawByMotorId s2 motorId of
                   Some v \<Rightarrow> v | None \<Rightarrow> ec_defaultCspVelocityRaw s2)
           in case ensurePositionVelocityConfigured motorId positionVelocityRaw False s2 of
                (configured, s3) \<Rightarrow>
                  if \<not> configured then (False, s3)
                  else (True, sendWriteCommand motorId 0x0A position 4 kFastWriteCommand s3))"

definition ey_Enable :: "time_ns \<Rightarrow> motor_id \<Rightarrow> ey_can \<Rightarrow> bool \<times> ey_can" where
  "ey_Enable now mid s =
     (if \<not> io_canController s then (False, s)
      else let motorId = toProtocolNodeId mid;
               s1 = ey_modify motorId (\<lambda>st. st\<lparr>em_positionVelocityConfigured := False, em_enabledReceived := False\<rparr>)
                      (ey_registerManagedMotorId mid s);
               s2 = sendWriteCommand motorId 0x10 0x00000001 4 kWriteCommand (ey_syncSharedIntent motorId IntentEnable s1)
           in (True, snd (requestEnable now motorId s2)))"

definition ey_Disable :: "time_ns \<Rightarrow> motor_id \<Rightarrow> ey_can \<Rightarrow> bool \<times> ey_can" where
  "ey_Disable now mid s =
     (if \<not> io_canController s then (False, s)
      else let motorId = toProtocolNodeId mid;
               s1 = ey_modify motorId (em_enabledReceived_update (\<lambda>_. False)) (ey_registerManagedMotorId mid s);
               s2 = sendWriteCommand motorId 0x10 0x00000000 4 kWriteCommand (ey_syncSharedIntent motorId IntentDisable s1)
           in (True, snd (requestEnable now motorId s2)))"

definition ey_Stop :: "motor_id \<Rightarrow> ey_can \<Rightarrow> bool \<times> ey_can" where
  "ey_Stop mid s =
     (if \<not> io_canController s then (False, s)
      else let motorId = toProtocolNodeId mid;
               s1 = ey_syncSharedIntent motorId IntentHold (ey_registerManagedMotorId mid s)
           in (True, sendWriteCommand motorId 0x11 0x00000001 4 kWriteCommand s1))"

definition ey_ResetFault :: "time_ns \<Rightarrow> motor_id \<Rightarrow> ey_can \<Rightarrow> bool \<times> ey_can" where
  "ey_ResetFault now mid s =
     (if \<not> io_canController s then (False, s)
      else let motorId = toProtocolNodeId mid;
               s1 = ey_syncSharedIntent motorId IntentRecover (ey_registerManagedMotorId mid s);
               s2 = sendWriteCommand motorId 0x15 0x00000000 4 kWriteCommand s1;
               s3 = ey_markReadResponseReceived now motorId 0x15 s2
           in (True, snd (requestFault now motorId s3)))"

definition configurePositionLimits :: "motor_id \<Rightarrow> i32 \<Rightarrow> i32 \<Rightarrow> bool \<Rightarrow> ey_can \<Rightarrow> bool \<times> ey_can" where
  "configurePositionLimits mid minPositionRaw maxPositionRaw enable s =
     (if \<not> io_canController s then (False, s)
      else if sint maxPositionRaw < sint minPositionRaw then (False, s)
      else let motorId = toProtocolNodeId mid;
               s1 = sendWriteCommand motorId 0x39 maxPositionRaw 4 kWriteCommand (ey_registerManagedMotorId mid s);
               s2 = sendWriteCommand motorId 0x3A minPositionRaw 4 kWriteCommand s1
           in (True, sendWriteCommand motorId 0x38 (if enable then 0x00000001 else 0x00000000) 4 kWriteCommand s2))"

text \<open>The getters register the motor they are asked about.\<close>

definition ey_getPosition :: "motor_id \<Rightarrow> ey_can \<Rightarrow> int \<times> ey_can" where
  "ey_getPosition mid s =
     (let s1 = ey_registerManagedMotorId mid s
      in case ec_motorStates s1 (toProtocolNodeId mid) of
           Some st \<Rightarrow> (if em_positionReceived st then sint (em_position st) else 0, s1)
         | None \<Rightarrow> (0, s1))"

definition ey_getCurrent :: "motor_id \<Rightarrow> ey_can \<Rightarrow> i16 \<times> ey_can" where
  "ey_getCurrent mid s =
     (let s1 = ey_registerManagedMotorId mid s
      in case ec_motorStates s1 (toProtocolNodeId mid) of
           Some st \<Rightarrow> (if em_currentReceived st then clampInt32ToInt16WithWarn (em_current st) else 0, s1)
         | None \<Rightarrow> (0, s1))"

definition ey_getVelocity :: "motor_id \<Rightarrow> ey_can \<Rightarrow> i32 \<times> ey_can" where
  "ey_getVelocity mid s =
     (let s1 = ey_registerManagedMotorId mid s
      in case ec_motorStates s1 (toProtocolNodeId mid) of
           Some st \<Rightarrow> (if em_velocityReceived st then em_actualVelocity st else 0, s1)
         | None \<Rightarrow> (0, s1))"

definition ey_isEnabled :: "motor_id \<Rightarrow> ey_can \<Rightarrow> bool \<times> ey_can" where
  "ey_isEnabled mid s =
     (let s1 = ey_registerManagedMotorId mid s
      in (case ec_motorStates s1 (toProtocolNodeId mid) of Some st \<Rightarrow> em_enabled st | None \<Rightarrow> False, s1))"

definition ey_hasFault :: "motor_id \<Rightarrow> ey_can \<Rightarrow> bool \<times> ey_can" where
  "ey_hasFault mid s =
     (let s1 = ey_registerManagedMotorId mid s
      in (case ec_motorStates s1 (toProtocolNodeId mid) of Some st \<Rightarrow> em_fault st | None \<Rightarrow> False, s1))"

text \<open>The destructor; the dispatcher it shuts down is not used afterwards.\<close>

definition destroy_EyouCan :: "ey_can \<Rightarrow> ey_can" where
  "destroy_EyouCan s = (ey_stopRefreshLoop (s\<lparr>ec_shuttingDown := True\<rparr>))\<lparr>io_txDispatcher := False\<rparr>"

section \<open>Responses\<close>

definition markWriteAckReceived :: "u8 \<Rightarrow> u8 \<Rightarrow> u8 \<Rightarrow> ey_can \<Rightarrow> ey_can" where
  "markWriteAckReceived motorId subCommand writeState s =
     s\<lparr>ec_pendingWriteAcks := (ec_pendingWriteAcks s)(pendingReadKey motorId subCommand \<mapsto>
         \<lparr>ea_received = True, ea_state = writeState\<rparr>)\<rparr>"

text \<open>The switch over the register of a read response.\<close>

definition ey_absorb :: "frame \<Rightarrow> u8 \<Rightarrow> ey_motor_state \<Rightarrow> ey_motor_state" where
  "ey_absorb f subCommand state =
     (if subCommand = kReadSerialNumberSubCommand
      then state\<lparr>em_serialNumber := readUInt32BE f 2, em_serialNumberReceived := True\<rparr>
      else if subCommand = 0x05 then state\<lparr>em_current := readInt32BE f 2, em_currentReceived := True\<rparr>
      else if subCommand = 0x06 then state\<lparr>em_actualVelocity := readInt32BE f 2, em_velocityReceived := True\<rparr>
      else if subCommand = 0x07 then state\<lparr>em_position := readInt32BE f 2, em_positionReceived := True\<rparr>
      else if subCommand = 0x3B then state\<lparr>em_positionOffset := readInt32BE f 2, em_positionOffsetReceived := True\<rparr>
      else if subCommand = 0x0F
      then state\<lparr>em_mode := (if dataByteOrZero f 5 = 0x03 then ModeVelocity
                           else if dataByteOrZero f 5 = 0x05 then ModeCSP else ModePosition),
                 em_modeReceived := True\<rparr>
      else if subCommand = 0x10 then state\<lparr>em_enabled := (dataByteOrZero f 5 \<noteq> 0), em_enabledReceived := True\<rparr>
      else if subCommand = 0x15 then state\<lparr>em_fault := (readUInt32BE f 2 \<noteq> 0), em_faultReceived := True\<rparr>
      else state)"

text \<open>A refused write is followed by a read of the register it concerns.\<close>

definition resync :: "time_ns \<Rightarrow> u8 \<Rightarrow> u8 \<Rightarrow> ey_can \<Rightarrow> ey_can" where
  "resync now motorId subCommand s =
     (if subCommand = 0x09 then snd (requestVelocity now motorId s)
      else if subCommand = 0x0A then snd (requestPosition now motorId s)
      else if subCommand = 0x0F then snd (requestMode now motorId s)
      else if subCommand = 0x10 then snd (requestEnable now motorId s)
      else if subCommand = 0x15 then snd (requestFault now motorId s)
      else s)"

definition ey_handleResponse :: "time_ns \<Rightarrow> frame \<Rightarrow> ey_can \<Rightarrow> ey_can" where
  "ey_handleResponse now f s =
     (if ec_shuttingDown s then s
      else if fr_isExtended f \<or> fr_dlc f < 2 then s
      else let canId = (ucast (fr_id f AND 0x7FF) :: u16)
           in if 0x100 \<le> canId then s
              else let motorId = (ucast (canId AND 0xFF) :: u8)
                   in if canId \<noteq> kEyouIdFrameBase + ucast motorId \<or> \<not> ey_isManagedMotorId s motorId then s
                      else let responseType = fr_data f ! 0;
                               subCommand = fr_data f ! 1;
                               s0 = ey_modify motorId id s
                           in if responseType = kWriteAck
                              then let writeState = dataByteOrZero f 2;
                                       s1 = markWriteAckReceived motorId subCommand writeState s0
                                   in if writeState \<noteq> 0x01 \<and> writeState \<noteq> 0x05
                                      then resync now motorId subCommand s1 else s1
                              else if responseType = kReadResponse
                              then let s1 = ey_modify motorId (ey_absorb f subCommand)
                                              (ey_markReadResponseReceived now motorId subCommand s0)
                                   in ey_syncSharedFeedback now motorId (ey_motor s1 motorId) s1
                              else s0)"

section \<open>Blocking operations\<close>

text \<open>The lists of actions are those of the other threads while the operation waits.\<close>

definition ack_slot :: "ey_can \<Rightarrow> u8 \<Rightarrow> u8 \<Rightarrow> ey_write_ack" where
  "ack_slot s motorId subCommand = map_at default_ey_ack (ec_pendingWriteAcks s) (pendingReadKey motorId subCommand)"

definition wait_ack :: "u8 \<Rightarrow> u8 \<Rightarrow> (ey_can \<Rightarrow> ey_can) list \<Rightarrow> ey_can \<Rightarrow> bool \<times> ey_can" where
  "wait_ack motorId subCommand others s = wait_for (\<lambda>s. ea_received (ack_slot s motorId subCommand)) others s"

definition expect_ack :: "u8 \<Rightarrow> u8 \<Rightarrow> ey_can \<Rightarrow> ey_can" where
  "expect_ack motorId subCommand s =
     s\<lparr>ec_pendingWriteAcks := (ec_pendingWriteAcks s)(pendingReadKey motorId subCommand \<mapsto> default_ey_ack)\<rparr>"

text \<open>The end of both acknowledged writes: the result, and the state byte handed out.\<close>

definition ack_result :: "u8 \<Rightarrow> u8 \<Rightarrow> (ey_can \<Rightarrow> ey_can) list \<Rightarrow> ey_can \<Rightarrow> (bool \<times> u8) \<times> ey_can" where
  "ack_result motorId subCommand others s =
     (case wait_ack motorId subCommand others s of
        (received, s1) \<Rightarrow>
          if \<not> received then ((False, 0), s1)
          else let state = ea_state (ack_slot s1 motorId subCommand)
               in ((state = 0x01 \<or> state = 0x05, state), s1))"

definition writeCommandAndWaitForAck ::
    "(ey_can \<Rightarrow> ey_can) list \<Rightarrow> u8 \<Rightarrow> u8 \<Rightarrow> u32 \<Rightarrow> nat \<Rightarrow> ey_can \<Rightarrow> (bool \<times> u8) \<times> ey_can" where
  "writeCommandAndWaitForAck others motorId subCommand value payloadBytes s =
     (if \<not> io_canController s \<or> \<not> io_txDispatcher s then ((False, 0), s)
      else ack_result motorId subCommand others
             (sendWriteCommand motorId subCommand value payloadBytes kWriteCommand (expect_ack motorId subCommand s)))"

definition writeCommandBytesAndWaitForAck ::
    "(ey_can \<Rightarrow> ey_can) list \<Rightarrow> u8 \<Rightarrow> u8 \<Rightarrow> u8 list \<Rightarrow> nat \<Rightarrow> ey_can \<Rightarrow> (bool \<times> u8) \<times> ey_can" where
  "writeCommandBytesAndWaitForAck others motorId subCommand payload payloadBytes s =
     (if \<not> io_canController s \<or> \<not> io_txDispatcher s then ((False, 0), s)
      else case submitTx (write_bytes_frame motorId subCommand payload payloadBytes) Control
                  ''EyouCan::persistParameters'' (expect_ack motorId subCommand s) of
             (submitted, s1) \<Rightarrow>
               if \<not> submitted then ((False, 0), s1)
               else ack_result motorId subCommand others
                      (s1\<lparr>ec_normalWriteSentCount := ec_normalWriteSentCount s1 + 1\<rparr>))"

definition setPositionOffset :: "(ey_can \<Rightarrow> ey_can) list \<Rightarrow> motor_id \<Rightarrow> i32 \<Rightarrow> ey_can \<Rightarrow> bool \<times> ey_can" where
  "setPositionOffset others mid offsetRaw s =
     (if \<not> io_canController s then (False, s)
      else case writeCommandAndWaitForAck others (toProtocolNodeId mid) 0x3B offsetRaw 4
                  (ey_registerManagedMotorId mid s) of
             ((ok, _), s1) \<Rightarrow> (ok, s1))"

text \<open>The value read, \<open>None\<close> for failure; the output pointers are not null.\<close>

definition readPositionOffset :: "(ey_can \<Rightarrow> ey_can) list \<Rightarrow> time_ns \<Rightarrow> motor_id \<Rightarrow> ey_can \<Rightarrow> i32 option \<times> ey_can" where
  "readPositionOffset others now mid s =
     (if \<not> io_canController s then (None, s)
      else let motorId = toProtocolNodeId mid;
               s1 = ey_modify motorId (em_positionOffsetReceived_update (\<lambda>_. False)) (ey_registerManagedMotorId mid s)
           in case requestPositionOffset now motorId s1 of
                (issued, s2) \<Rightarrow>
                  if \<not> issued then (None, s2)
                  else poll_until (\<lambda>s. case ec_motorStates s motorId of
                         Some st \<Rightarrow> if em_positionOffsetReceived st then Some (em_positionOffset st) else None
                       | None \<Rightarrow> None) others s2)"

definition readSerialNumber :: "(ey_can \<Rightarrow> ey_can) list \<Rightarrow> time_ns \<Rightarrow> motor_id \<Rightarrow> ey_can \<Rightarrow> u32 option \<times> ey_can" where
  "readSerialNumber others now mid s =
     (if \<not> io_canController s then (None, s)
      else let motorId = toProtocolNodeId mid;
               s1 = ey_modify motorId (em_serialNumberReceived_update (\<lambda>_. False)) (ey_registerManagedMotorId mid s)
           in case requestSerialNumber now motorId s1 of
                (issued, s2) \<Rightarrow>
                  if \<not> issued then (None, s2)
                  else poll_until (\<lambda>s. case ec_motorStates s motorId of
                         Some st \<Rightarrow> if em_serialNumberReceived st then Some (em_serialNumber st) else None
                       | None \<Rightarrow> None) others s2)"

definition save_payload :: "u32 \<Rightarrow> u8 list" where
  "save_payload serialNumber = [byte_at 16 serialNumber, byte_at 8 serialNumber, byte_at 0 serialNumber, 0x01]"

text \<open>
  The attempts; with \<open>k\<close> attempts left after this one, \<open>writing k\<close> is what happens during its
  wait and \<open>resting k\<close> during the sleep after it.
\<close>

fun persist_attempts ::
    "nat \<Rightarrow> (nat \<Rightarrow> (ey_can \<Rightarrow> ey_can) list) \<Rightarrow> (nat \<Rightarrow> ey_can \<Rightarrow> ey_can) \<Rightarrow> u8 \<Rightarrow> u8 list \<Rightarrow> ey_can \<Rightarrow> bool \<times> ey_can" where
  "persist_attempts 0 writing resting motorId payload s = (False, s)"
| "persist_attempts (Suc k) writing resting motorId payload s =
     (case writeCommandBytesAndWaitForAck (writing k) motorId kPersistParametersSubCommand payload 4 s of
        ((ok, _), s1) \<Rightarrow>
          if ok then (True, s1)
          else persist_attempts k writing resting motorId payload (if 0 < k then resting k s1 else s1))"

definition persistParameters ::
    "(ey_can \<Rightarrow> ey_can) list \<Rightarrow> (nat \<Rightarrow> (ey_can \<Rightarrow> ey_can) list) \<Rightarrow> (nat \<Rightarrow> ey_can \<Rightarrow> ey_can) \<Rightarrow> time_ns \<Rightarrow> motor_id \<Rightarrow>
      ey_can \<Rightarrow> bool \<times> ey_can" where
  "persistParameters reading writing resting now mid s =
     (if \<not> io_canController s then (False, s)
      else case readSerialNumber reading now mid s of
             (None, s1) \<Rightarrow> (False, s1)
           | (Some serialNumber, s1) \<Rightarrow>
               persist_attempts kPersistWriteAckRetries writing resting (toProtocolNodeId mid)
                 (save_payload serialNumber) (ey_registerManagedMotorId mid s1))"

section \<open>Frame facts\<close>

lemma node_id_inj [simp]: "(ucast (kEyouIdFrameBase + ucast (m :: u8) :: u16) :: u32) = ucast (kEyouIdFrameBase + ucast (n :: u8) :: u16) \<longleftrightarrow> m = n"
proof
  assume "(ucast (kEyouIdFrameBase + ucast m :: u16) :: u32) = ucast (kEyouIdFrameBase + ucast n :: u16)"
  then have "unat (ucast (ucast m :: u16) :: u32) = unat (ucast (ucast n :: u16) :: u32)"
    by (simp add: kEyouIdFrameBase_def)
  then show "m = n"
    using unat_u8 [of m] unat_u8 [of n] by (simp add: unat_ucast_mod word_unat_eq_iff)
qed simp

lemma join_BE: "push_bit 24 (ucast (a :: u8)) OR push_bit 16 (ucast (b :: u8)) OR push_bit 8 (ucast (c :: u8)) OR ucast (d :: u8) = join32 d c b a"
  by (simp add: join32_def ac_simps)

lemma write_frame_4:
  "write_frame n sub v 4 ty = \<lparr>fr_id = ucast (kEyouIdFrameBase + ucast n :: u16), fr_isExtended = False,
     fr_isRemoteRequest = False, fr_dlc = 8,
     fr_data = [ty, sub, byte_at 24 v, byte_at 16 v, byte_at 8 v, byte_at 0 v, 0, 0]\<rparr>"
  by (simp add: write_frame_def Let_def upt_rec numeral_2_eq_2)

lemma read_write_frame [simp]: "readUInt32BE (write_frame n sub v 4 ty) 2 = v"
  by (simp add: write_frame_4 readUInt32BE_def join_BE byte_simps)

lemma write_frame_sel [simp]:
  "fr_id (write_frame n sub v 4 ty) = ucast (kEyouIdFrameBase + ucast n :: u16)"
  "fr_data (write_frame n sub v 4 ty) ! 0 = ty" "fr_data (write_frame n sub v 4 ty) ! Suc 0 = sub"
  by (simp_all add: write_frame_4)

lemma ey_on_shared [simp]:
  "ec_motorStates (on_shared f s) = ec_motorStates s" "ec_refreshMotorIds (on_shared f s) = ec_refreshMotorIds s"
  "ec_managedMotorIds (on_shared f s) = ec_managedMotorIds s"
  "ec_systemMotorIdsByNodeId (on_shared f s) = ec_systemMotorIdsByNodeId s"
  "ec_positionVelocityRawByMotorId (on_shared f s) = ec_positionVelocityRawByMotorId s"
  "ec_cspVelocityRawByMotorId (on_shared f s) = ec_cspVelocityRawByMotorId s"
  "ec_refreshRateHz (on_shared f s) = ec_refreshRateHz s" "ec_fastWriteEnabled (on_shared f s) = ec_fastWriteEnabled s"
  "ec_defaultPositionVelocityRaw (on_shared f s) = ec_defaultPositionVelocityRaw s"
  "ec_defaultCspVelocityRaw (on_shared f s) = ec_defaultCspVelocityRaw s"
  "ec_shuttingDown (on_shared f s) = ec_shuttingDown s"
  "ec_pendingReadRequests (on_shared f s) = ec_pendingReadRequests s"
  "ec_pendingWriteAcks (on_shared f s) = ec_pendingWriteAcks s"
  by (simp_all add: on_shared_def split: option.splits)

text \<open>A write changes the outbox and the write counters only.\<close>

lemma sendWrite_frame [simp]:
  "io_canController (sendWriteCommand n sub v k ty s) = io_canController s"
  "io_txDispatcher (sendWriteCommand n sub v k ty s) = io_txDispatcher s"
  "io_sharedState (sendWriteCommand n sub v k ty s) = io_sharedState s"
  "io_deviceName (sendWriteCommand n sub v k ty s) = io_deviceName s"
  "ec_motorStates (sendWriteCommand n sub v k ty s) = ec_motorStates s"
  "ec_refreshMotorIds (sendWriteCommand n sub v k ty s) = ec_refreshMotorIds s"
  "ec_managedMotorIds (sendWriteCommand n sub v k ty s) = ec_managedMotorIds s"
  "ec_systemMotorIdsByNodeId (sendWriteCommand n sub v k ty s) = ec_systemMotorIdsByNodeId s"
  "ec_positionVelocityRawByMotorId (sendWriteCommand n sub v k ty s) = ec_positionVelocityRawByMotorId s"
  "ec_cspVelocityRawByMotorId (sendWriteCommand n sub v k ty s) = ec_cspVelocityRawByMotorId s"
  "ec_fastWriteEnabled (sendWriteCommand n sub v k ty s) = ec_fastWriteEnabled s"
  "ec_defaultPositionVelocityRaw (sendWriteCommand n sub v k ty s) = ec_defaultPositionVelocityRaw s"
  "ec_defaultCspVelocityRaw (sendWriteCommand n sub v k ty s) = ec_defaultCspVelocityRaw s"
  "ec_shuttingDown (sendWriteCommand n sub v k ty s) = ec_shuttingDown s"
  "ec_pendingReadRequests (sendWriteCommand n sub v k ty s) = ec_pendingReadRequests s"
  "ec_pendingWriteAcks (sendWriteCommand n sub v k ty s) = ec_pendingWriteAcks s"
  by (simp_all add: sendWriteCommand_def submitTx_def Let_def)

definition write_request :: "u8 \<Rightarrow> u8 \<Rightarrow> u32 \<Rightarrow> u8 \<Rightarrow> request" where
  "write_request n sub v ty = \<lparr>rq_frame = write_frame n sub v 4 ty,
     rq_category = (if sub = 0x15 then Recover else Control),
     rq_source = ''EyouCan::sendWriteCommand'', rq_completion = None\<rparr>"

lemma sendWrite_outbox [simp]:
  "io_outbox (sendWriteCommand n sub v 4 ty s) =
     io_outbox s @ (if io_canController s \<and> io_txDispatcher s then [write_request n sub v ty] else [])"
  by (simp add: sendWriteCommand_def submitTx_def write_request_def Let_def)

text \<open>A read changes the outbox and the read slots only.\<close>

lemma set_slot_frame [simp]:
  "io_canController (ey_set_slot n c r s) = io_canController s" "io_txDispatcher (ey_set_slot n c r s) = io_txDispatcher s"
  "io_sharedState (ey_set_slot n c r s) = io_sharedState s" "io_deviceName (ey_set_slot n c r s) = io_deviceName s"
  "io_outbox (ey_set_slot n c r s) = io_outbox s" "ec_motorStates (ey_set_slot n c r s) = ec_motorStates s"
  "ec_refreshMotorIds (ey_set_slot n c r s) = ec_refreshMotorIds s"
  "ec_managedMotorIds (ey_set_slot n c r s) = ec_managedMotorIds s"
  "ec_systemMotorIdsByNodeId (ey_set_slot n c r s) = ec_systemMotorIdsByNodeId s"
  "ec_positionVelocityRawByMotorId (ey_set_slot n c r s) = ec_positionVelocityRawByMotorId s"
  "ec_cspVelocityRawByMotorId (ey_set_slot n c r s) = ec_cspVelocityRawByMotorId s"
  "ec_defaultPositionVelocityRaw (ey_set_slot n c r s) = ec_defaultPositionVelocityRaw s"
  "ec_defaultCspVelocityRaw (ey_set_slot n c r s) = ec_defaultCspVelocityRaw s"
  "ec_shuttingDown (ey_set_slot n c r s) = ec_shuttingDown s"
  "ec_pendingReadRequests (ey_set_slot n c r s) = (ec_pendingReadRequests s)(pendingReadKey n c \<mapsto> r)"
  "ec_pendingWriteAcks (ey_set_slot n c r s) = ec_pendingWriteAcks s"
  by (simp_all add: ey_set_slot_def)

lemma slot_of_set [simp]: "ey_slot (ey_set_slot n c r s) m d = (if m = n \<and> d = c then r else ey_slot s m d)"
  by (simp add: ey_slot_def pendingReadKey_inj)

lemma modify_frame [simp]:
  "io_canController (ey_modify n f s) = io_canController s" "io_txDispatcher (ey_modify n f s) = io_txDispatcher s"
  "io_sharedState (ey_modify n f s) = io_sharedState s" "io_deviceName (ey_modify n f s) = io_deviceName s"
  "io_outbox (ey_modify n f s) = io_outbox s"
  "ec_motorStates (ey_modify n f s) = map_modify default_ey_motor n f (ec_motorStates s)"
  "ec_refreshMotorIds (ey_modify n f s) = ec_refreshMotorIds s" "ec_managedMotorIds (ey_modify n f s) = ec_managedMotorIds s"
  "ec_systemMotorIdsByNodeId (ey_modify n f s) = ec_systemMotorIdsByNodeId s"
  "ec_positionVelocityRawByMotorId (ey_modify n f s) = ec_positionVelocityRawByMotorId s"
  "ec_cspVelocityRawByMotorId (ey_modify n f s) = ec_cspVelocityRawByMotorId s"
  "ec_fastWriteEnabled (ey_modify n f s) = ec_fastWriteEnabled s"
  "ec_defaultPositionVelocityRaw (ey_modify n f s) = ec_defaultPositionVelocityRaw s"
  "ec_defaultCspVelocityRaw (ey_modify n f s) = ec_defaultCspVelocityRaw s"
  "ec_shuttingDown (ey_modify n f s) = ec_shuttingDown s"
  "ec_pendingReadRequests (ey_modify n f s) = ec_pendingReadRequests s"
  "ec_pendingWriteAcks (ey_modify n f s) = ec_pendingWriteAcks s"
  by (simp_all add: ey_modify_def)

lemma motor_modify [simp]: "ey_motor (ey_modify n f s) m = (if m = n then f (ey_motor s n) else ey_motor s m)"
  by (simp add: ey_motor_def)

lemma motor_cong: "ec_motorStates s = ec_motorStates t \<Longrightarrow> ey_motor s n = ey_motor t n"
  by (simp add: ey_motor_def)

lemmas ey_sync_defs = ey_syncSharedFeedback_def ey_syncSharedCommand_def ey_syncSharedModeSelection_def
  ey_syncSharedIntent_def

end
