(* ===== verification/Eyou_Can_Correctness.thy ===== *)
theory Eyou_Can_Correctness
  imports Eyou_Can
begin

text \<open>
  What the PP driver of \<open>Eyou_Can\<close> guarantees: its invariant under every sequence of commands,
  queries, responses, completions and blocking operations with interference; the velocity a
  motor is configured with when a position command reaches it; reads that are not issued twice;
  exact readings; and the acknowledged, bounded retries of saving parameters.
\<close>

section \<open>The velocity a motor is configured with\<close>

text \<open>
  What the frames handed to the dispatcher do to the target velocity register of motor \<open>n\<close>: a
  write of register \<open>0x09\<close> sets it; switching the mode (\<open>0x0F\<close>) or enabling (\<open>0x10\<close>) loses it.
\<close>

definition velocity_effect :: "u8 \<Rightarrow> frame \<Rightarrow> u32 option \<Rightarrow> u32 option" where
  "velocity_effect n f v =
     (if fr_id f = ucast (kEyouIdFrameBase + ucast n :: u16) \<and> fr_data f ! 0 \<in> {kWriteCommand, kFastWriteCommand}
      then if fr_data f ! 1 = 0x09 then Some (readUInt32BE f 2)
           else if fr_data f ! 1 = 0x0F \<or> fr_data f ! 1 = 0x10 \<and> readUInt32BE f 2 = 1 then None else v
      else v)"

definition device_velocity :: "request list \<Rightarrow> u8 \<Rightarrow> u32 option" where
  "device_velocity q n = fold (\<lambda>r. velocity_effect n (rq_frame r)) q None"

lemma device_velocity_append:
  "device_velocity (q @ q') n = fold (\<lambda>r. velocity_effect n (rq_frame r)) q' (device_velocity q n)"
  by (simp add: device_velocity_def)

lemma velocity_effect_write [simp]:
  "velocity_effect m (rq_frame (write_request n sub v ty)) x =
     (if m = n \<and> ty \<in> {kWriteCommand, kFastWriteCommand}
      then if sub = 0x09 then Some v else if sub = 0x0F \<or> sub = 0x10 \<and> v = 1 then None else x
      else x)"
  by (auto simp: velocity_effect_def write_request_def)

lemma velocity_effect_read [simp]: "velocity_effect m (read_frame n c) x = x"
  by (simp add: velocity_effect_def read_frame_def ey_bytes)

lemma velocity_effect_bytes [simp]:
  "sub \<notin> {0x09, 0x0F, 0x10} \<Longrightarrow> velocity_effect m (write_bytes_frame n sub p k) x = x"
  by (simp add: velocity_effect_def write_bytes_frame_def)

text \<open>What the driver believes about the velocity of motor \<open>n\<close> is what the frames say.\<close>

definition velocity_ok :: "ey_can \<Rightarrow> u8 \<Rightarrow> bool" where
  "velocity_ok s n \<longleftrightarrow> (io_txDispatcher s \<and> em_positionVelocityConfigured (ey_motor s n) \<longrightarrow>
     device_velocity (io_outbox s) n = Some (em_lastPositionVelocityRaw (ey_motor s n)))"

section \<open>Invariant\<close>

definition ey_slot_ok :: "ey_pending_read \<Rightarrow> bool" where
  "ey_slot_ok r \<longleftrightarrow> ep_missedRefreshWindows r \<le> 1024"

definition ey_base :: "ey_can \<Rightarrow> bool" where
  "ey_base s \<longleftrightarrow> (\<forall>n mid. ec_systemMotorIdsByNodeId s n = Some mid \<longrightarrow> toProtocolNodeId mid = n) \<and>
     dom (ec_systemMotorIdsByNodeId s) = ec_managedMotorIds s \<and> set (ec_refreshMotorIds s) \<subseteq> ec_managedMotorIds s \<and>
     (\<forall>k r. ec_pendingReadRequests s k = Some r \<longrightarrow> ey_slot_ok r) \<and>
     0 < sint (ec_defaultPositionVelocityRaw s) \<and> 0 < sint (ec_defaultCspVelocityRaw s) \<and>
     (\<forall>n v. ec_positionVelocityRawByMotorId s n = Some v \<longrightarrow> 0 < sint v) \<and>
     (\<forall>n v. ec_cspVelocityRawByMotorId s n = Some v \<longrightarrow> 0 < sint v) \<and>
     (\<forall>shared. io_sharedState s = Some shared \<longrightarrow> sds_inv shared)"

definition ey_inv :: "ey_can \<Rightarrow> bool" where
  "ey_inv s \<longleftrightarrow> ey_base s \<and> (\<forall>n. velocity_ok s n)"

named_theorems ey_intros "the primitive updates keep the invariant"

lemma ey_inv_cong:
  assumes "ey_inv s" and "ey_base t" and "ec_motorStates t = ec_motorStates s" and "io_outbox t = io_outbox s"
    and "io_txDispatcher t \<Longrightarrow> io_txDispatcher s"
  shows "ey_inv t"
  using assms motor_cong [OF assms(3)] by (simp add: ey_inv_def velocity_ok_def)

lemma ey_base_on_shared:
  assumes "ey_base s" and "\<And>sh. sds_inv sh \<Longrightarrow> sds_inv (f sh)"
  shows "ey_base (on_shared f s)"
proof -
  have "sds_inv sh" if "io_sharedState (on_shared f s) = Some sh" for sh
    using that assms by (auto simp: on_shared_def ey_base_def split: option.splits if_splits)
  with assms(1) show ?thesis by (simp add: ey_base_def)
qed

lemma ey_inv_on_shared:
  assumes "ey_inv s" and "\<And>sh. sds_inv sh \<Longrightarrow> sds_inv (f sh)"
  shows "ey_inv (on_shared f s)"
  by (rule ey_inv_cong [OF assms(1)]) (use assms in \<open>auto simp: ey_inv_def intro: ey_base_on_shared\<close>)

lemma ey_inv_sync [ey_intros]:
  assumes "ey_inv s"
  shows "ey_inv (ey_syncSharedFeedback now n st s)" "ey_inv (ey_syncSharedCommand now n p v m b s)"
    "ey_inv (ey_syncSharedModeSelection n m s)" "ey_inv (ey_syncSharedIntent n i s)"
  unfolding ey_sync_defs
  by (rule ey_inv_on_shared [OF assms];
      simp add: sds_inv_feedback sds_inv_command sds_inv_setIntent ey_feedback_def ey_command_def ey_mode_selection_def)+

lemma ey_inv_register [ey_intros]: "ey_inv s \<Longrightarrow> ey_inv (ey_registerManagedMotorId mid s)"
  unfolding ey_registerManagedMotorId_def Let_def
  by (rule ey_inv_on_shared)
    (auto simp: ey_inv_def ey_base_def velocity_ok_def ey_motor_def registerAxis_def sds_inv_touch)

lemma ey_inv_register_motor [ey_intros]: "ey_inv s \<Longrightarrow> ey_inv (ey_register_motor mid s)"
  unfolding ey_register_motor_def Let_def
  by (rule ey_inv_on_shared)
    (auto simp: ey_inv_def ey_base_def velocity_ok_def ey_motor_def registerAxis_def sds_inv_touch)

lemma ey_inv_slot: "ey_inv s \<Longrightarrow> ey_slot_ok r \<Longrightarrow> ey_inv (ey_set_slot n c r s)"
  by (rule ey_inv_cong [of s]) (auto simp: ey_inv_def ey_base_def)

lemma ey_slot_ok: "ey_inv s \<Longrightarrow> ey_slot_ok (ey_slot s n c)"
  by (cases "ec_pendingReadRequests s (pendingReadKey n c)")
    (auto simp: ey_inv_def ey_base_def ey_slot_ok_def ey_slot_def default_ey_pending_def)

lemma set_slot_twice [simp]: "ey_set_slot n c r' (ey_set_slot n c r s) = ey_set_slot n c r' s"
  by (simp add: ey_set_slot_def)

lemma warn_branches:
  fixes r :: ey_pending_read and x :: ey_can
  shows "(if c1 then x else if c2 then f r else if c3 then f r else if c4 then f r else f (r\<lparr>ep_warnedStaleBuckets := w\<rparr>)) = x \<or>
      (\<exists>b. (if c1 then x else if c2 then f r else if c3 then f r else if c4 then f r
            else f (r\<lparr>ep_warnedStaleBuckets := w\<rparr>)) = f (r\<lparr>ep_warnedStaleBuckets := b\<rparr>))"
proof -
  have "\<exists>b. f r = f (r\<lparr>ep_warnedStaleBuckets := b\<rparr>)" by (rule exI [of _ "ep_warnedStaleBuckets r"]) simp
  then show ?thesis by auto
qed

lemma warn_cases:
  obtains "maybeWarnStaleFeedback n c now s = s"
  | b where "maybeWarnStaleFeedback n c now s = ey_set_slot n c (ey_slot s n c\<lparr>ep_warnedStaleBuckets := b\<rparr>) s"
proof -
  have "maybeWarnStaleFeedback n c now s = s \<or>
      (\<exists>b. maybeWarnStaleFeedback n c now s = ey_set_slot n c (ey_slot s n c\<lparr>ep_warnedStaleBuckets := b\<rparr>) s)"
    unfolding maybeWarnStaleFeedback_def Let_def set_slot_twice
    by (rule warn_branches [of _ _ _ "\<lambda>r. ey_set_slot n c r s"])
  then show ?thesis using that by blast
qed

lemma ey_inv_warn [ey_intros]:
  assumes "ey_inv s"
  shows "ey_inv (maybeWarnStaleFeedback n c now s)"
  by (rule warn_cases [of n c now s])
    (use assms ey_slot_ok [OF assms, of n c] in \<open>simp_all add: ey_inv_slot ey_slot_ok_def\<close>)

lemma ey_inv_dispatch [ey_intros]:
  assumes "ey_inv s"
  shows "ey_inv (ey_onReadDispatchResult n c a x t s)"
proof (cases "ec_pendingReadRequests s (pendingReadKey n c)")
  case (Some r)
  then have "ey_slot_ok r" using assms by (auto simp: ey_inv_def ey_base_def)
  with Some assms show ?thesis
    by (auto simp: ey_onReadDispatchResult_def Let_def ey_slot_ok_def intro!: ey_inv_slot)
qed (simp add: ey_onReadDispatchResult_def assms)

lemma ey_inv_response [ey_intros]: "ey_inv s \<Longrightarrow> ey_inv (ey_markReadResponseReceived now n c s)"
  by (auto simp: ey_markReadResponseReceived_def ey_slot_ok_def intro!: ey_inv_slot split: option.splits)

lemma ey_inv_reset [ey_intros]: "ey_inv s \<Longrightarrow> ey_inv (ey_resetReadTracking s)"
  by (rule ey_inv_cong [of s]) (auto simp: ey_inv_def ey_base_def ey_resetReadTracking_def)

text \<open>Requests that leave every motor's velocity register alone.\<close>

lemma ey_inv_submit:
  assumes "ey_inv s" and "\<And>m x. velocity_effect m (rq_frame r) x = x"
  shows "ey_inv (s\<lparr>io_outbox := io_outbox s @ [r]\<rparr>)"
  using assms by (auto simp: ey_inv_def ey_base_def velocity_ok_def device_velocity_append ey_motor_def)

lemma ey_inv_read [ey_intros]: "ey_inv s \<Longrightarrow> ey_inv (sendReadCommand now n c s)"
  by (auto simp: sendReadCommand_def intro: ey_inv_dispatch intro!: ey_inv_submit)

lemma ey_inv_tryIssue [ey_intros]:
  assumes "ey_inv s"
  shows "ey_inv (snd (ey_tryIssueReadCommand now n c s))"
proof -
  have w: "ey_inv (maybeWarnStaleFeedback n c now s)" using assms by (rule ey_inv_warn)
  with ey_slot_ok [OF w, of n c] assms show ?thesis
    by (auto simp: ey_tryIssueReadCommand_def Let_def ey_slot_ok_def intro!: ey_inv_read ey_inv_slot)
qed

lemma ey_inv_request [ey_intros]:
  assumes "ey_inv s"
  shows "ey_inv (snd (requestPosition now n s))" "ey_inv (snd (requestPositionOffset now n s))"
    "ey_inv (snd (requestSerialNumber now n s))" "ey_inv (snd (requestMode now n s))"
    "ey_inv (snd (requestEnable now n s))" "ey_inv (snd (requestFault now n s))"
    "ey_inv (snd (requestCurrent now n s))" "ey_inv (snd (requestVelocity now n s))"
  using assms by (simp_all add: ey_requests ey_inv_tryIssue)

text \<open>An update of a motor that leaves what is believed about its velocity.\<close>

lemma ey_inv_modify [ey_intros]:
  assumes "ey_inv s"
    and "\<And>st. em_positionVelocityConfigured (f st) = em_positionVelocityConfigured st"
    and "\<And>st. em_lastPositionVelocityRaw (f st) = em_lastPositionVelocityRaw st"
  shows "ey_inv (ey_modify n f s)"
  using assms by (auto simp: ey_inv_def ey_base_def velocity_ok_def)

lemma ey_inv_unconfigure:
  assumes "ey_inv s" and "\<And>st. \<not> em_positionVelocityConfigured (f st)"
  shows "ey_inv (ey_modify n f s)"
  using assms by (auto simp: ey_inv_def ey_base_def velocity_ok_def)

text \<open>A write of a register that does not concern the velocity, or of one that loses it.\<close>

lemma ey_inv_write:
  assumes "ey_inv s" and "(if sub \<in> {0x0F, 0x10} then \<not> em_positionVelocityConfigured (ey_motor s n) else sub \<noteq> 0x09)"
  shows "ey_inv (sendWriteCommand n sub v 4 ty s)"
  using assms
  by (auto simp: ey_inv_def ey_base_def velocity_ok_def device_velocity_append
      motor_cong [of "sendWriteCommand n sub v 4 ty s" s] split: if_splits)

lemma ey_inv_write_disable [ey_intros]: "ey_inv s \<Longrightarrow> ey_inv (sendWriteCommand n 0x10 0 4 ty s)"
  by (auto simp: ey_inv_def ey_base_def velocity_ok_def device_velocity_append
      motor_cong [of "sendWriteCommand n 0x10 0 4 ty s" s])

text \<open>A write of the velocity register together with the belief that it is written.\<close>

lemma write_register_frame [simp]:
  "io_canController (write_register n sub v s) = io_canController s"
  "io_txDispatcher (write_register n sub v s) = io_txDispatcher s"
  "ec_motorStates (write_register n sub v s) = ec_motorStates s"
  "ec_fastWriteEnabled (write_register n sub v s) = ec_fastWriteEnabled s"
  by (simp_all add: write_register_def)

lemma motor_write [simp]:
  "ey_motor (sendWriteCommand n sub v k ty s) m = ey_motor s m" "ey_motor (write_register n sub v s) m = ey_motor s m"
  by (simp_all add: ey_motor_def)

lemma write_register_outbox:
  "io_canController s \<Longrightarrow> io_txDispatcher s \<Longrightarrow> io_outbox (write_register n sub v s) = io_outbox s @
     (if ec_fastWriteEnabled s then [write_request n sub v kFastWriteCommand] else []) @ [write_request n sub v kWriteCommand]"
  by (simp add: write_register_def)

lemma write_velocity_ok:
  assumes "ey_base s" and "\<And>m. m \<noteq> n \<Longrightarrow> velocity_ok s m" and "io_canController s"
    and "em_lastPositionVelocityRaw (ey_motor s n) = v"
  shows "ey_inv (write_register n 0x09 v s)"
proof -
  have "ey_base (write_register n 0x09 v s)"
    using assms(1) by (simp add: write_register_def ey_base_def)
  moreover have "velocity_ok (write_register n 0x09 v s) m" for m
  proof (cases "m = n")
    case True
    with assms show ?thesis
      by (simp add: velocity_ok_def write_register_outbox device_velocity_append ey_bytes
          motor_cong [of "write_register n 0x09 v s" s])
  next
    case False
    with assms show ?thesis
      by (auto simp: velocity_ok_def write_register_outbox device_velocity_append
          motor_cong [of "write_register n 0x09 v s" s])
  qed
  ultimately show ?thesis by (simp add: ey_inv_def)
qed

lemma ey_base_modify: "ey_base (ey_modify n f s) = ey_base s"
  by (simp add: ey_base_def)

lemma velocity_ok_on_shared [simp]: "velocity_ok (on_shared f s) n = velocity_ok s n"
  by (simp add: velocity_ok_def ey_motor_def)

lemma velocity_ok_modify_other [simp]: "m \<noteq> n \<Longrightarrow> velocity_ok (ey_modify n f s) m = velocity_ok s m"
  by (simp add: velocity_ok_def)

lemma ey_base_sync [simp]:
  assumes "ey_base s"
  shows "ey_base (ey_syncSharedCommand now n p v m b s)"
  unfolding ey_sync_defs
  by (rule ey_base_on_shared [OF assms]) (simp add: sds_inv_command ey_command_def)

text \<open>The operations that write the velocity register.\<close>

lemma ey_inv_ensure:
  assumes "ey_inv s" and "io_canController s"
  shows "ey_inv (snd (ensurePositionVelocityConfigured n v force s))"
proof (cases "sint v \<le> 0")
  case False
  let ?s1 = "ey_modify n (em_commandedVelocity_update (\<lambda>_. v)) s"
  let ?s2 = "ey_modify n (\<lambda>st. st\<lparr>em_lastPositionVelocityRaw := v, em_positionVelocityConfigured := True\<rparr>) ?s1"
  have s1: "ey_inv ?s1" using assms by (intro ey_intros) simp_all
  have "ey_inv (write_register n 0x09 v ?s2)"
    using assms s1 by (intro write_velocity_ok) (simp_all add: ey_inv_def ey_base_modify)
  with s1 False show ?thesis by (simp add: ensurePositionVelocityConfigured_def Let_def)
qed (use assms in \<open>simp add: ensurePositionVelocityConfigured_def\<close>)

lemma ensure_frame [simp]:
  "io_canController (snd (ensurePositionVelocityConfigured n v force s)) = io_canController s"
  "io_txDispatcher (snd (ensurePositionVelocityConfigured n v force s)) = io_txDispatcher s"
  "fst (ensurePositionVelocityConfigured n v force s) \<longleftrightarrow> 0 < sint v"
  by (auto simp: ensurePositionVelocityConfigured_def Let_def)

lemma ey_inv_write_register [ey_intros]: "ey_inv s \<Longrightarrow> sub \<notin> {0x09, 0x0F, 0x10} \<Longrightarrow> ey_inv (write_register n sub v s)"
  by (auto simp: write_register_def intro!: ey_inv_write)

lemma register_controller [simp]:
  "io_canController (ey_registerManagedMotorId mid s) = io_canController s"
  "io_txDispatcher (ey_registerManagedMotorId mid s) = io_txDispatcher s"
  "io_outbox (ey_registerManagedMotorId mid s) = io_outbox s"
  "ec_motorStates (ey_registerManagedMotorId mid s) = ec_motorStates s"
  by (simp_all add: ey_registerManagedMotorId_def Let_def)

lemma sync_controller [simp]:
  "io_canController (ey_syncSharedCommand now n p v m b s) = io_canController s"
  "io_txDispatcher (ey_syncSharedCommand now n p v m b s) = io_txDispatcher s"
  "io_outbox (ey_syncSharedCommand now n p v m b s) = io_outbox s"
  "ec_motorStates (ey_syncSharedCommand now n p v m b s) = ec_motorStates s"
  "ec_motorStates (ey_syncSharedModeSelection n m s) = ec_motorStates s"
  "ec_motorStates (ey_syncSharedIntent n i s) = ec_motorStates s"
  by (simp_all add: ey_sync_defs)

lemma ey_inv_setVelocity:
  assumes "ey_inv s"
  shows "ey_inv (snd (ey_setVelocity now mid v s))"
proof (cases "io_canController s")
  case True
  have "ey_inv (ey_registerManagedMotorId mid s)" using assms by (rule ey_inv_register)
  then show ?thesis
    using True unfolding ey_setVelocity_def Let_def
    by (auto simp: ey_inv_def ey_base_modify ey_syncSharedCommand_def ey_motor_def sds_inv_command ey_command_def
        intro!: write_velocity_ok [unfolded ey_inv_def, THEN conjunct1] ey_base_on_shared
          write_velocity_ok [unfolded ey_inv_def, THEN conjunct2, rule_format])
qed (use assms in \<open>simp add: ey_setVelocity_def\<close>)

lemma ey_inv_position:
  assumes "ey_inv s"
  shows "ey_inv (snd (ey_setPosition now mid p s))" "ey_inv (snd (ey_quickSetPosition now mid p s))"
proof -
  let ?n = "toProtocolNodeId mid"
  define s2 where "s2 mode = ey_syncSharedCommand now ?n (sint p) 0 mode True
      (ey_modify ?n (em_commandedPosition_update (\<lambda>_. p)) (ey_registerManagedMotorId mid s))" for mode
  have s2: "ey_inv (s2 mode)" for mode
    unfolding s2_def using assms by (intro ey_intros) simp_all
  have c: "io_canController (s2 mode) = io_canController s" for mode by (simp add: s2_def)
  have e: "ey_inv (snd (ensurePositionVelocityConfigured ?n v force (s2 mode)))" if "io_canController s" for v force mode
    using s2 c that by (intro ey_inv_ensure) simp_all
  show "ey_inv (snd (ey_setPosition now mid p s))"
    using assms e unfolding ey_setPosition_def Let_def s2_def [symmetric]
    by (auto simp: case_prod_beta intro!: ey_inv_write_register)
  show "ey_inv (snd (ey_quickSetPosition now mid p s))"
    using assms e unfolding ey_quickSetPosition_def Let_def s2_def [symmetric]
    by (auto simp: case_prod_beta intro!: ey_inv_write)
qed

text \<open>The operations that lose the velocity, and the others.\<close>

lemma ey_inv_setMode: "ey_inv s \<Longrightarrow> ey_inv (snd (ey_setMode mid mode s))"
  by (auto simp: ey_setMode_def Let_def ey_motor_def intro!: ey_inv_write ey_inv_sync ey_inv_unconfigure ey_inv_register)

lemma ey_inv_Enable: "ey_inv s \<Longrightarrow> ey_inv (snd (ey_Enable now mid s))"
  by (auto simp: ey_Enable_def Let_def ey_motor_def
      intro!: ey_inv_request ey_inv_write ey_inv_sync ey_inv_unconfigure ey_inv_register)

lemma ey_inv_Disable: "ey_inv s \<Longrightarrow> ey_inv (snd (ey_Disable now mid s))"
  unfolding ey_Disable_def Let_def by (auto intro!: ey_intros)

lemma ey_inv_simple [ey_intros]:
  assumes "ey_inv s"
  shows "ey_inv (snd (ey_Stop mid s))" "ey_inv (snd (ey_ResetFault now mid s))"
    "ey_inv (snd (ey_setAcceleration mid a s))" "ey_inv (snd (ey_setDeceleration mid a s))"
    "ey_inv (snd (configurePositionLimits mid lo hi en s))" "ey_inv (snd (ey_issueRefreshQuery now mid q s))"
  using assms
  by (cases q; auto simp: ey_Stop_def ey_ResetFault_def ey_setAcceleration_def ey_setDeceleration_def
      configurePositionLimits_def Let_def intro!: ey_intros ey_inv_write)+

lemma ey_inv_init: "ey_inv s \<Longrightarrow> ey_inv (ey_initializeMotorRefresh ids s)"
proof -
  assume inv: "ey_inv s"
  have "ey_inv (fold ey_register_motor ids s0)" if "ey_inv s0" for s0
    using that by (induction ids arbitrary: s0) (auto intro: ey_inv_register_motor)
  moreover have "ey_inv (s\<lparr>ec_refreshMotorIds := [], ec_managedMotorIds := {}, ec_systemMotorIdsByNodeId := Map.empty\<rparr>)"
    by (rule ey_inv_cong [OF inv]) (use inv in \<open>auto simp: ey_inv_def ey_base_def\<close>)
  ultimately show ?thesis
    by (auto simp: ey_initializeMotorRefresh_def Let_def ey_stopRefreshLoop_def intro: ey_inv_reset)
qed

lemma ey_inv_settings:
  assumes inv: "ey_inv s"
  shows "ey_inv (ey_setRefreshRateHz hz s)" "ey_inv (setFastWriteEnabled b s)"
    "ey_inv (setDefaultPositionVelocityRaw v s)" "ey_inv (setDefaultCspVelocityRaw v s)"
    "ey_inv (destroy_EyouCan s)" "ey_inv (expect_ack n c s)"
    "ey_inv (markWriteAckReceived n c w s)" "ey_inv (s\<lparr>ec_normalWriteSentCount := k\<rparr>)"
  by (rule ey_inv_cong [OF inv];
      use inv in \<open>simp add: ey_inv_def ey_base_def ey_setRefreshRateHz_def setFastWriteEnabled_def
        setDefaultPositionVelocityRaw_def setDefaultCspVelocityRaw_def destroy_EyouCan_def ey_stopRefreshLoop_def
        ey_resetReadTracking_def expect_ack_def markWriteAckReceived_def split: if_splits\<close>)+

lemma ey_inv_motor_settings:
  assumes inv: "ey_inv s"
  shows "ey_inv (setMotorDefaultPositionVelocityRaw mid v s)" "ey_inv (setMotorDefaultCspVelocityRaw mid v s)"
proof -
  have reg: "ey_inv (ey_registerManagedMotorId mid s)" using inv by (rule ey_inv_register)
  have p: "ey_inv (ey_registerManagedMotorId mid s\<lparr>ec_positionVelocityRawByMotorId := m\<rparr>)"
    if "\<And>n v. m n = Some v \<Longrightarrow> 0 < sint v" for m
    by (rule ey_inv_cong [OF reg]) (use reg that in \<open>auto simp: ey_inv_def ey_base_def\<close>)
  have c: "ey_inv (ey_registerManagedMotorId mid s\<lparr>ec_cspVelocityRawByMotorId := m\<rparr>)"
    if "\<And>n v. m n = Some v \<Longrightarrow> 0 < sint v" for m
    by (rule ey_inv_cong [OF reg]) (use reg that in \<open>auto simp: ey_inv_def ey_base_def\<close>)
  have pos: "0 < sint w" if "ec_positionVelocityRawByMotorId (ey_registerManagedMotorId mid s) n = Some w \<or>
      ec_cspVelocityRawByMotorId (ey_registerManagedMotorId mid s) n = Some w" for n w
    using reg that by (auto simp: ey_inv_def ey_base_def)
  show "ey_inv (setMotorDefaultPositionVelocityRaw mid v s)" "ey_inv (setMotorDefaultCspVelocityRaw mid v s)"
    using inv by (auto simp: setMotorDefaultPositionVelocityRaw_def setMotorDefaultCspVelocityRaw_def Let_def
        intro!: p c intro: pos split: if_splits)
qed


lemma absorb_velocity [simp]:
  "em_positionVelocityConfigured (ey_absorb f c st) = em_positionVelocityConfigured st"
  "em_lastPositionVelocityRaw (ey_absorb f c st) = em_lastPositionVelocityRaw st"
  by (simp_all add: ey_absorb_def)

lemma ey_inv_resync: "ey_inv s \<Longrightarrow> ey_inv (resync now n c s)"
  by (simp add: resync_def ey_inv_request)

lemma ey_inv_handle:
  assumes "ey_inv s"
  shows "ey_inv (ey_handleResponse now f s)"
proof -
  have m: "ey_inv (ey_modify n id s)" for n using assms by (intro ey_inv_modify) simp_all
  have "ey_inv (markWriteAckReceived n c w (ey_modify n id s))"
    "ey_inv (ey_modify n (ey_absorb f c) (ey_markReadResponseReceived now n c (ey_modify n id s)))" for n c w
    using assms by (auto intro!: ey_inv_settings ey_inv_modify ey_inv_response)
  with assms m show ?thesis
    by (simp add: ey_handleResponse_def Let_def ey_inv_resync ey_inv_sync)
qed

text \<open>Waiting keeps the invariant when the other threads do.\<close>

lemma ey_inv_wait:
  assumes "ey_inv s" and "\<And>e s. e \<in> set others \<Longrightarrow> ey_inv s \<Longrightarrow> ey_inv (e s)"
  shows "ey_inv (snd (wait_ack n c others s))" "ey_inv (snd (poll_until ready others s))"
  unfolding wait_ack_def by (rule wait_for_keeps poll_until_keeps; use assms in simp)+

lemma ey_inv_acknowledged:
  assumes "ey_inv s" and "\<And>e s. e \<in> set others \<Longrightarrow> ey_inv s \<Longrightarrow> ey_inv (e s)" and "c \<notin> {0x09, 0x0F, 0x10}"
  shows "ey_inv (snd (writeCommandAndWaitForAck others n c v 4 s))"
    "ey_inv (snd (writeCommandBytesAndWaitForAck others n c p k s))"
proof -
  have result: "ey_inv (snd (ack_result n c others t))" if "ey_inv t" for t
    using ey_inv_wait(1) [of t others n c] that assms(2) by (auto simp: ack_result_def case_prod_beta Let_def)
  have expect: "ey_inv (expect_ack n c s)" using assms(1) by (rule ey_inv_settings)
  show "ey_inv (snd (writeCommandAndWaitForAck others n c v 4 s))"
    using assms result expect by (auto simp: writeCommandAndWaitForAck_def intro!: result ey_inv_write)
  show "ey_inv (snd (writeCommandBytesAndWaitForAck others n c p k s))"
    using assms result expect
    by (auto simp: writeCommandBytesAndWaitForAck_def submitTx_def intro!: result ey_inv_settings ey_inv_submit)
qed

lemma ey_inv_reading:
  assumes "ey_inv s" and "\<And>e s. e \<in> set others \<Longrightarrow> ey_inv s \<Longrightarrow> ey_inv (e s)"
  shows "ey_inv (snd (readPositionOffset others now mid s))" "ey_inv (snd (readSerialNumber others now mid s))"
  using assms
  by (auto simp: readPositionOffset_def readSerialNumber_def Let_def case_prod_beta intro!: ey_inv_wait(2) ey_intros)

lemma ey_inv_attempts:
  assumes "ey_inv s" and "\<And>k e s. e \<in> set (writing k) \<Longrightarrow> ey_inv s \<Longrightarrow> ey_inv (e s)"
    and "\<And>k s. ey_inv s \<Longrightarrow> ey_inv (resting k s)"
  shows "ey_inv (snd (persist_attempts k writing resting n p s))"
  using assms(1)
proof (induction k arbitrary: s)
  case (Suc k)
  let ?w = "writeCommandBytesAndWaitForAck (writing k) n kPersistParametersSubCommand p 4 s"
  have "ey_inv (snd ?w)" using Suc.prems assms(2) by (intro ey_inv_acknowledged) (auto simp: ey_bytes)
  then show ?case using Suc.IH assms(3) by (auto simp: case_prod_beta)
qed simp

lemma ey_inv_persist:
  assumes "ey_inv s" and "\<And>e s. e \<in> set reading \<Longrightarrow> ey_inv s \<Longrightarrow> ey_inv (e s)"
    and "\<And>k e s. e \<in> set (writing k) \<Longrightarrow> ey_inv s \<Longrightarrow> ey_inv (e s)"
    and "\<And>k s. ey_inv s \<Longrightarrow> ey_inv (resting k s)"
  shows "ey_inv (snd (persistParameters reading writing resting now mid s))"
proof -
  have "ey_inv (snd (readSerialNumber reading now mid s))" using assms(1,2) by (rule ey_inv_reading)
  then show ?thesis
    using assms by (auto simp: persistParameters_def split: prod.split option.split intro!: ey_inv_attempts ey_inv_register)
qed

section \<open>Everything that can happen to a PP protocol object\<close>

inductive ey_action :: "(ey_can \<Rightarrow> ey_can) \<Rightarrow> bool" where
  act_seq: "ey_action f \<Longrightarrow> ey_action g \<Longrightarrow> ey_action (\<lambda>s. g (f s))"
| "ey_action (ey_initializeMotorRefresh ids)"
| "ey_action (ey_setRefreshRateHz hz)"
| "ey_action (setFastWriteEnabled b)"
| "ey_action (setDefaultPositionVelocityRaw v)"
| "ey_action (setDefaultCspVelocityRaw v)"
| "ey_action (setMotorDefaultPositionVelocityRaw mid v)"
| "ey_action (setMotorDefaultCspVelocityRaw mid v)"
| "ey_action (\<lambda>s. snd (ey_issueRefreshQuery now mid q s))"
| "ey_action (\<lambda>s. snd (ey_setMode mid mode s))"
| "ey_action (\<lambda>s. snd (ey_setVelocity now mid v s))"
| "ey_action (\<lambda>s. snd (ey_setAcceleration mid v s))"
| "ey_action (\<lambda>s. snd (ey_setDeceleration mid v s))"
| "ey_action (\<lambda>s. snd (ey_setPosition now mid p s))"
| "ey_action (\<lambda>s. snd (ey_quickSetPosition now mid p s))"
| "ey_action (\<lambda>s. snd (ey_Enable now mid s))"
| "ey_action (\<lambda>s. snd (ey_Disable now mid s))"
| "ey_action (\<lambda>s. snd (ey_Stop mid s))"
| "ey_action (\<lambda>s. snd (ey_ResetFault now mid s))"
| "ey_action (\<lambda>s. snd (configurePositionLimits mid lo hi b s))"
| act_get: "ey_action (ey_registerManagedMotorId mid)"
| "ey_action (ey_handleResponse now f)"
| "ey_action (ey_onReadDispatchResult n c attempted res t)"
| "ey_action destroy_EyouCan"
| act_others: "(\<And>sh. sds_step sh (g sh)) \<Longrightarrow> ey_action (\<lambda>s. s\<lparr>io_sharedState := map_option g (io_sharedState s)\<rparr>)"
| act_offset: "(\<And>e. e \<in> set others \<Longrightarrow> ey_action e) \<Longrightarrow> ey_action (\<lambda>s. snd (setPositionOffset others mid v s))"
| act_read: "(\<And>e. e \<in> set others \<Longrightarrow> ey_action e) \<Longrightarrow> ey_action (\<lambda>s. snd (readPositionOffset others now mid s))"
| act_serial: "(\<And>e. e \<in> set others \<Longrightarrow> ey_action e) \<Longrightarrow> ey_action (\<lambda>s. snd (readSerialNumber others now mid s))"
| act_persist: "(\<And>e. e \<in> set reading \<Longrightarrow> ey_action e) \<Longrightarrow> (\<And>k e. e \<in> set (writing k) \<Longrightarrow> ey_action e) \<Longrightarrow>
     (\<And>k. ey_action (resting k)) \<Longrightarrow> ey_action (\<lambda>s. snd (persistParameters reading writing resting now mid s))"

inductive ey_reachable :: "ey_can \<Rightarrow> bool" where
  eyr_new: "(\<And>sh. sharedState = Some sh \<Longrightarrow> sds_reachable sh) \<Longrightarrow> ey_reachable (new_EyouCan controller dispatcher sharedState dev)"
| eyr_action: "ey_reachable s \<Longrightarrow> ey_action f \<Longrightarrow> ey_reachable (f s)"

lemma ey_action_inv: "ey_action f \<Longrightarrow> ey_inv s \<Longrightarrow> ey_inv (f s)"
proof (induction arbitrary: s rule: ey_action.induct)
  case (act_others g)
  then have "sds_inv (g sh)" if "sds_inv sh" for sh using that sds_step_inv by blast
  then show ?case using act_others by (auto simp: ey_inv_def ey_base_def velocity_ok_def ey_motor_def)
next
  case (act_offset others mid v)
  then have "ey_inv (snd (writeCommandAndWaitForAck others (toProtocolNodeId mid) 0x3B v 4 (ey_registerManagedMotorId mid s)))"
    by (intro ey_inv_acknowledged ey_inv_register) auto
  with act_offset show ?case by (simp add: setPositionOffset_def case_prod_beta)
qed (auto intro: ey_intros ey_inv_init ey_inv_settings ey_inv_motor_settings ey_inv_setMode ey_inv_setVelocity
    ey_inv_position ey_inv_Enable ey_inv_Disable ey_inv_handle ey_inv_reading ey_inv_persist)

lemma ey_new_inv:
  "(\<And>sh. sharedState = Some sh \<Longrightarrow> sds_reachable sh) \<Longrightarrow> ey_inv (new_EyouCan controller dispatcher sharedState dev)"
  by (auto simp: new_EyouCan_def ey_inv_def ey_base_def velocity_ok_def ey_motor_def default_ey_motor_def
      kDefaultPositionVelocityRaw_def intro: sds_reachable_inv)

lemma ey_reachable_inv: "ey_reachable s \<Longrightarrow> ey_inv s"
  by (induction rule: ey_reachable.induct) (simp_all add: ey_new_inv ey_action_inv)

section \<open>Reads are not issued twice\<close>

definition ey_queued :: "ey_can \<Rightarrow> completion set" where
  "ey_queued s = {(n, c). ep_queued (ey_slot s n c)}"

lemma queued_set_slot:
  "ey_queued (ey_set_slot n c r s) = (if ep_queued r then insert (n, c) (ey_queued s) else ey_queued s - {(n, c)})"
  by (auto simp: ey_queued_def)

lemma warn_keeps [simp]:
  "ey_queued (maybeWarnStaleFeedback n c now s) = ey_queued s"
  "ep_queued (ey_slot (maybeWarnStaleFeedback n c now s) n c) \<longleftrightarrow> (n, c) \<in> ey_queued s"
  "io_outbox (maybeWarnStaleFeedback n c now s) = io_outbox s"
  "io_canController (maybeWarnStaleFeedback n c now s) = io_canController s"
  "io_txDispatcher (maybeWarnStaleFeedback n c now s) = io_txDispatcher s"
  "ec_shuttingDown (maybeWarnStaleFeedback n c now s) = ec_shuttingDown s"
  by (rule warn_cases [of n c now s]; auto simp: queued_set_slot; simp add: ey_queued_def)+

lemma dispatch_refused:
  "\<not> ec_shuttingDown s \<Longrightarrow> ey_queued (ey_onReadDispatchResult n c False x t (ey_set_slot n c r s)) = ey_queued s - {(n, c)}"
  by (auto simp: ey_onReadDispatchResult_def Let_def queued_set_slot)

lemma dispatch_outbox [simp]: "io_outbox (ey_onReadDispatchResult n c a x t s) = io_outbox s"
  by (simp add: ey_onReadDispatchResult_def Let_def split: option.split)

lemma queued_outbox [simp]: "ey_queued (s\<lparr>io_outbox := q\<rparr>) = ey_queued s"
  by (simp add: ey_queued_def ey_slot_def)

lemma tryIssue_reads:
  fixes s now n c
  defines "s' \<equiv> snd (ey_tryIssueReadCommand now n c s)"
  shows "ey_queued s' = ey_queued s \<and> reads_sent s' = reads_sent s \<or>
    (n, c) \<notin> ey_queued s \<and> ey_queued s' = insert (n, c) (ey_queued s) \<and> reads_sent s' = reads_sent s @ [(n, c)]"
proof (cases "ec_shuttingDown s \<or> \<not> io_canController s \<or> (n, c) \<in> ey_queued s")
  case True
  then show ?thesis
    by (auto simp: s'_def ey_tryIssueReadCommand_def Let_def queued_set_slot insert_absorb reads_sent_def)
next
  case False
  then show ?thesis
    by (auto simp: s'_def ey_tryIssueReadCommand_def Let_def sendReadCommand_def dispatch_refused queued_set_slot
        reads_sent_def map_filter_def)
qed

fun ey_key :: "motor_id \<times> PpRefreshQuery \<Rightarrow> completion" where
  "ey_key (mid, PpPosition) = (toProtocolNodeId mid, 0x07)"
| "ey_key (mid, PpVelocity) = (toProtocolNodeId mid, 0x06)"
| "ey_key (mid, PpMode) = (toProtocolNodeId mid, 0x0F)"
| "ey_key (mid, PpEnable) = (toProtocolNodeId mid, 0x10)"
| "ey_key (mid, PpFault) = (toProtocolNodeId mid, 0x15)"
| "ey_key (mid, PpCurrent) = (toProtocolNodeId mid, 0x05)"

lemma register_reads [simp]:
  "ey_queued (ey_registerManagedMotorId mid s) = ey_queued s" "reads_sent (ey_registerManagedMotorId mid s) = reads_sent s"
  by (simp_all add: ey_queued_def ey_slot_def reads_sent_def ey_registerManagedMotorId_def Let_def)

interpretation ppr: read_slots "\<lambda>now q s. snd (ey_issueRefreshQuery now (fst q) (snd q) s)" ey_key ey_queued reads_sent
proof unfold_locales
  fix now q s
  show "ey_queued (snd (ey_issueRefreshQuery now (fst q) (snd q) s)) = ey_queued s \<and>
      reads_sent (snd (ey_issueRefreshQuery now (fst q) (snd q) s)) = reads_sent s \<or>
      ey_key q \<notin> ey_queued s \<and> ey_queued (snd (ey_issueRefreshQuery now (fst q) (snd q) s)) = insert (ey_key q) (ey_queued s) \<and>
      reads_sent (snd (ey_issueRefreshQuery now (fst q) (snd q) s)) = reads_sent s @ [ey_key q]"
    using tryIssue_reads [where now = now and s = "ey_registerManagedMotorId (fst q) s"]
    by (cases q rule: ey_key.cases) (simp_all add: ey_requests)
qed

section \<open>Position commands\<close>

text \<open>The velocity configured for the position and the CSP commands of a motor.\<close>

definition position_velocity :: "ey_can \<Rightarrow> u8 \<Rightarrow> i32" where
  "position_velocity s n =
     (case ec_positionVelocityRawByMotorId s n of Some v \<Rightarrow> v | None \<Rightarrow> ec_defaultPositionVelocityRaw s)"

definition csp_velocity :: "ey_can \<Rightarrow> u8 \<Rightarrow> i32" where
  "csp_velocity s n = (case ec_cspVelocityRawByMotorId s n of Some v \<Rightarrow> v | None \<Rightarrow> ec_defaultCspVelocityRaw s)"

lemma csp_velocity_frame [simp]:
  "csp_velocity (sendWriteCommand n sub v k ty s) m = csp_velocity s m" "csp_velocity (ey_modify n f s) m = csp_velocity s m"
  "csp_velocity (write_register n sub v s) m = csp_velocity s m"
  by (simp_all add: csp_velocity_def write_register_def split: option.split)

lemma csp_velocity_ensure [simp]: "csp_velocity (snd (ensurePositionVelocityConfigured n v force s)) m = csp_velocity s m"
  by (simp add: ensurePositionVelocityConfigured_def Let_def)

lemma velocities_positive: "ey_inv s \<Longrightarrow> 0 < sint (position_velocity s n) \<and> 0 < sint (csp_velocity s n)"
  by (auto simp: ey_inv_def ey_base_def position_velocity_def csp_velocity_def split: option.splits)

lemma ensure_configures:
  assumes "ey_inv s" and "io_canController s" and "io_txDispatcher s" and "0 < sint v"
  obtains pre where "io_outbox (snd (ensurePositionVelocityConfigured n v force s)) = io_outbox s @ pre"
    and "device_velocity (io_outbox s @ pre) n = Some v"
    and "em_positionVelocityConfigured (ey_motor (snd (ensurePositionVelocityConfigured n v force s)) n)"
    and "em_lastPositionVelocityRaw (ey_motor (snd (ensurePositionVelocityConfigured n v force s)) n) = v"
proof (cases "force \<or> \<not> em_positionVelocityConfigured (ey_motor s n) \<or> em_lastPositionVelocityRaw (ey_motor s n) \<noteq> v")
  case True
  let ?pre = "(if ec_fastWriteEnabled s then [write_request n 0x09 v kFastWriteCommand] else []) @ [write_request n 0x09 v kWriteCommand]"
  show ?thesis
    by (rule that [of ?pre])
      (use True assms in \<open>auto simp: ensurePositionVelocityConfigured_def Let_def write_register_outbox
        device_velocity_append ey_bytes\<close>)
next
  case False
  then have "device_velocity (io_outbox s) n = Some v"
    using assms by (auto simp: ey_inv_def velocity_ok_def)
  with False show ?thesis
    by (intro that [of "[]"]) (use assms in \<open>auto simp: ensurePositionVelocityConfigured_def Let_def\<close>)
qed

lemma ensure_idle:
  "em_positionVelocityConfigured (ey_motor s n) \<Longrightarrow> em_lastPositionVelocityRaw (ey_motor s n) = v \<Longrightarrow> 0 < sint v \<Longrightarrow>
     io_outbox (snd (ensurePositionVelocityConfigured n v False s)) = io_outbox s"
  by (simp add: ensurePositionVelocityConfigured_def Let_def)

text \<open>The state in which a position command makes sure of the velocity.\<close>

definition aimed :: "time_ns \<Rightarrow> motor_id \<Rightarrow> i32 \<Rightarrow> MotorMode \<Rightarrow> ey_can \<Rightarrow> ey_can" where
  "aimed now mid p mode s = ey_syncSharedCommand now (toProtocolNodeId mid) (sint p) 0 mode True
     (ey_modify (toProtocolNodeId mid) (em_commandedPosition_update (\<lambda>_. p)) (ey_registerManagedMotorId mid s))"

lemma aimed_inv: "ey_inv s \<Longrightarrow> ey_inv (aimed now mid p mode s)"
  unfolding aimed_def by (intro ey_intros) simp_all

lemma aimed_frame [simp]:
  "io_canController (aimed now mid p mode s) = io_canController s" "io_txDispatcher (aimed now mid p mode s) = io_txDispatcher s"
  "io_outbox (aimed now mid p mode s) = io_outbox s"
  "position_velocity (aimed now mid p mode s) n = position_velocity s n" "csp_velocity (aimed now mid p mode s) n = csp_velocity s n"
  "em_positionVelocityConfigured (ey_motor (aimed now mid p mode s) n) = em_positionVelocityConfigured (ey_motor s n)"
  "em_lastPositionVelocityRaw (ey_motor (aimed now mid p mode s) n) = em_lastPositionVelocityRaw (ey_motor s n)"
  by (simp_all add: aimed_def position_velocity_def csp_velocity_def ey_syncSharedCommand_def ey_registerManagedMotorId_def
      Let_def ey_motor_def split: option.split)

lemma quick_by_aimed:
  "io_canController s \<Longrightarrow> 0 < sint (csp_velocity s (toProtocolNodeId mid)) \<Longrightarrow> ey_quickSetPosition now mid p s =
     (True, sendWriteCommand (toProtocolNodeId mid) 0x0A p 4 kFastWriteCommand
       (snd (ensurePositionVelocityConfigured (toProtocolNodeId mid) (csp_velocity s (toProtocolNodeId mid)) False
          (aimed now mid p ModeCSP s))))"
  by (simp add: ey_quickSetPosition_def Let_def aimed_def [symmetric] csp_velocity_def [symmetric] case_prod_beta)

lemma position_by_aimed:
  "io_canController s \<Longrightarrow> 0 < sint (position_velocity s (toProtocolNodeId mid)) \<Longrightarrow> ey_setPosition now mid p s =
     (True, write_register (toProtocolNodeId mid) 0x0A p
       (snd (ensurePositionVelocityConfigured (toProtocolNodeId mid) (position_velocity s (toProtocolNodeId mid)) True
          (aimed now mid p ModePosition s))))"
  by (simp add: ey_setPosition_def Let_def aimed_def [symmetric] position_velocity_def [symmetric] case_prod_beta)

section \<open>Responses\<close>

text \<open>A frame as motor \<open>n\<close> answers the read of a register, the value in its third to sixth byte.\<close>

definition ey_response :: "u8 \<Rightarrow> u8 \<Rightarrow> u8 \<Rightarrow> u8 \<Rightarrow> u8 \<Rightarrow> u8 \<Rightarrow> frame" where
  "ey_response n sub b3 b2 b1 b0 = \<lparr>fr_id = ucast (kEyouIdFrameBase + ucast n :: u16), fr_isExtended = False,
     fr_isRemoteRequest = False, fr_dlc = 8, fr_data = [0x04, sub, b3, b2, b1, b0, 0, 0]\<rparr>"

lemma ey_can_id:
  "(ucast ((ucast (ucast n :: u16) :: u32) AND 0x7FF) :: u16) = ucast n"
  "\<not> 0x100 \<le> (ucast n :: u16)" "(ucast ((ucast n :: u16) AND 0xFF) :: u8) = n" for n :: u8
proof -
  have n: "unat (ucast n :: u16) < 256" using unat_u8 [of n] by simp
  then show "(ucast ((ucast (ucast n :: u16) :: u32) AND 0x7FF) :: u16) = ucast n"
    by (simp add: standard_can_id)
  show "\<not> 0x100 \<le> (ucast n :: u16)" using n by (simp add: word_le_nat_alt)
  show "(ucast ((ucast n :: u16) AND 0xFF) :: u8) = n"
    using toProtocolNodeId_from [of n]
    by (simp add: toProtocolNodeId_def motorIdFromProtocolNodeId_def toSystemMotorId_def)
qed

lemma ey_handle_read:
  assumes "\<not> ec_shuttingDown s" and "ey_isManagedMotorId s n"
  shows "ey_handleResponse now (ey_response n sub b3 b2 b1 b0) s =
    (let s1 = ey_modify n (ey_absorb (ey_response n sub b3 b2 b1 b0) sub)
                (ey_markReadResponseReceived now n sub (ey_modify n id s))
     in ey_syncSharedFeedback now n (ey_motor s1 n) s1)"
  using assms by (simp add: ey_handleResponse_def ey_response_def ey_can_id Let_def ey_bytes kEyouIdFrameBase_def)

lemma mark_response_frame [simp]:
  "ec_motorStates (ey_markReadResponseReceived now n c s) = ec_motorStates s"
  "ec_systemMotorIdsByNodeId (ey_markReadResponseReceived now n c s) = ec_systemMotorIdsByNodeId s"
  "io_sharedState (ey_markReadResponseReceived now n c s) = io_sharedState s"
  "io_deviceName (ey_markReadResponseReceived now n c s) = io_deviceName s"
  by (simp_all add: ey_markReadResponseReceived_def split: option.split)

lemma ey_handle_motors:
  assumes "\<not> ec_shuttingDown s" and "ey_isManagedMotorId s n"
  shows "ec_motorStates (ey_handleResponse now (ey_response n sub b3 b2 b1 b0) s) =
    (ec_motorStates s)(n \<mapsto> ey_absorb (ey_response n sub b3 b2 b1 b0) sub (ey_motor s n))"
  using assms by (simp add: ey_handle_read Let_def ey_syncSharedFeedback_def ey_motor_def map_modify_def)

lemma ey_response_value:
  "readUInt32BE (ey_response n sub b3 b2 b1 b0) 2 = join32 b0 b1 b2 b3"
  "dataByteOrZero (ey_response n sub b3 b2 b1 b0) 5 = b0"
  by (simp_all add: ey_response_def readUInt32BE_def dataByteOrZero_def join_BE)

lemma ey_handle_shared:
  assumes "\<not> ec_shuttingDown s" and "ey_isManagedMotorId s n" and "io_sharedState s = Some sh" and "io_deviceName s \<noteq> []"
  shows "io_sharedState (ey_handleResponse now (ey_response n sub b3 b2 b1 b0) s) =
    Some (mutateAxisFeedback (ey_makeAxisKey s n)
      (ey_feedback now (ey_absorb (ey_response n sub b3 b2 b1 b0) sub (ey_motor s n))) sh)"
  using assms
  by (simp add: ey_handle_read Let_def ey_syncSharedFeedback_def on_shared_state ey_makeAxisKey_def
      ey_resolveSystemMotorId_def ey_motor_def cong: option.case_cong)

text \<open>A motor that answers the read of its serial number.\<close>

lemma warn_frame [simp]:
  "ec_motorStates (maybeWarnStaleFeedback n c now s) = ec_motorStates s"
  "ec_managedMotorIds (maybeWarnStaleFeedback n c now s) = ec_managedMotorIds s"
  by (rule warn_cases [of n c now s]; simp)+

lemma tryIssue_sent:
  assumes "\<not> ec_shuttingDown s" and "io_canController s" and "io_txDispatcher s" and "(n, c) \<notin> ey_queued s"
  obtains t where "ey_tryIssueReadCommand now n c s = (True, t)" and "\<not> ec_shuttingDown t"
    and "ec_managedMotorIds t = ec_managedMotorIds s" and "ec_motorStates t = ec_motorStates s"
    and "io_outbox t = io_outbox s @ [\<lparr>rq_frame = read_frame n c, rq_category = Query,
      rq_source = ''EyouCan::sendReadCommand'', rq_completion = Some (n, c)\<rparr>]"
  by (rule that [of "snd (ey_tryIssueReadCommand now n c s)"])
    (use assms in \<open>simp_all add: ey_tryIssueReadCommand_def sendReadCommand_def Let_def\<close>)

lemma handle_read_outbox:
  "\<not> ec_shuttingDown s \<Longrightarrow> ey_isManagedMotorId s n \<Longrightarrow>
     io_outbox (ey_handleResponse now (ey_response n sub b3 b2 b1 b0) s) = io_outbox s"
  by (simp add: ey_handle_read Let_def ey_syncSharedFeedback_def ey_markReadResponseReceived_def split: option.split)

lemma readSerialNumber_answered:
  fixes now mid n b3 b2 b1 b0 s
  defines "result \<equiv> readSerialNumber [ey_handleResponse now (ey_response n 0x02 b3 b2 b1 b0)] now mid s"
  assumes "\<not> ec_shuttingDown s" and "io_canController s" and "io_txDispatcher s" and "(n, 0x02) \<notin> ey_queued s"
    and "n = toProtocolNodeId mid"
  shows "fst result = Some (join32 b0 b1 b2 b3)"
    and "io_outbox (snd result) = io_outbox s @ [\<lparr>rq_frame = read_frame n 0x02, rq_category = Query,
      rq_source = ''EyouCan::sendReadCommand'', rq_completion = Some (n, 0x02)\<rparr>]"
proof -
  let ?s1 = "ey_modify n (em_serialNumberReceived_update (\<lambda>_. False)) (ey_registerManagedMotorId mid s)"
  let ?e = "ey_handleResponse now (ey_response n 0x02 b3 b2 b1 b0)"
  have queued: "ey_queued ?s1 = ey_queued s"
    using register_reads(1) [of mid s] by (simp add: ey_queued_def ey_slot_def)
  have reg: "ec_shuttingDown (ey_registerManagedMotorId mid s) = ec_shuttingDown s"
    "n \<in> ec_managedMotorIds (ey_registerManagedMotorId mid s)"
    using assms(6) by (simp_all add: ey_registerManagedMotorId_def Let_def)
  have pre: "\<not> ec_shuttingDown ?s1" "io_canController ?s1" "io_txDispatcher ?s1" "(n, 0x02) \<notin> ey_queued ?s1"
    using assms reg queued by simp_all
  obtain t where t: "ey_tryIssueReadCommand now n 0x02 ?s1 = (True, t)" "\<not> ec_shuttingDown t"
    "ec_managedMotorIds t = ec_managedMotorIds ?s1" "ec_motorStates t = ec_motorStates ?s1"
    "io_outbox t = io_outbox ?s1 @ [\<lparr>rq_frame = read_frame n 0x02, rq_category = Query,
      rq_source = ''EyouCan::sendReadCommand'', rq_completion = Some (n, 0x02)\<rparr>]"
    by (rule tryIssue_sent [OF pre])
  have managed: "ey_isManagedMotorId t n" using t(3) reg(2) by (simp add: ey_isManagedMotorId_def)
  have "result = (Some (join32 b0 b1 b2 b3), ?e t)"
    using assms t managed
    by (simp add: readSerialNumber_def Let_def requestSerialNumber_def ey_bytes ey_handle_motors ey_absorb_def ey_response_value)
  with t handle_read_outbox [OF t(2) managed] show "fst result = Some (join32 b0 b1 b2 b3)"
    "io_outbox (snd result) = io_outbox s @ [\<lparr>rq_frame = read_frame n 0x02, rq_category = Query,
      rq_source = ''EyouCan::sendReadCommand'', rq_completion = Some (n, 0x02)\<rparr>]" by simp_all
qed

section \<open>Acknowledged writes\<close>

definition acknowledged :: "ey_can \<Rightarrow> u8 \<Rightarrow> u8 \<Rightarrow> bool" where
  "acknowledged s n c \<longleftrightarrow> ea_received (ack_slot s n c) \<and> ea_state (ack_slot s n c) \<in> {0x01, 0x05}"

definition save_request :: "u8 \<Rightarrow> u32 \<Rightarrow> request" where
  "save_request n serial = \<lparr>rq_frame = write_bytes_frame n 0x4D (save_payload serial) 4, rq_category = Control,
     rq_source = ''EyouCan::persistParameters'', rq_completion = None\<rparr>"

text \<open>Other threads that hand nothing to the dispatcher: they only receive.\<close>

definition quiet :: "(ey_can \<Rightarrow> ey_can) \<Rightarrow> bool" where
  "quiet e \<longleftrightarrow> (\<forall>t. io_outbox (e t) = io_outbox t)"

lemma wait_ack_received: "fst (wait_ack n c others s) = ea_received (ack_slot (snd (wait_ack n c others s)) n c)"
  unfolding wait_ack_def by (rule wait_for_ready)

lemma wait_ack_outbox:
  "list_all quiet others \<Longrightarrow> io_outbox (snd (wait_ack n c others s)) = io_outbox s"
  unfolding wait_ack_def
  by (rule wait_for_keeps [where P = "\<lambda>t. io_outbox t = io_outbox s"]) (auto simp: quiet_def list_all_iff)

lemma ack_result_acknowledged:
  "fst (fst (ack_result n c others s)) = acknowledged (snd (ack_result n c others s)) n c"
  "snd (ack_result n c others s) = snd (wait_ack n c others s)"
  using wait_ack_received [of n c others s]
  by (auto simp: ack_result_def acknowledged_def case_prod_beta Let_def)

lemma save_attempt:
  assumes "list_all quiet others"
  shows "io_outbox (snd (writeCommandBytesAndWaitForAck others n kPersistParametersSubCommand (save_payload serial) 4 s)) =
      io_outbox s @ (if io_canController s \<and> io_txDispatcher s then [save_request n serial] else [])"
    and "fst (fst (writeCommandBytesAndWaitForAck others n kPersistParametersSubCommand (save_payload serial) 4 s)) \<Longrightarrow>
      io_canController s \<and> io_txDispatcher s \<and>
      acknowledged (snd (writeCommandBytesAndWaitForAck others n kPersistParametersSubCommand (save_payload serial) 4 s)) n 0x4D"
  using wait_ack_outbox [OF assms] ack_result_acknowledged [of n "0x4D" others]
  by (auto simp: writeCommandBytesAndWaitForAck_def submitTx_def expect_ack_def save_request_def ey_bytes split: if_splits)

lemma persist_attempts_bounded:
  assumes w: "\<And>k. list_all quiet (writing k)" and r: "\<And>k. quiet (resting k)"
  shows "\<exists>j \<le> k. io_outbox (snd (persist_attempts k writing resting n (save_payload serial) s)) =
      io_outbox s @ replicate j (save_request n serial) \<and>
    (fst (persist_attempts k writing resting n (save_payload serial) s) \<longrightarrow>
      1 \<le> j \<and> acknowledged (snd (persist_attempts k writing resting n (save_payload serial) s)) n 0x4D)"
proof (induction k arbitrary: s)
  case (Suc k)
  define a where "a = writeCommandBytesAndWaitForAck (writing k) n kPersistParametersSubCommand (save_payload serial) 4 s"
  have out: "io_outbox (snd a) = io_outbox s @ (if io_canController s \<and> io_txDispatcher s then [save_request n serial] else [])"
    and ok: "fst (fst a) \<Longrightarrow> io_canController s \<and> io_txDispatcher s \<and> acknowledged (snd a) n 0x4D"
    unfolding a_def using save_attempt [OF w] by auto
  show ?case
  proof (cases "fst (fst a)")
    case True
    with ok out show ?thesis by (intro exI [of _ "1 :: nat"]) (auto simp: a_def [symmetric] case_prod_beta)
  next
    case False
    let ?t = "if 0 < k then resting k (snd a) else snd a"
    from Suc.IH [of ?t] obtain j where j: "j \<le> k"
      "io_outbox (snd (persist_attempts k writing resting n (save_payload serial) ?t)) = io_outbox ?t @ replicate j (save_request n serial)"
      "fst (persist_attempts k writing resting n (save_payload serial) ?t) \<longrightarrow>
        1 \<le> j \<and> acknowledged (snd (persist_attempts k writing resting n (save_payload serial) ?t)) n 0x4D" by blast
    have t: "io_outbox ?t = io_outbox (snd a)" using r by (simp add: quiet_def)
    have eq: "persist_attempts (Suc k) writing resting n (save_payload serial) s =
        persist_attempts k writing resting n (save_payload serial) ?t"
      using False by (simp add: a_def [symmetric] case_prod_beta)
    show ?thesis
      unfolding eq using j t out
      by (intro exI [of _ "if io_canController s \<and> io_txDispatcher s then Suc j else j"]) auto
  qed
qed simp

lemma sint_clamp16: "sint (clampInt32ToInt16WithWarn v) = max (- 32768) (min 32767 (sint v))"
proof -
  have "- 32768 \<le> max (- 32768) (min 32767 (sint v))" "max (- 32768) (min 32767 (sint v)) < 32768" by auto
  then show ?thesis
    by (simp only: clampInt32ToInt16WithWarn_def signed_of_int) (simp add: signed_take_bit_int_eq_self)
qed

section \<open>Properties\<close>

text \<open>
  C23: a PP protocol object stays consistent through any sequence of settings, commands, queries,
  responses, completions and blocking operations with other threads acting during their waits:
  nodes resolve to motor ids of that node, exactly the managed nodes are known, every configured
  velocity is positive, the shared store keeps its own invariant, and a motor the driver takes
  for configured has had exactly that velocity written after its last mode switch or enable.
\<close>

theorem ey_invariant: "ey_reachable s \<Longrightarrow> ey_inv s"
  by (rule ey_reachable_inv)

theorem ey_invariant_witness:
  "ey_inv (snd (ey_setPosition 9 5 100 (snd (ey_setMode 5 ModePosition (new_EyouCan True True (Some empty_SharedDriverState) ''can0'')))))"
  by (rule ey_invariant, rule eyr_action [where f = "\<lambda>s. snd (ey_setPosition 9 5 100 s)"],
      rule eyr_action [where f = "\<lambda>s. snd (ey_setMode 5 ModePosition s)"], rule eyr_new)
    (auto intro: sr_init ey_action.intros)



text \<open>
  In steady state a CSP command is one frame: after a CSP command, another one for the same
  motor hands exactly one frame to the dispatcher, the fast write of the new position.
\<close>

lemma ey_csp_steady:
  assumes "ey_reachable s" and "io_canController s" and "io_txDispatcher s"
    and "s1 = snd (ey_quickSetPosition now mid p s)"
  shows "io_outbox (snd (ey_quickSetPosition now' mid p' s1)) =
    io_outbox s1 @ [write_request (toProtocolNodeId mid) 0x0A p' kFastWriteCommand]"
proof -
  let ?n = "toProtocolNodeId mid"
  have inv: "ey_inv s" using assms(1) by (rule ey_reachable_inv)
  have v: "0 < sint (csp_velocity s ?n)" using velocities_positive [OF inv] by simp
  let ?e = "ensurePositionVelocityConfigured ?n (csp_velocity s ?n) False (aimed now mid p ModeCSP s)"
  have e: "em_positionVelocityConfigured (ey_motor (snd ?e) ?n)" "em_lastPositionVelocityRaw (ey_motor (snd ?e) ?n) = csp_velocity s ?n"
    using ensure_configures [OF aimed_inv [OF inv], where v = "csp_velocity s ?n" and n = ?n and force = False] assms v by auto
  have s1: "s1 = sendWriteCommand ?n 0x0A p 4 kFastWriteCommand (snd ?e)"
    using assms v by (simp add: quick_by_aimed)
  have csp: "csp_velocity s1 ?n = csp_velocity s ?n" by (simp add: s1)
  have c: "io_canController s1" "io_txDispatcher s1" using assms(2,3) by (simp_all add: s1)
  have "io_outbox (snd (ensurePositionVelocityConfigured ?n (csp_velocity s ?n) False (aimed now' mid p' ModeCSP s1))) = io_outbox s1"
    using ensure_idle [of "aimed now' mid p' ModeCSP s1" ?n "csp_velocity s ?n"] v e by (simp add: s1)
  then show ?thesis using c v csp by (simp add: quick_by_aimed)
qed


text \<open>
  A PP read is never in the dispatcher twice: whatever queries are issued for whatever motors
  and at whatever times, the reads they hand to the dispatcher are pairwise different and none
  of them was already queued.
\<close>

lemma ey_no_duplicate_reads:
  "\<exists>ks. reads_sent (fold (\<lambda>(now, q). (\<lambda>s. snd (ey_issueRefreshQuery now (fst q) (snd q) s))) xs s) = reads_sent s @ ks \<and>
     distinct ks \<and> set ks \<inter> ey_queued s = {} \<and> set ks \<subseteq> ey_key ` snd ` set xs"
  using ppr.issue_all_sent [of xs s] unfolding ppr.issue_all_def by blast

text \<open>
  PP readings are exact: after a read response with a big-endian 32-bit value, the getters
  return that value (the current confined to 16 bits, the fault flag whether it is not zero),
  and the shared store holds it as valid feedback received now, not degraded, for the motor id
  the node belongs to.
\<close>

lemma ey_feedback_exact:
  assumes "\<not> ec_shuttingDown s" and "ey_isManagedMotorId s n" and "n = toProtocolNodeId mid"
    and "io_sharedState s = Some sh" and "io_deviceName s \<noteq> []"
  shows "fst (ey_getPosition mid (ey_handleResponse now (ey_response n 0x07 b3 b2 b1 b0) s)) = sint (join32 b0 b1 b2 b3) \<and>
    fst (ey_getVelocity mid (ey_handleResponse now (ey_response n 0x06 b3 b2 b1 b0) s)) = join32 b0 b1 b2 b3 \<and>
    sint (fst (ey_getCurrent mid (ey_handleResponse now (ey_response n 0x05 b3 b2 b1 b0) s))) =
      max (- 32768) (min 32767 (sint (join32 b0 b1 b2 b3))) \<and>
    fst (ey_hasFault mid (ey_handleResponse now (ey_response n 0x15 b3 b2 b1 b0) s)) = (join32 b0 b1 b2 b3 \<noteq> 0) \<and>
    fst (ey_isEnabled mid (ey_handleResponse now (ey_response n 0x10 b3 b2 b1 b0) s)) = (b0 \<noteq> 0) \<and>
    (\<exists>sh' fb. io_sharedState (ey_handleResponse now (ey_response n 0x07 b3 b2 b1 b0) s) = Some sh' \<and>
      getAxisFeedback sh' (ey_makeAxisKey s n) = Some fb \<and> fb_position fb = sint (join32 b0 b1 b2 b3) \<and>
      fb_positionValid fb \<and> fb_feedbackSeen fb \<and> fb_lastRxSteadyNs fb = now \<and> \<not> fb_degraded fb)"
proof -
  note response = ey_handle_motors [OF assms(1,2)] ey_absorb_def ey_response_value readInt32BE_def ey_bytes
    Let_def assms(3) [symmetric]
  have "fst (ey_getPosition mid (ey_handleResponse now (ey_response n 0x07 b3 b2 b1 b0) s)) = sint (join32 b0 b1 b2 b3)"
    by (simp add: ey_getPosition_def response)
  moreover have "fst (ey_getVelocity mid (ey_handleResponse now (ey_response n 0x06 b3 b2 b1 b0) s)) = join32 b0 b1 b2 b3"
    by (simp add: ey_getVelocity_def response)
  moreover have "sint (fst (ey_getCurrent mid (ey_handleResponse now (ey_response n 0x05 b3 b2 b1 b0) s))) =
      max (- 32768) (min 32767 (sint (join32 b0 b1 b2 b3)))"
    by (simp add: ey_getCurrent_def response sint_clamp16)
  moreover have "fst (ey_hasFault mid (ey_handleResponse now (ey_response n 0x15 b3 b2 b1 b0) s)) = (join32 b0 b1 b2 b3 \<noteq> 0)"
    by (simp add: ey_hasFault_def response)
  moreover have "fst (ey_isEnabled mid (ey_handleResponse now (ey_response n 0x10 b3 b2 b1 b0) s)) = (b0 \<noteq> 0)"
    by (simp add: ey_isEnabled_def response)
  moreover have "\<exists>sh' fb. io_sharedState (ey_handleResponse now (ey_response n 0x07 b3 b2 b1 b0) s) = Some sh' \<and>
      getAxisFeedback sh' (ey_makeAxisKey s n) = Some fb \<and> fb_position fb = sint (join32 b0 b1 b2 b3) \<and>
      fb_positionValid fb \<and> fb_feedbackSeen fb \<and> fb_lastRxSteadyNs fb = now \<and> \<not> fb_degraded fb"
    by (simp add: ey_handle_shared [OF assms(1,2,4,5)] fb.look_same recomputeAxisObservedLocked_def ey_feedback_def response
        kDefaultFeedbackDegradedTimeoutThreshold_def)
  ultimately show ?thesis by blast
qed

lemma ey_feedback_exact_witness:
  "fst (ey_getPosition 5 (ey_handleResponse 7 (ey_response 5 0x07 0xFF 0xFF 0xFF 0xFE)
     (new_EyouCan True True (Some empty_SharedDriverState) ''can0''))) = - 2"
proof -
  let ?s = "new_EyouCan True True (Some empty_SharedDriverState) ''can0''"
  have "\<not> ec_shuttingDown ?s" "ey_isManagedMotorId ?s 5" "5 = toProtocolNodeId 5"
    "io_sharedState ?s = Some empty_SharedDriverState" "io_deviceName ?s \<noteq> []"
    by (simp_all add: new_EyouCan_def ey_isManagedMotorId_def toProtocolNodeId_def toSystemMotorId_def)
  from ey_feedback_exact [OF this, of 7 "0xFF" "0xFF" "0xFF" "0xFE"] show ?thesis by (simp add: join32_def)
qed

text \<open>
  Parameters are reported as saved only when the motor said so: while the other threads only
  receive, saving the parameters after the serial number was read sends between none and three
  save frames, each with the low three bytes of the serial number and nothing else, and success
  is reported only after at least one of them and with the last one acknowledged as written.
\<close>

lemma ey_persist_acknowledged:
  assumes "io_canController s" and "readSerialNumber reading now mid s = (Some serial, s1)"
    and "\<And>k. list_all quiet (writing k)" and "\<And>k. quiet (resting k)"
    and "n = toProtocolNodeId mid"
  shows "\<exists>j \<le> 3. io_outbox (snd (persistParameters reading writing resting now mid s)) =
      io_outbox s1 @ replicate j (save_request n serial) \<and>
    (fst (persistParameters reading writing resting now mid s) \<longrightarrow>
      1 \<le> j \<and> acknowledged (snd (persistParameters reading writing resting now mid s)) n 0x4D)"
  using persist_attempts_bounded [where k = 3 and s = "ey_registerManagedMotorId mid s1" and n = n and serial = serial
      and writing = writing and resting = resting] assms
  by (simp add: persistParameters_def kPersistWriteAckRetries_def)

text \<open>A motor that answers the read of its serial number and acknowledges the first save.\<close>

lemma ey_persist_acknowledged_witness:
  "\<exists>j \<le> 3. io_outbox (snd (persistParameters
        [ey_handleResponse 7 (ey_response 5 0x02 0 0x11 0x22 0x33)] (\<lambda>_. [markWriteAckReceived 5 0x4D 1]) (\<lambda>_ s. s) 7 5
        (new_EyouCan True True None ''can0''))) =
      \<lparr>rq_frame = read_frame 5 2, rq_category = Query, rq_source = ''EyouCan::sendReadCommand'', rq_completion = Some (5, 2)\<rparr>
      # replicate j (save_request 5 0x112233)"
proof -
  let ?s = "new_EyouCan True True None ''can0''" and ?e = "ey_handleResponse 7 (ey_response 5 0x02 0 0x11 0x22 0x33)"
  define s1 where "s1 = snd (readSerialNumber [?e] 7 5 ?s)"
  have node: "toProtocolNodeId 5 = 5" by (simp add: toProtocolNodeId_def toSystemMotorId_def)
  have "\<not> ec_shuttingDown ?s" "io_canController ?s" "io_txDispatcher ?s" "(5, 0x02) \<notin> ey_queued ?s" "5 = toProtocolNodeId 5"
    by (simp_all add: new_EyouCan_def ey_queued_def ey_slot_def default_ey_pending_def node)
  from readSerialNumber_answered [OF this, of 7 0 "0x11" "0x22" "0x33"]
  have read: "readSerialNumber [?e] 7 5 ?s = (Some 0x112233, s1)" "io_outbox s1 =
      [\<lparr>rq_frame = read_frame 5 2, rq_category = Query, rq_source = ''EyouCan::sendReadCommand'', rq_completion = Some (5, 2)\<rparr>]"
    by (simp_all add: s1_def join32_def new_EyouCan_def prod_eq_iff)
  have quiet: "list_all quiet [markWriteAckReceived 5 0x4D 1]" "quiet (\<lambda>s. s)"
    by (simp_all add: quiet_def markWriteAckReceived_def)
  have "io_canController ?s" by (simp add: new_EyouCan_def)
  note saved = ey_persist_acknowledged [OF this read(1) quiet node [symmetric]]
  then show ?thesis unfolding read(2) append_Cons append_Nil by blast
qed

end
