(* ===== verification/Ieee_Single.thy ===== *)
theory Ieee_Single
  imports Ieee_Double Driver_Prelude
begin

text \<open>
  The \<open>float\<close> side of the DM protocol: binary32 arithmetic, the conversion between \<open>float\<close> and
  \<open>double\<close>, and the bit pattern of a \<open>float\<close>, which travels in the frames.  The main fact is that
  the pattern of a rounded value decodes to that value.
\<close>

section \<open>Arithmetic\<close>

text \<open>\<open>static_cast<float>\<close> of a double.\<close>

fun to_float :: "dbl \<Rightarrow> dbl" where
  "to_float (Fin a) = round32 a"
| "to_float x = x"

fun fadd :: "dbl \<Rightarrow> dbl \<Rightarrow> dbl" where
  "fadd (Fin a) (Fin b) = round32 (a + b)"
| "fadd a b = dadd a b"

definition fsub :: "dbl \<Rightarrow> dbl \<Rightarrow> dbl" where
  "fsub a b = fadd a (dneg b)"

fun fmul :: "dbl \<Rightarrow> dbl \<Rightarrow> dbl" where
  "fmul (Fin a) (Fin b) = round32 (a * b)"
| "fmul a b = dmul a b"

fun fdiv :: "dbl \<Rightarrow> dbl \<Rightarrow> dbl" where
  "fdiv (Fin a) (Fin b) = (if b = 0 then inf_of_sign (sgn a) else round32 (a / b))"
| "fdiv a b = ddiv a b"

definition flt_of_int :: "int \<Rightarrow> dbl" where
  "flt_of_int n = round32 (of_int n)"

section \<open>Bit patterns\<close>

text \<open>
  The pattern \<open>memcpy\<close> copies out of a \<open>float\<close>: sign, biased exponent and fraction.  A zero is the
  positive one, the only one the callers produce.
\<close>

fun floatToRawBits :: "dbl \<Rightarrow> u32" where
  "floatToRawBits (Fin x) =
     (if x = 0 then 0
      else let e = ulp_exp 24 (- 149) x;
               m = nat \<lfloor>\<bar>x\<bar> / 2 powi e\<rfloor>;
               field = (if m < 2 ^ 23 then m else nat (e + 150) * 2 ^ 23 + (m - 2 ^ 23))
           in of_nat ((if x < 0 then 2 ^ 31 else 0) + field))"
| "floatToRawBits PosInf = 0x7F800000"
| "floatToRawBits NegInf = 0xFF800000"
| "floatToRawBits NaN = 0x7FC00000"

text \<open>The value a receiver reads from a pattern.\<close>

definition rawBitsToFloat :: "u32 \<Rightarrow> dbl" where
  "rawBitsToFloat w =
     (let n = unat w; s = (if 2 ^ 31 \<le> n then - 1 else 1); ef = n div 2 ^ 23 mod 2 ^ 8; fr = n mod 2 ^ 23
      in if ef = 255 then (if fr \<noteq> 0 then NaN else if 2 ^ 31 \<le> n then NegInf else PosInf)
         else if ef = 0 then Fin (s * (of_nat fr * 2 powi (- 149)))
         else Fin (s * (of_nat (fr + 2 ^ 23) * 2 powi (int ef - 150))))"

section \<open>Representable values\<close>

definition fits32 :: "rat \<Rightarrow> bool" where
  "fits32 v \<longleftrightarrow> \<bar>v\<bar> < 2 powi 128 \<and> (\<exists>m e. v = of_int m * 2 powi e \<and> \<bar>m\<bar> < 2 ^ 24 \<and> - 149 \<le> e)"

lemma powi_less_imp_less: "(2 :: rat) powi m < 2 powi n \<Longrightarrow> m < n"
  using power_int_increasing [of n m "2 :: rat"] by (cases "m < n") auto

lemma fp_round_exponent:
  assumes "x \<noteq> 0"
  shows "\<bar>round_half_even (x / 2 powi ulp_exp 24 (- 149) x)\<bar> \<le> 2 ^ 24"
proof -
  let ?E = "ulp_exp 24 (- 149) x"
  have "\<bar>x\<bar> < 2 powi (ilog2 \<bar>x\<bar> + 1)" using assms by (intro ilog2_bounds(2)) simp
  also have "\<dots> \<le> 2 powi (?E + 24)" by (rule power_int_increasing) (simp_all add: ulp_exp_def)
  finally have "\<bar>x / 2 powi ?E\<bar> < 2 ^ 24"
    by (simp add: abs_divide power_int_add pos_divide_less_eq mult.commute)
  with round_half_even_err [of "x / 2 powi ?E"]
  have "\<bar>of_int (round_half_even (x / 2 powi ?E)) :: rat\<bar> < 2 ^ 24 + 1" by linarith
  then have "of_int \<bar>round_half_even (x / 2 powi ?E)\<bar> < (of_int (2 ^ 24 + 1) :: rat)" by simp
  then show ?thesis by (simp only: of_int_less_iff)
qed

lemma round32_fits:
  assumes "round32 x = Fin v"
  shows "fits32 v"
proof (cases "x = 0")
  case True
  with assms show ?thesis by (auto simp: round32_def fp_round_def fits32_def intro!: exI [of _ 0])
next
  case False
  define E where "E = ulp_exp 24 (- 149) x"
  define k where "k = round_half_even (x / 2 powi E)"
  have v: "v = of_int k * 2 powi E" and lt: "\<bar>v\<bar> < 2 powi 128"
    using assms False by (auto simp: round32_def fp_round_def Let_def E_def k_def split: if_splits)
  have E: "- 149 \<le> E" by (simp add: E_def ulp_exp_def)
  have k: "\<bar>k\<bar> \<le> 2 ^ 24" using fp_round_exponent [OF False] by (simp add: k_def E_def)
  have "\<exists>m e. v = of_int m * 2 powi e \<and> \<bar>m\<bar> < 2 ^ 24 \<and> - 149 \<le> e"
  proof (cases "\<bar>k\<bar> = 2 ^ 24")
    case True
    then have "v = of_int (sgn k * 2 ^ 23) * 2 powi (E + 1)"
      using v by (cases "0 \<le> k") (auto simp: power_int_add abs_if minus_equation_iff [of k])
    moreover have "\<bar>sgn k * 2 ^ 23\<bar> < (2 ^ 24 :: int)" by (simp add: abs_mult)
    ultimately show ?thesis using E by (intro exI [of _ "sgn k * 2 ^ 23"] exI [of _ "E + 1"]) auto
  next
    case False
    with k v E show ?thesis by (intro exI [of _ k] exI [of _ E]) auto
  qed
  with lt show ?thesis by (simp add: fits32_def)
qed

text \<open>The significand of a representable value is a whole number of units in the last place.\<close>

lemma fits32_significand:
  assumes "fits32 v" and "v \<noteq> 0" and E: "E = ulp_exp 24 (- 149) v"
  obtains k :: nat where "\<bar>v\<bar> = of_nat k * 2 powi E" "k < 2 ^ 24" "- 149 < E \<Longrightarrow> 2 ^ 23 \<le> k"
    "- 149 \<le> E" "E \<le> 104"
proof -
  from assms(1) obtain m e where m: "v = of_int m * 2 powi e" "\<bar>m\<bar> < 2 ^ 24" "- 149 \<le> e"
    and lt: "\<bar>v\<bar> < 2 powi 128" by (auto simp: fits32_def)
  note lo = ilog2_bounds(1) [of "\<bar>v\<bar>"] and hi = ilog2_bounds(2) [of "\<bar>v\<bar>"]
  have av: "\<bar>v\<bar> = of_int \<bar>m\<bar> * 2 powi e" by (simp add: m(1) abs_mult)
  have "2 powi ilog2 \<bar>v\<bar> \<le> \<bar>v\<bar>" using lo assms(2) by simp
  also have "\<dots> < of_int (2 ^ 24) * 2 powi e" unfolding av using m(2) by (intro mult_strict_right_mono) (simp_all only: of_int_less_iff, simp)
  also have "\<dots> = 2 powi (e + 24)" by (simp add: power_int_add)
  finally have "ilog2 \<bar>v\<bar> < e + 24" by (rule powi_less_imp_less)
  then have Ee: "E \<le> e" using m(3) by (simp add: E ulp_exp_def)
  define k where "k = nat (\<bar>m\<bar> * 2 ^ nat (e - E))"
  have "(2 powi e :: rat) = 2 ^ nat (e - E) * 2 powi E"
    using Ee power_int_add [of "2 :: rat" "e - E" E] by (simp add: power_int_def [of _ "e - E"])
  then have k: "\<bar>v\<bar> = of_nat k * 2 powi E" by (simp add: av k_def)
  have "of_nat k * 2 powi E < (2 powi (ilog2 \<bar>v\<bar> + 1) :: rat)" using hi k assms(2) by simp
  also have "\<dots> \<le> 2 powi (E + 24)" by (rule power_int_increasing) (simp_all add: E ulp_exp_def)
  finally have "of_nat k < (of_nat (2 ^ 24) :: rat)" by (simp add: power_int_add)
  then have k24: "k < 2 ^ 24" by (simp only: of_nat_less_iff)
  have k23: "2 ^ 23 \<le> k" if "- 149 < E"
  proof -
    from that have "ilog2 \<bar>v\<bar> = E + 23" by (simp add: E ulp_exp_def)
    then have "2 powi (E + 23) \<le> of_nat k * (2 powi E :: rat)" using lo k assms(2) by simp
    then have "of_nat (2 ^ 23) \<le> (of_nat k :: rat)" by (simp add: power_int_add)
    then show ?thesis by (simp only: of_nat_le_iff)
  qed
  have "2 powi ilog2 \<bar>v\<bar> < (2 powi 128 :: rat)" using lo lt assms(2) by (auto intro: le_less_trans)
  then have "ilog2 \<bar>v\<bar> < 128" by (rule powi_less_imp_less)
  then have "E \<le> 104" by (simp add: E ulp_exp_def)
  moreover have "- 149 \<le> E" by (simp add: E ulp_exp_def)
  ultimately show ?thesis by (intro that [OF k k24 k23])
qed

section \<open>Decoding what was encoded\<close>

lemma rawBits_decode:
  assumes "ef < 255" "fr < 2 ^ 23" and w: "w = of_nat ((if neg then 2 ^ 31 else 0) + (ef * 2 ^ 23 + fr))"
  shows "rawBitsToFloat w = Fin ((if neg then - 1 else 1) *
     (if ef = 0 then of_nat fr * 2 powi (- 149) else of_nat (fr + 2 ^ 23) * 2 powi (int ef - 150)))"
proof -
  have lt: "ef * 2 ^ 23 + fr < 2 ^ 31" using assms(1,2) by simp
  then have n: "unat w = (if neg then 2 ^ 31 else 0) + (ef * 2 ^ 23 + fr)"
    unfolding w unsigned_of_nat take_bit_eq_mod by (simp del: of_nat_add of_nat_mult)
  have n': "unat w = fr + (if neg then 256 + ef else ef) * 2 ^ 23" unfolding n by simp
  have "unat w mod 2 ^ 23 = fr" using assms(2) unfolding n' by (simp only: mod_mult_self1 mod_less)
  moreover have "unat w div 2 ^ 23 = (if neg then 256 + ef else ef)"
    using assms(2) unfolding n' by (subst div_mult_self1) simp_all
  then have "unat w div 2 ^ 23 mod 2 ^ 8 = ef" using assms(1) by simp
  moreover have "2 ^ 31 \<le> unat w \<longleftrightarrow> neg" using lt unfolding n by auto
  ultimately show ?thesis using assms(1) by (simp add: rawBitsToFloat_def Let_def)
qed

lemma rawBits_roundtrip_fits:
  assumes "fits32 v"
  shows "rawBitsToFloat (floatToRawBits (Fin v)) = Fin v"
proof (cases "v = 0")
  case True
  then show ?thesis by (simp add: rawBitsToFloat_def)
next
  case False
  define E where "E = ulp_exp 24 (- 149) v"
  from fits32_significand [OF assms False E_def] obtain k where k: "\<bar>v\<bar> = of_nat k * 2 powi E" "k < 2 ^ 24"
    and k23: "- 149 < E \<Longrightarrow> 2 ^ 23 \<le> k" and E: "- 149 \<le> E" "E \<le> 104" by metis
  have m: "nat \<lfloor>\<bar>v\<bar> / 2 powi E\<rfloor> = k" by (simp add: k(1))
  have sg: "v = (if v < 0 then - 1 else 1) * \<bar>v\<bar>" by simp
  show ?thesis
  proof (cases "k < 2 ^ 23")
    case True
    with k23 E have "E = - 149" by linarith
    have "floatToRawBits (Fin v) = of_nat ((if v < 0 then 2 ^ 31 else 0) + (0 * 2 ^ 23 + k))"
      using False True m by (simp add: Let_def flip: E_def)
    from rawBits_decode [OF _ True this] have "rawBitsToFloat (floatToRawBits (Fin v)) =
        Fin ((if v < 0 then - 1 else 1) * (of_nat k * 2 powi (- 149)))" by simp
    with k(1) \<open>E = - 149\<close> sg show ?thesis by metis
  next
    case big: False
    have ef: "nat (E + 150) < 255" "nat (E + 150) \<noteq> 0" "int (nat (E + 150)) = E + 150" using E by auto
    have fr: "k - 2 ^ 23 < 2 ^ 23" using k(2) big by simp
    have "floatToRawBits (Fin v) = of_nat ((if v < 0 then 2 ^ 31 else 0) + (nat (E + 150) * 2 ^ 23 + (k - 2 ^ 23)))"
      using False big m by (simp add: Let_def flip: E_def)
    from rawBits_decode [OF ef(1) fr this] have "rawBitsToFloat (floatToRawBits (Fin v)) =
        Fin ((if v < 0 then - 1 else 1) * (of_nat (k - 2 ^ 23 + 2 ^ 23) * 2 powi E))"
      using ef by simp
    with k(1) sg big show ?thesis by simp
  qed
qed

lemma rawBits_roundtrip: "rawBitsToFloat (floatToRawBits (round32 x)) = round32 x"
proof (cases "round32 x")
  case (Fin v)
  then show ?thesis using rawBits_roundtrip_fits [OF round32_fits [OF Fin]] by simp
next
  case NaN
  then show ?thesis by (auto simp: round32_def fp_round_def Let_def split: if_splits)
qed (simp_all add: rawBitsToFloat_def Let_def)

section \<open>Rounding error\<close>

text \<open>Far from both ends of the exponent range the relative error is \<open>2^-24\<close>.\<close>

lemma round32_near:
  assumes x: "\<bar>x\<bar> \<le> B" and B: "2 powi (- 100) \<le> B" "B \<le> 2 ^ 100"
  shows "\<exists>v. round32 x = Fin v \<and> \<bar>v - x\<bar> \<le> B / 2 ^ 24"
proof (cases "x = 0")
  case True
  moreover have "0 \<le> B" using x by linarith
  ultimately show ?thesis by (simp add: round32_def fp_round_def)
next
  case False
  define e where "e = ulp_exp 24 (- 149) x"
  define v :: rat where "v = of_int (round_half_even (x / 2 powi e)) * 2 powi e"
  have "\<bar>v - x\<bar> \<le> max (\<bar>x\<bar> * 2 powi (- 24)) (2 powi (- 150))"
    using fp_round_val_err [OF False e_def] by (simp add: v_def e_def)
  also have "\<dots> \<le> B / 2 ^ 24"
  proof (rule max.boundedI)
    show "\<bar>x\<bar> * 2 powi (- 24) \<le> B / 2 ^ 24"
      using x by (simp add: power_int_def field_simps)
    have "(2 powi (- 150) :: rat) \<le> 2 powi (- 124)" by (rule power_int_increasing) simp_all
    also have "\<dots> = 2 powi (- 100) * 2 powi (- 24)" by (simp flip: power_int_add)
    also have "\<dots> \<le> B * 2 powi (- 24)" by (rule mult_right_mono [OF B(1)]) simp
    also have "\<dots> = B / 2 ^ 24" by (simp add: power_int_def field_simps)
    finally show "2 powi (- 150) \<le> B / 2 ^ 24" .
  qed
  finally have err: "\<bar>v - x\<bar> \<le> B / 2 ^ 24" .
  moreover have "B / 2 ^ 24 \<le> B" using x by (simp add: field_simps)
  ultimately have "\<bar>v\<bar> \<le> 2 * 2 ^ 100" using x B(2) by linarith
  also have "(2 * 2 ^ 100 :: rat) < 2 ^ 128" by simp
  finally have "\<not> 2 powi 128 \<le> \<bar>v\<bar>" by simp
  with False have "round32 x = Fin v"
    by (simp add: round32_def fp_round_def Let_def flip: e_def v_def)
  with err show ?thesis by blast
qed

end
