(* ===== verification/Damiao_Can.thy ===== *)
theory Damiao_Can
  imports Protocol_Io Ieee_Single Refresh_Scheduler
begin

text \<open>
  \<open>DamiaoCan.cpp\<close>: the back end of the DM drives, which are run in velocity mode.  A speed
  command is a \<open>float\<close> in a frame; a drive answers every frame with its state, position, speed
  and torque in one feedback frame.  Before the first command the velocity mode is written to a
  register and its acknowledgement awaited.  The operations that wait take, as arguments, what
  the other threads do to the object meanwhile.
\<close>

section \<open>State\<close>

record dm_motor_state =
  da_position :: int
  da_velocity :: i32
  da_current :: i16
  da_commandedVelocity :: i32
  da_acceleration :: i32
  da_deceleration :: i32
  da_feedbackState :: u8
  da_enabled :: bool
  da_fault :: bool
  da_positionReceived :: bool
  da_velocityReceived :: bool
  da_currentReceived :: bool
  da_modeReceived :: bool
  da_enabledReceived :: bool
  da_faultReceived :: bool
  da_feedbackSeen :: bool
  da_velocityModeConfigured :: bool
  da_feedbackRangeConfigured :: bool
  da_mode :: MotorMode

definition default_dm_motor :: dm_motor_state where
  "default_dm_motor = \<lparr>da_position = 0, da_velocity = 0, da_current = 0, da_commandedVelocity = 0,
     da_acceleration = 0, da_deceleration = 0, da_feedbackState = 0, da_enabled = False, da_fault = False,
     da_positionReceived = False, da_velocityReceived = False, da_currentReceived = False,
     da_modeReceived = False, da_enabledReceived = False, da_faultReceived = False, da_feedbackSeen = False,
     da_velocityModeConfigured = False, da_feedbackRangeConfigured = False, da_mode = ModeVelocity\<rparr>"

record dm_register_ack =
  ra_received :: bool
  ra_value :: u32

definition default_dm_ack :: dm_register_ack where
  "default_dm_ack = \<lparr>ra_received = False, ra_value = 0\<rparr>"

record dm_can = proto_io +
  dc_motorStates :: "u8 \<rightharpoonup> dm_motor_state"
  dc_refreshMotorIds :: "u8 list"
  dc_managedMotorIds :: "u8 set"
  dc_systemMotorIdsByNodeId :: "u8 \<rightharpoonup> motor_id"
  dc_refreshRateHz :: dbl
  dc_shuttingDown :: bool
  dc_pendingRegisterAcks :: "u16 \<rightharpoonup> dm_register_ack"

definition new_DamiaoCan :: "bool \<Rightarrow> bool \<Rightarrow> SharedDriverState option \<Rightarrow> string \<Rightarrow> dm_can" where
  "new_DamiaoCan controller txDispatcher sharedState deviceName =
     \<lparr>io_canController = controller, io_txDispatcher = txDispatcher, io_sharedState = sharedState,
      io_deviceName = deviceName, io_outbox = [], dc_motorStates = Map.empty, dc_refreshMotorIds = [],
      dc_managedMotorIds = {}, dc_systemMotorIdsByNodeId = Map.empty, dc_refreshRateHz = Fin 0,
      dc_shuttingDown = False, dc_pendingRegisterAcks = Map.empty\<rparr>"

text \<open>The destructor; afterwards the object has no dispatcher.\<close>

definition destroy_DamiaoCan :: "dm_can \<Rightarrow> dm_can" where
  "destroy_DamiaoCan s = s\<lparr>dc_shuttingDown := True, io_txDispatcher := False\<rparr>"

definition kDamiaoMasterId :: u32 where "kDamiaoMasterId = 0x000"
definition kDamiaoRegisterFrameId :: u32 where "kDamiaoRegisterFrameId = 0x7FF"
definition kDamiaoSpeedFrameBase :: u32 where "kDamiaoSpeedFrameBase = 0x200"
definition kDamiaoWriteRegisterCommand :: u8 where "kDamiaoWriteRegisterCommand = 0x55"
definition kDamiaoControlModeRegister :: u8 where "kDamiaoControlModeRegister = 10"
definition kDamiaoPMaxRegister :: u8 where "kDamiaoPMaxRegister = 21"
definition kDamiaoVMaxRegister :: u8 where "kDamiaoVMaxRegister = 22"
definition kDamiaoTMaxRegister :: u8 where "kDamiaoTMaxRegister = 23"
definition kDamiaoEnableCommand :: u8 where "kDamiaoEnableCommand = 0xFC"
definition kDamiaoDisableCommand :: u8 where "kDamiaoDisableCommand = 0xFD"
definition kDamiaoClearFaultCommand :: u8 where "kDamiaoClearFaultCommand = 0xFB"
definition kDamiaoEnabledStateCode :: u8 where "kDamiaoEnabledStateCode = 0x1"
definition kDamiaoDisabledStateCode :: u8 where "kDamiaoDisabledStateCode = 0x0"
definition kDamiaoVelocityModeValue :: u32 where "kDamiaoVelocityModeValue = 3"
definition kDamiaoDefaultPMax :: dbl where "kDamiaoDefaultPMax = round32 (25 / 2)"
definition kDamiaoDefaultVMax :: dbl where "kDamiaoDefaultVMax = round32 45"
definition kDamiaoDefaultTMax :: dbl where "kDamiaoDefaultTMax = round32 18"
definition kDamiaoProtocolScale :: dbl where "kDamiaoProtocolScale = round64 (1 / 10000)"

section \<open>Values on the wire\<close>

definition readUInt32LE :: "frame \<Rightarrow> nat \<Rightarrow> u32" where
  "readUInt32LE f index =
     (if unat (fr_dlc f) \<le> index + 3 then 0
      else join32 (fr_data f ! index) (fr_data f ! (index + 1)) (fr_data f ! (index + 2)) (fr_data f ! (index + 3)))"

definition uintToFloat :: "u32 \<Rightarrow> dbl \<Rightarrow> dbl \<Rightarrow> nat \<Rightarrow> dbl" where
  "uintToFloat raw minValue maxValue bits =
     (let maxRaw = flt_of_int (2 ^ bits - 1)
      in fadd (fdiv (fmul (flt_of_int (uint raw)) (fsub maxValue minValue)) maxRaw) minValue)"

definition rawToVelocityRadPerSec :: "i32 \<Rightarrow> dbl" where
  "rawToVelocityRadPerSec rawVelocity = to_float (dmul (dbl_of_int (sint rawVelocity)) kDamiaoProtocolScale)"

text \<open>A \<open>float\<close> is converted to \<open>double\<close> exactly.\<close>

definition rawPositionFromRadians :: "dbl \<Rightarrow> int" where
  "rawPositionFromRadians positionRad = llround 0 (ddiv positionRad kDamiaoProtocolScale)"

definition rawVelocityFromRadiansPerSec :: "dbl \<Rightarrow> i32" where
  "rawVelocityFromRadiansPerSec velocityRadPerSec = word_of_int (llround 0 (ddiv velocityRadPerSec kDamiaoProtocolScale))"

definition rawTorqueFromNewtonMeters :: "dbl \<Rightarrow> i16" where
  "rawTorqueFromNewtonMeters torqueNm =
     word_of_int (llround 0 (dmax (Fin (- 32768)) (dmin (Fin 32767) (dmul torqueNm (Fin 100)))))"

definition speed_frame :: "u8 \<Rightarrow> dbl \<Rightarrow> frame" where
  "speed_frame motorId velocityRadPerSec =
     (let rawBits = floatToRawBits velocityRadPerSec
      in \<lparr>fr_id = kDamiaoSpeedFrameBase + ucast motorId, fr_isExtended = False, fr_isRemoteRequest = False, fr_dlc = 4,
          fr_data = [byte_at 0 rawBits, byte_at 8 rawBits, byte_at 16 rawBits, byte_at 24 rawBits, 0, 0, 0, 0]\<rparr>)"

definition command_frame :: "u8 \<Rightarrow> u8 \<Rightarrow> frame" where
  "command_frame motorId command =
     \<lparr>fr_id = kDamiaoSpeedFrameBase + ucast motorId, fr_isExtended = False, fr_isRemoteRequest = False, fr_dlc = 8,
      fr_data = (replicate 8 0xFF)[7 := command]\<rparr>"

definition register_frame :: "u8 \<Rightarrow> u8 \<Rightarrow> u32 \<Rightarrow> frame" where
  "register_frame motorId registerId value =
     \<lparr>fr_id = kDamiaoRegisterFrameId, fr_isExtended = False, fr_isRemoteRequest = False, fr_dlc = 8,
      fr_data = [motorId, 0, kDamiaoWriteRegisterCommand, registerId,
                 byte_at 0 value, byte_at 8 value, byte_at 16 value, byte_at 24 value]\<rparr>"

definition sendSpeedFrame :: "u8 \<Rightarrow> dbl \<Rightarrow> Category \<Rightarrow> string \<Rightarrow> dm_can \<Rightarrow> bool \<times> dm_can" where
  "sendSpeedFrame motorId velocityRadPerSec category source s = submitTx (speed_frame motorId velocityRadPerSec) category source s"

definition sendMotorCommand :: "u8 \<Rightarrow> u8 \<Rightarrow> Category \<Rightarrow> string \<Rightarrow> dm_can \<Rightarrow> bool \<times> dm_can" where
  "sendMotorCommand motorId command category source s = submitTx (command_frame motorId command) category source s"

definition sendRegisterWrite :: "u8 \<Rightarrow> u8 \<Rightarrow> u32 \<Rightarrow> string \<Rightarrow> dm_can \<Rightarrow> bool \<times> dm_can" where
  "sendRegisterWrite motorId registerId value source s = submitTx (register_frame motorId registerId value) Config source s"

section \<open>Identifiers and shared state\<close>

definition dm_registerManagedMotorId :: "motor_id \<Rightarrow> dm_can \<Rightarrow> dm_can" where
  "dm_registerManagedMotorId mid s =
     (let n = toProtocolNodeId mid;
          s1 = s\<lparr>dc_managedMotorIds := insert n (dc_managedMotorIds s),
                 dc_systemMotorIdsByNodeId := (dc_systemMotorIdsByNodeId s)(n \<mapsto> mid)\<rparr>
      in on_shared (registerAxis (MakeAxisKey (io_deviceName s) DM mid)) s1)"

definition dm_isManagedMotorId :: "dm_can \<Rightarrow> u8 \<Rightarrow> bool" where
  "dm_isManagedMotorId s motorId \<longleftrightarrow> motorId \<in> dc_managedMotorIds s"

definition dm_resolveSystemMotorId :: "dm_can \<Rightarrow> u8 \<Rightarrow> motor_id" where
  "dm_resolveSystemMotorId s motorId =
     (case dc_systemMotorIdsByNodeId s motorId of None \<Rightarrow> motorIdFromProtocolNodeId motorId | Some mid \<Rightarrow> mid)"

definition dm_makeAxisKey :: "dm_can \<Rightarrow> u8 \<Rightarrow> AxisKey" where
  "dm_makeAxisKey s motorId = MakeAxisKey (io_deviceName s) DM (dm_resolveSystemMotorId s motorId)"

definition dm_feedback :: "time_ns \<Rightarrow> dm_motor_state \<Rightarrow> AxisFeedbackState \<Rightarrow> AxisFeedbackState" where
  "dm_feedback nowNs state feedback =
     feedback\<lparr>fb_position := da_position state, fb_velocity := da_velocity state, fb_current := scast (da_current state),
       fb_mode := da_mode state, fb_positionValid := da_positionReceived state,
       fb_velocityValid := da_velocityReceived state, fb_currentValid := da_currentReceived state,
       fb_modeValid := da_modeReceived state, fb_enabled := da_enabled state, fb_fault := da_fault state,
       fb_enabledValid := da_enabledReceived state, fb_faultValid := da_faultReceived state,
       fb_feedbackSeen := da_feedbackSeen state, fb_lastRxSteadyNs := nowNs, fb_lastValidStateSteadyNs := nowNs,
       fb_consecutiveTimeoutCount := 0\<rparr>"

definition dm_syncSharedFeedback :: "time_ns \<Rightarrow> u8 \<Rightarrow> dm_motor_state \<Rightarrow> dm_can \<Rightarrow> dm_can" where
  "dm_syncSharedFeedback now motorId state s =
     on_shared (mutateAxisFeedback (dm_makeAxisKey s motorId) (dm_feedback now state)) s"

definition dm_command :: "time_ns \<Rightarrow> i32 \<Rightarrow> bool \<Rightarrow> AxisCommandState \<Rightarrow> AxisCommandState" where
  "dm_command nowNs targetVelocity valid command =
     command\<lparr>ac_targetPosition := 0, ac_targetVelocity := targetVelocity, ac_desiredMode := ModeVelocity,
       ac_desiredModeValid := True, ac_valid := valid, ac_lastCommandSteadyNs := (if valid then nowNs else 0)\<rparr>"

definition dm_syncSharedCommand :: "time_ns \<Rightarrow> u8 \<Rightarrow> i32 \<Rightarrow> bool \<Rightarrow> dm_can \<Rightarrow> dm_can" where
  "dm_syncSharedCommand now motorId targetVelocity valid s =
     on_shared (mutateAxisCommand (dm_makeAxisKey s motorId) (dm_command now targetVelocity valid)) s"

definition dm_mode_selection :: "MotorMode \<Rightarrow> AxisCommandState \<Rightarrow> AxisCommandState" where
  "dm_mode_selection desiredMode command =
     command\<lparr>ac_targetPosition := 0, ac_targetVelocity := 0, ac_desiredMode := desiredMode,
       ac_desiredModeValid := True, ac_valid := False, ac_lastCommandSteadyNs := 0\<rparr>"

definition dm_syncSharedModeSelection :: "u8 \<Rightarrow> MotorMode \<Rightarrow> dm_can \<Rightarrow> dm_can" where
  "dm_syncSharedModeSelection motorId desiredMode s =
     on_shared (mutateAxisCommand (dm_makeAxisKey s motorId) (dm_mode_selection desiredMode)) s"

definition dm_syncSharedIntent :: "u8 \<Rightarrow> AxisIntent \<Rightarrow> dm_can \<Rightarrow> dm_can" where
  "dm_syncSharedIntent motorId intent s = on_shared (setAxisIntent (dm_makeAxisKey s motorId) intent) s"

definition dm_motor :: "dm_can \<Rightarrow> u8 \<Rightarrow> dm_motor_state" where
  "dm_motor s motorId = map_at default_dm_motor (dc_motorStates s) motorId"

definition dm_modify :: "u8 \<Rightarrow> (dm_motor_state \<Rightarrow> dm_motor_state) \<Rightarrow> dm_can \<Rightarrow> dm_can" where
  "dm_modify motorId f s = s\<lparr>dc_motorStates := map_modify default_dm_motor motorId f (dc_motorStates s)\<rparr>"

section \<open>Waiting for the drive\<close>

definition pendingRegisterAckKey :: "u8 \<Rightarrow> u8 \<Rightarrow> u16" where
  "pendingRegisterAckKey motorId registerId = push_bit 8 (ucast motorId) OR ucast registerId"

definition register_acked :: "u8 \<Rightarrow> u8 \<Rightarrow> u32 \<Rightarrow> dm_can \<Rightarrow> bool" where
  "register_acked motorId registerId value s =
     (case dc_pendingRegisterAcks s (pendingRegisterAckKey motorId registerId) of
        None \<Rightarrow> False | Some ack \<Rightarrow> ra_received ack \<and> ra_value ack = value)"

definition writeRegisterAndWaitForAck ::
    "(dm_can \<Rightarrow> dm_can) list \<Rightarrow> u8 \<Rightarrow> u8 \<Rightarrow> u32 \<Rightarrow> dm_can \<Rightarrow> bool \<times> dm_can" where
  "writeRegisterAndWaitForAck others motorId registerId value s =
     (if \<not> io_canController s \<or> \<not> io_txDispatcher s then (False, s)
      else let key = pendingRegisterAckKey motorId registerId;
               s1 = s\<lparr>dc_pendingRegisterAcks := (dc_pendingRegisterAcks s)(key \<mapsto> default_dm_ack)\<rparr>
           in case sendRegisterWrite motorId registerId value ''DamiaoCan::sendRegisterWrite'' s1 of
                (sent, s2) \<Rightarrow>
                  if \<not> sent then (False, s2)
                  else case wait_for (register_acked motorId registerId value) others s2 of
                         (received, s3) \<Rightarrow>
                           (received, s3\<lparr>dc_pendingRegisterAcks := (dc_pendingRegisterAcks s3)(key := None)\<rparr>))"

definition in_feedback_state :: "u8 \<Rightarrow> u8 \<Rightarrow> dm_can \<Rightarrow> bool" where
  "in_feedback_state motorId expectedState s =
     (case dc_motorStates s motorId of
        None \<Rightarrow> False | Some st \<Rightarrow> da_feedbackSeen st \<and> da_feedbackState st = expectedState)"

definition waitForFeedbackState :: "(dm_can \<Rightarrow> dm_can) list \<Rightarrow> u8 \<Rightarrow> u8 \<Rightarrow> dm_can \<Rightarrow> bool \<times> dm_can" where
  "waitForFeedbackState others motorId expectedState s = wait_for (in_feedback_state motorId expectedState) others s"

text \<open>
  What the other threads do during the waits of one operation: during the wait for the
  register acknowledgement, the pause after it, the pause between the enable command and the
  neutral speed, and the wait for the reported state.
\<close>

record dm_env =
  de_ack :: "(dm_can \<Rightarrow> dm_can) list"
  de_configured :: "dm_can \<Rightarrow> dm_can"
  de_commanded :: "dm_can \<Rightarrow> dm_can"
  de_feedback :: "(dm_can \<Rightarrow> dm_can) list"

definition ensureVelocityModeConfigured :: "dm_env \<Rightarrow> u8 \<Rightarrow> dm_can \<Rightarrow> bool \<times> dm_can" where
  "ensureVelocityModeConfigured env motorId s =
     (if (case dc_motorStates s motorId of None \<Rightarrow> False | Some st \<Rightarrow> da_velocityModeConfigured st) then (True, s)
      else case writeRegisterAndWaitForAck (de_ack env) motorId kDamiaoControlModeRegister kDamiaoVelocityModeValue s of
             (ok, s1) \<Rightarrow>
               if \<not> ok then (False, s1)
               else let s2 = dm_modify motorId (\<lambda>st. st\<lparr>da_velocityModeConfigured := True, da_mode := ModeVelocity\<rparr>)
                               (de_configured env s1)
                    in (True, dm_syncSharedModeSelection motorId ModeVelocity s2))"

text \<open>The three range registers, written in order with a pause after each; no operation calls it.\<close>

fun write_ranges ::
    "(u8 \<Rightarrow> (dm_can \<Rightarrow> dm_can) list) \<Rightarrow> (u8 \<Rightarrow> dm_can \<Rightarrow> dm_can) \<Rightarrow> u8 \<Rightarrow> (u8 \<times> dbl) list \<Rightarrow> dm_can \<Rightarrow> bool \<times> dm_can" where
  "write_ranges acks rests motorId [] s = (True, s)"
| "write_ranges acks rests motorId ((registerId, limit) # entries) s =
     (case writeRegisterAndWaitForAck (acks registerId) motorId registerId (floatToRawBits limit) s of
        (ok, s1) \<Rightarrow> if \<not> ok then (False, s1) else write_ranges acks rests motorId entries (rests registerId s1))"

definition ensureFeedbackMappingConfigured ::
    "(u8 \<Rightarrow> (dm_can \<Rightarrow> dm_can) list) \<Rightarrow> (u8 \<Rightarrow> dm_can \<Rightarrow> dm_can) \<Rightarrow> u8 \<Rightarrow> dm_can \<Rightarrow> bool \<times> dm_can" where
  "ensureFeedbackMappingConfigured acks rests motorId s =
     (if (case dc_motorStates s motorId of None \<Rightarrow> False | Some st \<Rightarrow> da_feedbackRangeConfigured st) then (True, s)
      else case write_ranges acks rests motorId
                  [(kDamiaoPMaxRegister, kDamiaoDefaultPMax), (kDamiaoVMaxRegister, kDamiaoDefaultVMax),
                   (kDamiaoTMaxRegister, kDamiaoDefaultTMax)] s of
             (ok, s1) \<Rightarrow> if \<not> ok then (False, s1)
                        else (True, dm_modify motorId (da_feedbackRangeConfigured_update (\<lambda>_. True)) s1))"

section \<open>Commands\<close>

definition dm_setMode :: "dm_env \<Rightarrow> motor_id \<Rightarrow> MotorMode \<Rightarrow> dm_can \<Rightarrow> bool \<times> dm_can" where
  "dm_setMode env mid mode s =
     (if mode \<noteq> ModeVelocity then (False, s)
      else let nodeId = toProtocolNodeId mid
           in case ensureVelocityModeConfigured env nodeId (dm_registerManagedMotorId mid s) of
                (ok, s1) \<Rightarrow> if \<not> ok then (False, s1) else (True, dm_syncSharedModeSelection nodeId ModeVelocity s1))"

definition dm_setVelocity :: "dm_env \<Rightarrow> time_ns \<Rightarrow> motor_id \<Rightarrow> i32 \<Rightarrow> dm_can \<Rightarrow> bool \<times> dm_can" where
  "dm_setVelocity env now mid velocity s =
     (let nodeId = toProtocolNodeId mid
      in case ensureVelocityModeConfigured env nodeId (dm_registerManagedMotorId mid s) of
           (ok, s1) \<Rightarrow>
             if \<not> ok then (False, s1)
             else let s2 = dm_modify nodeId (\<lambda>st. st\<lparr>da_commandedVelocity := velocity, da_mode := ModeVelocity\<rparr>) s1;
                      s3 = dm_syncSharedIntent nodeId IntentRun (dm_syncSharedCommand now nodeId velocity True s2)
                  in sendSpeedFrame nodeId (rawToVelocityRadPerSec velocity) Control ''DamiaoCan::setVelocity'' s3)"

definition dm_setAcceleration :: "motor_id \<Rightarrow> i32 \<Rightarrow> dm_can \<Rightarrow> bool \<times> dm_can" where
  "dm_setAcceleration mid acceleration s =
     (True, dm_modify (toProtocolNodeId mid) (da_acceleration_update (\<lambda>_. acceleration)) (dm_registerManagedMotorId mid s))"

definition dm_setDeceleration :: "motor_id \<Rightarrow> i32 \<Rightarrow> dm_can \<Rightarrow> bool \<times> dm_can" where
  "dm_setDeceleration mid deceleration s =
     (True, dm_modify (toProtocolNodeId mid) (da_deceleration_update (\<lambda>_. deceleration)) (dm_registerManagedMotorId mid s))"

definition dm_setPosition :: "motor_id \<Rightarrow> i32 \<Rightarrow> dm_can \<Rightarrow> bool \<times> dm_can" where
  "dm_setPosition mid position s = (False, s)"

definition dm_quickSetPosition :: "motor_id \<Rightarrow> i32 \<Rightarrow> dm_can \<Rightarrow> bool \<times> dm_can" where
  "dm_quickSetPosition mid position s = (False, s)"

definition dm_Enable :: "dm_env \<Rightarrow> motor_id \<Rightarrow> dm_can \<Rightarrow> bool \<times> dm_can" where
  "dm_Enable env mid s =
     (let nodeId = toProtocolNodeId mid
      in case ensureVelocityModeConfigured env nodeId (dm_registerManagedMotorId mid s) of
           (ok, s1) \<Rightarrow>
             if \<not> ok then (False, s1)
             else let s2 = dm_syncSharedIntent nodeId IntentEnable (dm_syncSharedModeSelection nodeId ModeVelocity s1)
                  in case sendMotorCommand nodeId kDamiaoEnableCommand Control ''DamiaoCan::Enable'' s2 of
                       (sent, s3) \<Rightarrow>
                         if \<not> sent then (False, s3)
                         else case sendSpeedFrame nodeId (Fin 0) Control ''DamiaoCan::EnableNeutral'' (de_commanded env s3) of
                                (neutral, s4) \<Rightarrow>
                                  if \<not> neutral then (False, s4)
                                  else waitForFeedbackState (de_feedback env) nodeId kDamiaoEnabledStateCode s4)"

definition dm_Disable :: "dm_env \<Rightarrow> time_ns \<Rightarrow> motor_id \<Rightarrow> dm_can \<Rightarrow> bool \<times> dm_can" where
  "dm_Disable env now mid s =
     (let nodeId = toProtocolNodeId mid;
          s1 = dm_modify nodeId (da_commandedVelocity_update (\<lambda>_. 0)) (dm_registerManagedMotorId mid s);
          s2 = dm_syncSharedIntent nodeId IntentDisable (dm_syncSharedCommand now nodeId 0 True s1)
      in case sendSpeedFrame nodeId (Fin 0) Control ''DamiaoCan::DisableNeutral'' s2 of
           (neutral, s3) \<Rightarrow>
             if \<not> neutral then (False, s3)
             else case sendMotorCommand nodeId kDamiaoDisableCommand Control ''DamiaoCan::Disable'' s3 of
                    (sent, s4) \<Rightarrow>
                      if \<not> sent then (False, s4)
                      else waitForFeedbackState (de_feedback env) nodeId kDamiaoDisabledStateCode s4)"

definition dm_Stop :: "time_ns \<Rightarrow> motor_id \<Rightarrow> dm_can \<Rightarrow> bool \<times> dm_can" where
  "dm_Stop now mid s =
     (let nodeId = toProtocolNodeId mid;
          s1 = dm_modify nodeId (da_commandedVelocity_update (\<lambda>_. 0)) (dm_registerManagedMotorId mid s);
          s2 = dm_syncSharedIntent nodeId IntentHold (dm_syncSharedCommand now nodeId 0 True s1)
      in sendSpeedFrame nodeId (Fin 0) Control ''DamiaoCan::Stop'' s2)"

definition dm_ResetFault :: "motor_id \<Rightarrow> dm_can \<Rightarrow> bool \<times> dm_can" where
  "dm_ResetFault mid s =
     (let nodeId = toProtocolNodeId mid
      in sendMotorCommand nodeId kDamiaoClearFaultCommand Recover ''DamiaoCan::ResetFault''
           (dm_syncSharedIntent nodeId IntentRecover (dm_registerManagedMotorId mid s)))"

definition dm_getPosition :: "motor_id \<Rightarrow> dm_can \<Rightarrow> int" where
  "dm_getPosition mid s = (case dc_motorStates s (toProtocolNodeId mid) of None \<Rightarrow> 0 | Some st \<Rightarrow> da_position st)"

definition dm_getCurrent :: "motor_id \<Rightarrow> dm_can \<Rightarrow> i16" where
  "dm_getCurrent mid s = (case dc_motorStates s (toProtocolNodeId mid) of None \<Rightarrow> 0 | Some st \<Rightarrow> da_current st)"

definition dm_getVelocity :: "motor_id \<Rightarrow> dm_can \<Rightarrow> i32" where
  "dm_getVelocity mid s = (case dc_motorStates s (toProtocolNodeId mid) of None \<Rightarrow> 0 | Some st \<Rightarrow> da_velocity st)"

definition dm_isEnabled :: "motor_id \<Rightarrow> dm_can \<Rightarrow> bool" where
  "dm_isEnabled mid s = (case dc_motorStates s (toProtocolNodeId mid) of None \<Rightarrow> False | Some st \<Rightarrow> da_enabled st)"

definition dm_hasFault :: "motor_id \<Rightarrow> dm_can \<Rightarrow> bool" where
  "dm_hasFault mid s = (case dc_motorStates s (toProtocolNodeId mid) of None \<Rightarrow> False | Some st \<Rightarrow> da_fault st)"

section \<open>Refresh\<close>

definition dm_register_refresh :: "motor_id \<Rightarrow> dm_can \<Rightarrow> dm_can" where
  "dm_register_refresh mid s =
     (let nodeId = toProtocolNodeId mid
      in dm_registerManagedMotorId mid (s\<lparr>dc_refreshMotorIds := dc_refreshMotorIds s @ [nodeId]\<rparr>))"

definition dm_initializeMotorRefresh :: "motor_id list \<Rightarrow> dm_can \<Rightarrow> dm_can" where
  "dm_initializeMotorRefresh mids s =
     fold dm_register_refresh mids
       (s\<lparr>dc_refreshMotorIds := [], dc_managedMotorIds := {}, dc_systemMotorIdsByNodeId := Map.empty\<rparr>)"

definition dm_setRefreshRateHz :: "dbl \<Rightarrow> dm_can \<Rightarrow> dm_can" where
  "dm_setRefreshRateHz hz s = s\<lparr>dc_refreshRateHz := normalizeRefreshRateHz hz\<rparr>"

definition dm_computeRefreshSleep :: "dbl \<Rightarrow> nat \<Rightarrow> int" where
  "dm_computeRefreshSleep hz motorCount =
     (if isfinite hz \<and> dlt (Fin 0) hz then max 1 (llround 0 (ddiv (Fin 1000) hz))
      else int (max 10 (motorCount * 10)))"

definition dm_refreshSleepInterval :: "dm_can \<Rightarrow> int" where
  "dm_refreshSleepInterval s = dm_computeRefreshSleep (dc_refreshRateHz s) (max 1 (length (dc_refreshMotorIds s)))"

fun dm_issueRefreshQuery :: "motor_id \<Rightarrow> DmRefreshQuery \<Rightarrow> dm_can \<Rightarrow> bool \<times> dm_can" where
  "dm_issueRefreshQuery mid DmKeepalive s =
     (if dc_shuttingDown s then (False, s)
      else let nodeId = toProtocolNodeId mid;
               s1 = dm_registerManagedMotorId mid s;
               commandedVelocity = (case dc_motorStates s1 nodeId of None \<Rightarrow> 0 | Some st \<Rightarrow> da_commandedVelocity st)
           in sendSpeedFrame nodeId (rawToVelocityRadPerSec commandedVelocity) Query ''DamiaoCan::issueRefreshQuery'' s1)"

section \<open>Responses\<close>

definition position_field :: "frame \<Rightarrow> u32" where
  "position_field f = push_bit 8 (ucast (fr_data f ! 1)) OR ucast (fr_data f ! 2)"

definition velocity_field :: "frame \<Rightarrow> u32" where
  "velocity_field f = push_bit 4 (ucast (fr_data f ! 3)) OR ucast (drop_bit 4 (fr_data f ! 4))"

definition torque_field :: "frame \<Rightarrow> u32" where
  "torque_field f = push_bit 8 (ucast (fr_data f ! 4 AND 0x0F)) OR ucast (fr_data f ! 5)"

definition dm_absorb :: "frame \<Rightarrow> dm_motor_state \<Rightarrow> dm_motor_state" where
  "dm_absorb f state =
     (let feedbackState = drop_bit 4 (fr_data f ! 0) AND 0x0F;
          positionRad = uintToFloat (position_field f) (dneg kDamiaoDefaultPMax) kDamiaoDefaultPMax 16;
          velocityRadPerSec = uintToFloat (velocity_field f) (dneg kDamiaoDefaultVMax) kDamiaoDefaultVMax 12;
          torqueNm = uintToFloat (torque_field f) (dneg kDamiaoDefaultTMax) kDamiaoDefaultTMax 12
      in state\<lparr>da_position := rawPositionFromRadians positionRad,
           da_velocity := rawVelocityFromRadiansPerSec velocityRadPerSec,
           da_current := rawTorqueFromNewtonMeters torqueNm, da_feedbackState := feedbackState,
           da_enabled := (feedbackState = kDamiaoEnabledStateCode),
           da_fault := (feedbackState \<noteq> kDamiaoDisabledStateCode \<and> feedbackState \<noteq> kDamiaoEnabledStateCode),
           da_positionReceived := True, da_velocityReceived := True, da_currentReceived := True,
           da_mode := ModeVelocity, da_modeReceived := True, da_enabledReceived := True,
           da_faultReceived := True, da_feedbackSeen := True\<rparr>)"

definition dm_handleResponse :: "time_ns \<Rightarrow> frame \<Rightarrow> dm_can \<Rightarrow> dm_can" where
  "dm_handleResponse now f s =
     (if fr_id f \<noteq> kDamiaoMasterId then s
      else let key = pendingRegisterAckKey (fr_data f ! 0) (fr_data f ! 3)
           in if 8 \<le> fr_dlc f \<and> fr_data f ! 1 = 0 \<and> fr_data f ! 2 = kDamiaoWriteRegisterCommand \<and>
                 dc_pendingRegisterAcks s key \<noteq> None
              then s\<lparr>dc_pendingRegisterAcks := (dc_pendingRegisterAcks s)
                       (key \<mapsto> \<lparr>ra_received = True, ra_value = readUInt32LE f 4\<rparr>)\<rparr>
              else if fr_dlc f < 8 then s
              else let motorId = fr_data f ! 0 AND 0x0F
                   in if \<not> dm_isManagedMotorId s motorId then s
                      else let s1 = dm_modify motorId (dm_absorb f) s
                           in dm_syncSharedFeedback now motorId (dm_motor s1 motorId) s1)"

end
