(* ===== verification/Damiao_Can_Correctness.thy ===== *)
theory Damiao_Can_Correctness
  imports Damiao_Can Safe_Command
begin

text \<open>
  Correctness of the DM back end: how accurately velocities travel to the drive and readings
  come back, the agreement of every motor state with the last reported state code in all
  reachable states, whatever other threads do during the waits, and what happens when a drive
  does not acknowledge the velocity mode.
\<close>

section \<open>Accuracy of the wire values\<close>

lemma tiny: "n \<le> - 14 \<Longrightarrow> (2 powi n :: rat) \<le> 1 / 10000"
proof -
  assume "n \<le> - 14"
  then have "(2 powi n :: rat) \<le> 2 powi (- 14)" by (rule power_int_increasing) simp
  also have "\<dots> \<le> 1 / 10000" by (simp add: power_int_def power_divide)
  finally show ?thesis .
qed

text \<open>The values of this protocol are far from the ends of the exponent ranges.\<close>

lemma near64: "\<bar>x\<bar> \<le> B \<Longrightarrow> 1 / 10000 \<le> B \<Longrightarrow> B \<le> 2 ^ 40 \<Longrightarrow> \<exists>v. round64 x = Fin v \<and> \<bar>v - x\<bar> \<le> B / 2 ^ 53"
  using tiny [of "- 1000"] power_increasing [of 40 1000 "2 :: rat"]
  by (intro round64_near) (auto intro: order_trans)

lemma near32: "\<bar>x\<bar> \<le> B \<Longrightarrow> 1 / 10000 \<le> B \<Longrightarrow> B \<le> 2 ^ 40 \<Longrightarrow> \<exists>v. round32 x = Fin v \<and> \<bar>v - x\<bar> \<le> B / 2 ^ 24"
  using tiny [of "- 100"] power_increasing [of 40 100 "2 :: rat"]
  by (intro round32_near) (auto intro: order_trans)

lemma dm_scale: "\<exists>\<sigma>. kDamiaoProtocolScale = Fin \<sigma> \<and> \<bar>\<sigma> - 1 / 10000\<bar> \<le> 1 / 10000 / 2 ^ 53"
  unfolding kDamiaoProtocolScale_def by (intro near64) simp_all

lemma dm_velocity_near:
  "\<exists>v q. rawToVelocityRadPerSec raw = Fin v \<and> rawToVelocityRadPerSec raw = round32 q \<and>
     \<bar>v - of_int (sint raw) / 10000\<bar> \<le> \<bar>of_int (sint raw)\<bar> / 10000 / 2 ^ 23"
proof (cases "sint raw = 0")
  case True
  obtain \<sigma> where \<sigma>: "kDamiaoProtocolScale = Fin \<sigma>" using dm_scale by blast
  have zero: "round64 0 = Fin 0" "round32 0 = Fin 0" by (simp_all add: round64_def round32_def fp_round_def)
  have "rawToVelocityRadPerSec raw = Fin 0"
    unfolding rawToVelocityRadPerSec_def \<sigma> by (simp add: True dbl_of_int_def zero)
  with True zero(2) show ?thesis by (intro exI [of _ 0]) simp
next
  case False
  define r :: rat where "r = of_int (sint raw)"
  define x where "x = \<bar>r\<bar> / 10000"
  obtain \<sigma> where \<sigma>: "kDamiaoProtocolScale = Fin \<sigma>" "\<bar>\<sigma> - 1 / 10000\<bar> \<le> 1 / 10000 / 2 ^ 53"
    using dm_scale by blast
  have range: "- (2 ^ 31) \<le> sint raw" "sint raw < 2 ^ 31"
    using sint_greater_eq [of raw] sint_less [of raw] by simp_all
  then have "\<bar>sint raw\<bar> \<le> 2 ^ 31" "1 \<le> \<bar>sint raw\<bar>" using False by auto
  then have r: "\<bar>r\<bar> \<le> 2 ^ 31" "1 \<le> \<bar>r\<bar>" unfolding r_def by (metis of_int_abs of_int_le_iff of_int_numeral of_int_power, metis of_int_abs of_int_le_iff of_int_1)
  then have x: "1 / 10000 \<le> x" "x \<le> 2 ^ 20" by (simp_all add: x_def)
  have a: "\<bar>r * \<sigma> - r / 10000\<bar> \<le> x / 2 ^ 53"
  proof -
    have "\<bar>r * \<sigma> - r / 10000\<bar> = \<bar>r\<bar> * \<bar>\<sigma> - 1 / 10000\<bar>"
      by (simp add: right_diff_distrib flip: abs_mult)
    also have "\<dots> \<le> \<bar>r\<bar> * (1 / 10000 / 2 ^ 53)" using \<sigma>(2) by (rule mult_left_mono) simp
    finally show ?thesis by (simp add: x_def)
  qed
  have rx: "\<bar>r / 10000\<bar> = x" by (simp add: x_def)
  have "x / 2 ^ 53 \<le> x" "x / 2 ^ 24 \<le> x" using x(1) by simp_all
  then have ax: "\<bar>r * \<sigma>\<bar> \<le> 2 * x" using a rx by linarith
  have "\<exists>p. round64 (r * \<sigma>) = Fin p \<and> \<bar>p - r * \<sigma>\<bar> \<le> (2 * x) / 2 ^ 53"
    using ax x by (intro near64; simp)
  then obtain p where p: "round64 (r * \<sigma>) = Fin p" "\<bar>p - r * \<sigma>\<bar> \<le> (2 * x) / 2 ^ 53" by blast
  have px: "\<bar>p - r / 10000\<bar> \<le> 3 * x / 2 ^ 53" using a p(2) by linarith
  have pb: "\<bar>p\<bar> \<le> x + 3 * x / 2 ^ 53" using px rx by linarith
  have "\<exists>v. round32 p = Fin v \<and> \<bar>v - p\<bar> \<le> (x + 3 * x / 2 ^ 53) / 2 ^ 24"
    using pb x by (intro near32; simp)
  then obtain v where v: "round32 p = Fin v" "\<bar>v - p\<bar> \<le> (x + 3 * x / 2 ^ 53) / 2 ^ 24" by blast
  have "(x + 3 * x / 2 ^ 53) / 2 ^ 24 + 3 * x / 2 ^ 53 \<le> x / 2 ^ 23" using x(1) by simp
  then have "\<bar>v - r / 10000\<bar> \<le> x / 2 ^ 23" using v(2) px by linarith
  moreover have "rawToVelocityRadPerSec raw = round32 p"
  proof -
    have "dbl_of_int (sint raw) = Fin r" unfolding r_def using range by (intro dbl_of_int_exact) simp
    then show ?thesis unfolding rawToVelocityRadPerSec_def \<sigma>(1) by (simp add: p(1))
  qed
  ultimately show ?thesis using v(1) unfolding r_def x_def by metis
qed

text \<open>One conversion of a field to a \<open>float\<close>: two roundings, the product being exact.\<close>

lemma uintToFloat_near:
  assumes raw: "uint raw \<le> 2 ^ bits - 1" and bits: "0 < bits" "bits \<le> 16"
    and hi: "maxValue = Fin (of_int R / 2)" and lo: "minValue = Fin (- of_int R / 2)"
    and R: "1 \<le> R" "R \<le> 128" and prod: "(2 ^ bits - 1) * R \<le> 2 ^ 24"
  shows "\<exists>v. uintToFloat raw minValue maxValue bits = Fin v \<and>
     \<bar>v - (of_int (uint raw) * of_int R / (2 ^ bits - 1) - of_int R / 2)\<bar> \<le> of_int R / 2 ^ 22"
proof -
  define N :: rat where "N = 2 ^ bits - 1"
  define u :: rat where "u = of_int (uint raw)"
  define q where "q = u * of_int R / N"
  have Nint: "N = of_int (2 ^ bits - 1)" by (simp add: N_def)
  have "(2 :: int) ^ 1 \<le> 2 ^ bits" using bits(1) by (intro power_increasing) auto
  then have "(of_int 1 :: rat) \<le> of_int (2 ^ bits - 1)" by (simp only: of_int_le_iff) simp
  then have N1: "1 \<le> N" by (simp only: Nint of_int_1)
  have "(2 :: int) ^ bits \<le> 2 ^ 16" using bits(2) by (intro power_increasing) auto
  then have small: "\<bar>2 ^ bits - 1\<bar> \<le> (2 ^ 24 :: int)" "\<bar>uint raw\<bar> \<le> 2 ^ 24" using raw by auto
  have "uint raw * R \<le> (2 ^ bits - 1) * R" using raw R(1) by (intro mult_right_mono) auto
  then have "uint raw * R \<le> 2 ^ 24" using prod by (rule order_trans)
  then have pr: "\<bar>uint raw * R\<bar> \<le> 2 ^ 24" using R(1) by simp
  have "0 \<le> u" unfolding u_def by (simp only: of_int_0_le_iff) simp
  moreover have "u \<le> N" using raw unfolding u_def Nint by (simp only: of_int_le_iff)
  ultimately have u0: "0 \<le> u" "u \<le> N" .
  have "(of_int 1 :: rat) \<le> of_int R" "(of_int R :: rat) \<le> of_int 128" using R by (simp_all only: of_int_le_iff)
  then have R0: "0 \<le> (of_int R :: rat)" "(1 :: rat) \<le> of_int R" "(of_int R :: rat) \<le> 128" by simp_all
  have q: "0 \<le> q" "q \<le> of_int R"
    using u0 N1 R0(1) by (simp_all add: q_def pos_divide_le_eq mult.commute [of _ N] mult_right_mono)
  have "fsub maxValue minValue = Fin (of_int R)"
    using R round32_int [of R] by (simp add: fsub_def hi lo)
  moreover have "flt_of_int (uint raw) = Fin u" "flt_of_int (2 ^ bits - 1) = Fin N"
    unfolding flt_of_int_def u_def Nint by (rule round32_int, rule small)+
  moreover have "round32 (u * of_int R) = Fin (u * of_int R)"
    using round32_int [OF pr] unfolding u_def of_int_mult .
  ultimately have step: "uintToFloat raw minValue maxValue bits = fadd (round32 q) minValue"
    using N1 by (simp add: uintToFloat_def Let_def q_def)
  have "\<exists>d. round32 q = Fin d \<and> \<bar>d - q\<bar> \<le> of_int R / 2 ^ 24"
    using q R0 by (intro near32; simp)
  then obtain d where d: "round32 q = Fin d" "\<bar>d - q\<bar> \<le> of_int R / 2 ^ 24" by blast
  have "of_int R / 2 ^ 24 \<le> (of_int R / 2 :: rat)" using R0 by simp
  then have "\<bar>d - of_int R / 2\<bar> \<le> of_int R" using d(2) q by linarith
  then have "\<exists>v. round32 (d - of_int R / 2) = Fin v \<and> \<bar>v - (d - of_int R / 2)\<bar> \<le> of_int R / 2 ^ 24"
    using R0 by (intro near32; simp)
  then obtain v where v: "round32 (d - of_int R / 2) = Fin v" "\<bar>v - (d - of_int R / 2)\<bar> \<le> of_int R / 2 ^ 24" by blast
  have "of_int R / 2 ^ 24 + of_int R / 2 ^ 24 \<le> (of_int R / 2 ^ 22 :: rat)" using R0 by simp
  then have "\<bar>v - (q - of_int R / 2)\<bar> \<le> of_int R / 2 ^ 22" using v(2) d(2) by linarith
  with step d(1) v(1) show ?thesis by (simp add: lo q_def u_def N_def)
qed

text \<open>A reading scaled back to the integer units of the driver.\<close>

lemma ddiv_scale:
  assumes "\<bar>p\<bar> \<le> 100"
  shows "\<exists>w. ddiv (Fin p) kDamiaoProtocolScale = Fin w \<and> \<bar>w - p * 10000\<bar> \<le> 1 / 1000"
proof -
  obtain \<sigma> where \<sigma>: "kDamiaoProtocolScale = Fin \<sigma>" "\<bar>\<sigma> - 1 / 10000\<bar> \<le> 1 / 10000 / 2 ^ 53"
    using dm_scale by blast
  have "1 / 10000 / 2 ^ 53 \<le> (1 / 20000 :: rat)" by simp
  then have \<sigma>0: "1 / 20000 \<le> \<sigma>" using \<sigma>(2) by linarith
  have eq: "p / \<sigma> - p * 10000 = p * 10000 * (1 / 10000 - \<sigma>) / \<sigma>" using \<sigma>0 by (simp add: field_simps)
  have "\<bar>p / \<sigma> - p * 10000\<bar> = \<bar>p\<bar> * 10000 * \<bar>\<sigma> - 1 / 10000\<bar> / \<sigma>"
    unfolding eq using \<sigma>0 by (simp add: abs_mult abs_minus_commute)
  also have "\<dots> \<le> 100 * 10000 * (1 / 10000 / 2 ^ 53) / (1 / 20000)"
    using assms \<sigma>(2) \<sigma>0 by (intro divide_mono mult_mono) auto
  also have "\<dots> \<le> 1 / 10000" by simp
  finally have e1: "\<bar>p / \<sigma> - p * 10000\<bar> \<le> 1 / 10000" .
  then have "\<bar>p / \<sigma>\<bar> \<le> 2000000" using assms by linarith
  then have "\<exists>w. round64 (p / \<sigma>) = Fin w \<and> \<bar>w - p / \<sigma>\<bar> \<le> 2000000 / 2 ^ 53" by (intro near64) simp_all
  then obtain w where w: "round64 (p / \<sigma>) = Fin w" "\<bar>w - p / \<sigma>\<bar> \<le> 2000000 / 2 ^ 53" by blast
  have "2000000 / 2 ^ 53 \<le> (1 / 10000 :: rat)" by simp
  then have "\<bar>w - p * 10000\<bar> \<le> 1 / 1000" using w(2) e1 by linarith
  moreover have "ddiv (Fin p) kDamiaoProtocolScale = Fin w" unfolding \<sigma>(1) using \<sigma>0 by (simp add: w(1))
  ultimately show ?thesis by blast
qed

lemma llround_near:
  assumes "\<bar>w - x\<bar> \<le> d" and "\<bar>x\<bar> \<le> 2000000" and "d \<le> 1"
  shows "\<bar>of_int (llround 0 (Fin w)) - x\<bar> \<le> 1 / 2 + d" and "\<bar>llround 0 (Fin w)\<bar> \<le> 2000002"
proof -
  have e: "\<bar>of_int (round_away w) - x\<bar> \<le> 1 / 2 + d" using round_away_err [of w] assms(1) by linarith
  then have "\<bar>of_int (round_away w) :: rat\<bar> \<le> 2000002" using assms(2,3) by linarith
  then have "(of_int \<bar>round_away w\<bar> :: rat) \<le> of_int 2000002" by simp
  then have b: "\<bar>round_away w\<bar> \<le> 2000002" by (simp only: of_int_le_iff)
  then have "llround 0 (Fin w) = round_away w" by (intro llround_Fin_small) simp
  with e b show "\<bar>of_int (llround 0 (Fin w)) - x\<bar> \<le> 1 / 2 + d" "\<bar>llround 0 (Fin w)\<bar> \<le> 2000002" by simp_all
qed

lemma dm_ranges:
  "kDamiaoDefaultPMax = Fin (of_int 25 / 2)" "kDamiaoDefaultVMax = Fin (of_int 90 / 2)"
  "kDamiaoDefaultTMax = Fin (of_int 36 / 2)"
proof -
  have "ulp_exp 24 (- 149) (25 / 2 :: rat) = - 20" by code_simp
  then show "kDamiaoDefaultPMax = Fin (of_int 25 / 2)"
    using round_half_even_int [of "13107200"]
    by (simp add: kDamiaoDefaultPMax_def round32_def fp_round_def power_int_def power_one_over Let_def)
  show "kDamiaoDefaultVMax = Fin (of_int 90 / 2)" "kDamiaoDefaultTMax = Fin (of_int 36 / 2)"
    using round32_int [of 45] round32_int [of 18] by (simp_all add: kDamiaoDefaultVMax_def kDamiaoDefaultTMax_def)
qed

lemma field_bounds:
  "uint (position_field f) \<le> 2 ^ 16 - 1" "uint (velocity_field f) \<le> 2 ^ 12 - 1" "uint (torque_field f) \<le> 2 ^ 12 - 1"
proof -
  have small: "uint w \<le> 2 ^ n - 1" if "take_bit n w = w" for w :: u32 and n
    using that take_bit_int_less_exp [of n "uint w"] by (metis unsigned_take_bit_eq zle_diff1_eq)
  have "take_bit 16 (position_field f) = position_field f"
    by (rule bit_word_eqI) (auto simp: position_field_def bit_simps dest: bit_imp_le_length)
  then show "uint (position_field f) \<le> 2 ^ 16 - 1" by (rule small)
  have "take_bit 12 (velocity_field f) = velocity_field f"
    by (rule bit_word_eqI) (auto simp: velocity_field_def bit_simps dest: bit_imp_le_length)
  then show "uint (velocity_field f) \<le> 2 ^ 12 - 1" by (rule small)
  have m: "(0x0F :: u8) = mask 4" by (simp add: mask_eq_exp_minus_1)
  have "take_bit 12 (torque_field f) = torque_field f"
    unfolding torque_field_def m by (rule bit_word_eqI) (auto simp: bit_simps dest: bit_imp_le_length)
  then show "uint (torque_field f) \<le> 2 ^ 12 - 1" by (rule small)
qed

text \<open>What the fields of a feedback frame stand for.\<close>

definition reported_position :: "frame \<Rightarrow> rat" where
  "reported_position f = of_int (uint (position_field f)) * 25 / 65535 - 25 / 2"

definition reported_velocity :: "frame \<Rightarrow> rat" where
  "reported_velocity f = of_int (uint (velocity_field f)) * 90 / 4095 - 45"

definition reported_torque :: "frame \<Rightarrow> rat" where
  "reported_torque f = of_int (uint (torque_field f)) * 36 / 4095 - 18"

lemma of_uint_bounds:
  fixes u :: int
  assumes "0 \<le> u" "u \<le> n"
  shows "0 \<le> (of_int u :: rat)" "(of_int u :: rat) \<le> of_int n"
  using assms by simp_all

lemma reported_bounds:
  "\<bar>reported_position f\<bar> \<le> 25 / 2" "\<bar>reported_velocity f\<bar> \<le> 45" "\<bar>reported_torque f\<bar> \<le> 18"
proof -
  have "(of_int (2 ^ 16 - 1) :: rat) = 65535" "(of_int (2 ^ 12 - 1) :: rat) = 4095" by simp_all
  note b = of_uint_bounds [OF uint_ge_0 field_bounds(1) [of f], unfolded this]
    of_uint_bounds [OF uint_ge_0 field_bounds(2) [of f], unfolded this]
    of_uint_bounds [OF uint_ge_0 field_bounds(3) [of f], unfolded this]
  show "\<bar>reported_position f\<bar> \<le> 25 / 2" unfolding reported_position_def using b(1,2) by linarith
  show "\<bar>reported_velocity f\<bar> \<le> 45" unfolding reported_velocity_def using b(3,4) by linarith
  show "\<bar>reported_torque f\<bar> \<le> 18" unfolding reported_torque_def using b(5,6) by linarith
qed

lemma dm_absorb_values:
  "da_position (dm_absorb f st) =
     rawPositionFromRadians (uintToFloat (position_field f) (dneg kDamiaoDefaultPMax) kDamiaoDefaultPMax 16)"
  "da_velocity (dm_absorb f st) =
     rawVelocityFromRadiansPerSec (uintToFloat (velocity_field f) (dneg kDamiaoDefaultVMax) kDamiaoDefaultVMax 12)"
  "da_current (dm_absorb f st) =
     rawTorqueFromNewtonMeters (uintToFloat (torque_field f) (dneg kDamiaoDefaultTMax) kDamiaoDefaultTMax 12)"
  by (simp_all add: dm_absorb_def Let_def)

lemma position_near:
  "\<exists>v. uintToFloat (position_field f) (dneg kDamiaoDefaultPMax) kDamiaoDefaultPMax 16 = Fin v \<and>
     \<bar>v - reported_position f\<bar> \<le> 25 / 2 ^ 22"
  using uintToFloat_near [OF field_bounds(1) [of f], of kDamiaoDefaultPMax 25 "dneg kDamiaoDefaultPMax"]
  by (simp add: dm_ranges reported_position_def)

lemma velocity_near:
  "\<exists>v. uintToFloat (velocity_field f) (dneg kDamiaoDefaultVMax) kDamiaoDefaultVMax 12 = Fin v \<and>
     \<bar>v - reported_velocity f\<bar> \<le> 90 / 2 ^ 22"
  using uintToFloat_near [OF field_bounds(2) [of f], of kDamiaoDefaultVMax 90 "dneg kDamiaoDefaultVMax"]
  by (simp add: dm_ranges reported_velocity_def)

lemma torque_near:
  "\<exists>v. uintToFloat (torque_field f) (dneg kDamiaoDefaultTMax) kDamiaoDefaultTMax 12 = Fin v \<and>
     \<bar>v - reported_torque f\<bar> \<le> 36 / 2 ^ 22"
  using uintToFloat_near [OF field_bounds(3) [of f], of kDamiaoDefaultTMax 36 "dneg kDamiaoDefaultTMax"]
  by (simp add: dm_ranges reported_torque_def)

lemma dm_absorb_position: "\<bar>of_int (da_position (dm_absorb f st)) - reported_position f * 10000\<bar> \<le> 3 / 5"
proof -
  obtain v where v: "uintToFloat (position_field f) (dneg kDamiaoDefaultPMax) kDamiaoDefaultPMax 16 = Fin v"
    "\<bar>v - reported_position f\<bar> \<le> 25 / 2 ^ 22" using position_near by blast
  have "25 / 2 ^ 22 \<le> (9 / 1000000 :: rat)" by simp
  then have dv: "\<bar>v - reported_position f\<bar> \<le> 9 / 1000000" using v(2) by linarith
  then have "\<bar>v\<bar> \<le> 100" using reported_bounds(1) [of f] by linarith
  then obtain w where w: "ddiv (Fin v) kDamiaoProtocolScale = Fin w" "\<bar>w - v * 10000\<bar> \<le> 1 / 1000"
    using ddiv_scale by blast
  have "\<bar>w - reported_position f * 10000\<bar> \<le> 1 / 10" using w(2) dv by linarith
  moreover have "\<bar>reported_position f * 10000\<bar> \<le> 2000000" using reported_bounds(1) [of f] by (simp add: abs_mult)
  ultimately have "\<bar>of_int (llround 0 (Fin w)) - reported_position f * 10000\<bar> \<le> 1 / 2 + 1 / 10"
    by (rule llround_near) simp
  then show ?thesis by (simp add: dm_absorb_values v(1) rawPositionFromRadians_def w(1) del: llround.simps)
qed

lemma dm_absorb_velocity: "\<bar>of_int (sint (da_velocity (dm_absorb f st))) - reported_velocity f * 10000\<bar> \<le> 4 / 5"
proof -
  obtain v where v: "uintToFloat (velocity_field f) (dneg kDamiaoDefaultVMax) kDamiaoDefaultVMax 12 = Fin v"
    "\<bar>v - reported_velocity f\<bar> \<le> 90 / 2 ^ 22" using velocity_near by blast
  have "90 / 2 ^ 22 \<le> (25 / 1000000 :: rat)" by simp
  then have dv: "\<bar>v - reported_velocity f\<bar> \<le> 25 / 1000000" using v(2) by linarith
  then have "\<bar>v\<bar> \<le> 100" using reported_bounds(2) [of f] by linarith
  then obtain w where w: "ddiv (Fin v) kDamiaoProtocolScale = Fin w" "\<bar>w - v * 10000\<bar> \<le> 1 / 1000"
    using ddiv_scale by blast
  have "\<bar>w - reported_velocity f * 10000\<bar> \<le> 3 / 10" using w(2) dv by linarith
  note near = llround_near [OF this]
  have x: "\<bar>reported_velocity f * 10000\<bar> \<le> 2000000" using reported_bounds(2) [of f] by (simp add: abs_mult)
  have "sint (word_of_int (llround 0 (Fin w)) :: i32) = llround 0 (Fin w)"
    using near(2) [OF x] by (intro sint_word_of_int_32) (simp_all add: abs_le_iff)
  then show ?thesis
    using near(1) [OF x]
    unfolding dm_absorb_values v(1) rawVelocityFromRadiansPerSec_def w(1) by simp
qed

lemma dm_absorb_torque: "\<bar>of_int (sint (da_current (dm_absorb f st))) - reported_torque f * 100\<bar> \<le> 3 / 5"
proof -
  obtain v where v: "uintToFloat (torque_field f) (dneg kDamiaoDefaultTMax) kDamiaoDefaultTMax 12 = Fin v"
    "\<bar>v - reported_torque f\<bar> \<le> 36 / 2 ^ 22" using torque_near by blast
  have "36 / 2 ^ 22 \<le> (1 / 10000 :: rat)" by simp
  then have dv: "\<bar>v - reported_torque f\<bar> \<le> 1 / 10000" using v(2) by linarith
  have "\<bar>v * 100\<bar> \<le> 2000" using dv reported_bounds(3) [of f] by linarith
  then have "\<exists>w. round64 (v * 100) = Fin w \<and> \<bar>w - v * 100\<bar> \<le> 2000 / 2 ^ 53" by (intro near64) simp_all
  then obtain w where w: "round64 (v * 100) = Fin w" "\<bar>w - v * 100\<bar> \<le> 2000 / 2 ^ 53" by blast
  have "2000 / 2 ^ 53 \<le> (1 / 1000 :: rat)" by simp
  then have dw: "\<bar>w - reported_torque f * 100\<bar> \<le> 1 / 10" using w(2) dv by linarith
  then have "\<bar>w\<bar> \<le> 2000" using reported_bounds(3) [of f] by linarith
  then have clamp: "max (- 32768) (min 32767 w) = w" by (simp add: abs_le_iff)
  have x: "\<bar>reported_torque f * 100\<bar> \<le> 2000000" using reported_bounds(3) [of f] by (simp add: abs_mult)
  have near: "\<bar>of_int (llround 0 (Fin w)) - reported_torque f * 100\<bar> \<le> 1 / 2 + 1 / 10"
    by (rule llround_near(1) [OF dw x]) simp
  then have "\<bar>of_int (llround 0 (Fin w)) :: rat\<bar> \<le> of_int 3000" using reported_bounds(3) [of f] by linarith
  then have "\<bar>llround 0 (Fin w)\<bar> \<le> 3000" by (simp only: of_int_abs [symmetric] of_int_le_iff)
  then have "sint (word_of_int (llround 0 (Fin w)) :: i16) = llround 0 (Fin w)"
    by (intro sint_word_of_int_16) (simp_all add: abs_le_iff)
  with near clamp show ?thesis
    unfolding dm_absorb_values v(1) rawTorqueFromNewtonMeters_def by (simp add: w(1) del: llround.simps)
qed

section \<open>What the helpers change\<close>

lemma dm_sync_frame [simp]:
  "dc_motorStates (dm_syncSharedFeedback now n st s) = dc_motorStates s"
  "dc_motorStates (dm_syncSharedCommand now n v b s) = dc_motorStates s"
  "dc_motorStates (dm_syncSharedModeSelection n m s) = dc_motorStates s"
  "dc_motorStates (dm_syncSharedIntent n i s) = dc_motorStates s"
  "dc_motorStates (dm_registerManagedMotorId mid s) = dc_motorStates s"
  "io_outbox (dm_syncSharedFeedback now n st s) = io_outbox s"
  "io_outbox (dm_syncSharedCommand now n v b s) = io_outbox s"
  "io_outbox (dm_syncSharedModeSelection n m s) = io_outbox s"
  "io_outbox (dm_syncSharedIntent n i s) = io_outbox s"
  "io_outbox (dm_registerManagedMotorId mid s) = io_outbox s"
  "io_txDispatcher (dm_syncSharedFeedback now n st s) = io_txDispatcher s"
  "io_txDispatcher (dm_syncSharedCommand now n v b s) = io_txDispatcher s"
  "io_txDispatcher (dm_syncSharedModeSelection n m s) = io_txDispatcher s"
  "io_txDispatcher (dm_syncSharedIntent n i s) = io_txDispatcher s"
  "io_txDispatcher (dm_registerManagedMotorId mid s) = io_txDispatcher s"
  "io_canController (dm_registerManagedMotorId mid s) = io_canController s"
  by (simp_all add: dm_syncSharedFeedback_def dm_syncSharedCommand_def dm_syncSharedModeSelection_def
      dm_syncSharedIntent_def dm_registerManagedMotorId_def on_shared_def Let_def split: option.splits)

lemma dm_send_frame [simp]:
  "dc_motorStates (snd (sendSpeedFrame n v c src s)) = dc_motorStates s"
  "dc_motorStates (snd (sendMotorCommand n k c src s)) = dc_motorStates s"
  "dc_motorStates (snd (sendRegisterWrite n r w src s)) = dc_motorStates s"
  "fst (sendSpeedFrame n v c src s) = io_txDispatcher s"
  "fst (sendMotorCommand n k c src s) = io_txDispatcher s"
  "fst (sendRegisterWrite n r w src s) = io_txDispatcher s"
  by (simp_all add: sendSpeedFrame_def sendMotorCommand_def sendRegisterWrite_def submitTx_def)

lemma dm_modify_frame [simp]:
  "io_outbox (dm_modify n f s) = io_outbox s" "io_txDispatcher (dm_modify n f s) = io_txDispatcher s"
  "io_canController (dm_modify n f s) = io_canController s"
  "dc_motorStates (dm_modify n f s) = map_modify default_dm_motor n f (dc_motorStates s)"
  by (simp_all add: dm_modify_def)

section \<open>Reachable states\<close>

text \<open>
  What other threads do to the object while an operation waits: deliver a frame, refresh, set
  parameters, stop, reset a fault, take requests from the dispatcher, update the shared state.
\<close>

inductive dm_action :: "(dm_can \<Rightarrow> dm_can) \<Rightarrow> bool" where
  receive: "dm_action (dm_handleResponse now f)"
| refresh: "dm_action (\<lambda>s. snd (dm_issueRefreshQuery mid q s))"
| init_refresh: "dm_action (dm_initializeMotorRefresh mids)"
| set_rate: "dm_action (dm_setRefreshRateHz hz)"
| set_acc: "dm_action (\<lambda>s. snd (dm_setAcceleration mid a s))"
| set_dec: "dm_action (\<lambda>s. snd (dm_setDeceleration mid a s))"
| stop: "dm_action (\<lambda>s. snd (dm_Stop now mid s))"
| reset: "dm_action (\<lambda>s. snd (dm_ResetFault mid s))"
| destroy: "dm_action destroy_DamiaoCan"
| transmit: "dm_action (\<lambda>s. s\<lparr>io_outbox := drop k (io_outbox s)\<rparr>)"
| shared: "dm_action (\<lambda>s. s\<lparr>io_sharedState := map_option g (io_sharedState s)\<rparr>)"
| idle: "dm_action (\<lambda>s. s)"
| both: "dm_action e \<Longrightarrow> dm_action e' \<Longrightarrow> dm_action (\<lambda>s. e' (e s))"

definition dm_env_ok :: "dm_env \<Rightarrow> bool" where
  "dm_env_ok env \<longleftrightarrow> list_all dm_action (de_ack env) \<and> dm_action (de_configured env) \<and>
     dm_action (de_commanded env) \<and> list_all dm_action (de_feedback env)"

inductive dm_reachable :: "dm_can \<Rightarrow> bool" where
  fresh: "dm_reachable (new_DamiaoCan controller txDispatcher sharedState deviceName)"
| act: "dm_reachable s \<Longrightarrow> dm_action e \<Longrightarrow> dm_reachable (e s)"
| mode: "dm_reachable s \<Longrightarrow> dm_env_ok env \<Longrightarrow> dm_reachable (snd (dm_setMode env mid m s))"
| velocity: "dm_reachable s \<Longrightarrow> dm_env_ok env \<Longrightarrow> dm_reachable (snd (dm_setVelocity env now mid v s))"
| enable: "dm_reachable s \<Longrightarrow> dm_env_ok env \<Longrightarrow> dm_reachable (snd (dm_Enable env mid s))"
| disable: "dm_reachable s \<Longrightarrow> dm_env_ok env \<Longrightarrow> dm_reachable (snd (dm_Disable env now mid s))"

text \<open>A motor state agrees with the state code of its last feedback frame.\<close>

definition dm_motor_ok :: "dm_motor_state \<Rightarrow> bool" where
  "dm_motor_ok st \<longleftrightarrow> da_mode st = ModeVelocity \<and>
     (if da_feedbackSeen st
      then (da_enabled st \<longleftrightarrow> da_feedbackState st = kDamiaoEnabledStateCode) \<and>
           (da_fault st \<longleftrightarrow> da_feedbackState st \<noteq> kDamiaoDisabledStateCode \<and> da_feedbackState st \<noteq> kDamiaoEnabledStateCode) \<and>
           da_enabledReceived st \<and> da_faultReceived st \<and> da_modeReceived st
      else \<not> da_enabled st \<and> \<not> da_fault st)"

definition dm_inv :: "dm_can \<Rightarrow> bool" where
  "dm_inv s \<longleftrightarrow> (\<forall>n st. dc_motorStates s n = Some st \<longrightarrow> dm_motor_ok st)"

text \<open>The velocity mode of a motor has been acknowledged.\<close>

definition dm_configured :: "u8 \<Rightarrow> dm_can \<Rightarrow> bool" where
  "dm_configured n s = (case dc_motorStates s n of None \<Rightarrow> False | Some st \<Rightarrow> da_velocityModeConfigured st)"

definition keeps_ok :: "(dm_motor_state \<Rightarrow> dm_motor_state) \<Rightarrow> bool" where
  "keeps_ok f \<longleftrightarrow> (\<forall>st. (dm_motor_ok st \<longrightarrow> dm_motor_ok (f st)) \<and>
     (da_velocityModeConfigured st \<longrightarrow> da_velocityModeConfigured (f st)))"

lemma default_motor_ok: "dm_motor_ok default_dm_motor"
  by (simp add: dm_motor_ok_def default_dm_motor_def)

lemma dm_modify_keeps:
  assumes f: "keeps_ok f"
  shows "dm_inv s \<Longrightarrow> dm_inv (dm_modify n f s)" "dm_configured k s \<Longrightarrow> dm_configured k (dm_modify n f s)"
proof -
  show "dm_configured k s \<Longrightarrow> dm_configured k (dm_modify n f s)"
    using f by (cases "k = n") (auto simp: dm_configured_def map_at_def keeps_ok_def split: option.splits)
  assume inv: "dm_inv s"
  then have "dm_motor_ok (map_at default_dm_motor (dc_motorStates s) n)"
    by (cases "dc_motorStates s n") (simp_all add: default_motor_ok dm_inv_def)
  with f have "dm_motor_ok (f (map_at default_dm_motor (dc_motorStates s) n))" by (simp add: keeps_ok_def)
  with inv show "dm_inv (dm_modify n f s)" unfolding dm_inv_def by (simp add: map_modify_def)
qed

lemma keeps_ok_updates:
  "keeps_ok (dm_absorb f)" "keeps_ok (da_commandedVelocity_update (\<lambda>_. v))"
  "keeps_ok (da_acceleration_update (\<lambda>_. v))" "keeps_ok (da_deceleration_update (\<lambda>_. v))"
  "keeps_ok (\<lambda>st. st\<lparr>da_velocityModeConfigured := True, da_mode := ModeVelocity\<rparr>)"
  "keeps_ok (\<lambda>st. st\<lparr>da_commandedVelocity := v, da_mode := ModeVelocity\<rparr>)"
  by (simp_all add: keeps_ok_def dm_motor_ok_def dm_absorb_def Let_def)

text \<open>The two facts together: preserved from one state to the next.\<close>

definition dm_keeps :: "dm_can \<Rightarrow> dm_can \<Rightarrow> bool" where
  "dm_keeps s s' \<longleftrightarrow> (dm_inv s \<longrightarrow> dm_inv s') \<and> (\<forall>n. dm_configured n s \<longrightarrow> dm_configured n s')"

lemma dm_keeps_refl [simp]: "dm_keeps s s"
  by (simp add: dm_keeps_def)

lemma dm_keeps_trans: "dm_keeps s s1 \<Longrightarrow> dm_keeps s1 s2 \<Longrightarrow> dm_keeps s s2"
  by (simp add: dm_keeps_def)

lemma dm_keeps_same: "dc_motorStates s' = dc_motorStates s \<Longrightarrow> dm_keeps s s'"
  unfolding dm_keeps_def dm_inv_def dm_configured_def by simp

lemma dm_keeps_modify: "keeps_ok f \<Longrightarrow> dm_keeps s (dm_modify n f s)"
  by (simp add: dm_keeps_def dm_modify_keeps)

lemma dm_init_motors: "dc_motorStates (dm_initializeMotorRefresh mids s) = dc_motorStates s"
proof -
  have "dc_motorStates (fold dm_register_refresh mids t) = dc_motorStates t" for t
    by (induction mids arbitrary: t) (simp_all add: dm_register_refresh_def Let_def)
  then show ?thesis by (simp add: dm_initializeMotorRefresh_def)
qed

lemma dm_action_keeps: "dm_action e \<Longrightarrow> dm_keeps s (e s)"
proof (induction arbitrary: s rule: dm_action.induct)
  case (receive now f)
  show ?case
    using dm_keeps_trans [OF dm_keeps_modify [OF keeps_ok_updates(1)] dm_keeps_same]
    by (auto simp: dm_handleResponse_def Let_def intro: dm_keeps_same)
next
  case (refresh mid q)
  show ?case by (cases q) (auto simp: Let_def intro: dm_keeps_same)
next
  case (set_acc mid a)
  show ?case
    using dm_keeps_trans [OF dm_keeps_same dm_keeps_modify [OF keeps_ok_updates(3)], of "dm_registerManagedMotorId mid s" s]
    by (simp add: dm_setAcceleration_def)
next
  case (set_dec mid a)
  show ?case
    using dm_keeps_trans [OF dm_keeps_same dm_keeps_modify [OF keeps_ok_updates(4)], of "dm_registerManagedMotorId mid s" s]
    by (simp add: dm_setDeceleration_def)
next
  case (stop now mid)
  show ?case
    unfolding dm_Stop_def Let_def
    by (rule dm_keeps_trans [OF dm_keeps_trans [OF dm_keeps_same dm_keeps_modify [OF keeps_ok_updates(2)]] dm_keeps_same],
        rule dm_sync_frame(5)) simp
next
  case (both e e')
  from dm_keeps_trans [OF both.IH(1) both.IH(2)] show ?case .
qed (auto simp: dm_ResetFault_def Let_def dm_setRefreshRateHz_def destroy_DamiaoCan_def dm_init_motors intro: dm_keeps_same)

text \<open>The blocking operations.\<close>

lemma dm_wait_keeps:
  assumes "list_all dm_action others"
  shows "dm_keeps s (snd (wait_for ready others s))"
proof (rule wait_for_keeps [where P = "dm_keeps s"])
  fix e t assume "e \<in> set others" "dm_keeps s t"
  with assms show "dm_keeps s (e t)" by (auto simp: list_all_iff dest: dm_action_keeps intro: dm_keeps_trans)
qed simp

lemma dm_write_keeps:
  assumes "list_all dm_action others"
  shows "dm_keeps s (snd (writeRegisterAndWaitForAck others n r v s))"
proof -
  define s1 where "s1 = snd (sendRegisterWrite n r v ''DamiaoCan::sendRegisterWrite''
    (s\<lparr>dc_pendingRegisterAcks := (dc_pendingRegisterAcks s)(pendingRegisterAckKey n r \<mapsto> default_dm_ack)\<rparr>))"
  have "dm_keeps s s1" by (rule dm_keeps_same) (simp add: s1_def)
  then have w: "dm_keeps s (snd (wait_for ready others s1))" for ready
    using dm_wait_keeps [OF assms] by (rule dm_keeps_trans)
  have "dm_keeps s ((snd (wait_for ready others s1))\<lparr>dc_pendingRegisterAcks := m\<rparr>)" for ready m
    using w [of ready] by (rule dm_keeps_trans) (simp add: dm_keeps_same)
  with \<open>dm_keeps s s1\<close> show ?thesis
    by (simp add: writeRegisterAndWaitForAck_def Let_def split_beta flip: s1_def)
qed

lemma dm_env_okD:
  assumes "dm_env_ok env"
  shows "list_all dm_action (de_ack env)" "dm_keeps s (de_configured env s)" "dm_keeps s (de_commanded env s)"
    "list_all dm_action (de_feedback env)"
  using assms by (auto simp: dm_env_ok_def intro: dm_action_keeps)

lemma dm_ensure_keeps:
  assumes "dm_env_ok env"
  shows "dm_keeps s (snd (ensureVelocityModeConfigured env n s))"
    and "fst (ensureVelocityModeConfigured env n s) \<Longrightarrow> dm_configured n (snd (ensureVelocityModeConfigured env n s))"
proof -
  define s1 where "s1 = snd (writeRegisterAndWaitForAck (de_ack env) n kDamiaoControlModeRegister kDamiaoVelocityModeValue s)"
  have "dm_keeps s s1" unfolding s1_def using assms by (intro dm_write_keeps dm_env_okD)
  moreover have "dm_keeps s1 (de_configured env s1)" using assms by (rule dm_env_okD)
  moreover have "dm_keeps t (dm_syncSharedModeSelection n ModeVelocity
      (dm_modify n (\<lambda>st. st\<lparr>da_velocityModeConfigured := True, da_mode := ModeVelocity\<rparr>) t))" for t
    by (rule dm_keeps_trans [OF dm_keeps_modify [OF keeps_ok_updates(5)] dm_keeps_same]) simp
  ultimately show "dm_keeps s (snd (ensureVelocityModeConfigured env n s))"
    by (auto simp: ensureVelocityModeConfigured_def Let_def split_beta intro: dm_keeps_trans simp flip: s1_def)
  show "dm_configured n (snd (ensureVelocityModeConfigured env n s))" if "fst (ensureVelocityModeConfigured env n s)"
    using that by (auto simp: ensureVelocityModeConfigured_def Let_def split_beta dm_configured_def split: if_splits option.splits)
qed

lemma dm_keeps_reg: "dm_keeps s (dm_registerManagedMotorId mid s)"
  by (rule dm_keeps_same) simp

lemma dm_setMode_keeps: "dm_env_ok env \<Longrightarrow> dm_keeps s (snd (dm_setMode env mid m s))"
proof -
  let ?n = "toProtocolNodeId mid"
  assume env: "dm_env_ok env"
  define s1 where "s1 = snd (ensureVelocityModeConfigured env ?n (dm_registerManagedMotorId mid s))"
  have 1: "dm_keeps s s1" unfolding s1_def
    using dm_keeps_reg dm_ensure_keeps(1) [OF env] by (rule dm_keeps_trans)
  then have "dm_keeps s (dm_syncSharedModeSelection ?n ModeVelocity s1)"
    by (rule dm_keeps_trans) (simp add: dm_keeps_same)
  with 1 show ?thesis by (simp add: dm_setMode_def Let_def split_beta flip: s1_def)
qed

lemma dm_setVelocity_keeps: "dm_env_ok env \<Longrightarrow> dm_keeps s (snd (dm_setVelocity env now mid v s))"
proof -
  let ?n = "toProtocolNodeId mid"
  assume env: "dm_env_ok env"
  have "dm_keeps s (snd (ensureVelocityModeConfigured env ?n (dm_registerManagedMotorId mid s)))"
    using dm_keeps_reg dm_ensure_keeps(1) [OF env] by (rule dm_keeps_trans)
  moreover have "dm_keeps t (snd (sendSpeedFrame ?n x Control src (dm_syncSharedIntent ?n IntentRun (dm_syncSharedCommand now ?n v True
      (dm_modify ?n (\<lambda>st. st\<lparr>da_commandedVelocity := v, da_mode := ModeVelocity\<rparr>) t)))))" for t x src
    by (rule dm_keeps_trans [OF dm_keeps_modify [OF keeps_ok_updates(6)] dm_keeps_same]) simp
  ultimately show ?thesis
    by (auto simp: dm_setVelocity_def Let_def split_beta intro: dm_keeps_trans)
qed

lemma dm_Enable_keeps: "dm_env_ok env \<Longrightarrow> dm_keeps s (snd (dm_Enable env mid s))"
proof -
  let ?n = "toProtocolNodeId mid"
  assume env: "dm_env_ok env"
  define s1 where "s1 = snd (ensureVelocityModeConfigured env ?n (dm_registerManagedMotorId mid s))"
  define s3 where "s3 = snd (sendMotorCommand ?n kDamiaoEnableCommand Control ''DamiaoCan::Enable''
    (dm_syncSharedIntent ?n IntentEnable (dm_syncSharedModeSelection ?n ModeVelocity s1)))"
  define s4 where "s4 = snd (sendSpeedFrame ?n (Fin 0) Control ''DamiaoCan::EnableNeutral'' (de_commanded env s3))"
  have 1: "dm_keeps s s1" unfolding s1_def
    using dm_keeps_reg dm_ensure_keeps(1) [OF env] by (rule dm_keeps_trans)
  have "dm_keeps s1 s3" unfolding s3_def by (rule dm_keeps_same) simp
  with 1 have 3: "dm_keeps s s3" by (rule dm_keeps_trans)
  have "dm_keeps s3 s4" unfolding s4_def
    by (rule dm_keeps_trans [OF dm_env_okD(3) [OF env] dm_keeps_same]) simp
  with 3 have 4: "dm_keeps s s4" by (rule dm_keeps_trans)
  then have "dm_keeps s (snd (waitForFeedbackState (de_feedback env) ?n kDamiaoEnabledStateCode s4))"
    unfolding waitForFeedbackState_def using dm_wait_keeps [OF dm_env_okD(4) [OF env]] by (rule dm_keeps_trans)
  with 1 3 4 show ?thesis
    by (simp add: dm_Enable_def Let_def split_beta flip: s1_def s3_def s4_def)
qed

lemma dm_Disable_keeps: "dm_env_ok env \<Longrightarrow> dm_keeps s (snd (dm_Disable env now mid s))"
proof -
  let ?n = "toProtocolNodeId mid"
  assume env: "dm_env_ok env"
  define s3 where "s3 = snd (sendSpeedFrame ?n (Fin 0) Control ''DamiaoCan::DisableNeutral''
    (dm_syncSharedIntent ?n IntentDisable (dm_syncSharedCommand now ?n 0 True
      (dm_modify ?n (da_commandedVelocity_update (\<lambda>_. 0)) (dm_registerManagedMotorId mid s)))))"
  define s4 where "s4 = snd (sendMotorCommand ?n kDamiaoDisableCommand Control ''DamiaoCan::Disable'' s3)"
  have "dm_keeps (dm_registerManagedMotorId mid s) s3"
    unfolding s3_def by (rule dm_keeps_trans [OF dm_keeps_modify [OF keeps_ok_updates(2)] dm_keeps_same]) simp
  with dm_keeps_reg have 3: "dm_keeps s s3" by (rule dm_keeps_trans)
  moreover have "dm_keeps s3 s4" unfolding s4_def by (rule dm_keeps_same) simp
  ultimately have 4: "dm_keeps s s4" by (rule dm_keeps_trans)
  then have "dm_keeps s (snd (waitForFeedbackState (de_feedback env) ?n kDamiaoDisabledStateCode s4))"
    unfolding waitForFeedbackState_def using dm_wait_keeps [OF dm_env_okD(4) [OF env]] by (rule dm_keeps_trans)
  with 3 4 show ?thesis
    by (simp add: dm_Disable_def Let_def split_beta flip: s3_def s4_def)
qed

lemma dm_reachable_inv: "dm_reachable s \<Longrightarrow> dm_inv s"
proof (induction rule: dm_reachable.induct)
  case fresh
  show ?case by (simp add: dm_inv_def new_DamiaoCan_def)
qed (use dm_action_keeps dm_setMode_keeps dm_setVelocity_keeps dm_Enable_keeps dm_Disable_keeps in \<open>auto simp: dm_keeps_def\<close>)

section \<open>Without an acknowledgement\<close>

text \<open>An action that brings no acknowledgement of the velocity mode and sends nothing.\<close>

definition no_mode_ack :: "u8 \<Rightarrow> (dm_can \<Rightarrow> dm_can) \<Rightarrow> bool" where
  "no_mode_ack n e \<longleftrightarrow> (\<forall>s. io_outbox (e s) = io_outbox s \<and>
     (\<not> register_acked n kDamiaoControlModeRegister kDamiaoVelocityModeValue s \<longrightarrow>
      \<not> register_acked n kDamiaoControlModeRegister kDamiaoVelocityModeValue (e s)))"

lemma pendingRegisterAckKey_inj: "pendingRegisterAckKey m c = pendingRegisterAckKey m' c' \<longleftrightarrow> m = m' \<and> c = c'"
  unfolding pendingRegisterAckKey_def using pendingReadKey_inj [of m c m' c'] by (simp add: pendingReadKey_def)

text \<open>Any frame but the acknowledgement itself is such an action.\<close>

lemma frame_no_mode_ack:
  assumes "\<not> (fr_data f ! 0 = n \<and> fr_data f ! 3 = kDamiaoControlModeRegister \<and> readUInt32LE f 4 = kDamiaoVelocityModeValue)"
  shows "no_mode_ack n (dm_handleResponse now f)"
proof -
  have "dc_pendingRegisterAcks (dm_syncSharedFeedback now k st s) = dc_pendingRegisterAcks s" for k st s
    by (simp add: dm_syncSharedFeedback_def on_shared_def split: option.splits)
  with assms show ?thesis
    by (auto simp: no_mode_ack_def dm_handleResponse_def register_acked_def Let_def pendingRegisterAckKey_inj dm_modify_def)
qed

definition mode_write :: "u8 \<Rightarrow> request" where
  "mode_write n = \<lparr>rq_frame = register_frame n kDamiaoControlModeRegister kDamiaoVelocityModeValue,
     rq_category = Config, rq_source = ''DamiaoCan::sendRegisterWrite'', rq_completion = None\<rparr>"

lemma write_unacked:
  assumes "list_all (no_mode_ack n) others"
  shows "\<not> fst (writeRegisterAndWaitForAck others n kDamiaoControlModeRegister kDamiaoVelocityModeValue s)"
    and "io_outbox (snd (writeRegisterAndWaitForAck others n kDamiaoControlModeRegister kDamiaoVelocityModeValue s)) =
      io_outbox s @ (if io_canController s \<and> io_txDispatcher s then [mode_write n] else [])"
proof -
  let ?r = "register_acked n kDamiaoControlModeRegister kDamiaoVelocityModeValue"
  define s1 where "s1 = snd (sendRegisterWrite n kDamiaoControlModeRegister kDamiaoVelocityModeValue
    ''DamiaoCan::sendRegisterWrite'' (s\<lparr>dc_pendingRegisterAcks := (dc_pendingRegisterAcks s)
      (pendingRegisterAckKey n kDamiaoControlModeRegister \<mapsto> default_dm_ack)\<rparr>))"
  have "\<not> ?r s1" by (simp add: s1_def register_acked_def sendRegisterWrite_def submitTx_def default_dm_ack_def)
  then have "\<not> ?r (snd (wait_for ?r others s1)) \<and> io_outbox (snd (wait_for ?r others s1)) = io_outbox s1"
    using assms by (intro wait_for_keeps [where P = "\<lambda>t. \<not> ?r t \<and> io_outbox t = io_outbox s1"])
      (auto simp: list_all_iff no_mode_ack_def)
  then have w: "\<not> fst (wait_for ?r others s1)" "io_outbox (snd (wait_for ?r others s1)) = io_outbox s1"
    by (simp_all add: wait_for_ready)
  have out: "io_outbox s1 = io_outbox s @ (if io_txDispatcher s then [mode_write n] else [])"
    by (simp add: s1_def sendRegisterWrite_def submitTx_def mode_write_def)
  show "\<not> fst (writeRegisterAndWaitForAck others n kDamiaoControlModeRegister kDamiaoVelocityModeValue s)"
    "io_outbox (snd (writeRegisterAndWaitForAck others n kDamiaoControlModeRegister kDamiaoVelocityModeValue s)) =
      io_outbox s @ (if io_canController s \<and> io_txDispatcher s then [mode_write n] else [])"
    using w out by (simp_all add: writeRegisterAndWaitForAck_def Let_def split_beta flip: s1_def)
qed

lemma ensure_unacked:
  assumes "\<not> dm_configured n s" and "list_all (no_mode_ack n) (de_ack env)"
  shows "\<exists>s'. ensureVelocityModeConfigured env n s = (False, s') \<and>
    io_outbox s' = io_outbox s @ (if io_canController s \<and> io_txDispatcher s then [mode_write n] else [])"
  using assms(1) write_unacked [OF assms(2), of s]
  by (auto simp: ensureVelocityModeConfigured_def dm_configured_def split_beta)

text \<open>The wait for the drive's state is satisfied by feedback older than the command.\<close>

lemma dm_enable_trusts_old_feedback:
  assumes "dm_configured (toProtocolNodeId mid) s" and "io_txDispatcher s"
    and "in_feedback_state (toProtocolNodeId mid) kDamiaoEnabledStateCode s"
    and "de_commanded env = (\<lambda>s. s)" and "de_feedback env = []"
  shows "fst (dm_Enable env mid s)"
  using assms
  by (auto simp: dm_Enable_def ensureVelocityModeConfigured_def dm_configured_def Let_def split_beta waitForFeedbackState_def
      in_feedback_state_def sendMotorCommand_def sendSpeedFrame_def submitTx_def split: option.splits)

section \<open>Properties\<close>

text \<open>
  A speed command to a configured motor puts exactly one control frame on the bus, addressed
  to that motor, whose four bytes decode as a \<open>float\<close> within one part in \<open>2^23\<close> of the commanded
  velocity (the command is in units of 0.1 mrad/s).
\<close>

lemma dm_velocity_on_wire:
  assumes "dm_configured (toProtocolNodeId mid) s" and "io_txDispatcher s"
  shows "\<exists>f v. fst (dm_setVelocity env now mid velocity s) \<and>
    io_outbox (snd (dm_setVelocity env now mid velocity s)) = io_outbox s @
      [\<lparr>rq_frame = f, rq_category = Control, rq_source = ''DamiaoCan::setVelocity'', rq_completion = None\<rparr>] \<and>
    fr_id f = 0x200 + ucast (toProtocolNodeId mid) \<and> rawBitsToFloat (readUInt32LE f 0) = Fin v \<and>
    \<bar>v - of_int (sint velocity) / 10000\<bar> \<le> \<bar>of_int (sint velocity)\<bar> / 10000 / 2 ^ 23"
proof -
  let ?n = "toProtocolNodeId mid" and ?f = "speed_frame (toProtocolNodeId mid) (rawToVelocityRadPerSec velocity)"
  obtain v q where v: "rawToVelocityRadPerSec velocity = Fin v" "rawToVelocityRadPerSec velocity = round32 q"
    "\<bar>v - of_int (sint velocity) / 10000\<bar> \<le> \<bar>of_int (sint velocity)\<bar> / 10000 / 2 ^ 23"
    using dm_velocity_near by blast
  have "readUInt32LE ?f 0 = floatToRawBits (rawToVelocityRadPerSec velocity)"
    by (simp add: readUInt32LE_def speed_frame_def Let_def join32_bytes del: floatToRawBits.simps)
  then have "rawBitsToFloat (readUInt32LE ?f 0) = Fin v"
    using rawBits_roundtrip [of q] v(1,2) by metis
  moreover have "fr_id ?f = 0x200 + ucast ?n" by (simp add: speed_frame_def Let_def kDamiaoSpeedFrameBase_def)
  moreover have "fst (dm_setVelocity env now mid velocity s)"
    "io_outbox (snd (dm_setVelocity env now mid velocity s)) = io_outbox s @
      [\<lparr>rq_frame = ?f, rq_category = Control, rq_source = ''DamiaoCan::setVelocity'', rq_completion = None\<rparr>]"
    using assms
    by (auto simp: dm_setVelocity_def ensureVelocityModeConfigured_def dm_configured_def Let_def split_beta sendSpeedFrame_def
        submitTx_def split: option.splits)
  ultimately show ?thesis using v(3) by blast
qed

definition witness_dm :: dm_can where
  "witness_dm = (new_DamiaoCan True True (Some empty_SharedDriverState) ''can0'')\<lparr>
     dc_motorStates := [1 \<mapsto> default_dm_motor\<lparr>da_velocityModeConfigured := True\<rparr>]\<rparr>"

definition witness_env :: dm_env where
  "witness_env = \<lparr>de_ack = [], de_configured = (\<lambda>s. s), de_commanded = (\<lambda>s. s), de_feedback = []\<rparr>"

lemma witness_node: "toProtocolNodeId 1 = 1"
  by (simp add: toProtocolNodeId_def toSystemMotorId_def)

lemma dm_velocity_on_wire_witness:
  "\<exists>f v. io_outbox (snd (dm_setVelocity witness_env 7 1 25000 witness_dm)) =
      [\<lparr>rq_frame = f, rq_category = Control, rq_source = ''DamiaoCan::setVelocity'', rq_completion = None\<rparr>] \<and>
    rawBitsToFloat (readUInt32LE f 0) = Fin v \<and> \<bar>v - 5 / 2\<bar> \<le> 5 / 2 / 2 ^ 23"
proof -
  have conf: "dm_configured (toProtocolNodeId 1) witness_dm" and disp: "io_txDispatcher witness_dm"
    and out: "io_outbox witness_dm = []"
    by (simp_all add: witness_node dm_configured_def witness_dm_def new_DamiaoCan_def)
  have raw: "(of_int (sint (25000 :: i32)) / 10000 :: rat) = 5 / 2" "\<bar>of_int (sint (25000 :: i32))\<bar> / 10000 = (5 / 2 :: rat)"
    by simp_all
  from dm_velocity_on_wire [OF conf disp, of witness_env 7 25000, unfolded out append_Nil raw] show ?thesis by blast
qed

text \<open>
  A feedback frame of a managed motor sets its position and velocity, in units of 0.1 mrad and
  0.1 mrad/s, to within one unit of what the fields of the frame stand for, its current to within
  one unit of the torque in hundredths of a newton metre, and its enabled and fault flags from
  the state code; no other motor changes.
\<close>

lemma dm_feedback_accurate:
  assumes "fr_id f = 0" and "fr_dlc f = 8" and "fr_data f ! 2 \<noteq> 0x55"
    and "dm_isManagedMotorId s (fr_data f ! 0 AND 0x0F)" and "n = fr_data f ! 0 AND 0x0F"
    and "code = drop_bit 4 (fr_data f ! 0) AND 0x0F"
  shows "\<exists>st. dc_motorStates (dm_handleResponse now f s) = (dc_motorStates s)(n \<mapsto> st) \<and>
    \<bar>of_int (da_position st) - reported_position f * 10000\<bar> < 1 \<and>
    \<bar>of_int (sint (da_velocity st)) - reported_velocity f * 10000\<bar> < 1 \<and>
    \<bar>of_int (sint (da_current st)) - reported_torque f * 100\<bar> < 1 \<and>
    da_enabled st = (code = 1) \<and> da_fault st = (code \<noteq> 0 \<and> code \<noteq> 1) \<and> da_feedbackSeen st"
proof -
  define st where "st = dm_absorb f (map_at default_dm_motor (dc_motorStates s) n)"
  have "dc_motorStates (dm_handleResponse now f s) = (dc_motorStates s)(n \<mapsto> st)"
    using assms(1-4) unfolding assms(5) st_def
    by (simp add: dm_handleResponse_def Let_def kDamiaoMasterId_def kDamiaoWriteRegisterCommand_def map_modify_def)
  moreover have "da_enabled st = (code = 1) \<and> da_fault st = (code \<noteq> 0 \<and> code \<noteq> 1) \<and> da_feedbackSeen st"
    by (simp add: st_def dm_absorb_def Let_def kDamiaoEnabledStateCode_def kDamiaoDisabledStateCode_def assms(6))
  moreover have "\<bar>of_int (da_position st) - reported_position f * 10000\<bar> < 1"
    "\<bar>of_int (sint (da_velocity st)) - reported_velocity f * 10000\<bar> < 1"
    "\<bar>of_int (sint (da_current st)) - reported_torque f * 100\<bar> < 1"
    unfolding st_def
    by (rule le_less_trans [OF dm_absorb_position], simp, rule le_less_trans [OF dm_absorb_velocity], simp,
        rule le_less_trans [OF dm_absorb_torque], simp)
  ultimately show ?thesis by blast
qed

definition witness_feedback :: frame where
  "witness_feedback = empty_frame\<lparr>fr_dlc := 8, fr_data := [0x11, 0x80, 0x00, 0x7F, 0xF7, 0xFF, 30, 30]\<rparr>"

lemma dm_feedback_accurate_witness:
  "\<exists>st. dc_motorStates (dm_handleResponse 9 witness_feedback (dm_registerManagedMotorId 1 witness_dm)) 1 = Some st \<and>
    \<bar>of_int (da_position st) - (32768 * 25 / 65535 - 25 / 2) * 10000 :: rat\<bar> < 1 \<and> da_enabled st \<and> \<not> da_fault st"
proof -
  have "dm_isManagedMotorId (dm_registerManagedMotorId 1 witness_dm) 1"
    by (simp add: dm_isManagedMotorId_def dm_registerManagedMotorId_def witness_node witness_dm_def new_DamiaoCan_def
        on_shared_def Let_def)
  then have "\<exists>st. dc_motorStates (dm_handleResponse 9 witness_feedback (dm_registerManagedMotorId 1 witness_dm)) =
      (dc_motorStates (dm_registerManagedMotorId 1 witness_dm))(1 \<mapsto> st) \<and>
      \<bar>of_int (da_position st) - reported_position witness_feedback * 10000\<bar> < 1 \<and>
      da_enabled st = ((1 :: u8) = 1) \<and> da_fault st = ((1 :: u8) \<noteq> 0 \<and> (1 :: u8) \<noteq> 1)"
    using dm_feedback_accurate [of witness_feedback "dm_registerManagedMotorId 1 witness_dm" 1 1 9]
    by (auto simp: witness_feedback_def empty_frame_def)
  moreover have "reported_position witness_feedback = 32768 * 25 / 65535 - 25 / 2"
    by (simp add: reported_position_def position_field_def witness_feedback_def)
  ultimately show ?thesis by auto
qed


text \<open>A drive that acknowledges the mode and answers the enable command.\<close>

definition witness_ack :: frame where
  "witness_ack = empty_frame\<lparr>fr_dlc := 8, fr_data := [1, 0, 0x55, 10, 3, 0, 0, 0]\<rparr>"

definition witness_drive :: dm_env where
  "witness_drive = \<lparr>de_ack = [dm_handleResponse 5 witness_ack], de_configured = (\<lambda>s. s), de_commanded = (\<lambda>s. s),
     de_feedback = [dm_handleResponse 9 witness_feedback]\<rparr>"

lemma witness_ack_received:
  assumes "dc_pendingRegisterAcks t (pendingRegisterAckKey 1 10) \<noteq> None"
  shows "register_acked 1 10 3 (dm_handleResponse 5 witness_ack t)"
    and "dc_managedMotorIds (dm_handleResponse 5 witness_ack t) = dc_managedMotorIds t"
    and "io_txDispatcher (dm_handleResponse 5 witness_ack t) = io_txDispatcher t"
proof -
  have "readUInt32LE witness_ack 4 = 3"
    by (simp add: readUInt32LE_def witness_ack_def empty_frame_def join32_def)
  moreover have "fr_id witness_ack = kDamiaoMasterId" "8 \<le> fr_dlc witness_ack" "fr_data witness_ack ! 0 = 1"
    "fr_data witness_ack ! 1 = 0" "fr_data witness_ack ! 2 = kDamiaoWriteRegisterCommand" "fr_data witness_ack ! 3 = 10"
    by (simp_all add: witness_ack_def empty_frame_def kDamiaoMasterId_def kDamiaoWriteRegisterCommand_def)
  ultimately have h: "dm_handleResponse 5 witness_ack t = t\<lparr>dc_pendingRegisterAcks := (dc_pendingRegisterAcks t)
      (pendingRegisterAckKey 1 10 \<mapsto> \<lparr>ra_received = True, ra_value = 3\<rparr>)\<rparr>"
    unfolding dm_handleResponse_def Let_def using assms by simp
  show "register_acked 1 10 3 (dm_handleResponse 5 witness_ack t)"
    "dc_managedMotorIds (dm_handleResponse 5 witness_ack t) = dc_managedMotorIds t"
    "io_txDispatcher (dm_handleResponse 5 witness_ack t) = io_txDispatcher t"
    unfolding h by (simp_all add: register_acked_def)
qed

lemma witness_reply_received:
  assumes "1 \<in> dc_managedMotorIds t"
  shows "in_feedback_state 1 1 (dm_handleResponse 9 witness_feedback t)"
proof -
  have f: "fr_id witness_feedback = kDamiaoMasterId" "fr_dlc witness_feedback = 8"
    "fr_data witness_feedback ! 2 \<noteq> kDamiaoWriteRegisterCommand" "fr_data witness_feedback ! 0 AND 0x0F = 1"
    by (simp_all add: witness_feedback_def empty_frame_def kDamiaoMasterId_def kDamiaoWriteRegisterCommand_def)
  have "dc_motorStates (dm_handleResponse 9 witness_feedback t) =
      map_modify default_dm_motor 1 (dm_absorb witness_feedback) (dc_motorStates t)"
    unfolding dm_handleResponse_def Let_def f using assms f(3) by (simp add: dm_isManagedMotorId_def)
  moreover have "da_feedbackState (dm_absorb witness_feedback st) = 1" "da_feedbackSeen (dm_absorb witness_feedback st)" for st
    by (simp_all add: dm_absorb_def Let_def witness_feedback_def)
  ultimately show ?thesis by (simp add: in_feedback_state_def)
qed

lemma dm_sync_managed [simp]:
  "dc_managedMotorIds (dm_syncSharedModeSelection n m s) = dc_managedMotorIds s"
  "dc_managedMotorIds (dm_syncSharedIntent n i s) = dc_managedMotorIds s"
  "dc_managedMotorIds (dm_modify n f s) = dc_managedMotorIds s"
  "dc_managedMotorIds (snd (submitTx fr c src s)) = dc_managedMotorIds s"
  "toProtocolNodeId mid \<in> dc_managedMotorIds (dm_registerManagedMotorId mid s)"
  by (simp_all add: dm_syncSharedModeSelection_def dm_syncSharedIntent_def dm_modify_def submitTx_def
      dm_registerManagedMotorId_def on_shared_def Let_def split: option.splits)


text \<open>
  As long as the drive does not acknowledge the velocity mode, neither a speed command nor an
  enable reaches the bus: both fail, and all that was sent is the request to switch the mode.
\<close>

lemma dm_no_motion_before_mode_ack:
  assumes "\<not> dm_configured (toProtocolNodeId mid) s"
    and "list_all (no_mode_ack (toProtocolNodeId mid)) (de_ack env)"
    and "\<exists>now velocity. r = dm_setVelocity env now mid velocity s \<or> r = dm_Enable env mid s"
  shows "\<not> fst r \<and> io_outbox (snd r) = io_outbox s @
     (if io_canController s \<and> io_txDispatcher s then [mode_write (toProtocolNodeId mid)] else [])"
proof -
  have "\<not> dm_configured (toProtocolNodeId mid) (dm_registerManagedMotorId mid s)"
    using assms(1) by (simp add: dm_configured_def)
  from ensure_unacked [OF this assms(2)] assms(3) show ?thesis
    by (auto simp: dm_setVelocity_def dm_Enable_def Let_def)
qed

lemma dm_no_motion_before_mode_ack_witness:
  "\<not> fst (dm_Enable (witness_env\<lparr>de_ack := [dm_handleResponse 9 witness_feedback]\<rparr>) 1 (new_DamiaoCan True True None ''can0'')) \<and>
   length (io_outbox (snd (dm_Enable (witness_env\<lparr>de_ack := [dm_handleResponse 9 witness_feedback]\<rparr>) 1
     (new_DamiaoCan True True None ''can0'')))) = 1"
proof -
  have "no_mode_ack (toProtocolNodeId 1) (dm_handleResponse 9 witness_feedback)"
    by (rule frame_no_mode_ack) (simp add: witness_feedback_def kDamiaoControlModeRegister_def)
  moreover have "\<not> dm_configured (toProtocolNodeId 1) (new_DamiaoCan True True None ''can0'')"
    by (simp add: dm_configured_def new_DamiaoCan_def)
  ultimately show ?thesis
    using dm_no_motion_before_mode_ack [of 1 "new_DamiaoCan True True None ''can0''"
        "witness_env\<lparr>de_ack := [dm_handleResponse 9 witness_feedback]\<rparr>" "dm_Enable (witness_env\<lparr>de_ack := [dm_handleResponse 9 witness_feedback]\<rparr>) 1 (new_DamiaoCan True True None ''can0'')"]
    by (auto simp: new_DamiaoCan_def)
qed

end
