(* ===== verification/Motor_Action_Executor.thy ===== *)
theory Motor_Action_Executor
  imports Axis_Readiness
begin

text \<open>
  \<open>motor_action_executor.cpp\<close>: one call on the protocol object of a motor, guarded by device
  readiness, and the same call on a batch of motors.  The executor sees the rest of the driver
  through \<open>IDeviceManager.h\<close>, an abstract class; an implementation is a record of functions
  over the world \<open>'w\<close> it lives in (its own state, the protocol objects, the shared state, the
  buses).  A protocol object is named by its device and its family.
\<close>

section \<open>The device manager interface\<close>

text \<open>A protocol call returns its verdict or throws; the getters of a protocol may update caches.\<close>

datatype outcome = Returns bool | Throws

type_synonym 'w motor_action = "string \<Rightarrow> CanType \<Rightarrow> motor_id \<Rightarrow> 'w \<Rightarrow> outcome \<times> 'w"
type_synonym 'w motor_query = "string \<Rightarrow> CanType \<Rightarrow> motor_id \<Rightarrow> 'w \<Rightarrow> bool \<times> 'w"

record 'w IDeviceManager =
  idm_initDevice :: "string \<Rightarrow> (CanType \<times> motor_id) list \<Rightarrow> bool \<Rightarrow> 'w \<Rightarrow> bool \<times> 'w"
  idm_shutdownDevice :: "string \<Rightarrow> 'w \<Rightarrow> 'w"
  idm_shutdownAll :: "'w \<Rightarrow> 'w"
  idm_getProtocol :: "string \<Rightarrow> CanType \<Rightarrow> 'w \<Rightarrow> bool"
  idm_getDeviceMutex :: "string \<Rightarrow> 'w \<Rightarrow> bool"
  idm_isDeviceReady :: "string \<Rightarrow> 'w \<Rightarrow> bool \<times> 'w"
  idm_getSharedDriverState :: "'w \<Rightarrow> SharedDriverState option"
  pr_Enable :: "'w motor_action"
  pr_Disable :: "'w motor_action"
  pr_Stop :: "'w motor_action"
  pr_ResetFault :: "'w motor_action"
  pr_hasFault :: "'w motor_query"
  pr_isEnabled :: "'w motor_query"

section \<open>Executing one action\<close>

record Target =
  tg_name :: string
  tg_canDevice :: string
  tg_protocol :: CanType
  tg_motorId :: motor_id

datatype Status = Ok | DeviceNotReady | ProtocolUnavailable | Rejected | Exception

record Failure =
  fl_target :: Target
  fl_status :: Status

record BatchResult =
  br_anySuccess :: bool
  br_anyFailure :: bool
  br_firstFailure :: Status
  br_successCount :: nat
  br_failureCount :: nat
  br_succeededTargets :: "Target list"
  br_failures :: "Failure list"

definition default_BatchResult :: BatchResult where
  "default_BatchResult = \<lparr>br_anySuccess = False, br_anyFailure = False, br_firstFailure = Ok,
     br_successCount = 0, br_failureCount = 0, br_succeededTargets = [], br_failures = []\<rparr>"

record 'w MotorActionExecutor =
  ex_deviceManager :: "'w IDeviceManager option"

definition setDeviceManager :: "'w IDeviceManager option \<Rightarrow> 'w MotorActionExecutor \<Rightarrow> 'w MotorActionExecutor" where
  "setDeviceManager deviceManager ex = ex\<lparr>ex_deviceManager := deviceManager\<rparr>"

text \<open>A closure may be empty.  The device mutex is held during the call, and nothing else is.\<close>

definition execute :: "'w MotorActionExecutor \<Rightarrow> 'w motor_action option \<Rightarrow> Target \<Rightarrow> 'w \<Rightarrow> Status \<times> 'w" where
  "execute ex action target w =
     (case (ex_deviceManager ex, action) of
        (Some dm, Some act) \<Rightarrow>
          (case idm_isDeviceReady dm (tg_canDevice target) w of (ready, w1) \<Rightarrow>
             if \<not> ready then (DeviceNotReady, w1)
             else if \<not> idm_getProtocol dm (tg_canDevice target) (tg_protocol target) w1 \<or>
                     \<not> idm_getDeviceMutex dm (tg_canDevice target) w1
             then (ProtocolUnavailable, w1)
             else case act (tg_canDevice target) (tg_protocol target) (tg_motorId target) w1 of
                    (Returns ok, w2) \<Rightarrow> (if ok then Ok else Rejected, w2)
                  | (Throws, w2) \<Rightarrow> (Exception, w2))
      | _ \<Rightarrow> (ProtocolUnavailable, w))"

section \<open>Batches\<close>

definition note_status :: "Target \<Rightarrow> Status \<Rightarrow> BatchResult \<Rightarrow> BatchResult" where
  "note_status target status result =
     (if status = Ok
      then result\<lparr>br_anySuccess := True, br_successCount := br_successCount result + 1,
                  br_succeededTargets := br_succeededTargets result @ [target]\<rparr>
      else result\<lparr>br_anyFailure := True, br_failureCount := br_failureCount result + 1,
                  br_firstFailure := (if br_firstFailure result = Ok then status else br_firstFailure result),
                  br_failures := br_failures result @ [\<lparr>fl_target = target, fl_status = status\<rparr>]\<rparr>)"

fun batch_loop ::
    "'w MotorActionExecutor \<Rightarrow> 'w motor_action option \<Rightarrow> Target list \<Rightarrow> BatchResult \<Rightarrow> 'w \<Rightarrow> BatchResult \<times> 'w" where
  "batch_loop ex action [] result w = (result, w)"
| "batch_loop ex action (target # targets) result w =
     (case execute ex action target w of (status, w1) \<Rightarrow>
        batch_loop ex action targets (note_status target status result) w1)"

definition executeBatch ::
    "'w MotorActionExecutor \<Rightarrow> 'w motor_action option \<Rightarrow> Target list \<Rightarrow> 'w \<Rightarrow> BatchResult \<times> 'w" where
  "executeBatch ex action targets w = batch_loop ex action targets default_BatchResult w"

section \<open>Facts\<close>

text \<open>
  The reference reading of a batch: the statuses of the calls made one after the other, and the
  summary of such a log.
\<close>

fun execute_each :: "'w MotorActionExecutor \<Rightarrow> 'w motor_action option \<Rightarrow> Target list \<Rightarrow> 'w \<Rightarrow> Status list \<times> 'w" where
  "execute_each ex action [] w = ([], w)"
| "execute_each ex action (t # ts) w =
     (case execute ex action t w of (st, w1) \<Rightarrow> case execute_each ex action ts w1 of (sts, w2) \<Rightarrow> (st # sts, w2))"

definition failed_log :: "(Target \<times> Status) list \<Rightarrow> (Target \<times> Status) list" where
  "failed_log log = filter (\<lambda>e. snd e \<noteq> Ok) log"

definition summary :: "(Target \<times> Status) list \<Rightarrow> BatchResult" where
  "summary log =
     (let succeeded = map fst (filter (\<lambda>e. snd e = Ok) log); failed = failed_log log
      in \<lparr>br_anySuccess = succeeded \<noteq> [], br_anyFailure = failed \<noteq> [],
          br_firstFailure = (if failed = [] then Ok else snd (hd failed)),
          br_successCount = length succeeded, br_failureCount = length failed,
          br_succeededTargets = succeeded,
          br_failures = map (\<lambda>e. \<lparr>fl_target = fst e, fl_status = snd e\<rparr>) failed\<rparr>)"

lemma failed_log_hd: "failed_log log \<noteq> [] \<Longrightarrow> snd (hd (failed_log log)) \<noteq> Ok"
  by (drule list.set_sel(1)) (simp add: failed_log_def)

lemma note_status_summary: "note_status t st (summary log) = summary (log @ [(t, st)])"
proof -
  have hd: "hd (failed_log log @ [(t, st)]) = (if failed_log log = [] then (t, st) else hd (failed_log log))"
    by (cases "failed_log log") auto
  show ?thesis
    using failed_log_hd [of log] hd
    by (auto simp: note_status_def summary_def Let_def failed_log_def)
qed

lemma batch_loop_summary:
  "batch_loop ex action ts (summary log) w =
     (case execute_each ex action ts w of (sts, w') \<Rightarrow> (summary (log @ zip ts sts), w'))"
  by (induction ts arbitrary: log w) (simp_all add: note_status_summary split: prod.splits)

lemma summary_Nil: "summary [] = default_BatchResult"
  by (simp add: summary_def failed_log_def default_BatchResult_def)

lemma executeBatch_summary:
  "executeBatch ex action ts w = (case execute_each ex action ts w of (sts, w') \<Rightarrow> (summary (zip ts sts), w'))"
  using batch_loop_summary [of ex action ts "[]" w] by (simp add: executeBatch_def summary_Nil)

lemma execute_each_length: "length (fst (execute_each ex action ts w)) = length ts"
  by (induction ts arbitrary: w) (simp_all add: split_beta)

lemma summary_any [simp]:
  "br_anyFailure (summary log) \<longleftrightarrow> (\<exists>e\<in>set log. snd e \<noteq> Ok)"
  "br_anySuccess (summary log) \<longleftrightarrow> (\<exists>e\<in>set log. snd e = Ok)"
  by (auto simp: summary_def Let_def failed_log_def filter_empty_conv)

lemma summary_firstFailure: "br_firstFailure (summary log) = Ok \<longleftrightarrow> \<not> br_anyFailure (summary log)"
  using failed_log_hd [of log] by (auto simp: summary_def Let_def)

text \<open>Without a failure every target succeeded.\<close>

lemma executeBatch_all_ok:
  assumes "\<not> br_anyFailure (fst (executeBatch ex action ts w))"
  shows "br_succeededTargets (fst (executeBatch ex action ts w)) = ts"
    and "fst (execute_each ex action ts w) = replicate (length ts) Ok"
proof -
  obtain sts w' where e: "execute_each ex action ts w = (sts, w')" by fastforce
  then have len: "length sts = length ts" using execute_each_length [of ex action ts w] by simp
  have ok: "\<forall>e\<in>set (zip ts sts). snd e = Ok" using assms by (simp add: executeBatch_summary e)
  then have "filter (\<lambda>e. snd e = Ok) (zip ts sts) = zip ts sts" by (simp add: filter_id_conv)
  then show "br_succeededTargets (fst (executeBatch ex action ts w)) = ts"
    using len by (simp add: executeBatch_summary e summary_def Let_def)
  have "sts ! i = Ok" if "i < length sts" for i
    using ok that len by (auto simp: set_zip)
  then show "fst (execute_each ex action ts w) = replicate (length ts) Ok"
    using len e by (auto intro: nth_equalityI)
qed

section \<open>Properties\<close>

text \<open>
  C32: running an action on a batch of motors is calling it on each in turn, in the order given
  and whatever the earlier calls answered, and the result is the summary of the answers: the
  motors that succeeded, the failures with their reasons, the counts, and the first failure.
\<close>

theorem batch_is_sequential_calls:
  "executeBatch ex action ts w =
     (summary (zip ts (fst (execute_each ex action ts w))), snd (execute_each ex action ts w))"
  by (simp add: executeBatch_summary split_beta)

end
