(* ===== verification/Lifecycle_Driver_Ops.thy ===== *)
theory Lifecycle_Driver_Ops
  imports Motor_Action_Executor Operational_Coordinator
begin

text \<open>
  \<open>lifecycle_driver_ops.cpp\<close>: the driver operations behind the lifecycle requests.  They act on
  the configured motors targets, or on those of the devices that were initialised, through
  the motor action executor, confirm the effect on the shared feedback, and decide whether the
  axes are healthy enough to be enabled or to move.

  An operation reads and writes the object itself and the world behind the device manager.
  The steady clock and \<open>sleep_for\<close> are parameters: during a sleep the other threads run, so
  sleeping is a function of the world.  The loops that poll until a deadline are bounded by the
  number of sleeps that fit before it; the locale \<open>steady_world\<close> shows
  that the unbounded loops terminate with the same result on any clock whose sleeps last at
  least as long as asked.
\<close>

section \<open>State\<close>

record 'w steady_clock =
  ck_now :: "'w \<Rightarrow> time_ns"
  ck_sleep_for :: "time_ns \<Rightarrow> 'w \<Rightarrow> 'w"

record AxisRecoverTracker =
  tr_healthyCycles :: u32
  tr_lastSampleNs :: int

definition default_tracker :: AxisRecoverTracker where
  "default_tracker = \<lparr>tr_healthyCycles = 0, tr_lastSampleNs = 0\<rparr>"

record 'w LifecycleDriverOps =
  lo_deviceManager :: "'w IDeviceManager option"
  lo_motorActionExecutor :: "'w MotorActionExecutor option"
  lo_activeTargets :: "Target list"
  lo_config :: readiness_config
  lo_axisRecoverTrackers :: "string \<rightharpoonup> AxisRecoverTracker"
  lo_targets :: "Target list"
  lo_world :: 'w

definition new_LifecycleDriverOps ::
    "'w IDeviceManager option \<Rightarrow> 'w MotorActionExecutor option \<Rightarrow> 'w \<Rightarrow> 'w LifecycleDriverOps" where
  "new_LifecycleDriverOps deviceManager motorActionExecutor w =
     \<lparr>lo_deviceManager = deviceManager, lo_motorActionExecutor = motorActionExecutor, lo_activeTargets = [],
      lo_config = default_readiness_config, lo_axisRecoverTrackers = Map.empty, lo_targets = [], lo_world = w\<rparr>"

fun axisReadinessProtocolName :: "CanType \<Rightarrow> string" where
  "axisReadinessProtocolName MT = ''mt''"
| "axisReadinessProtocolName PP = ''pp''"
| "axisReadinessProtocolName DM = ''dm''"
| "axisReadinessProtocolName ECB = ''ecb''"

definition axisReadinessMapKey :: "AxisKey \<Rightarrow> string" where
  "axisReadinessMapKey key =
     ak_device key @ ''|'' @ axisReadinessProtocolName (ak_protocol key) @ ''|'' @ show_nat (unat (ak_motorId key))"

fun filterTargetsByDevice :: "Target list \<Rightarrow> string \<Rightarrow> Target list" where
  "filterTargetsByDevice [] device = []"
| "filterTargetsByDevice (tgt # targets) device =
     (if tg_canDevice tgt = device then tgt # filterTargetsByDevice targets device
      else filterTargetsByDevice targets device)"

section \<open>Configuration and active targets\<close>

definition clear_trackers :: "'w LifecycleDriverOps \<Rightarrow> 'w LifecycleDriverOps" where
  "clear_trackers s = s\<lparr>lo_axisRecoverTrackers := Map.empty\<rparr>"

definition configure ::
    "'w IDeviceManager option \<Rightarrow> 'w MotorActionExecutor option \<Rightarrow> 'w LifecycleDriverOps \<Rightarrow> 'w LifecycleDriverOps" where
  "configure deviceManager motorActionExecutor s =
     clear_trackers (s\<lparr>lo_deviceManager := deviceManager, lo_motorActionExecutor := motorActionExecutor,
                       lo_activeTargets := []\<rparr>)"

definition setTargets :: "Target list \<Rightarrow> 'w LifecycleDriverOps \<Rightarrow> 'w LifecycleDriverOps" where
  "setTargets targets s = clear_trackers (s\<lparr>lo_targets := targets, lo_activeTargets := []\<rparr>)"

definition setFeedbackFreshnessTimeoutNs :: "int \<Rightarrow> 'w LifecycleDriverOps \<Rightarrow> 'w LifecycleDriverOps" where
  "setFeedbackFreshnessTimeoutNs timeoutNs s =
     clear_trackers (s\<lparr>lo_config := (lo_config s)\<lparr>cfg_feedbackFreshnessTimeoutNs := timeoutNs\<rparr>\<rparr>)"

definition targetsSnapshot :: "'w LifecycleDriverOps \<Rightarrow> Target list" where
  "targetsSnapshot s = lo_targets s"

definition lifecycleTargetsSnapshot :: "'w LifecycleDriverOps \<Rightarrow> Target list" where
  "lifecycleTargetsSnapshot s = (if lo_activeTargets s = [] then lo_targets s else lo_activeTargets s)"

definition activateTargetsForDevice :: "string \<Rightarrow> Target list \<Rightarrow> 'w LifecycleDriverOps \<Rightarrow> 'w LifecycleDriverOps" where
  "activateTargetsForDevice device deviceTargets s =
     s\<lparr>lo_activeTargets := filter (\<lambda>tgt. tg_canDevice tgt \<noteq> device) (lo_activeTargets s) @ deviceTargets\<rparr>"

definition deactivateTargetsForDevice :: "string \<Rightarrow> 'w LifecycleDriverOps \<Rightarrow> 'w LifecycleDriverOps" where
  "deactivateTargetsForDevice device s =
     clear_trackers (s\<lparr>lo_activeTargets := filter (\<lambda>tgt. tg_canDevice tgt \<noteq> device) (lo_activeTargets s)\<rparr>)"

definition clearActiveTargets :: "'w LifecycleDriverOps \<Rightarrow> 'w LifecycleDriverOps" where
  "clearActiveTargets s = clear_trackers (s\<lparr>lo_activeTargets := []\<rparr>)"

section \<open>Batches\<close>

definition makeMotorActionFailureResult :: "Status \<Rightarrow> string \<Rightarrow> string \<Rightarrow> Result" where
  "makeMotorActionFailureResult status rejectedMessage protocolUnavailableMessage =
     (case status of
        DeviceNotReady \<Rightarrow> result False ''CAN device not ready.''
      | ProtocolUnavailable \<Rightarrow> result False protocolUnavailableMessage
      | Rejected \<Rightarrow> result False rejectedMessage
      | _ \<Rightarrow> result False ''Command execution failed.'')"

text \<open>The executor's batch on the world of the operations; \<open>pr\<close> picks the protocol call.\<close>

definition run_batch ::
    "('w IDeviceManager \<Rightarrow> 'w motor_action) \<Rightarrow> 'w MotorActionExecutor \<Rightarrow> Target list \<Rightarrow>
     'w LifecycleDriverOps \<Rightarrow> BatchResult \<times> 'w LifecycleDriverOps" where
  "run_batch pr ex targets s =
     (case executeBatch ex (map_option pr (ex_deviceManager ex)) targets (lo_world s) of
        (batch, w) \<Rightarrow> (batch, s\<lparr>lo_world := w\<rparr>))"

definition runMotorBatchAction ::
    "Target list \<Rightarrow> ('w IDeviceManager \<Rightarrow> 'w motor_action) \<Rightarrow> string \<Rightarrow> string \<Rightarrow> bool \<Rightarrow>
     'w LifecycleDriverOps \<Rightarrow> Result \<times> 'w LifecycleDriverOps" where
  "runMotorBatchAction targets pr rejectedMessage protocolUnavailableMessage requireAnyTarget s =
     (case lo_motorActionExecutor s of
        None \<Rightarrow> (result False ''Motor action executor unavailable.'', s)
      | Some ex \<Rightarrow>
          if targets = []
          then (if requireAnyTarget then result False ''No joints available.''
                else result True ''No joints to process.'', s)
          else case run_batch pr ex targets s of (batch, s1) \<Rightarrow>
            if \<not> br_anySuccess batch \<and> br_anyFailure batch
            then (makeMotorActionFailureResult (br_firstFailure batch) rejectedMessage protocolUnavailableMessage, s1)
            else if \<not> br_anySuccess batch \<and> requireAnyTarget then (result False ''No joints available.'', s1)
            else if br_anyFailure batch
            then (makeMotorActionFailureResult (br_firstFailure batch) rejectedMessage protocolUnavailableMessage, s1)
            else (result True [], s1))"

section \<open>Queries\<close>

text \<open>Each of these returns null, or \<open>false\<close>, without a device manager.\<close>

definition getProtocol :: "string \<Rightarrow> CanType \<Rightarrow> 'w LifecycleDriverOps \<Rightarrow> bool" where
  "getProtocol device type s =
     (case lo_deviceManager s of None \<Rightarrow> False | Some dm \<Rightarrow> idm_getProtocol dm device type (lo_world s))"

definition getDeviceMutex :: "string \<Rightarrow> 'w LifecycleDriverOps \<Rightarrow> bool" where
  "getDeviceMutex device s =
     (case lo_deviceManager s of None \<Rightarrow> False | Some dm \<Rightarrow> idm_getDeviceMutex dm device (lo_world s))"

definition isDeviceReady :: "string \<Rightarrow> 'w LifecycleDriverOps \<Rightarrow> bool \<times> 'w LifecycleDriverOps" where
  "isDeviceReady device s =
     (case lo_deviceManager s of
        None \<Rightarrow> (False, s)
      | Some dm \<Rightarrow> (case idm_isDeviceReady dm device (lo_world s) of (ready, w) \<Rightarrow> (ready, s\<lparr>lo_world := w\<rparr>)))"

definition getSharedDriverState :: "'w LifecycleDriverOps \<Rightarrow> SharedDriverState option" where
  "getSharedDriverState s =
     (case lo_deviceManager s of None \<Rightarrow> None | Some dm \<Rightarrow> idm_getSharedDriverState dm (lo_world s))"

definition target_key :: "Target \<Rightarrow> AxisKey" where
  "target_key tgt = MakeAxisKey (tg_canDevice tgt) (tg_protocol tgt) (tg_motorId tgt)"

text \<open>\<open>*hasFault\<close>, or nothing when the query returns \<open>false\<close>; likewise for \<open>*enabled\<close>.\<close>

definition ask_protocol ::
    "('w IDeviceManager \<Rightarrow> 'w motor_query) \<Rightarrow> Target \<Rightarrow> 'w LifecycleDriverOps \<Rightarrow> bool option \<times> 'w LifecycleDriverOps" where
  "ask_protocol pr tgt s =
     (case lo_deviceManager s of
        None \<Rightarrow> (None, s)
      | Some dm \<Rightarrow>
          if \<not> getProtocol (tg_canDevice tgt) (tg_protocol tgt) s \<or> \<not> getDeviceMutex (tg_canDevice tgt) s
          then (None, s)
          else case pr dm (tg_canDevice tgt) (tg_protocol tgt) (tg_motorId tgt) (lo_world s) of
                 (b, w) \<Rightarrow> (Some b, s\<lparr>lo_world := w\<rparr>))"

definition queryMotorFault :: "Target \<Rightarrow> 'w LifecycleDriverOps \<Rightarrow> bool option \<times> 'w LifecycleDriverOps" where
  "queryMotorFault tgt s =
     (case Option.bind (getSharedDriverState s) (\<lambda>shared. getAxisFeedback shared (target_key tgt)) of
        Some feedback \<Rightarrow> if fb_feedbackSeen feedback \<and> fb_faultValid feedback then (Some (fb_fault feedback), s)
                          else ask_protocol pr_hasFault tgt s
      | None \<Rightarrow> ask_protocol pr_hasFault tgt s)"

definition queryMotorEnabled :: "Target \<Rightarrow> 'w LifecycleDriverOps \<Rightarrow> bool option \<times> 'w LifecycleDriverOps" where
  "queryMotorEnabled tgt s =
     (case Option.bind (getSharedDriverState s) (\<lambda>shared. getAxisFeedback shared (target_key tgt)) of
        Some feedback \<Rightarrow> if fb_feedbackSeen feedback \<and> fb_enabledValid feedback then (Some (fb_enabled feedback), s)
                          else ask_protocol pr_isEnabled tgt s
      | None \<Rightarrow> ask_protocol pr_isEnabled tgt s)"

section \<open>Readiness with recovery tracking\<close>

definition advance_tracker :: "u32 \<Rightarrow> int \<Rightarrow> AxisRecoverTracker \<Rightarrow> AxisRecoverTracker" where
  "advance_tracker confirmCycles lastRx tracker =
     (if 0 < lastRx \<and> lastRx \<noteq> tr_lastSampleNs tracker
      then tracker\<lparr>tr_lastSampleNs := lastRx, tr_healthyCycles := min (tr_healthyCycles tracker + 1) confirmCycles\<rparr>
      else tracker\<lparr>tr_healthyCycles := max (tr_healthyCycles tracker) 1\<rparr>)"

definition evaluateAxisReadiness ::
    "time_ns \<Rightarrow> AxisKey \<Rightarrow> AxisFeedbackState \<Rightarrow> AxisCommandState option \<Rightarrow> AxisIntent \<Rightarrow> DeviceHealthState option \<Rightarrow>
     'w LifecycleDriverOps \<Rightarrow> AxisReadiness \<times> 'w LifecycleDriverOps" where
  "evaluateAxisReadiness nowNs axisKey feedback command intent deviceHealth s =
     (let readiness = Evaluate (lo_config s) feedback command intent deviceHealth nowNs;
          mapKey = axisReadinessMapKey axisKey;
          erased = s\<lparr>lo_axisRecoverTrackers := (lo_axisRecoverTrackers s)(mapKey := None)\<rparr>
      in if intent \<noteq> IntentRecover
         then (readiness\<lparr>rd_recoverConfirmed := rd_axisReadyForEnable readiness\<rparr>, erased)
         else if \<not> rd_axisReadyForEnable readiness
         then (readiness\<lparr>rd_recoverConfirmed := False\<rparr>, erased)
         else let tracker = advance_tracker (recoverConfirmCycles (lo_config s)) (fb_lastRxSteadyNs feedback)
                              (map_at default_tracker (lo_axisRecoverTrackers s) mapKey)
              in (readiness\<lparr>rd_recoverConfirmed := recoverConfirmCycles (lo_config s) \<le> tr_healthyCycles tracker\<rparr>,
                  s\<lparr>lo_axisRecoverTrackers := (lo_axisRecoverTrackers s)(mapKey \<mapsto> tracker)\<rparr>))"

section \<open>Devices\<close>

definition prepareDevice :: "string \<Rightarrow> bool \<Rightarrow> 'w LifecycleDriverOps \<Rightarrow> Result \<times> 'w LifecycleDriverOps" where
  "prepareDevice device loopback s =
     (case lo_deviceManager s of
        None \<Rightarrow> (result False ''Device manager unavailable.'', s)
      | Some dm \<Rightarrow>
          let deviceTargets = filterTargetsByDevice (targetsSnapshot s) device
          in if deviceTargets = [] then (result False (''No joints available for device '' @ device), s)
             else case idm_initDevice dm device (map (\<lambda>tgt. (tg_protocol tgt, tg_motorId tgt)) deviceTargets)
                         loopback (lo_world s) of
               (ok, w) \<Rightarrow> if \<not> ok then (result False (''Failed to initialize '' @ device), s\<lparr>lo_world := w\<rparr>)
                         else (result True [], s\<lparr>lo_world := w\<rparr>))"

definition initializeDevice :: "string \<Rightarrow> bool \<Rightarrow> 'w LifecycleDriverOps \<Rightarrow> Result \<times> 'w LifecycleDriverOps" where
  "initializeDevice device loopback s =
     (case prepareDevice device loopback s of (prepare, s1) \<Rightarrow>
        if \<not> res_ok prepare then (prepare, s1)
        else (result True ''initialized (standby)'',
              activateTargetsForDevice device (filterTargetsByDevice (targetsSnapshot s1) device) s1))"

definition shutdownDevice :: "string \<Rightarrow> 'w LifecycleDriverOps \<Rightarrow> Result \<times> 'w LifecycleDriverOps" where
  "shutdownDevice device s =
     (case lo_deviceManager s of
        None \<Rightarrow> (result False ''Device manager unavailable.'', s)
      | Some dm \<Rightarrow> (result True [], deactivateTargetsForDevice device (s\<lparr>lo_world := idm_shutdownDevice dm device (lo_world s)\<rparr>)))"

definition shutdownAll :: "bool \<Rightarrow> 'w LifecycleDriverOps \<Rightarrow> Result \<times> 'w LifecycleDriverOps" where
  "shutdownAll force s =
     (case lo_deviceManager s of
        None \<Rightarrow> (result False ''Device manager unavailable.'', s)
      | Some dm \<Rightarrow> (result True [], clearActiveTargets (s\<lparr>lo_world := idm_shutdownAll dm (lo_world s)\<rparr>)))"

section \<open>Loops\<close>

text \<open>
  The loops over the targets stop at the first one that is not as wanted; \<open>scan\<close> is such a
  loop, \<open>check\<close> its body, and the result what the body broke off with.
\<close>

fun scan :: "(Target \<Rightarrow> 's \<Rightarrow> 'v option \<times> 's) \<Rightarrow> Target list \<Rightarrow> 's \<Rightarrow> 'v option \<times> 's" where
  "scan check [] s = (None, s)"
| "scan check (tgt # tgts) s =
     (case check tgt s of (None, s1) \<Rightarrow> scan check tgts s1 | (Some v, s1) \<Rightarrow> (Some v, s1))"

definition sleep :: "'w steady_clock \<Rightarrow> time_ns \<Rightarrow> 'w LifecycleDriverOps \<Rightarrow> 'w LifecycleDriverOps" where
  "sleep ck d s = s\<lparr>lo_world := ck_sleep_for ck d (lo_world s)\<rparr>"

abbreviation now_of :: "'w steady_clock \<Rightarrow> 'w LifecycleDriverOps \<Rightarrow> time_ns" where
  "now_of ck s \<equiv> ck_now ck (lo_world s)"

text \<open>
  \<open>while (now() < deadline) { body; sleep; }\<close>: a pass of the body returns (\<open>Inl\<close>) or goes on with a detail
  (\<open>Inr\<close>), which the code after the loop sees.
\<close>

fun poll_loop ::
    "'w steady_clock \<Rightarrow> time_ns \<Rightarrow> time_ns \<Rightarrow> ('w LifecycleDriverOps \<Rightarrow> ('r + 'd) \<times> 'w LifecycleDriverOps) \<Rightarrow>
     nat \<Rightarrow> 'd \<Rightarrow> 'w LifecycleDriverOps \<Rightarrow> ('r + 'd) \<times> 'w LifecycleDriverOps" where
  "poll_loop ck deadline interval body 0 d s = (Inr d, s)"
| "poll_loop ck deadline interval body (Suc n) d s =
     (if now_of ck s < deadline
      then case body s of
             (Inl r, s1) \<Rightarrow> (Inl r, s1)
           | (Inr d', s1) \<Rightarrow> poll_loop ck deadline interval body n d' (sleep ck interval s1)
      else (Inr d, s))"

text \<open>The number of sleeps of \<open>interval\<close> that start before a deadline \<open>timeout\<close> away.\<close>

definition poll_rounds :: "time_ns \<Rightarrow> time_ns \<Rightarrow> nat" where
  "poll_rounds timeout interval = nat ((timeout + interval - 1) div interval)"

text \<open>
  \<open>while (true) { if (check) return true; if (!retryable || now() >= deadline) return false; sleep; }\<close>
\<close>

fun retry ::
    "'w steady_clock \<Rightarrow> time_ns \<Rightarrow> time_ns \<Rightarrow> ('d \<Rightarrow> bool) \<Rightarrow> ('w LifecycleDriverOps \<Rightarrow> 'd option \<times> 'w LifecycleDriverOps) \<Rightarrow>
     nat \<Rightarrow> 'w LifecycleDriverOps \<Rightarrow> 'd option \<times> 'w LifecycleDriverOps" where
  "retry ck deadline interval retryable check 0 s = check s"
| "retry ck deadline interval retryable check (Suc n) s =
     (case check s of
        (None, s1) \<Rightarrow> (None, s1)
      | (Some d, s1) \<Rightarrow> if \<not> retryable d \<or> deadline \<le> now_of ck s1 then (Some d, s1)
                        else retry ck deadline interval retryable check n (sleep ck interval s1))"

text \<open>The loops as they are written, without the bound: \<open>None\<close> is a loop that never returns.\<close>

partial_function (option) poll_while ::
    "'w steady_clock \<Rightarrow> time_ns \<Rightarrow> time_ns \<Rightarrow> ('w LifecycleDriverOps \<Rightarrow> ('r + 'd) \<times> 'w LifecycleDriverOps) \<Rightarrow>
     'd \<Rightarrow> 'w LifecycleDriverOps \<Rightarrow> (('r + 'd) \<times> 'w LifecycleDriverOps) option" where
  "poll_while ck deadline interval body d s =
     (if now_of ck s < deadline
      then case body s of
             (Inl r, s1) \<Rightarrow> Some (Inl r, s1)
           | (Inr d', s1) \<Rightarrow> poll_while ck deadline interval body d' (sleep ck interval s1)
      else Some (Inr d, s))"

partial_function (option) retry_while ::
    "'w steady_clock \<Rightarrow> time_ns \<Rightarrow> time_ns \<Rightarrow> ('d \<Rightarrow> bool) \<Rightarrow> ('w LifecycleDriverOps \<Rightarrow> 'd option \<times> 'w LifecycleDriverOps) \<Rightarrow>
     'w LifecycleDriverOps \<Rightarrow> ('d option \<times> 'w LifecycleDriverOps) option" where
  "retry_while ck deadline interval retryable check s =
     (case check s of
        (None, s1) \<Rightarrow> Some (None, s1)
      | (Some d, s1) \<Rightarrow> if \<not> retryable d \<or> deadline \<le> now_of ck s1 then Some (Some d, s1)
                        else retry_while ck deadline interval retryable check (sleep ck interval s1))"

section \<open>Per-axis checks\<close>

text \<open>What the shared state holds about an axis, when it has feedback for it.\<close>

definition axis_inputs ::
    "Target \<Rightarrow> 'w LifecycleDriverOps \<Rightarrow> (AxisFeedbackState \<times> AxisCommandState option \<times> DeviceHealthState option) option" where
  "axis_inputs tgt s =
     Option.bind (getSharedDriverState s) (\<lambda>shared.
       map_option (\<lambda>feedback. (feedback, getAxisCommand shared (target_key tgt), getDeviceHealth shared (tg_canDevice tgt)))
         (getAxisFeedback shared (target_key tgt)))"

definition fill_fault ::
    "Target \<Rightarrow> AxisFeedbackState \<Rightarrow> 'w LifecycleDriverOps \<Rightarrow> AxisFeedbackState \<times> 'w LifecycleDriverOps" where
  "fill_fault tgt feedback s =
     (if fb_faultValid feedback then (feedback, s)
      else case queryMotorFault tgt s of
             (Some hasFault, s1) \<Rightarrow> (feedback\<lparr>fb_fault := hasFault, fb_faultValid := True\<rparr>, s1)
           | (None, s1) \<Rightarrow> (feedback, s1))"

definition fill_enabled ::
    "Target \<Rightarrow> AxisFeedbackState \<Rightarrow> 'w LifecycleDriverOps \<Rightarrow> AxisFeedbackState \<times> 'w LifecycleDriverOps" where
  "fill_enabled tgt feedback s =
     (case queryMotorEnabled tgt s of
        (Some enabled, s1) \<Rightarrow> (feedback\<lparr>fb_enabled := enabled, fb_enabledValid := True\<rparr>, s1)
      | (None, s1) \<Rightarrow> (feedback, s1))"

text \<open>The intent is read when the axis is evaluated, after the queries.\<close>

definition axis_intent :: "Target \<Rightarrow> 'w LifecycleDriverOps \<Rightarrow> AxisIntent" where
  "axis_intent tgt s =
     (case getSharedDriverState s of None \<Rightarrow> IntentNone | Some shared \<Rightarrow> getAxisIntent shared (target_key tgt))"

section \<open>Recovery\<close>

text \<open>The body of the verification loop: not healthy (\<open>None\<close>), or an early return.\<close>

definition recover_check ::
    "'w steady_clock \<Rightarrow> Target \<Rightarrow> 'w LifecycleDriverOps \<Rightarrow> Result option option \<times> 'w LifecycleDriverOps" where
  "recover_check ck tgt s =
     (case isDeviceReady (tg_canDevice tgt) s of (ready, s1) \<Rightarrow>
        if \<not> ready then (Some None, s1)
        else case axis_inputs tgt s1 of
          Some (feedback, command, deviceHealth) \<Rightarrow>
            (case fill_fault tgt feedback s1 of (feedback', s2) \<Rightarrow>
              case evaluateAxisReadiness (now_of ck s2) (target_key tgt) feedback' command IntentRecover deviceHealth s2 of
                (readiness, s3) \<Rightarrow> (if \<not> RecoverConfirmed readiness then Some None else None, s3))
        | None \<Rightarrow>
            (case queryMotorFault tgt s1 of
               (None, s2) \<Rightarrow> (Some (Some (result False ''Protocol not available during fault verification.'')), s2)
             | (Some hasFault, s2) \<Rightarrow> (if hasFault then Some None else None, s2)))"

definition recover_round ::
    "'w steady_clock \<Rightarrow> Target list \<Rightarrow> 'w LifecycleDriverOps \<Rightarrow> (Result + unit) \<times> 'w LifecycleDriverOps" where
  "recover_round ck tgts s =
     (case scan (recover_check ck) tgts s of
        (None, s1) \<Rightarrow> (Inl (result True []), s1)
      | (Some None, s1) \<Rightarrow> (Inr (), s1)
      | (Some (Some r), s1) \<Rightarrow> (Inl r, s1))"

definition recoverAll :: "'w steady_clock \<Rightarrow> 'w LifecycleDriverOps \<Rightarrow> Result \<times> 'w LifecycleDriverOps" where
  "recoverAll ck s =
     (case lo_motorActionExecutor s of
        None \<Rightarrow> (result False ''Motor action executor unavailable.'', s)
      | Some ex \<Rightarrow>
          let tgts = lifecycleTargetsSnapshot s
          in if tgts = [] then (result False ''No motors available for recover.'', s)
             else case run_batch pr_ResetFault ex tgts s of (batch, s1) \<Rightarrow>
               if \<not> br_anySuccess batch \<and> br_anyFailure batch
               then (makeMotorActionFailureResult (br_firstFailure batch) ''Recover command rejected.''
                       ''Protocol fault-reset path not available.'', s1)
               else if \<not> br_anySuccess batch then (result False ''No motors available for recover.'', s1)
               else case poll_loop ck (now_of ck s1 + ms 2000) (ms 50) (recover_round ck tgts) (poll_rounds (ms 2000) (ms 50)) () s1 of
                      (Inl r, s2) \<Rightarrow> (r, s2)
                    | (Inr _, s2) \<Rightarrow> (result False ''Recover timeout: fault still active.'', s2))"

section \<open>Enabling\<close>

text \<open>A detail is set only while it is empty, and every break sets a non-empty one.\<close>

definition enabled_check ::
    "'w steady_clock \<Rightarrow> Target \<Rightarrow> 'w LifecycleDriverOps \<Rightarrow> string option \<times> 'w LifecycleDriverOps" where
  "enabled_check ck tgt s =
     (case isDeviceReady (tg_canDevice tgt) s of (ready, s1) \<Rightarrow>
        if \<not> ready then (Some ''CAN device not ready.'', s1)
        else case axis_inputs tgt s1 of
          Some (feedback, command, deviceHealth) \<Rightarrow>
            (case fill_fault tgt feedback s1 of (feedback1, s2) \<Rightarrow>
              case (if \<not> fb_enabledValid feedback1 \<or> \<not> fb_enabled feedback1
                    then fill_enabled tgt feedback1 s2 else (feedback1, s2)) of (feedback2, s3) \<Rightarrow>
              case evaluateAxisReadiness (now_of ck s3) (target_key tgt) feedback2 command IntentEnable deviceHealth s3 of
                (readiness, s4) \<Rightarrow>
                  (if \<not> (ReadyForEnable readiness \<and> rd_enabledReady readiness)
                   then Some (tg_name tgt @ '': '' @ DescribeBlockReason readiness) else None, s4))
        | None \<Rightarrow>
            (case queryMotorEnabled tgt s1 of
               (None, s2) \<Rightarrow> (Some (tg_name tgt @ '': Protocol not available.''), s2)
             | (Some enabled, s2) \<Rightarrow> (if \<not> enabled then Some (tg_name tgt @ '': Axis not enabled.'') else None, s2)))"

definition enabled_round ::
    "'w steady_clock \<Rightarrow> Target list \<Rightarrow> 'w LifecycleDriverOps \<Rightarrow> (unit + string) \<times> 'w LifecycleDriverOps" where
  "enabled_round ck tgts s =
     (case scan (enabled_check ck) tgts s of (None, s1) \<Rightarrow> (Inl (), s1) | (Some detail, s1) \<Rightarrow> (Inr detail, s1))"

definition waitForEnabledTargets ::
    "'w steady_clock \<Rightarrow> Target list \<Rightarrow> time_ns \<Rightarrow> time_ns \<Rightarrow> 'w LifecycleDriverOps \<Rightarrow> Result \<times> 'w LifecycleDriverOps" where
  "waitForEnabledTargets ck tgts timeout pollInterval s =
     (case poll_loop ck (now_of ck s + timeout) pollInterval (enabled_round ck tgts) (poll_rounds timeout pollInterval) [] s of
        (Inl _, s1) \<Rightarrow> (result True ''enabled (armed)'', s1)
      | (Inr detail, s1) \<Rightarrow>
          (result False (''Enable confirmation timeout: '' @ or_default detail ''Axis not enabled.''), s1))"

text \<open>Undoing an enable: disable the given motors and report what went wrong first.\<close>

definition rollback ::
    "'w MotorActionExecutor \<Rightarrow> Target list \<Rightarrow> string \<Rightarrow> string \<Rightarrow> Result \<Rightarrow> 'w LifecycleDriverOps \<Rightarrow>
     Result \<times> 'w LifecycleDriverOps" where
  "rollback ex tgts rejectedMessage protocolUnavailableMessage cause s =
     (case run_batch pr_Disable ex tgts s of (batch, s1) \<Rightarrow>
        if br_anyFailure batch
        then (makeMotorActionFailureResult (br_firstFailure batch) rejectedMessage protocolUnavailableMessage, s1)
        else (cause, s1))"

definition enableDevice :: "'w steady_clock \<Rightarrow> string \<Rightarrow> 'w LifecycleDriverOps \<Rightarrow> Result \<times> 'w LifecycleDriverOps" where
  "enableDevice ck device s =
     (case lo_motorActionExecutor s of
        None \<Rightarrow> (result False ''Motor action executor unavailable.'', s)
      | Some ex \<Rightarrow>
          let deviceTargets = filterTargetsByDevice (targetsSnapshot s) device
          in if deviceTargets = [] then (result False (''No joints available for device '' @ device), s)
             else case run_batch pr_Enable ex deviceTargets s of (batch, s1) \<Rightarrow>
               if br_anyFailure batch
               then let cause = makeMotorActionFailureResult (br_firstFailure batch) ''Enable command rejected.'' ''Protocol not available.''
                    in if br_succeededTargets batch \<noteq> []
                       then rollback ex (br_succeededTargets batch) ''Init enable rollback failed after partial success.''
                              ''Protocol not available during init enable rollback.'' cause s1
                       else (cause, s1)
               else case waitForEnabledTargets ck deviceTargets (ms 2000) (ms 50) s1 of (confirmed, s2) \<Rightarrow>
                 if \<not> res_ok confirmed
                 then rollback ex deviceTargets ''Init enable confirmation rollback failed after enable timeout.''
                        ''Protocol not available during init enable confirmation rollback.'' confirmed s2
                 else (result True ''enabled (armed)'', s2))"

definition enableAll :: "'w steady_clock \<Rightarrow> 'w LifecycleDriverOps \<Rightarrow> Result \<times> 'w LifecycleDriverOps" where
  "enableAll ck s =
     (case lo_motorActionExecutor s of
        None \<Rightarrow> (result False ''Motor action executor unavailable.'', s)
      | Some ex \<Rightarrow>
          let tgts = lifecycleTargetsSnapshot s
          in if tgts = [] then (result False ''No joints available for enable.'', s)
             else case run_batch pr_Enable ex tgts s of (batch, s1) \<Rightarrow>
               if br_anyFailure batch
               then let cause = makeMotorActionFailureResult (br_firstFailure batch) ''Enable command rejected.'' ''Protocol not available.''
                    in if br_succeededTargets batch \<noteq> []
                       then rollback ex (br_succeededTargets batch) ''Enable rollback failed after partial success.''
                              ''Protocol not available during enable rollback.'' cause s1
                       else (cause, s1)
               else if \<not> br_anySuccess batch then (result False ''No joints available for enable.'', s1)
               else case waitForEnabledTargets ck tgts (ms 2000) (ms 50) s1 of (confirmed, s2) \<Rightarrow>
                 if \<not> res_ok confirmed
                 then if br_succeededTargets batch \<noteq> []
                      then rollback ex (br_succeededTargets batch) ''Enable confirmation rollback failed after enable timeout.''
                             ''Protocol not available during enable confirmation rollback.'' confirmed s2
                      else (confirmed, s2)
                 else (result True ''enabled (armed)'', s2))"

definition disableAll :: "'w LifecycleDriverOps \<Rightarrow> Result \<times> 'w LifecycleDriverOps" where
  "disableAll s = runMotorBatchAction (lifecycleTargetsSnapshot s) pr_Disable ''Disable command rejected.''
     ''Protocol not available.'' False s"

definition haltAll :: "'w LifecycleDriverOps \<Rightarrow> Result \<times> 'w LifecycleDriverOps" where
  "haltAll s = runMotorBatchAction (lifecycleTargetsSnapshot s) pr_Stop ''Halt command rejected.''
     ''Protocol not available.'' False s"

section \<open>Health\<close>

definition anyFaultActive :: "'w LifecycleDriverOps \<Rightarrow> bool \<times> 'w LifecycleDriverOps" where
  "anyFaultActive s =
     (case scan (\<lambda>tgt s. case queryMotorFault tgt s of (r, s1) \<Rightarrow> (if r = Some True then Some () else None, s1))
             (lifecycleTargetsSnapshot s) s of
        (r, s1) \<Rightarrow> (r \<noteq> None, s1))"

definition no_feedback_check :: "Target \<Rightarrow> 'w LifecycleDriverOps \<Rightarrow> string option \<times> 'w LifecycleDriverOps" where
  "no_feedback_check tgt s =
     (case queryMotorFault tgt s of
        (None, s1) \<Rightarrow> (Some ''Protocol not available.'', s1)
      | (Some hasFault, s1) \<Rightarrow> (if hasFault then Some ''Fault still active.'' else None, s1))"

definition enable_health_check ::
    "'w steady_clock \<Rightarrow> Target \<Rightarrow> 'w LifecycleDriverOps \<Rightarrow> string option \<times> 'w LifecycleDriverOps" where
  "enable_health_check ck tgt s =
     (case isDeviceReady (tg_canDevice tgt) s of (ready, s1) \<Rightarrow>
        if \<not> ready then (Some ''CAN device not ready.'', s1)
        else case axis_inputs tgt s1 of
          Some (feedback, command, deviceHealth) \<Rightarrow>
            (case fill_fault tgt feedback s1 of (feedback', s2) \<Rightarrow>
              case evaluateAxisReadiness (now_of ck s2) (target_key tgt) feedback' command IntentEnable deviceHealth s2 of
                (readiness, s3) \<Rightarrow>
                  (if \<not> ReadyForEnable readiness then Some (tg_name tgt @ '': '' @ DescribeBlockReason readiness) else None, s3))
        | None \<Rightarrow> no_feedback_check tgt s1)"

text \<open>A mode the drive has not reported counts as the commanded one, except for DM drives.\<close>

definition assume_mode :: "Target \<Rightarrow> AxisCommandState option \<Rightarrow> AxisFeedbackState \<Rightarrow> AxisFeedbackState" where
  "assume_mode tgt command feedback =
     (case command of
        None \<Rightarrow> feedback
      | Some c \<Rightarrow> if tg_protocol tgt \<in> {MT, PP, ECB} \<and> \<not> fb_modeValid feedback \<and> ac_desiredModeValid c
                  then feedback\<lparr>fb_mode := ac_desiredMode c, fb_modeValid := True\<rparr> else feedback)"

definition motion_health_check ::
    "'w steady_clock \<Rightarrow> Target \<Rightarrow> 'w LifecycleDriverOps \<Rightarrow> string option \<times> 'w LifecycleDriverOps" where
  "motion_health_check ck tgt s =
     (case isDeviceReady (tg_canDevice tgt) s of (ready, s1) \<Rightarrow>
        if \<not> ready then (Some ''CAN device not ready.'', s1)
        else case axis_inputs tgt s1 of
          Some (feedback, command, deviceHealth) \<Rightarrow>
            (case fill_fault tgt feedback s1 of (feedback1, s2) \<Rightarrow>
              case (if \<not> fb_enabledValid feedback1 then fill_enabled tgt feedback1 s2 else (feedback1, s2)) of
                (feedback2, s3) \<Rightarrow>
              case evaluateAxisReadiness (now_of ck s3) (target_key tgt) (assume_mode tgt command feedback2) command
                     (axis_intent tgt s3) deviceHealth s3 of
                (readiness, s4) \<Rightarrow>
                  (if \<not> ReadyForRun readiness then Some (tg_name tgt @ '': '' @ DescribeBlockReason readiness) else None, s4))
        | None \<Rightarrow> no_feedback_check tgt s1)"

text \<open>The verdict and, when it is negative, the detail.\<close>

definition enableHealthyOnce :: "'w steady_clock \<Rightarrow> 'w LifecycleDriverOps \<Rightarrow> string option \<times> 'w LifecycleDriverOps" where
  "enableHealthyOnce ck s = scan (enable_health_check ck) (lifecycleTargetsSnapshot s) s"

definition motionHealthyOnce :: "'w steady_clock \<Rightarrow> 'w LifecycleDriverOps \<Rightarrow> string option \<times> 'w LifecycleDriverOps" where
  "motionHealthyOnce ck s = scan (motion_health_check ck) (lifecycleTargetsSnapshot s) s"

definition feedback_retryable :: "string \<Rightarrow> bool" where
  "feedback_retryable lastDetail \<longleftrightarrow> sublist ''Feedback degraded.'' lastDetail \<or>
     sublist ''Feedback offline.'' lastDetail \<or> sublist ''Feedback stale.'' lastDetail"

definition enableHealthy :: "'w steady_clock \<Rightarrow> 'w LifecycleDriverOps \<Rightarrow> bool \<times> string \<times> 'w LifecycleDriverOps" where
  "enableHealthy ck s =
     (case retry ck (now_of ck s + ms 750) (ms 50) feedback_retryable (enableHealthyOnce ck) (poll_rounds (ms 750) (ms 50)) s of
        (None, s1) \<Rightarrow> (True, [], s1) | (Some detail, s1) \<Rightarrow> (False, detail, s1))"

definition motionHealthy :: "'w steady_clock \<Rightarrow> 'w LifecycleDriverOps \<Rightarrow> bool \<times> string \<times> 'w LifecycleDriverOps" where
  "motionHealthy ck s =
     (case retry ck (now_of ck s + ms 1250) (ms 50) feedback_retryable (motionHealthyOnce ck) (poll_rounds (ms 1250) (ms 50)) s of
        (None, s1) \<Rightarrow> (True, [], s1) | (Some detail, s1) \<Rightarrow> (False, detail, s1))"

text \<open>Without a retry; a positive answer leaves the caller's detail alone.\<close>

definition enableHealthySnapshot ::
    "'w steady_clock \<Rightarrow> string \<Rightarrow> 'w LifecycleDriverOps \<Rightarrow> bool \<times> string \<times> 'w LifecycleDriverOps" where
  "enableHealthySnapshot ck detail s =
     (case enableHealthyOnce ck s of (None, s1) \<Rightarrow> (True, detail, s1) | (Some d, s1) \<Rightarrow> (False, d, s1))"

definition motionHealthySnapshot ::
    "'w steady_clock \<Rightarrow> string \<Rightarrow> 'w LifecycleDriverOps \<Rightarrow> bool \<times> string \<times> 'w LifecycleDriverOps" where
  "motionHealthySnapshot ck detail s =
     (case motionHealthyOnce ck s of (None, s1) \<Rightarrow> (True, detail, s1) | (Some d, s1) \<Rightarrow> (False, d, s1))"

section \<open>Keys and targets\<close>

lemma axisReadinessMapKey_eq: "axisReadinessMapKey key = axisMapKey key"
proof -
  have "axisReadinessProtocolName p = protocolName p" for p by (cases p) simp_all
  then show ?thesis by (simp add: axisReadinessMapKey_def axisMapKey_def)
qed

lemma filterTargetsByDevice_filter: "filterTargetsByDevice tgts device = filter (\<lambda>t. tg_canDevice t = device) tgts"
  by (induction tgts) simp_all

text \<open>
  The active targets are exactly the configured targets of a set of devices, the initialised
  ones.
\<close>

definition targets_inv :: "'w LifecycleDriverOps \<Rightarrow> bool" where
  "targets_inv s \<longleftrightarrow> (\<forall>t\<in>set (lo_activeTargets s). t \<in> set (lo_targets s) \<and>
     (\<forall>u\<in>set (lo_targets s). tg_canDevice u = tg_canDevice t \<longrightarrow> u \<in> set (lo_activeTargets s)))"

lemma clear_trackers_sel [simp]:
  "lo_targets (clear_trackers s) = lo_targets s" "lo_activeTargets (clear_trackers s) = lo_activeTargets s"
  "lo_deviceManager (clear_trackers s) = lo_deviceManager s" "lo_world (clear_trackers s) = lo_world s"
  "lo_config (clear_trackers s) = lo_config s" "lo_motorActionExecutor (clear_trackers s) = lo_motorActionExecutor s"
  by (simp_all add: clear_trackers_def)

lemma targets_inv_cong:
  "lo_targets s' = lo_targets s \<Longrightarrow> lo_activeTargets s' = lo_activeTargets s \<Longrightarrow> targets_inv s' = targets_inv s"
  by (simp add: targets_inv_def)

lemma targets_inv_empty: "lo_activeTargets s = [] \<Longrightarrow> targets_inv s"
  by (simp add: targets_inv_def)

lemma targets_inv_activate:
  "targets_inv s \<Longrightarrow> targets_inv (activateTargetsForDevice d (filterTargetsByDevice (targetsSnapshot s) d) s)"
  by (auto simp: targets_inv_def activateTargetsForDevice_def filterTargetsByDevice_filter targetsSnapshot_def)

lemma targets_inv_deactivate: "targets_inv s \<Longrightarrow> targets_inv (deactivateTargetsForDevice d s)"
  by (auto simp: targets_inv_def deactivateTargetsForDevice_def)

section \<open>What the operations leave alone\<close>

text \<open>Two states that differ at most in the world and the recovery trackers.\<close>

definition same_config :: "'w LifecycleDriverOps \<Rightarrow> 'w LifecycleDriverOps \<Rightarrow> bool" where
  "same_config s s' \<longleftrightarrow> lo_deviceManager s' = lo_deviceManager s \<and> lo_motorActionExecutor s' = lo_motorActionExecutor s \<and>
     lo_activeTargets s' = lo_activeTargets s \<and> lo_config s' = lo_config s \<and> lo_targets s' = lo_targets s"

lemma same_config_refl [simp]: "same_config s s"
  by (simp add: same_config_def)

lemma same_config_trans: "same_config s s1 \<Longrightarrow> same_config s1 s2 \<Longrightarrow> same_config s s2"
  by (simp add: same_config_def)

lemma same_config_upd [simp]:
  "same_config s (s1\<lparr>lo_world := w\<rparr>) = same_config s s1"
  "same_config s (s1\<lparr>lo_axisRecoverTrackers := m\<rparr>) = same_config s s1"
  by (simp_all add: same_config_def)

lemma same_config_queries:
  "same_config s (snd (isDeviceReady d s))" "same_config s (snd (ask_protocol pr t s))"
  "same_config s (snd (run_batch pa ex ts s))" "same_config s (sleep ck dt s)"
  "same_config s (snd (evaluateAxisReadiness n k fb c i h s))"
  by (auto simp: isDeviceReady_def ask_protocol_def run_batch_def sleep_def evaluateAxisReadiness_def Let_def
      split: option.splits prod.splits)

text \<open>
  The checks are made of a few queries.  A preorder on states that the queries respect is
  respected by every check, every scan over the targets, and, when sleeping respects it too,
  by the loops.
\<close>

locale query_closed =
  fixes R :: "'w LifecycleDriverOps \<Rightarrow> 'w LifecycleDriverOps \<Rightarrow> bool"
  assumes R_refl: "R s s"
    and R_trans: "R s s1 \<Longrightarrow> R s1 s2 \<Longrightarrow> R s s2"
    and R_ready: "R s (snd (isDeviceReady d s))"
    and R_fault: "R s (snd (ask_protocol pr_hasFault t s))"
    and R_enabled: "R s (snd (ask_protocol pr_isEnabled t s))"
    and R_eval: "R s (snd (evaluateAxisReadiness n k fb c i h s))"
begin

lemma R_bind:
  assumes "R s (snd p)" and "\<And>a s1. p = (a, s1) \<Longrightarrow> R s1 (snd (f a s1))"
  shows "R s (snd (case p of (a, s1) \<Rightarrow> f a s1))"
  using assms by (cases p) (auto intro: R_trans)

lemma R_if: "R s (snd a) \<Longrightarrow> R s (snd b) \<Longrightarrow> R s (snd (if c then a else b))"
  by simp

lemma R_option: "R s (snd a) \<Longrightarrow> (\<And>x. R s (snd (f x))) \<Longrightarrow> R s (snd (case o1 of None \<Rightarrow> a | Some x \<Rightarrow> f x))"
  by (cases o1) simp_all

lemma R_sum: "(\<And>x. R s (snd (f x))) \<Longrightarrow> (\<And>y. R s (snd (g y))) \<Longrightarrow> R s (snd (case v of Inl x \<Rightarrow> f x | Inr y \<Rightarrow> g y))"
  by (cases v) simp_all

lemma R_inputs:
  fixes p :: "AxisFeedbackState \<times> AxisCommandState option \<times> DeviceHealthState option"
  shows "(\<And>fb c h. R s (snd (f fb c h))) \<Longrightarrow> R s (snd (case p of (fb, c, h) \<Rightarrow> f fb c h))"
  by (cases p) simp

lemma R_pair: "R s (snd (v, s))"
  by (simp add: R_refl)

lemmas R_rules = R_bind R_if R_option R_sum R_inputs R_pair R_ready R_fault R_enabled R_eval

lemma R_query: "R s (snd (queryMotorFault t s))" "R s (snd (queryMotorEnabled t s))"
  unfolding queryMotorFault_def queryMotorEnabled_def by (intro R_rules)+

lemma R_fill: "R s (snd (fill_fault t fb s))" "R s (snd (fill_enabled t fb s))"
  unfolding fill_fault_def fill_enabled_def by (intro R_rules R_query)+

lemma R_no_feedback: "R s (snd (no_feedback_check t s))"
  unfolding no_feedback_check_def by (intro R_rules R_query)

lemma R_checks:
  "R s (snd (recover_check ck t s))" "R s (snd (enabled_check ck t s))"
  "R s (snd (enable_health_check ck t s))" "R s (snd (motion_health_check ck t s))"
  unfolding recover_check_def enabled_check_def enable_health_check_def motion_health_check_def
  by (intro R_rules R_query R_fill R_no_feedback)+

lemma R_scan:
  assumes "\<And>t s. R s (snd (check t s))"
  shows "R s (snd (scan check ts s))"
proof (induction ts arbitrary: s)
  case (Cons t ts)
  then show ?case by (simp only: scan.simps) (intro R_bind assms R_option R_pair)
qed (simp add: R_refl)

lemma R_rounds:
  "R s (snd (recover_round ck ts s))" "R s (snd (enabled_round ck ts s))"
  "R s (snd (enableHealthyOnce ck s))" "R s (snd (motionHealthyOnce ck s))"
  unfolding recover_round_def enabled_round_def enableHealthyOnce_def motionHealthyOnce_def
  by (intro R_bind R_scan R_checks R_option R_pair)+

lemma R_poll:
  assumes "\<And>s. R s (sleep ck interval s)" and "\<And>s. R s (snd (body s))"
  shows "R s (snd (poll_loop ck deadline interval body n d s))"
proof (induction n arbitrary: d s)
  case (Suc n)
  have "R s (snd (poll_loop ck deadline interval body n d' (sleep ck interval s)))" for d' s
    using assms(1) Suc.IH by (rule R_trans)
  then have "R s (snd (case r of Inl v \<Rightarrow> (Inl v, s) | Inr d' \<Rightarrow> poll_loop ck deadline interval body n d' (sleep ck interval s)))"
    for r s by (simp add: R_refl split: sum.split)
  then show ?case by (simp only: poll_loop.simps) (intro R_if R_bind assms R_pair)
qed (simp add: R_refl)

lemma R_retry:
  assumes "\<And>s. R s (sleep ck interval s)" and "\<And>s. R s (snd (check s))"
  shows "R s (snd (retry ck deadline interval retryable check n s))"
proof (induction n arbitrary: s)
  case (Suc n)
  have "R s (snd (retry ck deadline interval retryable check n (sleep ck interval s)))" for s
    using assms(1) Suc.IH by (rule R_trans)
  then show ?case by (simp only: retry.simps) (intro R_if R_bind R_option assms R_pair)
qed (simp add: assms)

end

interpretation sc: query_closed same_config
  by unfold_locales (auto intro: same_config_trans same_config_queries)

lemma same_config_wait: "same_config s (snd (waitForEnabledTargets ck ts timeout interval s))"
  unfolding waitForEnabledTargets_def by (intro sc.R_bind sc.R_sum sc.R_pair sc.R_poll same_config_queries sc.R_rounds)

lemma same_config_rollback: "same_config s (snd (rollback ex ts r u cause s))"
  unfolding rollback_def by (intro sc.R_bind same_config_queries sc.R_if sc.R_pair)

lemmas same_config_steps = same_config_queries same_config_wait same_config_rollback

lemma same_config_ops:
  "same_config s (snd (enableAll ck s))" "same_config s (snd (enableDevice ck d s))"
  "same_config s (snd (disableAll s))" "same_config s (snd (haltAll s))"
  unfolding enableAll_def enableDevice_def disableAll_def haltAll_def runMotorBatchAction_def Let_def
  by (intro sc.R_option sc.R_bind sc.R_if sc.R_pair same_config_steps)+

lemma same_config_recoverAll: "same_config s (snd (recoverAll ck s))"
  unfolding recoverAll_def Let_def
  by (intro sc.R_option sc.R_bind sc.R_if sc.R_pair sc.R_sum sc.R_poll sc.R_rounds same_config_queries)

lemma same_config_health:
  "same_config s (snd (snd (enableHealthy ck s)))" "same_config s (snd (snd (motionHealthy ck s)))"
proof -
  have *: "snd (snd (case p of (None, s1) \<Rightarrow> (True, [], s1) | (Some d, s1) \<Rightarrow> (False, d, s1))) = snd p"
    for p :: "string option \<times> 'a LifecycleDriverOps" by (simp add: split_beta split: option.split)
  show "same_config s (snd (snd (enableHealthy ck s)))" "same_config s (snd (snd (motionHealthy ck s)))"
    unfolding enableHealthy_def motionHealthy_def * by (intro sc.R_retry same_config_queries sc.R_rounds)+
qed

lemma same_config_anyFault: "same_config s (snd (anyFaultActive s))"
  unfolding anyFaultActive_def by (intro sc.R_bind sc.R_scan sc.R_query sc.R_pair)

section \<open>The operations as events\<close>

datatype 'w lifecycle_event =
  LeConfigure "'w IDeviceManager option" "'w MotorActionExecutor option" | LeSetTargets "Target list"
  | LeSetFreshness int | LePrepare string bool | LeInitialize string bool | LeShutdownDevice string
  | LeEnableDevice string | LeEnableAll | LeDisableAll | LeHaltAll | LeRecoverAll | LeShutdownAll bool
  | LeEnableHealthy | LeMotionHealthy | LeAnyFault | LeWorld "'w \<Rightarrow> 'w"

fun lifecycle_step :: "'w steady_clock \<Rightarrow> 'w lifecycle_event \<Rightarrow> 'w LifecycleDriverOps \<Rightarrow> 'w LifecycleDriverOps" where
  "lifecycle_step ck (LeConfigure dm ex) s = configure dm ex s"
| "lifecycle_step ck (LeSetTargets ts) s = setTargets ts s"
| "lifecycle_step ck (LeSetFreshness n) s = setFeedbackFreshnessTimeoutNs n s"
| "lifecycle_step ck (LePrepare d lb) s = snd (prepareDevice d lb s)"
| "lifecycle_step ck (LeInitialize d lb) s = snd (initializeDevice d lb s)"
| "lifecycle_step ck (LeShutdownDevice d) s = snd (shutdownDevice d s)"
| "lifecycle_step ck (LeEnableDevice d) s = snd (enableDevice ck d s)"
| "lifecycle_step ck LeEnableAll s = snd (enableAll ck s)"
| "lifecycle_step ck LeDisableAll s = snd (disableAll s)"
| "lifecycle_step ck LeHaltAll s = snd (haltAll s)"
| "lifecycle_step ck LeRecoverAll s = snd (recoverAll ck s)"
| "lifecycle_step ck (LeShutdownAll force) s = snd (shutdownAll force s)"
| "lifecycle_step ck LeEnableHealthy s = snd (snd (enableHealthy ck s))"
| "lifecycle_step ck LeMotionHealthy s = snd (snd (motionHealthy ck s))"
| "lifecycle_step ck LeAnyFault s = snd (anyFaultActive s)"
| "lifecycle_step ck (LeWorld f) s = s\<lparr>lo_world := f (lo_world s)\<rparr>"

lemma targets_inv_same_config: "same_config s s' \<Longrightarrow> targets_inv s \<Longrightarrow> targets_inv s'"
  unfolding same_config_def by (subst targets_inv_cong) auto

lemma same_config_prepare: "same_config s (snd (prepareDevice d lb s))"
  by (auto simp: prepareDevice_def Let_def split: option.splits prod.splits)

lemma targets_inv_initialize:
  assumes "targets_inv s"
  shows "targets_inv (snd (initializeDevice d lb s))"
proof -
  have "targets_inv (snd (prepareDevice d lb s))"
    using same_config_prepare assms by (rule targets_inv_same_config)
  then show ?thesis by (auto simp: initializeDevice_def intro: targets_inv_activate split: prod.split)
qed

lemma targets_inv_world [simp]: "targets_inv (s\<lparr>lo_world := w\<rparr>) = targets_inv s"
  by (simp add: targets_inv_def)

lemma targets_inv_shutdown: "targets_inv s \<Longrightarrow> targets_inv (snd (shutdownDevice d s))"
    "targets_inv s \<Longrightarrow> targets_inv (snd (shutdownAll force s))"
  by (simp_all add: shutdownDevice_def shutdownAll_def clearActiveTargets_def targets_inv_deactivate targets_inv_empty
      split: option.split)

lemma targets_inv_settings:
  "targets_inv (configure dm ex s)" "targets_inv (setTargets ts s)"
  "targets_inv s \<Longrightarrow> targets_inv (setFeedbackFreshnessTimeoutNs n s)"
  unfolding configure_def setTargets_def setFeedbackFreshnessTimeoutNs_def
  by (simp_all add: targets_inv_empty, subst targets_inv_cong) auto

lemmas targets_inv_same = targets_inv_same_config [OF same_config_ops(1)] targets_inv_same_config [OF same_config_ops(2)]
  targets_inv_same_config [OF same_config_ops(3)] targets_inv_same_config [OF same_config_ops(4)]
  targets_inv_same_config [OF same_config_recoverAll] targets_inv_same_config [OF same_config_health(1)]
  targets_inv_same_config [OF same_config_health(2)] targets_inv_same_config [OF same_config_anyFault]
  targets_inv_same_config [OF same_config_prepare]

lemma lifecycle_step_inv: "targets_inv s \<Longrightarrow> targets_inv (lifecycle_step ck e s)"
  by (cases e; simp only: lifecycle_step.simps targets_inv_world;
      (rule targets_inv_same targets_inv_initialize targets_inv_shutdown targets_inv_settings)?; assumption?)

section \<open>Termination of the loops\<close>

lemma poll_while_terminates:
  assumes "P s" and iv: "0 < interval"
    and body: "\<And>s. P s \<Longrightarrow> P (snd (body s)) \<and> now_of ck s \<le> now_of ck (snd (body s))"
    and slp: "\<And>s. P s \<Longrightarrow> P (sleep ck interval s) \<and> now_of ck s + interval \<le> now_of ck (sleep ck interval s)"
    and "deadline - now_of ck s \<le> int n * interval"
  shows "poll_while ck deadline interval body d s = Some (poll_loop ck deadline interval body n d s)"
  using assms(1,5)
proof (induction n arbitrary: d s)
  case 0
  then show ?case by (subst poll_while.simps) simp
next
  case (Suc n)
  obtain r s1 where b: "body s = (r, s1)" by fastforce
  with body [OF Suc.prems(1)] have s1: "P s1" "now_of ck s \<le> now_of ck s1" by auto
  have "deadline - now_of ck (sleep ck interval s1) \<le> int n * interval"
    using Suc.prems(2) s1(2) slp [OF s1(1)] by (simp add: algebra_simps)
  then have "poll_while ck deadline interval body d' (sleep ck interval s1) =
      Some (poll_loop ck deadline interval body n d' (sleep ck interval s1))" for d'
    using slp [OF s1(1)] by (intro Suc.IH) auto
  with b show ?case by (subst poll_while.simps) (simp split: sum.split)
qed

lemma retry_while_terminates:
  assumes "P s" and iv: "0 < interval"
    and check: "\<And>s. P s \<Longrightarrow> P (snd (check s)) \<and> now_of ck s \<le> now_of ck (snd (check s))"
    and slp: "\<And>s. P s \<Longrightarrow> P (sleep ck interval s) \<and> now_of ck s + interval \<le> now_of ck (sleep ck interval s)"
    and "deadline - now_of ck s \<le> int n * interval"
  shows "retry_while ck deadline interval retryable check s = Some (retry ck deadline interval retryable check n s)"
  using assms(1,5)
proof (induction n arbitrary: s)
  case 0
  obtain r s1 where b: "check s = (r, s1)" by fastforce
  with check [OF 0(1)] 0 show ?case by (subst retry_while.simps) (auto split: option.split)
next
  case (Suc n)
  obtain r s1 where b: "check s = (r, s1)" by fastforce
  with check [OF Suc.prems(1)] have s1: "P s1" "now_of ck s \<le> now_of ck s1" by auto
  have "deadline - now_of ck (sleep ck interval s1) \<le> int n * interval"
    using Suc.prems(2) s1(2) slp [OF s1(1)] by (simp add: algebra_simps)
  then have "retry_while ck deadline interval retryable check (sleep ck interval s1) =
      Some (retry ck deadline interval retryable check n (sleep ck interval s1))"
    using slp [OF s1(1)] by (intro Suc.IH) auto
  with b show ?case by (subst retry_while.simps) (simp split: option.split)
qed

lemma poll_rounds_cover: "0 < interval \<Longrightarrow> timeout \<le> int (poll_rounds timeout interval) * interval"
proof -
  assume iv: "0 < interval"
  have "timeout \<le> (timeout + interval - 1) div interval * interval"
    using iv div_mult_mod_eq [of "timeout + interval - 1" interval] pos_mod_bound [OF iv, of "timeout + interval - 1"]
    by linarith
  also have "\<dots> \<le> int (poll_rounds timeout interval) * interval"
    using iv by (intro mult_right_mono) (simp_all add: poll_rounds_def)
  finally show ?thesis .
qed

text \<open>
  A clock that sleeps at least as long as asked and that the manager's queries never turn back.
\<close>

locale steady_world =
  fixes ck :: "'w steady_clock" and dm :: "'w IDeviceManager"
  assumes sleep_lasts: "0 \<le> d \<Longrightarrow> ck_now ck w + d \<le> ck_now ck (ck_sleep_for ck d w)"
    and ready_mono: "ck_now ck w \<le> ck_now ck (snd (idm_isDeviceReady dm dev w))"
    and hasFault_mono: "ck_now ck w \<le> ck_now ck (snd (pr_hasFault dm dev p m w))"
    and isEnabled_mono: "ck_now ck w \<le> ck_now ck (snd (pr_isEnabled dm dev p m w))"
begin

definition later :: "'w LifecycleDriverOps \<Rightarrow> 'w LifecycleDriverOps \<Rightarrow> bool" where
  "later s s' \<longleftrightarrow> lo_deviceManager s' = lo_deviceManager s \<and>
     (lo_deviceManager s = Some dm \<longrightarrow> now_of ck s \<le> now_of ck s')"

lemma later_closed: "query_closed later"
proof
  show "later s s2" if "later s s1" "later s1 s2" for s s1 s2
    using that by (auto simp: later_def)
  show "later s (snd (isDeviceReady d s))" for s d
    using ready_mono [of "lo_world s" d] by (auto simp: later_def isDeviceReady_def split: option.split prod.split)
  show "later s (snd (ask_protocol pr_hasFault t s))" for s t
    using hasFault_mono [of "lo_world s" "tg_canDevice t" "tg_protocol t" "tg_motorId t"]
    by (auto simp: later_def ask_protocol_def split: option.split prod.split)
  show "later s (snd (ask_protocol pr_isEnabled t s))" for s t
    using isEnabled_mono [of "lo_world s" "tg_canDevice t" "tg_protocol t" "tg_motorId t"]
    by (auto simp: later_def ask_protocol_def split: option.split prod.split)
  show "later s (snd (evaluateAxisReadiness n k fb c i h s))" for n k fb c i h s
    by (auto simp: later_def evaluateAxisReadiness_def Let_def)
qed (simp add: later_def)

lemma later_sleep:
  "lo_deviceManager s = Some dm \<Longrightarrow> 0 \<le> d \<Longrightarrow>
     lo_deviceManager (sleep ck d s) = Some dm \<and> now_of ck s + d \<le> now_of ck (sleep ck d s)"
  using sleep_lasts by (simp add: sleep_def)

lemma later_body:
  "later s s' \<Longrightarrow> lo_deviceManager s = Some dm \<Longrightarrow> lo_deviceManager s' = Some dm \<and> now_of ck s \<le> now_of ck s'"
  by (simp add: later_def)

lemma wait_loop_returns:
  assumes "lo_deviceManager s = Some dm" and "0 < interval"
  shows "poll_while ck (now_of ck s + timeout) interval (enabled_round ck ts) d s =
     Some (poll_loop ck (now_of ck s + timeout) interval (enabled_round ck ts) (poll_rounds timeout interval) d s)"
  using assms poll_rounds_cover [of interval timeout]
  by (intro poll_while_terminates [where P = "\<lambda>s. lo_deviceManager s = Some dm"] later_sleep
      later_body query_closed.R_rounds [OF later_closed]) auto

lemma recover_loop_returns:
  assumes "lo_deviceManager s = Some dm" and "0 < interval"
  shows "poll_while ck (now_of ck s + timeout) interval (recover_round ck ts) d s =
     Some (poll_loop ck (now_of ck s + timeout) interval (recover_round ck ts) (poll_rounds timeout interval) d s)"
  using assms poll_rounds_cover [of interval timeout]
  by (intro poll_while_terminates [where P = "\<lambda>s. lo_deviceManager s = Some dm"] later_sleep
      later_body query_closed.R_rounds [OF later_closed]) auto

lemma health_loop_returns:
  assumes "lo_deviceManager s = Some dm" and "0 < interval"
  shows "retry_while ck (now_of ck s + timeout) interval retryable (motionHealthyOnce ck) s =
     Some (retry ck (now_of ck s + timeout) interval retryable (motionHealthyOnce ck) (poll_rounds timeout interval) s)"
    and "retry_while ck (now_of ck s + timeout) interval retryable (enableHealthyOnce ck) s =
     Some (retry ck (now_of ck s + timeout) interval retryable (enableHealthyOnce ck) (poll_rounds timeout interval) s)"
  using assms poll_rounds_cover [of interval timeout]
  by (intro retry_while_terminates [where P = "\<lambda>s. lo_deviceManager s = Some dm"] later_sleep
      later_body query_closed.R_rounds [OF later_closed]; auto)+

end

section \<open>Recovery confirmation\<close>

text \<open>
  A sequence of evaluations with recovery intent, of any axes.  \<open>healthy_samples\<close> collects, for
  one axis, the reception times of its current run of healthy evaluations.
\<close>

record recover_eval =
  re_key :: AxisKey
  re_nowNs :: time_ns
  re_feedback :: AxisFeedbackState
  re_command :: "AxisCommandState option"
  re_health :: "DeviceHealthState option"

definition recover_evaluate :: "recover_eval \<Rightarrow> 'w LifecycleDriverOps \<Rightarrow> AxisReadiness \<times> 'w LifecycleDriverOps" where
  "recover_evaluate e s =
     evaluateAxisReadiness (re_nowNs e) (re_key e) (re_feedback e) (re_command e) IntentRecover (re_health e) s"

definition recover_run :: "recover_eval list \<Rightarrow> 'w LifecycleDriverOps \<Rightarrow> 'w LifecycleDriverOps" where
  "recover_run es s = fold (\<lambda>e s. snd (recover_evaluate e s)) es s"

definition eval_healthy :: "readiness_config \<Rightarrow> recover_eval \<Rightarrow> bool" where
  "eval_healthy cfg e = rd_axisReadyForEnable
     (EvaluateBase cfg (re_feedback e) (re_command e) IntentRecover (re_health e) (re_nowNs e))"

definition add_sample :: "readiness_config \<Rightarrow> AxisKey \<Rightarrow> recover_eval \<Rightarrow> int list \<Rightarrow> int list" where
  "add_sample cfg k e acc =
     (if re_key e \<noteq> k then acc
      else if eval_healthy cfg e then acc @ [fb_lastRxSteadyNs (re_feedback e)] else [])"

definition healthy_samples :: "readiness_config \<Rightarrow> AxisKey \<Rightarrow> recover_eval list \<Rightarrow> int list" where
  "healthy_samples cfg k es = fold (add_sample cfg k) es []"

text \<open>How many receptions a list of samples shows: equal neighbours are the same one.\<close>

definition receptions :: "int list \<Rightarrow> nat" where
  "receptions xs = length (remdups_adj xs)"

lemma receptions_snoc: "receptions (xs @ [x]) = (if xs \<noteq> [] \<and> last xs = x then receptions xs else Suc (receptions xs))"
proof (induction xs rule: remdups_adj.induct)
  case (3 x y xs)
  then show ?case by (cases xs) (auto simp: receptions_def)
qed (simp_all add: receptions_def)

lemma eval_healthy_lastRx: "eval_healthy cfg e \<Longrightarrow> 0 < fb_lastRxSteadyNs (re_feedback e)"
  by (auto simp: eval_healthy_def readyForEnable_iff feedback_fresh_def Let_def split: if_splits)

definition tracks :: "u32 \<Rightarrow> int list \<Rightarrow> AxisRecoverTracker option \<Rightarrow> bool" where
  "tracks confirmCycles xs t = (case t of
     None \<Rightarrow> xs = []
   | Some tr \<Rightarrow> xs \<noteq> [] \<and> tr_lastSampleNs tr = last xs \<and>
       unat (tr_healthyCycles tr) = min (unat confirmCycles) (receptions xs))"

lemma receptions_pos: "xs \<noteq> [] \<Longrightarrow> 1 \<le> receptions xs"
  by (simp add: receptions_def Suc_le_eq)

lemma unat_min: "unat (min (a :: u32) b) = min (unat a) (unat b)" "unat (max a b) = max (unat a) (unat b)"
  by (simp_all add: min_def max_def word_le_nat_alt)

lemma unat_succ: "unat (a :: u32) < 0xFFFFFFFF \<Longrightarrow> unat (a + 1) = unat a + 1"
  by (simp add: unat_word_ariths)

lemma advance_tracks:
  assumes tr: "tracks n xs t" and n: "1 \<le> unat n" "unat n < 0xFFFFFFFF" and x: "0 < x"
  shows "tracks n (xs @ [x]) (Some (advance_tracker n x (case t of None \<Rightarrow> default_tracker | Some v \<Rightarrow> v)))"
proof (cases t)
  case None
  with tr n x show ?thesis
    by (simp add: tracks_def advance_tracker_def default_tracker_def unat_min receptions_def)
next
  case (Some v)
  with tr have v: "xs \<noteq> []" "tr_lastSampleNs v = last xs" "unat (tr_healthyCycles v) = min (unat n) (receptions xs)"
    by (auto simp: tracks_def)
  show ?thesis
  proof (cases "last xs = x")
    case True
    with v x Some receptions_pos [OF v(1)] n show ?thesis
      by (simp add: tracks_def advance_tracker_def receptions_snoc unat_min)
  next
    case False
    have "unat (tr_healthyCycles v + 1) = unat (tr_healthyCycles v) + 1"
      using v(3) n by (intro unat_succ) auto
    with v x Some False show ?thesis
      by (auto simp: tracks_def advance_tracker_def receptions_snoc unat_min)
  qed
qed

lemma recoverConfirmCycles_pos: "1 \<le> unat (recoverConfirmCycles cfg)"
  by (simp add: recoverConfirmCycles_def unat_min)

lemma recover_evaluate_config: "same_config s (snd (recover_evaluate e s))"
  unfolding recover_evaluate_def by (rule same_config_queries)

lemma recover_run_config: "same_config s (recover_run es s)"
proof (induction es arbitrary: s)
  case (Cons e es)
  from same_config_trans [OF recover_evaluate_config Cons.IH] show ?case by (simp add: recover_run_def)
qed (simp add: recover_run_def)

lemma recover_evaluate_tracks:
  assumes cfg: "lo_config s = cfg" and n: "unat (recoverConfirmCycles cfg) < 0xFFFFFFFF"
    and t: "tracks (recoverConfirmCycles cfg) acc (lo_axisRecoverTrackers s (axisReadinessMapKey k))"
  shows "tracks (recoverConfirmCycles cfg) (add_sample cfg k e acc)
      (lo_axisRecoverTrackers (snd (recover_evaluate e s)) (axisReadinessMapKey k))"
proof -
  note adv = advance_tracks [OF t recoverConfirmCycles_pos n eval_healthy_lastRx [of cfg e]]
  show ?thesis
    using t adv cfg
    by (auto simp: recover_evaluate_def evaluateAxisReadiness_def Let_def add_sample_def eval_healthy_def
        axisReadinessMapKey_eq tracks_def [of _ "[]"] map_at_def split: if_splits)
qed

lemma recover_run_tracks:
  assumes "lo_config s = cfg" and "unat (recoverConfirmCycles cfg) < 0xFFFFFFFF"
    and "lo_axisRecoverTrackers s (axisReadinessMapKey k) = None"
  shows "tracks (recoverConfirmCycles cfg) (healthy_samples cfg k es)
      (lo_axisRecoverTrackers (recover_run es s) (axisReadinessMapKey k))"
proof (induction es rule: rev_induct)
  case Nil
  with assms show ?case by (simp add: healthy_samples_def recover_run_def tracks_def)
next
  case (snoc e es)
  have "lo_config (recover_run es s) = cfg"
    using recover_run_config [of s es] assms(1) by (simp add: same_config_def)
  from recover_evaluate_tracks [OF this assms(2) snoc, of e] show ?case
    by (simp add: healthy_samples_def recover_run_def)
qed

lemma recover_confirmed_iff:
  "RecoverConfirmed (fst (recover_evaluate e s)) \<longleftrightarrow> eval_healthy (lo_config s) e \<and>
     (case lo_axisRecoverTrackers (snd (recover_evaluate e s)) (axisReadinessMapKey (re_key e)) of
        None \<Rightarrow> False | Some tr \<Rightarrow> recoverConfirmCycles (lo_config s) \<le> tr_healthyCycles tr)"
  by (simp add: RecoverConfirmed_def recover_evaluate_def evaluateAxisReadiness_def Let_def eval_healthy_def)

section \<open>Properties\<close>

text \<open>
  C31: an axis is confirmed as recovered exactly when it is healthy now and its uninterrupted run
  of healthy evaluations, since the last unhealthy one, has seen as many receptions of feedback
  with different time stamps as are required; evaluations of other axes in between do not count
  and do not disturb it, and polling the same sample again does not either.
\<close>

theorem recovery_needs_fresh_samples:
  assumes "unat (recoverConfirmCycles (lo_config s)) < 0xFFFFFFFF"
    and "lo_axisRecoverTrackers s (axisReadinessMapKey (re_key e)) = None"
  shows "RecoverConfirmed (fst (recover_evaluate e (recover_run es s))) \<longleftrightarrow>
    eval_healthy (lo_config s) e \<and>
    unat (recoverConfirmCycles (lo_config s)) \<le> receptions (healthy_samples (lo_config s) (re_key e) (es @ [e]))"
proof -
  have cfg: "lo_config (recover_run es s) = lo_config s"
    using recover_run_config [of s es] by (simp add: same_config_def)
  have run: "recover_run (es @ [e]) s = snd (recover_evaluate e (recover_run es s))"
    by (simp add: recover_run_def)
  show ?thesis
    using recover_run_tracks [OF refl assms, of "es @ [e]"] recoverConfirmCycles_pos [of "lo_config s"]
    unfolding recover_confirmed_iff cfg run
    by (auto simp: tracks_def word_le_nat_alt receptions_def split: option.splits)
qed

definition witness_sample :: "time_ns \<Rightarrow> recover_eval" where
  "witness_sample t = \<lparr>re_key = MakeAxisKey ''can0'' PP 5, re_nowNs = t + 100,
     re_feedback = default_feedback\<lparr>fb_feedbackSeen := True, fb_lastRxSteadyNs := t, fb_faultValid := True\<rparr>,
     re_command = None, re_health = None\<rparr>"

theorem recovery_needs_fresh_samples_witness:
  "RecoverConfirmed (fst (recover_evaluate (witness_sample 900)
     (recover_run [witness_sample 500] (new_LifecycleDriverOps None None ())))) \<and>
   \<not> RecoverConfirmed (fst (recover_evaluate (witness_sample 500)
     (recover_run [witness_sample 500] (new_LifecycleDriverOps None None ()))))"
proof -
  let ?s = "new_LifecycleDriverOps None None () :: unit LifecycleDriverOps"
  have cfg: "lo_config ?s = default_readiness_config" "lo_axisRecoverTrackers ?s = Map.empty"
    by (simp_all add: new_LifecycleDriverOps_def)
  have two: "recoverConfirmCycles default_readiness_config = 2"
    by (simp add: recoverConfirmCycles_def default_readiness_config_def)
  have healthy: "eval_healthy default_readiness_config (witness_sample t)" if "0 < t" for t
    using that by (simp add: eval_healthy_def EvaluateBase_def witness_sample_def default_feedback_def feedback_fresh_def
        default_readiness_config_def kDefaultFeedbackDegradedTimeoutThreshold_def Let_def)
  show ?thesis
    using recovery_needs_fresh_samples [of ?s "witness_sample 900" "[witness_sample 500]"]
      recovery_needs_fresh_samples [of ?s "witness_sample 500" "[witness_sample 500]"] healthy [of 500] healthy [of 900]
    by (simp add: cfg two healthy_samples_def add_sample_def receptions_def)
       (simp add: witness_sample_def)
qed

text \<open>
  The targets the lifecycle requests act on are always configured targets, and with one
  motor of a device all configured motors of that device are among them, whatever sequence of
  operations was performed.
\<close>

lemma lifecycle_targets_consistent:
  "targets_inv (fold (lifecycle_step ck) es (new_LifecycleDriverOps dm ex w))"
proof -
  have "targets_inv s \<Longrightarrow> targets_inv (fold (lifecycle_step ck) es s)" for s
    by (induction es arbitrary: s) (simp_all add: lifecycle_step_inv)
  then show ?thesis by (simp add: targets_inv_empty new_LifecycleDriverOps_def)
qed

end
