(* ===== verification/Device_Refresh.thy ===== *)
theory Device_Refresh
  imports Mt_Can Eyou_Can_Correctness Damiao_Can_Correctness
begin

text \<open>
  The periodic refresh of one device: \<open>DeviceRefreshWorker.h\<close>, the thread that calls a tick and
  sleeps, and the tick and sleep functions of \<open>DeviceManager::syncDeviceRefreshRuntimeLocked\<close>.
  A tick asks at most one motor for one reading, in turn over the motor families and over the
  motors of a family, and waits for the answer or its deadline before it asks again.

  A tick is one step here.  The store shared by all components is one object: it is handed to
  the protocol object a query is issued on and taken back from it.  The clock is read several
  times in a tick; \<open>tick_times\<close> holds the readings.
\<close>

section \<open>The worker thread\<close>

text \<open>
  The position of the thread is that of the loop: at its head, after the tick, waiting, or
  after the loop.  No thread is \<open>None\<close>.
\<close>

datatype refresh_pos = RHead | RTicked | RWait | RExit

record DeviceRefreshWorker =
  rw_running :: bool
  rw_thread :: "refresh_pos option"
  rw_notified :: bool

definition new_worker :: DeviceRefreshWorker where
  "new_worker = \<lparr>rw_running = False, rw_thread = None, rw_notified = False\<rparr>"

definition rw_notify :: "DeviceRefreshWorker \<Rightarrow> DeviceRefreshWorker" where
  "rw_notify wk = wk\<lparr>rw_notified := True\<rparr>"

definition rw_start :: "DeviceRefreshWorker \<Rightarrow> DeviceRefreshWorker" where
  "rw_start wk = (if rw_running wk then rw_notify wk else wk\<lparr>rw_running := True, rw_thread := Some RHead\<rparr>)"

text \<open>\<open>stop\<close> up to the join, and the join, which returns once the thread has left its loop.\<close>

definition rw_stop_begin :: "DeviceRefreshWorker \<Rightarrow> DeviceRefreshWorker" where
  "rw_stop_begin wk = rw_notify (wk\<lparr>rw_running := False\<rparr>)"

definition rw_join :: "DeviceRefreshWorker \<Rightarrow> DeviceRefreshWorker" where
  "rw_join wk = (if rw_thread wk = Some RExit then wk\<lparr>rw_thread := None\<rparr> else wk)"

definition rw_sleep :: "int option \<Rightarrow> int" where
  "rw_sleep sleepFor = (let d = (case sleepFor of None \<Rightarrow> 5 | Some d \<Rightarrow> d) in if d < 1 then 1 else d)"

text \<open>One step of the loop; \<open>timedOut\<close> says that the sleep of \<open>rw_sleep\<close> is over.  The result also says
  whether the tick was called.\<close>

definition rw_step :: "bool \<Rightarrow> DeviceRefreshWorker \<Rightarrow> bool \<times> DeviceRefreshWorker" where
  "rw_step timedOut wk =
     (case rw_thread wk of
        Some RHead \<Rightarrow> if rw_running wk then (True, wk\<lparr>rw_thread := Some RTicked\<rparr>)
                      else (False, wk\<lparr>rw_thread := Some RExit\<rparr>)
      | Some RTicked \<Rightarrow> (False, wk\<lparr>rw_thread := Some (if rw_running wk then RWait else RExit)\<rparr>)
      | Some RWait \<Rightarrow> if timedOut \<or> \<not> rw_running wk \<or> rw_notified wk
                      then (False, wk\<lparr>rw_thread := Some RHead, rw_notified := False\<rparr>) else (False, wk)
      | _ \<Rightarrow> (False, wk))"

section \<open>State of the schedule\<close>

record PendingRefresh =
  pf_protocol :: CanType
  pf_motorId :: motor_id
  pf_observedLastRxSteadyNs :: int
  pf_deadline :: time_ns
  pf_active :: bool

text \<open>The weak pointers to the protocol objects are set or not; what they point to is in the context below.\<close>

record DeviceRefreshRuntime =
  dr_deviceName :: string
  dr_mtProtocol :: bool
  dr_ppProtocol :: bool
  dr_dmProtocol :: bool
  dr_worker :: "DeviceRefreshWorker option"
  dr_mtActive :: bool
  dr_ppActive :: bool
  dr_dmActive :: bool
  dr_mtMotorIds :: "motor_id list"
  dr_ppMotorIds :: "u8 list"
  dr_dmMotorIds :: "u8 list"
  dr_ppScheduleStates :: "u8 \<rightharpoonup> PpAxisRefreshScheduleState"
  dr_dmScheduleStates :: "u8 \<rightharpoonup> DmAxisRefreshScheduleState"
  dr_refreshCycleCount :: u64
  dr_mtScheduleCycleCount :: u64
  dr_ppScheduleCycleCount :: u64
  dr_lastObservedTxBackpressure :: u64
  dr_queryPressureUntilCycle :: u64
  dr_nextMtTick :: time_ns
  dr_nextPpTick :: time_ns
  dr_nextDmTick :: time_ns
  dr_nextEligibleIssueTime :: time_ns
  dr_pendingRefresh :: PendingRefresh
  dr_protocolRoundRobinCursor :: nat
  dr_mtMotorCursor :: nat
  dr_ppMotorCursor :: nat
  dr_dmMotorCursor :: nat
  dr_interFrameGap :: time_ns

definition default_refresh_runtime :: DeviceRefreshRuntime where
  "default_refresh_runtime =
     \<lparr>dr_deviceName = [], dr_mtProtocol = False, dr_ppProtocol = False, dr_dmProtocol = False, dr_worker = None,
      dr_mtActive = False, dr_ppActive = False, dr_dmActive = False, dr_mtMotorIds = [], dr_ppMotorIds = [], dr_dmMotorIds = [],
      dr_ppScheduleStates = Map.empty, dr_dmScheduleStates = Map.empty, dr_refreshCycleCount = 0, dr_mtScheduleCycleCount = 0,
      dr_ppScheduleCycleCount = 0, dr_lastObservedTxBackpressure = 0, dr_queryPressureUntilCycle = 0,
      dr_nextMtTick = 0, dr_nextPpTick = 0, dr_nextDmTick = 0, dr_nextEligibleIssueTime = 0,
      dr_pendingRefresh = \<lparr>pf_protocol = PP, pf_motorId = 0, pf_observedLastRxSteadyNs = 0, pf_deadline = 0, pf_active = False\<rparr>,
      dr_protocolRoundRobinCursor = 0, dr_mtMotorCursor = 0, dr_ppMotorCursor = 0, dr_dmMotorCursor = 0,
      dr_interFrameGap = 1000 * 1000\<rparr>"

definition kQueryPressureHoldCycles :: u64 where
  "kQueryPressureHoldCycles = 20"

record refresh_ctx =
  rc_runtime :: DeviceRefreshRuntime
  rc_sharedState :: "SharedDriverState option"
  rc_mt :: "mt_can option"
  rc_pp :: "ey_can option"
  rc_dm :: "dm_can option"

text \<open>The clock at the start of a tick, at the issue of the \<open>j\<close>-th query to the motor at an offset from
  the cursor, and at the three readings after a query was issued.\<close>

record tick_times =
  tt_now :: time_ns
  tt_issue :: "CanType \<Rightarrow> nat \<Rightarrow> nat \<Rightarrow> time_ns"
  tt_tick :: time_ns
  tt_eligible :: time_ns
  tt_deadline :: time_ns

definition clampRefreshSleep :: "int \<Rightarrow> int" where
  "clampRefreshSleep sleepFor = (if sleepFor < 1 then 1 else sleepFor)"

definition sharedAxisLastRxNs :: "SharedDriverState option \<Rightarrow> string \<Rightarrow> CanType \<Rightarrow> motor_id \<Rightarrow> int" where
  "sharedAxisLastRxNs sharedState deviceName protocol mid =
     (case sharedState of
        None \<Rightarrow> 0
      | Some shared \<Rightarrow>
          (case getAxisFeedback shared (MakeAxisKey deviceName protocol mid) of
             None \<Rightarrow> 0
           | Some feedback \<Rightarrow> fb_lastRxSteadyNs feedback))"

definition normalizeMotorIds :: "motor_id list \<Rightarrow> CanType \<Rightarrow> u8 list" where
  "normalizeMotorIds motorIds protocol =
     map (\<lambda>mid. if protocol = MT then toMtProtocolNodeId mid else toProtocolNodeId mid) motorIds"

definition normalizeMtSystemMotorIds :: "motor_id list \<Rightarrow> motor_id list" where
  "normalizeMtSystemMotorIds motorIds = map (\<lambda>mid. motorIdFromMtProtocolNodeId (toMtProtocolNodeId mid)) motorIds"


definition buildPpAxisRefreshSnapshot :: "SharedDriverState option \<Rightarrow> string \<Rightarrow> u8 \<Rightarrow> PpAxisRefreshSnapshot" where
  "buildPpAxisRefreshSnapshot sharedState deviceName motorId =
     (let snapshot = \<lparr>ps_feedbackSeen = False, ps_enabled = False, ps_fault = False, ps_degraded = False,
            ps_desiredModeValid = False, ps_feedbackMode = ModePosition, ps_desiredMode = ModePosition, ps_intent = IntentNone\<rparr>
      in case sharedState of
           None \<Rightarrow> snapshot
         | Some shared \<Rightarrow>
             let axisKey = MakeAxisKey deviceName PP (motorIdFromProtocolNodeId motorId);
                 s1 = (case getAxisFeedback shared axisKey of
                         None \<Rightarrow> snapshot
                       | Some fb \<Rightarrow> snapshot\<lparr>ps_feedbackSeen := fb_feedbackSeen fb,
                           ps_enabled := (if fb_enabledValid fb then fb_enabled fb else ps_enabled snapshot),
                           ps_fault := (if fb_faultValid fb then fb_fault fb else ps_fault snapshot),
                           ps_degraded := fb_degraded fb,
                           ps_feedbackMode := (if fb_modeValid fb then fb_mode fb else ps_feedbackMode snapshot)\<rparr>);
                 s2 = (case getAxisCommand shared axisKey of
                         None \<Rightarrow> s1
                       | Some c \<Rightarrow> s1\<lparr>ps_desiredModeValid := ac_desiredModeValid c, ps_desiredMode := ac_desiredMode c\<rparr>)
             in s2\<lparr>ps_intent := getAxisIntent shared axisKey\<rparr>)"

definition buildDmAxisRefreshSnapshot :: "SharedDriverState option \<Rightarrow> string \<Rightarrow> u8 \<Rightarrow> DmAxisRefreshSnapshot" where
  "buildDmAxisRefreshSnapshot sharedState deviceName motorId =
     (let snapshot = \<lparr>ds_feedbackSeen = False, ds_enabled = False, ds_fault = False, ds_intent = IntentNone\<rparr>
      in case sharedState of
           None \<Rightarrow> snapshot
         | Some shared \<Rightarrow>
             let axisKey = MakeAxisKey deviceName DM (motorIdFromProtocolNodeId motorId);
                 s1 = (case getAxisFeedback shared axisKey of
                         None \<Rightarrow> snapshot
                       | Some fb \<Rightarrow> snapshot\<lparr>ds_feedbackSeen := fb_feedbackSeen fb,
                           ds_enabled := (if fb_enabledValid fb then fb_enabled fb else ds_enabled snapshot),
                           ds_fault := (if fb_faultValid fb then fb_fault fb else ds_fault snapshot)\<rparr>)
             in s1\<lparr>ds_intent := getAxisIntent shared axisKey\<rparr>)"

section \<open>The tick\<close>

text \<open>The loops \<open>for (...; ... && !issuedAny; ...)\<close>: over the families, the motors and the plan.\<close>

fun until_issued :: "('i \<Rightarrow> 's \<Rightarrow> bool \<times> 's) \<Rightarrow> 'i list \<Rightarrow> 's \<Rightarrow> bool \<times> 's" where
  "until_issued f [] s = (False, s)"
| "until_issued f (x # xs) s = (case f x s of (issued, s1) \<Rightarrow> if issued then (True, s1) else until_issued f xs s1)"

definition on_runtime :: "(DeviceRefreshRuntime \<Rightarrow> DeviceRefreshRuntime) \<Rightarrow> refresh_ctx \<Rightarrow> refresh_ctx" where
  "on_runtime f c = c\<lparr>rc_runtime := f (rc_runtime c)\<rparr>"

text \<open>What follows an issued query for every family: the gap to the next one, and the pending answer.\<close>

definition note_issued :: "tick_times \<Rightarrow> CanType \<Rightarrow> motor_id \<Rightarrow> int \<Rightarrow> nat \<Rightarrow> refresh_ctx \<Rightarrow> refresh_ctx" where
  "note_issued tt protocol mid wait nextProtocol c =
     on_runtime (\<lambda>r. r\<lparr>dr_nextEligibleIssueTime := tt_eligible tt + dr_interFrameGap r,
        dr_pendingRefresh := \<lparr>pf_protocol = protocol, pf_motorId = mid,
          pf_observedLastRxSteadyNs = sharedAxisLastRxNs (rc_sharedState c) (dr_deviceName r) protocol mid,
          pf_deadline = tt_deadline tt + ms (clampRefreshSleep wait), pf_active = True\<rparr>,
        dr_protocolRoundRobinCursor := nextProtocol\<rparr>) c"

definition mt_query ::
    "tick_times \<Rightarrow> nat \<Rightarrow> nat \<Rightarrow> motor_id list \<Rightarrow> nat \<times> MtRefreshQuery \<Rightarrow> refresh_ctx \<Rightarrow> bool \<times> refresh_ctx" where
  "mt_query tt offset index motorIds item c =
     (case rc_mt c of
        None \<Rightarrow> (False, c)
      | Some protocol \<Rightarrow>
          let mid = motorIds ! index
          in case mt_issueRefreshQuery (tt_issue tt MT offset (fst item)) mid (snd item)
                    (protocol\<lparr>io_sharedState := rc_sharedState c\<rparr>) of
               (issued, p1) \<Rightarrow>
                 let c1 = c\<lparr>rc_mt := Some p1, rc_sharedState := io_sharedState p1\<rparr>
                 in if \<not> issued then (False, c1)
                    else (True, note_issued tt MT mid (readResponseTimeout p1) 1
                           (on_runtime (\<lambda>r. r\<lparr>dr_mtMotorCursor := (index + 1) mod length motorIds,
                              dr_nextMtTick := tt_tick tt + ms (clampRefreshSleep (refreshSleepInterval p1))\<rparr>) c1)))"

definition mt_motor ::
    "tick_times \<Rightarrow> bool \<Rightarrow> u64 \<Rightarrow> nat \<Rightarrow> motor_id list \<Rightarrow> nat \<Rightarrow> refresh_ctx \<Rightarrow> bool \<times> refresh_ctx" where
  "mt_motor tt pressure cycle cursor motorIds offset c =
     (let index = (cursor + offset) mod length motorIds
      in until_issued (mt_query tt offset index motorIds)
           (enumerate 0 (BuildMtRefreshPlan cycle (of_nat index) pressure)) c)"

definition mt_tick :: "tick_times \<Rightarrow> bool \<Rightarrow> refresh_ctx \<Rightarrow> bool \<times> refresh_ctx" where
  "mt_tick tt pressure c =
     (let r = rc_runtime c; due = (dr_nextMtTick r = 0 \<or> dr_nextMtTick r \<le> tt_now tt)
      in if \<not> dr_mtActive r \<or> \<not> due then (False, c)
         else let c1 = on_runtime (\<lambda>r. r\<lparr>dr_mtScheduleCycleCount := dr_mtScheduleCycleCount r + 1\<rparr>) c
              in if Option.is_none (rc_mt c) \<or> \<not> dr_mtProtocol r then (False, c1)
                 else until_issued (mt_motor tt pressure (dr_mtScheduleCycleCount r) (dr_mtMotorCursor r) (dr_mtMotorIds r))
                        [0..<length (dr_mtMotorIds r)] c1)"

definition pp_query ::
    "tick_times \<Rightarrow> nat \<Rightarrow> nat \<Rightarrow> u8 list \<Rightarrow> nat \<times> PpRefreshQuery \<Rightarrow> refresh_ctx \<Rightarrow> bool \<times> refresh_ctx" where
  "pp_query tt offset index motorIds item c =
     (case rc_pp c of
        None \<Rightarrow> (False, c)
      | Some protocol \<Rightarrow>
          let motorId = motorIds ! index; systemMotorId = motorIdFromProtocolNodeId motorId
          in case ey_issueRefreshQuery (tt_issue tt PP offset (fst item)) systemMotorId (snd item)
                    (protocol\<lparr>io_sharedState := rc_sharedState c\<rparr>) of
               (issued, p1) \<Rightarrow>
                 let c1 = c\<lparr>rc_pp := Some p1, rc_sharedState := io_sharedState p1\<rparr>
                 in if \<not> issued then (False, c1)
                    else (True, note_issued tt PP systemMotorId (ey_refreshSleepInterval p1) 2
                           (on_runtime (\<lambda>r. r\<lparr>dr_ppScheduleStates := map_modify default_PpSchedule motorId
                                (\<lambda>st. NotePpRefreshQueryIssued (tt_now tt) st (snd item)) (dr_ppScheduleStates r),
                              dr_ppMotorCursor := (index + 1) mod length motorIds,
                              dr_nextPpTick := tt_tick tt + ms (clampRefreshSleep (ey_refreshSleepInterval p1))\<rparr>) c1)))"

text \<open>A plan notes all its queries as due, whether one of them is issued or not.\<close>

definition pp_motor ::
    "tick_times \<Rightarrow> bool \<Rightarrow> nat \<Rightarrow> u8 list \<Rightarrow> nat \<Rightarrow> refresh_ctx \<Rightarrow> bool \<times> refresh_ctx" where
  "pp_motor tt pressure cursor motorIds offset c =
     (let index = (cursor + offset) mod length motorIds; motorId = motorIds ! index; r = rc_runtime c;
          snapshot = buildPpAxisRefreshSnapshot (rc_sharedState c) (dr_deviceName r) motorId;
          state = map_at default_PpSchedule (dr_ppScheduleStates r) motorId
      in case BuildPpRefreshPlan (tt_now tt) pressure snapshot (Some state) of
           (plan, state1) \<Rightarrow>
             let state2 = fold (\<lambda>q st. NotePpRefreshQueryDue (tt_now tt) st q) plan (the state1)
             in until_issued (pp_query tt offset index motorIds) (enumerate 0 plan)
                  (on_runtime (\<lambda>r. r\<lparr>dr_ppScheduleStates := (dr_ppScheduleStates r)(motorId \<mapsto> state2)\<rparr>) c))"

definition pp_tick :: "tick_times \<Rightarrow> bool \<Rightarrow> refresh_ctx \<Rightarrow> bool \<times> refresh_ctx" where
  "pp_tick tt pressure c =
     (let r = rc_runtime c; due = (dr_nextPpTick r = 0 \<or> dr_nextPpTick r \<le> tt_now tt)
      in if \<not> dr_ppActive r \<or> \<not> due then (False, c)
         else let c1 = on_runtime (\<lambda>r. r\<lparr>dr_ppScheduleCycleCount := dr_ppScheduleCycleCount r + 1\<rparr>) c
              in if Option.is_none (rc_pp c) \<or> \<not> dr_ppProtocol r then (False, c1)
                 else until_issued (pp_motor tt pressure (dr_ppMotorCursor r) (dr_ppMotorIds r))
                        [0..<length (dr_ppMotorIds r)] c1)"

definition dm_query ::
    "tick_times \<Rightarrow> nat \<Rightarrow> u8 list \<Rightarrow> DmRefreshQuery \<Rightarrow> refresh_ctx \<Rightarrow> bool \<times> refresh_ctx" where
  "dm_query tt index motorIds query c =
     (case rc_dm c of
        None \<Rightarrow> (False, c)
      | Some protocol \<Rightarrow>
          let motorId = motorIds ! index; systemMotorId = motorIdFromProtocolNodeId motorId
          in case dm_issueRefreshQuery systemMotorId query (protocol\<lparr>io_sharedState := rc_sharedState c\<rparr>) of
               (issued, p1) \<Rightarrow>
                 let c1 = c\<lparr>rc_dm := Some p1, rc_sharedState := io_sharedState p1\<rparr>
                 in if \<not> issued then (False, c1)
                    else (True, note_issued tt DM systemMotorId (dm_refreshSleepInterval p1) 0
                           (on_runtime (\<lambda>r. r\<lparr>dr_dmScheduleStates := map_modify \<lparr>dm_lastIssued = 0\<rparr> motorId
                                (\<lambda>st. NoteDmRefreshQueryIssued (tt_now tt) st query) (dr_dmScheduleStates r),
                              dr_dmMotorCursor := (index + 1) mod length motorIds,
                              dr_nextDmTick := tt_tick tt + ms (clampRefreshSleep (dm_refreshSleepInterval p1))\<rparr>) c1)))"

definition dm_motor_tick :: "tick_times \<Rightarrow> nat \<Rightarrow> u8 list \<Rightarrow> nat \<Rightarrow> refresh_ctx \<Rightarrow> bool \<times> refresh_ctx" where
  "dm_motor_tick tt cursor motorIds offset c =
     (let index = (cursor + offset) mod length motorIds; motorId = motorIds ! index; r = rc_runtime c;
          state = map_at \<lparr>dm_lastIssued = 0\<rparr> (dr_dmScheduleStates r) motorId;
          plan = BuildDmRefreshPlan (tt_now tt) (buildDmAxisRefreshSnapshot (rc_sharedState c) (dr_deviceName r) motorId)
                   (Some state)
      in until_issued (dm_query tt index motorIds) plan
           (on_runtime (\<lambda>r. r\<lparr>dr_dmScheduleStates := (dr_dmScheduleStates r)(motorId \<mapsto> state)\<rparr>) c))"

definition dm_tick :: "tick_times \<Rightarrow> refresh_ctx \<Rightarrow> bool \<times> refresh_ctx" where
  "dm_tick tt c =
     (let r = rc_runtime c; due = (dr_nextDmTick r = 0 \<or> dr_nextDmTick r \<le> tt_now tt)
      in if \<not> dr_dmActive r \<or> \<not> due \<or> Option.is_none (rc_dm c) \<or> \<not> dr_dmProtocol r then (False, c)
         else until_issued (dm_motor_tick tt (dr_dmMotorCursor r) (dr_dmMotorIds r)) [0..<length (dr_dmMotorIds r)] c)"

text \<open>The bookkeeping at the start of a tick under the schedule lock; \<open>None\<close> when the tick returns there.\<close>

definition retire_pending :: "tick_times \<Rightarrow> refresh_ctx \<Rightarrow> refresh_ctx" where
  "retire_pending tt c =
     (let r = rc_runtime c; pending = dr_pendingRefresh r
      in if pf_active pending \<and>
            (pf_observedLastRxSteadyNs pending
               < sharedAxisLastRxNs (rc_sharedState c) (dr_deviceName r) (pf_protocol pending) (pf_motorId pending) \<or>
             pf_deadline pending \<le> tt_now tt)
         then on_runtime (\<lambda>r. r\<lparr>dr_pendingRefresh := pending\<lparr>pf_active := False\<rparr>\<rparr>) c else c)"

definition may_issue :: "tick_times \<Rightarrow> refresh_ctx \<Rightarrow> bool" where
  "may_issue tt c =
     (let r = rc_runtime c
      in \<not> (dr_nextEligibleIssueTime r \<noteq> 0 \<and> tt_now tt < dr_nextEligibleIssueTime r) \<and> \<not> pf_active (dr_pendingRefresh r))"

definition note_pressure :: "refresh_ctx \<Rightarrow> bool \<times> refresh_ctx" where
  "note_pressure c =
     (let r = rc_runtime c; cycle = dr_refreshCycleCount r;
          r1 = r\<lparr>dr_refreshCycleCount := cycle + 1\<rparr>;
          r2 = (case rc_sharedState c of
                  None \<Rightarrow> r1
                | Some shared \<Rightarrow>
                    (case getDeviceHealth shared (dr_deviceName r) of
                       None \<Rightarrow> r1
                     | Some health \<Rightarrow>
                         (if dr_lastObservedTxBackpressure r1 < dh_txBackpressure health
                          then r1\<lparr>dr_queryPressureUntilCycle :=
                                 max (dr_queryPressureUntilCycle r1) (cycle + kQueryPressureHoldCycles)\<rparr>
                          else r1)\<lparr>dr_lastObservedTxBackpressure := dh_txBackpressure health\<rparr>))
      in (cycle < dr_queryPressureUntilCycle r2, c\<lparr>rc_runtime := r2\<rparr>))"

definition family_tick :: "tick_times \<Rightarrow> bool \<Rightarrow> nat \<Rightarrow> nat \<Rightarrow> refresh_ctx \<Rightarrow> bool \<times> refresh_ctx" where
  "family_tick tt pressure cursor protocolTry c =
     (let selected = (cursor + protocolTry) mod 3
      in if selected = 0 then mt_tick tt pressure c
         else if selected = 1 then pp_tick tt pressure c
         else dm_tick tt c)"

definition reset_inactive :: "refresh_ctx \<Rightarrow> refresh_ctx" where
  "reset_inactive c = on_runtime (\<lambda>r. r\<lparr>dr_nextMtTick := (if dr_mtActive r then dr_nextMtTick r else 0),
      dr_nextPpTick := (if dr_ppActive r then dr_nextPpTick r else 0),
      dr_nextDmTick := (if dr_dmActive r then dr_nextDmTick r else 0)\<rparr>) c"

text \<open>The tick; the result says whether a query was issued.\<close>

definition tick :: "tick_times \<Rightarrow> refresh_ctx \<Rightarrow> bool \<times> refresh_ctx" where
  "tick tt c =
     (let c1 = retire_pending tt c
      in if \<not> may_issue tt c1 then (False, c1)
         else case note_pressure c1 of
           (pressure, c2) \<Rightarrow>
             case until_issued (family_tick tt pressure (dr_protocolRoundRobinCursor (rc_runtime c2))) [0..<3] c2 of
               (issued, c3) \<Rightarrow> (issued, reset_inactive c3))"


section \<open>The sleep between ticks\<close>

text \<open>In milliseconds.  The gap to the next frame counts only while MT motors are refreshed.\<close>

definition wait_ms :: "time_ns \<Rightarrow> time_ns \<Rightarrow> int" where
  "wait_ms now t = (if now < t then t - now else 0) div ms 1"

definition sooner :: "int option \<Rightarrow> int \<Rightarrow> int option" where
  "sooner sleepFor wait = Some (case sleepFor of None \<Rightarrow> wait | Some d \<Rightarrow> min d wait)"

definition refresh_sleep :: "time_ns \<Rightarrow> DeviceRefreshRuntime \<Rightarrow> int" where
  "refresh_sleep now r =
     (if dr_mtActive r \<and> dr_nextMtTick r = 0 then 1
      else let s1 = (if dr_mtActive r
                     then sooner (if dr_nextEligibleIssueTime r \<noteq> 0 then Some (wait_ms now (dr_nextEligibleIssueTime r)) else None)
                            (wait_ms now (dr_nextMtTick r))
                     else None)
      in if dr_ppActive r \<and> dr_nextPpTick r = 0 then 1
         else let s2 = (if dr_ppActive r then sooner s1 (wait_ms now (dr_nextPpTick r)) else s1)
      in if dr_dmActive r \<and> dr_nextDmTick r = 0 then 1
         else let s3 = (if dr_dmActive r then sooner s2 (wait_ms now (dr_nextDmTick r)) else s2)
      in case s3 of None \<Rightarrow> 5 | Some d \<Rightarrow> clampRefreshSleep d)"

section \<open>What one tick does\<close>

text \<open>
  The contract of a loop that stops at the first query issued: \<open>quiet\<close> is what an attempt that
  issues nothing may do, \<open>issues\<close> what an attempt that issues a query does.
\<close>

locale issue_loop =
  fixes quiet issues :: "'s \<Rightarrow> 's \<Rightarrow> bool"
  assumes quiet_refl: "quiet s s"
    and quiet_trans: "quiet s s1 \<Longrightarrow> quiet s1 s2 \<Longrightarrow> quiet s s2"
    and quiet_issues: "quiet s s1 \<Longrightarrow> issues s1 s2 \<Longrightarrow> issues s s2"
begin

definition obeys :: "bool \<times> 's \<Rightarrow> 's \<Rightarrow> bool" where
  "obeys r s \<longleftrightarrow> (if fst r then issues s (snd r) else quiet s (snd r))"

lemma obeys_after: "quiet s s1 \<Longrightarrow> obeys r s1 \<Longrightarrow> obeys r s"
  by (auto simp: obeys_def intro: quiet_trans quiet_issues split: if_splits)

lemma loop_obeys:
  assumes "\<And>x s. x \<in> set xs \<Longrightarrow> obeys (f x s) s"
  shows "obeys (until_issued f xs s) s"
  using assms
proof (induction xs arbitrary: s)
  case Nil
  show ?case by (simp add: obeys_def quiet_refl)
next
  case (Cons x xs)
  obtain issued s1 where f: "f x s = (issued, s1)" by (cases "f x s")
  from Cons.prems [of x s] f have "obeys (issued, s1) s" by simp
  with Cons.IH [of s1] Cons.prems f show ?case by (auto simp: obeys_def intro: quiet_trans quiet_issues)
qed

end

definition requests_out :: "refresh_ctx \<Rightarrow> request list" where
  "requests_out c = concat [case_option [] io_outbox (rc_mt c), case_option [] io_outbox (rc_pp c),
     case_option [] io_outbox (rc_dm c)]"

definition same_schedule :: "DeviceRefreshRuntime \<Rightarrow> DeviceRefreshRuntime \<Rightarrow> bool" where
  "same_schedule r r' \<longleftrightarrow> dr_deviceName r' = dr_deviceName r \<and> dr_interFrameGap r' = dr_interFrameGap r \<and>
     dr_worker r' = dr_worker r \<and>
     (dr_mtProtocol r', dr_ppProtocol r', dr_dmProtocol r') = (dr_mtProtocol r, dr_ppProtocol r, dr_dmProtocol r) \<and>
     (dr_mtActive r', dr_ppActive r', dr_dmActive r') = (dr_mtActive r, dr_ppActive r, dr_dmActive r)"

definition tick_quiet :: "refresh_ctx \<Rightarrow> refresh_ctx \<Rightarrow> bool" where
  "tick_quiet c c' \<longleftrightarrow> requests_out c' = requests_out c \<and> same_schedule (rc_runtime c) (rc_runtime c') \<and>
     dr_pendingRefresh (rc_runtime c') = dr_pendingRefresh (rc_runtime c) \<and>
     dr_nextEligibleIssueTime (rc_runtime c') = dr_nextEligibleIssueTime (rc_runtime c)"

definition tick_issues :: "tick_times \<Rightarrow> refresh_ctx \<Rightarrow> refresh_ctx \<Rightarrow> bool" where
  "tick_issues tt c c' \<longleftrightarrow> length (requests_out c') \<le> length (requests_out c) + 1 \<and>
     same_schedule (rc_runtime c) (rc_runtime c') \<and>
     dr_nextEligibleIssueTime (rc_runtime c') = tt_eligible tt + dr_interFrameGap (rc_runtime c) \<and>
     (let p = dr_pendingRefresh (rc_runtime c')
      in pf_active p \<and> tt_deadline tt + ms 1 \<le> pf_deadline p \<and>
         pf_observedLastRxSteadyNs p =
           sharedAxisLastRxNs (rc_sharedState c') (dr_deviceName (rc_runtime c)) (pf_protocol p) (pf_motorId p))"

interpretation rl: issue_loop tick_quiet "tick_issues tt" for tt
  by unfold_locales (auto simp: tick_quiet_def tick_issues_def same_schedule_def Let_def)

text \<open>A query issued on a protocol object hands the dispatcher at most one request, one not issued none.\<close>

lemma mt_dispatch_outbox [simp]: "io_outbox (onReadDispatchResult n c a x t s) = io_outbox s"
  by (simp add: onReadDispatchResult_def noteSharedTimeout_def Let_def split: option.split)

lemma mt_issue_outbox:
  assumes "mt_issueRefreshQuery now mid q p = (issued, p1)"
  shows "length (io_outbox p1) \<le> length (io_outbox p) + (if issued then 1 else 0) \<and> (\<not> issued \<longrightarrow> io_outbox p1 = io_outbox p)"
proof -
  have "request_read cmd src now n p' = (issued, p1) \<Longrightarrow>
      length (io_outbox p1) \<le> length (io_outbox p') + (if issued then 1 else 0) \<and> (\<not> issued \<longrightarrow> io_outbox p1 = io_outbox p')"
    for cmd src n p'
    using tryIssue_slots [where now = now and s = p']
    by (fastforce simp: request_read_def split: if_splits prod.splits)
  from this [of _ _ _ "rememberSystemMotorId mid p"] assms show ?thesis
    by (cases q) (fastforce simp: requestState_def requestMultiTurnAngle_def requestError_def rememberSystemMotorId_def)+
qed

lemma ey_issue_outbox:
  assumes "ey_issueRefreshQuery now mid q p = (issued, p1)"
  shows "length (io_outbox p1) \<le> length (io_outbox p) + (if issued then 1 else 0) \<and> (\<not> issued \<longrightarrow> io_outbox p1 = io_outbox p)"
proof -
  have "ey_tryIssueReadCommand now n cmd p' = (issued, p1) \<Longrightarrow>
      length (io_outbox p1) \<le> length (io_outbox p') + (if issued then 1 else 0) \<and> (\<not> issued \<longrightarrow> io_outbox p1 = io_outbox p')"
    for n cmd p'
    by (auto simp: ey_tryIssueReadCommand_def sendReadCommand_def Let_def split: if_splits)
  from this [of _ _ "ey_registerManagedMotorId mid p"] assms show ?thesis
    by (cases q) (fastforce simp: ey_requests ey_registerManagedMotorId_def Let_def)+
qed

lemma dm_issue_outbox:
  assumes "dm_issueRefreshQuery mid q p = (issued, p1)"
  shows "length (io_outbox p1) \<le> length (io_outbox p) + (if issued then 1 else 0) \<and> (\<not> issued \<longrightarrow> io_outbox p1 = io_outbox p)"
  using assms
  by (cases q) (auto simp: Let_def sendSpeedFrame_def submitTx_def dm_registerManagedMotorId_def split: if_splits)

lemma clamp_pos: "1 \<le> clampRefreshSleep d" by (simp add: clampRefreshSleep_def)

lemma note_issued_issues:
  assumes "same_schedule (rc_runtime c) (rc_runtime c1)" and "length (requests_out c1) \<le> length (requests_out c) + 1"
  shows "tick_issues tt c (note_issued tt protocol mid wait k c1)"
  using assms clamp_pos [of wait]
  by (simp add: tick_issues_def note_issued_def on_runtime_def same_schedule_def requests_out_def Let_def)

lemma mt_query_obeys: "rl.obeys tt (mt_query tt offset index mids it c) c"
proof (cases "rc_mt c")
  case (Some p)
  obtain issued p1 where q: "mt_issueRefreshQuery (tt_issue tt MT offset (fst it)) (mids ! index) (snd it)
      (p\<lparr>io_sharedState := rc_sharedState c\<rparr>) = (issued, p1)" by fastforce
  from mt_issue_outbox [OF q] Some q show ?thesis
    by (auto simp: rl.obeys_def mt_query_def Let_def tick_quiet_def same_schedule_def on_runtime_def requests_out_def
        intro!: note_issued_issues)
qed (simp add: rl.obeys_def mt_query_def rl.quiet_refl)

lemma pp_query_obeys: "rl.obeys tt (pp_query tt offset index ids it c) c"
proof (cases "rc_pp c")
  case (Some p)
  obtain issued p1 where q: "ey_issueRefreshQuery (tt_issue tt PP offset (fst it)) (motorIdFromProtocolNodeId (ids ! index)) (snd it)
      (p\<lparr>io_sharedState := rc_sharedState c\<rparr>) = (issued, p1)" by fastforce
  from ey_issue_outbox [OF q] Some q show ?thesis
    by (auto simp: rl.obeys_def pp_query_def Let_def tick_quiet_def same_schedule_def on_runtime_def requests_out_def
        intro!: note_issued_issues)
qed (simp add: rl.obeys_def pp_query_def rl.quiet_refl)

lemma dm_query_obeys: "rl.obeys tt (dm_query tt index ids q c) c"
proof (cases "rc_dm c")
  case (Some p)
  obtain issued p1 where q: "dm_issueRefreshQuery (motorIdFromProtocolNodeId (ids ! index)) q
      (p\<lparr>io_sharedState := rc_sharedState c\<rparr>) = (issued, p1)" by fastforce
  from dm_issue_outbox [OF q] Some q show ?thesis
    by (auto simp: rl.obeys_def dm_query_def Let_def tick_quiet_def same_schedule_def on_runtime_def requests_out_def
        intro!: note_issued_issues)
qed (simp add: rl.obeys_def dm_query_def rl.quiet_refl)

text \<open>Changes of the schedule that touch neither the pending answer nor the gap are quiet.\<close>

lemma quiet_runtime:
  assumes "same_schedule (rc_runtime c) (f (rc_runtime c))"
    and "dr_pendingRefresh (f (rc_runtime c)) = dr_pendingRefresh (rc_runtime c)"
    and "dr_nextEligibleIssueTime (f (rc_runtime c)) = dr_nextEligibleIssueTime (rc_runtime c)"
  shows "tick_quiet c (on_runtime f c)"
  using assms by (simp add: tick_quiet_def on_runtime_def requests_out_def)

lemma obeys_noop: "rl.obeys tt (False, c) c"
  by (simp add: rl.obeys_def rl.quiet_refl)

lemma mt_tick_obeys: "rl.obeys tt (mt_tick tt pressure c) c"
proof -
  let ?c = "on_runtime (\<lambda>r. r\<lparr>dr_mtScheduleCycleCount := dr_mtScheduleCycleCount r + 1\<rparr>) c"
  have quiet: "tick_quiet c ?c" by (rule quiet_runtime) (simp_all add: same_schedule_def)
  have "rl.obeys tt (until_issued (mt_motor tt pressure cycle cursor ids) xs ?c) ?c" for cycle cursor ids xs
    unfolding mt_motor_def Let_def by (intro rl.loop_obeys mt_query_obeys)
  then show ?thesis
    unfolding mt_tick_def Let_def using obeys_noop rl.obeys_after [OF quiet] by (simp split: if_split)
qed

lemma pp_motor_obeys: "rl.obeys tt (pp_motor tt pressure cursor ids x c) c"
proof -
  let ?id = "ids ! ((cursor + x) mod length ids)"
  have quiet: "tick_quiet c (on_runtime (\<lambda>r. r\<lparr>dr_ppScheduleStates := (dr_ppScheduleStates r)(?id \<mapsto> st)\<rparr>) c)" for st
    by (rule quiet_runtime) (simp_all add: same_schedule_def)
  show ?thesis
    unfolding pp_motor_def Let_def split_beta
    by (rule rl.obeys_after [OF quiet rl.loop_obeys [OF pp_query_obeys]])
qed

lemma pp_tick_obeys: "rl.obeys tt (pp_tick tt pressure c) c"
proof -
  let ?c = "on_runtime (\<lambda>r. r\<lparr>dr_ppScheduleCycleCount := dr_ppScheduleCycleCount r + 1\<rparr>) c"
  have quiet: "tick_quiet c ?c" by (rule quiet_runtime) (simp_all add: same_schedule_def)
  have "rl.obeys tt (until_issued (pp_motor tt pressure cursor ids) xs ?c) ?c" for cursor ids xs
    by (intro rl.loop_obeys pp_motor_obeys)
  then show ?thesis
    unfolding pp_tick_def Let_def using obeys_noop rl.obeys_after [OF quiet] by (simp split: if_split)
qed

lemma dm_motor_obeys: "rl.obeys tt (dm_motor_tick tt cursor ids x c) c"
proof -
  let ?id = "ids ! ((cursor + x) mod length ids)"
  have quiet: "tick_quiet c (on_runtime (\<lambda>r. r\<lparr>dr_dmScheduleStates := (dr_dmScheduleStates r)(?id \<mapsto> st)\<rparr>) c)" for st
    by (rule quiet_runtime) (simp_all add: same_schedule_def)
  show ?thesis
    unfolding dm_motor_tick_def Let_def
    by (rule rl.obeys_after [OF quiet rl.loop_obeys [OF dm_query_obeys]])
qed

lemma dm_tick_obeys: "rl.obeys tt (dm_tick tt c) c"
proof -
  have "rl.obeys tt (until_issued (dm_motor_tick tt cursor ids) xs c) c" for cursor ids xs
    by (rule rl.loop_obeys [OF dm_motor_obeys])
  then show ?thesis unfolding dm_tick_def Let_def using obeys_noop by (simp split: if_split)
qed


lemma pressure_quiet: "tick_quiet c (snd (note_pressure c))"
  by (simp add: note_pressure_def Let_def tick_quiet_def requests_out_def same_schedule_def split: option.split)

lemma reset_quiet: "tick_quiet c (reset_inactive c)"
  unfolding reset_inactive_def by (rule quiet_runtime) (simp_all add: same_schedule_def)

lemma issues_reset: "tick_issues tt c c1 \<Longrightarrow> tick_issues tt c (reset_inactive c1)"
  by (simp add: tick_issues_def reset_inactive_def on_runtime_def requests_out_def same_schedule_def)

lemma families_obey: "rl.obeys tt (until_issued (family_tick tt pressure cursor) xs c) c"
  by (rule rl.loop_obeys)
    (simp add: family_tick_def Let_def mt_tick_obeys pp_tick_obeys dm_tick_obeys split: if_split)

text \<open>
  A tick is refused at the guard, or it is let through and then either issues one query or
  changes neither the requests nor what is pending.
\<close>

lemma tick_cases:
  obtains (refused) "\<not> may_issue tt (retire_pending tt c)" "tick tt c = (False, retire_pending tt c)"
  | (idle) "may_issue tt (retire_pending tt c)" "\<not> fst (tick tt c)" "tick_quiet (retire_pending tt c) (snd (tick tt c))"
  | (issued) "may_issue tt (retire_pending tt c)" "fst (tick tt c)" "tick_issues tt (retire_pending tt c) (snd (tick tt c))"
proof (cases "may_issue tt (retire_pending tt c)")
  case True
  let ?c1 = "retire_pending tt c"
  obtain pressure c2 where p: "note_pressure ?c1 = (pressure, c2)" by fastforce
  obtain ok c3 where l: "until_issued (family_tick tt pressure (dr_protocolRoundRobinCursor (rc_runtime c2))) [0..<3] c2 = (ok, c3)"
    by fastforce
  have t: "tick tt c = (ok, reset_inactive c3)" using True p l by (simp add: tick_def)
  have "tick_quiet ?c1 c2" using pressure_quiet [of ?c1] p by simp
  then have "rl.obeys tt (ok, c3) ?c1"
    by (rule rl.obeys_after) (use families_obey [of tt pressure _ "[0..<3]" c2] l in metis)
  then show ?thesis
    using that(2,3) True t issues_reset reset_quiet rl.quiet_trans by (cases ok) (auto simp: rl.obeys_def)
qed (use that(1) in \<open>simp add: tick_def\<close>)

lemma retire_frame:
  "requests_out (retire_pending tt c) = requests_out c" "rc_sharedState (retire_pending tt c) = rc_sharedState c"
  "same_schedule (rc_runtime c) (rc_runtime (retire_pending tt c))"
  "dr_nextEligibleIssueTime (rc_runtime (retire_pending tt c)) = dr_nextEligibleIssueTime (rc_runtime c)"
  by (simp_all add: retire_pending_def on_runtime_def Let_def requests_out_def same_schedule_def)

section \<open>Runs\<close>

text \<open>
  Between ticks the other threads act on the protocol objects and on the store (receive
  handlers, commands, the transmit worker), not on the schedule.
\<close>

datatype refresh_event = Tick tick_times | Others "refresh_ctx \<Rightarrow> refresh_ctx"

fun run_event :: "refresh_event \<Rightarrow> refresh_ctx \<Rightarrow> refresh_ctx" where
  "run_event (Tick tt) c = snd (tick tt c)"
| "run_event (Others f) c = (f c)\<lparr>rc_runtime := rc_runtime c\<rparr>"

fun issues_none :: "refresh_event list \<Rightarrow> refresh_ctx \<Rightarrow> bool" where
  "issues_none [] c \<longleftrightarrow> True"
| "issues_none (e # es) c \<longleftrightarrow> (case e of Tick tt \<Rightarrow> \<not> fst (tick tt c) | Others f \<Rightarrow> True) \<and> issues_none es (run_event e c)"

text \<open>The pending query is answered, or given up, at the start of a tick.\<close>

definition query_settled :: "tick_times \<Rightarrow> PendingRefresh \<Rightarrow> string \<Rightarrow> refresh_ctx \<Rightarrow> bool" where
  "query_settled tt p device c \<longleftrightarrow>
     pf_observedLastRxSteadyNs p < sharedAxisLastRxNs (rc_sharedState c) device (pf_protocol p) (pf_motorId p) \<or>
     pf_deadline p \<le> tt_now tt"

lemma unsettled_waits:
  assumes "issues_none es c" and "pf_active (dr_pendingRefresh (rc_runtime c))" and "p = dr_pendingRefresh (rc_runtime c)"
    and "\<And>es1 tt es2. es = es1 @ Tick tt # es2 \<Longrightarrow> \<not> query_settled tt p (dr_deviceName (rc_runtime c)) (fold run_event es1 c)"
  shows "dr_pendingRefresh (rc_runtime (fold run_event es c)) = p"
  using assms
proof (induction es arbitrary: c)
  case (Cons e es)
  let ?c = "run_event e c"
  have keep: "dr_pendingRefresh (rc_runtime ?c) = p \<and> dr_deviceName (rc_runtime ?c) = dr_deviceName (rc_runtime c)"
  proof (cases e)
    case (Tick tt)
    have "\<not> query_settled tt p (dr_deviceName (rc_runtime c)) c" using Cons.prems(4) [of "[]" tt es] Tick by simp
    then have "retire_pending tt c = c" using Cons.prems(3) by (auto simp: retire_pending_def query_settled_def Let_def)
    then have "tick tt c = (False, c)" using Cons.prems(2) by (simp add: tick_def may_issue_def Let_def)
    then show ?thesis using Tick Cons.prems(3) by simp
  qed (use Cons.prems(3) in simp)
  show ?case
  proof (simp, rule Cons.IH)
    show "issues_none es ?c" using Cons.prems(1) by simp
    show "pf_active (dr_pendingRefresh (rc_runtime ?c))" "p = dr_pendingRefresh (rc_runtime ?c)"
      using keep Cons.prems(2,3) by simp_all
    show "\<not> query_settled tt p (dr_deviceName (rc_runtime ?c)) (fold run_event es1 ?c)" if "es = es1 @ Tick tt # es2" for es1 tt es2
      using Cons.prems(4) [of "e # es1" tt es2] that keep by simp
  qed
qed simp


lemma run_device: "dr_deviceName (rc_runtime (fold run_event es c)) = dr_deviceName (rc_runtime c)"
proof (induction es arbitrary: c)
  case (Cons e es)
  have "dr_deviceName (rc_runtime (run_event e c)) = dr_deviceName (rc_runtime c)"
  proof (cases e)
    case (Tick tt)
    then show ?thesis using retire_frame(3) [of c tt]
      by (cases rule: tick_cases [where tt = tt and c = c]) (auto simp: tick_quiet_def tick_issues_def same_schedule_def)
  qed simp
  with Cons show ?case by simp
qed simp

lemma issues_none_eligible:
  "issues_none es c \<Longrightarrow> dr_nextEligibleIssueTime (rc_runtime (fold run_event es c)) = dr_nextEligibleIssueTime (rc_runtime c)"
proof (induction es arbitrary: c)
  case (Cons e es)
  have "dr_nextEligibleIssueTime (rc_runtime (run_event e c)) = dr_nextEligibleIssueTime (rc_runtime c)"
  proof (cases e)
    case (Tick tt)
    with Cons.prems have "\<not> fst (tick tt c)" by simp
    then show ?thesis using Tick retire_frame(4) by (cases rule: tick_cases [where tt = tt and c = c]) (auto simp: tick_quiet_def)
  qed simp
  with Cons show ?case by simp
qed simp

section \<open>Properties\<close>

text \<open>
  C14: on a device at most one query is outstanding: a tick that issues a query hands the dispatcher at
  most one request, a tick that issues none hands over nothing, and after a query the next one
  is issued only when the gap between frames has passed and some tick since then found the axis
  answered or the deadline of the query, at least a millisecond after it was issued, over.
\<close>

theorem one_query_outstanding:
  assumes "fst (tick t0 c0)" and "c1 = snd (tick t0 c0)" and "issues_none es c1" and "fst (tick t2 (fold run_event es c1))"
    and "0 < tt_eligible t0" and "0 \<le> dr_interFrameGap (rc_runtime c0)"
    and "p = dr_pendingRefresh (rc_runtime c1)"
  shows "length (requests_out c1) \<le> length (requests_out c0) + 1 \<and>
    (\<forall>tt c. \<not> fst (tick tt c) \<longrightarrow> requests_out (snd (tick tt c)) = requests_out c) \<and>
    tt_eligible t0 + dr_interFrameGap (rc_runtime c0) \<le> tt_now t2 \<and> tt_deadline t0 + ms 1 \<le> pf_deadline p \<and>
    (\<exists>es1 t1 es2. es @ [Tick t2] = es1 @ Tick t1 # es2 \<and>
       query_settled t1 p (dr_deviceName (rc_runtime c0)) (fold run_event es1 c1))"
proof -
  let ?c = "fold run_event es c1" and ?dev = "dr_deviceName (rc_runtime c0)"
  have issued: "tick_issues t0 (retire_pending t0 c0) c1" using assms(1,2) by (cases rule: tick_cases [where tt = t0 and c = c0]) auto
  then have p: "pf_active p" "tt_deadline t0 + ms 1 \<le> pf_deadline p" and dev: "dr_deviceName (rc_runtime c1) = ?dev"
    and el: "dr_nextEligibleIssueTime (rc_runtime c1) = tt_eligible t0 + dr_interFrameGap (rc_runtime c0)"
    and out: "length (requests_out c1) \<le> length (requests_out c0) + 1"
    using retire_frame assms(7) by (auto simp: tick_issues_def same_schedule_def Let_def)
  have may: "may_issue t2 (retire_pending t2 ?c)" using assms(4) by (cases rule: tick_cases [where tt = t2 and c = ?c]) auto
  then have "tt_eligible t0 + dr_interFrameGap (rc_runtime c0) \<le> tt_now t2"
    using assms(5,6) el retire_frame(4) issues_none_eligible [OF assms(3)] by (auto simp: may_issue_def Let_def)
  moreover have "\<not> fst (tick tt c) \<Longrightarrow> requests_out (snd (tick tt c)) = requests_out c" for tt c
    by (cases rule: tick_cases [where tt = tt and c = c]) (auto simp: tick_quiet_def retire_frame)
  moreover have "\<exists>es1 t1 es2. es @ [Tick t2] = es1 @ Tick t1 # es2 \<and> query_settled t1 p ?dev (fold run_event es1 c1)"
  proof (rule ccontr)
    assume none: "\<not> ?thesis"
    then have "\<not> query_settled tt p ?dev (fold run_event es1 c1)" if "es = es1 @ Tick tt # es2" for es1 tt es2
      using that by (metis append.assoc append_Cons)
    then have "dr_pendingRefresh (rc_runtime ?c) = p"
      using p(1) assms(3,7) dev by (intro unsettled_waits) auto
    moreover have "\<not> query_settled t2 p ?dev ?c" using none by blast
    moreover have "dr_deviceName (rc_runtime ?c) = ?dev" using run_device dev by simp
    ultimately have "retire_pending t2 ?c = ?c" by (auto simp: retire_pending_def query_settled_def Let_def)
    with may p(1) \<open>dr_pendingRefresh (rc_runtime ?c) = p\<close> show False by (simp add: may_issue_def Let_def)
  qed
  ultimately show ?thesis using p(2) out by blast
qed


definition witness_ctx :: refresh_ctx where
  "witness_ctx = \<lparr>rc_runtime = default_refresh_runtime\<lparr>dr_deviceName := ''can0'', dr_mtProtocol := True, dr_mtActive := True,
       dr_mtMotorIds := [0x141]\<rparr>,
     rc_sharedState = Some empty_SharedDriverState, rc_mt = Some (new_MtCan True True None ''can0''), rc_pp = None, rc_dm = None\<rparr>"

definition witness_times :: "time_ns \<Rightarrow> tick_times" where
  "witness_times t = \<lparr>tt_now = t, tt_issue = (\<lambda>_ _ _. t), tt_tick = t, tt_eligible = t, tt_deadline = t\<rparr>"

theorem one_query_outstanding_witness:
  "length (requests_out (snd (tick (witness_times 1) witness_ctx))) \<le> 1 \<and> (1 :: time_ns) + ms 1 \<le> 5000000000"
proof -
  have "let r = tick (witness_times 1) witness_ctx in fst r \<and> fst (tick (witness_times 5000000000) (snd r))"
    by code_simp
  then have first: "fst (tick (witness_times 1) witness_ctx)"
    and second: "fst (tick (witness_times 5000000000) (fold run_event [] (snd (tick (witness_times 1) witness_ctx))))"
    by (simp_all add: Let_def)
  have out: "length (requests_out witness_ctx) = 0" by (simp add: requests_out_def witness_ctx_def new_MtCan_def)
  have "dr_interFrameGap (rc_runtime witness_ctx) = ms 1"
    by (simp add: witness_ctx_def default_refresh_runtime_def)
  with one_query_outstanding [OF first refl _ second _ _ refl] out show ?thesis by (simp add: witness_times_def)
qed

text \<open>The worker sleeps for at least a millisecond, and a stopped worker leaves its loop.\<close>

lemma refresh_sleep_bounds: "1 \<le> refresh_sleep now r"
  by (simp add: refresh_sleep_def clamp_pos Let_def split: option.split)

fun rw_run :: "bool list \<Rightarrow> DeviceRefreshWorker \<Rightarrow> nat \<times> DeviceRefreshWorker" where
  "rw_run [] wk = (0, wk)"
| "rw_run (timedOut # ts) wk =
     (case rw_step timedOut wk of (ticked, wk1) \<Rightarrow> case rw_run ts wk1 of (n, wk2) \<Rightarrow> ((if ticked then 1 else 0) + n, wk2))"

text \<open>
  Stopping the refresh worker ends: wherever its thread is, after \<open>stop\<close> has been called two steps
  of the loop end it without another tick, whether its sleep is over or not, and \<open>join\<close> returns
  with no thread left; a later start begins a new thread.
\<close>

lemma refresh_worker_stops:
  "\<exists>wk1. rw_run [t1, t2] (rw_stop_begin wk) = (0, wk1) \<and> rw_thread (rw_join wk1) = None \<and>
     \<not> rw_running (rw_join wk1) \<and> rw_thread (rw_start (rw_join wk1)) = Some RHead"
proof (cases "rw_thread wk")
  case (Some pos)
  then show ?thesis
    by (cases pos) (auto simp: rw_stop_begin_def rw_notify_def rw_step_def rw_join_def rw_start_def)
qed (auto simp: rw_stop_begin_def rw_notify_def rw_step_def rw_join_def rw_start_def)

end
