(* ===== verification/Socket_Can_Controller.thy ===== *)
theory Socket_Can_Controller
  imports Can_Types
begin

unbundle bit_operations_syntax

text \<open>
  \<open>SocketCanController.cpp\<close>, the transport on a SocketCAN device, and what both transports share
  (\<open>CanTransport.h\<close>): the table of receive handlers.  The answers of the kernel to the system calls
  are arguments.  A handler is a closure; \<open>'h\<close> is whatever identifies it to its owner.
\<close>

section \<open>Handlers\<close>

record 'h transport_base =
  tb_initialized :: bool
  tb_stopRequested :: bool
  tb_nextHandlerId :: nat
  tb_handlers :: "(nat \<times> 'h) list"
  tb_receiveThread :: bool
  tb_socketFd :: int
  tb_device :: string

definition addReceiveHandler :: "'h option \<Rightarrow> ('h, 'a) transport_base_scheme \<Rightarrow> nat \<times> ('h, 'a) transport_base_scheme" where
  "addReceiveHandler handler t =
     (case handler of
        None \<Rightarrow> (0, t)
      | Some h \<Rightarrow> let hid = tb_nextHandlerId t
                  in (hid, t\<lparr>tb_nextHandlerId := hid + 1,
                        tb_handlers := (if hid \<in> fst ` set (tb_handlers t) then tb_handlers t else tb_handlers t @ [(hid, h)])\<rparr>))"

definition removeReceiveHandler :: "nat \<Rightarrow> ('h, 'a) transport_base_scheme \<Rightarrow> ('h, 'a) transport_base_scheme" where
  "removeReceiveHandler handlerId t =
     (if handlerId = 0 then t else t\<lparr>tb_handlers := filter (\<lambda>e. fst e \<noteq> handlerId) (tb_handlers t)\<rparr>)"

text \<open>The handlers a received frame is given to; an \<open>unordered_map\<close> fixes no order of the calls.\<close>

definition dispatchReceive :: "('h, 'a) transport_base_scheme \<Rightarrow> 'h list" where
  "dispatchReceive t = map snd (tb_handlers t)"

section \<open>State\<close>

record Stats =
  st_txOk :: u64
  st_txBackpressure :: u64
  st_txLinkUnavailable :: u64
  st_txError :: u64
  st_txPartial :: u64
  st_rxOk :: u64
  st_rxError :: u64
  st_rxShortRead :: u64
  st_lastTxLinkUnavailableSteadyNs :: int
  st_lastRxSteadyNs :: int

definition default_Stats :: Stats where
  "default_Stats = \<lparr>st_txOk = 0, st_txBackpressure = 0, st_txLinkUnavailable = 0, st_txError = 0, st_txPartial = 0,
     st_rxOk = 0, st_rxError = 0, st_rxShortRead = 0, st_lastTxLinkUnavailableSteadyNs = 0, st_lastRxSteadyNs = 0\<rparr>"

record 'h SocketCanController = "'h transport_base" +
  sc_stats :: Stats

definition new_SocketCanController :: "'h SocketCanController" where
  "new_SocketCanController = \<lparr>tb_initialized = False, tb_stopRequested = False, tb_nextHandlerId = 1, tb_handlers = [],
     tb_receiveThread = False, tb_socketFd = - 1, tb_device = [], sc_stats = default_Stats\<rparr>"

definition resetStats :: "'h SocketCanController \<Rightarrow> 'h SocketCanController" where
  "resetStats t = t\<lparr>sc_stats := default_Stats\<rparr>"

definition snapshotStats :: "'h SocketCanController \<Rightarrow> Stats" where
  "snapshotStats t = sc_stats t"

definition sc_shutdown :: "'h SocketCanController \<Rightarrow> 'h SocketCanController" where
  "sc_shutdown t = (resetStats (t\<lparr>tb_stopRequested := True, tb_initialized := False, tb_receiveThread := False,
     tb_socketFd := - 1, tb_handlers := [], tb_nextHandlerId := 1\<rparr>))\<lparr>tb_device := []\<rparr>"

text \<open>The file descriptor, whether it could be made non-blocking, the interface index (0 when there is no
  such device), and whether it could be bound; the two socket options only lead to warnings.\<close>

record can_open =
  co_fd :: int
  co_nonBlocking :: bool
  co_ifindex :: nat
  co_bound :: bool

definition shouldEnableLocalLoopback :: bool where
  "shouldEnableLocalLoopback = True"

definition shouldReceiveOwnMessages :: "bool \<Rightarrow> bool" where
  "shouldReceiveOwnMessages loopback = loopback"

definition sc_initialize :: "can_open \<Rightarrow> string \<Rightarrow> 'h SocketCanController \<Rightarrow> bool \<times> 'h SocketCanController" where
  "sc_initialize answer device t =
     (let t1 = resetStats (sc_shutdown t)
      in if co_fd answer < 0 then (False, t1)
         else if \<not> co_nonBlocking answer then (False, t1)
         else if co_ifindex answer = 0 then (False, t1)
         else if \<not> co_bound answer then (False, t1)
         else (True, t1\<lparr>tb_socketFd := co_fd answer, tb_stopRequested := False, tb_receiveThread := True,
                 tb_device := device, tb_initialized := True\<rparr>))"

definition sc_isReady :: "'h SocketCanController \<Rightarrow> bool" where
  "sc_isReady t = tb_initialized t"

definition sc_device :: "'h SocketCanController \<Rightarrow> string" where
  "sc_device t = tb_device t"

section \<open>Frames of the kernel\<close>

record linux_can_frame =
  lf_can_id :: u32
  lf_can_dlc :: u8
  lf_data :: "u8 list"

definition CAN_EFF_FLAG :: u32 where "CAN_EFF_FLAG = 0x80000000"
definition CAN_RTR_FLAG :: u32 where "CAN_RTR_FLAG = 0x40000000"
definition CAN_EFF_MASK :: u32 where "CAN_EFF_MASK = 0x1FFFFFFF"

text \<open>The loops that copy the bytes up to the length into a zeroed array.\<close>

definition copy_bytes :: "u8 \<Rightarrow> u8 list \<Rightarrow> u8 list" where
  "copy_bytes dlc data = map (\<lambda>i. if i < unat dlc then data ! i else 0) [0..<8]"

definition toLinuxCanFrame :: "frame \<Rightarrow> linux_can_frame" where
  "toLinuxCanFrame f =
     (let id1 = (if fr_isExtended f then fr_id f OR CAN_EFF_FLAG else fr_id f);
          id2 = (if fr_isRemoteRequest f then id1 OR CAN_RTR_FLAG else id1);
          dlc = min (fr_dlc f) 8
      in \<lparr>lf_can_id = id2, lf_can_dlc = dlc, lf_data = copy_bytes dlc (fr_data f)\<rparr>)"

definition fromLinuxCanFrame :: "linux_can_frame \<Rightarrow> frame" where
  "fromLinuxCanFrame f =
     (let dlc = min (lf_can_dlc f) 8
      in \<lparr>fr_id = lf_can_id f AND CAN_EFF_MASK, fr_isExtended = (lf_can_id f AND CAN_EFF_FLAG \<noteq> 0),
          fr_isRemoteRequest = (lf_can_id f AND CAN_RTR_FLAG \<noteq> 0), fr_dlc = dlc, fr_data = copy_bytes dlc (lf_data f)\<rparr>)"

section \<open>Sending\<close>

text \<open>Linux error numbers; \<open>send\<close> returns a number of bytes, or fails with an error number.\<close>

definition EAGAIN :: int where "EAGAIN = 11"
definition EWOULDBLOCK :: int where "EWOULDBLOCK = 11"
definition ENOBUFS :: int where "ENOBUFS = 105"
definition ENETDOWN :: int where "ENETDOWN = 100"
definition ENODEV :: int where "ENODEV = 19"
definition ENXIO :: int where "ENXIO = 6"
definition EINTR :: int where "EINTR = 4"

datatype io_answer = Transferred nat | Failed int

definition isBackpressureSendError :: "int \<Rightarrow> bool" where
  "isBackpressureSendError errorCode \<longleftrightarrow> errorCode = EAGAIN \<or> errorCode = EWOULDBLOCK \<or> errorCode = ENOBUFS"

definition isLinkUnavailableSendError :: "int \<Rightarrow> bool" where
  "isLinkUnavailableSendError errorCode \<longleftrightarrow> errorCode = ENETDOWN \<or> errorCode = ENODEV \<or> errorCode = ENXIO"

definition count_stat :: "(Stats \<Rightarrow> Stats) \<Rightarrow> 'h SocketCanController \<Rightarrow> 'h SocketCanController" where
  "count_stat f t = t\<lparr>sc_stats := f (sc_stats t)\<rparr>"

text \<open>\<open>now\<close> is the time read when the link is found down; the frame handed to the kernel is part of the result.\<close>

definition sc_send ::
    "io_answer \<Rightarrow> time_ns \<Rightarrow> frame \<Rightarrow> 'h SocketCanController \<Rightarrow>
     SendResult \<times> linux_can_frame option \<times> 'h SocketCanController" where
  "sc_send answer now f t =
     (if \<not> tb_initialized t \<or> tb_socketFd t < 0 then (SendError, None, t)
      else let wire = Some (toLinuxCanFrame f)
      in case answer of
           Failed errorCode \<Rightarrow>
             if isBackpressureSendError errorCode
             then (SendBackpressure, wire, count_stat (\<lambda>s. s\<lparr>st_txBackpressure := st_txBackpressure s + 1\<rparr>) t)
             else if isLinkUnavailableSendError errorCode
             then (SendLinkDown, wire, count_stat (\<lambda>s. s\<lparr>st_txLinkUnavailable := st_txLinkUnavailable s + 1,
                     st_lastTxLinkUnavailableSteadyNs := now\<rparr>) t)
             else (SendError, wire, count_stat (\<lambda>s. s\<lparr>st_txError := st_txError s + 1\<rparr>) t)
         | Transferred written \<Rightarrow>
             if written \<noteq> 16 then (SendError, wire, count_stat (\<lambda>s. s\<lparr>st_txPartial := st_txPartial s + 1\<rparr>) t)
             else (SendOk, wire, count_stat (\<lambda>s. s\<lparr>st_txOk := st_txOk s + 1\<rparr>) t))"

section \<open>Receiving\<close>

text \<open>One round of the receive loop: what \<open>select\<close> and \<open>read\<close> answer; the frames delivered to the handlers.\<close>

datatype can_event = Select_failed int | Nothing_readable | Read_frame linux_can_frame | Read_failed int | Read_short nat

definition receive_round :: "can_event \<Rightarrow> time_ns \<Rightarrow> 'h SocketCanController \<Rightarrow> frame option \<times> 'h SocketCanController" where
  "receive_round ev now t =
     (if tb_stopRequested t \<or> tb_socketFd t < 0 then (None, t)
      else case ev of
        Select_failed errorCode \<Rightarrow> (None, t)
      | Nothing_readable \<Rightarrow> (None, t)
      | Read_frame f \<Rightarrow> (Some (fromLinuxCanFrame f),
          count_stat (\<lambda>s. s\<lparr>st_rxOk := st_rxOk s + 1, st_lastRxSteadyNs := now\<rparr>) t)
      | Read_failed errorCode \<Rightarrow>
          if errorCode = EAGAIN \<or> errorCode = EWOULDBLOCK \<or> errorCode = EINTR then (None, t)
          else (None, count_stat (\<lambda>s. s\<lparr>st_rxError := st_rxError s + 1\<rparr>) t)
      | Read_short n \<Rightarrow> (None, count_stat (\<lambda>s. s\<lparr>st_rxShortRead := st_rxShortRead s + 1\<rparr>) t))"


section \<open>Facts\<close>

lemma can_flags: "CAN_EFF_FLAG = push_bit 31 1" "CAN_RTR_FLAG = push_bit 30 1" "CAN_EFF_MASK = mask 29"
  by (simp_all add: CAN_EFF_FLAG_def CAN_RTR_FLAG_def CAN_EFF_MASK_def mask_eq_exp_minus_1)

lemma bit_flags: "bit CAN_EFF_FLAG n \<longleftrightarrow> n = 31" "bit CAN_RTR_FLAG n \<longleftrightarrow> n = 30"
  unfolding can_flags by (auto simp only: bit_push_bit_iff bit_1_iff possible_bit_word) simp_all

lemma flag_bit: "(w :: u32) AND push_bit k 1 \<noteq> 0 \<longleftrightarrow> k < 32 \<and> bit w k"
proof
  assume "w AND push_bit k 1 \<noteq> 0"
  then obtain n where "bit (w AND push_bit k 1) n" by (metis bit_eqI bit_0_eq bot_apply bot_bool_def)
  then show "k < 32 \<and> bit w k" by (auto simp: bit_simps)
next
  assume k: "k < 32 \<and> bit w k"
  then have "bit (w AND push_bit k 1) k" by (simp add: bit_simps)
  then show "w AND push_bit k 1 \<noteq> 0" by auto
qed

lemma small_bits: "unat (w :: u32) < 2 ^ 29 \<Longrightarrow> bit w n \<Longrightarrow> n < 29"
  by (metis bit_imp_le_length bit_take_bit_iff take_bit_nat_eq_self unsigned_take_bit_eq word_eq_iff_unsigned take_bit_word_eq_self)


lemma copy_bytes_nth: "i < 8 \<Longrightarrow> copy_bytes dlc data ! i = (if i < unat dlc then data ! i else 0)"
  by (simp add: copy_bytes_def)

lemma copy_bytes_twice: "copy_bytes dlc (copy_bytes dlc data) = copy_bytes dlc data"
  by (auto simp: copy_bytes_def)

lemma copy_bytes_same:
  assumes "length data = 8" and "\<And>i. unat dlc \<le> i \<Longrightarrow> i < 8 \<Longrightarrow> data ! i = 0"
  shows "copy_bytes dlc data = data"
  using assms by (intro nth_equalityI) (auto simp: copy_bytes_def)

lemma copy_bytes_wf:
  assumes "wf_frame f" and "list_all ((=) 0) (drop (unat (fr_dlc f)) (fr_data f))"
  shows "copy_bytes (fr_dlc f) (fr_data f) = fr_data f"
proof (rule copy_bytes_same)
  show "length (fr_data f) = 8" using assms(1) by (simp add: wf_frame_def)
  then have "fr_data f ! i = drop (unat (fr_dlc f)) (fr_data f) ! (i - unat (fr_dlc f))"
    and "i - unat (fr_dlc f) < length (drop (unat (fr_dlc f)) (fr_data f))" if "unat (fr_dlc f) \<le> i" "i < 8" for i
    using that by simp_all
  with assms(2) show "fr_data f ! i = 0" if "unat (fr_dlc f) \<le> i" "i < 8" for i
    using that unfolding list_all_length by metis
qed

text \<open>The handler table: identifiers are not reused as long as the transport is not shut down.\<close>

definition handlers_ok :: "('h, 'a) transport_base_scheme \<Rightarrow> bool" where
  "handlers_ok t \<longleftrightarrow> distinct (map fst (tb_handlers t)) \<and> (\<forall>e \<in> set (tb_handlers t). 0 < fst e \<and> fst e < tb_nextHandlerId t) \<and>
     0 < tb_nextHandlerId t"

lemma handlers_ok_add: "handlers_ok t \<Longrightarrow> handlers_ok (snd (addReceiveHandler h t))"
  by (fastforce simp: handlers_ok_def addReceiveHandler_def Let_def split: option.split)

lemma handlers_ok_remove: "handlers_ok t \<Longrightarrow> handlers_ok (removeReceiveHandler hid t)"
  by (auto simp: handlers_ok_def removeReceiveHandler_def distinct_map_filter)

lemma handlers_ok_shutdown: "handlers_ok (sc_shutdown t)"
  by (simp add: handlers_ok_def sc_shutdown_def resetStats_def)

section \<open>Properties\<close>

text \<open>
  A frame with an identifier of at most 29 bits, at most eight bytes and nothing behind them is read
  back unchanged from the frame the kernel was given, flags included.
\<close>

lemma linux_frame_roundtrip:
  assumes "unat (fr_id f) < 2 ^ 29" and "wf_frame f" and "list_all ((=) 0) (drop (unat (fr_dlc f)) (fr_data f))"
  shows "fromLinuxCanFrame (toLinuxCanFrame f) = f"
proof -
  let ?l = "toLinuxCanFrame f"
  have dlc: "min (fr_dlc f) 8 = fr_dlc f"
    using assms(2) by (simp add: wf_frame_def min_def word_le_nat_alt)
  have data: "copy_bytes (fr_dlc f) (fr_data f) = fr_data f" using assms(2,3) by (rule copy_bytes_wf)
  have bits: "bit (lf_can_id ?l) n \<longleftrightarrow> bit (fr_id f) n \<or> n = 31 \<and> fr_isExtended f \<or> n = 30 \<and> fr_isRemoteRequest f" for n
    by (auto simp: toLinuxCanFrame_def Let_def bit_or_iff bit_flags)
  have low: "bit (fr_id f) n \<Longrightarrow> n < 29" for n using small_bits [OF assms(1)] .
  have "lf_can_id ?l AND CAN_EFF_MASK = fr_id f"
    by (rule bit_word_eqI) (auto simp: bit_and_iff bits can_flags bit_mask_iff dest: low)
  moreover have "lf_can_id ?l AND CAN_EFF_FLAG \<noteq> 0 \<longleftrightarrow> fr_isExtended f"
    "lf_can_id ?l AND CAN_RTR_FLAG \<noteq> 0 \<longleftrightarrow> fr_isRemoteRequest f"
    unfolding can_flags flag_bit bits by (auto dest: low)
  ultimately show ?thesis
    by (simp add: fromLinuxCanFrame_def Let_def) (simp add: toLinuxCanFrame_def Let_def dlc data copy_bytes_twice)
qed

lemma linux_frame_roundtrip_witness:
  "fromLinuxCanFrame (toLinuxCanFrame \<lparr>fr_id = 0x141, fr_isExtended = False, fr_isRemoteRequest = False, fr_dlc = 2,
     fr_data = [0x9C, 7, 0, 0, 0, 0, 0, 0]\<rparr>) =
   \<lparr>fr_id = 0x141, fr_isExtended = False, fr_isRemoteRequest = False, fr_dlc = 2, fr_data = [0x9C, 7, 0, 0, 0, 0, 0, 0]\<rparr>"
  by (rule linux_frame_roundtrip) (simp_all add: wf_frame_def)

text \<open>
  While a transport is up, removing a handler under the identifier its registration returned
  removes that handler and no other; but a shutdown starts the identifiers again, so that an object
  registered before it, when it is destroyed after the transport was initialised again, removes the
  handler of the object that replaced it, and received frames are given to nobody.
\<close>

lemma handler_ids_reused:
  assumes "handlers_ok t" and "addReceiveHandler (Some h) t = (hid, t1)"
  shows "dispatchReceive (removeReceiveHandler hid t1) = dispatchReceive t \<and>
    (tb_handlers t = [] \<and> tb_nextHandlerId t = 1 \<and> sc_initialize answer dev t1 = (True, t2) \<and>
      addReceiveHandler (Some h') t2 = (hid', t3) \<longrightarrow>
      dispatchReceive t3 = [h'] \<and> dispatchReceive (removeReceiveHandler hid t3) = [])"
proof -
  have new: "tb_nextHandlerId t \<notin> fst ` set (tb_handlers t)" using assms(1) by (auto simp: handlers_ok_def)
  then have "hid \<notin> fst ` set (tb_handlers t)" "0 < hid" "t1 = t\<lparr>tb_nextHandlerId := hid + 1, tb_handlers := tb_handlers t @ [(hid, h)]\<rparr>"
    "hid = tb_nextHandlerId t"
    using assms by (auto simp: handlers_ok_def addReceiveHandler_def Let_def)
  moreover from this have "filter (\<lambda>e. fst e \<noteq> hid) (tb_handlers t) = tb_handlers t"
    by (intro filter_True) (metis imageI)
  ultimately show ?thesis
    by (auto simp: dispatchReceive_def removeReceiveHandler_def addReceiveHandler_def sc_initialize_def Let_def sc_shutdown_def
        resetStats_def split: if_splits)
qed

definition witness_open :: can_open where
  "witness_open = \<lparr>co_fd = 5, co_nonBlocking = True, co_ifindex = 3, co_bound = True\<rparr>"

lemma handler_ids_reused_witness:
  "let t1 = snd (addReceiveHandler (Some MT) new_SocketCanController);
       t3 = snd (addReceiveHandler (Some PP) (snd (sc_initialize witness_open ''can0'' t1)))
   in dispatchReceive t3 = [PP] \<and> dispatchReceive (removeReceiveHandler 1 t3) = []"
proof -
  let ?t = "new_SocketCanController :: CanType SocketCanController"
  let ?t1 = "snd (addReceiveHandler (Some MT) ?t)"
  let ?t2 = "snd (sc_initialize witness_open ''can0'' ?t1)"
  have "handlers_ok ?t" "tb_handlers ?t = []" "tb_nextHandlerId ?t = 1"
    by (simp_all add: handlers_ok_def new_SocketCanController_def)
  moreover have "addReceiveHandler (Some MT) ?t = (1, ?t1)" "sc_initialize witness_open ''can0'' ?t1 = (True, ?t2)"
    by (simp_all add: addReceiveHandler_def new_SocketCanController_def sc_initialize_def witness_open_def Let_def)
  ultimately show ?thesis
    using handler_ids_reused [of ?t MT 1 ?t1 witness_open "''can0''" ?t2 PP "fst (addReceiveHandler (Some PP) ?t2)"
        "snd (addReceiveHandler (Some PP) ?t2)"]
    by (simp add: Let_def)
qed

end
