(* ===== verification/Udp_Can_Transport.thy ===== *)
theory Udp_Can_Transport
  imports Socket_Can_Controller
begin

unbundle bit_operations_syntax

text \<open>
  \<open>UdpCanTransport.cpp\<close>: CAN frames in UDP datagrams.  The device specification is parsed as the
  code parses it; \<open>inet_pton\<close> and the answers of the socket calls are arguments.  Ports and
  addresses are numbers; the code compares them in network order, which is a bijection.
\<close>

section \<open>Device specifications\<close>

record EndpointConfig =
  ep_localIp :: string
  ep_localPort :: u16
  ep_remoteIp :: string
  ep_remotePort :: u16

definition is_digit :: "char \<Rightarrow> bool" where
  "is_digit c \<longleftrightarrow> 48 \<le> (of_char c :: nat) \<and> (of_char c :: nat) \<le> 57"

definition isAllDigits :: "string \<Rightarrow> bool" where
  "isAllDigits s \<longleftrightarrow> s \<noteq> [] \<and> list_all is_digit s"

text \<open>\<open>strtoul\<close> on a string of digits; what it saturates to is above every port.\<close>

definition digits_value :: "string \<Rightarrow> nat" where
  "digits_value s = foldl (\<lambda>n c. n * 10 + (of_char c - 48)) 0 s"

definition parsePort :: "string \<Rightarrow> u16 option" where
  "parsePort s =
     (if \<not> isAllDigits s then None
      else let raw = digits_value s
           in if raw = 0 \<or> 65535 < raw then None else Some (of_nat raw))"

text \<open>\<open>find\<close> and \<open>rfind\<close> of one character, as the parts before and behind it.\<close>

definition split_first :: "char \<Rightarrow> string \<Rightarrow> (string \<times> string) option" where
  "split_first c s = (if c \<in> set s then Some (takeWhile (\<lambda>x. x \<noteq> c) s, tl (dropWhile (\<lambda>x. x \<noteq> c) s)) else None)"

definition split_last :: "char \<Rightarrow> string \<Rightarrow> (string \<times> string) option" where
  "split_last c s = map_option (\<lambda>(a, b). (rev b, rev a)) (split_first c (rev s))"

definition udp_prefix :: string where
  "udp_prefix = ''udp://''"

definition parseDeviceSpec :: "string \<Rightarrow> string + EndpointConfig" where
  "parseDeviceSpec deviceSpec =
     (if take (length udp_prefix) deviceSpec \<noteq> udp_prefix then Inl ''device spec must start with udp://''
      else case split_first (CHR ''@'') (drop (length udp_prefix) deviceSpec) of
        None \<Rightarrow> Inl (''missing '' @ [CHR 39] @ ''@'' @ [CHR 39] @ '' in udp device spec'')
      | Some (localPart, remotePart) \<Rightarrow>
          if localPart = [] \<or> remotePart = [] then Inl ''invalid local/remote endpoint in udp device spec''
          else let (localIp, localPortStr) =
                     (case split_last (CHR '':'') localPart of
                        None \<Rightarrow> (''0.0.0.0'', localPart)
                      | Some (ip, port) \<Rightarrow> (if ip = [] then ''0.0.0.0'' else ip, port))
          in case split_last (CHR '':'') remotePart of
               None \<Rightarrow> Inl ''remote endpoint must be <ip>:<port>''
             | Some (remoteIp, remotePortStr) \<Rightarrow>
                 if remoteIp = [] then Inl ''remote ip is empty''
                 else case parsePort localPortStr of
                   None \<Rightarrow> Inl ''invalid local port''
                 | Some localPort \<Rightarrow>
                     (case parsePort remotePortStr of
                        None \<Rightarrow> Inl ''invalid remote port''
                      | Some remotePort \<Rightarrow>
                          Inr \<lparr>ep_localIp = localIp, ep_localPort = localPort, ep_remoteIp = remoteIp,
                               ep_remotePort = remotePort\<rparr>))"

section \<open>State\<close>

type_synonym address = "u32 \<times> u16"

record 'h UdpCanTransport = "'h transport_base" +
  uc_remoteAddr :: address

definition new_UdpCanTransport :: "'h UdpCanTransport" where
  "new_UdpCanTransport = \<lparr>tb_initialized = False, tb_stopRequested = False, tb_nextHandlerId = 1, tb_handlers = [],
     tb_receiveThread = False, tb_socketFd = - 1, tb_device = [], uc_remoteAddr = (0, 0)\<rparr>"

definition uc_shutdown :: "'h UdpCanTransport \<Rightarrow> 'h UdpCanTransport" where
  "uc_shutdown t = t\<lparr>tb_stopRequested := True, tb_initialized := False, tb_receiveThread := False, tb_socketFd := - 1,
     tb_handlers := [], tb_nextHandlerId := 1, tb_device := [], uc_remoteAddr := (0, 0)\<rparr>"

definition uc_initialize ::
    "(string \<Rightarrow> u32 option) \<Rightarrow> int \<Rightarrow> bool \<Rightarrow> string \<Rightarrow> 'h UdpCanTransport \<Rightarrow> bool \<times> 'h UdpCanTransport" where
  "uc_initialize inet_pton fd bound deviceSpec t =
     (let t1 = uc_shutdown t
      in case parseDeviceSpec deviceSpec of
           Inl errMsg \<Rightarrow> (False, t1)
         | Inr cfg \<Rightarrow>
             if fd < 0 then (False, t1)
             else if inet_pton (ep_localIp cfg) = None then (False, t1)
             else if \<not> bound then (False, t1)
             else case inet_pton (ep_remoteIp cfg) of
                    None \<Rightarrow> (False, t1)
                  | Some addr \<Rightarrow>
                      (True, t1\<lparr>tb_socketFd := fd, uc_remoteAddr := (addr, ep_remotePort cfg), tb_device := deviceSpec,
                          tb_stopRequested := False, tb_initialized := True, tb_receiveThread := True\<rparr>))"

definition uc_addReceiveHandler :: "'h option \<Rightarrow> 'h UdpCanTransport \<Rightarrow> nat \<times> 'h UdpCanTransport" where
  "uc_addReceiveHandler handler t = addReceiveHandler handler t"

definition uc_removeReceiveHandler :: "nat \<Rightarrow> 'h UdpCanTransport \<Rightarrow> 'h UdpCanTransport" where
  "uc_removeReceiveHandler handlerId t = removeReceiveHandler handlerId t"

definition uc_dispatchReceive :: "'h UdpCanTransport \<Rightarrow> 'h list" where
  "uc_dispatchReceive t = dispatchReceive t"

definition uc_isReady :: "'h UdpCanTransport \<Rightarrow> bool" where
  "uc_isReady t = tb_initialized t"

definition uc_device :: "'h UdpCanTransport \<Rightarrow> string" where
  "uc_device t = tb_device t"

section \<open>Datagrams\<close>

definition udp_packet :: "frame \<Rightarrow> u8 list" where
  "udp_packet f =
     (let dlc = min (fr_dlc f) 8
      in [dlc, 0, 0, ucast (drop_bit 8 (fr_id f) AND 0xFF), ucast (fr_id f AND 0xFF)] @ copy_bytes dlc (fr_data f))"

definition ENETUNREACH :: int where "ENETUNREACH = 101"

text \<open>
  A short datagram is not an error of the call: \<open>errno\<close> then still has the value \<open>errno\<close> had before,
  which is the second argument.
\<close>

definition uc_send :: "io_answer \<Rightarrow> int \<Rightarrow> frame \<Rightarrow> 'h UdpCanTransport \<Rightarrow> SendResult \<times> u8 list option" where
  "uc_send answer errnoBefore f t =
     (if \<not> tb_initialized t \<or> tb_socketFd t < 0 then (SendLinkDown, None)
      else let packet = udp_packet f;
               errno = (case answer of Transferred n \<Rightarrow> errnoBefore | Failed e \<Rightarrow> e)
           in if answer = Transferred (length packet) then (SendOk, Some packet)
              else if errno = EAGAIN \<or> errno = EWOULDBLOCK \<or> errno = ENOBUFS then (SendBackpressure, Some packet)
              else if errno = ENETDOWN \<or> errno = ENODEV \<or> errno = ENETUNREACH then (SendLinkDown, Some packet)
              else (SendError, Some packet))"

text \<open>
  A datagram as \<open>recvfrom\<close> reports it: the first 64 bytes of it, and the address of the sender
  when that is an IPv4 address.
\<close>

definition udp_frame :: "u8 list \<Rightarrow> frame option" where
  "udp_frame bytes =
     (let n = length bytes; rx = take 64 (bytes @ replicate 64 0); dlc = rx ! 0
      in if n < 5 then None
         else if 8 < dlc \<or> n < 5 + unat dlc then None
         else Some \<lparr>fr_id = push_bit 8 (ucast (rx ! 3)) OR ucast (rx ! 4), fr_isExtended = False, fr_isRemoteRequest = False,
                fr_dlc = dlc, fr_data = map (\<lambda>i. if i < unat dlc then rx ! (5 + i) else 0) [0..<8]\<rparr>)"

datatype udp_event = Udp_select_failed | Udp_nothing_readable | Udp_receive_failed | Datagram "u8 list" "address option"

definition uc_receive_round :: "udp_event \<Rightarrow> 'h UdpCanTransport \<Rightarrow> frame option" where
  "uc_receive_round ev t =
     (if tb_stopRequested t \<or> tb_socketFd t < 0 then None
      else case ev of
        Datagram bytes sender \<Rightarrow>
          if length bytes < 5 then None
          else if sender \<noteq> Some (uc_remoteAddr t) then None
          else udp_frame bytes
      | _ \<Rightarrow> None)"


section \<open>Facts\<close>

lemma mask16: "(0xFFFF :: 'a::len word) = mask 16"
  by (simp add: mask_eq_exp_minus_1)

lemma digit_char: "n < 10 \<Longrightarrow> is_digit (char_of (48 + n :: nat)) \<and> of_char (char_of (48 + n :: nat)) = 48 + n"
  by (simp add: is_digit_def)

lemma show_nat_digits: "list_all is_digit (show_nat n) \<and> digits_value (show_nat n) = n"
proof (induction n rule: show_nat.induct)
  case (1 n)
  show ?case
  proof (cases "n < 10")
    case True
    with digit_char [of n] show ?thesis by (simp add: show_nat.simps [of n] digits_value_def)
  next
    case False
    with "1.IH" digit_char [of "n mod 10"] show ?thesis
      by (simp add: show_nat.simps [of n] digits_value_def div_mult_mod_eq)
  qed
qed

lemma parsePort_show: "p \<noteq> 0 \<Longrightarrow> parsePort (show_nat (unat (p :: u16))) = Some p"
proof -
  assume "p \<noteq> 0"
  moreover have "unat p < 2 ^ LENGTH(16)" by (rule unsigned_less)
  ultimately show ?thesis
    using show_nat_digits [of "unat p"]
  by (auto simp: parsePort_def isAllDigits_def Let_def unat_eq_0)
qed

lemma show_nat_no_colon: "CHR '':'' \<notin> set (show_nat n)" and show_nat_no_at: "CHR ''@'' \<notin> set (show_nat n)"
proof -
  have "is_digit c" if "c \<in> set (show_nat n)" for c
    using that show_nat_digits [of n] by (simp add: list_all_iff)
  from this [of "CHR '':''"] this [of "CHR ''@''"]
  show "CHR '':'' \<notin> set (show_nat n)" "CHR ''@'' \<notin> set (show_nat n)" by (auto simp: is_digit_def)
qed

lemma split_first_append: "c \<notin> set a \<Longrightarrow> split_first c (a @ c # b) = Some (a, b)"
  by (simp add: split_first_def takeWhile_tail dropWhile_append)

lemma split_last_append: "c \<notin> set b \<Longrightarrow> split_last c (a @ c # b) = Some (a, b)"
  by (simp add: split_last_def split_first_append)

section \<open>Properties\<close>

text \<open>The specification of an endpoint pair, as the header documents its format.\<close>

definition device_spec :: "EndpointConfig \<Rightarrow> string" where
  "device_spec cfg = udp_prefix @ ep_localIp cfg @ CHR '':'' # show_nat (unat (ep_localPort cfg)) @
     CHR ''@'' # ep_remoteIp cfg @ CHR '':'' # show_nat (unat (ep_remotePort cfg))"

text \<open>
  A device specification printed in the documented format is parsed to the endpoints it was
  printed from, for every local address without an \<open>@\<close> and all ports but 0; without an address in
  front of the local port the local address is the wildcard.
\<close>

lemma device_spec_roundtrip:
  assumes "ep_localIp cfg \<noteq> []" and "CHR ''@'' \<notin> set (ep_localIp cfg)" and "ep_remoteIp cfg \<noteq> []"
    and "ep_localPort cfg \<noteq> 0" and "ep_remotePort cfg \<noteq> 0"
  shows "parseDeviceSpec (device_spec cfg) = Inr cfg \<and>
    parseDeviceSpec (device_spec (cfg\<lparr>ep_localIp := []\<rparr>)) = Inr (cfg\<lparr>ep_localIp := ''0.0.0.0''\<rparr>)"
proof -
  let ?l = "\<lambda>ip. ip @ CHR '':'' # show_nat (unat (ep_localPort cfg))"
  let ?r = "ep_remoteIp cfg @ CHR '':'' # show_nat (unat (ep_remotePort cfg))"
  have "split_first (CHR ''@'') (?l ip @ CHR ''@'' # ?r) = Some (?l ip, ?r)" if "CHR ''@'' \<notin> set ip" for ip
    by (rule split_first_append) (use that show_nat_no_at in simp)
  then have parse: "parseDeviceSpec (device_spec (cfg\<lparr>ep_localIp := ip\<rparr>)) =
      Inr (cfg\<lparr>ep_localIp := if ip = [] then ''0.0.0.0'' else ip\<rparr>)" if "CHR ''@'' \<notin> set ip" for ip
    using that assms(3-5)
    by (simp add: parseDeviceSpec_def device_spec_def split_last_append show_nat_no_colon parsePort_show)
  from this [of "ep_localIp cfg"] this [of "[]"] assms(1,2) show ?thesis by simp
qed

lemma device_spec_roundtrip_witness:
  "parseDeviceSpec (device_spec \<lparr>ep_localIp = ''10.0.0.1'', ep_localPort = 7101, ep_remoteIp = ''192.168.1.253'', ep_remotePort = 1031\<rparr>) =
   Inr \<lparr>ep_localIp = ''10.0.0.1'', ep_localPort = 7101, ep_remoteIp = ''192.168.1.253'', ep_remotePort = 1031\<rparr>"
  by (rule device_spec_roundtrip [THEN conjunct1]) simp_all

text \<open>
  The datagram of a frame is read back as the frame with the flags cleared and the identifier cut
  to its low 16 bits, so that every standard data frame survives the link unchanged.
\<close>

lemma udp_frame_roundtrip:
  assumes "wf_frame f" and "list_all ((=) 0) (drop (unat (fr_dlc f)) (fr_data f))"
  shows "udp_frame (udp_packet f) = Some (f\<lparr>fr_id := fr_id f AND 0xFFFF, fr_isExtended := False, fr_isRemoteRequest := False\<rparr>)"
proof -
  let ?dlc = "fr_dlc f"
  have dlc: "min ?dlc 8 = ?dlc" "unat ?dlc \<le> 8" "\<not> 8 < ?dlc"
    using assms(1) by (auto simp: wf_frame_def min_def word_le_nat_alt word_less_nat_alt)
  have data: "copy_bytes ?dlc (fr_data f) = fr_data f" using assms by (rule copy_bytes_wf)
  let ?p = "udp_packet f"
  have len: "length ?p = 13" using assms(1) by (simp add: udp_packet_def Let_def data dlc wf_frame_def)
  have rx: "(?p @ replicate 64 0) ! i = ?p ! i" if "i < 13" for i
    using that len by (simp add: nth_append)
  have p: "?p ! 0 = ?dlc" "?p ! 3 = ucast (drop_bit 8 (fr_id f) AND 0xFF)" "?p ! 4 = ucast (fr_id f AND 0xFF)"
    by (simp_all add: udp_packet_def Let_def dlc)
  have pd: "?p ! (5 + i) = fr_data f ! i" for i
    by (simp add: udp_packet_def Let_def dlc data nth_append)
  have "map (\<lambda>i. if i < unat ?dlc then take 64 (?p @ replicate 64 0) ! (5 + i) else 0) [0..<8] = copy_bytes ?dlc (fr_data f)"
    by (simp add: copy_bytes_def rx pd del: take_append cong: map_cong)
  moreover have "push_bit 8 (ucast (ucast (drop_bit 8 (fr_id f) AND 0xFF) :: u8)) OR ucast (ucast (fr_id f AND 0xFF) :: u8) =
      fr_id f AND 0xFFFF"
    by (rule bit_word_eqI) (auto simp: bit_simps mask8 mask16)
  ultimately show ?thesis
    using dlc(2,3) by (simp add: udp_frame_def Let_def len rx p data del: take_append)
qed


lemma udp_frame_roundtrip_witness:
  "udp_frame (udp_packet \<lparr>fr_id = 0x141, fr_isExtended = False, fr_isRemoteRequest = False, fr_dlc = 1,
     fr_data = [0x9C, 0, 0, 0, 0, 0, 0, 0]\<rparr>) =
   Some \<lparr>fr_id = 0x141, fr_isExtended = False, fr_isRemoteRequest = False, fr_dlc = 1, fr_data = [0x9C, 0, 0, 0, 0, 0, 0, 0]\<rparr>"
  by (subst udp_frame_roundtrip) (simp_all add: wf_frame_def)

end
