(* ===== verification/Device_Manager.thy ===== *)
theory Device_Manager
  imports Device_Refresh Device_Runtime Udp_Can_Transport Lifecycle_Driver_Ops "HOL-Library.AList"
begin

text \<open>
  \<open>DeviceManager.cpp\<close>: the transports, dispatchers, protocol objects, refresh schedules and command
  locks of the devices.  An operation runs under the manager's lock and is one step.  Each
  \<open>std::map\<close> is an association list in the order of first insertion; every loop over a map treats
  its entries independently.  A command lock is its device name.  The answers of the kernel when a
  transport is opened are arguments, and so is the ECB protocol object, of which
  \<open>innfos_api\<close> in \<open>Innfos_Ecb_Correctness\<close> is the instance.

  All components share one store.  It is a member of the manager, put into a protocol object
  before a call and taken back from it afterwards; the copy in a dispatcher or protocol object that
  is not being called has no meaning.
\<close>

section \<open>State\<close>

text \<open>What an ECB protocol object of type \<open>'e\<close> offers; it too works on the shared store.\<close>

record 'e ecb_api =
  eb_new :: "string \<Rightarrow> 'e"
  eb_setRefreshRateHz :: "dbl \<Rightarrow> 'e \<Rightarrow> 'e"
  eb_initializeMotorRefresh :: "motor_id list \<Rightarrow> 'e \<Rightarrow> SharedDriverState \<Rightarrow> 'e \<times> SharedDriverState"
  eb_Enable :: "motor_id \<Rightarrow> 'e \<Rightarrow> SharedDriverState \<Rightarrow> outcome \<times> 'e \<times> SharedDriverState"
  eb_Disable :: "motor_id \<Rightarrow> 'e \<Rightarrow> SharedDriverState \<Rightarrow> outcome \<times> 'e \<times> SharedDriverState"
  eb_Stop :: "motor_id \<Rightarrow> 'e \<Rightarrow> SharedDriverState \<Rightarrow> outcome \<times> 'e \<times> SharedDriverState"
  eb_ResetFault :: "motor_id \<Rightarrow> 'e \<Rightarrow> SharedDriverState \<Rightarrow> outcome \<times> 'e \<times> SharedDriverState"
  eb_hasFault :: "motor_id \<Rightarrow> 'e \<Rightarrow> SharedDriverState \<Rightarrow> outcome \<times> 'e \<times> SharedDriverState"
  eb_isEnabled :: "motor_id \<Rightarrow> 'e \<Rightarrow> bool"

record 'e DeviceManager =
  m_transports :: "(string \<times> CanType SocketCanController) list"
  m_udpTransports :: "(string \<times> CanType UdpCanTransport) list"
  m_txDispatchers :: "(string \<times> DeviceRuntime) list"
  m_mtProtocols :: "(string \<times> mt_can) list"
  m_eyouProtocols :: "(string \<times> ey_can) list"
  m_damiaoProtocols :: "(string \<times> dm_can) list"
  m_ecbProtocols :: "(string \<times> 'e) list"
  m_ecbDevices :: "string list"
  m_deviceRefreshRuntimes :: "(string \<times> DeviceRefreshRuntime) list"
  m_sharedState :: SharedDriverState
  m_ppFastWriteEnabled :: bool
  m_refreshInterFrameGap :: time_ns
  m_controlInterFrameGapUs :: u32
  m_mtCommunicationTimeoutOnInitMs :: u32
  m_ppPositionDefaultVelocityRaw :: i32
  m_ppCspDefaultVelocityRaw :: i32
  m_refreshRateHz :: dbl
  m_deviceRefreshRateOverrides :: "string \<rightharpoonup> dbl"
  m_deviceCmdMutexes :: "string list"

definition new_DeviceManager :: "'e DeviceManager" where
  "new_DeviceManager = \<lparr>m_transports = [], m_udpTransports = [], m_txDispatchers = [], m_mtProtocols = [],
     m_eyouProtocols = [], m_damiaoProtocols = [], m_ecbProtocols = [], m_ecbDevices = [], m_deviceRefreshRuntimes = [],
     m_sharedState = empty_SharedDriverState, m_ppFastWriteEnabled = False, m_refreshInterFrameGap = 1000 * 1000,
     m_controlInterFrameGapUs = 0, m_mtCommunicationTimeoutOnInitMs = 0,
     m_ppPositionDefaultVelocityRaw = kDefaultPositionVelocityRaw, m_ppCspDefaultVelocityRaw = kDefaultPositionVelocityRaw,
     m_refreshRateHz = Fin 0, m_deviceRefreshRateOverrides = Map.empty, m_deviceCmdMutexes = []\<rparr>"

text \<open>What the kernel answers when the transport of a device is opened.\<close>

record open_env =
  oe_can :: "string \<Rightarrow> can_open"
  oe_inet_pton :: "string \<Rightarrow> u32 option"
  oe_udpFd :: "string \<Rightarrow> int"
  oe_udpBound :: "string \<Rightarrow> bool"

definition has :: "string \<Rightarrow> (string \<times> 'a) list \<Rightarrow> bool" where
  "has device entries \<longleftrightarrow> device \<in> fst ` set entries"

definition insert_name :: "string \<Rightarrow> string list \<Rightarrow> string list" where
  "insert_name device devices = (if device \<in> set devices then devices else devices @ [device])"

definition each :: "('a \<Rightarrow> 'a) \<Rightarrow> (string \<times> 'a) list \<Rightarrow> (string \<times> 'a) list" where
  "each f entries = map (\<lambda>e. (fst e, f (snd e))) entries"

section \<open>Transports\<close>

definition isUdpDevice :: "string \<Rightarrow> bool" where
  "isUdpDevice device \<longleftrightarrow> take 6 device = ''udp://''"

definition isEcbDevice :: "string \<Rightarrow> bool" where
  "isEcbDevice device \<longleftrightarrow> take 6 device = ''ecb://''"

text \<open>Whether \<open>getTransportBaseLocked\<close> finds a transport.\<close>

definition getTransportBaseLocked :: "string \<Rightarrow> 'e DeviceManager \<Rightarrow> bool" where
  "getTransportBaseLocked device m \<longleftrightarrow> has device (m_transports m) \<or> has device (m_udpTransports m)"

definition shutdownTransportLocked :: "string \<Rightarrow> 'e DeviceManager \<Rightarrow> bool \<times> 'e DeviceManager" where
  "shutdownTransportLocked device m =
     (if has device (m_transports m)
      then (True, m\<lparr>m_transports := AList.map_entry device sc_shutdown (m_transports m)\<rparr>)
      else if has device (m_udpTransports m)
      then (True, m\<lparr>m_udpTransports := AList.map_entry device uc_shutdown (m_udpTransports m)\<rparr>)
      else (False, m))"

text \<open>A new transport enters the map only when it could be initialised; an old one stays in any case.\<close>

definition initializeTransportLocked :: "open_env \<Rightarrow> string \<Rightarrow> 'e DeviceManager \<Rightarrow> bool \<times> 'e DeviceManager" where
  "initializeTransportLocked env device m =
     (if isUdpDevice device
      then (let open_udp = uc_initialize (oe_inet_pton env) (oe_udpFd env device) (oe_udpBound env device) device
            in case map_of (m_udpTransports m) device of
                 None \<Rightarrow> (case open_udp new_UdpCanTransport of
                            (ok, t) \<Rightarrow> if \<not> ok then (False, m)
                                       else (True, m\<lparr>m_udpTransports := AList.update device t (m_udpTransports m)\<rparr>))
               | Some old \<Rightarrow> (case open_udp old of
                                (ok, t) \<Rightarrow> (ok, m\<lparr>m_udpTransports := AList.update device t (m_udpTransports m)\<rparr>)))
      else (case map_of (m_transports m) device of
              None \<Rightarrow> (case sc_initialize (oe_can env device) device new_SocketCanController of
                         (ok, t) \<Rightarrow> if \<not> ok then (False, m)
                                    else (True, m\<lparr>m_transports := AList.update device t (m_transports m)\<rparr>))
            | Some old \<Rightarrow> (case sc_initialize (oe_can env device) device old of
                             (ok, t) \<Rightarrow> (ok, m\<lparr>m_transports := AList.update device t (m_transports m)\<rparr>))))"

text \<open>The statistics of a SocketCAN transport, zeros for any other.\<close>

definition socket_stats :: "string \<Rightarrow> 'e DeviceManager \<Rightarrow> Stats" where
  "socket_stats device m = (case map_of (m_transports m) device of None \<Rightarrow> default_Stats | Some t \<Rightarrow> snapshotStats t)"

definition note_health :: "bool \<Rightarrow> Stats \<Rightarrow> DeviceHealthState \<Rightarrow> DeviceHealthState" where
  "note_health ready stats h =
     h\<lparr>dh_transportReady := ready, dh_txBackpressure := st_txBackpressure stats,
       dh_txLinkUnavailable := st_txLinkUnavailable stats, dh_txError := st_txError stats, dh_rxError := st_rxError stats,
       dh_lastTxLinkUnavailableSteadyNs := st_lastTxLinkUnavailableSteadyNs stats, dh_lastRxSteadyNs := st_lastRxSteadyNs stats\<rparr>"

definition on_store :: "(SharedDriverState \<Rightarrow> SharedDriverState) \<Rightarrow> 'e DeviceManager \<Rightarrow> 'e DeviceManager" where
  "on_store f m = m\<lparr>m_sharedState := f (m_sharedState m)\<rparr>"

section \<open>Refresh rate\<close>

definition m_normalizeRefreshRateHz :: "dbl \<Rightarrow> dbl" where
  "m_normalizeRefreshRateHz hz = (if isfinite hz \<and> dlt (Fin 0) hz then hz else Fin 0)"

definition effectiveRefreshRateHzLocked :: "string \<Rightarrow> 'e DeviceManager \<Rightarrow> dbl" where
  "effectiveRefreshRateHzLocked device m =
     (case m_deviceRefreshRateOverrides m device of Some hz \<Rightarrow> hz | None \<Rightarrow> m_refreshRateHz m)"

definition notify_worker :: "DeviceRefreshRuntime \<Rightarrow> DeviceRefreshRuntime" where
  "notify_worker r = r\<lparr>dr_worker := map_option rw_notify (dr_worker r)\<rparr>"

definition applyRefreshRateLocked :: "'e ecb_api \<Rightarrow> string \<Rightarrow> dbl \<Rightarrow> 'e DeviceManager \<Rightarrow> 'e DeviceManager" where
  "applyRefreshRateLocked api device hz m =
     m\<lparr>m_mtProtocols := AList.map_entry device (mt_setRefreshRateHz hz) (m_mtProtocols m),
       m_eyouProtocols := AList.map_entry device (ey_setRefreshRateHz hz) (m_eyouProtocols m),
       m_damiaoProtocols := AList.map_entry device (dm_setRefreshRateHz hz) (m_damiaoProtocols m),
       m_ecbProtocols := AList.map_entry device (eb_setRefreshRateHz api hz) (m_ecbProtocols m),
       m_deviceRefreshRuntimes := AList.map_entry device
         (\<lambda>r. notify_worker (r\<lparr>dr_nextMtTick := 0, dr_nextPpTick := 0, dr_nextDmTick := 0\<rparr>)) (m_deviceRefreshRuntimes m)\<rparr>"

definition m_setRefreshRateHz :: "'e ecb_api \<Rightarrow> dbl \<Rightarrow> 'e DeviceManager \<Rightarrow> 'e DeviceManager" where
  "m_setRefreshRateHz api hz m =
     fold (\<lambda>device m. applyRefreshRateLocked api device (effectiveRefreshRateHzLocked device m) m)
       (m_deviceCmdMutexes m) (m\<lparr>m_refreshRateHz := m_normalizeRefreshRateHz hz\<rparr>)"

definition setDeviceRefreshRateHz :: "'e ecb_api \<Rightarrow> string \<Rightarrow> dbl \<Rightarrow> 'e DeviceManager \<Rightarrow> 'e DeviceManager" where
  "setDeviceRefreshRateHz api device hz m =
     (let normalizedHz = m_normalizeRefreshRateHz hz;
          m1 = m\<lparr>m_deviceRefreshRateOverrides := (m_deviceRefreshRateOverrides m)
                   (device := if dlt (Fin 0) normalizedHz then Some normalizedHz else None)\<rparr>
      in if device \<notin> set (m_deviceCmdMutexes m1) then m1
         else applyRefreshRateLocked api device (effectiveRefreshRateHzLocked device m1) m1)"

section \<open>Other settings\<close>

definition setRefreshInterFrameGapUs :: "u32 \<Rightarrow> 'e DeviceManager \<Rightarrow> 'e DeviceManager" where
  "setRefreshInterFrameGapUs gapUs m =
     (let gap = uint gapUs * 1000
      in m\<lparr>m_refreshInterFrameGap := gap,
           m_deviceRefreshRuntimes := each (\<lambda>r. notify_worker (r\<lparr>dr_interFrameGap := gap, dr_nextEligibleIssueTime := 0\<rparr>))
             (m_deviceRefreshRuntimes m)\<rparr>)"

definition m_setControlInterFrameGapUs :: "u32 \<Rightarrow> 'e DeviceManager \<Rightarrow> 'e DeviceManager" where
  "m_setControlInterFrameGapUs gapUs m =
     m\<lparr>m_controlInterFrameGapUs := gapUs,
       m_txDispatchers := each (setControlInterFrameGapUs gapUs) (m_txDispatchers m)\<rparr>"

definition setMtCommunicationTimeoutOnInitMs :: "u32 \<Rightarrow> 'e DeviceManager \<Rightarrow> 'e DeviceManager" where
  "setMtCommunicationTimeoutOnInitMs timeoutMs m =
     m\<lparr>m_mtCommunicationTimeoutOnInitMs := timeoutMs,
       m_mtProtocols := each (setCommunicationTimeoutOnInit timeoutMs) (m_mtProtocols m)\<rparr>"

definition setPpFastWriteEnabled :: "bool \<Rightarrow> 'e DeviceManager \<Rightarrow> 'e DeviceManager" where
  "setPpFastWriteEnabled enabled m =
     m\<lparr>m_ppFastWriteEnabled := enabled, m_eyouProtocols := each (setFastWriteEnabled enabled) (m_eyouProtocols m)\<rparr>"

definition setPpPositionDefaultVelocityRaw :: "i32 \<Rightarrow> 'e DeviceManager \<Rightarrow> 'e DeviceManager" where
  "setPpPositionDefaultVelocityRaw velocityRaw m =
     (if sint velocityRaw \<le> 0 then m
      else m\<lparr>m_ppPositionDefaultVelocityRaw := velocityRaw,
             m_eyouProtocols := each (setDefaultPositionVelocityRaw velocityRaw) (m_eyouProtocols m)\<rparr>)"

definition setPpCspDefaultVelocityRaw :: "i32 \<Rightarrow> 'e DeviceManager \<Rightarrow> 'e DeviceManager" where
  "setPpCspDefaultVelocityRaw velocityRaw m =
     (if sint velocityRaw \<le> 0 then m
      else m\<lparr>m_ppCspDefaultVelocityRaw := velocityRaw,
             m_eyouProtocols := each (setDefaultCspVelocityRaw velocityRaw) (m_eyouProtocols m)\<rparr>)"

definition setPpDefaultPositionVelocityRaw :: "i32 \<Rightarrow> 'e DeviceManager \<Rightarrow> 'e DeviceManager" where
  "setPpDefaultPositionVelocityRaw velocityRaw m =
     setPpCspDefaultVelocityRaw velocityRaw (setPpPositionDefaultVelocityRaw velocityRaw m)"


section \<open>Refresh schedules\<close>

definition syncDeviceRefreshRuntimeLocked :: "string \<Rightarrow> 'e DeviceManager \<Rightarrow> 'e DeviceManager" where
  "syncDeviceRefreshRuntimeLocked device m =
     (let r = (case map_of (m_deviceRefreshRuntimes m) device of None \<Rightarrow> default_refresh_runtime | Some r \<Rightarrow> r);
          r1 = r\<lparr>dr_deviceName := device, dr_mtProtocol := has device (m_mtProtocols m),
                 dr_ppProtocol := has device (m_eyouProtocols m), dr_dmProtocol := has device (m_damiaoProtocols m),
                 dr_interFrameGap := m_refreshInterFrameGap m,
                 dr_worker := (case dr_worker r of None \<Rightarrow> Some new_worker | Some wk \<Rightarrow> Some wk)\<rparr>
      in m\<lparr>m_deviceRefreshRuntimes := AList.update device r1 (m_deviceRefreshRuntimes m)\<rparr>)"

definition on_schedule :: "string \<Rightarrow> (DeviceRefreshRuntime \<Rightarrow> DeviceRefreshRuntime) \<Rightarrow> 'e DeviceManager \<Rightarrow> 'e DeviceManager" where
  "on_schedule device f m = m\<lparr>m_deviceRefreshRuntimes := AList.map_entry device f (m_deviceRefreshRuntimes m)\<rparr>"

definition anyActive :: "DeviceRefreshRuntime \<Rightarrow> bool" where
  "anyActive r \<longleftrightarrow> dr_mtActive r \<or> dr_ppActive r \<or> dr_dmActive r"

definition startDeviceRefreshWorkerLocked :: "string \<Rightarrow> 'e DeviceManager \<Rightarrow> 'e DeviceManager" where
  "startDeviceRefreshWorkerLocked device m =
     on_schedule device (\<lambda>r. if \<not> anyActive r then r
        else r\<lparr>dr_worker := map_option (rw_notify \<circ> rw_start) (dr_worker r)\<rparr>) m"

text \<open>\<open>stop\<close> joins the thread; that it does is \<open>refresh_worker_stops\<close>.\<close>

definition stopDeviceRefreshWorkerLocked :: "string \<Rightarrow> 'e DeviceManager \<Rightarrow> 'e DeviceManager" where
  "stopDeviceRefreshWorkerLocked device m =
     m\<lparr>m_deviceRefreshRuntimes := AList.delete device (m_deviceRefreshRuntimes m)\<rparr>"

definition stopAllDeviceRefreshWorkersLocked :: "'e DeviceManager \<Rightarrow> 'e DeviceManager" where
  "stopAllDeviceRefreshWorkersLocked m = m\<lparr>m_deviceRefreshRuntimes := []\<rparr>"

definition resetDeviceRuntimeLocked :: "string \<Rightarrow> 'e DeviceManager \<Rightarrow> 'e DeviceManager" where
  "resetDeviceRuntimeLocked device m =
     m\<lparr>m_mtProtocols := AList.delete device (m_mtProtocols m), m_eyouProtocols := AList.delete device (m_eyouProtocols m),
       m_damiaoProtocols := AList.delete device (m_damiaoProtocols m), m_ecbProtocols := AList.delete device (m_ecbProtocols m),
       m_txDispatchers := AList.delete device (m_txDispatchers m)\<rparr>"

section \<open>Shutting down\<close>

definition shutdownDeviceLocked :: "string \<Rightarrow> 'e DeviceManager \<Rightarrow> 'e DeviceManager" where
  "shutdownDeviceLocked device m =
     (let m1 = on_store (mutateDeviceHealth device (note_health False (socket_stats device m))) m;
          m2 = stopDeviceRefreshWorkerLocked device m1;
          m3 = (if getTransportBaseLocked device m then snd (shutdownTransportLocked device m2) else m2);
          m4 = resetDeviceRuntimeLocked device m3
      in m4\<lparr>m_transports := AList.delete device (m_transports m4), m_udpTransports := AList.delete device (m_udpTransports m4),
            m_ecbDevices := filter (\<lambda>d. d \<noteq> device) (m_ecbDevices m4),
            m_deviceCmdMutexes := filter (\<lambda>d. d \<noteq> device) (m_deviceCmdMutexes m4)\<rparr>)"

definition m_shutdownDevice :: "string \<Rightarrow> 'e DeviceManager \<Rightarrow> 'e DeviceManager" where
  "m_shutdownDevice device m = shutdownDeviceLocked device m"

definition m_shutdownAll :: "'e DeviceManager \<Rightarrow> 'e DeviceManager" where
  "m_shutdownAll m =
     (let devices = map fst (m_transports m) @ map fst (m_udpTransports m) @ m_ecbDevices m;
          m1 = stopAllDeviceRefreshWorkersLocked (fold shutdownDeviceLocked devices m)
      in m1\<lparr>m_mtProtocols := [], m_eyouProtocols := [], m_damiaoProtocols := [], m_ecbProtocols := [],
            m_txDispatchers := [], m_transports := [], m_udpTransports := [], m_ecbDevices := [], m_deviceCmdMutexes := []\<rparr>)"

section \<open>Creating transports and protocol objects\<close>

definition runtime_options :: "'e DeviceManager \<Rightarrow> Options" where
  "runtime_options m = default_Options\<lparr>o_controlInterFrameGapUs := uint (m_controlInterFrameGapUs m)\<rparr>"

definition ensureTransport :: "open_env \<Rightarrow> string \<Rightarrow> 'e DeviceManager \<Rightarrow> bool \<times> 'e DeviceManager" where
  "ensureTransport env device m =
     (if isEcbDevice device
      then (True, m\<lparr>m_ecbDevices := insert_name device (m_ecbDevices m),
                    m_deviceCmdMutexes := insert_name device (m_deviceCmdMutexes m)\<rparr>)
      else if getTransportBaseLocked device m then (True, m)
      else case initializeTransportLocked env device m of (ok, m1) \<Rightarrow>
        if \<not> ok then (False, m1)
        else let d = setSharedDriverState (Some (m_sharedState m1)) (new_runtime True device (runtime_options m1));
                 m2 = m1\<lparr>m_txDispatchers := AList.update device d (m_txDispatchers m1)\<rparr>;
                 m3 = on_store (mutateDeviceHealth device (note_health True (socket_stats device m2))) m2
             in (True, m3\<lparr>m_deviceCmdMutexes := insert_name device (m_deviceCmdMutexes m3)\<rparr>))"

text \<open>
  The construction of a protocol object with the settings in force.  The constructor registers
  the object's receive handler with the transport, of whichever kind.
\<close>

definition add_handler :: "string \<Rightarrow> CanType \<Rightarrow> 'e DeviceManager \<Rightarrow> 'e DeviceManager" where
  "add_handler device h m =
     (if has device (m_transports m)
      then m\<lparr>m_transports := AList.map_entry device (\<lambda>t. snd (addReceiveHandler (Some h) t)) (m_transports m)\<rparr>
      else m\<lparr>m_udpTransports := AList.map_entry device (\<lambda>t. snd (uc_addReceiveHandler (Some h) t)) (m_udpTransports m)\<rparr>)"

definition create_mt :: "string \<Rightarrow> 'e DeviceManager \<Rightarrow> 'e DeviceManager" where
  "create_mt device m =
     (let mt = setCommunicationTimeoutOnInit (m_mtCommunicationTimeoutOnInitMs m)
                 (mt_setRefreshRateHz (effectiveRefreshRateHzLocked device m)
                   (new_MtCan True True (Some (m_sharedState m)) device))
      in (add_handler device MT m)\<lparr>m_mtProtocols := AList.update device mt (m_mtProtocols m)\<rparr>)"

definition create_eyou :: "string \<Rightarrow> 'e DeviceManager \<Rightarrow> 'e DeviceManager" where
  "create_eyou device m =
     (let eyou = setDefaultCspVelocityRaw (m_ppCspDefaultVelocityRaw m)
                   (setDefaultPositionVelocityRaw (m_ppPositionDefaultVelocityRaw m)
                     (setFastWriteEnabled (m_ppFastWriteEnabled m)
                       (ey_setRefreshRateHz (effectiveRefreshRateHzLocked device m)
                         (new_EyouCan True True (Some (m_sharedState m)) device))))
      in (add_handler device PP m)\<lparr>m_eyouProtocols := AList.update device eyou (m_eyouProtocols m)\<rparr>)"

definition create_damiao :: "string \<Rightarrow> 'e DeviceManager \<Rightarrow> 'e DeviceManager" where
  "create_damiao device m =
     (let damiao = dm_setRefreshRateHz (effectiveRefreshRateHzLocked device m)
                     (new_DamiaoCan True True (Some (m_sharedState m)) device)
      in (add_handler device DM m)\<lparr>m_damiaoProtocols := AList.update device damiao (m_damiaoProtocols m)\<rparr>)"

definition ensureProtocol :: "'e ecb_api \<Rightarrow> string \<Rightarrow> CanType \<Rightarrow> 'e DeviceManager \<Rightarrow> bool \<times> 'e DeviceManager" where
  "ensureProtocol api device type m =
     (if type = ECB
      then let m1 = (if has device (m_ecbProtocols m) then m
                     else m\<lparr>m_ecbProtocols := AList.update device
                            (eb_setRefreshRateHz api (effectiveRefreshRateHzLocked device m) (eb_new api device)) (m_ecbProtocols m)\<rparr>)
           in (True, m1\<lparr>m_ecbDevices := insert_name device (m_ecbDevices m1),
                        m_deviceCmdMutexes := insert_name device (m_deviceCmdMutexes m1)\<rparr>)
      else if \<not> getTransportBaseLocked device m then (False, m)
      else let m1 = (if has device (m_txDispatchers m) then m
                     else m\<lparr>m_txDispatchers := AList.update device (new_runtime True device (runtime_options m)) (m_txDispatchers m)\<rparr>)
           in (True, case type of
                 MT \<Rightarrow> if has device (m_mtProtocols m1) then m1 else create_mt device m1
               | PP \<Rightarrow> if has device (m_eyouProtocols m1) then m1 else create_eyou device m1
               | DM \<Rightarrow> if has device (m_damiaoProtocols m1) then m1 else create_damiao device m1
               | ECB \<Rightarrow> m1))"

section \<open>Calls on protocol objects\<close>

text \<open>A call puts the store into the object and takes it back.\<close>

definition call_on :: "('a proto_io_scheme \<Rightarrow> 'r \<times> 'a proto_io_scheme) \<Rightarrow> 'a proto_io_scheme \<Rightarrow> SharedDriverState \<Rightarrow>
    'r \<times> 'a proto_io_scheme \<times> SharedDriverState" where
  "call_on f p shared =
     (case f (p\<lparr>io_sharedState := Some shared\<rparr>) of
        (r, p1) \<Rightarrow> (r, p1, case io_sharedState p1 of None \<Rightarrow> shared | Some shared1 \<Rightarrow> shared1))"

definition on_mt :: "string \<Rightarrow> (mt_can \<Rightarrow> 'r \<times> mt_can) \<Rightarrow> 'e DeviceManager \<Rightarrow> 'r option \<times> 'e DeviceManager" where
  "on_mt device f m =
     (case map_of (m_mtProtocols m) device of
        None \<Rightarrow> (None, m)
      | Some p \<Rightarrow> (case call_on f p (m_sharedState m) of
          (r, p1, shared) \<Rightarrow> (Some r, m\<lparr>m_mtProtocols := AList.update device p1 (m_mtProtocols m), m_sharedState := shared\<rparr>)))"

definition on_eyou :: "string \<Rightarrow> (ey_can \<Rightarrow> 'r \<times> ey_can) \<Rightarrow> 'e DeviceManager \<Rightarrow> 'r option \<times> 'e DeviceManager" where
  "on_eyou device f m =
     (case map_of (m_eyouProtocols m) device of
        None \<Rightarrow> (None, m)
      | Some p \<Rightarrow> (case call_on f p (m_sharedState m) of
          (r, p1, shared) \<Rightarrow> (Some r, m\<lparr>m_eyouProtocols := AList.update device p1 (m_eyouProtocols m), m_sharedState := shared\<rparr>)))"

definition on_damiao :: "string \<Rightarrow> (dm_can \<Rightarrow> 'r \<times> dm_can) \<Rightarrow> 'e DeviceManager \<Rightarrow> 'r option \<times> 'e DeviceManager" where
  "on_damiao device f m =
     (case map_of (m_damiaoProtocols m) device of
        None \<Rightarrow> (None, m)
      | Some p \<Rightarrow> (case call_on f p (m_sharedState m) of
          (r, p1, shared) \<Rightarrow> (Some r, m\<lparr>m_damiaoProtocols := AList.update device p1 (m_damiaoProtocols m), m_sharedState := shared\<rparr>)))"

definition on_ecb ::
    "string \<Rightarrow> ('e \<Rightarrow> SharedDriverState \<Rightarrow> 'r \<times> 'e \<times> SharedDriverState) \<Rightarrow> 'e DeviceManager \<Rightarrow> 'r option \<times> 'e DeviceManager" where
  "on_ecb device f m =
     (case map_of (m_ecbProtocols m) device of
        None \<Rightarrow> (None, m)
      | Some p \<Rightarrow> (case f p (m_sharedState m) of
          (r, p1, shared) \<Rightarrow> (Some r, m\<lparr>m_ecbProtocols := AList.update device p1 (m_ecbProtocols m), m_sharedState := shared\<rparr>)))"


section \<open>Initialising a device\<close>

definition ids_of :: "CanType \<Rightarrow> (CanType \<times> motor_id) list \<Rightarrow> motor_id list" where
  "ids_of type motors = map snd (filter (\<lambda>e. fst e = type) motors)"

definition register_all :: "string \<Rightarrow> (CanType \<times> motor_id) list \<Rightarrow> 'e DeviceManager \<Rightarrow> 'e DeviceManager" where
  "register_all device motors m = fold (\<lambda>e. on_store (registerAxis (MakeAxisKey device (fst e) (snd e)))) motors m"

text \<open>The schedule of each family, with motors or without.\<close>

definition schedule_mt :: "string \<Rightarrow> motor_id list \<Rightarrow> 'e DeviceManager \<Rightarrow> 'e DeviceManager" where
  "schedule_mt device ids m =
     on_schedule device (\<lambda>r. r\<lparr>dr_mtActive := (ids \<noteq> []), dr_mtMotorIds := normalizeMtSystemMotorIds ids,
        dr_mtScheduleCycleCount := 0, dr_nextMtTick := 0\<rparr>)
       (if ids = [] then m else snd (on_mt device (\<lambda>p. ((), mt_initializeMotorRefresh ids p)) m))"

definition schedule_pp :: "string \<Rightarrow> motor_id list \<Rightarrow> 'e DeviceManager \<Rightarrow> 'e DeviceManager" where
  "schedule_pp device ids m =
     on_schedule device (\<lambda>r. r\<lparr>dr_ppActive := (ids \<noteq> []), dr_ppMotorIds := normalizeMotorIds ids PP,
        dr_ppScheduleStates := Map.empty, dr_ppScheduleCycleCount := 0, dr_nextPpTick := 0\<rparr>)
       (if ids = [] then m else snd (on_eyou device (\<lambda>p. ((), ey_initializeMotorRefresh ids p)) m))"

definition schedule_dm :: "string \<Rightarrow> motor_id list \<Rightarrow> 'e DeviceManager \<Rightarrow> 'e DeviceManager" where
  "schedule_dm device ids m =
     on_schedule device (\<lambda>r. r\<lparr>dr_dmActive := (ids \<noteq> []), dr_dmMotorIds := normalizeMotorIds ids DM,
        dr_dmScheduleStates := Map.empty, dr_nextDmTick := 0\<rparr>)
       (if ids = [] then m else snd (on_damiao device (\<lambda>p. ((), dm_initializeMotorRefresh ids p)) m))"

definition init_ecb :: "'e ecb_api \<Rightarrow> string \<Rightarrow> (CanType \<times> motor_id) list \<Rightarrow> 'e DeviceManager \<Rightarrow> 'e DeviceManager" where
  "init_ecb api device motors m =
     (let m1 = (if has device (m_ecbProtocols m) then m
                else m\<lparr>m_ecbProtocols := AList.update device (eb_new api device) (m_ecbProtocols m)\<rparr>);
          m2 = m1\<lparr>m_ecbProtocols := AList.map_entry device
                    (eb_setRefreshRateHz api (effectiveRefreshRateHzLocked device m1)) (m_ecbProtocols m1)\<rparr>;
          m3 = snd (on_ecb device (\<lambda>p shared. ((), eb_initializeMotorRefresh api (ids_of ECB motors) p shared)) m2);
          m4 = m3\<lparr>m_ecbDevices := insert_name device (m_ecbDevices m3),
                  m_deviceCmdMutexes := insert_name device (m_deviceCmdMutexes m3)\<rparr>
      in on_store (mutateDeviceHealth device (\<lambda>h. h\<lparr>dh_transportReady := True\<rparr>)) (register_all device motors m4))"

text \<open>What follows when the transport is open: the dispatcher, the axes, the protocol objects, the schedule.\<close>

definition populate_device :: "string \<Rightarrow> (CanType \<times> motor_id) list \<Rightarrow> 'e DeviceManager \<Rightarrow> 'e DeviceManager" where
  "populate_device device motors m =
     (let d = setSharedDriverState (Some (m_sharedState m)) (new_runtime True device (runtime_options m));
          m1 = m\<lparr>m_deviceCmdMutexes := insert_name device (m_deviceCmdMutexes m),
                 m_txDispatchers := AList.update device d (m_txDispatchers m)\<rparr>;
          m2 = on_store (mutateDeviceHealth device (note_health True (socket_stats device m1))) (register_all device motors m1);
          mtIds = ids_of MT motors; ppIds = ids_of PP motors; dmIds = ids_of DM motors;
          m3 = (if mtIds \<noteq> [] \<and> \<not> has device (m_mtProtocols m2) then create_mt device m2 else m2);
          m4 = (if ppIds \<noteq> [] \<and> \<not> has device (m_eyouProtocols m3) then create_eyou device m3 else m3);
          m5 = (if dmIds \<noteq> [] \<and> \<not> has device (m_damiaoProtocols m4) then create_damiao device m4 else m4)
      in startDeviceRefreshWorkerLocked device
           (schedule_dm device dmIds (schedule_pp device ppIds (schedule_mt device mtIds
             (syncDeviceRefreshRuntimeLocked device m5)))))"

definition initDevice ::
    "'e ecb_api \<Rightarrow> open_env \<Rightarrow> string \<Rightarrow> (CanType \<times> motor_id) list \<Rightarrow> 'e DeviceManager \<Rightarrow> bool \<times> 'e DeviceManager" where
  "initDevice api env device motors m =
     (if ids_of ECB motors \<noteq> [] \<and> isEcbDevice device then (True, init_ecb api device motors m)
      else if \<not> getTransportBaseLocked device m
      then (case initializeTransportLocked env device m of (ok, m1) \<Rightarrow>
              if \<not> ok then (False, m1)
              else if \<not> getTransportBaseLocked device m1 then (False, m1)
              else (True, populate_device device motors m1))
      else let m1 = resetDeviceRuntimeLocked device
                      (snd (shutdownTransportLocked device (stopDeviceRefreshWorkerLocked device m)))
           in case initializeTransportLocked env device m1 of (ok, m2) \<Rightarrow>
              if \<not> ok then (False, shutdownDeviceLocked device m2)
              else if \<not> getTransportBaseLocked device m2 then (False, m2)
              else (True, populate_device device motors m2))"

section \<open>Changing the refreshed motors\<close>

definition settle_worker :: "string \<Rightarrow> 'e DeviceManager \<Rightarrow> 'e DeviceManager" where
  "settle_worker device m =
     (case map_of (m_deviceRefreshRuntimes m) device of
        None \<Rightarrow> m
      | Some r \<Rightarrow> if anyActive r then startDeviceRefreshWorkerLocked device m else stopDeviceRefreshWorkerLocked device m)"

definition startRefresh :: "'e ecb_api \<Rightarrow> string \<Rightarrow> CanType \<Rightarrow> motor_id list \<Rightarrow> 'e DeviceManager \<Rightarrow> 'e DeviceManager" where
  "startRefresh api device type ids m =
     (case type of
        MT \<Rightarrow>
          if \<not> has device (m_mtProtocols m) then m
          else settle_worker device (on_schedule device
            (\<lambda>r. let r1 = r\<lparr>dr_mtActive := (ids \<noteq> [])\<rparr>; normalizedIds = normalizeMtSystemMotorIds ids
                 in (if dr_mtMotorIds r1 \<noteq> normalizedIds
                     then r1\<lparr>dr_mtMotorIds := normalizedIds, dr_mtScheduleCycleCount := 0\<rparr> else r1)\<lparr>dr_nextMtTick := 0\<rparr>)
            (syncDeviceRefreshRuntimeLocked device (snd (on_mt device (\<lambda>p. ((), mt_initializeMotorRefresh ids p)) m))))
      | PP \<Rightarrow>
          if \<not> has device (m_eyouProtocols m) then m
          else settle_worker device (on_schedule device
            (\<lambda>r. let r1 = r\<lparr>dr_ppActive := (ids \<noteq> [])\<rparr>; normalizedIds = normalizeMotorIds ids PP
                 in (if dr_ppMotorIds r1 \<noteq> normalizedIds
                     then r1\<lparr>dr_ppMotorIds := normalizedIds, dr_ppScheduleStates := Map.empty, dr_ppScheduleCycleCount := 0\<rparr>
                     else r1)\<lparr>dr_nextPpTick := 0\<rparr>)
            (syncDeviceRefreshRuntimeLocked device (snd (on_eyou device (\<lambda>p. ((), ey_initializeMotorRefresh ids p)) m))))
      | DM \<Rightarrow>
          if \<not> has device (m_damiaoProtocols m) then m
          else settle_worker device (on_schedule device
            (\<lambda>r. let r1 = r\<lparr>dr_dmActive := (ids \<noteq> [])\<rparr>; normalizedIds = normalizeMotorIds ids DM
                 in (if dr_dmMotorIds r1 \<noteq> normalizedIds
                     then r1\<lparr>dr_dmMotorIds := normalizedIds, dr_dmScheduleStates := Map.empty\<rparr> else r1)\<lparr>dr_nextDmTick := 0\<rparr>)
            (syncDeviceRefreshRuntimeLocked device (snd (on_damiao device (\<lambda>p. ((), dm_initializeMotorRefresh ids p)) m))))
      | ECB \<Rightarrow> snd (on_ecb device (\<lambda>p shared. ((), eb_initializeMotorRefresh api ids p shared)) m))"

section \<open>Looking things up\<close>

definition m_getProtocol :: "string \<Rightarrow> CanType \<Rightarrow> 'e DeviceManager \<Rightarrow> bool" where
  "m_getProtocol device type m =
     (case type of
        MT \<Rightarrow> has device (m_mtProtocols m)
      | PP \<Rightarrow> has device (m_eyouProtocols m)
      | DM \<Rightarrow> has device (m_damiaoProtocols m)
      | ECB \<Rightarrow> has device (m_ecbProtocols m))"

definition m_getDeviceMutex :: "string \<Rightarrow> 'e DeviceManager \<Rightarrow> bool" where
  "m_getDeviceMutex device m \<longleftrightarrow> device \<in> set (m_deviceCmdMutexes m)"

definition getTransport :: "string \<Rightarrow> 'e DeviceManager \<Rightarrow> CanType SocketCanController option" where
  "getTransport device m = map_of (m_transports m) device"

definition m_getSharedDriverState :: "'e DeviceManager \<Rightarrow> SharedDriverState option" where
  "m_getSharedDriverState m = Some (m_sharedState m)"

definition deviceCount :: "'e DeviceManager \<Rightarrow> nat" where
  "deviceCount m = length (m_transports m) + length (m_udpTransports m) + length (m_ecbDevices m)"

text \<open>A SocketCAN device whose last reception is older than its last failure to send is not ready.\<close>

definition m_isDeviceReady :: "string \<Rightarrow> 'e DeviceManager \<Rightarrow> bool \<times> 'e DeviceManager" where
  "m_isDeviceReady device m =
     (if isEcbDevice device then (has device (m_ecbProtocols m), m)
      else let (ready, stats) =
                 (case map_of (m_transports m) device of
                    Some t \<Rightarrow>
                      let stats = snapshotStats t;
                          linkRecovered = (st_lastTxLinkUnavailableSteadyNs stats = 0 \<or>
                                           st_lastTxLinkUnavailableSteadyNs stats < st_lastRxSteadyNs stats)
                      in (sc_isReady t \<and> linkRecovered, stats)
                  | None \<Rightarrow> (case map_of (m_udpTransports m) device of
                               Some t \<Rightarrow> (uc_isReady t, default_Stats)
                             | None \<Rightarrow> (False, default_Stats)))
           in (ready, on_store (mutateDeviceHealth device (note_health ready stats)) m))"

end
