(* ===== verification/Device_Manager_Correctness.thy ===== *)
theory Device_Manager_Correctness
  imports Device_Manager
begin

text \<open>
  What the device manager keeps true.  All it holds for one device is its \<open>view\<close>; every operation
  on a device changes the view of that device only, and the consistency of a view is what the
  invariant asks of every device.
\<close>

section \<open>Views\<close>

record 'e device_view =
  dv_can :: "CanType SocketCanController option"
  dv_udp :: "CanType UdpCanTransport option"
  dv_tx :: "DeviceRuntime option"
  dv_mt :: "mt_can option"
  dv_pp :: "ey_can option"
  dv_dm :: "dm_can option"
  dv_ecb :: "'e option"
  dv_refresh :: "DeviceRefreshRuntime option"
  dv_mutex :: bool
  dv_ecbDevice :: bool

definition view :: "string \<Rightarrow> 'e DeviceManager \<Rightarrow> 'e device_view" where
  "view d m = \<lparr>dv_can = map_of (m_transports m) d, dv_udp = map_of (m_udpTransports m) d,
     dv_tx = map_of (m_txDispatchers m) d, dv_mt = map_of (m_mtProtocols m) d, dv_pp = map_of (m_eyouProtocols m) d,
     dv_dm = map_of (m_damiaoProtocols m) d, dv_ecb = map_of (m_ecbProtocols m) d,
     dv_refresh = map_of (m_deviceRefreshRuntimes m) d, dv_mutex = (d \<in> set (m_deviceCmdMutexes m)),
     dv_ecbDevice = (d \<in> set (m_ecbDevices m))\<rparr>"

definition no_view :: "'e device_view" where
  "no_view = \<lparr>dv_can = None, dv_udp = None, dv_tx = None, dv_mt = None, dv_pp = None, dv_dm = None, dv_ecb = None,
     dv_refresh = None, dv_mutex = False, dv_ecbDevice = False\<rparr>"

lemma has_iff: "has d al \<longleftrightarrow> map_of al d \<noteq> None"
  by (simp add: has_def map_of_eq_None_iff)

lemma map_of_each: "map_of (each f al) d = map_option f (map_of al d)"
  by (induction al) (auto simp: each_def)

lemma set_insert_name [simp]: "set (insert_name d ds) = insert d (set ds)"
  by (auto simp: insert_name_def)

lemmas map_conv = AList.update_conv' AList.delete_conv' AList.map_of_map_entry map_of_each has_iff

definition elsewhere :: "string \<Rightarrow> 'e DeviceManager \<Rightarrow> 'e DeviceManager \<Rightarrow> bool" where
  "elsewhere d m m' \<longleftrightarrow> (\<forall>d'. d' \<noteq> d \<longrightarrow> view d' m' = view d' m)"

lemma elsewhere_refl [intro!]: "elsewhere d m m"
  by (simp add: elsewhere_def)

lemma elsewhere_trans [trans]: "elsewhere d m m1 \<Longrightarrow> elsewhere d m1 m2 \<Longrightarrow> elsewhere d m m2"
  by (simp add: elsewhere_def)

lemma view_on_store [simp]: "view d (on_store f m) = view d m"
  by (simp add: view_def on_store_def)

section \<open>What a consistent view is\<close>

text \<open>
  A schedule belongs to its device, has a worker, refreshes a family only when there is a
  protocol object it points to, and its worker only runs when some family is refreshed.
\<close>

definition schedule_ok :: "string \<Rightarrow> 'e device_view \<Rightarrow> DeviceRefreshRuntime \<Rightarrow> bool" where
  "schedule_ok d v r \<longleftrightarrow> dr_deviceName r = d \<and>
     (dr_mtActive r \<longrightarrow> dv_mt v \<noteq> None \<and> dr_mtProtocol r) \<and> (dr_ppActive r \<longrightarrow> dv_pp v \<noteq> None \<and> dr_ppProtocol r) \<and>
     (dr_dmActive r \<longrightarrow> dv_dm v \<noteq> None \<and> dr_dmProtocol r) \<and>
     (\<exists>wk. dr_worker r = Some wk \<and> (rw_running wk \<longrightarrow> anyActive r))"

text \<open>
  The receive handlers of the device's transport: one for each protocol object.
\<close>

definition table :: "'e device_view \<Rightarrow> ((nat \<times> CanType) list \<times> nat) option" where
  "table v = (case dv_can v of
     Some t \<Rightarrow> Some (tb_handlers t, tb_nextHandlerId t)
   | None \<Rightarrow> map_option (\<lambda>t. (tb_handlers t, tb_nextHandlerId t)) (dv_udp v))"

definition handlers :: "'e device_view \<Rightarrow> CanType list" where
  "handlers v = (case table v of None \<Rightarrow> [] | Some (hs, n) \<Rightarrow> map snd hs)"

fun made :: "'e device_view \<Rightarrow> CanType \<Rightarrow> bool" where
  "made v MT \<longleftrightarrow> dv_mt v \<noteq> None"
| "made v PP \<longleftrightarrow> dv_pp v \<noteq> None"
| "made v DM \<longleftrightarrow> dv_dm v \<noteq> None"
| "made v ECB \<longleftrightarrow> False"

definition routed :: "'e device_view \<Rightarrow> bool" where
  "routed v \<longleftrightarrow> distinct (handlers v) \<and> (\<forall>t. t \<in> set (handlers v) \<longleftrightarrow> made v t) \<and>
     (\<forall>hs n. table v = Some (hs, n) \<longrightarrow> distinct (map fst hs) \<and> (\<forall>e \<in> set hs. 0 < fst e \<and> fst e < n) \<and> 0 < n)"

lemma all_CanType: "(\<forall>t. P t) \<longleftrightarrow> P MT \<and> P PP \<and> P DM \<and> P ECB"
  by (metis CanType.exhaust)

lemma table_parts [simp]:
  "table (v\<lparr>dv_refresh := x\<rparr>) = table v" "table (v\<lparr>dv_mutex := b\<rparr>) = table v" "table (v\<lparr>dv_tx := y\<rparr>) = table v"
  "table (v\<lparr>dv_ecbDevice := b\<rparr>) = table v"  "table (v\<lparr>dv_mt := p\<rparr>) = table v" "table (v\<lparr>dv_pp := q\<rparr>) = table v"
  "table (v\<lparr>dv_dm := r\<rparr>) = table v" "table (v\<lparr>dv_ecb := e\<rparr>) = table v"
  by (simp_all add: table_def split: option.split)

lemma routed_parts [simp]:
  "routed (v\<lparr>dv_refresh := x\<rparr>) = routed v" "routed (v\<lparr>dv_mutex := b\<rparr>) = routed v"
  "routed (v\<lparr>dv_tx := y\<rparr>) = routed v" "routed (v\<lparr>dv_ecbDevice := b\<rparr>) = routed v"
  by (simp_all add: routed_def all_CanType handlers_def)

definition dv_open :: "'e device_view \<Rightarrow> bool" where
  "dv_open v \<longleftrightarrow> dv_can v \<noteq> None \<or> dv_udp v \<noteq> None"

definition view_ok :: "string \<Rightarrow> 'e device_view \<Rightarrow> bool" where
  "view_ok d v \<longleftrightarrow> (dv_can v \<noteq> None \<longrightarrow> \<not> isUdpDevice d) \<and> (dv_udp v \<noteq> None \<longrightarrow> isUdpDevice d) \<and>
     (dv_mt v \<noteq> None \<or> dv_pp v \<noteq> None \<or> dv_dm v \<noteq> None \<longrightarrow> dv_tx v \<noteq> None) \<and>
     (dv_tx v \<noteq> None \<or> dv_refresh v \<noteq> None \<longrightarrow> dv_open v) \<and>
     (dv_open v \<or> dv_ecb v \<noteq> None \<longrightarrow> dv_mutex v) \<and> routed v \<and>
     (\<forall>r. dv_refresh v = Some r \<longrightarrow> schedule_ok d v r)"

text \<open>The views of the operations.\<close>

lemma open_view: "getTransportBaseLocked d m \<longleftrightarrow> dv_open (view d m)"
  by (simp add: getTransportBaseLocked_def dv_open_def view_def has_iff)

lemma initialize_view:
  "initializeTransportLocked env d m = (ok, m1) \<Longrightarrow> elsewhere d m m1 \<and>
     (\<exists>can udp. view d m1 = view d m\<lparr>dv_can := can, dv_udp := udp\<rparr> \<and>
        (\<not> ok \<longrightarrow> (can = None \<longleftrightarrow> dv_can (view d m) = None) \<and> (udp = None \<longleftrightarrow> dv_udp (view d m) = None)) \<and>
        (ok \<longrightarrow> (if isUdpDevice d then udp \<noteq> None \<and> can = dv_can (view d m) else can \<noteq> None \<and> udp = dv_udp (view d m))))"
  by (fastforce simp: initializeTransportLocked_def Let_def elsewhere_def view_def map_conv
      split: if_splits option.splits prod.splits)

lemma open_no_handlers:
  "sc_initialize answer d t = (ok, t1) \<Longrightarrow> (tb_handlers t1, tb_nextHandlerId t1) = ([], 1)"
  "uc_initialize inet fd b d u = (ok, u1) \<Longrightarrow> (tb_handlers u1, tb_nextHandlerId u1) = ([], 1)"
  by (auto simp: sc_initialize_def uc_initialize_def sc_shutdown_def uc_shutdown_def resetStats_def Let_def
      split: if_splits option.splits sum.splits)

lemma initialize_table:
  assumes "initializeTransportLocked env d m = (ok, m1)"
  shows "ok \<Longrightarrow> isUdpDevice d \<longrightarrow> dv_can (view d m) = None \<Longrightarrow> table (view d m1) = Some ([], 1)"
    and "\<not> ok \<Longrightarrow> \<not> dv_open (view d m) \<Longrightarrow> m1 = m"
  using assms
  by (auto simp: initializeTransportLocked_def Let_def table_def view_def map_conv dv_open_def
      split: if_splits option.splits prod.splits dest!: open_no_handlers)

lemma routed_empty: "table v = Some ([], 1) \<Longrightarrow> (\<And>t. \<not> made v t) \<Longrightarrow> routed v"
  by (simp add: routed_def handlers_def)

lemma stop_view: "elsewhere d m (stopDeviceRefreshWorkerLocked d m)"
    "view d (stopDeviceRefreshWorkerLocked d m) = (view d m)\<lparr>dv_refresh := None\<rparr>"
  by (simp_all add: stopDeviceRefreshWorkerLocked_def elsewhere_def view_def map_conv)

lemma reset_view: "elsewhere d m (resetDeviceRuntimeLocked d m)"
    "view d (resetDeviceRuntimeLocked d m) = (view d m)\<lparr>dv_mt := None, dv_pp := None, dv_dm := None, dv_ecb := None, dv_tx := None\<rparr>"
  by (simp_all add: resetDeviceRuntimeLocked_def elsewhere_def view_def map_conv)

lemma shutdown_transport_view:
  "elsewhere d m (snd (shutdownTransportLocked d m))"
  "\<exists>can udp. view d (snd (shutdownTransportLocked d m)) = (view d m)\<lparr>dv_can := can, dv_udp := udp\<rparr> \<and>
     (can = None \<longleftrightarrow> dv_can (view d m) = None) \<and> (udp = None \<longleftrightarrow> dv_udp (view d m) = None)"
  by (auto simp: shutdownTransportLocked_def elsewhere_def view_def map_conv)

lemma shutdown_view: "elsewhere d m (shutdownDeviceLocked d m)" "view d (shutdownDeviceLocked d m) = no_view"
proof -
  let ?m1 = "stopDeviceRefreshWorkerLocked d (on_store (mutateDeviceHealth d (note_health False (socket_stats d m))) m)"
  let ?m2 = "if getTransportBaseLocked d m then snd (shutdownTransportLocked d ?m1) else ?m1"
  have "elsewhere d m ?m1" by (simp add: elsewhere_def stopDeviceRefreshWorkerLocked_def view_def map_conv on_store_def)
  then have e: "elsewhere d m (resetDeviceRuntimeLocked d ?m2)"
    using shutdown_transport_view(1) [of d ?m1] reset_view(1) [of d ?m2] by (auto intro: elsewhere_trans split: if_splits)
  then show "elsewhere d m (shutdownDeviceLocked d m)"
    by (simp add: shutdownDeviceLocked_def Let_def elsewhere_def view_def map_conv)
  show "view d (shutdownDeviceLocked d m) = no_view"
    by (simp add: shutdownDeviceLocked_def Let_def view_def no_view_def map_conv resetDeviceRuntimeLocked_def
        stopDeviceRefreshWorkerLocked_def shutdownTransportLocked_def on_store_def)
qed


lemma on_schedule_view:
  "elsewhere d m (on_schedule d f m)"
  "view d (on_schedule d f m) = (view d m)\<lparr>dv_refresh := map_option f (dv_refresh (view d m))\<rparr>"
  by (simp_all add: on_schedule_def elsewhere_def view_def map_conv split: option.split)

lemma call_views:
  "elsewhere d m (snd (on_mt d f m))" "elsewhere d m (snd (on_eyou d g m))" "elsewhere d m (snd (on_damiao d h m))"
  "elsewhere d m (snd (on_ecb d k m))"
  by (simp_all add: on_mt_def on_eyou_def on_damiao_def on_ecb_def elsewhere_def view_def map_conv split: option.split prod.split)

text \<open>Two views of the same shape have the same parts and the same schedule.\<close>

definition same_parts :: "'e device_view \<Rightarrow> 'e device_view \<Rightarrow> bool" where
  "same_parts v v' \<longleftrightarrow> (dv_can v' = None \<longleftrightarrow> dv_can v = None) \<and> (dv_udp v' = None \<longleftrightarrow> dv_udp v = None) \<and>
     (dv_tx v' = None \<longleftrightarrow> dv_tx v = None) \<and> (dv_mt v' = None \<longleftrightarrow> dv_mt v = None) \<and> (dv_pp v' = None \<longleftrightarrow> dv_pp v = None) \<and>
     (dv_dm v' = None \<longleftrightarrow> dv_dm v = None) \<and> (dv_ecb v' = None \<longleftrightarrow> dv_ecb v = None) \<and> dv_mutex v' = dv_mutex v \<and>
     dv_refresh v' = dv_refresh v"

definition same_shape :: "'e device_view \<Rightarrow> 'e device_view \<Rightarrow> bool" where
  "same_shape v v' \<longleftrightarrow> same_parts v v' \<and> table v' = table v"

lemma same_shape_refl [simp]: "same_shape v v"
  by (simp add: same_shape_def same_parts_def)

lemma same_shape_trans [trans]: "same_shape v v1 \<Longrightarrow> same_shape v1 v2 \<Longrightarrow> same_shape v v2"
  by (auto simp: same_shape_def same_parts_def)

lemma same_shape_ok: "same_shape v v' \<Longrightarrow> view_ok d v' = view_ok d v"
  by (simp add: same_shape_def same_parts_def view_ok_def schedule_ok_def dv_open_def routed_def handlers_def all_CanType)

lemma call_shapes:
  "same_shape (view d' m) (view d' (snd (on_mt d f m)))" "same_shape (view d' m) (view d' (snd (on_eyou d g m)))"
  "same_shape (view d' m) (view d' (snd (on_damiao d h m)))" "same_shape (view d' m) (view d' (snd (on_ecb d k m)))"
  by (simp_all add: on_mt_def on_eyou_def on_damiao_def on_ecb_def same_shape_def same_parts_def table_def view_def map_conv
      split: option.split prod.split)

definition with_handler :: "CanType \<Rightarrow> (nat \<times> CanType) list \<times> nat \<Rightarrow> (nat \<times> CanType) list \<times> nat" where
  "with_handler h = (\<lambda>(hs, n). (if n \<in> fst ` set hs then hs else hs @ [(n, h)], Suc n))"

lemma add_handler_view:
  "elsewhere d m (add_handler d h m)" "same_parts (view d m) (view d (add_handler d h m))"
  "table (view d (add_handler d h m)) = map_option (with_handler h) (table (view d m))"
  by (auto simp: add_handler_def elsewhere_def same_parts_def table_def dv_open_def view_def map_conv with_handler_def
      uc_addReceiveHandler_def addReceiveHandler_def Let_def split: option.split)

lemma create_views:
  "elsewhere d m (create_mt d m)" "same_parts ((view d m)\<lparr>dv_mt := Some p\<rparr>) (view d (create_mt d m))"
  "elsewhere d m (create_eyou d m)" "same_parts ((view d m)\<lparr>dv_pp := Some q\<rparr>) (view d (create_eyou d m))"
  "elsewhere d m (create_damiao d m)" "same_parts ((view d m)\<lparr>dv_dm := Some r\<rparr>) (view d (create_damiao d m))"
  by (simp_all add: create_mt_def create_eyou_def create_damiao_def add_handler_def elsewhere_def same_parts_def view_def
      map_conv uc_addReceiveHandler_def Let_def split: option.split)

lemma create_tables:
  "table (view d (create_mt d m)) = map_option (with_handler MT) (table (view d m))"
  "table (view d (create_eyou d m)) = map_option (with_handler PP) (table (view d m))"
  "table (view d (create_damiao d m)) = map_option (with_handler DM) (table (view d m))"
  unfolding add_handler_view(3) [symmetric]
  by (simp_all add: create_mt_def create_eyou_def create_damiao_def table_def view_def Let_def split: option.split)

text \<open>A new protocol object comes with its handler.\<close>

lemma routed_with:
  assumes "routed v" and "table v = Some tab" and "table v' = Some (with_handler h tab)" and "\<not> made v h"
    and "\<And>t. made v' t \<longleftrightarrow> t = h \<or> made v t"
  shows "routed v'"
proof -
  obtain hs n where tab: "tab = (hs, n)" by fastforce
  have ids: "n \<notin> fst ` set hs"
    using assms(1,2) tab by (fastforce simp: routed_def)
  then show ?thesis
    using assms unfolding routed_def handlers_def tab with_handler_def by (auto simp: less_Suc_eq)
qed

lemma create_routed:
  assumes "dv_open (view d m)" and "routed (view d m)"
  shows "dv_mt (view d m) = None \<Longrightarrow> routed (view d (create_mt d m))"
    and "dv_pp (view d m) = None \<Longrightarrow> routed (view d (create_eyou d m))"
    and "dv_dm (view d m) = None \<Longrightarrow> routed (view d (create_damiao d m))"
proof -
  have "table (view d m) \<noteq> None"
    using assms(1) by (auto simp: dv_open_def table_def split: option.split)
  then obtain tab where t: "table (view d m) = Some tab" by blast
  have m: "made v x \<longleftrightarrow> (case x of MT \<Rightarrow> dv_mt v \<noteq> None | PP \<Rightarrow> dv_pp v \<noteq> None | DM \<Rightarrow> dv_dm v \<noteq> None | ECB \<Rightarrow> False)"
    for v :: "'a device_view" and x by (cases x) simp_all
  show "routed (view d (create_mt d m))" if "dv_mt (view d m) = None"
    by (rule routed_with [OF assms(2) t, where h = MT])
      (use t that create_views(2) [where d = d and m = m] in \<open>auto simp: create_tables m same_parts_def split: CanType.splits\<close>)
  show "routed (view d (create_eyou d m))" if "dv_pp (view d m) = None"
    by (rule routed_with [OF assms(2) t, where h = PP])
      (use t that create_views(4) [where d = d and m = m] in \<open>auto simp: create_tables m same_parts_def split: CanType.splits\<close>)
  show "routed (view d (create_damiao d m))" if "dv_dm (view d m) = None"
    by (rule routed_with [OF assms(2) t, where h = DM])
      (use t that create_views(6) [where d = d and m = m] in \<open>auto simp: create_tables m same_parts_def split: CanType.splits\<close>)
qed

lemma register_view [simp]: "view d' (register_all d motors m) = view d' m"
  unfolding register_all_def by (induction motors arbitrary: m) simp_all

lemma sync_view:
  "elsewhere d m (syncDeviceRefreshRuntimeLocked d m)"
  "view d (syncDeviceRefreshRuntimeLocked d m) = (view d m)\<lparr>dv_refresh := Some
     ((case dv_refresh (view d m) of None \<Rightarrow> default_refresh_runtime | Some r \<Rightarrow> r)
       \<lparr>dr_deviceName := d, dr_mtProtocol := dv_mt (view d m) \<noteq> None, dr_ppProtocol := dv_pp (view d m) \<noteq> None,
        dr_dmProtocol := dv_dm (view d m) \<noteq> None, dr_interFrameGap := m_refreshInterFrameGap m,
        dr_worker := (case dr_worker (case dv_refresh (view d m) of None \<Rightarrow> default_refresh_runtime | Some r \<Rightarrow> r) of
            None \<Rightarrow> Some new_worker | Some wk \<Rightarrow> Some wk)\<rparr>)\<rparr>"
  by (simp_all add: syncDeviceRefreshRuntimeLocked_def Let_def elsewhere_def view_def map_conv)

section \<open>Every operation keeps views consistent\<close>

lemma schedule_ok_refresh [simp]: "schedule_ok d (v\<lparr>dv_refresh := x\<rparr>) r = schedule_ok d v r"
  by (simp add: schedule_ok_def)

lemma refresh_update_ok:
  assumes "view_ok d v" and "\<And>r. dv_refresh v = Some r \<Longrightarrow> schedule_ok d v r \<Longrightarrow> schedule_ok d v (f r)"
  shows "view_ok d (v\<lparr>dv_refresh := map_option f (dv_refresh v)\<rparr>)"
  using assms by (cases "dv_refresh v") (auto simp: view_ok_def dv_open_def)

lemma start_ok:
  assumes "view_ok d (view d m)"
  shows "view_ok d (view d (startDeviceRefreshWorkerLocked d m))"
  unfolding startDeviceRefreshWorkerLocked_def on_schedule_view(2)
  by (rule refresh_update_ok [OF assms]) (auto simp: schedule_ok_def anyActive_def rw_notify_def rw_start_def)

text \<open>
  Scheduling a family whose protocol object is there, on a schedule that points to it, with the
  worker not yet running.
\<close>

definition fresh_schedule :: "string \<Rightarrow> 'e device_view \<Rightarrow> bool" where
  "fresh_schedule d v \<longleftrightarrow> (\<exists>r wk. dv_refresh v = Some r \<and> dr_worker r = Some wk \<and> \<not> rw_running wk \<and> dr_deviceName r = d \<and>
     (dr_mtProtocol r \<longleftrightarrow> dv_mt v \<noteq> None) \<and> (dr_ppProtocol r \<longleftrightarrow> dv_pp v \<noteq> None) \<and> (dr_dmProtocol r \<longleftrightarrow> dv_dm v \<noteq> None))"

lemma fresh_shape: "same_shape v v' \<Longrightarrow> fresh_schedule d v' = fresh_schedule d v"
  by (simp add: same_shape_def same_parts_def fresh_schedule_def)

lemma schedule_family:
  assumes "fresh_schedule d v" and "view_ok d v"
    and "\<And>r. (dr_deviceName (f r), dr_worker (f r)) = (dr_deviceName r, dr_worker r) \<and>
      (dr_mtProtocol (f r), dr_ppProtocol (f r), dr_dmProtocol (f r)) = (dr_mtProtocol r, dr_ppProtocol r, dr_dmProtocol r)"
    and "\<And>r. (dr_mtActive (f r) \<longrightarrow> dr_mtActive r \<or> dv_mt v \<noteq> None) \<and> (dr_ppActive (f r) \<longrightarrow> dr_ppActive r \<or> dv_pp v \<noteq> None) \<and>
      (dr_dmActive (f r) \<longrightarrow> dr_dmActive r \<or> dv_dm v \<noteq> None)"
  shows "fresh_schedule d (v\<lparr>dv_refresh := map_option f (dv_refresh v)\<rparr>) \<and>
    view_ok d (v\<lparr>dv_refresh := map_option f (dv_refresh v)\<rparr>)"
proof -
  obtain r wk where r: "dv_refresh v = Some r" "dr_worker r = Some wk" "\<not> rw_running wk" "dr_deviceName r = d"
    "dr_mtProtocol r \<longleftrightarrow> dv_mt v \<noteq> None" "dr_ppProtocol r \<longleftrightarrow> dv_pp v \<noteq> None" "dr_dmProtocol r \<longleftrightarrow> dv_dm v \<noteq> None"
    using assms(1) unfolding fresh_schedule_def by blast
  have f: "dr_deviceName (f r) = d" "dr_worker (f r) = Some wk" "dr_mtProtocol (f r) \<longleftrightarrow> dv_mt v \<noteq> None"
    "dr_ppProtocol (f r) \<longleftrightarrow> dv_pp v \<noteq> None" "dr_dmProtocol (f r) \<longleftrightarrow> dv_dm v \<noteq> None"
    using assms(3) [of r] r by simp_all
  with r(1,3) have "fresh_schedule d (v\<lparr>dv_refresh := map_option f (dv_refresh v)\<rparr>)"
    by (simp add: fresh_schedule_def)
  moreover have "schedule_ok d v (f r)" if "schedule_ok d v r"
    using that assms(4) [of r] unfolding schedule_ok_def f using r(3) by blast
  moreover from this have "view_ok d (v\<lparr>dv_refresh := map_option f (dv_refresh v)\<rparr>)"
    using r(1) by (intro refresh_update_ok [OF assms(2)]) simp
  ultimately show ?thesis by blast
qed

lemma schedule_steps:
  assumes f: "fresh_schedule d (view d m)" and v: "view_ok d (view d m)"
  shows "ids \<noteq> [] \<longrightarrow> dv_mt (view d m) \<noteq> None \<Longrightarrow>
      fresh_schedule d (view d (schedule_mt d ids m)) \<and> view_ok d (view d (schedule_mt d ids m))"
    and "ids \<noteq> [] \<longrightarrow> dv_pp (view d m) \<noteq> None \<Longrightarrow>
      fresh_schedule d (view d (schedule_pp d ids m)) \<and> view_ok d (view d (schedule_pp d ids m))"
    and "ids \<noteq> [] \<longrightarrow> dv_dm (view d m) \<noteq> None \<Longrightarrow>
      fresh_schedule d (view d (schedule_dm d ids m)) \<and> view_ok d (view d (schedule_dm d ids m))"
proof -
  have shape: "fresh_schedule d (view d m') \<and> view_ok d (view d m')" if "same_shape (view d m) (view d m')" for m'
    using that f v fresh_shape same_shape_ok by blast
  have parts: "dv_mt (view d m') = None \<longleftrightarrow> dv_mt (view d m) = None" "dv_pp (view d m') = None \<longleftrightarrow> dv_pp (view d m) = None"
    "dv_dm (view d m') = None \<longleftrightarrow> dv_dm (view d m) = None" if "same_shape (view d m) (view d m')" for m'
    using that by (simp_all add: same_shape_def same_parts_def)
  let ?mt = "if ids = [] then m else snd (on_mt d (\<lambda>p. ((), mt_initializeMotorRefresh ids p)) m)"
  have s: "same_shape (view d m) (view d ?mt)" by (simp add: call_shapes(1))
  show "fresh_schedule d (view d (schedule_mt d ids m)) \<and> view_ok d (view d (schedule_mt d ids m))"
    if "ids \<noteq> [] \<longrightarrow> dv_mt (view d m) \<noteq> None"
    unfolding schedule_mt_def on_schedule_view(2)
    by (rule schedule_family) (use shape [OF s] parts [OF s] that in auto)
  let ?pp = "if ids = [] then m else snd (on_eyou d (\<lambda>p. ((), ey_initializeMotorRefresh ids p)) m)"
  have s: "same_shape (view d m) (view d ?pp)" by (simp add: call_shapes(2))
  show "fresh_schedule d (view d (schedule_pp d ids m)) \<and> view_ok d (view d (schedule_pp d ids m))"
    if "ids \<noteq> [] \<longrightarrow> dv_pp (view d m) \<noteq> None"
    unfolding schedule_pp_def on_schedule_view(2)
    by (rule schedule_family) (use shape [OF s] parts [OF s] that in auto)
  let ?dm = "if ids = [] then m else snd (on_damiao d (\<lambda>p. ((), dm_initializeMotorRefresh ids p)) m)"
  have s: "same_shape (view d m) (view d ?dm)" by (simp add: call_shapes(3))
  show "fresh_schedule d (view d (schedule_dm d ids m)) \<and> view_ok d (view d (schedule_dm d ids m))"
    if "ids \<noteq> [] \<longrightarrow> dv_dm (view d m) \<noteq> None"
    unfolding schedule_dm_def on_schedule_view(2)
    by (rule schedule_family) (use shape [OF s] parts [OF s] that in auto)
qed

lemma schedule_parts:
  "elsewhere d m (schedule_mt d ids m)" "elsewhere d m (schedule_pp d ids m)" "elsewhere d m (schedule_dm d ids m)"
  "dv_pp (view d (schedule_mt d ids m)) = dv_pp (view d m)" "dv_dm (view d (schedule_mt d ids m)) = dv_dm (view d m)"
  "dv_dm (view d (schedule_pp d ids m)) = dv_dm (view d m)"
  by (simp_all add: schedule_mt_def schedule_pp_def schedule_dm_def elsewhere_def on_schedule_def view_def map_conv
      on_mt_def on_eyou_def on_damiao_def split: option.split prod.split)


text \<open>The dispatcher and the protocol objects of the families that have motors.\<close>

lemma create_if_shape:
  "\<exists>p. same_parts ((view d m)\<lparr>dv_mt := p\<rparr>) (view d (if b \<and> \<not> has d (m_mtProtocols m) then create_mt d m else m)) \<and>
     (b \<longrightarrow> p \<noteq> None)"
  "\<exists>q. same_parts ((view d m)\<lparr>dv_pp := q\<rparr>) (view d (if b \<and> \<not> has d (m_eyouProtocols m) then create_eyou d m else m)) \<and>
     (b \<longrightarrow> q \<noteq> None)"
  "\<exists>r. same_parts ((view d m)\<lparr>dv_dm := r\<rparr>) (view d (if b \<and> \<not> has d (m_damiaoProtocols m) then create_damiao d m else m)) \<and>
     (b \<longrightarrow> r \<noteq> None)"
proof -
  show "\<exists>p. same_parts ((view d m)\<lparr>dv_mt := p\<rparr>) (view d (if b \<and> \<not> has d (m_mtProtocols m) then create_mt d m else m)) \<and>
      (b \<longrightarrow> p \<noteq> None)"
    by (rule exI [of _ "if b \<and> \<not> has d (m_mtProtocols m) then Some undefined else dv_mt (view d m)"])
      (use create_views(2) in \<open>auto simp: view_def has_iff same_parts_def\<close>)
  show "\<exists>q. same_parts ((view d m)\<lparr>dv_pp := q\<rparr>) (view d (if b \<and> \<not> has d (m_eyouProtocols m) then create_eyou d m else m)) \<and>
      (b \<longrightarrow> q \<noteq> None)"
    by (rule exI [of _ "if b \<and> \<not> has d (m_eyouProtocols m) then Some undefined else dv_pp (view d m)"])
      (use create_views(4) in \<open>auto simp: view_def has_iff same_parts_def\<close>)
  show "\<exists>r. same_parts ((view d m)\<lparr>dv_dm := r\<rparr>) (view d (if b \<and> \<not> has d (m_damiaoProtocols m) then create_damiao d m else m)) \<and>
      (b \<longrightarrow> r \<noteq> None)"
    by (rule exI [of _ "if b \<and> \<not> has d (m_damiaoProtocols m) then Some undefined else dv_dm (view d m)"])
      (use create_views(6) in \<open>auto simp: view_def has_iff same_parts_def\<close>)
qed

lemma create_if_routed:
  assumes "dv_open (view d m)" and "routed (view d m)"
  shows "routed (view d (if b \<and> \<not> has d (m_mtProtocols m) then create_mt d m else m))"
    and "routed (view d (if b \<and> \<not> has d (m_eyouProtocols m) then create_eyou d m else m))"
    and "routed (view d (if b \<and> \<not> has d (m_damiaoProtocols m) then create_damiao d m else m))"
  using create_routed [OF assms] assms(2) by (auto simp: has_iff view_def)

lemma create_if_elsewhere:
  "elsewhere d m (if b then create_mt d m else m)" "elsewhere d m (if b then create_eyou d m else m)"
  "elsewhere d m (if b then create_damiao d m else m)"
  by (simp_all add: create_views elsewhere_refl)

text \<open>Which protocol objects there are.\<close>

definition protocols_kept :: "string \<Rightarrow> 'e DeviceManager \<Rightarrow> 'e DeviceManager \<Rightarrow> bool" where
  "protocols_kept d m m' \<longleftrightarrow> (dv_mt (view d m') = None \<longleftrightarrow> dv_mt (view d m) = None) \<and>
     (dv_pp (view d m') = None \<longleftrightarrow> dv_pp (view d m) = None) \<and> (dv_dm (view d m') = None \<longleftrightarrow> dv_dm (view d m) = None)"

lemma protocols_kept_trans: "protocols_kept d m m1 \<Longrightarrow> protocols_kept d m1 m2 \<Longrightarrow> protocols_kept d m m2"
  by (simp add: protocols_kept_def)

lemma kept_sync: "protocols_kept d m (syncDeviceRefreshRuntimeLocked d m)"
  by (simp add: protocols_kept_def sync_view(2))

lemma kept_start: "protocols_kept d m (startDeviceRefreshWorkerLocked d m)"
  by (simp add: protocols_kept_def startDeviceRefreshWorkerLocked_def on_schedule_view(2))

lemma kept_schedule:
  "protocols_kept d m (schedule_mt d ids m)" "protocols_kept d m (schedule_pp d ids m)" "protocols_kept d m (schedule_dm d ids m)"
  using call_shapes(1) [of d m d "\<lambda>p. ((), mt_initializeMotorRefresh ids p)"]
    call_shapes(2) [of d m d "\<lambda>p. ((), ey_initializeMotorRefresh ids p)"]
    call_shapes(3) [of d m d "\<lambda>p. ((), dm_initializeMotorRefresh ids p)"]
  by (simp_all add: protocols_kept_def schedule_mt_def schedule_pp_def schedule_dm_def on_schedule_view(2) same_shape_def same_parts_def)

lemma populate_ok:
  assumes "dv_open (view d m)" and "dv_refresh (view d m) = None"
    and "(dv_can (view d m) \<noteq> None \<longrightarrow> \<not> isUdpDevice d) \<and> (dv_udp (view d m) \<noteq> None \<longrightarrow> isUdpDevice d)"
    and "routed (view d m)"
  shows "view_ok d (view d (populate_device d motors m))" and "elsewhere d m (populate_device d motors m)"
    and "ids_of MT motors \<noteq> [] \<longrightarrow> m_getProtocol d MT (populate_device d motors m)"
    and "ids_of PP motors \<noteq> [] \<longrightarrow> m_getProtocol d PP (populate_device d motors m)"
    and "ids_of DM motors \<noteq> [] \<longrightarrow> m_getProtocol d DM (populate_device d motors m)"
proof -
  define m1 where "m1 = m\<lparr>m_deviceCmdMutexes := insert_name d (m_deviceCmdMutexes m),
     m_txDispatchers := AList.update d (setSharedDriverState (Some (m_sharedState m)) (new_runtime True d (runtime_options m)))
       (m_txDispatchers m)\<rparr>"
  define m2 where "m2 = on_store (mutateDeviceHealth d (note_health True (socket_stats d m1))) (register_all d motors m1)"
  define m3 where "m3 = (if ids_of MT motors \<noteq> [] \<and> \<not> has d (m_mtProtocols m2) then create_mt d m2 else m2)"
  define m4 where "m4 = (if ids_of PP motors \<noteq> [] \<and> \<not> has d (m_eyouProtocols m3) then create_eyou d m3 else m3)"
  define m5 where "m5 = (if ids_of DM motors \<noteq> [] \<and> \<not> has d (m_damiaoProtocols m4) then create_damiao d m4 else m4)"
  define m6 where "m6 = syncDeviceRefreshRuntimeLocked d m5"
  define m7 where "m7 = schedule_mt d (ids_of MT motors) m6"
  define m8 where "m8 = schedule_pp d (ids_of PP motors) m7"
  define m9 where "m9 = schedule_dm d (ids_of DM motors) m8"
  have pop: "populate_device d motors m = startDeviceRefreshWorkerLocked d m9"
    by (simp add: populate_device_def Let_def m1_def m2_def m3_def m4_def m5_def m6_def m7_def m8_def m9_def)
  have e1: "elsewhere d m m1" by (simp add: m1_def elsewhere_def view_def map_conv)
  then have e2: "elsewhere d m m2" by (simp add: m2_def elsewhere_def)
  have e5: "elsewhere d m2 m5"
    using create_if_elsewhere unfolding m5_def m4_def m3_def by (blast intro: elsewhere_trans)
  have e9: "elsewhere d m5 m9"
    unfolding m9_def m8_def m7_def m6_def by (rule elsewhere_trans [OF sync_view(1) elsewhere_trans [OF schedule_parts(1)
        elsewhere_trans [OF schedule_parts(2) schedule_parts(3)]]])
  have e10: "elsewhere d m9 (populate_device d motors m)"
    unfolding pop startDeviceRefreshWorkerLocked_def by (rule on_schedule_view(1))
  show "elsewhere d m (populate_device d motors m)"
    using e2 e5 e9 e10 by (blast intro: elsewhere_trans)
  have v2: "dv_open (view d m2)" "dv_refresh (view d m2) = None" "dv_tx (view d m2) \<noteq> None" "dv_mutex (view d m2)"
    "(dv_can (view d m2) \<noteq> None \<longrightarrow> \<not> isUdpDevice d) \<and> (dv_udp (view d m2) \<noteq> None \<longrightarrow> isUdpDevice d)" "routed (view d m2)"
  proof -
    have "view d m2 = view d m1" by (simp add: m2_def)
    moreover obtain t where "view d m1 = (view d m)\<lparr>dv_tx := Some t, dv_mutex := True\<rparr>"
      by (simp add: m1_def view_def map_conv)
    ultimately show "dv_open (view d m2)" "dv_refresh (view d m2) = None" "dv_tx (view d m2) \<noteq> None" "dv_mutex (view d m2)"
      "(dv_can (view d m2) \<noteq> None \<longrightarrow> \<not> isUdpDevice d) \<and> (dv_udp (view d m2) \<noteq> None \<longrightarrow> isUdpDevice d)" "routed (view d m2)"
      using assms by (simp_all add: dv_open_def)
  qed
  obtain p where p: "same_parts ((view d m2)\<lparr>dv_mt := p\<rparr>) (view d m3)" "ids_of MT motors \<noteq> [] \<longrightarrow> p \<noteq> None"
    using create_if_shape(1) unfolding m3_def by blast
  obtain q where q: "same_parts ((view d m3)\<lparr>dv_pp := q\<rparr>) (view d m4)" "ids_of PP motors \<noteq> [] \<longrightarrow> q \<noteq> None"
    using create_if_shape(2) unfolding m4_def by blast
  obtain r where r: "same_parts ((view d m4)\<lparr>dv_dm := r\<rparr>) (view d m5)" "ids_of DM motors \<noteq> [] \<longrightarrow> r \<noteq> None"
    using create_if_shape(3) unfolding m5_def by blast
  have r5: "routed (view d m5)"
  proof -
    have "dv_open (view d m3)" "dv_open (view d m4)" using p(1) q(1) v2(1) by (auto simp: same_parts_def dv_open_def)
    with v2(1,6) show ?thesis unfolding m5_def m4_def m3_def by (intro create_if_routed)
  qed
  have v5: "dv_open (view d m5)" "dv_refresh (view d m5) = None" "dv_tx (view d m5) \<noteq> None" "dv_mutex (view d m5)"
    "(dv_can (view d m5) \<noteq> None \<longrightarrow> \<not> isUdpDevice d) \<and> (dv_udp (view d m5) \<noteq> None \<longrightarrow> isUdpDevice d)"
    "ids_of MT motors \<noteq> [] \<longrightarrow> dv_mt (view d m5) \<noteq> None" "ids_of PP motors \<noteq> [] \<longrightarrow> dv_pp (view d m5) \<noteq> None"
    "ids_of DM motors \<noteq> [] \<longrightarrow> dv_dm (view d m5) \<noteq> None"
    using p q r v2 by (simp_all add: same_parts_def dv_open_def)
  have "fresh_schedule d (view d m6)"
    using v5(2) by (simp add: m6_def sync_view(2) fresh_schedule_def default_refresh_runtime_def new_worker_def)
  moreover have "view_ok d (view d m6)"
    using v5 r5 by (simp add: m6_def sync_view(2) view_ok_def schedule_ok_def dv_open_def default_refresh_runtime_def new_worker_def)
  moreover have parts: "dv_mt (view d m6) = dv_mt (view d m5)" "dv_pp (view d m7) = dv_pp (view d m5)" "dv_dm (view d m8) = dv_dm (view d m5)"
    by (simp_all add: m6_def m7_def m8_def sync_view(2) schedule_parts)
  ultimately have v9: "view_ok d (view d m9)"
    using schedule_steps(1) [of d m6 "ids_of MT motors"] schedule_steps(2) [of d m7 "ids_of PP motors"]
      schedule_steps(3) [of d m8 "ids_of DM motors"] v5(6-8)
    unfolding m9_def m8_def m7_def by metis
  then show "view_ok d (view d (populate_device d motors m))" unfolding pop by (rule start_ok)
  have "protocols_kept d m5 (populate_device d motors m)"
    unfolding pop m9_def m8_def m7_def m6_def
    by (rule protocols_kept_trans [OF kept_sync protocols_kept_trans [OF kept_schedule(1)
        protocols_kept_trans [OF kept_schedule(2) protocols_kept_trans [OF kept_schedule(3) kept_start]]]])
  with v5(6-8) show "ids_of MT motors \<noteq> [] \<longrightarrow> m_getProtocol d MT (populate_device d motors m)"
    "ids_of PP motors \<noteq> [] \<longrightarrow> m_getProtocol d PP (populate_device d motors m)"
    "ids_of DM motors \<noteq> [] \<longrightarrow> m_getProtocol d DM (populate_device d motors m)"
    by (auto simp: protocols_kept_def m_getProtocol_def has_iff view_def)
qed


section \<open>The invariant\<close>

definition manager_inv :: "'e DeviceManager \<Rightarrow> bool" where
  "manager_inv m \<longleftrightarrow> (\<forall>d. view_ok d (view d m))"

text \<open>An operation on one device keeps the invariant when it leaves that device consistent.\<close>

lemma manager_inv_step:
  "manager_inv m \<Longrightarrow> elsewhere d m m' \<Longrightarrow> view_ok d (view d m') \<Longrightarrow> manager_inv m'"
  unfolding manager_inv_def elsewhere_def by metis

lemma no_view_ok [simp]: "view_ok d no_view"
  by (simp add: view_ok_def no_view_def dv_open_def routed_def handlers_def table_def all_CanType)

lemma manager_inv_same: "manager_inv m \<Longrightarrow> (\<And>d. same_shape (view d m) (view d m')) \<Longrightarrow> manager_inv m'"
  unfolding manager_inv_def using same_shape_ok by blast

lemma inv_shutdown: "manager_inv m \<Longrightarrow> manager_inv (shutdownDeviceLocked d m)"
  by (rule manager_inv_step [OF _ shutdown_view(1)]) (simp_all add: shutdown_view(2))

lemma inv_shutdownAll: "manager_inv m \<Longrightarrow> manager_inv (m_shutdownAll m)"
proof -
  have "view d (m_shutdownAll m) = no_view" for d
    by (simp add: m_shutdownAll_def Let_def view_def no_view_def stopAllDeviceRefreshWorkersLocked_def)
  then show ?thesis by (simp add: manager_inv_def)
qed

lemma named_ok: "view_ok d v \<Longrightarrow> view_ok d (v\<lparr>dv_mutex := True, dv_ecbDevice := True\<rparr>)"
  by (simp add: view_ok_def schedule_ok_def dv_open_def)

lemma inv_ensureTransport:
  assumes "manager_inv m"
  shows "manager_inv (snd (ensureTransport env d m))"
proof -
  have v: "view_ok d (view d m)" using assms by (simp add: manager_inv_def)
  obtain ok m1 where i: "initializeTransportLocked env d m = (ok, m1)" by fastforce
  note iv = initialize_view [OF i]
  show ?thesis
  proof (cases "isEcbDevice d \<or> getTransportBaseLocked d m")
    case True
    let ?m = "m\<lparr>m_ecbDevices := insert_name d (m_ecbDevices m), m_deviceCmdMutexes := insert_name d (m_deviceCmdMutexes m)\<rparr>"
    have "view d ?m = (view d m)\<lparr>dv_mutex := True, dv_ecbDevice := True\<rparr>" "elsewhere d m ?m"
      by (simp_all add: view_def elsewhere_def)
    moreover have "snd (ensureTransport env d m) = (if isEcbDevice d then ?m else m)"
      using True by (auto simp: ensureTransport_def)
    ultimately have "elsewhere d m (snd (ensureTransport env d m))" "view_ok d (view d (snd (ensureTransport env d m)))"
      using v named_ok [OF v] by (simp_all add: elsewhere_refl)
    then show ?thesis using assms manager_inv_step by blast
  next
    case False
    then have closed: "dv_can (view d m) = None" "dv_udp (view d m) = None" by (simp_all add: open_view dv_open_def)
    have gone: "dv_mt (view d m) = None" "dv_pp (view d m) = None" "dv_dm (view d m) = None"
      using closed v by (auto simp: view_ok_def dv_open_def)
    have r1: "routed (view d m1)" if ok
    proof (rule routed_empty [OF initialize_table(1) [OF i that]])
      show "\<not> made (view d m1) t" for t using iv gone by (cases t) auto
    qed (simp add: closed)
    let ?m = "snd (ensureTransport env d m)"
    have e: "elsewhere d m1 ?m"
      using False i by (auto simp: ensureTransport_def Let_def elsewhere_def view_def map_conv on_store_def)
    have "view_ok d (view d ?m)"
    proof (cases ok)
      case True
      obtain t where "view d ?m = (view d m1)\<lparr>dv_tx := Some t, dv_mutex := True\<rparr>"
        using False i True by (simp add: ensureTransport_def Let_def view_def map_conv on_store_def)
      then show ?thesis
        using iv True v closed r1 [OF True] by (auto simp: view_ok_def schedule_ok_def dv_open_def split: if_splits)
    next
      case ok: False
      then have "?m = m" using False i initialize_table(2) [OF i ok] by (simp add: ensureTransport_def open_view)
      then show ?thesis using v by simp
    qed
    with iv e assms show ?thesis using manager_inv_step elsewhere_trans by blast
  qed
qed

text \<open>An ECB device.\<close>

lemma init_ecb_view:
  "elsewhere d m (init_ecb api d motors m)"
  "view_ok d (view d m) \<Longrightarrow> view_ok d (view d (init_ecb api d motors m))"
proof -
  define m1 where "m1 = (if has d (m_ecbProtocols m) then m
                else m\<lparr>m_ecbProtocols := AList.update d (eb_new api d) (m_ecbProtocols m)\<rparr>)"
  define m2 where "m2 = m1\<lparr>m_ecbProtocols := AList.map_entry d
                    (eb_setRefreshRateHz api (effectiveRefreshRateHzLocked d m1)) (m_ecbProtocols m1)\<rparr>"
  define m3 where "m3 = snd (on_ecb d (\<lambda>p shared. ((), eb_initializeMotorRefresh api (ids_of ECB motors) p shared)) m2)"
  let ?m = "init_ecb api d motors m"
  have "view d' ?m = view d' (m3\<lparr>m_ecbDevices := insert_name d (m_ecbDevices m3),
      m_deviceCmdMutexes := insert_name d (m_deviceCmdMutexes m3)\<rparr>)" for d'
    by (simp add: init_ecb_def Let_def m1_def m2_def m3_def)
  then have v: "view d' ?m = (if d' = d then (view d' m3)\<lparr>dv_mutex := True, dv_ecbDevice := True\<rparr> else view d' m3)" for d'
    by (simp add: view_def)
  have "elsewhere d m m1" by (simp add: m1_def elsewhere_def view_def map_conv)
  moreover have "elsewhere d m1 m2" by (simp add: m2_def elsewhere_def view_def map_conv)
  moreover have "elsewhere d m2 m3" unfolding m3_def by (rule call_views(4))
  ultimately show "elsewhere d m ?m" using v by (simp add: elsewhere_def)
  have "same_shape (view d m2) (view d m3)" unfolding m3_def by (rule call_shapes(4))
  moreover have "same_shape ((view d m)\<lparr>dv_ecb := Some undefined\<rparr>) (view d m2)"
    by (auto simp: m2_def m1_def same_shape_def same_parts_def table_def view_def map_conv split: option.split)
  ultimately have shape: "same_shape ((view d m)\<lparr>dv_ecb := Some undefined\<rparr>) (view d m3)" by (rule same_shape_trans [rotated])
  assume "view_ok d (view d m)"
  with shape show "view_ok d (view d ?m)"
    unfolding v by (auto simp: view_ok_def same_shape_def same_parts_def schedule_ok_def dv_open_def routed_def handlers_def all_CanType)
qed

text \<open>The device before a transport is opened anew: nothing, or a closed transport without objects.\<close>

definition cleared :: "string \<Rightarrow> 'e DeviceManager \<Rightarrow> 'e DeviceManager" where
  "cleared d m = (if getTransportBaseLocked d m
     then resetDeviceRuntimeLocked d (snd (shutdownTransportLocked d (stopDeviceRefreshWorkerLocked d m))) else m)"

lemma cleared_view:
  assumes "view_ok d (view d m)"
  shows "elsewhere d m (cleared d m)" and "dv_refresh (view d (cleared d m)) = None"
    and "dv_open (view d (cleared d m)) = dv_open (view d m)"
    and "\<not> dv_open (view d m) \<Longrightarrow> cleared d m = m"
    and "dv_mt (view d (cleared d m)) = None" "dv_pp (view d (cleared d m)) = None" "dv_dm (view d (cleared d m)) = None"
    and "(dv_can (view d (cleared d m)) \<noteq> None \<longrightarrow> \<not> isUdpDevice d) \<and> (dv_udp (view d (cleared d m)) \<noteq> None \<longrightarrow> isUdpDevice d)"
proof -
  let ?m1 = "stopDeviceRefreshWorkerLocked d m"
  let ?m2 = "snd (shutdownTransportLocked d ?m1)"
  obtain can udp where t: "view d ?m2 = (view d ?m1)\<lparr>dv_can := can, dv_udp := udp\<rparr>"
    "can = None \<longleftrightarrow> dv_can (view d ?m1) = None" "udp = None \<longleftrightarrow> dv_udp (view d ?m1) = None"
    using shutdown_transport_view(2) by blast
  show "elsewhere d m (cleared d m)"
    unfolding cleared_def using elsewhere_trans [OF stop_view(1) elsewhere_trans [OF shutdown_transport_view(1) reset_view(1)]]
    by auto
  show "\<not> dv_open (view d m) \<Longrightarrow> cleared d m = m" by (simp add: cleared_def open_view)
  show "dv_refresh (view d (cleared d m)) = None"
    using assms t by (auto simp: cleared_def open_view reset_view(2) stop_view(2) view_ok_def)
  show "dv_mt (view d (cleared d m)) = None" "dv_pp (view d (cleared d m)) = None" "dv_dm (view d (cleared d m)) = None"
    using assms t by (auto simp: cleared_def open_view reset_view(2) stop_view(2) view_ok_def)
  show "dv_open (view d (cleared d m)) = dv_open (view d m)"
    using t by (auto simp: cleared_def open_view reset_view(2) stop_view(2) dv_open_def)
  show "(dv_can (view d (cleared d m)) \<noteq> None \<longrightarrow> \<not> isUdpDevice d) \<and> (dv_udp (view d (cleared d m)) \<noteq> None \<longrightarrow> isUdpDevice d)"
    using assms t by (auto simp: cleared_def open_view reset_view(2) stop_view(2) view_ok_def)
qed

lemma initDevice_cases:
  assumes "\<not> (ids_of ECB motors \<noteq> [] \<and> isEcbDevice d)" and "view_ok d (view d m)"
    and "initializeTransportLocked env d (cleared d m) = (ok, m2)"
  shows "initDevice api env d motors m =
    (if ok then (True, populate_device d motors m2)
     else (False, if dv_open (view d m) then shutdownDeviceLocked d m2 else m))"
proof -
  have "ok \<Longrightarrow> getTransportBaseLocked d m2"
    using initialize_view [OF assms(3)] by (auto simp: open_view dv_open_def split: if_splits)
  moreover have "m2 = m" if "\<not> ok" "\<not> dv_open (view d m)"
    using that cleared_view(3,4) [OF assms(2)] initialize_table(2) [OF assms(3)] by simp
  ultimately show ?thesis
    using assms(1,3) by (auto simp: initDevice_def cleared_def open_view)
qed

lemma inv_initDevice:
  assumes "manager_inv m"
  shows "manager_inv (snd (initDevice api env d motors m))"
    and "elsewhere d m (snd (initDevice api env d motors m))"
    and "\<not> fst (initDevice api env d motors m) \<Longrightarrow>
      view d (snd (initDevice api env d motors m)) = (if dv_open (view d m) then no_view else view d m)"
    and "fst (initDevice api env d motors m) \<Longrightarrow> \<not> (ids_of ECB motors \<noteq> [] \<and> isEcbDevice d) \<Longrightarrow>
      t \<in> {MT, PP, DM} \<Longrightarrow> ids_of t motors \<noteq> [] \<Longrightarrow> m_getProtocol d t (snd (initDevice api env d motors m))"
proof -
  let ?m = "snd (initDevice api env d motors m)"
  have v: "view_ok d (view d m)" using assms by (simp add: manager_inv_def)
  obtain ok m2 where i: "initializeTransportLocked env d (cleared d m) = (ok, m2)" by fastforce
  note iv = initialize_view [OF i] and cv = cleared_view [OF v]
  have pre: "dv_open (view d m2)" "dv_refresh (view d m2) = None"
    "(dv_can (view d m2) \<noteq> None \<longrightarrow> \<not> isUdpDevice d) \<and> (dv_udp (view d m2) \<noteq> None \<longrightarrow> isUdpDevice d)" if ok
    using iv cv that by (auto simp: dv_open_def split: if_splits)
  have r2: "routed (view d m2)" if ok
  proof (rule routed_empty [OF initialize_table(1) [OF i that]])
    show "\<not> made (view d m2) t" for t using iv cv by (cases t) auto
  qed (use cv in auto)
  have e2: "elsewhere d m m2" using iv cv(1) elsewhere_trans by blast
  have all: "elsewhere d m ?m \<and> view_ok d (view d ?m)"
  proof (cases "ids_of ECB motors \<noteq> [] \<and> isEcbDevice d")
    case True
    then have "?m = init_ecb api d motors m" by (simp add: initDevice_def)
    then show ?thesis using v by (simp add: init_ecb_view)
  next
    case False
    show ?thesis
    proof (cases ok)
      case True
      have "elsewhere d m2 (populate_device d motors m2)" "view_ok d (view d (populate_device d motors m2))"
        using populate_ok(1,2) [OF pre [OF True] r2 [OF True]] by blast+
      with e2 True show ?thesis by (auto simp: initDevice_cases [OF False v i] intro: elsewhere_trans)
    next
      case ok: False
      have "elsewhere d m (shutdownDeviceLocked d m2)" using e2 shutdown_view(1) elsewhere_trans by blast
      with v ok show ?thesis by (auto simp: initDevice_cases [OF False v i] shutdown_view(2))
    qed
  qed
  then show "elsewhere d m ?m" and "manager_inv ?m" using assms manager_inv_step by blast+
  show "view d ?m = (if dv_open (view d m) then no_view else view d m)" if "\<not> fst (initDevice api env d motors m)"
  proof (cases "ids_of ECB motors \<noteq> [] \<and> isEcbDevice d")
    case False
    then show ?thesis using that shutdown_view(2) by (auto simp: initDevice_cases [OF False v i] split: if_splits)
  qed (use that in \<open>simp add: initDevice_def\<close>)
  show "m_getProtocol d t ?m" if "fst (initDevice api env d motors m)" "\<not> (ids_of ECB motors \<noteq> [] \<and> isEcbDevice d)"
    "t \<in> {MT, PP, DM}" "ids_of t motors \<noteq> []"
    using that pre r2 populate_ok(3-5) [of d m2 motors] by (auto simp: initDevice_cases [OF that(2) v i] split: if_splits)
qed


section \<open>The other operations\<close>

text \<open>A change of a schedule that leaves its device, its families and whether its worker runs.\<close>

definition schedule_kept :: "DeviceRefreshRuntime \<Rightarrow> DeviceRefreshRuntime \<Rightarrow> bool" where
  "schedule_kept r r' \<longleftrightarrow> dr_deviceName r' = dr_deviceName r \<and>
     (dr_mtProtocol r', dr_ppProtocol r', dr_dmProtocol r') = (dr_mtProtocol r, dr_ppProtocol r, dr_dmProtocol r) \<and>
     (dr_mtActive r', dr_ppActive r', dr_dmActive r') = (dr_mtActive r, dr_ppActive r, dr_dmActive r) \<and>
     map_option rw_running (dr_worker r') = map_option rw_running (dr_worker r)"

lemma schedule_kept_refl [simp]: "schedule_kept r r"
  by (simp add: schedule_kept_def)

lemma same_schedule_kept: "same_schedule r r' \<Longrightarrow> schedule_kept r r'"
  by (simp add: same_schedule_def schedule_kept_def)

lemma schedule_kept_ok: "schedule_ok d v r \<Longrightarrow> schedule_kept r r' \<Longrightarrow> schedule_ok d v r'"
  by (cases "dr_worker r"; cases "dr_worker r'") (auto simp: schedule_ok_def schedule_kept_def anyActive_def)

lemma manager_inv_touch:
  assumes "manager_inv m"
    and "\<And>d. \<exists>f. (\<forall>r. schedule_kept r (f r)) \<and>
      same_shape ((view d m)\<lparr>dv_refresh := map_option f (dv_refresh (view d m))\<rparr>) (view d m')"
  shows "manager_inv m'"
  unfolding manager_inv_def
proof
  fix d
  obtain f where f: "\<And>r. schedule_kept r (f r)"
    "same_shape ((view d m)\<lparr>dv_refresh := map_option f (dv_refresh (view d m))\<rparr>) (view d m')"
    using assms(2) [of d] by blast
  have "view_ok d ((view d m)\<lparr>dv_refresh := map_option f (dv_refresh (view d m))\<rparr>)"
    using assms(1) f(1) by (intro refresh_update_ok) (auto simp: manager_inv_def intro: schedule_kept_ok)
  with same_shape_ok [OF f(2)] show "view_ok d (view d m')" by simp
qed

text \<open>Calls on protocol objects, changes of the store and of the dispatchers.\<close>

lemma inv_calls:
  assumes "manager_inv m"
  shows "manager_inv (snd (on_mt d f m))" and "manager_inv (snd (on_eyou d g m))" and "manager_inv (snd (on_damiao d h m))"
    and "manager_inv (snd (on_ecb d k m))" and "manager_inv (on_store u m)"
  using manager_inv_same [OF assms] call_shapes by (blast, blast, blast, blast, simp add: manager_inv_same [OF assms])

lemma view_rate:
  "view d (m\<lparr>m_refreshRateHz := x\<rparr>) = view d m" "view d (m\<lparr>m_deviceRefreshRateOverrides := y\<rparr>) = view d m"
  "view d (m\<lparr>m_refreshInterFrameGap := g\<rparr>) = view d m"
  by (simp_all add: view_def)

lemma inv_applyRefreshRate: "manager_inv m \<Longrightarrow> manager_inv (applyRefreshRateLocked api d hz m)"
proof (rule manager_inv_touch)
  fix d'
  let ?f = "\<lambda>r. if d' = d then notify_worker (r\<lparr>dr_nextMtTick := 0, dr_nextPpTick := 0, dr_nextDmTick := 0\<rparr>) else r"
  have "\<forall>r. schedule_kept r (?f r)"
    by (simp add: schedule_kept_def notify_worker_def rw_notify_def option.map_comp comp_def)
  moreover have "same_shape ((view d' m)\<lparr>dv_refresh := map_option ?f (dv_refresh (view d' m))\<rparr>)
      (view d' (applyRefreshRateLocked api d hz m))"
    by (simp add: applyRefreshRateLocked_def same_shape_def same_parts_def table_def view_def map_conv option.map_ident
        split: option.split)
  ultimately show "\<exists>f. (\<forall>r. schedule_kept r (f r)) \<and>
      same_shape ((view d' m)\<lparr>dv_refresh := map_option f (dv_refresh (view d' m))\<rparr>) (view d' (applyRefreshRateLocked api d hz m))"
    by (intro exI [of _ ?f] conjI)
qed

lemma inv_rates:
  assumes "manager_inv m"
  shows "manager_inv (m_setRefreshRateHz api hz m)" and "manager_inv (setDeviceRefreshRateHz api d hz m)"
proof -
  have "manager_inv m \<Longrightarrow> manager_inv (fold (\<lambda>d m. applyRefreshRateLocked api d (effectiveRefreshRateHzLocked d m) m) ds m)" for ds m
    by (induction ds arbitrary: m) (simp_all add: inv_applyRefreshRate)
  moreover have "manager_inv (m\<lparr>m_refreshRateHz := x\<rparr>)" "manager_inv (m\<lparr>m_deviceRefreshRateOverrides := y\<rparr>)" for x y
    using assms by (simp_all add: manager_inv_def view_rate)
  ultimately show "manager_inv (m_setRefreshRateHz api hz m)" "manager_inv (setDeviceRefreshRateHz api d hz m)"
    by (simp_all add: m_setRefreshRateHz_def setDeviceRefreshRateHz_def Let_def inv_applyRefreshRate)
qed

lemma inv_gap: "manager_inv m \<Longrightarrow> manager_inv (setRefreshInterFrameGapUs gap m)"
proof (rule manager_inv_touch)
  fix d
  let ?f = "\<lambda>r. notify_worker (r\<lparr>dr_interFrameGap := uint gap * 1000, dr_nextEligibleIssueTime := 0\<rparr>)"
  have "\<forall>r. schedule_kept r (?f r)"
    by (simp add: schedule_kept_def notify_worker_def rw_notify_def option.map_comp comp_def)
  moreover have "same_shape ((view d m)\<lparr>dv_refresh := map_option ?f (dv_refresh (view d m))\<rparr>)
      (view d (setRefreshInterFrameGapUs gap m))"
    by (simp add: setRefreshInterFrameGapUs_def same_shape_def same_parts_def table_def view_def map_conv Let_def split: option.split)
  ultimately show "\<exists>f. (\<forall>r. schedule_kept r (f r)) \<and>
      same_shape ((view d m)\<lparr>dv_refresh := map_option f (dv_refresh (view d m))\<rparr>) (view d (setRefreshInterFrameGapUs gap m))"
    by (intro exI [of _ ?f] conjI)
qed

lemma settings_shape:
  "same_shape (view d m) (view d (m_setControlInterFrameGapUs gap m))"
  "same_shape (view d m) (view d (setMtCommunicationTimeoutOnInitMs t m))"
  "same_shape (view d m) (view d (setPpFastWriteEnabled b m))"
  "same_shape (view d m) (view d (setPpPositionDefaultVelocityRaw vel m))"
  "same_shape (view d m) (view d (setPpCspDefaultVelocityRaw vel m))"
  by (simp_all add: m_setControlInterFrameGapUs_def setMtCommunicationTimeoutOnInitMs_def setPpFastWriteEnabled_def
      setPpPositionDefaultVelocityRaw_def setPpCspDefaultVelocityRaw_def same_shape_def same_parts_def table_def view_def map_conv
      split: option.split)

lemma inv_settings:
  assumes "manager_inv m"
  shows "manager_inv (m_setControlInterFrameGapUs gap m)" and "manager_inv (setMtCommunicationTimeoutOnInitMs t m)"
    and "manager_inv (setPpFastWriteEnabled b m)" and "manager_inv (setPpPositionDefaultVelocityRaw vel m)"
    and "manager_inv (setPpCspDefaultVelocityRaw vel m)" and "manager_inv (setPpDefaultPositionVelocityRaw vel m)"
    and "manager_inv (snd (m_isDeviceReady d m))"
proof -
  have keep: "manager_inv n \<Longrightarrow> (\<And>d. same_shape (view d n) (view d n')) \<Longrightarrow> manager_inv n'" for n n' :: "'a DeviceManager"
    by (rule manager_inv_same)
  show csp: "manager_inv (setPpCspDefaultVelocityRaw vel m)" and pos: "manager_inv (setPpPositionDefaultVelocityRaw vel m)"
    and "manager_inv (m_setControlInterFrameGapUs gap m)" and "manager_inv (setMtCommunicationTimeoutOnInitMs t m)"
    and "manager_inv (setPpFastWriteEnabled b m)"
    by (rule keep [OF assms], rule settings_shape)+
  show "manager_inv (setPpDefaultPositionVelocityRaw vel m)"
    unfolding setPpDefaultPositionVelocityRaw_def by (rule keep [OF pos], rule settings_shape)
  show "manager_inv (snd (m_isDeviceReady d m))"
    using assms by (simp add: m_isDeviceReady_def Let_def manager_inv_def split: option.split)
qed

text \<open>A protocol object made on demand.\<close>

lemma tx_shape: "view_ok d v \<Longrightarrow> dv_open v \<Longrightarrow> view_ok d (v\<lparr>dv_tx := Some t\<rparr>)"
  by (auto simp: view_ok_def schedule_ok_def dv_open_def)

lemma made_ok:
  assumes v: "view_ok d v" and o: "dv_open v" "dv_tx v \<noteq> None"
  shows "same_parts (v\<lparr>dv_mt := Some p\<rparr>) v' \<Longrightarrow> routed v' \<Longrightarrow> view_ok d v'"
    and "same_parts (v\<lparr>dv_pp := Some q\<rparr>) v' \<Longrightarrow> routed v' \<Longrightarrow> view_ok d v'"
    and "same_parts (v\<lparr>dv_dm := Some w\<rparr>) v' \<Longrightarrow> routed v' \<Longrightarrow> view_ok d v'"
  using v o by (simp_all add: view_ok_def same_parts_def schedule_ok_def dv_open_def del: not_None_eq)

lemma inv_ensureProtocol:
  assumes "manager_inv m"
  shows "manager_inv (snd (ensureProtocol api d t m))"
proof -
  have v: "view_ok d (view d m)" using assms by (simp add: manager_inv_def)
  let ?m = "snd (ensureProtocol api d t m)"
  have "elsewhere d m ?m \<and> view_ok d (view d ?m)"
  proof (cases "t = ECB")
    case True
    define m1 where "m1 = (if has d (m_ecbProtocols m) then m else m\<lparr>m_ecbProtocols := AList.update d
      (eb_setRefreshRateHz api (effectiveRefreshRateHzLocked d m) (eb_new api d)) (m_ecbProtocols m)\<rparr>)"
    have "?m = m1\<lparr>m_ecbDevices := insert_name d (m_ecbDevices m1), m_deviceCmdMutexes := insert_name d (m_deviceCmdMutexes m1)\<rparr>"
      using True by (simp add: ensureProtocol_def m1_def Let_def)
    then have m: "view d' ?m = (if d' = d then (view d' m1)\<lparr>dv_mutex := True, dv_ecbDevice := True\<rparr> else view d' m1)" for d'
      by (simp add: view_def)
    obtain e where "view d m1 = (view d m)\<lparr>dv_ecb := e\<rparr>" "elsewhere d m m1"
      by (cases "has d (m_ecbProtocols m)") (auto simp: m1_def view_def map_conv elsewhere_def)
    with v m show ?thesis
      by (simp add: elsewhere_def view_ok_def schedule_ok_def dv_open_def routed_def handlers_def all_CanType)
  next
    case False
    show ?thesis
    proof (cases "getTransportBaseLocked d m")
      case o: True
      define m1 where "m1 = (if has d (m_txDispatchers m) then m
        else m\<lparr>m_txDispatchers := AList.update d (new_runtime True d (runtime_options m)) (m_txDispatchers m)\<rparr>)"
      have m: "?m = (case t of
                 MT \<Rightarrow> if has d (m_mtProtocols m1) then m1 else create_mt d m1
               | PP \<Rightarrow> if has d (m_eyouProtocols m1) then m1 else create_eyou d m1
               | DM \<Rightarrow> if has d (m_damiaoProtocols m1) then m1 else create_damiao d m1
               | ECB \<Rightarrow> m1)"
        using False o by (simp add: ensureProtocol_def m1_def [symmetric] Let_def)
      obtain x where x: "view d m1 = (view d m)\<lparr>dv_tx := Some x\<rparr>" "elsewhere d m m1"
        by (cases "has d (m_txDispatchers m)") (auto simp: m1_def view_def map_conv elsewhere_def)
      have v1: "view_ok d (view d m1)" "dv_open (view d m1)" "dv_tx (view d m1) \<noteq> None" "routed (view d m1)"
        using v o tx_shape [OF v] by (simp_all add: x(1) open_view dv_open_def view_ok_def [of d "view d m"])
      have h: "has d (m_mtProtocols m1) \<longleftrightarrow> dv_mt (view d m1) \<noteq> None" "has d (m_eyouProtocols m1) \<longleftrightarrow> dv_pp (view d m1) \<noteq> None"
        "has d (m_damiaoProtocols m1) \<longleftrightarrow> dv_dm (view d m1) \<noteq> None"
        by (simp_all add: has_iff view_def)
      note made = made_ok [OF v1(1-3)] and routes = create_routed [OF v1(2,4)]
      have "view_ok d (view d ?m)"
        using False v1(1) made(1) [OF create_views(2) routes(1)] made(2) [OF create_views(4) routes(2)]
          made(3) [OF create_views(6) routes(3)]
        unfolding m by (cases t) (simp_all add: h)
      moreover have "elsewhere d m1 ?m"
        unfolding m by (simp add: elsewhere_refl create_views(1,3,5) split: CanType.split)
      ultimately show ?thesis using x(2) elsewhere_trans by blast
    qed (use False v in \<open>simp add: ensureProtocol_def elsewhere_refl\<close>)
  qed
  then show ?thesis using assms manager_inv_step by blast
qed

text \<open>A schedule whose worker may run without an active family; settling the worker mends that.\<close>

definition schedule_bound :: "string \<Rightarrow> 'e device_view \<Rightarrow> DeviceRefreshRuntime \<Rightarrow> bool" where
  "schedule_bound d v r \<longleftrightarrow> dr_deviceName r = d \<and> (dr_mtActive r \<longrightarrow> dv_mt v \<noteq> None \<and> dr_mtProtocol r) \<and>
     (dr_ppActive r \<longrightarrow> dv_pp v \<noteq> None \<and> dr_ppProtocol r) \<and> (dr_dmActive r \<longrightarrow> dv_dm v \<noteq> None \<and> dr_dmProtocol r) \<and>
     dr_worker r \<noteq> None"

lemma schedule_ok_bound:
  "schedule_ok d v r \<longleftrightarrow> schedule_bound d v r \<and> (\<forall>wk. dr_worker r = Some wk \<longrightarrow> rw_running wk \<longrightarrow> anyActive r)"
  by (auto simp: schedule_ok_def schedule_bound_def)

definition unsettled_ok :: "string \<Rightarrow> 'e device_view \<Rightarrow> bool" where
  "unsettled_ok d v \<longleftrightarrow> view_ok d (v\<lparr>dv_refresh := None\<rparr>) \<and> dv_open v \<and> (\<exists>r. dv_refresh v = Some r \<and> schedule_bound d v r)"

lemma settle_ok:
  assumes "unsettled_ok d (view d m)"
  shows "elsewhere d m (settle_worker d m)" and "view_ok d (view d (settle_worker d m))"
proof -
  obtain r where r: "dv_refresh (view d m) = Some r" "schedule_bound d (view d m) r"
    and v: "view_ok d ((view d m)\<lparr>dv_refresh := None\<rparr>)" "dv_open (view d m)"
    using assms by (auto simp: unsettled_ok_def)
  have m: "settle_worker d m = (if anyActive r then startDeviceRefreshWorkerLocked d m else stopDeviceRefreshWorkerLocked d m)"
    using r(1) by (simp add: settle_worker_def view_def)
  show "elsewhere d m (settle_worker d m)"
    by (simp add: m startDeviceRefreshWorkerLocked_def on_schedule_view(1) stop_view(1))
  have "view d (startDeviceRefreshWorkerLocked d m) = (view d m)\<lparr>dv_refresh := Some
      (if \<not> anyActive r then r else r\<lparr>dr_worker := map_option (rw_notify \<circ> rw_start) (dr_worker r)\<rparr>)\<rparr>"
    by (simp add: startDeviceRefreshWorkerLocked_def on_schedule_view(2) r(1))
  then show "view_ok d (view d (settle_worker d m))"
    using r(2) v by (auto simp: m stop_view(2) view_ok_def dv_open_def schedule_ok_def schedule_bound_def anyActive_def)
qed

lemma view_ok_schedule: "view_ok d v \<Longrightarrow> dv_refresh v = Some r \<Longrightarrow> schedule_ok d v r"
  by (simp add: view_ok_def)

lemma view_ok_drop: "view_ok d v \<Longrightarrow> view_ok d (v\<lparr>dv_refresh := None\<rparr>)"
  by (simp add: view_ok_def dv_open_def)

lemma sync_unsettled:
  assumes "view_ok d (view d m)" and "dv_open (view d m)"
  shows "unsettled_ok d (view d (syncDeviceRefreshRuntimeLocked d m))"
    and "\<And>r. dv_refresh (view d (syncDeviceRefreshRuntimeLocked d m)) = Some r \<Longrightarrow>
      (dr_mtProtocol r \<longleftrightarrow> dv_mt (view d m) \<noteq> None) \<and> (dr_ppProtocol r \<longleftrightarrow> dv_pp (view d m) \<noteq> None) \<and>
      (dr_dmProtocol r \<longleftrightarrow> dv_dm (view d m) \<noteq> None)"
proof -
  show "unsettled_ok d (view d (syncDeviceRefreshRuntimeLocked d m))"
    using assms view_ok_drop [OF assms(1)] view_ok_schedule [OF assms(1)]
    by (cases "dv_refresh (view d m)")
      (simp_all add: sync_view(2) unsettled_ok_def schedule_bound_def dv_open_def default_refresh_runtime_def schedule_ok_bound
        split: option.split)
qed (auto simp: sync_view(2))

lemma inv_startRefresh:
  assumes "manager_inv m"
  shows "manager_inv (startRefresh api d t ids m)"
proof -
  have v: "view_ok d (view d m)" using assms by (simp add: manager_inv_def)
  have settle: "manager_inv (settle_worker d (on_schedule d f (syncDeviceRefreshRuntimeLocked d m1)))"
    if m1: "same_shape (view d m) (view d m1)" "elsewhere d m m1" and o: "dv_open (view d m)"
      and f: "\<And>r. schedule_bound d (view d m1) r \<Longrightarrow> (dr_mtProtocol r \<longleftrightarrow> dv_mt (view d m1) \<noteq> None) \<and>
        (dr_ppProtocol r \<longleftrightarrow> dv_pp (view d m1) \<noteq> None) \<and> (dr_dmProtocol r \<longleftrightarrow> dv_dm (view d m1) \<noteq> None) \<Longrightarrow> schedule_bound d (view d m1) (f r)"
    for f m1
  proof -
    let ?m2 = "syncDeviceRefreshRuntimeLocked d m1"
    have o1: "view_ok d (view d m1)" "dv_open (view d m1)"
      using v o m1(1) same_shape_ok [OF m1(1)] by (auto simp: same_shape_def same_parts_def dv_open_def)
    note s = sync_unsettled [OF o1]
    obtain r where r: "dv_refresh (view d ?m2) = Some r" "schedule_bound d (view d ?m2) r" using s(1) by (auto simp: unsettled_ok_def)
    have b: "schedule_bound d (view d ?m2) x = schedule_bound d (view d m1) x" for x by (simp add: sync_view(2) schedule_bound_def)
    have "schedule_bound d (view d ?m2) (f r)" using f [of r] r(2) s(2) [OF r(1)] unfolding b by blast
    then have "unsettled_ok d (view d (on_schedule d f ?m2))"
      using s(1) r(1) by (simp add: on_schedule_view(2) unsettled_ok_def schedule_bound_def dv_open_def)
    from settle_ok [OF this] m1(2) sync_view(1) on_schedule_view(1) show ?thesis
      using assms manager_inv_step elsewhere_trans by metis
  qed
  have o: "dv_mt (view d m) \<noteq> None \<or> dv_pp (view d m) \<noteq> None \<or> dv_dm (view d m) \<noteq> None \<Longrightarrow> dv_open (view d m)"
    using v by (auto simp: view_ok_def)
  have h: "has d (m_mtProtocols m) \<longleftrightarrow> dv_mt (view d m) \<noteq> None" "has d (m_eyouProtocols m) \<longleftrightarrow> dv_pp (view d m) \<noteq> None"
    "has d (m_damiaoProtocols m) \<longleftrightarrow> dv_dm (view d m) \<noteq> None"
    by (simp_all add: has_iff view_def)
  have there: "dv_mt (view d m1) = None \<longleftrightarrow> dv_mt (view d m) = None" "dv_pp (view d m1) = None \<longleftrightarrow> dv_pp (view d m) = None"
    "dv_dm (view d m1) = None \<longleftrightarrow> dv_dm (view d m) = None" if "same_shape (view d m) (view d m1)" for m1
    using that by (simp_all add: same_shape_def same_parts_def)
  show ?thesis
  proof (cases t)
    case MT
    show ?thesis
    proof (cases "dv_mt (view d m) = None")
      case False
      show ?thesis
        unfolding startRefresh_def MT CanType.case h
        by (simp only: False simp_thms if_False)
          (rule settle [OF call_shapes(1) call_views(1)],
            use False o in \<open>simp_all add: schedule_bound_def Let_def there [OF call_shapes(1)] del: not_None_eq\<close>)
    qed (use assms h in \<open>simp add: startRefresh_def MT\<close>)
  next
    case PP
    show ?thesis
    proof (cases "dv_pp (view d m) = None")
      case False
      show ?thesis
        unfolding startRefresh_def PP CanType.case h
        by (simp only: False simp_thms if_False)
          (rule settle [OF call_shapes(2) call_views(2)],
            use False o in \<open>simp_all add: schedule_bound_def Let_def there [OF call_shapes(2)] del: not_None_eq\<close>)
    qed (use assms h in \<open>simp add: startRefresh_def PP\<close>)
  next
    case DM
    show ?thesis
    proof (cases "dv_dm (view d m) = None")
      case False
      show ?thesis
        unfolding startRefresh_def DM CanType.case h
        by (simp only: False simp_thms if_False)
          (rule settle [OF call_shapes(3) call_views(3)],
            use False o in \<open>simp_all add: schedule_bound_def Let_def there [OF call_shapes(3)] del: not_None_eq\<close>)
    qed (use assms h in \<open>simp add: startRefresh_def DM\<close>)
  next
    case ECB
    then show ?thesis by (simp add: startRefresh_def inv_calls [OF assms])
  qed
qed

end
