(* ===== verification/Driver_World.thy ===== *)
theory Driver_World
  imports Device_Manager_Correctness
begin

text \<open>
  The device manager with the threads around it: the refresh thread and the receive thread of
  each device, its transmit worker, and the callers of the manager and of its protocol objects.
  The steps of all of them in any order are \<open>manager_step\<close>.

  The second half is the driver as the lifecycle requests see it: the manager behind
  \<open>IDeviceManager\<close> with the steady clock, where calls take time and the other threads act during
  the sleeps.  It is the world the lifecycle operations and the motor action executor run in.
\<close>

section \<open>The threads of a device\<close>

text \<open>A tick of the refresh thread, on the protocol objects the schedule points to.\<close>

definition refresh_tick :: "tick_times \<Rightarrow> string \<Rightarrow> 'e DeviceManager \<Rightarrow> 'e DeviceManager" where
  "refresh_tick tt device m =
     (case map_of (m_deviceRefreshRuntimes m) device of
        None \<Rightarrow> m
      | Some r \<Rightarrow>
          let c = \<lparr>rc_runtime = r, rc_sharedState = Some (m_sharedState m),
                   rc_mt = (if dr_mtProtocol r then map_of (m_mtProtocols m) device else None),
                   rc_pp = (if dr_ppProtocol r then map_of (m_eyouProtocols m) device else None),
                   rc_dm = (if dr_dmProtocol r then map_of (m_damiaoProtocols m) device else None)\<rparr>;
              c1 = snd (tick tt c)
          in m\<lparr>m_deviceRefreshRuntimes := AList.update device (rc_runtime c1) (m_deviceRefreshRuntimes m),
               m_sharedState := (case rc_sharedState c1 of None \<Rightarrow> m_sharedState m | Some shared \<Rightarrow> shared),
               m_mtProtocols := AList.map_entry device (\<lambda>p. case rc_mt c1 of None \<Rightarrow> p | Some p1 \<Rightarrow> p1) (m_mtProtocols m),
               m_eyouProtocols := AList.map_entry device (\<lambda>p. case rc_pp c1 of None \<Rightarrow> p | Some p1 \<Rightarrow> p1) (m_eyouProtocols m),
               m_damiaoProtocols := AList.map_entry device (\<lambda>p. case rc_dm c1 of None \<Rightarrow> p | Some p1 \<Rightarrow> p1) (m_damiaoProtocols m)\<rparr>)"

definition refresh_turn :: "tick_times \<Rightarrow> bool \<Rightarrow> string \<Rightarrow> 'e DeviceManager \<Rightarrow> 'e DeviceManager" where
  "refresh_turn tt timedOut device m =
     (case Option.bind (map_of (m_deviceRefreshRuntimes m) device) dr_worker of
        None \<Rightarrow> m
      | Some wk \<Rightarrow> (case rw_step timedOut wk of
          (ticked, wk1) \<Rightarrow> let m1 = on_schedule device (\<lambda>r. r\<lparr>dr_worker := Some wk1\<rparr>) m
                           in if ticked then refresh_tick tt device m1 else m1))"

text \<open>A received frame is given to the handlers of the transport, one after the other.\<close>

definition frame_receivers :: "string \<Rightarrow> 'e DeviceManager \<Rightarrow> CanType list" where
  "frame_receivers device m =
     (case map_of (m_transports m) device of
        Some t \<Rightarrow> dispatchReceive t
      | None \<Rightarrow> (case map_of (m_udpTransports m) device of Some t \<Rightarrow> uc_dispatchReceive t | None \<Rightarrow> []))"

definition deliver :: "time_ns \<Rightarrow> string \<Rightarrow> frame \<Rightarrow> CanType \<Rightarrow> 'e DeviceManager \<Rightarrow> 'e DeviceManager" where
  "deliver now device f h m =
     (case h of
        MT \<Rightarrow> snd (on_mt device (\<lambda>p. ((), mt_handleResponse now f p)) m)
      | PP \<Rightarrow> snd (on_eyou device (\<lambda>p. ((), ey_handleResponse now f p)) m)
      | DM \<Rightarrow> snd (on_damiao device (\<lambda>p. ((), dm_handleResponse now f p)) m)
      | ECB \<Rightarrow> m)"

definition receive_frame :: "time_ns \<Rightarrow> string \<Rightarrow> frame \<Rightarrow> 'e DeviceManager \<Rightarrow> 'e DeviceManager" where
  "receive_frame now device f m = fold (deliver now device f) (frame_receivers device m) m"

definition can_receive :: "can_event \<Rightarrow> time_ns \<Rightarrow> string \<Rightarrow> 'e DeviceManager \<Rightarrow> 'e DeviceManager" where
  "can_receive ev now device m =
     (case map_of (m_transports m) device of
        None \<Rightarrow> m
      | Some t \<Rightarrow> (case receive_round ev now t of
          (received, t1) \<Rightarrow>
            let m1 = m\<lparr>m_transports := AList.update device t1 (m_transports m)\<rparr>
            in case received of None \<Rightarrow> m1 | Some f \<Rightarrow> receive_frame now device f m1))"

definition udp_receive :: "udp_event \<Rightarrow> time_ns \<Rightarrow> string \<Rightarrow> 'e DeviceManager \<Rightarrow> 'e DeviceManager" where
  "udp_receive ev now device m =
     (case map_of (m_udpTransports m) device of
        None \<Rightarrow> m
      | Some t \<Rightarrow> (case uc_receive_round ev t of None \<Rightarrow> m | Some f \<Rightarrow> receive_frame now device f m))"

text \<open>The transmit worker sends a frame on a SocketCAN device; a UDP transport keeps no state of it.\<close>

definition can_send :: "io_answer \<Rightarrow> time_ns \<Rightarrow> string \<Rightarrow> frame \<Rightarrow> 'e DeviceManager \<Rightarrow> 'e DeviceManager" where
  "can_send answer now device f m =
     m\<lparr>m_transports := AList.map_entry device (\<lambda>t. snd (snd (sc_send answer now f t))) (m_transports m)\<rparr>"

definition on_dispatcher :: "string \<Rightarrow> (DeviceRuntime \<Rightarrow> DeviceRuntime) \<Rightarrow> 'e DeviceManager \<Rightarrow> 'e DeviceManager" where
  "on_dispatcher device f m = m\<lparr>m_txDispatchers := AList.map_entry device f (m_txDispatchers m)\<rparr>"

section \<open>Steps\<close>

text \<open>
  What can happen to the manager.  Calls on protocol objects, on a dispatcher and on the
  store are arbitrary functions of their state here.
\<close>

inductive manager_step :: "'e ecb_api \<Rightarrow> 'e DeviceManager \<Rightarrow> 'e DeviceManager \<Rightarrow> bool" for api :: "'e ecb_api" where
  step_ensureTransport: "manager_step api m (snd (ensureTransport env d m))"
| step_ensureProtocol: "manager_step api m (snd (ensureProtocol api d t m))"
| step_initDevice: "manager_step api m (snd (initDevice api env d motors m))"
| step_startRefresh: "manager_step api m (startRefresh api d t ids m)"
| step_rate: "manager_step api m (m_setRefreshRateHz api hz m)"
| step_deviceRate: "manager_step api m (setDeviceRefreshRateHz api d hz m)"
| step_gap: "manager_step api m (setRefreshInterFrameGapUs gap m)"
| step_controlGap: "manager_step api m (m_setControlInterFrameGapUs gap m)"
| step_timeout: "manager_step api m (setMtCommunicationTimeoutOnInitMs timeout m)"
| step_fastWrite: "manager_step api m (setPpFastWriteEnabled b m)"
| step_positionVelocity: "manager_step api m (setPpPositionDefaultVelocityRaw vel m)"
| step_cspVelocity: "manager_step api m (setPpCspDefaultVelocityRaw vel m)"
| step_defaultVelocity: "manager_step api m (setPpDefaultPositionVelocityRaw vel m)"
| step_ready: "manager_step api m (snd (m_isDeviceReady d m))"
| step_shutdownDevice: "manager_step api m (m_shutdownDevice d m)"
| step_shutdownAll: "manager_step api m (m_shutdownAll m)"
| step_mt: "manager_step api m (snd (on_mt d (\<lambda>p. ((), f p)) m))"
| step_eyou: "manager_step api m (snd (on_eyou d (\<lambda>p. ((), g p)) m))"
| step_damiao: "manager_step api m (snd (on_damiao d (\<lambda>p. ((), h p)) m))"
| step_ecb: "manager_step api m (snd (on_ecb d (\<lambda>p s. ((), k p s)) m))"
| step_store: "manager_step api m (on_store u m)"
| step_dispatcher: "manager_step api m (on_dispatcher d r m)"
| step_refresh: "manager_step api m (refresh_turn tt timedOut d m)"
| step_can_receive: "manager_step api m (can_receive cev now d m)"
| step_udp_receive: "manager_step api m (udp_receive uev now d m)"
| step_can_send: "manager_step api m (can_send answer now d fr m)"

inductive manager_reachable :: "'e ecb_api \<Rightarrow> 'e DeviceManager \<Rightarrow> bool" for api :: "'e ecb_api" where
  reach_start: "manager_reachable api new_DeviceManager"
| reach_step: "manager_reachable api m \<Longrightarrow> manager_step api m m' \<Longrightarrow> manager_reachable api m'"

inductive_cases manager_stepE: "manager_step api m m'"

section \<open>The steps keep the invariant\<close>

lemma same_schedule_trans: "same_schedule a b \<Longrightarrow> same_schedule b c \<Longrightarrow> same_schedule a c"
  by (simp add: same_schedule_def)

lemma tick_schedule: "same_schedule (rc_runtime c) (rc_runtime (snd (tick tt c)))"
  by (rule tick_cases [of tt c])
    (use retire_frame(3) [of c tt] same_schedule_trans in \<open>auto simp: tick_quiet_def tick_issues_def\<close>)

lemma refresh_tick_inv:
  assumes "manager_inv m"
  shows "manager_inv (refresh_tick tt device m)"
proof (cases "map_of (m_deviceRefreshRuntimes m) device")
  case (Some r)
  let ?c = "\<lparr>rc_runtime = r, rc_sharedState = Some (m_sharedState m),
                   rc_mt = (if dr_mtProtocol r then map_of (m_mtProtocols m) device else None),
                   rc_pp = (if dr_ppProtocol r then map_of (m_eyouProtocols m) device else None),
                   rc_dm = (if dr_dmProtocol r then map_of (m_damiaoProtocols m) device else None)\<rparr>"
  define r1 where "r1 = rc_runtime (snd (tick tt ?c))"
  have kept: "schedule_kept r r1"
    using tick_schedule [of ?c tt] same_schedule_kept by (simp add: r1_def)
  show ?thesis
  proof (rule manager_inv_touch [OF assms])
    fix d
    let ?f = "\<lambda>x. if d = device \<and> x = r then r1 else x"
    have "same_shape ((view d m)\<lparr>dv_refresh := map_option ?f (dv_refresh (view d m))\<rparr>) (view d (refresh_tick tt device m))"
      using Some
      by (simp add: refresh_tick_def Let_def same_shape_def same_parts_def table_def view_def map_conv r1_def option.map_ident
          split: option.split)
    then show "\<exists>f. (\<forall>r. schedule_kept r (f r)) \<and>
        same_shape ((view d m)\<lparr>dv_refresh := map_option f (dv_refresh (view d m))\<rparr>) (view d (refresh_tick tt device m))"
      using kept by (intro exI [of _ ?f] conjI) simp_all
  qed
qed (simp add: refresh_tick_def assms)

lemma rw_step_running: "rw_step timedOut wk = (ticked, wk1) \<Longrightarrow> rw_running wk1 = rw_running wk"
  by (auto simp: rw_step_def split: option.splits refresh_pos.splits if_splits)

lemma refresh_turn_inv:
  assumes "manager_inv m"
  shows "manager_inv (refresh_turn tt timedOut device m)"
proof (cases "Option.bind (map_of (m_deviceRefreshRuntimes m) device) dr_worker")
  case (Some wk)
  then obtain r where r: "map_of (m_deviceRefreshRuntimes m) device = Some r" "dr_worker r = Some wk"
    by (auto simp: bind_eq_Some_conv)
  obtain ticked wk1 where s: "rw_step timedOut wk = (ticked, wk1)" by fastforce
  have kept: "schedule_kept r (r\<lparr>dr_worker := Some wk1\<rparr>)"
    using rw_step_running [OF s] r(2) by (simp add: schedule_kept_def)
  let ?m1 = "on_schedule device (\<lambda>r. r\<lparr>dr_worker := Some wk1\<rparr>) m"
  have "manager_inv ?m1"
  proof (rule manager_inv_touch [OF assms])
    fix d
    let ?f = "\<lambda>x. if d = device \<and> x = r then r\<lparr>dr_worker := Some wk1\<rparr> else x"
    have "same_shape ((view d m)\<lparr>dv_refresh := map_option ?f (dv_refresh (view d m))\<rparr>) (view d ?m1)"
      using r(1) by (simp add: on_schedule_def same_shape_def same_parts_def table_def view_def map_conv option.map_ident
          split: option.split)
    then show "\<exists>f. (\<forall>r. schedule_kept r (f r)) \<and> same_shape ((view d m)\<lparr>dv_refresh := map_option f (dv_refresh (view d m))\<rparr>) (view d ?m1)"
      using kept by (intro exI [of _ ?f] conjI) simp_all
  qed
  then show ?thesis using Some s by (simp add: refresh_turn_def Let_def refresh_tick_inv)
qed (simp add: refresh_turn_def assms)

lemma deliver_shape: "same_shape (view d m) (view d (deliver now dev f h m))"
  by (cases h) (simp_all add: deliver_def call_shapes)

lemma receive_inv: "manager_inv m \<Longrightarrow> manager_inv (receive_frame now d f m)"
proof -
  have "manager_inv m \<Longrightarrow> manager_inv (fold (deliver now d f) hs m)" for hs
    by (induction hs arbitrary: m) (simp_all add: manager_inv_same [OF _ deliver_shape])
  then show "manager_inv m \<Longrightarrow> manager_inv (receive_frame now d f m)" by (simp add: receive_frame_def)
qed

lemma receive_round_table:
  "tb_handlers (snd (receive_round ev now t)) = tb_handlers t"
  "tb_nextHandlerId (snd (receive_round ev now t)) = tb_nextHandlerId t"
  by (simp_all add: receive_round_def count_stat_def split: can_event.split)

lemma sc_send_table:
  "tb_handlers (snd (snd (sc_send answer now f t))) = tb_handlers t"
  "tb_nextHandlerId (snd (snd (sc_send answer now f t))) = tb_nextHandlerId t"
  by (simp_all add: sc_send_def count_stat_def Let_def split: io_answer.split)

lemma can_receive_inv:
  assumes "manager_inv m"
  shows "manager_inv (can_receive ev now d m)"
proof (cases "map_of (m_transports m) d")
  case (Some t)
  obtain received t1 where r: "receive_round ev now t = (received, t1)" by fastforce
  let ?m1 = "m\<lparr>m_transports := AList.update d t1 (m_transports m)\<rparr>"
  have t1: "tb_handlers t1 = tb_handlers t" "tb_nextHandlerId t1 = tb_nextHandlerId t"
    using receive_round_table [of ev now t] r by simp_all
  have "same_shape (view d' m) (view d' ?m1)" for d'
    using Some t1 by (simp add: same_shape_def same_parts_def table_def view_def map_conv split: option.split)
  then have "manager_inv ?m1" using assms manager_inv_same by blast
  then show ?thesis using Some r by (simp add: can_receive_def Let_def receive_inv split: option.split)
qed (simp add: can_receive_def assms)

lemma transmit_inv:
  assumes "manager_inv m"
  shows "manager_inv (can_send answer now d f m)" and "manager_inv (on_dispatcher d r m)"
    and "manager_inv (udp_receive ev now d m)"
proof -
  have "same_shape (view d' m) (view d' (can_send answer now d f m))" for d'
    by (simp add: can_send_def same_shape_def same_parts_def table_def view_def map_conv sc_send_table split: option.split)
  then show "manager_inv (can_send answer now d f m)" using assms manager_inv_same by blast
  have "same_shape (view d' m) (view d' (on_dispatcher d r m))" for d'
    by (simp add: on_dispatcher_def same_shape_def same_parts_def table_def view_def map_conv split: option.split)
  then show "manager_inv (on_dispatcher d r m)" using assms manager_inv_same by blast
  show "manager_inv (udp_receive ev now d m)"
    using assms by (simp add: udp_receive_def receive_inv split: option.split)
qed

lemma manager_step_inv:
  assumes "manager_step api m m'" and "manager_inv m"
  shows "manager_inv m'"
  using assms
  by (induction rule: manager_step.induct)
    (simp_all add: inv_ensureTransport inv_ensureProtocol inv_initDevice(1) inv_startRefresh inv_rates inv_gap inv_settings
      m_shutdownDevice_def inv_shutdown inv_shutdownAll inv_calls refresh_turn_inv can_receive_inv transmit_inv)

lemma new_view: "view d new_DeviceManager = no_view"
  by (simp add: new_DeviceManager_def view_def no_view_def)

lemma new_manager_inv: "manager_inv new_DeviceManager"
  by (simp add: manager_inv_def new_view)

lemma manager_reachable_inv: "manager_reachable api m \<Longrightarrow> manager_inv m"
  by (induction rule: manager_reachable.induct) (blast intro: new_manager_inv manager_step_inv)+

section \<open>Properties of the manager\<close>

lemma view_accessors:
  "m_getProtocol d MT m \<longleftrightarrow> dv_mt (view d m) \<noteq> None" "m_getProtocol d PP m \<longleftrightarrow> dv_pp (view d m) \<noteq> None"
  "m_getProtocol d DM m \<longleftrightarrow> dv_dm (view d m) \<noteq> None" "m_getProtocol d ECB m \<longleftrightarrow> dv_ecb (view d m) \<noteq> None"
  "m_getDeviceMutex d m \<longleftrightarrow> dv_mutex (view d m)" "has d (m_txDispatchers m) \<longleftrightarrow> dv_tx (view d m) \<noteq> None"
  "map_of (m_deviceRefreshRuntimes m) d = dv_refresh (view d m)"
  by (simp_all add: m_getProtocol_def m_getDeviceMutex_def view_def has_iff)

lemma receivers_handlers: "frame_receivers d m = handlers (view d m)"
  by (simp add: frame_receivers_def handlers_def table_def view_def dispatchReceive_def uc_dispatchReceive_def split: option.split)


definition witness_ecb :: "unit ecb_api" where
  "witness_ecb = \<lparr>eb_new = \<lambda>d. (), eb_setRefreshRateHz = \<lambda>hz p. p, eb_initializeMotorRefresh = \<lambda>ids p s. (p, s),
     eb_Enable = \<lambda>mid p s. (Returns True, p, s), eb_Disable = \<lambda>mid p s. (Returns True, p, s),
     eb_Stop = \<lambda>mid p s. (Returns True, p, s), eb_ResetFault = \<lambda>mid p s. (Returns True, p, s),
     eb_hasFault = \<lambda>mid p s. (Returns False, p, s), eb_isEnabled = \<lambda>mid p. True\<rparr>"

definition witness_kernel :: open_env where
  "witness_kernel = \<lparr>oe_can = \<lambda>d. witness_open, oe_inet_pton = \<lambda>a. Some 0, oe_udpFd = \<lambda>d. 7, oe_udpBound = \<lambda>d. True\<rparr>"

definition witness_init :: "bool \<times> unit DeviceManager" where
  "witness_init = initDevice witness_ecb witness_kernel ''can0'' [(MT, 0x141), (PP, 5)] new_DeviceManager"

lemma witness_opens: "fst witness_init"
  by (simp add: witness_init_def initDevice_def ids_of_def getTransportBaseLocked_def has_def new_DeviceManager_def
      initializeTransportLocked_def isUdpDevice_def sc_initialize_def witness_kernel_def witness_open_def Let_def)

lemma witness_reachable: "manager_reachable witness_ecb (snd witness_init)"
  unfolding witness_init_def by (rule reach_step [OF reach_start step_initDevice])

lemma witness_protocols: "m_getProtocol ''can0'' MT (snd witness_init)" "m_getProtocol ''can0'' PP (snd witness_init)"
  using witness_opens inv_initDevice(4) [OF new_manager_inv, of witness_ecb witness_kernel "''can0''" "[(MT, 0x141), (PP, 5)]"]
  by (simp_all add: witness_init_def ids_of_def)





definition witness_closed :: open_env where
  "witness_closed = \<lparr>oe_can = \<lambda>d. witness_open\<lparr>co_fd := - 1\<rparr>, oe_inet_pton = \<lambda>a. None, oe_udpFd = \<lambda>d. - 1, oe_udpBound = \<lambda>d. False\<rparr>"


section \<open>The driver as the lifecycle requests see it\<close>

text \<open>
  A call of the manager takes some time, and other threads act after it and during a sleep: the list
  holds, for each of these moments in order, the nanoseconds that pass and what the others do.
\<close>

record 'e driver_world =
  dw_now :: time_ns
  dw_manager :: "'e DeviceManager"
  dw_others :: "(nat \<times> ('e DeviceManager \<Rightarrow> 'e DeviceManager)) list"

definition pass_time :: "'e driver_world \<Rightarrow> 'e driver_world" where
  "pass_time w =
     (case dw_others w of
        [] \<Rightarrow> w
      | (t, f) # rest \<Rightarrow> w\<lparr>dw_now := dw_now w + int t, dw_manager := f (dw_manager w), dw_others := rest\<rparr>)"

definition driver_clock :: "'e driver_world steady_clock" where
  "driver_clock = \<lparr>ck_now = dw_now, ck_sleep_for = (\<lambda>d w. pass_time (w\<lparr>dw_now := dw_now w + max 0 d\<rparr>))\<rparr>"

text \<open>What the manager is built on: the ECB objects, the kernel, and the threads during the waits of a DM object.\<close>

record 'e manager_env =
  me_ecb :: "'e ecb_api"
  me_open :: "time_ns \<Rightarrow> open_env"
  me_dm :: "time_ns \<Rightarrow> dm_env"

definition manager_call ::
    "(time_ns \<Rightarrow> 'e DeviceManager \<Rightarrow> 'r \<times> 'e DeviceManager) \<Rightarrow> 'e driver_world \<Rightarrow> 'r \<times> 'e driver_world" where
  "manager_call f w = (case f (dw_now w) (dw_manager w) of (r, m) \<Rightarrow> (r, pass_time (w\<lparr>dw_manager := m\<rparr>)))"

text \<open>The virtual call of a protocol operation; the caller has found the object before.\<close>

definition on_protocol ::
    "string \<Rightarrow> CanType \<Rightarrow> (mt_can \<Rightarrow> bool \<times> mt_can) \<Rightarrow> (ey_can \<Rightarrow> bool \<times> ey_can) \<Rightarrow> (dm_can \<Rightarrow> bool \<times> dm_can) \<Rightarrow>
     ('e \<Rightarrow> SharedDriverState \<Rightarrow> outcome \<times> 'e \<times> SharedDriverState) \<Rightarrow> 'e DeviceManager \<Rightarrow> outcome \<times> 'e DeviceManager" where
  "on_protocol device type mt pp dm ecb m =
     (case type of
        MT \<Rightarrow> (case on_mt device mt m of (r, m1) \<Rightarrow> (Returns (r = Some True), m1))
      | PP \<Rightarrow> (case on_eyou device pp m of (r, m1) \<Rightarrow> (Returns (r = Some True), m1))
      | DM \<Rightarrow> (case on_damiao device dm m of (r, m1) \<Rightarrow> (Returns (r = Some True), m1))
      | ECB \<Rightarrow> (case on_ecb device ecb m of (r, m1) \<Rightarrow> (case r of None \<Rightarrow> Returns False | Some verdict \<Rightarrow> verdict, m1)))"

definition ask :: "(time_ns \<Rightarrow> 'e DeviceManager \<Rightarrow> outcome \<times> 'e DeviceManager) \<Rightarrow> 'e driver_world \<Rightarrow> bool \<times> 'e driver_world" where
  "ask f w = (case manager_call f w of (r, w1) \<Rightarrow> (r = Returns True, w1))"

definition manager_api :: "'e manager_env \<Rightarrow> 'e driver_world IDeviceManager" where
  "manager_api env = \<lparr>
     idm_initDevice = (\<lambda>device motors loopback. manager_call (\<lambda>now. initDevice (me_ecb env) (me_open env now) device motors)),
     idm_shutdownDevice = (\<lambda>device w. snd (manager_call (\<lambda>now m. ((), m_shutdownDevice device m)) w)),
     idm_shutdownAll = (\<lambda>w. snd (manager_call (\<lambda>now m. ((), m_shutdownAll m)) w)),
     idm_getProtocol = (\<lambda>device type w. m_getProtocol device type (dw_manager w)),
     idm_getDeviceMutex = (\<lambda>device w. m_getDeviceMutex device (dw_manager w)),
     idm_isDeviceReady = (\<lambda>device. manager_call (\<lambda>now. m_isDeviceReady device)),
     idm_getSharedDriverState = (\<lambda>w. m_getSharedDriverState (dw_manager w)),
     pr_Enable = (\<lambda>device type mid. manager_call (\<lambda>now. on_protocol device type
        (mt_Enable now mid) (ey_Enable now mid) (dm_Enable (me_dm env now) mid) (eb_Enable (me_ecb env) mid))),
     pr_Disable = (\<lambda>device type mid. manager_call (\<lambda>now. on_protocol device type
        (mt_Disable now mid) (ey_Disable now mid) (dm_Disable (me_dm env now) now mid) (eb_Disable (me_ecb env) mid))),
     pr_Stop = (\<lambda>device type mid. manager_call (\<lambda>now. on_protocol device type
        (mt_Stop mid) (ey_Stop mid) (dm_Stop now mid) (eb_Stop (me_ecb env) mid))),
     pr_ResetFault = (\<lambda>device type mid. manager_call (\<lambda>now. on_protocol device type
        (mt_ResetFault now mid) (ey_ResetFault now mid) (dm_ResetFault mid) (eb_ResetFault (me_ecb env) mid))),
     pr_hasFault = (\<lambda>device type mid. ask (\<lambda>now. on_protocol device type
        (\<lambda>p. (mt_hasFault mid p, p)) (ey_hasFault mid) (\<lambda>p. (dm_hasFault mid p, p)) (eb_hasFault (me_ecb env) mid))),
     pr_isEnabled = (\<lambda>device type mid. ask (\<lambda>now. on_protocol device type
        (\<lambda>p. (mt_isEnabled mid p, p)) (ey_isEnabled mid) (\<lambda>p. (dm_isEnabled mid p, p))
        (\<lambda>p s. (Returns (eb_isEnabled (me_ecb env) mid p), p, s))))\<rparr>"

lemma pass_time_later: "dw_now w \<le> dw_now (pass_time w)"
  by (simp add: pass_time_def split: list.split prod.split)

lemma call_later: "dw_now w \<le> dw_now (snd (manager_call f w))"
  using pass_time_later [of "w\<lparr>dw_manager := snd (f (dw_now w) (dw_manager w))\<rparr>"]
  by (simp add: manager_call_def split_beta)

lemma ask_later: "dw_now w \<le> dw_now (snd (ask f w))"
  using call_later [of w f] by (simp add: ask_def split_beta)

interpretation steady: steady_world driver_clock "manager_api env" for env
proof
  show "ck_now driver_clock w + d \<le> ck_now driver_clock (ck_sleep_for driver_clock d w)" if "0 \<le> d"
    for d and w :: "'a driver_world"
    using pass_time_later [of "w\<lparr>dw_now := dw_now w + max 0 d\<rparr>"] that by (simp add: driver_clock_def)
qed (simp_all add: driver_clock_def manager_api_def call_later ask_later)

text \<open>
  C13: on the device manager, whatever the other threads do during the calls and the sleeps, the loops
  of the lifecycle operations end: those that wait for the enabled flags and for the recovery, and
  those that retry the health checks before enabling and before motion, return what the model's
  bounded loops return, after at most as many sleeps as fit before the deadline.
\<close>

theorem lifecycle_loops_end:
  assumes "lo_deviceManager s = Some (manager_api env)" and "0 < interval"
  shows "poll_while driver_clock (dw_now (lo_world s) + timeout) interval (enabled_round driver_clock ts) d s =
      Some (poll_loop driver_clock (dw_now (lo_world s) + timeout) interval (enabled_round driver_clock ts)
        (poll_rounds timeout interval) d s) \<and>
    poll_while driver_clock (dw_now (lo_world s) + timeout) interval (recover_round driver_clock ts) u s =
      Some (poll_loop driver_clock (dw_now (lo_world s) + timeout) interval (recover_round driver_clock ts)
        (poll_rounds timeout interval) u s) \<and>
    retry_while driver_clock (dw_now (lo_world s) + timeout) interval retryable (motionHealthyOnce driver_clock) s =
      Some (retry driver_clock (dw_now (lo_world s) + timeout) interval retryable (motionHealthyOnce driver_clock)
        (poll_rounds timeout interval) s) \<and>
    retry_while driver_clock (dw_now (lo_world s) + timeout) interval retryable (enableHealthyOnce driver_clock) s =
      Some (retry driver_clock (dw_now (lo_world s) + timeout) interval retryable (enableHealthyOnce driver_clock)
        (poll_rounds timeout interval) s)"
proof -
  have now: "ck_now driver_clock (lo_world s) = dw_now (lo_world s)" by (simp add: driver_clock_def)
  show ?thesis
    using steady.wait_loop_returns [OF assms] steady.recover_loop_returns [OF assms] steady.health_loop_returns [OF assms]
    unfolding now by blast
qed

definition witness_world :: "unit driver_world" where
  "witness_world = \<lparr>dw_now = 0, dw_manager = snd witness_init, dw_others = []\<rparr>"

definition witness_ops :: "unit driver_world LifecycleDriverOps" where
  "witness_ops = new_LifecycleDriverOps (Some (manager_api \<lparr>me_ecb = witness_ecb, me_open = \<lambda>t. witness_kernel,
     me_dm = \<lambda>t. \<lparr>de_ack = [], de_configured = id, de_commanded = id, de_feedback = []\<rparr>\<rparr>)) None witness_world"

theorem lifecycle_loops_end_witness:
  "\<exists>r. retry_while driver_clock (dw_now (lo_world witness_ops) + ms 1250) (ms 50) feedback_retryable
     (motionHealthyOnce driver_clock) witness_ops = Some r"
proof -
  have "lo_deviceManager witness_ops = Some (manager_api \<lparr>me_ecb = witness_ecb, me_open = \<lambda>t. witness_kernel,
     me_dm = \<lambda>t. \<lparr>de_ack = [], de_configured = id, de_commanded = id, de_feedback = []\<rparr>\<rparr>)" "0 < ms 50"
    by (simp_all add: witness_ops_def new_LifecycleDriverOps_def)
  from lifecycle_loops_end [OF this, of "ms 1250"] show ?thesis by blast
qed

end
