(* ===== verification/Call_Recording.thy ===== *)
theory Call_Recording
  imports Motor_Action_Executor
begin

text \<open>
  Recording the calls of interest: a world \<open>'w \<times> 'c list\<close> carries the list of the calls made, a call
  is repeated on the inner world and may be noted with its answer.  Statements about what is called,
  and in which order, are statements about this list.
\<close>

definition on_fst :: "('w \<Rightarrow> 'r \<times> 'w) \<Rightarrow> 'w \<times> 'c \<Rightarrow> 'r \<times> 'w \<times> 'c" where
  "on_fst f = (\<lambda>(w, calls). case f w of (r, w1) \<Rightarrow> (r, w1, calls))"

definition noting :: "('r \<Rightarrow> 'c) \<Rightarrow> ('w \<Rightarrow> 'r \<times> 'w) \<Rightarrow> 'w \<times> 'c list \<Rightarrow> 'r \<times> 'w \<times> 'c list" where
  "noting call f = (\<lambda>(w, calls). case f w of (r, w1) \<Rightarrow> (r, w1, calls @ [call r]))"

definition recorded_dm :: "'w IDeviceManager \<Rightarrow> ('w \<times> 'c) IDeviceManager" where
  "recorded_dm dm = \<lparr>
     idm_initDevice = (\<lambda>d ms l. on_fst (idm_initDevice dm d ms l)),
     idm_shutdownDevice = (\<lambda>d (w, c). (idm_shutdownDevice dm d w, c)),
     idm_shutdownAll = (\<lambda>(w, c). (idm_shutdownAll dm w, c)),
     idm_getProtocol = (\<lambda>d t (w, c). idm_getProtocol dm d t w),
     idm_getDeviceMutex = (\<lambda>d (w, c). idm_getDeviceMutex dm d w),
     idm_isDeviceReady = (\<lambda>d. on_fst (idm_isDeviceReady dm d)),
     idm_getSharedDriverState = (\<lambda>(w, c). idm_getSharedDriverState dm w),
     pr_Enable = (\<lambda>d t m. on_fst (pr_Enable dm d t m)),
     pr_Disable = (\<lambda>d t m. on_fst (pr_Disable dm d t m)),
     pr_Stop = (\<lambda>d t m. on_fst (pr_Stop dm d t m)),
     pr_ResetFault = (\<lambda>d t m. on_fst (pr_ResetFault dm d t m)),
     pr_hasFault = (\<lambda>d t m. on_fst (pr_hasFault dm d t m)),
     pr_isEnabled = (\<lambda>d t m. on_fst (pr_isEnabled dm d t m))\<rparr>"

end
