(* ===== verification/Can_Driver_Io.thy ===== *)
theory Can_Driver_Io
  imports Call_Recording Command_Gate Axis_Readiness
begin

text \<open>
  \<open>CanDriverIoRuntime.h\<close>: what the control loop does in one cycle.  Feedback is copied from the
  protocol objects to the joints; a command is chosen for every joint, limited and converted to
  raw counts; the commands are sent, group by group, as far as device, feedback and gate allow.
  A group is the joints of one motor family on one device.

  The protocol calls, the device manager and the clocks are functions of the world \<open>'w\<close>.  The
  third-party types are parameters: the joint limits \<open>'l\<close> with the accessors of \<open>joint_limits\<close>,
  and \<open>ros::Duration::toSec\<close> as a function of nanoseconds.  Pointers to buffers are never null.
\<close>

section \<open>Types\<close>

record CanDriverDeviceProtocolGroup =
  gr_canDevice :: string
  gr_protocol :: CanType
  gr_jointIndices :: "nat list"

record CanDriverPreparedCommand =
  pc_valid :: bool
  pc_jointIndex :: nat
  pc_motorId :: motor_id
  pc_route :: PreparedCommandRoute
  pc_jointName :: string

record WriteConfig =
  wc_directCmdTimeoutSec :: dbl
  wc_debugBypassRosControl :: bool
  wc_safetyStopOnFault :: bool
  wc_safetyRequireEnabledForMotion :: bool
  wc_maxPositionStepRad :: dbl
  wc_safetyHoldAfterDeviceRecover :: bool
  wc_feedbackFreshnessTimeoutNs :: int

definition default_WriteConfig :: WriteConfig where
  "default_WriteConfig = \<lparr>wc_directCmdTimeoutSec = Fin (1 / 2), wc_debugBypassRosControl = False,
     wc_safetyStopOnFault = True, wc_safetyRequireEnabledForMotion = True, wc_maxPositionStepRad = Fin 0,
     wc_safetyHoldAfterDeviceRecover = True,
     wc_feedbackFreshnessTimeoutNs = cfg_feedbackFreshnessTimeoutNs default_readiness_config\<rparr>"

record 'l joint_limits =
  jl_has_velocity_limits :: "'l \<Rightarrow> bool"
  jl_max_velocity :: "'l \<Rightarrow> dbl"
  jl_has_position_limits :: "'l \<Rightarrow> bool"
  jl_min_position :: "'l \<Rightarrow> dbl"
  jl_max_position :: "'l \<Rightarrow> dbl"

text \<open>The calls on protocol objects, each of which may throw.\<close>

type_synonym 'w motor_write = "string \<Rightarrow> CanType \<Rightarrow> motor_id \<Rightarrow> i32 \<Rightarrow> 'w \<Rightarrow> outcome \<times> 'w"
type_synonym 'w motor_reading = "string \<Rightarrow> CanType \<Rightarrow> motor_id \<Rightarrow> 'w \<Rightarrow> int \<times> 'w"

record 'w motor_io =
  io_getPosition :: "'w motor_reading"
  io_getVelocity :: "'w motor_reading"
  io_getCurrent :: "'w motor_reading"
  io_hasFault :: "'w motor_action"
  io_isEnabled :: "'w motor_action"
  io_Stop :: "'w motor_action"
  io_setVelocity :: "'w motor_write"
  io_setPosition :: "'w motor_write"
  io_quickSetPosition :: "'w motor_write"

text \<open>The members of the hardware interface that a cycle works on.\<close>

record ('l, 'w) io_cycle =
  ic_joints :: "'l CanDriverJointConfig list"
  ic_rawCommandBuffer :: "i32 list"
  ic_commandValidBuffer :: "bool list"
  ic_preparedCommandBuffer :: "CanDriverPreparedCommand list"
  ic_commandGate :: "('l CanDriverJointConfig list \<times> bool list) CommandGate"
  ic_anyFaultObserved :: bool
  ic_world :: 'w

section \<open>Reading feedback\<close>

text \<open>The three readings of a joint, in joint units.\<close>

definition read_joint ::
    "'w motor_io \<Rightarrow> CanDriverDeviceProtocolGroup \<Rightarrow> 'l CanDriverJointConfig \<Rightarrow> 'w \<Rightarrow> (dbl \<times> dbl \<times> dbl) \<times> 'w" where
  "read_joint io grp joint w =
     (case io_getPosition io (gr_canDevice grp) (gr_protocol grp) (jc_motorId joint) w of
        (position, w1) \<Rightarrow>
          case io_getVelocity io (gr_canDevice grp) (gr_protocol grp) (jc_motorId joint) w1 of
            (velocity, w2) \<Rightarrow>
              case io_getCurrent io (gr_canDevice grp) (gr_protocol grp) (jc_motorId joint) w2 of
                (current, w3) \<Rightarrow>
                  ((rawPositionToJointPosition joint (dbl_of_int position),
                    dmul (dbl_of_int velocity) (effectiveVelocityScale joint), dbl_of_int current), w3))"

definition read_group ::
    "'w IDeviceManager \<Rightarrow> 'w motor_io \<Rightarrow> 'l CanDriverJointConfig list \<Rightarrow> CanDriverDeviceProtocolGroup \<Rightarrow>
     (nat \<rightharpoonup> dbl \<times> dbl \<times> dbl) \<times> 'w \<Rightarrow> (nat \<rightharpoonup> dbl \<times> dbl \<times> dbl) \<times> 'w" where
  "read_group dm io joints grp = (\<lambda>(snapshots, w).
     if \<not> idm_getProtocol dm (gr_canDevice grp) (gr_protocol grp) w \<or> \<not> idm_getDeviceMutex dm (gr_canDevice grp) w
     then (snapshots, w)
     else fold (\<lambda>i (snapshots, w). case read_joint io grp (joints ! i) w of (r, w1) \<Rightarrow> (snapshots(i \<mapsto> r), w1))
            (gr_jointIndices grp) (snapshots, w))"

definition SyncJointFeedback ::
    "'w IDeviceManager \<Rightarrow> 'w motor_io \<Rightarrow> CanDriverDeviceProtocolGroup list \<Rightarrow> 'l CanDriverJointConfig list \<Rightarrow> 'w \<Rightarrow>
     'l CanDriverJointConfig list \<times> 'w" where
  "SyncJointFeedback dm io groups joints w =
     (case fold (read_group dm io joints) groups (Map.empty, w) of
        (snapshots, w1) \<Rightarrow>
          (map (\<lambda>i. case snapshots i of
                      None \<Rightarrow> joints ! i
                    | Some (pos, vel, eff) \<Rightarrow> (joints ! i)\<lparr>jc_pos := pos, jc_vel := vel, jc_eff := eff\<rparr>)
             [0..<length joints], w1))"

section \<open>Choosing and limiting commands\<close>

definition dclamp :: "dbl \<Rightarrow> dbl \<Rightarrow> dbl \<Rightarrow> dbl" where
  "dclamp v lo hi = (if dlt v lo then lo else if dlt hi v then hi else v)"

definition joint_mode :: "'l CanDriverJointConfig \<Rightarrow> AxisControlMode" where
  "joint_mode joint = axisControlModeFromString (jc_controlMode joint)"

definition clampWithJointLimits :: "'l joint_limits \<Rightarrow> 'l CanDriverJointConfig \<Rightarrow> dbl \<Rightarrow> dbl" where
  "clampWithJointLimits lims joint cmdValue =
     (if \<not> jc_hasLimits joint \<or> \<not> isfinite cmdValue then cmdValue
      else if controlModeUsesVelocitySemantics (joint_mode joint) \<and> jl_has_velocity_limits lims (jc_limits joint)
      then dclamp cmdValue (dneg (jl_max_velocity lims (jc_limits joint))) (jl_max_velocity lims (jc_limits joint))
      else if controlModeUsesPositionSemantics (joint_mode joint) \<and> jl_has_position_limits lims (jc_limits joint)
      then dclamp cmdValue (jl_min_position lims (jc_limits joint)) (jl_max_position lims (jc_limits joint))
      else cmdValue)"

definition directCommandFresh :: "(int \<Rightarrow> dbl) \<Rightarrow> WriteConfig \<Rightarrow> int \<Rightarrow> 'l CanDriverJointConfig \<Rightarrow> bool" where
  "directCommandFresh toSec config now joint \<longleftrightarrow>
     dle (toSec (now - controlModeLastDirectCommandTime joint (joint_mode joint))) (wc_directCmdTimeoutSec config)"

text \<open>The first loop: it stops at the first fresh direct command and drops the old ones before it.\<close>

fun find_active_direct ::
    "(int \<Rightarrow> dbl) \<Rightarrow> WriteConfig \<Rightarrow> int \<Rightarrow> 'l CanDriverJointConfig list \<Rightarrow> bool \<times> 'l CanDriverJointConfig list" where
  "find_active_direct toSec config now [] = (False, [])"
| "find_active_direct toSec config now (joint # joints) =
     (if \<not> controlModeHasDirectCommand joint (joint_mode joint)
      then apsnd (Cons joint) (find_active_direct toSec config now joints)
      else if directCommandFresh toSec config now joint then (True, joint # joints)
      else apsnd (Cons (clearDirectCommandForControlMode joint (joint_mode joint)))
             (find_active_direct toSec config now joints))"

text \<open>The command of a joint: none, or a value; an old direct command is dropped.\<close>

definition choose_command ::
    "(int \<Rightarrow> dbl) \<Rightarrow> WriteConfig \<Rightarrow> int \<Rightarrow> bool \<Rightarrow> 'l CanDriverJointConfig \<Rightarrow> dbl option \<times> 'l CanDriverJointConfig" where
  "choose_command toSec config now activeDirectCommandPresent joint =
     (let mode = joint_mode joint;
          has_direct = controlModeHasDirectCommand joint mode;
          useDirect = (has_direct \<and> (wc_debugBypassRosControl config \<or> directCommandFresh toSec config now joint));
          joint1 = (if has_direct \<and> \<not> useDirect then clearDirectCommandForControlMode joint mode else joint)
      in (if useDirect then Some (controlModeDirectCommandValue joint mode)
          else if wc_debugBypassRosControl config \<or> activeDirectCommandPresent then None
          else Some (controlModeFallbackCommandValue joint1 mode), joint1))"

definition aligned :: "'l CanDriverJointConfig \<Rightarrow> dbl \<Rightarrow> bool" where
  "aligned joint cmdValue \<longleftrightarrow>
     isfinite cmdValue \<and> isfinite (controlModeActualFeedbackValue joint (joint_mode joint)) \<and>
     \<not> dlt (controlModeAlignmentTolerance joint (joint_mode joint))
         (dabs (dsub cmdValue (controlModeActualFeedbackValue joint (joint_mode joint))))"

definition limitPositionStep :: "'l joint_limits \<Rightarrow> WriteConfig \<Rightarrow> 'l CanDriverJointConfig \<Rightarrow> dbl \<Rightarrow> dbl" where
  "limitPositionStep lims config joint cmdValue =
     (if controlModeUsesPositionSemantics (joint_mode joint) \<and> dlt (Fin 0) (wc_maxPositionStepRad config) \<and>
         isfinite cmdValue \<and> isfinite (jc_pos joint)
      then let delta = dsub cmdValue (jc_pos joint);
               step = wc_maxPositionStepRad config;
               limited = (if dlt step (dabs delta)
                          then dadd (jc_pos joint) (if dlt delta (Fin 0) then dneg step else step) else cmdValue)
           in clampWithJointLimits lims joint limited
      else cmdValue)"

definition convert_command :: "'l CanDriverJointConfig \<Rightarrow> dbl \<Rightarrow> i32 \<Rightarrow> bool \<times> i32" where
  "convert_command joint cmdValue raw =
     scaleAndClampToInt32
       (if controlModeUsesPositionSemantics (joint_mode joint) then jointPositionToRawPositionCommand joint cmdValue else cmdValue)
       (controlModeScale joint (joint_mode joint)) raw"

text \<open>The body of the second loop: the joint, its raw command and whether it is valid.\<close>

definition prepare_joint ::
    "'l joint_limits \<Rightarrow> (int \<Rightarrow> dbl) \<Rightarrow> WriteConfig \<Rightarrow> int \<Rightarrow> bool \<Rightarrow> 'l CanDriverJointConfig \<Rightarrow> i32 \<Rightarrow>
     'l CanDriverJointConfig \<times> i32 \<times> bool" where
  "prepare_joint lims toSec config now activeDirectCommandPresent joint raw =
     (case choose_command toSec config now activeDirectCommandPresent joint of
        (None, joint1) \<Rightarrow> (joint1, raw, False)
      | (Some value, joint1) \<Rightarrow>
          let cmdValue = clampWithJointLimits lims joint1 value
          in if jc_requireCommandAlignment joint1 \<and> \<not> aligned joint1 cmdValue then (joint1, raw, False)
             else let joint2 = joint1\<lparr>jc_requireCommandAlignment := False\<rparr>
                  in case convert_command joint2 (limitPositionStep lims config joint2 cmdValue) raw of
                       (valid, raw1) \<Rightarrow> (joint2, raw1, valid))"

definition PrepareCommands ::
    "'l joint_limits \<Rightarrow> (int \<Rightarrow> dbl) \<Rightarrow> WriteConfig \<Rightarrow> int \<Rightarrow> ('l, 'w) io_cycle \<Rightarrow> ('l, 'w) io_cycle" where
  "PrepareCommands lims toSec config now s =
     (let (active, joints) = (if wc_debugBypassRosControl config then (False, ic_joints s)
                              else find_active_direct toSec config now (ic_joints s));
          results = map (\<lambda>i. prepare_joint lims toSec config now active (joints ! i) (ic_rawCommandBuffer s ! i))
                      [0..<length joints]
      in s\<lparr>ic_joints := map fst results,
           ic_rawCommandBuffer := map (\<lambda>r. fst (snd r)) results,
           ic_commandValidBuffer := map (\<lambda>r. snd (snd r)) results,
           ic_preparedCommandBuffer := map (\<lambda>i. \<lparr>pc_valid = snd (snd (results ! i)), pc_jointIndex = i,
               pc_motorId = jc_motorId (joints ! i),
               pc_route = controlModeDispatchRoute (joint_mode (joints ! i)), pc_jointName = jc_name (joints ! i)\<rparr>)
             [0..<length joints]\<rparr>)"

section \<open>Sending commands\<close>

definition sharedFeedbackFresh :: "AxisFeedbackState \<Rightarrow> int \<Rightarrow> int \<Rightarrow> bool" where
  "sharedFeedbackFresh feedback nowNs timeoutNs =
     (if \<not> fb_feedbackSeen feedback \<or> fb_lastRxSteadyNs feedback \<le> 0 then False
      else if timeoutNs \<le> 0 \<or> nowNs \<le> fb_lastRxSteadyNs feedback then True
      else nowNs - fb_lastRxSteadyNs feedback \<le> timeoutNs)"

definition clear_joint_command :: "'l CanDriverJointConfig \<Rightarrow> 'l CanDriverJointConfig" where
  "clear_joint_command joint =
     (let joint1 = joint\<lparr>jc_hasDirectPosCmd := False, jc_hasDirectVelCmd := False, jc_stopIssuedOnFault := False\<rparr>
      in if controlModeUsesVelocitySemantics (joint_mode joint) then joint1\<lparr>jc_velCmd := Fin 0\<rparr>
         else joint1\<lparr>jc_posCmd := jc_pos joint\<rparr>)"

definition clearGroupCommands :: "CanDriverDeviceProtocolGroup \<Rightarrow> ('l, 'w) io_cycle \<Rightarrow> ('l, 'w) io_cycle" where
  "clearGroupCommands grp s =
     fold (\<lambda>i s. s\<lparr>ic_joints := (ic_joints s)[i := clear_joint_command (ic_joints s ! i)],
                  ic_commandValidBuffer := (ic_commandValidBuffer s)[i := False]\<rparr>) (gr_jointIndices grp) s"

text \<open>Enabled and fault flag of a motor as the store has them, when its feedback is fresh.\<close>

definition motionStatusSnapshot ::
    "WriteConfig \<Rightarrow> CanDriverDeviceProtocolGroup \<Rightarrow> int \<Rightarrow> SharedDriverState option \<Rightarrow> motor_id \<Rightarrow> (bool \<times> bool) option" where
  "motionStatusSnapshot config grp nowNs sharedState mid =
     Option.bind sharedState (\<lambda>shared.
       case getAxisFeedback shared (MakeAxisKey (gr_canDevice grp) (gr_protocol grp) mid) of
         None \<Rightarrow> None
       | Some feedback \<Rightarrow> if \<not> sharedFeedbackFresh feedback nowNs (wc_feedbackFreshnessTimeoutNs config) then None
                          else Some (fb_enabled feedback, fb_fault feedback))"

definition on_world :: "('w \<Rightarrow> 'r \<times> 'w) \<Rightarrow> ('l, 'w) io_cycle \<Rightarrow> 'r \<times> ('l, 'w) io_cycle" where
  "on_world f s = (case f (ic_world s) of (r, w) \<Rightarrow> (r, s\<lparr>ic_world := w\<rparr>))"

text \<open>A flag from the snapshot, or from the protocol object; \<open>None\<close> when that throws.\<close>

definition ask_flag :: "'w motor_action \<Rightarrow> CanDriverDeviceProtocolGroup \<Rightarrow> motor_id \<Rightarrow> bool option \<Rightarrow>
    ('l, 'w) io_cycle \<Rightarrow> bool option \<times> ('l, 'w) io_cycle" where
  "ask_flag query grp mid known s =
     (case known of
        Some b \<Rightarrow> (Some b, s)
      | None \<Rightarrow> (case on_world (query (gr_canDevice grp) (gr_protocol grp) mid) s of
                  (Returns b, s1) \<Rightarrow> (Some b, s1)
                | (Throws, s1) \<Rightarrow> (None, s1)))"

definition send_motion :: "'w motor_io \<Rightarrow> CanDriverDeviceProtocolGroup \<Rightarrow> CanDriverPreparedCommand \<Rightarrow> i32 \<Rightarrow>
    ('l, 'w) io_cycle \<Rightarrow> ('l, 'w) io_cycle" where
  "send_motion io grp prepared raw s =
     (let write = (case pc_route prepared of
                     RouteVelocity \<Rightarrow> io_setVelocity io
                   | RouteCsp \<Rightarrow> io_quickSetPosition io
                   | RoutePosition \<Rightarrow> io_setPosition io)
      in snd (on_world (write (gr_canDevice grp) (gr_protocol grp) (pc_motorId prepared) raw) s))"

definition dispatch_enabled :: "WriteConfig \<Rightarrow> 'w motor_io \<Rightarrow> CanDriverDeviceProtocolGroup \<Rightarrow> (bool \<times> bool) option \<Rightarrow> nat \<Rightarrow>
    ('l, 'w) io_cycle \<Rightarrow> ('l, 'w) io_cycle" where
  "dispatch_enabled config io grp status index s =
     (let prepared = ic_preparedCommandBuffer s ! index
      in case ask_flag (io_isEnabled io) grp (pc_motorId prepared) (map_option fst status) s of
           (None, s1) \<Rightarrow> s1
         | (Some enabled, s1) \<Rightarrow>
             if wc_safetyRequireEnabledForMotion config \<and> \<not> enabled then s1
             else send_motion io grp prepared (ic_rawCommandBuffer s1 ! index) s1)"

definition dispatch_joint :: "WriteConfig \<Rightarrow> 'w motor_io \<Rightarrow> CanDriverDeviceProtocolGroup \<Rightarrow> (nat \<Rightarrow> (bool \<times> bool) option) \<Rightarrow> nat \<Rightarrow>
    ('l, 'w) io_cycle \<Rightarrow> ('l, 'w) io_cycle" where
  "dispatch_joint config io grp statuses index s =
     (let prepared = ic_preparedCommandBuffer s ! index; status = statuses index
      in if \<not> pc_valid prepared \<or> \<not> ic_commandValidBuffer s ! index then s
         else case ask_flag (io_hasFault io) grp (pc_motorId prepared) (map_option snd status) s of
           (None, s1) \<Rightarrow> s1
         | (Some hasFault, s1) \<Rightarrow>
             if \<not> wc_safetyStopOnFault config then dispatch_enabled config io grp status index s1
             else let needIssueStop = (hasFault \<and> \<not> jc_stopIssuedOnFault (ic_joints s1 ! index));
                      s2 = s1\<lparr>ic_joints := (ic_joints s1)[index := (ic_joints s1 ! index)\<lparr>jc_stopIssuedOnFault := hasFault\<rparr>]\<rparr>
                  in if \<not> hasFault then dispatch_enabled config io grp status index s2
                     else let s3 = s2\<lparr>ic_anyFaultObserved := True\<rparr>
                          in if needIssueStop
                             then snd (on_world (io_Stop io (gr_canDevice grp) (gr_protocol grp) (pc_motorId prepared)) s3)
                             else s3)"

text \<open>\<open>holdCommands\<close> and \<open>armFreshCommandLatch\<close>; the callbacks of the gate work on joints and valid flags.\<close>

definition hold_and_arm :: "('l, 'w) io_cycle \<Rightarrow> ('l, 'w) io_cycle" where
  "hold_and_arm s =
     (let held = holdCommands (ic_commandGate s) (ic_joints s, ic_commandValidBuffer s)
      in s\<lparr>ic_joints := fst held, ic_commandValidBuffer := snd held,
           ic_commandGate := armFreshCommandLatch held (ic_commandGate s)\<rparr>)"

text \<open>The snapshots of the joints of a group, by index.\<close>

definition motion_statuses :: "'w IDeviceManager \<Rightarrow> ('w \<Rightarrow> int) \<Rightarrow> WriteConfig \<Rightarrow> CanDriverDeviceProtocolGroup \<Rightarrow>
    ('l, 'w) io_cycle \<Rightarrow> nat \<Rightarrow> (bool \<times> bool) option" where
  "motion_statuses dm clock config grp s =
     (let nowNs = clock (ic_world s); shared = idm_getSharedDriverState dm (ic_world s)
      in (\<lambda>i. if i \<in> set (gr_jointIndices grp)
              then motionStatusSnapshot config grp nowNs shared (pc_motorId (ic_preparedCommandBuffer s ! i))
              else None))"

definition dispatch_group :: "'w IDeviceManager \<Rightarrow> 'w motor_io \<Rightarrow> ('w \<Rightarrow> int) \<Rightarrow> WriteConfig \<Rightarrow> CanDriverDeviceProtocolGroup \<Rightarrow>
    ('l, 'w) io_cycle \<Rightarrow> ('l, 'w) io_cycle" where
  "dispatch_group dm io clock config grp s =
     (case on_world (idm_isDeviceReady dm (gr_canDevice grp)) s of
        (isReady, s1) \<Rightarrow>
          case observeDeviceReady (gr_canDevice grp) isReady (ic_commandGate s1) of
            (deviceEvent, gate) \<Rightarrow>
              let s2 = s1\<lparr>ic_commandGate := gate\<rparr>
              in if \<not> isReady then clearGroupCommands grp s2
                 else if wc_safetyHoldAfterDeviceRecover config \<and> deviceEvent = EventRecovered then hold_and_arm s2
                 else let statuses = motion_statuses dm clock config grp s2
                      in if \<not> idm_getProtocol dm (gr_canDevice grp) (gr_protocol grp) (ic_world s2) \<or>
                            \<not> idm_getDeviceMutex dm (gr_canDevice grp) (ic_world s2)
                         then s2
                         else fold (dispatch_joint config io grp statuses) (gr_jointIndices grp) s2)"

definition DispatchPreparedCommands :: "'w IDeviceManager \<Rightarrow> 'w motor_io \<Rightarrow> ('w \<Rightarrow> int) \<Rightarrow> WriteConfig \<Rightarrow>
    CanDriverDeviceProtocolGroup list \<Rightarrow> ('l, 'w) io_cycle \<Rightarrow> ('l, 'w) io_cycle" where
  "DispatchPreparedCommands dm io clock config groups s = fold (dispatch_group dm io clock config) groups s"

section \<open>Status messages\<close>

definition MODE_UNKNOWN :: u8 where "MODE_UNKNOWN = 0"
definition MODE_POSITION :: u8 where "MODE_POSITION = 1"
definition MODE_VELOCITY :: u8 where "MODE_VELOCITY = 2"
definition MODE_CSP :: u8 where "MODE_CSP = 3"

record MotorState =
  msg_motor_id :: u16
  msg_name :: string
  msg_mode :: u8
  msg_enabled :: bool
  msg_fault :: bool
  msg_position :: i32
  msg_velocity :: i32
  msg_current :: i16
  msg_mode_valid :: bool
  msg_status_valid :: bool
  msg_position_valid :: bool
  msg_velocity_valid :: bool
  msg_current_valid :: bool
  msg_feedback_fresh :: bool

fun motorStateModeFromProtocolMode :: "MotorMode \<Rightarrow> u8" where
  "motorStateModeFromProtocolMode ModeVelocity = MODE_VELOCITY"
| "motorStateModeFromProtocolMode ModeCSP = MODE_CSP"
| "motorStateModeFromProtocolMode ModePosition = MODE_POSITION"

text \<open>The feedback behind the message of a joint: that of the last group which lists it, if it has any.\<close>

definition status_feedback ::
    "CanDriverDeviceProtocolGroup list \<Rightarrow> 'l CanDriverJointConfig list \<Rightarrow> SharedDriverState option \<Rightarrow> nat \<rightharpoonup> AxisFeedbackState" where
  "status_feedback groups joints sharedState =
     fold (\<lambda>grp snapshots. fold (\<lambda>i snapshots.
         case Option.bind sharedState (\<lambda>shared. getAxisFeedback shared
                (MakeAxisKey (gr_canDevice grp) (gr_protocol grp) (jc_motorId (joints ! i)))) of
           None \<Rightarrow> snapshots
         | Some feedback \<Rightarrow> snapshots(i \<mapsto> feedback)) (gr_jointIndices grp) snapshots) groups Map.empty"

definition motor_state :: "int \<Rightarrow> int \<Rightarrow> 'l CanDriverJointConfig \<Rightarrow> AxisFeedbackState option \<Rightarrow> MotorState" where
  "motor_state nowNs timeoutNs joint fb =
     (let blank = \<lparr>msg_motor_id = jc_motorId joint, msg_name = jc_name joint, msg_mode = MODE_UNKNOWN, msg_enabled = False,
                   msg_fault = False, msg_position = 0, msg_velocity = 0, msg_current = 0, msg_mode_valid = False,
                   msg_status_valid = False, msg_position_valid = False, msg_velocity_valid = False,
                   msg_current_valid = False, msg_feedback_fresh = False\<rparr>
      in case fb of
           None \<Rightarrow> blank
         | Some feedback \<Rightarrow>
             let statusValid = (fb_enabledValid feedback \<and> fb_faultValid feedback)
             in blank\<lparr>msg_position := clampToInt32 (dbl_of_int (fb_position feedback)),
                  msg_velocity := clampToInt32 (dbl_of_int (sint (fb_velocity feedback))),
                  msg_current := clampToInt16 (dbl_of_int (sint (fb_current feedback))),
                  msg_mode := (if fb_modeValid feedback then motorStateModeFromProtocolMode (fb_mode feedback) else MODE_UNKNOWN),
                  msg_enabled := (statusValid \<and> fb_enabled feedback),
                  msg_fault := (statusValid \<and> fb_fault feedback),
                  msg_mode_valid := fb_modeValid feedback, msg_status_valid := statusValid,
                  msg_position_valid := fb_positionValid feedback, msg_velocity_valid := fb_velocityValid feedback,
                  msg_current_valid := fb_currentValid feedback,
                  msg_feedback_fresh := sharedFeedbackFresh feedback nowNs timeoutNs\<rparr>)"

definition BuildMotorStateMessages ::
    "int \<Rightarrow> int \<Rightarrow> CanDriverDeviceProtocolGroup list \<Rightarrow> 'l CanDriverJointConfig list \<Rightarrow> SharedDriverState option \<Rightarrow>
     MotorState list \<times> bool" where
  "BuildMotorStateMessages nowNs timeoutNs groups joints sharedState =
     (let snapshots = status_feedback groups joints sharedState;
          messages = map (\<lambda>i. motor_state nowNs timeoutNs (joints ! i) (snapshots i)) [0..<length joints]
      in (messages, list_ex (\<lambda>m. msg_status_valid m \<and> msg_fault m) messages))"

section \<open>What is sent to the motors\<close>

text \<open>
  The same calls on a world that also keeps a list of the calls made on the protocol objects while
  commands are sent: the questions with their answers, the stops and the motion commands.
\<close>

datatype io_call =
  CallHasFault string CanType motor_id outcome
| CallIsEnabled string CanType motor_id outcome
| CallStop string CanType motor_id
| CallMove PreparedCommandRoute string CanType motor_id i32

definition recorded_io :: "'w motor_io \<Rightarrow> ('w \<times> io_call list) motor_io" where
  "recorded_io io = \<lparr>
     io_getPosition = (\<lambda>d t m. on_fst (io_getPosition io d t m)),
     io_getVelocity = (\<lambda>d t m. on_fst (io_getVelocity io d t m)),
     io_getCurrent = (\<lambda>d t m. on_fst (io_getCurrent io d t m)),
     io_hasFault = (\<lambda>d t m. noting (CallHasFault d t m) (io_hasFault io d t m)),
     io_isEnabled = (\<lambda>d t m. noting (CallIsEnabled d t m) (io_isEnabled io d t m)),
     io_Stop = (\<lambda>d t m. noting (\<lambda>_. CallStop d t m) (io_Stop io d t m)),
     io_setVelocity = (\<lambda>d t m v. noting (\<lambda>_. CallMove RouteVelocity d t m v) (io_setVelocity io d t m v)),
     io_setPosition = (\<lambda>d t m v. noting (\<lambda>_. CallMove RoutePosition d t m v) (io_setPosition io d t m v)),
     io_quickSetPosition = (\<lambda>d t m v. noting (\<lambda>_. CallMove RouteCsp d t m v) (io_quickSetPosition io d t m v))\<rparr>"

text \<open>The calls noted in a state of the recording world.\<close>

abbreviation calls_of :: "('l, 'w \<times> io_call list) io_cycle \<Rightarrow> io_call list" where
  "calls_of s \<equiv> snd (ic_world s)"

text \<open>A flag is as it should be: in the snapshot, or when the motor was asked.\<close>

definition flag_was :: "bool \<Rightarrow> (outcome \<Rightarrow> io_call) \<Rightarrow> io_call set \<Rightarrow> bool option \<Rightarrow> bool" where
  "flag_was b ask before known \<longleftrightarrow> (case known of Some k \<Rightarrow> k = b | None \<Rightarrow> ask (Returns b) \<in> before)"

text \<open>What a motion call to the motor of the joint \<open>i\<close> needs, after the calls of \<open>before\<close>.\<close>

definition allowed_move :: "WriteConfig \<Rightarrow> CanDriverDeviceProtocolGroup \<Rightarrow> (nat \<Rightarrow> (bool \<times> bool) option) \<Rightarrow>
    ('l, 'v) io_cycle \<Rightarrow> nat \<Rightarrow> io_call set \<Rightarrow> io_call \<Rightarrow> bool" where
  "allowed_move config grp statuses s i before call \<longleftrightarrow>
     (let prepared = ic_preparedCommandBuffer s ! i; mid = pc_motorId prepared
      in pc_valid prepared \<and> ic_commandValidBuffer s ! i \<and>
         call = CallMove (pc_route prepared) (gr_canDevice grp) (gr_protocol grp) mid (ic_rawCommandBuffer s ! i) \<and>
         (wc_safetyStopOnFault config \<longrightarrow>
            flag_was False (CallHasFault (gr_canDevice grp) (gr_protocol grp) mid) before (map_option snd (statuses i))) \<and>
         (wc_safetyRequireEnabledForMotion config \<longrightarrow>
            flag_was True (CallIsEnabled (gr_canDevice grp) (gr_protocol grp) mid) before (map_option fst (statuses i))))"

definition same_buffers :: "('l, 'w) io_cycle \<Rightarrow> ('l, 'w) io_cycle \<Rightarrow> bool" where
  "same_buffers s s' \<longleftrightarrow> ic_preparedCommandBuffer s' = ic_preparedCommandBuffer s \<and>
     ic_commandValidBuffer s' = ic_commandValidBuffer s \<and> ic_rawCommandBuffer s' = ic_rawCommandBuffer s"

lemma allowed_same: "same_buffers s s' \<Longrightarrow> allowed_move config grp statuses s' = allowed_move config grp statuses s"
  by (simp add: allowed_move_def same_buffers_def fun_eq_iff)

text \<open>Every motion call of a list satisfies \<open>P\<close>, given the calls before it.\<close>

fun moves_ok :: "(io_call set \<Rightarrow> io_call \<Rightarrow> bool) \<Rightarrow> io_call set \<Rightarrow> io_call list \<Rightarrow> bool" where
  "moves_ok P before [] = True"
| "moves_ok P before (CallMove r d t m v # cs) =
     (P before (CallMove r d t m v) \<and> moves_ok P (insert (CallMove r d t m v) before) cs)"
| "moves_ok P before (c # cs) = moves_ok P (insert c before) cs"

lemma moves_ok_append: "moves_ok P A (xs @ ys) \<longleftrightarrow> moves_ok P A xs \<and> moves_ok P (A \<union> set xs) ys"
  by (induction P A xs rule: moves_ok.induct) auto

lemma moves_ok_at: "moves_ok P A (pre @ CallMove r d t m v # post) \<Longrightarrow> P (A \<union> set pre) (CallMove r d t m v)"
  by (simp add: moves_ok_append)

lemma moves_ok_weaken: "moves_ok P A cs \<Longrightarrow> (\<And>A c. P A c \<Longrightarrow> Q A c) \<Longrightarrow> moves_ok Q A cs"
  by (induction P A cs rule: moves_ok.induct) auto

text \<open>A step keeps the buffers and adds calls, of which the motion calls satisfy \<open>P\<close>.\<close>

definition adds :: "(io_call set \<Rightarrow> io_call \<Rightarrow> bool) \<Rightarrow> ('l, 'w \<times> io_call list) io_cycle \<Rightarrow> ('l, 'w \<times> io_call list) io_cycle \<Rightarrow> bool" where
  "adds P s s' \<longleftrightarrow> same_buffers s s' \<and> (\<exists>new. calls_of s' = calls_of s @ new \<and> moves_ok P (set (calls_of s)) new)"

lemma adds_refl: "adds P s s"
  by (simp add: adds_def same_buffers_def)

lemma adds_trans:
  assumes "adds P s s1" and "adds P s1 s2" shows "adds P s s2"
proof -
  obtain n1 n2 where "calls_of s1 = calls_of s @ n1" "moves_ok P (set (calls_of s)) n1"
    "calls_of s2 = calls_of s1 @ n2" "moves_ok P (set (calls_of s1)) n2"
    using assms by (auto simp: adds_def)
  then have "calls_of s2 = calls_of s @ n1 @ n2" "moves_ok P (set (calls_of s)) (n1 @ n2)"
    by (auto simp: moves_ok_append)
  then show ?thesis using assms unfolding adds_def same_buffers_def by auto
qed

lemma adds_weaken: "adds P s s' \<Longrightarrow> (\<And>A c. P A c \<Longrightarrow> Q A c) \<Longrightarrow> adds Q s s'"
  unfolding adds_def using moves_ok_weaken by blast

lemma ask_flag_adds:
  assumes "query' = (\<lambda>d t m. noting (ask d t m) (query d t m))" and "\<And>d t m r. \<not> (\<exists>k e u n v. ask d t m r = CallMove k e u n v)"
    and "ask_flag query' grp mid known s = (r, s1)"
  shows "adds P s s1" and "set (calls_of s) \<subseteq> set (calls_of s1)" and "ic_joints s1 = ic_joints s"
    and "r = Some b \<Longrightarrow> flag_was b (ask (gr_canDevice grp) (gr_protocol grp) mid) (set (calls_of s1)) known"
proof -
  have one: "moves_ok P A [ask d t m o']" for A d t m o'
    using assms(2) [of d t m o'] by (cases "ask d t m o'") auto
  show "adds P s s1" "set (calls_of s) \<subseteq> set (calls_of s1)" "ic_joints s1 = ic_joints s"
    "r = Some b \<Longrightarrow> flag_was b (ask (gr_canDevice grp) (gr_protocol grp) mid) (set (calls_of s1)) known"
    using assms(1,3) one
    by (auto simp: ask_flag_def on_world_def noting_def adds_def same_buffers_def flag_was_def
        split: option.splits prod.splits outcome.splits)
qed

lemma send_adds:
  "adds P s (send_motion (recorded_io io) grp prepared raw s) \<longleftrightarrow>
     P (set (calls_of s)) (CallMove (pc_route prepared) (gr_canDevice grp) (gr_protocol grp) (pc_motorId prepared) raw)"
  by (auto simp: send_motion_def recorded_io_def on_world_def noting_def adds_def same_buffers_def Let_def
      split: prod.splits PreparedCommandRoute.splits)

lemma flag_was_mono: "flag_was b ask A known \<Longrightarrow> A \<subseteq> B \<Longrightarrow> flag_was b ask B known"
  by (auto simp: flag_was_def split: option.splits)

lemma dispatch_enabled_adds:
  assumes "pc_valid (ic_preparedCommandBuffer s ! i)" and "ic_commandValidBuffer s ! i"
    and "wc_safetyStopOnFault config \<longrightarrow>
      flag_was False (CallHasFault (gr_canDevice grp) (gr_protocol grp) (pc_motorId (ic_preparedCommandBuffer s ! i)))
        (set (calls_of s)) (map_option snd (statuses i))"
  shows "adds (allowed_move config grp statuses s i) s (dispatch_enabled config (recorded_io io) grp (statuses i) i s)"
proof -
  let ?p = "ic_preparedCommandBuffer s ! i"
  obtain r s1 where a: "ask_flag (io_isEnabled (recorded_io io)) grp (pc_motorId ?p) (map_option fst (statuses i)) s = (r, s1)"
    by fastforce
  have q: "io_isEnabled (recorded_io io) = (\<lambda>d t m. noting (CallIsEnabled d t m) (io_isEnabled io d t m))"
    by (simp add: recorded_io_def)
  note f = ask_flag_adds [OF q _ a, simplified]
  have b: "same_buffers s s1" using f(1) by (simp add: adds_def)
  show ?thesis
  proof (cases r)
    case None
    then show ?thesis using a f(1) by (simp add: dispatch_enabled_def Let_def)
  next
    case (Some en)
    have "adds (allowed_move config grp statuses s i) s1 (send_motion (recorded_io io) grp ?p (ic_rawCommandBuffer s1 ! i) s1)"
      if "\<not> (wc_safetyRequireEnabledForMotion config \<and> \<not> en)"
      unfolding send_adds allowed_move_def Let_def
      using assms f(4) [OF Some] b that flag_was_mono [OF _ f(2)] by (auto simp: same_buffers_def)
    with Some a f(1) show ?thesis by (auto simp: dispatch_enabled_def Let_def intro: adds_trans)
  qed
qed

lemma dispatch_joint_adds:
  "adds (allowed_move config grp statuses s i) s (dispatch_joint config (recorded_io io) grp statuses i s)"
proof (cases "pc_valid (ic_preparedCommandBuffer s ! i) \<and> ic_commandValidBuffer s ! i")
  case True
  let ?p = "ic_preparedCommandBuffer s ! i"
  let ?P = "allowed_move config grp statuses s i"
  obtain r s1 where a: "ask_flag (io_hasFault (recorded_io io)) grp (pc_motorId ?p) (map_option snd (statuses i)) s = (r, s1)"
    by fastforce
  have q: "io_hasFault (recorded_io io) = (\<lambda>d t m. noting (CallHasFault d t m) (io_hasFault io d t m))"
    by (simp add: recorded_io_def)
  note f = ask_flag_adds [OF q _ a, simplified]
  show ?thesis
  proof (cases r)
    case None
    then show ?thesis using a f(1) True by (simp add: dispatch_joint_def Let_def)
  next
    case (Some flt)
    have go: "adds ?P s (dispatch_enabled config (recorded_io io) grp (statuses i) i s2)"
      if s2: "adds ?P s s2" and "\<not> (wc_safetyStopOnFault config \<and> flt)" and "calls_of s2 = calls_of s1" for s2
    proof -
      have "same_buffers s s2" using s2 by (simp add: adds_def)
      then have "adds ?P s2 (dispatch_enabled config (recorded_io io) grp (statuses i) i s2)"
        using dispatch_enabled_adds [of s2 i config grp statuses io] True that(2,3) f(4) [OF Some]
        by (auto simp: allowed_same) (auto simp: same_buffers_def)
      with s2 show ?thesis by (rule adds_trans)
    qed
    let ?s2 = "s1\<lparr>ic_joints := (ic_joints s1)[i := (ic_joints s1 ! i)\<lparr>jc_stopIssuedOnFault := flt\<rparr>]\<rparr>"
    have s2: "adds ?P s ?s2" using f(1) by (auto simp: adds_def same_buffers_def)
    have stop: "adds ?P ?s2 (snd (on_world (io_Stop (recorded_io io) (gr_canDevice grp) (gr_protocol grp) (pc_motorId ?p))
        (?s2\<lparr>ic_anyFaultObserved := True\<rparr>)))"
      by (auto simp: recorded_io_def on_world_def noting_def adds_def same_buffers_def split: prod.splits)
    have none: "adds ?P ?s2 (?s2\<lparr>ic_anyFaultObserved := True\<rparr>)" by (simp add: adds_def same_buffers_def)
    show ?thesis
      using True Some a go [OF f(1)] go [OF s2] adds_trans [OF s2 stop] adds_trans [OF s2 none]
      by (auto simp: dispatch_joint_def Let_def)
  qed
qed (auto simp: dispatch_joint_def adds_refl Let_def)

lemma dispatch_joints_adds:
  "adds (\<lambda>before call. \<exists>i \<in> set is. allowed_move config grp statuses s i before call) s
     (fold (dispatch_joint config (recorded_io io) grp statuses) is s)"
proof (induction "is" arbitrary: s)
  case (Cons i ks)
  let ?s1 = "dispatch_joint config (recorded_io io) grp statuses i s"
  let ?Q = "\<lambda>before call. \<exists>j \<in> set (i # ks). allowed_move config grp statuses s j before call"
  have one: "adds (allowed_move config grp statuses s i) s ?s1" by (rule dispatch_joint_adds)
  then have b: "same_buffers s ?s1" by (simp add: adds_def)
  have "adds ?Q s ?s1" using one by (rule adds_weaken) simp
  moreover have "adds ?Q ?s1 (fold (dispatch_joint config (recorded_io io) grp statuses) ks ?s1)"
    using Cons.IH [of ?s1] unfolding allowed_same [OF b] by (rule adds_weaken) auto
  ultimately show ?case using adds_trans by simp
qed (simp add: adds_refl)

section \<open>Properties\<close>

lemma fold_keeps: "(\<And>x s. x \<in> set xs \<Longrightarrow> f (g x s) = f s) \<Longrightarrow> f (fold g xs s) = f s"
  by (induction xs arbitrary: s) simp_all

lemma clear_group_world: "ic_world (clearGroupCommands grp s) = ic_world s"
  unfolding clearGroupCommands_def by (rule fold_keeps) simp

lemma hold_and_arm_world: "ic_world (hold_and_arm s) = ic_world s"
  by (simp add: hold_and_arm_def Let_def)

text \<open>The cases of a group, with the device's answer and event given.\<close>

lemma dispatch_group_cases:
  assumes "on_world (idm_isDeviceReady dm (gr_canDevice grp)) s = (isReady, s1)"
    and "observeDeviceReady (gr_canDevice grp) isReady (ic_commandGate s1) = (event, gate)"
    and "s2 = s1\<lparr>ic_commandGate := gate\<rparr>"
  shows "dispatch_group dm io clock config grp s =
    (if \<not> isReady then clearGroupCommands grp s2
     else if wc_safetyHoldAfterDeviceRecover config \<and> event = EventRecovered then hold_and_arm s2
     else if \<not> idm_getProtocol dm (gr_canDevice grp) (gr_protocol grp) (ic_world s2) \<or>
             \<not> idm_getDeviceMutex dm (gr_canDevice grp) (ic_world s2) then s2
     else fold (dispatch_joint config io grp (motion_statuses dm clock config grp s2)) (gr_jointIndices grp) s2)"
  using assms(1,2) unfolding assms(3) by (simp add: dispatch_group_def Let_def)


text \<open>A device manager and protocol objects that answer at once, for a group of one joint.\<close>

definition witness_dm :: "unit IDeviceManager" where
  "witness_dm = \<lparr>idm_initDevice = (\<lambda>_ _ _ w. (True, w)), idm_shutdownDevice = (\<lambda>_ w. w), idm_shutdownAll = (\<lambda>w. w),
     idm_getProtocol = (\<lambda>_ _ _. True), idm_getDeviceMutex = (\<lambda>_ _. True), idm_isDeviceReady = (\<lambda>_ w. (True, w)),
     idm_getSharedDriverState = (\<lambda>_. None), pr_Enable = (\<lambda>_ _ _ w. (Returns True, w)),
     pr_Disable = (\<lambda>_ _ _ w. (Returns True, w)), pr_Stop = (\<lambda>_ _ _ w. (Returns True, w)),
     pr_ResetFault = (\<lambda>_ _ _ w. (Returns True, w)), pr_hasFault = (\<lambda>_ _ _ w. (False, w)),
     pr_isEnabled = (\<lambda>_ _ _ w. (True, w))\<rparr>"

definition witness_io :: "unit motor_io" where
  "witness_io = \<lparr>io_getPosition = (\<lambda>_ _ _ w. (0, w)), io_getVelocity = (\<lambda>_ _ _ w. (0, w)), io_getCurrent = (\<lambda>_ _ _ w. (0, w)),
     io_hasFault = (\<lambda>_ _ _ w. (Returns False, w)), io_isEnabled = (\<lambda>_ _ _ w. (Returns True, w)),
     io_Stop = (\<lambda>_ _ _ w. (Returns True, w)), io_setVelocity = (\<lambda>_ _ _ _ w. (Returns True, w)),
     io_setPosition = (\<lambda>_ _ _ _ w. (Returns True, w)), io_quickSetPosition = (\<lambda>_ _ _ _ w. (Returns True, w))\<rparr>"

definition witness_group :: CanDriverDeviceProtocolGroup where
  "witness_group = \<lparr>gr_canDevice = ''can0'', gr_protocol = MT, gr_jointIndices = [0]\<rparr>"

definition witness_cycle :: "(unit, unit \<times> io_call list) io_cycle" where
  "witness_cycle = \<lparr>ic_joints = [default_joint ()], ic_rawCommandBuffer = [7], ic_commandValidBuffer = [True],
     ic_preparedCommandBuffer = [\<lparr>pc_valid = True, pc_jointIndex = 0, pc_motorId = LeftWheel, pc_route = RouteVelocity,
       pc_jointName = ''wheel''\<rparr>],
     ic_commandGate = default_CommandGate, ic_anyFaultObserved = False, ic_world = ((), [])\<rparr>"


text \<open>What a valid command went through.\<close>

lemma choose_command_joint:
  "choose_command toSec config now active joint = (v, joint1) \<Longrightarrow>
   \<exists>p q. joint1 = joint\<lparr>jc_hasDirectPosCmd := p, jc_hasDirectVelCmd := q\<rparr>"
  by (cases joint) (auto simp: choose_command_def clearDirectCommandForControlMode_def Let_def split: if_splits)

lemma choose_command_value:
  "choose_command toSec config now active joint = (Some v, joint1) \<Longrightarrow>
   v \<in> {controlModeDirectCommandValue joint (joint_mode joint), controlModeFallbackCommandValue joint (joint_mode joint)}"
  by (auto simp: choose_command_def clearDirectCommandForControlMode_def controlModeFallbackCommandValue_def Let_def
      split: if_splits)

lemma flags_irrelevant:
  "joint_mode (joint\<lparr>jc_hasDirectPosCmd := p, jc_hasDirectVelCmd := q\<rparr>) = joint_mode joint"
  "joint_mode (joint\<lparr>jc_requireCommandAlignment := r\<rparr>) = joint_mode joint"
  "clampWithJointLimits lims (joint\<lparr>jc_hasDirectPosCmd := p, jc_hasDirectVelCmd := q\<rparr>) = clampWithJointLimits lims joint"
  "clampWithJointLimits lims (joint\<lparr>jc_requireCommandAlignment := r\<rparr>) = clampWithJointLimits lims joint"
  "limitPositionStep lims config (joint\<lparr>jc_hasDirectPosCmd := p, jc_hasDirectVelCmd := q\<rparr>) = limitPositionStep lims config joint"
  "limitPositionStep lims config (joint\<lparr>jc_requireCommandAlignment := r\<rparr>) = limitPositionStep lims config joint"
  "convert_command (joint\<lparr>jc_hasDirectPosCmd := p, jc_hasDirectVelCmd := q\<rparr>) = convert_command joint"
  "convert_command (joint\<lparr>jc_requireCommandAlignment := r\<rparr>) = convert_command joint"
  "aligned (joint\<lparr>jc_hasDirectPosCmd := p, jc_hasDirectVelCmd := q\<rparr>) = aligned joint"
  by (simp_all add: joint_mode_def clampWithJointLimits_def limitPositionStep_def convert_command_def aligned_def fun_eq_iff
      jointPositionToRawPositionCommand_def controlModeScale_def effectivePositionScale_def effectiveVelocityScale_def
      controlModeActualFeedbackValue_def controlModeAlignmentTolerance_def Let_def cong: if_cong)

lemma valid_commandE:
  assumes "prepare_joint lims toSec config now active joint raw = (joint1, raw1, True)"
  obtains v p q where
    "v \<in> {controlModeDirectCommandValue joint (joint_mode joint), controlModeFallbackCommandValue joint (joint_mode joint)}"
    "joint1 = joint\<lparr>jc_hasDirectPosCmd := p, jc_hasDirectVelCmd := q, jc_requireCommandAlignment := False\<rparr>"
    "jc_requireCommandAlignment joint \<Longrightarrow> aligned joint (clampWithJointLimits lims joint v)"
    "convert_command joint (limitPositionStep lims config joint (clampWithJointLimits lims joint v)) raw = (True, raw1)"
proof -
  obtain v joint0 where c: "choose_command toSec config now active joint = (Some v, joint0)"
    using assms by (auto simp: prepare_joint_def split: prod.splits option.splits)
  from choose_command_joint [OF this] obtain p q where j: "joint0 = joint\<lparr>jc_hasDirectPosCmd := p, jc_hasDirectVelCmd := q\<rparr>"
    by blast
  show thesis
    by (rule that [OF choose_command_value [OF c], where p = p and q = q])
      (use assms in \<open>auto simp: prepare_joint_def c j flags_irrelevant Let_def split: if_splits prod.splits\<close>)
qed

lemma clamp_within:
  assumes "controlModeUsesPositionSemantics (joint_mode joint)" and "jc_hasLimits joint"
    and "jl_has_position_limits lims (jc_limits joint)"
    and "jl_min_position lims (jc_limits joint) = Fin lo" and "jl_max_position lims (jc_limits joint) = Fin hi" and "lo \<le> hi"
    and "isfinite (clampWithJointLimits lims joint v)"
  shows "\<exists>c. clampWithJointLimits lims joint v = Fin c \<and> lo \<le> c \<and> c \<le> hi"
proof (cases v)
  case (Fin x)
  then show ?thesis using assms by (auto simp: clampWithJointLimits_def dclamp_def controlModeUsesPositionSemantics_def)
qed (use assms in \<open>simp_all add: clampWithJointLimits_def\<close>)

lemma converted_finite:
  assumes "convert_command joint v raw = (True, raw1)" and "controlModeUsesPositionSemantics (joint_mode joint)"
  shows "isfinite v"
proof (rule ccontr)
  assume "\<not> isfinite v"
  then have "\<not> isfinite (dsub v z)" for z by (cases v; cases z) (simp_all add: dsub_def)
  then show False
    using assms by (simp add: convert_command_def jointPositionToRawPositionCommand_def scaleAndClampToInt32_def)
qed

text \<open>
  C15: a position command sent to a joint with position limits lies within them, whatever was asked
  for, by whom, and however far the step limit moved it; only a command that is not a number of
  finite size escapes, and such a command is never valid.
\<close>

theorem position_command_within_limits:
  assumes "prepare_joint lims toSec config now active joint raw = (joint1, raw1, True)"
    and "controlModeUsesPositionSemantics (joint_mode joint)" and "jc_hasLimits joint"
    and "jl_has_position_limits lims (jc_limits joint)"
    and "jl_min_position lims (jc_limits joint) = Fin lo" and "jl_max_position lims (jc_limits joint) = Fin hi" and "lo \<le> hi"
  shows "\<exists>c. lo \<le> c \<and> c \<le> hi \<and> (True, raw1) =
    scaleAndClampToInt32 (jointPositionToRawPositionCommand joint (Fin c)) (effectivePositionScale joint) raw"
proof -
  from valid_commandE [OF assms(1)] obtain v where
    c: "convert_command joint (limitPositionStep lims config joint (clampWithJointLimits lims joint v)) raw = (True, raw1)"
    by blast
  obtain y where y: "limitPositionStep lims config joint (clampWithJointLimits lims joint v) = clampWithJointLimits lims joint y"
    by (simp only: limitPositionStep_def Let_def split: if_split_asm) (metis (full_types))
  have "isfinite (clampWithJointLimits lims joint y)" using converted_finite [OF c assms(2)] by (simp add: y)
  from clamp_within [OF assms(2-7) this] obtain x where
    "clampWithJointLimits lims joint y = Fin x" "lo \<le> x" "x \<le> hi" by blast
  with c y assms(2) show ?thesis
    by (auto simp: convert_command_def controlModeScale_def controlModeUsesPositionSemantics_def)
qed

definition witness_limits :: "unit joint_limits" where
  "witness_limits = \<lparr>jl_has_velocity_limits = (\<lambda>_. True), jl_max_velocity = (\<lambda>_. Fin 2),
     jl_has_position_limits = (\<lambda>_. True), jl_min_position = (\<lambda>_. Fin 0), jl_max_position = (\<lambda>_. Fin 1)\<rparr>"

definition limited_joint :: "unit CanDriverJointConfig" where
  "limited_joint = (default_joint ())\<lparr>jc_controlMode := ''position'', jc_posCmd := Fin 5, jc_hasLimits := True\<rparr>"

lemma clamp_small: "clampToInt32 (Fin 1) = 1" "clampToInt32 (Fin 0) = 0"
proof -
  show "clampToInt32 (Fin 1) = 1" "clampToInt32 (Fin 0) = 0"
    using sint_clampToInt32_Fin [of 1] sint_clampToInt32_Fin [of 0] round_away_int [of 1] round_away_int [of 0]
    by (intro signed_word_eqI; simp)+
qed

theorem position_command_within_limits_witness:
  "\<exists>c. 0 \<le> c \<and> c \<le> 1 \<and>
     (True, 1) = scaleAndClampToInt32 (jointPositionToRawPositionCommand limited_joint (Fin c)) (effectivePositionScale limited_joint) 0"
proof (rule position_command_within_limits [where lims = witness_limits and config = default_WriteConfig and active = False])
  show "prepare_joint witness_limits toSec default_WriteConfig now False limited_joint 0 = (limited_joint, 1, True)" for toSec now
    using round64_int [of 1]
    by (simp add: prepare_joint_def choose_command_def limited_joint_def default_joint_def witness_limits_def default_WriteConfig_def
        joint_mode_def axisControlModeFromString_def controlModeHasDirectCommand_def controlModeFallbackCommandValue_def
        controlModeUsesVelocitySemantics_def controlModeUsesPositionSemantics_def clampWithJointLimits_def dclamp_def
        limitPositionStep_def convert_command_def jointPositionToRawPositionCommand_def controlModeScale_def
        effectivePositionScale_def scaleAndClampToInt32_def dsub_def clamp_small Let_def)
qed (simp_all add: limited_joint_def default_joint_def witness_limits_def joint_mode_def axisControlModeFromString_def
    controlModeUsesPositionSemantics_def controlModeUsesVelocitySemantics_def)


definition switched_joint :: "unit CanDriverJointConfig" where
  "switched_joint = (default_joint ())\<lparr>jc_requireCommandAlignment := True\<rparr>"


text \<open>
  Holding a joint is exact: with the position that was read last as its command, as the hold
  after a lost device leaves it, the next cycle sends the very count that was read.
\<close>

lemma hold_command_exact:
  assumes "effectivePositionScale joint = Fin s" and "2 powi (- 500) \<le> \<bar>s\<bar>" and "\<bar>s\<bar> \<le> 2 ^ 500"
    and "jc_zeroOffsetRad joint = Fin z" and "\<bar>z\<bar> \<le> 2 ^ 31 * \<bar>s\<bar>"
    and "- 2147483648 \<le> n" and "n \<le> 2147483647"
    and "controlModeUsesPositionSemantics (joint_mode joint)"
    and "jc_pos joint = rawPositionToJointPosition joint (dbl_of_int n)"
    and "clampWithJointLimits lims joint (jc_pos joint) = jc_pos joint"
    and "\<not> wc_debugBypassRosControl config"
  shows "snd (prepare_joint lims toSec config now False (clear_joint_command joint) raw) = (word_of_int n, True)"
proof -
  let ?j = "clear_joint_command joint"
  have raw: "convert_command joint (jc_pos joint) r = (True, word_of_int n)" for r
    using hold_roundtrip_aux [OF assms(1-7), of r] assms(8,9)
    by (simp add: convert_command_def controlModeScale_def controlModeUsesPositionSemantics_def)
  from converted_finite [OF this assms(8)] obtain p where p: "jc_pos joint = Fin p" by (auto simp: isfinite_iff)
  have mode: "joint_mode ?j = joint_mode joint" by (simp add: joint_mode_def clear_joint_command_def Let_def)
  have same: "clampWithJointLimits lims ?j = clampWithJointLimits lims joint"
    "limitPositionStep lims config ?j = limitPositionStep lims config joint"
    "convert_command ?j = convert_command joint" "aligned ?j = aligned joint"
    by (simp_all add: clear_joint_command_def Let_def joint_mode_def clampWithJointLimits_def limitPositionStep_def
        convert_command_def aligned_def fun_eq_iff jointPositionToRawPositionCommand_def controlModeScale_def
        effectivePositionScale_def effectiveVelocityScale_def controlModeActualFeedbackValue_def
        controlModeAlignmentTolerance_def cong: if_cong)
  have choose: "choose_command toSec config now False ?j = (Some (Fin p), ?j)"
    using assms(8,11) p
    by (simp add: choose_command_def Let_def mode controlModeHasDirectCommand_def controlModeFallbackCommandValue_def)
      (simp add: clear_joint_command_def Let_def controlModeUsesPositionSemantics_def)
  have clamped: "clampWithJointLimits lims joint (Fin p) = Fin p" using assms(10) p by simp
  have zero: "dabs (dsub (Fin p) (Fin p)) = Fin 0"
    using round64_int [of 0] by (simp add: dsub_def)
  have "\<not> dlt (controlModeAlignmentTolerance joint (joint_mode joint)) (Fin 0)"
    using assms(1,8)
    by (cases "round64 (1 / 10 ^ 9)") (auto simp: controlModeAlignmentTolerance_def controlModeScale_def
        controlModeUsesPositionSemantics_def dmax_def)
  then have aligned: "aligned joint (Fin p)"
    using assms(8) p zero by (simp add: aligned_def controlModeActualFeedbackValue_def controlModeUsesPositionSemantics_def)
  have "\<not> dlt step (Fin 0)" if "dlt (Fin 0) step" for step using that by (cases step) auto
  then have step: "limitPositionStep lims config joint (Fin p) = Fin p"
    using clamped p zero by (simp add: limitPositionStep_def Let_def)
  show ?thesis
    using raw p unfolding prepare_joint_def choose
    by (simp add: same flags_irrelevant clamped aligned step Let_def)
qed

lemma hold_command_exact_witness:
  "snd (prepare_joint witness_limits (\<lambda>_. Fin 0) default_WriteConfig 0 False
     (clear_joint_command (witness_joint\<lparr>jc_pos := rawPositionToJointPosition witness_joint (dbl_of_int (- 1000))\<rparr>)) 0) =
   (word_of_int (- 1000), True)"
proof (rule hold_command_exact [where s = "- 3" and z = "1/2"])
  show "effectivePositionScale (witness_joint\<lparr>jc_pos := rawPositionToJointPosition witness_joint (dbl_of_int (- 1000))\<rparr>) = Fin (- 3)"
    using round64_int [of "- 3"] by (simp add: effectivePositionScale_def witness_joint_def default_joint_def)
qed (simp_all add: witness_joint_def default_joint_def power_int_le_one order_trans [OF power_int_le_one] joint_mode_def
    axisControlModeFromString_def controlModeUsesPositionSemantics_def controlModeUsesVelocitySemantics_def
    rawPositionToJointPosition_def effectivePositionScale_def clampWithJointLimits_def default_WriteConfig_def)

end
