(* ===== verification/Can_Driver_Runtime.thy ===== *)
theory Can_Driver_Runtime
  imports Lifecycle_Driver_Ops Command_Gate Call_Recording
begin

text \<open>
  \<open>CanDriverRuntime.cpp\<close>: the object that owns the command gate, the lifecycle operations and the
  coordinator and ties them together.  It initialises the devices that a request names, brings
  one to standby with the steps its owner has hooked in, recovers and shuts down, and rolls back
  what failed half way.

  The hooks are closures of the owner (the hardware interface).  They are functions of the
  runtime's state, which carries the owner's own data \<open>'h\<close> (what the gate's callbacks read and
  write) and, inside the lifecycle operations, the world \<open>'w\<close> of the device manager.
\<close>

section \<open>State\<close>

record ('h, 'w) CanDriverRuntime =
  rt_active :: bool
  rt_deviceLoopbackByName :: "string \<rightharpoonup> bool"
  rt_commandGate :: "'h CommandGate"
  rt_lifecycleDriverOps :: "'w LifecycleDriverOps"
  rt_owner :: 'h

record 's LifecycleHooks =
  lh_recover_devices :: "('s \<Rightarrow> string list \<times> 's) option"
  lh_clear_command_state :: "('s \<Rightarrow> 's) option"
  lh_enable_healthy :: "'s check_fn option"
  lh_motion_healthy :: "'s check_fn option"
  lh_startup_query_hz :: "('s \<Rightarrow> dbl \<times> 's) option"
  lh_set_device_refresh_rate :: "(string \<Rightarrow> dbl \<Rightarrow> 's \<Rightarrow> 's) option"
  lh_apply_persisted_pp_zero_offsets :: "(string \<Rightarrow> 's \<Rightarrow> bool \<times> 's) option"
  lh_sync_startup_position_and_commands :: "(string \<Rightarrow> 's \<Rightarrow> bool \<times> 's) option"
  lh_apply_pp_default_velocities :: "(string \<Rightarrow> 's \<Rightarrow> bool \<times> 's) option"
  lh_apply_initial_modes :: "(string \<Rightarrow> 's \<Rightarrow> bool \<times> 's) option"

type_synonym ('h, 'w) hooks = "('h, 'w) CanDriverRuntime LifecycleHooks"

text \<open>A lifecycle operation on the runtime, and the two notifications of the gate.\<close>

definition on_ops :: "('w LifecycleDriverOps \<Rightarrow> 'r \<times> 'w LifecycleDriverOps) \<Rightarrow> ('h, 'w) CanDriverRuntime \<Rightarrow>
    'r \<times> ('h, 'w) CanDriverRuntime" where
  "on_ops f s = (case f (rt_lifecycleDriverOps s) of (r, l) \<Rightarrow> (r, s\<lparr>rt_lifecycleDriverOps := l\<rparr>))"

definition runtime_hold :: "('h, 'w) CanDriverRuntime \<Rightarrow> ('h, 'w) CanDriverRuntime" where
  "runtime_hold s = s\<lparr>rt_owner := holdCommands (rt_commandGate s) (rt_owner s)\<rparr>"

definition runtime_arm :: "('h, 'w) CanDriverRuntime \<Rightarrow> ('h, 'w) CanDriverRuntime" where
  "runtime_arm s = s\<lparr>rt_commandGate := armFreshCommandLatch (rt_owner s) (rt_commandGate s)\<rparr>"

section \<open>Device lists\<close>

definition trimCopy :: "string \<Rightarrow> string" where
  "trimCopy input = rev (dropWhile isspace (rev (dropWhile isspace input)))"

text \<open>The tokens of \<open>std::getline(ss, token, ',')\<close>: a comma at the end is not followed by one.\<close>

fun comma_tokens :: "string \<Rightarrow> string list" where
  "comma_tokens [] = []"
| "comma_tokens (c # s) =
     (if c = CHR 0x2C then [] # comma_tokens s
      else if s = [] then [[c]]
      else case comma_tokens s of [] \<Rightarrow> [[c]] | token # tokens \<Rightarrow> (c # token) # tokens)"

definition optionalPrefix :: string where "optionalPrefix = ''optional:''"

definition token_spec :: "string \<Rightarrow> (string \<times> bool) option" where
  "token_spec text =
     (let token = trimCopy text
      in if token = [] then None
         else if take (length optionalPrefix) token = optionalPrefix
         then let rest = trimCopy (drop (length optionalPrefix) token)
              in if rest = [] then None else Some (rest, True)
         else Some (token, False))"

definition device_specs :: "string \<Rightarrow> (string \<times> bool) list" where
  "device_specs device =
     (let specs = List.map_filter token_spec (comma_tokens device)
      in if specs = [] then [(device, False)] else specs)"

fun joined :: "string \<Rightarrow> string list \<Rightarrow> string" where
  "joined sep [] = []"
| "joined sep [x] = x"
| "joined sep (x # xs) = x @ sep @ joined sep xs"

section \<open>Bringing one device to standby\<close>

definition set_rate :: "('h, 'w) hooks \<Rightarrow> string \<Rightarrow> dbl \<Rightarrow> ('h, 'w) CanDriverRuntime \<Rightarrow> ('h, 'w) CanDriverRuntime" where
  "set_rate hooks device hz s =
     (case lh_set_device_refresh_rate hooks of None \<Rightarrow> s | Some set_hz \<Rightarrow> set_hz device hz s)"

definition restoreSteadyRefresh :: "('h, 'w) hooks \<Rightarrow> string \<Rightarrow> ('h, 'w) CanDriverRuntime \<Rightarrow> ('h, 'w) CanDriverRuntime" where
  "restoreSteadyRefresh hooks device s = set_rate hooks device (Fin 0) s"

definition rollbackPreparedDevice :: "string \<Rightarrow> Result \<Rightarrow> ('h, 'w) CanDriverRuntime \<Rightarrow> Result \<times> ('h, 'w) CanDriverRuntime" where
  "rollbackPreparedDevice device failure s = (failure, snd (on_ops (shutdownDevice device) s))"

text \<open>The steps after the device is up: each must succeed for the next to be tried.\<close>

fun standby_steps :: "((string \<Rightarrow> ('h, 'w) CanDriverRuntime \<Rightarrow> bool \<times> ('h, 'w) CanDriverRuntime) \<times> string) list \<Rightarrow> ('h, 'w) hooks \<Rightarrow>
    string \<Rightarrow> ('h, 'w) CanDriverRuntime \<Rightarrow> Result \<times> ('h, 'w) CanDriverRuntime" where
  "standby_steps [] hooks device s = (result True ''prepared (standby)'', restoreSteadyRefresh hooks device s)"
| "standby_steps ((step, message) # steps) hooks device s =
     (case step device s of
        (ok, s1) \<Rightarrow> if ok then standby_steps steps hooks device s1
                   else rollbackPreparedDevice device (result False (message @ device)) (restoreSteadyRefresh hooks device s1))"

definition prepareLifecycleDeviceForStandby ::
    "('h, 'w) hooks \<Rightarrow> string \<Rightarrow> bool \<Rightarrow> ('h, 'w) CanDriverRuntime \<Rightarrow> Result \<times> ('h, 'w) CanDriverRuntime" where
  "prepareLifecycleDeviceForStandby hooks device loopback s =
     (case (lh_sync_startup_position_and_commands hooks, lh_apply_pp_default_velocities hooks, lh_apply_initial_modes hooks) of
        (Some sync, Some velocities, Some modes) \<Rightarrow>
          (case (case lh_startup_query_hz hooks of None \<Rightarrow> (Fin 0, s) | Some query \<Rightarrow> query s) of
             (startupQueryHz, s1) \<Rightarrow>
               case on_ops (prepareDevice device loopback) (set_rate hooks device startupQueryHz s1) of
                 (prepareResult, s2) \<Rightarrow>
                   if \<not> res_ok prepareResult then (prepareResult, restoreSteadyRefresh hooks device s2)
                   else standby_steps
                     ((case lh_apply_persisted_pp_zero_offsets hooks of
                         None \<Rightarrow> []
                       | Some offsets \<Rightarrow> [(offsets, ''Failed to restore persisted PP zero offsets on '')]) @
                      [(sync, ''Failed to synchronize startup position on ''),
                       (velocities, ''Failed to configure PP default velocities on ''),
                       (modes, ''Failed to apply initial modes on '')]) hooks device s2)
      | _ \<Rightarrow> (result False ''prepare lifecycle path not available'', s))"

section \<open>Initialising, recovering, shutting down\<close>

text \<open>The loop over the devices: an error with what to return, or the devices that are up and those that failed.\<close>

fun init_loop ::
    "('h, 'w) hooks \<Rightarrow> bool \<Rightarrow> (string \<times> bool) list \<Rightarrow> string list \<Rightarrow> string list \<Rightarrow> ('h, 'w) CanDriverRuntime \<Rightarrow>
     (Result + string list \<times> string list) \<times> ('h, 'w) CanDriverRuntime" where
  "init_loop hooks loopback [] initializedDevices optionalFailures s = (Inr (initializedDevices, optionalFailures), s)"
| "init_loop hooks loopback ((targetDevice, optional) # specs) initializedDevices optionalFailures s =
     (if targetDevice = [] then init_loop hooks loopback specs initializedDevices optionalFailures s
      else case prepareLifecycleDeviceForStandby hooks targetDevice loopback
                  (s\<lparr>rt_deviceLoopbackByName := (rt_deviceLoopbackByName s)(targetDevice \<mapsto> loopback)\<rparr>) of
        (prepareResult, s1) \<Rightarrow>
          if res_ok prepareResult then init_loop hooks loopback specs (initializedDevices @ [targetDevice]) optionalFailures s1
          else if optional
          then init_loop hooks loopback specs initializedDevices
                 (optionalFailures @ [targetDevice @ ''(prepare: '' @ res_message prepareResult @ '')'']) s1
          else (Inl prepareResult, fold (\<lambda>d s. snd (on_ops (shutdownDevice d) s)) initializedDevices s1))"

definition initializeLifecycleDevice ::
    "('h, 'w) hooks \<Rightarrow> string \<Rightarrow> bool \<Rightarrow> ('h, 'w) CanDriverRuntime \<Rightarrow> Result \<times> ('h, 'w) CanDriverRuntime" where
  "initializeLifecycleDevice hooks device loopback s =
     (case init_loop hooks loopback (device_specs device) [] [] s of
        (Inl failure, s1) \<Rightarrow> (failure, s1)
      | (Inr (initializedDevices, optionalFailures), s1) \<Rightarrow>
          if initializedDevices = []
          then (result False (if optionalFailures \<noteq> []
                              then ''all selected devices failed (optional): '' @ joined ''; '' optionalFailures
                              else ''no device initialized''), s1)
          else (result True (''initialized (standby): '' @ joined '', '' initializedDevices @
                             (if optionalFailures \<noteq> [] then ''; optional failures: '' @ joined ''; '' optionalFailures else [])),
                s1\<lparr>rt_active := True\<rparr>))"

fun recover_loop :: "('h, 'w) hooks \<Rightarrow> string list \<Rightarrow> ('h, 'w) CanDriverRuntime \<Rightarrow> Result option \<times> ('h, 'w) CanDriverRuntime" where
  "recover_loop hooks [] s = (None, s)"
| "recover_loop hooks (device # devices) s =
     (case prepareLifecycleDeviceForStandby hooks device (map_at False (rt_deviceLoopbackByName s) device) s of
        (prepareResult, s1) \<Rightarrow> if res_ok prepareResult then recover_loop hooks devices s1 else (Some prepareResult, s1))"

definition recoverLifecycleDevices ::
    "'w steady_clock \<Rightarrow> ('h, 'w) hooks \<Rightarrow> ('h, 'w) CanDriverRuntime \<Rightarrow> Result \<times> ('h, 'w) CanDriverRuntime" where
  "recoverLifecycleDevices ck hooks s =
     (case lh_recover_devices hooks of
        None \<Rightarrow> (result False ''recover lifecycle path not available'', s)
      | Some recover_devices \<Rightarrow>
          (case recover_devices s of (devices, s1) \<Rightarrow>
             if devices = [] then (result False ''No devices available for recover.'', s1)
             else case recover_loop hooks devices s1 of
               (Some failure, s2) \<Rightarrow> (failure, s2)
             | (None, s2) \<Rightarrow>
                 (case on_ops (recoverAll ck) s2 of (recoverResult, s3) \<Rightarrow>
                    if \<not> res_ok recoverResult then (recoverResult, s3)
                    else (result True ''recovered (standby)'', s3\<lparr>rt_active := True\<rparr>))))"

definition shutdownLifecycleDriver ::
    "('h, 'w) hooks \<Rightarrow> bool \<Rightarrow> ('h, 'w) CanDriverRuntime \<Rightarrow> Result \<times> ('h, 'w) CanDriverRuntime" where
  "shutdownLifecycleDriver hooks force s =
     (case on_ops (shutdownAll force) (s\<lparr>rt_active := False\<rparr>) of
        (r, s1) \<Rightarrow> (r, case lh_clear_command_state hooks of None \<Rightarrow> s1 | Some clear \<Rightarrow> clear s1))"

section \<open>Configuration\<close>

definition configureCommandGate ::
    "('h \<Rightarrow> Snapshot list) option \<Rightarrow> ('h \<Rightarrow> 'h) option \<Rightarrow> ('h, 'w) CanDriverRuntime \<Rightarrow> ('h, 'w) CanDriverRuntime" where
  "configureCommandGate snapshotProvider holdCallback s =
     s\<lparr>rt_commandGate := Command_Gate.configure snapshotProvider holdCallback (rt_commandGate s)\<rparr>"

definition on_ops_check :: "('w LifecycleDriverOps \<Rightarrow> bool \<times> string \<times> 'w LifecycleDriverOps) \<Rightarrow> ('h, 'w) CanDriverRuntime check_fn" where
  "on_ops_check f detail s =
     (case f (rt_lifecycleDriverOps s) of (ok, detail', l) \<Rightarrow> (ok, detail', s\<lparr>rt_lifecycleDriverOps := l\<rparr>))"

text \<open>The driver operations that \<open>configureLifecycleCoordinator\<close> installs.\<close>

definition lifecycle_driver_ops :: "'w steady_clock \<Rightarrow> ('h, 'w) hooks \<Rightarrow> ('h, 'w) CanDriverRuntime DriverOps" where
  "lifecycle_driver_ops ck hooks = \<lparr>
     op_init_device = Some (initializeLifecycleDevice hooks),
     op_enable_all = Some (on_ops (enableAll ck)),
     op_disable_all = Some (on_ops disableAll),
     op_halt_all = Some (on_ops haltAll),
     op_recover_all = Some (recoverLifecycleDevices ck hooks),
     op_shutdown_all = Some (shutdownLifecycleDriver hooks),
     op_enable_healthy = Some (case lh_enable_healthy hooks of Some check \<Rightarrow> check | None \<Rightarrow> on_ops_check (enableHealthy ck)),
     op_motion_healthy = Some (case lh_motion_healthy hooks of Some check \<Rightarrow> check | None \<Rightarrow> on_ops_check (motionHealthy ck)),
     op_any_fault_active = Some (on_ops anyFaultActive),
     op_hold_commands = Some runtime_hold,
     op_arm_fresh_command_latch = Some runtime_arm\<rparr>"

definition configureLifecycleCoordinator ::
    "'w steady_clock \<Rightarrow> ('h, 'w) hooks \<Rightarrow> ('h, 'w) CanDriverRuntime OperationalCoordinator \<Rightarrow>
     ('h, 'w) CanDriverRuntime OperationalCoordinator" where
  "configureLifecycleCoordinator ck hooks c = SetDriverOps (lifecycle_driver_ops ck hooks) c"

text \<open>A new runtime on a device manager (\<open>configureDependencies\<close> gives it to the executor and the operations).\<close>

definition new_runtime :: "'w IDeviceManager \<Rightarrow> 'h \<Rightarrow> 'w \<Rightarrow> ('h, 'w) CanDriverRuntime" where
  "new_runtime dm owner w =
     (let executor = \<lparr>ex_deviceManager = Some dm\<rparr>
      in \<lparr>rt_active = False, rt_deviceLoopbackByName = Map.empty, rt_commandGate = default_CommandGate,
          rt_lifecycleDriverOps =
            configure (Some dm) (Some executor) (new_LifecycleDriverOps None None w),
          rt_owner = owner\<rparr>)"

definition reset_runtime :: "('h, 'w) CanDriverRuntime OperationalCoordinator \<Rightarrow> ('h, 'w) CanDriverRuntime OperationalCoordinator" where
  "reset_runtime c =
     (let s = oc_world c;
          s1 = s\<lparr>rt_active := False, rt_deviceLoopbackByName := Map.empty,
                 rt_commandGate := Command_Gate.reset (rt_commandGate s),
                 rt_lifecycleDriverOps := setTargets [] (rt_lifecycleDriverOps s)\<rparr>;
          l = rt_lifecycleDriverOps s1;
          s2 = (case lo_deviceManager l of
                  None \<Rightarrow> s1
                | Some dm \<Rightarrow> s1\<lparr>rt_lifecycleDriverOps := l\<lparr>lo_world := idm_shutdownAll dm (lo_world l)\<rparr>\<rparr>)
      in SetInactive (c\<lparr>oc_world := s2\<rparr>))"

section \<open>What the runtime relies on\<close>

text \<open>
  The hooks may change the owner and the world, but respect a relation \<open>R\<close> of before and after.
  What the runtime itself does to a device is then one call to prepare it, in the end possibly
  followed by one call to shut it down.
\<close>

locale owner_hooks =
  fixes hooks :: "('h, 'w) hooks" and R :: "('h, 'w) CanDriverRuntime \<Rightarrow> ('h, 'w) CanDriverRuntime \<Rightarrow> bool"
  assumes R_refl: "R s s"
    and R_trans: "R s s1 \<Longrightarrow> R s1 s2 \<Longrightarrow> R s s2"
    and R_rate: "lh_set_device_refresh_rate hooks = Some f \<Longrightarrow> R s (f d hz s)"
    and R_hz: "lh_startup_query_hz hooks = Some q \<Longrightarrow> R s (snd (q s))"
    and R_offsets: "lh_apply_persisted_pp_zero_offsets hooks = Some g \<Longrightarrow> R s (snd (g d s))"
    and R_sync: "lh_sync_startup_position_and_commands hooks = Some g \<Longrightarrow> R s (snd (g d s))"
    and R_velocities: "lh_apply_pp_default_velocities hooks = Some g \<Longrightarrow> R s (snd (g d s))"
    and R_modes: "lh_apply_initial_modes hooks = Some g \<Longrightarrow> R s (snd (g d s))"
    and R_devices: "lh_recover_devices hooks = Some h \<Longrightarrow> R s (snd (h s))"
begin

lemma R_set_rate: "R s (set_rate hooks d hz s)"
  by (cases "lh_set_device_refresh_rate hooks") (simp_all add: set_rate_def R_refl R_rate)

lemma standby_cases:
  assumes "\<forall>st \<in> set steps. \<forall>d s. R s (snd (fst st d s))" and "standby_steps steps hooks d s = (r, s1)"
  shows "if res_ok r then R s s1 else \<exists>s2. R s s2 \<and> s1 = snd (on_ops (shutdownDevice d) s2)"
  using assms
proof (induction steps arbitrary: s)
  case Nil
  then show ?case by (auto simp: restoreSteadyRefresh_def R_set_rate)
next
  case (Cons st steps)
  obtain step message where st: "st = (step, message)" by fastforce
  obtain ok s2 where call: "step d s = (ok, s2)" by fastforce
  have R2: "R s s2" using Cons.prems(1) call st by (metis fst_conv list.set_intros(1) snd_conv)
  show ?case
  proof (cases ok)
    case True
    with Cons.prems call st have "if res_ok r then R s2 s1 else \<exists>s3. R s2 s3 \<and> s1 = snd (on_ops (shutdownDevice d) s3)"
      by (intro Cons.IH) simp_all
    with R2 R_trans show ?thesis by (auto split: if_splits)
  next
    case False
    have "R s (restoreSteadyRefresh hooks d s2)"
      using R2 R_trans R_set_rate by (auto simp: restoreSteadyRefresh_def)
    with False Cons.prems(2) call st show ?thesis by (auto simp: rollbackPreparedDevice_def)
  qed
qed

text \<open>What preparing a device for standby does.\<close>

lemma prepare_cases:
  assumes "prepareLifecycleDeviceForStandby hooks d loopback s = (r, s1)"
  obtains (unavailable) "\<not> res_ok r" "s1 = s"
  | (failed) p s2 s3 where "R s s2" "on_ops (prepareDevice d loopback) s2 = (p, s3)" "\<not> res_ok p" "\<not> res_ok r" "R s3 s1"
  | (standby) p s2 s3 where "R s s2" "on_ops (prepareDevice d loopback) s2 = (p, s3)" "res_ok p" "res_ok r" "R s3 s1"
  | (rolled_back) p s2 s3 s4 where "R s s2" "on_ops (prepareDevice d loopback) s2 = (p, s3)" "res_ok p" "\<not> res_ok r"
      "R s3 s4" "s1 = snd (on_ops (shutdownDevice d) s4)"
proof (cases "lh_sync_startup_position_and_commands hooks = None \<or> lh_apply_pp_default_velocities hooks = None \<or>
    lh_apply_initial_modes hooks = None")
  case True
  then show thesis using assms unavailable by (auto simp: prepareLifecycleDeviceForStandby_def split: option.splits)
next
  case False
  then obtain sync velocities modes where hs: "lh_sync_startup_position_and_commands hooks = Some sync"
    "lh_apply_pp_default_velocities hooks = Some velocities" "lh_apply_initial_modes hooks = Some modes" by auto
  define query where "query = (case lh_startup_query_hz hooks of None \<Rightarrow> (Fin 0, s) | Some query \<Rightarrow> query s)"
  obtain hz sq where q: "query = (hz, sq)" by fastforce
  have Rq: "R s sq"
    using q R_hz [of _ s] R_refl by (auto simp: query_def split: option.splits)
  define s2 where "s2 = set_rate hooks d hz sq"
  have R2: "R s s2" unfolding s2_def by (rule R_trans [OF Rq R_set_rate])
  obtain p s3 where p: "on_ops (prepareDevice d loopback) s2 = (p, s3)" by fastforce
  define steps where "steps = (case lh_apply_persisted_pp_zero_offsets hooks of
      None \<Rightarrow> [] | Some offsets \<Rightarrow> [(offsets, ''Failed to restore persisted PP zero offsets on '')]) @
    [(sync, ''Failed to synchronize startup position on ''),
     (velocities, ''Failed to configure PP default velocities on ''),
     (modes, ''Failed to apply initial modes on '')]"
  have steps: "\<forall>st \<in> set steps. \<forall>d s. R s (snd (fst st d s))"
    using R_offsets R_sync [OF hs(1)] R_velocities [OF hs(2)] R_modes [OF hs(3)]
    by (auto simp: steps_def split: option.splits)
  have eq: "(if \<not> res_ok p then (p, restoreSteadyRefresh hooks d s3) else standby_steps steps hooks d s3) = (r, s1)"
    using assms p hs q
    by (cases "res_ok p") (simp_all add: prepareLifecycleDeviceForStandby_def query_def s2_def steps_def)
  show thesis
  proof (cases "res_ok p")
    case False
    with eq failed [OF R2 p False] R_set_rate [of s3 d "Fin 0"] show thesis by (auto simp: restoreSteadyRefresh_def)
  next
    case True
    with eq have "standby_steps steps hooks d s3 = (r, s1)" by simp
    from standby_cases [OF steps this] True R2 p show thesis
      using standby rolled_back by (auto split: if_splits)
  qed
qed

end

text \<open>A relation that the runtime's own steps respect too is respected by the requests.\<close>

locale runtime_contract = owner_hooks hooks R
  for hooks :: "('h, 'w) hooks" and R +
  fixes ck :: "'w steady_clock"
  assumes R_active: "R s (s\<lparr>rt_active := a\<rparr>)"
    and R_loopback: "R s (s\<lparr>rt_deviceLoopbackByName := m\<rparr>)"
    and R_prepare: "R s (snd (on_ops (prepareDevice d l) s))"
    and R_shutdown: "R s (snd (on_ops (shutdownDevice d) s))"
    and R_recoverAll: "R s (snd (on_ops (recoverAll ck) s))"
begin

lemma R_standby: "R s (snd (prepareLifecycleDeviceForStandby hooks d l s))"
proof -
  obtain r s1 where eq: "prepareLifecycleDeviceForStandby hooks d l s = (r, s1)" by fastforce
  have up: "on_ops (prepareDevice d l) s2 = (p, s3) \<Longrightarrow> R s2 s3" for p s2 s3 using R_prepare [of s2 d l] by simp
  from eq have "R s s1"
  proof (cases rule: prepare_cases)
    case unavailable
    then show ?thesis by (simp add: R_refl)
  next
    case (failed p s2 s3)
    then show ?thesis by (blast intro: R_trans up)
  next
    case (standby p s2 s3)
    then show ?thesis by (blast intro: R_trans up)
  next
    case (rolled_back p s2 s3 s4)
    then show ?thesis by (blast intro: R_trans up R_shutdown)
  qed
  with eq show ?thesis by simp
qed

lemma R_shutdowns: "R s (fold (\<lambda>d s. snd (on_ops (shutdownDevice d) s)) ds s)"
  by (induction ds arbitrary: s) (auto intro: R_refl R_trans [OF R_shutdown])

lemma R_init_loop: "R s (snd (init_loop hooks l specs ds fs s))"
proof (induction specs arbitrary: ds fs s)
  case (Cons spec specs)
  obtain d opt where spec: "spec = (d, opt)" by fastforce
  let ?s = "s\<lparr>rt_deviceLoopbackByName := (rt_deviceLoopbackByName s)(d \<mapsto> l)\<rparr>"
  obtain r s1 where p: "prepareLifecycleDeviceForStandby hooks d l ?s = (r, s1)" by fastforce
  have R1: "R s s1" using R_trans [OF R_loopback R_standby] p by (metis snd_conv)
  have "R s (snd (init_loop hooks l specs ds' fs' s1))" for ds' fs' using R1 Cons.IH by (rule R_trans)
  moreover have "R s (fold (\<lambda>d s. snd (on_ops (shutdownDevice d) s)) ds s1)" using R1 R_shutdowns by (rule R_trans)
  ultimately show ?case using Cons.IH by (simp add: spec p)
qed (simp add: R_refl)

lemma R_init: "R s (snd (initializeLifecycleDevice hooks d l s))"
proof -
  obtain v s1 where v: "init_loop hooks l (device_specs d) [] [] s = (v, s1)" by fastforce
  have "R s s1" using R_init_loop [of s l "device_specs d" "[]" "[]"] v by simp
  with v show ?thesis by (auto simp: initializeLifecycleDevice_def intro: R_trans R_active split: sum.splits)
qed

lemma R_recover_loop: "R s (snd (recover_loop hooks ds s))"
proof (induction ds arbitrary: s)
  case (Cons d ds)
  obtain r s1 where p: "prepareLifecycleDeviceForStandby hooks d (map_at False (rt_deviceLoopbackByName s) d) s = (r, s1)"
    by fastforce
  have "R s s1" using R_standby p by (metis snd_conv)
  with Cons.IH show ?case by (auto simp: p intro: R_trans)
qed (simp add: R_refl)

lemma R_recover: "R s (snd (recoverLifecycleDevices ck hooks s))"
proof (cases "lh_recover_devices hooks")
  case (Some h)
  obtain ds s1 where h: "h s = (ds, s1)" by fastforce
  obtain v s2 where v: "recover_loop hooks ds s1 = (v, s2)" by fastforce
  obtain r s3 where r: "on_ops (recoverAll ck) s2 = (r, s3)" by fastforce
  have R1: "R s s1" using R_devices [OF Some, of s] h by simp
  have R2: "R s s2" using R_trans [OF R1] R_recover_loop [of s1 ds] v by simp
  have R3: "R s s3" using R_trans [OF R2] R_recoverAll [of s2] r by simp
  then have "R s (s3\<lparr>rt_active := True\<rparr>)" by (rule R_trans [OF _ R_active])
  with R1 R2 R3 show ?thesis
    using Some h v r by (auto simp: recoverLifecycleDevices_def split: option.splits)
qed (simp add: recoverLifecycleDevices_def R_refl)

end

section \<open>Device lists\<close>

text \<open>How a list of devices is written.\<close>

definition spec_text :: "string \<times> bool \<Rightarrow> string" where
  "spec_text spec = (if snd spec then optionalPrefix @ fst spec else fst spec)"

text \<open>A name that can be written: no comma, no white space at its ends, not starting like an option.\<close>

definition plain_name :: "string \<Rightarrow> bool" where
  "plain_name d \<longleftrightarrow> d \<noteq> [] \<and> CHR 0x2C \<notin> set d \<and> \<not> isspace (hd d) \<and> \<not> isspace (last d) \<and>
     take (length optionalPrefix) d \<noteq> optionalPrefix"

lemma comma_tokens_plain: "t \<noteq> [] \<Longrightarrow> CHR 0x2C \<notin> set t \<Longrightarrow> comma_tokens t = [t]"
  by (induction t) auto

lemma comma_tokens_comma: "CHR 0x2C \<notin> set t \<Longrightarrow> comma_tokens (t @ CHR 0x2C # rest) = t # comma_tokens rest"
  by (induction t) (auto split: list.split)

lemma comma_tokens_joined:
  "\<forall>t \<in> set (t # ts). t \<noteq> [] \<and> CHR 0x2C \<notin> set t \<Longrightarrow>
   comma_tokens (p @ joined '', '' (t # ts)) = (p @ t) # map ((@) '' '') ts" if "CHR 0x2C \<notin> set p"
  using that
proof (induction ts arbitrary: p t)
  case Nil
  then show ?case by (simp add: comma_tokens_plain)
next
  case (Cons t' ts)
  have "comma_tokens ((p @ t) @ CHR 0x2C # '' '' @ joined '', '' (t' # ts)) = (p @ t) # comma_tokens ('' '' @ joined '', '' (t' # ts))"
    using Cons.prems by (intro comma_tokens_comma) auto
  also have "comma_tokens ('' '' @ joined '', '' (t' # ts)) = ('' '' @ t') # map ((@) '' '') ts"
    using Cons.prems by (intro Cons.IH) auto
  finally show ?case by simp
qed

lemma trim_plain: "d \<noteq> [] \<Longrightarrow> \<not> isspace (hd d) \<Longrightarrow> \<not> isspace (last d) \<Longrightarrow> trimCopy d = d"
proof -
  assume a: "d \<noteq> []" "\<not> isspace (hd d)" "\<not> isspace (last d)"
  then have "dropWhile isspace d = d" by (cases d) simp_all
  moreover have "dropWhile isspace (rev d) = rev d" using a by (cases d rule: rev_cases) simp_all
  ultimately show ?thesis by (simp add: trimCopy_def)
qed

lemma trim_blank: "trimCopy (CHR 0x20 # d) = trimCopy d"
  by (simp add: trimCopy_def isspace_def)

lemma spec_text_plain:
  assumes "plain_name (fst spec)"
  shows "spec_text spec \<noteq> []" "CHR 0x2C \<notin> set (spec_text spec)" "trimCopy (spec_text spec) = spec_text spec"
proof -
  show "spec_text spec \<noteq> []" "CHR 0x2C \<notin> set (spec_text spec)"
    using assms by (auto simp: spec_text_def plain_name_def optionalPrefix_def)
  show "trimCopy (spec_text spec) = spec_text spec"
    using assms by (intro trim_plain) (auto simp: spec_text_def plain_name_def optionalPrefix_def isspace_def)
qed

lemma token_spec_text: "plain_name (fst spec) \<Longrightarrow> token_spec (spec_text spec) = Some spec"
  using spec_text_plain [of spec] trim_plain [of "fst spec"]
  by (cases spec) (auto simp: token_spec_def Let_def spec_text_def plain_name_def)

lemma token_spec_blank: "token_spec (CHR 0x20 # t) = token_spec t"
  by (simp add: token_spec_def trim_blank)

text \<open>
  A list of device names, each optionally marked as optional, written with commas and blanks is
  read back as that list.
\<close>

lemma device_list_roundtrip:
  assumes "specs \<noteq> []" and "\<forall>spec \<in> set specs. plain_name (fst spec)"
  shows "device_specs (joined '', '' (map spec_text specs)) = specs"
proof -
  obtain s0 rest where specs: "specs = s0 # rest" using assms(1) by (cases specs) auto
  have "comma_tokens ([] @ joined '', '' (spec_text s0 # map spec_text rest)) =
      ([] @ spec_text s0) # map ((@) '' '') (map spec_text rest)"
    using assms(2) spec_text_plain(1,2) unfolding specs by (intro comma_tokens_joined) auto
  then have tokens: "comma_tokens (joined '', '' (map spec_text specs)) = spec_text s0 # map (\<lambda>s. CHR 0x20 # spec_text s) rest"
    by (simp add: specs)
  have "List.map_filter token_spec (map (\<lambda>s. CHR 0x20 # spec_text s) rest) = rest"
    if "\<forall>spec \<in> set rest. plain_name (fst spec)"
    using that by (induction rest) (simp_all add: List.map_filter_simps token_spec_blank token_spec_text)
  then have "List.map_filter token_spec (comma_tokens (joined '', '' (map spec_text specs))) = specs"
    using assms(2) unfolding tokens by (simp add: specs List.map_filter_simps token_spec_text)
  then show ?thesis using assms(1) by (simp add: device_specs_def Let_def)
qed

lemma device_list_roundtrip_witness:
  "device_specs ''can0, optional:can1, can 2'' = [(''can0'', False), (''can1'', True), (''can 2'', False)]"
  using device_list_roundtrip [of "[(''can0'', False), (''can1'', True), (''can 2'', False)]"]
  by (simp add: plain_name_def isspace_def optionalPrefix_def spec_text_def)

section \<open>Which devices are left up\<close>

text \<open>The device manager with a list of the initialisations, with their answers, and shutdowns of devices.\<close>

datatype device_call = CallInit string bool | CallShutdown string | CallShutdownAll

definition logged_dm :: "'w IDeviceManager \<Rightarrow> ('w \<times> device_call list) IDeviceManager" where
  "logged_dm dm = (recorded_dm dm)\<lparr>
     idm_initDevice := (\<lambda>d ms l. noting (CallInit d) (idm_initDevice dm d ms l)),
     idm_shutdownDevice := (\<lambda>d (w, calls). (idm_shutdownDevice dm d w, calls @ [CallShutdown d])),
     idm_shutdownAll := (\<lambda>(w, calls). (idm_shutdownAll dm w, calls @ [CallShutdownAll]))\<rparr>"

text \<open>A device is up when it was initialised with success and nothing has closed it since.\<close>

definition note_call :: "device_call \<Rightarrow> string set \<Rightarrow> string set" where
  "note_call call up = (case call of CallInit d ok \<Rightarrow> if ok then insert d up else up - {d}
     | CallShutdown d \<Rightarrow> up - {d} | CallShutdownAll \<Rightarrow> {})"

definition devices_up :: "device_call list \<Rightarrow> string set" where
  "devices_up calls = fold note_call calls {}"

lemma devices_up_snoc [simp]: "devices_up (calls @ [c]) = note_call c (devices_up calls)"
  by (simp add: devices_up_def)

abbreviation up_of :: "('h, 'w \<times> device_call list) CanDriverRuntime \<Rightarrow> string set" where
  "up_of s \<equiv> devices_up (snd (lo_world (rt_lifecycleDriverOps s)))"

text \<open>What hooks that leave devices alone respect.\<close>

definition same_devices :: "('h, 'w \<times> device_call list) CanDriverRuntime \<Rightarrow> ('h, 'w \<times> device_call list) CanDriverRuntime \<Rightarrow> bool" where
  "same_devices s s' \<longleftrightarrow> snd (lo_world (rt_lifecycleDriverOps s')) = snd (lo_world (rt_lifecycleDriverOps s)) \<and>
     lo_deviceManager (rt_lifecycleDriverOps s') = lo_deviceManager (rt_lifecycleDriverOps s) \<and> rt_active s' = rt_active s"

lemma prepare_up:
  assumes "lo_deviceManager (rt_lifecycleDriverOps s) = Some (logged_dm dm)" and "on_ops (prepareDevice d l) s = (p, s1)"
  shows "lo_deviceManager (rt_lifecycleDriverOps s1) = Some (logged_dm dm) \<and> rt_active s1 = rt_active s \<and>
    (if res_ok p then up_of s1 = insert d (up_of s) else up_of s1 \<in> {up_of s, up_of s - {d}})"
  using assms
  by (auto simp: on_ops_def prepareDevice_def logged_dm_def noting_def note_call_def Let_def split: prod.splits if_splits)

lemma shutdown_up:
  assumes "lo_deviceManager (rt_lifecycleDriverOps s) = Some (logged_dm dm)" and "snd (on_ops (shutdownDevice d) s) = s1"
  shows "lo_deviceManager (rt_lifecycleDriverOps s1) = Some (logged_dm dm) \<and> rt_active s1 = rt_active s \<and>
    up_of s1 = up_of s - {d}"
  using assms
  by (auto simp: on_ops_def shutdownDevice_def logged_dm_def note_call_def deactivateTargetsForDevice_def clear_trackers_def split_beta)

lemma shutdowns_up:
  assumes "lo_deviceManager (rt_lifecycleDriverOps s) = Some (logged_dm dm)"
  shows "rt_active (fold (\<lambda>d s. snd (on_ops (shutdownDevice d) s)) ds s) = rt_active s \<and>
    up_of (fold (\<lambda>d s. snd (on_ops (shutdownDevice d) s)) ds s) = up_of s - set ds"
  using assms
proof (induction ds arbitrary: s)
  case (Cons d ds)
  from shutdown_up [OF Cons.prems refl] Cons.IH [of "snd (on_ops (shutdownDevice d) s)"] show ?case by auto
qed simp

locale quiet_hooks = owner_hooks hooks same_devices
  for hooks :: "('h, 'w \<times> device_call list) hooks"
begin

lemma standby_up:
  assumes dm: "lo_deviceManager (rt_lifecycleDriverOps s) = Some (logged_dm dm)"
    and "prepareLifecycleDeviceForStandby hooks d l s = (r, s1)"
  shows "lo_deviceManager (rt_lifecycleDriverOps s1) = Some (logged_dm dm) \<and> rt_active s1 = rt_active s \<and>
    (if res_ok r then up_of s1 = insert d (up_of s) else up_of s1 \<in> {up_of s, up_of s - {d}})"
  using assms(2)
proof (cases rule: prepare_cases)
  case unavailable
  with dm show ?thesis by simp
next
  case (failed p s2 s3)
  with dm prepare_up [of s2 dm d l p s3] show ?thesis by (auto simp: same_devices_def)
next
  case (standby p s2 s3)
  with dm prepare_up [of s2 dm d l p s3] show ?thesis by (auto simp: same_devices_def)
next
  case (rolled_back p s2 s3 s4)
  with dm prepare_up [of s2 dm d l p s3] shutdown_up [of s4 dm d s1] show ?thesis by (auto simp: same_devices_def)
qed

lemma init_loop_up:
  assumes "lo_deviceManager (rt_lifecycleDriverOps s) = Some (logged_dm dm)" and "up_of s \<subseteq> set ds"
    and "init_loop hooks l specs ds fs s = (v, s1)"
  shows "rt_active s1 = rt_active s \<and>
    (case v of Inl r \<Rightarrow> \<not> res_ok r \<and> up_of s1 = {}
     | Inr (ds', fs') \<Rightarrow> up_of s1 \<subseteq> set ds' \<and> set ds' \<subseteq> set ds \<union> fst ` set specs \<and>
         (\<forall>d. (d, False) \<in> set specs \<and> d \<noteq> [] \<longrightarrow> d \<in> set ds') \<and> set ds \<subseteq> set ds' \<and>
         (distinct (map fst specs) \<and> set ds \<inter> fst ` set specs = {} \<and> set ds \<subseteq> up_of s \<longrightarrow> set ds' \<subseteq> up_of s1))"
  using assms
proof (induction specs arbitrary: ds fs s)
  case (Cons spec specs)
  obtain d opt where spec: "spec = (d, opt)" by fastforce
  show ?case
  proof (cases "d = []")
    case True
    then have run: "init_loop hooks l specs ds fs s = (v, s1)" using Cons.prems(3) spec by simp
    from Cons.IH [OF Cons.prems(1,2) run] True spec show ?thesis by (cases v) auto
  next
    case False
    let ?s = "s\<lparr>rt_deviceLoopbackByName := (rt_deviceLoopbackByName s)(d \<mapsto> l)\<rparr>"
    obtain r s2 where p: "prepareLifecycleDeviceForStandby hooks d l ?s = (r, s2)" by fastforce
    note up = standby_up [OF _ p, simplified, OF Cons.prems(1)]
    consider "res_ok r" | "\<not> res_ok r" "opt" | "\<not> res_ok r" "\<not> opt" by blast
    then show ?thesis
    proof cases
      case 1
      with Cons.prems(3) False spec p have run: "init_loop hooks l specs (ds @ [d]) fs s2 = (v, s1)" by simp
      have "up_of s2 \<subseteq> set (ds @ [d])" using up 1 Cons.prems(2) by auto
      from Cons.IH [OF _ this run] up 1 Cons.prems(2) spec show ?thesis by (cases v) auto
    next
      case 2
      with Cons.prems(3) False spec p obtain fs' where run: "init_loop hooks l specs ds fs' s2 = (v, s1)" by simp
      have "up_of s2 \<subseteq> set ds" using up 2 Cons.prems(2) by auto
      from Cons.IH [OF _ this run] up 2 Cons.prems(2) spec show ?thesis by (cases v) auto
    next
      case 3
      with Cons.prems(3) False spec p
      have "v = Inl r" "s1 = fold (\<lambda>d s. snd (on_ops (shutdownDevice d) s)) ds s2" by simp_all
      with 3 shutdowns_up [of s2 dm ds] up Cons.prems(2) show ?thesis by auto
    qed
  qed
qed auto

lemma init_up:
  assumes "lo_deviceManager (rt_lifecycleDriverOps s) = Some (logged_dm dm)" and "up_of s = {}"
    and "initializeLifecycleDevice hooks device l s = (r, s1)"
  shows "if res_ok r
    then rt_active s1 \<and> (distinct (map fst (device_specs device)) \<longrightarrow> up_of s1 \<noteq> {} \<and>
      {d. (d, False) \<in> set (device_specs device) \<and> d \<noteq> []} \<subseteq> up_of s1 \<and> up_of s1 \<subseteq> fst ` set (device_specs device))
    else up_of s1 = {} \<and> rt_active s1 = rt_active s"
proof -
  obtain v s2 where v: "init_loop hooks l (device_specs device) [] [] s = (v, s2)" by fastforce
  from init_loop_up [OF assms(1) _ this] assms(2,3) v show ?thesis
    by (auto simp: initializeLifecycleDevice_def split: sum.splits prod.splits if_splits)
qed

end

end
