(* ===== verification/Joint_Config_Parser.thy ===== *)
theory Joint_Config_Parser
  imports Axis_Command_Semantics
begin

text \<open>
  \<open>JointConfigParser.cpp\<close>: from the list of joints of the parameter server to joint configurations.
  \<open>XmlRpcValue\<close> is a tagged union; reading it as a type it does not have raises an exception, which
  the parser does not catch.
\<close>

section \<open>Values and answers\<close>

datatype XmlRpcValue =
  XmlInt i32 | XmlDouble dbl | XmlString string | XmlBoolean bool
| XmlArray "XmlRpcValue list" | XmlStruct "(string \<times> XmlRpcValue) list" | XmlOther

fun member_of :: "XmlRpcValue \<Rightarrow> string \<Rightarrow> XmlRpcValue option" where
  "member_of (XmlStruct members) name = map_of members name"
| "member_of _ name = None"

text \<open>The parser succeeds, refuses with a message, or lets an exception out.\<close>

datatype 'a parsed = Parsed 'a | Refused string | Raised

fun and_then :: "'a parsed \<Rightarrow> ('a \<Rightarrow> 'b parsed) \<Rightarrow> 'b parsed" where
  "and_then (Parsed x) f = f x"
| "and_then (Refused message) f = Refused message"
| "and_then Raised f = Raised"

definition require :: "bool \<Rightarrow> string \<Rightarrow> unit parsed" where
  "require b message = (if b then Parsed () else Refused message)"

fun as_string :: "XmlRpcValue \<Rightarrow> string parsed" where
  "as_string (XmlString s) = Parsed s"
| "as_string _ = Raised"

text \<open>A number, when the value is of one of the two numeric types.\<close>

fun number_of :: "XmlRpcValue \<Rightarrow> dbl option" where
  "number_of (XmlInt n) = Some (dbl_of_int (sint n))"
| "number_of (XmlDouble x) = Some x"
| "number_of _ = None"

definition show_int :: "int \<Rightarrow> string" where
  "show_int n = (if n < 0 then CHR ''-'' # show_nat (nat (- n)) else show_nat (nat n))"

record ParsedJointConfig =
  pj_name :: string
  pj_canDevice :: string
  pj_controlMode :: string
  pj_motorId :: motor_id
  pj_protocol :: CanType
  pj_positionScale :: dbl
  pj_velocityScale :: dbl
  pj_directionSign :: dbl
  pj_zeroOffsetRad :: dbl
  pj_ipMaxVelocity :: dbl
  pj_ipMaxAcceleration :: dbl
  pj_ipMaxJerk :: dbl
  pj_ipGoalTolerance :: dbl
  pj_ecbIp :: string
  pj_ecbAutoDiscovery :: bool
  pj_ecbRefreshMs :: i32
  pj_ecbProfilePositionMaxRpm :: dbl
  pj_ecbProfilePositionAccelerationRpmS :: dbl
  pj_ecbProfilePositionDecelerationRpmS :: dbl
  pj_ecbProfileVelocityAccelerationRpmS :: dbl
  pj_ecbProfileVelocityDecelerationRpmS :: dbl

definition default_ParsedJointConfig :: ParsedJointConfig where
  "default_ParsedJointConfig = \<lparr>pj_name = [], pj_canDevice = [], pj_controlMode = [], pj_motorId = LeftWheel,
     pj_protocol = MT, pj_positionScale = Fin 1, pj_velocityScale = Fin 1, pj_directionSign = Fin 1,
     pj_zeroOffsetRad = Fin 0, pj_ipMaxVelocity = Fin 1, pj_ipMaxAcceleration = Fin 2, pj_ipMaxJerk = Fin 10,
     pj_ipGoalTolerance = round64 (1 / 1000), pj_ecbIp = [], pj_ecbAutoDiscovery = False, pj_ecbRefreshMs = 20,
     pj_ecbProfilePositionMaxRpm = Fin 500, pj_ecbProfilePositionAccelerationRpmS = Fin 300,
     pj_ecbProfilePositionDecelerationRpmS = Fin (- 300), pj_ecbProfileVelocityAccelerationRpmS = Fin 300,
     pj_ecbProfileVelocityDecelerationRpmS = Fin (- 300)\<rparr>"

definition kDamiaoSiScale :: dbl where "kDamiaoSiScale = round64 (1 / 10000)"

text \<open>The double next to pi.\<close>

definition M_PI :: dbl where "M_PI = Fin (884279719003555 / 281474976710656)"

section \<open>Numbers\<close>

definition parseOptionalDouble :: "(dbl \<Rightarrow> bool) \<Rightarrow> string \<Rightarrow> XmlRpcValue \<Rightarrow> string \<Rightarrow> dbl \<Rightarrow> dbl parsed" where
  "parseOptionalDouble accepts errorMsg jointValue fieldName out =
     (case member_of jointValue fieldName of
        None \<Rightarrow> Parsed out
      | Some value \<Rightarrow>
          (case number_of value of
             None \<Rightarrow> Refused errorMsg
           | Some parsed \<Rightarrow> if accepts parsed then Parsed parsed else Refused errorMsg))"

definition invalid_field :: "string \<Rightarrow> string \<Rightarrow> string" where
  "invalid_field jointName fieldName = ''Joint '' @ [CHR 0x27] @ jointName @ [CHR 0x27] @ '': invalid '' @ fieldName @ ''.''"

definition parsePositiveOptionalDouble :: "XmlRpcValue \<Rightarrow> string \<Rightarrow> string \<Rightarrow> dbl \<Rightarrow> dbl parsed" where
  "parsePositiveOptionalDouble jointValue fieldName jointName out =
     parseOptionalDouble (\<lambda>x. isfinite x \<and> \<not> dle x (Fin 0)) (invalid_field jointName fieldName) jointValue fieldName out"

definition parseNonNegativeOptionalDouble :: "XmlRpcValue \<Rightarrow> string \<Rightarrow> string \<Rightarrow> dbl \<Rightarrow> dbl parsed" where
  "parseNonNegativeOptionalDouble jointValue fieldName jointName out =
     parseOptionalDouble (\<lambda>x. isfinite x \<and> \<not> dlt x (Fin 0)) (invalid_field jointName fieldName) jointValue fieldName out"

definition parseFiniteOptionalDouble :: "XmlRpcValue \<Rightarrow> string \<Rightarrow> string \<Rightarrow> dbl \<Rightarrow> dbl parsed" where
  "parseFiniteOptionalDouble jointValue fieldName jointName out =
     parseOptionalDouble isfinite (invalid_field jointName fieldName) jointValue fieldName out"

definition joint_error :: "string \<Rightarrow> string \<Rightarrow> string" where
  "joint_error jointName message = ''Joint '' @ [CHR 0x27] @ jointName @ [CHR 0x27] @ '': '' @ message"

definition parseDirectionSign :: "XmlRpcValue \<Rightarrow> string \<Rightarrow> dbl \<Rightarrow> dbl parsed" where
  "parseDirectionSign jointValue jointName out =
     parseOptionalDouble (\<lambda>x. deq x (Fin 1) \<or> deq x (Fin (- 1)))
       (joint_error jointName ''direction_sign must be either 1 or -1.'') jointValue ''direction_sign'' out"

text \<open>A scale: a factor, or from two on the counts of a turn; other types than the two numeric ones raise.\<close>

definition parse_scale :: "XmlRpcValue \<Rightarrow> string \<Rightarrow> dbl \<Rightarrow> dbl parsed" where
  "parse_scale jv field current =
     (case member_of jv field of
        None \<Rightarrow> Parsed current
      | Some sv \<Rightarrow>
          (case number_of sv of
             None \<Rightarrow> Raised
           | Some val \<Rightarrow> Parsed (if dle (Fin 2) val then ddiv (dmul (Fin 2) M_PI) val else val)))"

section \<open>Motor ids\<close>

text \<open>\<open>std::stoul\<close> with base 0: white space, a sign, a base prefix, and the longest run of digits.\<close>

definition digit_value :: "char \<Rightarrow> nat" where
  "digit_value c =
     (let n = of_char c :: nat
      in if 48 \<le> n \<and> n \<le> 57 then n - 48
         else if 97 \<le> n \<and> n \<le> 122 then n - 87
         else if 65 \<le> n \<and> n \<le> 90 then n - 55 else 99)"

definition digits_of :: "nat \<Rightarrow> string \<Rightarrow> nat list" where
  "digits_of base s = takeWhile (\<lambda>d. d < base) (map digit_value s)"

definition number_value :: "nat \<Rightarrow> nat list \<Rightarrow> nat" where
  "number_value base ds = foldl (\<lambda>n d. n * base + d) 0 ds"

definition split_base :: "string \<Rightarrow> nat \<times> string" where
  "split_base s =
     (if take 2 s \<in> {''0x'', ''0X''} \<and> digits_of 16 (drop 2 s) \<noteq> [] then (16, drop 2 s)
      else if take 1 s = ''0'' then (8, s) else (10, s))"

definition split_sign :: "string \<Rightarrow> bool \<times> string" where
  "split_sign s = (if take 1 s = ''-'' then (True, drop 1 s) else if take 1 s = ''+'' then (False, drop 1 s) else (False, s))"

text \<open>\<open>None\<close> is one of its exceptions: no digits, or a value that does not fit 64 bits.\<close>

definition stoul :: "string \<Rightarrow> u64 option" where
  "stoul s =
     (case split_sign (dropWhile isspace s) of
        (negative, s1) \<Rightarrow>
          (case split_base s1 of
             (base, s2) \<Rightarrow>
               let ds = digits_of base s2; n = number_value base ds
               in if ds = [] \<or> 2 ^ 64 \<le> n then None
                  else Some (if negative then - of_nat n else of_nat n)))"

text \<open>\<open>what\<close> is the text of the exception, which the library chooses; the conversion to \<open>int\<close> keeps the low 32 bits.\<close>

definition parseMotorId :: "string \<Rightarrow> XmlRpcValue \<Rightarrow> string \<Rightarrow> motor_id parsed" where
  "parseMotorId what value jointName =
     and_then
       (case value of
          XmlInt n \<Rightarrow> Parsed n
        | XmlString s \<Rightarrow>
            (case stoul s of
               None \<Rightarrow> Refused (joint_error jointName (''invalid motor_id '' @ [CHR 0x27] @ s @ [CHR 0x27] @ '' ('' @ what @ '').''))
             | Some n \<Rightarrow> Parsed (ucast n :: i32))
        | _ \<Rightarrow> Refused (joint_error jointName ''motor_id must be int or string.''))
       (\<lambda>rawId. if sint rawId < 0 \<or> 65535 < sint rawId
                then Refused (joint_error jointName (''motor_id out of range [0, 65535]: '' @ show_int (sint rawId) @ ''.''))
                else Parsed (ucast rawId))"

section \<open>One joint\<close>

fun protocol_of_string :: "string \<Rightarrow> CanType option" where
  "protocol_of_string s =
     (if s = ''MT'' then Some MT else if s = ''PP'' then Some PP else if s = ''DM'' then Some DM
      else if s = ''ECB'' then Some ECB else None)"

text \<open>Name, device, control mode, protocol and motor id.\<close>

definition parse_identity :: "string \<Rightarrow> nat \<Rightarrow> XmlRpcValue \<Rightarrow> ParsedJointConfig parsed" where
  "parse_identity what i jv =
     (case (member_of jv ''name'', member_of jv ''motor_id'', member_of jv ''protocol'', member_of jv ''can_device'',
            member_of jv ''control_mode'') of
        (Some name, Some motor_id, Some protocol, Some can_device, Some control_mode) \<Rightarrow>
          and_then (as_string name) (\<lambda>name.
          and_then (as_string can_device) (\<lambda>canDevice.
          and_then (as_string control_mode) (\<lambda>controlMode.
          and_then (require (axisControlModeFromString controlMode \<noteq> AxisUnknown)
            (joint_error name (''unknown control_mode '' @ [CHR 0x27] @ controlMode @ [CHR 0x27] @
               '' (use velocity, position, or csp).''))) (\<lambda>_.
          and_then (as_string protocol) (\<lambda>protoStr.
          and_then (case protocol_of_string protoStr of
                      None \<Rightarrow> Refused (joint_error name (''unknown protocol '' @ [CHR 0x27] @ protoStr @ [CHR 0x27] @
                        '' (use MT/PP/DM/ECB).''))
                    | Some protocol \<Rightarrow> Parsed protocol) (\<lambda>protocol.
          and_then (parseMotorId what motor_id name) (\<lambda>motorId.
          and_then (require (\<not> (protocol = DM \<and> 0x0F < toProtocolNodeId motorId))
            (joint_error name (''DM protocol currently requires motor_id low byte in [0, 15] '' @
               ''so feedback can be matched reliably.''))) (\<lambda>_.
          and_then (require (\<not> (protocol = DM \<and> axisControlModeFromString controlMode \<noteq> AxisVelocity))
            (joint_error name (''DM protocol currently only supports control_mode '' @ [CHR 0x27] @ ''velocity'' @
               [CHR 0x27] @ ''.''))) (\<lambda>_.
          Parsed (default_ParsedJointConfig\<lparr>pj_name := name, pj_canDevice := canDevice, pj_controlMode := controlMode,
            pj_motorId := motorId, pj_protocol := protocol\<rparr>))))))))))
      | _ \<Rightarrow> Refused (''Joint ['' @ show_nat i @
               ''] missing required field (name/motor_id/protocol/can_device/control_mode).''))"

text \<open>Scales, direction, zero offset and the limits of the interpolation.\<close>

definition parse_motion :: "XmlRpcValue \<Rightarrow> ParsedJointConfig \<Rightarrow> ParsedJointConfig parsed" where
  "parse_motion jv jc =
     (let name = pj_name jc; dm = (pj_protocol jc = DM)
      in and_then (parse_scale jv ''position_scale'' (if dm then kDamiaoSiScale else pj_positionScale jc)) (\<lambda>positionScale.
         and_then (parse_scale jv ''velocity_scale'' (if dm then kDamiaoSiScale else pj_velocityScale jc)) (\<lambda>velocityScale.
         and_then (require (isfinite positionScale \<and> \<not> dle positionScale (Fin 0)) (invalid_field name ''position_scale'')) (\<lambda>_.
         and_then (require (isfinite velocityScale \<and> \<not> dle velocityScale (Fin 0)) (invalid_field name ''velocity_scale'')) (\<lambda>_.
         and_then (parseDirectionSign jv name (pj_directionSign jc)) (\<lambda>directionSign.
         and_then (parseFiniteOptionalDouble jv ''zero_offset_rad'' name (pj_zeroOffsetRad jc)) (\<lambda>zeroOffsetRad.
         and_then (parsePositiveOptionalDouble jv ''ip_max_velocity'' name (pj_ipMaxVelocity jc)) (\<lambda>ipMaxVelocity.
         and_then (parsePositiveOptionalDouble jv ''ip_max_acceleration'' name (pj_ipMaxAcceleration jc)) (\<lambda>ipMaxAcceleration.
         and_then (parsePositiveOptionalDouble jv ''ip_max_jerk'' name (pj_ipMaxJerk jc)) (\<lambda>ipMaxJerk.
         and_then (parseNonNegativeOptionalDouble jv ''ip_goal_tolerance'' name (pj_ipGoalTolerance jc)) (\<lambda>ipGoalTolerance.
         Parsed (jc\<lparr>pj_positionScale := positionScale, pj_velocityScale := velocityScale, pj_directionSign := directionSign,
           pj_zeroOffsetRad := zeroOffsetRad, pj_ipMaxVelocity := ipMaxVelocity,
           pj_ipMaxAcceleration := ipMaxAcceleration, pj_ipMaxJerk := ipMaxJerk,
           pj_ipGoalTolerance := ipGoalTolerance\<rparr>))))))))))))"

text \<open>How the motors behind an ECB bridge are found and driven.\<close>

definition parse_ecb_ip :: "XmlRpcValue \<Rightarrow> ParsedJointConfig \<Rightarrow> string parsed" where
  "parse_ecb_ip jv jc =
     (case member_of jv ''ecb_ip'' of
        None \<Rightarrow> Parsed (pj_ecbIp jc)
      | Some (XmlString s) \<Rightarrow> Parsed s
      | Some _ \<Rightarrow> Refused (joint_error (pj_name jc) ''ecb_ip must be string.''))"

definition parse_ecb_discovery :: "XmlRpcValue \<Rightarrow> ParsedJointConfig \<Rightarrow> bool parsed" where
  "parse_ecb_discovery jv jc =
     (let refused = Refused (joint_error (pj_name jc) ''ecb_discovery must be auto/fixed/bool.'')
      in case member_of jv ''ecb_discovery'' of
           None \<Rightarrow> Parsed (pj_ecbAutoDiscovery jc)
         | Some (XmlBoolean b) \<Rightarrow> Parsed b
         | Some (XmlString mode) \<Rightarrow>
             (if mode = ''auto'' then Parsed True else if mode = ''fixed'' then Parsed False else refused)
         | Some _ \<Rightarrow> refused)"

definition parse_ecb_refresh :: "XmlRpcValue \<Rightarrow> ParsedJointConfig \<Rightarrow> i32 parsed" where
  "parse_ecb_refresh jv jc =
     (case member_of jv ''ecb_refresh_ms'' of
        None \<Rightarrow> Parsed (pj_ecbRefreshMs jc)
      | Some (XmlInt n) \<Rightarrow>
          (if sint n \<le> 0 then Refused (joint_error (pj_name jc) ''ecb_refresh_ms must be > 0.'') else Parsed n)
      | Some _ \<Rightarrow> Refused (joint_error (pj_name jc) ''ecb_refresh_ms must be int.''))"

definition kEcbPrefix :: string where "kEcbPrefix = ''ecb://''"

definition default_ecb_ip :: "ParsedJointConfig \<Rightarrow> ParsedJointConfig" where
  "default_ecb_ip jc =
     (if pj_protocol jc = ECB \<and> \<not> pj_ecbAutoDiscovery jc \<and> pj_ecbIp jc = [] \<and>
         take (length kEcbPrefix) (pj_canDevice jc) = kEcbPrefix
      then let payload = drop 6 (pj_canDevice jc)
           in if payload \<noteq> [] \<and> payload \<noteq> ''auto'' then jc\<lparr>pj_ecbIp := payload\<rparr> else jc
      else jc)"

definition parse_ecb :: "XmlRpcValue \<Rightarrow> ParsedJointConfig \<Rightarrow> ParsedJointConfig parsed" where
  "parse_ecb jv jc =
     (let name = pj_name jc
      in and_then (parse_ecb_ip jv jc) (\<lambda>ecbIp.
         and_then (parse_ecb_discovery jv jc) (\<lambda>ecbAutoDiscovery.
         and_then (parse_ecb_refresh jv jc) (\<lambda>ecbRefreshMs.
         and_then (parsePositiveOptionalDouble jv ''ecb_profile_position_max_rpm'' name
           (pj_ecbProfilePositionMaxRpm jc)) (\<lambda>maxRpm.
         and_then (parsePositiveOptionalDouble jv ''ecb_profile_position_acceleration_rpm_s'' name
           (pj_ecbProfilePositionAccelerationRpmS jc)) (\<lambda>positionAcceleration.
         and_then (parseFiniteOptionalDouble jv ''ecb_profile_position_deceleration_rpm_s'' name
           (pj_ecbProfilePositionDecelerationRpmS jc)) (\<lambda>positionDeceleration.
         and_then (parsePositiveOptionalDouble jv ''ecb_profile_velocity_acceleration_rpm_s'' name
           (pj_ecbProfileVelocityAccelerationRpmS jc)) (\<lambda>velocityAcceleration.
         and_then (parseFiniteOptionalDouble jv ''ecb_profile_velocity_deceleration_rpm_s'' name
           (pj_ecbProfileVelocityDecelerationRpmS jc)) (\<lambda>velocityDeceleration.
         Parsed (default_ecb_ip (jc\<lparr>pj_ecbIp := ecbIp, pj_ecbAutoDiscovery := ecbAutoDiscovery,
           pj_ecbRefreshMs := ecbRefreshMs, pj_ecbProfilePositionMaxRpm := maxRpm,
           pj_ecbProfilePositionAccelerationRpmS := positionAcceleration,
           pj_ecbProfilePositionDecelerationRpmS := positionDeceleration,
           pj_ecbProfileVelocityAccelerationRpmS := velocityAcceleration,
           pj_ecbProfileVelocityDecelerationRpmS := velocityDeceleration\<rparr>)))))))))))"

definition parse_joint :: "string \<Rightarrow> nat \<Rightarrow> XmlRpcValue \<Rightarrow> ParsedJointConfig parsed" where
  "parse_joint what i jv = and_then (parse_identity what i jv) (\<lambda>jc. and_then (parse_motion jv jc) (parse_ecb jv))"

section \<open>The list\<close>

fun parse_joints :: "string \<Rightarrow> nat \<Rightarrow> XmlRpcValue list \<Rightarrow> ParsedJointConfig list parsed" where
  "parse_joints what i [] = Parsed []"
| "parse_joints what i (jv # jvs) =
     and_then (parse_joint what i jv) (\<lambda>jc. and_then (parse_joints what (Suc i) jvs) (\<lambda>jcs. Parsed (jc # jcs)))"

definition parse :: "string \<Rightarrow> XmlRpcValue \<Rightarrow> ParsedJointConfig list parsed" where
  "parse what jointList =
     (case jointList of
        XmlArray jvs \<Rightarrow> if jvs = [] then Refused ([CHR 0x27] @ ''joints'' @ [CHR 0x27] @ '' must be a non-empty list.'')
                        else parse_joints what 0 jvs
      | _ \<Rightarrow> Refused ([CHR 0x27] @ ''joints'' @ [CHR 0x27] @ '' must be a non-empty list.''))"

section \<open>Facts\<close>

lemma and_then_Parsed [simp]: "and_then m f = Parsed y \<longleftrightarrow> (\<exists>x. m = Parsed x \<and> f x = Parsed y)"
  by (cases m) simp_all

lemma require_Parsed [simp]: "require b message = Parsed u \<longleftrightarrow> b"
  by (simp add: require_def)

definition positive :: "dbl \<Rightarrow> bool" where
  "positive x \<longleftrightarrow> isfinite x \<and> \<not> dle x (Fin 0)"

lemma positive_iff: "positive x \<longleftrightarrow> (\<exists>q. x = Fin q \<and> 0 < q)"
  by (cases x) (auto simp: positive_def dle_def)

lemma optional_Parsed:
  "parsePositiveOptionalDouble jv f name out = Parsed x \<Longrightarrow> positive out \<Longrightarrow> positive x"
  "parseFiniteOptionalDouble jv f name out = Parsed x \<Longrightarrow> isfinite out \<Longrightarrow> isfinite x"
  "parseNonNegativeOptionalDouble jv f name out = Parsed x \<Longrightarrow> isfinite out \<and> \<not> dlt out (Fin 0) \<Longrightarrow>
     isfinite x \<and> \<not> dlt x (Fin 0)"
  "parseDirectionSign jv name out = Parsed x \<Longrightarrow> deq out (Fin 1) \<or> deq out (Fin (- 1)) \<Longrightarrow> deq x (Fin 1) \<or> deq x (Fin (- 1))"
  by (auto simp: parsePositiveOptionalDouble_def parseFiniteOptionalDouble_def parseNonNegativeOptionalDouble_def
      parseDirectionSign_def parseOptionalDouble_def positive_def split: option.splits if_splits)

text \<open>What a parsed joint promises to the rest of the driver.\<close>

definition well_formed :: "ParsedJointConfig \<Rightarrow> bool" where
  "well_formed jc \<longleftrightarrow>
     axisControlModeFromString (pj_controlMode jc) \<noteq> AxisUnknown \<and>
     positive (pj_positionScale jc) \<and> positive (pj_velocityScale jc) \<and>
     (deq (pj_directionSign jc) (Fin 1) \<or> deq (pj_directionSign jc) (Fin (- 1))) \<and> isfinite (pj_zeroOffsetRad jc) \<and>
     positive (pj_ipMaxVelocity jc) \<and> positive (pj_ipMaxAcceleration jc) \<and> positive (pj_ipMaxJerk jc) \<and>
     isfinite (pj_ipGoalTolerance jc) \<and> \<not> dlt (pj_ipGoalTolerance jc) (Fin 0) \<and>
     0 < sint (pj_ecbRefreshMs jc) \<and> positive (pj_ecbProfilePositionMaxRpm jc) \<and>
     positive (pj_ecbProfilePositionAccelerationRpmS jc) \<and> isfinite (pj_ecbProfilePositionDecelerationRpmS jc) \<and>
     positive (pj_ecbProfileVelocityAccelerationRpmS jc) \<and> isfinite (pj_ecbProfileVelocityDecelerationRpmS jc) \<and>
     (pj_protocol jc = DM \<longrightarrow> axisControlModeFromString (pj_controlMode jc) = AxisVelocity \<and>
        unat (toProtocolNodeId (pj_motorId jc)) \<le> 15)"

lemma default_tolerance: "isfinite (round64 (1 / 1000)) \<and> \<not> dlt (round64 (1 / 1000)) (Fin 0)"
proof -
  obtain v where "round64 (1 / 1000) = Fin v" "\<bar>v - 1 / 1000\<bar> \<le> 1 / 524288"
    using round64_counts [of 1 "1 / 1000"] by (auto simp: power_int_le_one)
  then have "round64 (1 / 1000) = Fin v" "0 \<le> v" by linarith+
  then show ?thesis by simp
qed

text \<open>The parts of a joint that each stage sets.\<close>

definition identified :: "ParsedJointConfig \<Rightarrow> bool" where
  "identified jc \<longleftrightarrow> axisControlModeFromString (pj_controlMode jc) \<noteq> AxisUnknown \<and>
     (pj_protocol jc = DM \<longrightarrow> axisControlModeFromString (pj_controlMode jc) = AxisVelocity \<and>
        unat (toProtocolNodeId (pj_motorId jc)) \<le> 15) \<and>
     pj_directionSign jc = Fin 1 \<and> pj_zeroOffsetRad jc = Fin 0 \<and> pj_ipMaxVelocity jc = Fin 1 \<and>
     pj_ipMaxAcceleration jc = Fin 2 \<and> pj_ipMaxJerk jc = Fin 10 \<and> pj_ipGoalTolerance jc = round64 (1 / 1000) \<and>
     sint (pj_ecbRefreshMs jc) = 20 \<and> pj_ecbProfilePositionMaxRpm jc = Fin 500 \<and>
     pj_ecbProfilePositionAccelerationRpmS jc = Fin 300 \<and> pj_ecbProfilePositionDecelerationRpmS jc = Fin (- 300) \<and>
     pj_ecbProfileVelocityAccelerationRpmS jc = Fin 300 \<and> pj_ecbProfileVelocityDecelerationRpmS jc = Fin (- 300)"

lemma parse_identity_Parsed: "parse_identity what i jv = Parsed jc \<Longrightarrow> identified jc"
  by (auto simp: parse_identity_def identified_def word_less_nat_alt not_less default_ParsedJointConfig_def
      split: option.splits)

definition in_motion :: "ParsedJointConfig \<Rightarrow> bool" where
  "in_motion jc \<longleftrightarrow> positive (pj_positionScale jc) \<and> positive (pj_velocityScale jc) \<and>
     (deq (pj_directionSign jc) (Fin 1) \<or> deq (pj_directionSign jc) (Fin (- 1))) \<and> isfinite (pj_zeroOffsetRad jc) \<and>
     positive (pj_ipMaxVelocity jc) \<and> positive (pj_ipMaxAcceleration jc) \<and> positive (pj_ipMaxJerk jc) \<and>
     isfinite (pj_ipGoalTolerance jc) \<and> \<not> dlt (pj_ipGoalTolerance jc) (Fin 0)"

lemma parse_motion_Parsed:
  assumes "parse_motion jv jc = Parsed jc'" and "identified jc"
  shows "in_motion jc'" and "pj_controlMode jc' = pj_controlMode jc \<and> pj_protocol jc' = pj_protocol jc \<and>
    pj_motorId jc' = pj_motorId jc \<and> pj_ecbRefreshMs jc' = pj_ecbRefreshMs jc \<and>
    pj_ecbProfilePositionMaxRpm jc' = pj_ecbProfilePositionMaxRpm jc \<and>
    pj_ecbProfilePositionAccelerationRpmS jc' = pj_ecbProfilePositionAccelerationRpmS jc \<and>
    pj_ecbProfilePositionDecelerationRpmS jc' = pj_ecbProfilePositionDecelerationRpmS jc \<and>
    pj_ecbProfileVelocityAccelerationRpmS jc' = pj_ecbProfileVelocityAccelerationRpmS jc \<and>
    pj_ecbProfileVelocityDecelerationRpmS jc' = pj_ecbProfileVelocityDecelerationRpmS jc"
proof -
  from assms(2) have defaults: "deq (pj_directionSign jc) (Fin 1)" "isfinite (pj_zeroOffsetRad jc)"
    "positive (pj_ipMaxVelocity jc)" "positive (pj_ipMaxAcceleration jc)" "positive (pj_ipMaxJerk jc)"
    "isfinite (pj_ipGoalTolerance jc) \<and> \<not> dlt (pj_ipGoalTolerance jc) (Fin 0)"
    using default_tolerance by (auto simp: identified_def positive_iff)
  from assms(1) obtain p v d z a b c t where jc': "jc' = jc\<lparr>pj_positionScale := p, pj_velocityScale := v,
      pj_directionSign := d, pj_zeroOffsetRad := z, pj_ipMaxVelocity := a, pj_ipMaxAcceleration := b,
      pj_ipMaxJerk := c, pj_ipGoalTolerance := t\<rparr>"
    and p: "positive p" "positive v" and d: "parseDirectionSign jv (pj_name jc) (pj_directionSign jc) = Parsed d"
    and z: "parseFiniteOptionalDouble jv ''zero_offset_rad'' (pj_name jc) (pj_zeroOffsetRad jc) = Parsed z"
    and abc: "parsePositiveOptionalDouble jv ''ip_max_velocity'' (pj_name jc) (pj_ipMaxVelocity jc) = Parsed a"
      "parsePositiveOptionalDouble jv ''ip_max_acceleration'' (pj_name jc) (pj_ipMaxAcceleration jc) = Parsed b"
      "parsePositiveOptionalDouble jv ''ip_max_jerk'' (pj_name jc) (pj_ipMaxJerk jc) = Parsed c"
    and t: "parseNonNegativeOptionalDouble jv ''ip_goal_tolerance'' (pj_name jc) (pj_ipGoalTolerance jc) = Parsed t"
    by (auto simp: parse_motion_def Let_def positive_def)
  show "in_motion jc'"
    using optional_Parsed(1) [OF abc(1)] optional_Parsed(1) [OF abc(2)] optional_Parsed(1) [OF abc(3)]
      optional_Parsed(2) [OF z] optional_Parsed(3) [OF t] optional_Parsed(4) [OF d] defaults p
    by (auto simp: jc' in_motion_def)
  show "pj_controlMode jc' = pj_controlMode jc \<and> pj_protocol jc' = pj_protocol jc \<and>
    pj_motorId jc' = pj_motorId jc \<and> pj_ecbRefreshMs jc' = pj_ecbRefreshMs jc \<and>
    pj_ecbProfilePositionMaxRpm jc' = pj_ecbProfilePositionMaxRpm jc \<and>
    pj_ecbProfilePositionAccelerationRpmS jc' = pj_ecbProfilePositionAccelerationRpmS jc \<and>
    pj_ecbProfilePositionDecelerationRpmS jc' = pj_ecbProfilePositionDecelerationRpmS jc \<and>
    pj_ecbProfileVelocityAccelerationRpmS jc' = pj_ecbProfileVelocityAccelerationRpmS jc \<and>
    pj_ecbProfileVelocityDecelerationRpmS jc' = pj_ecbProfileVelocityDecelerationRpmS jc"
    by (simp add: jc')
qed

lemma well_formed_default_ip: "well_formed (default_ecb_ip x) = well_formed x"
  by (simp add: default_ecb_ip_def Let_def well_formed_def)

lemma parse_ecb_Parsed:
  assumes "parse_ecb jv jc = Parsed jc'" and "0 < sint (pj_ecbRefreshMs jc)" and "positive (pj_ecbProfilePositionMaxRpm jc)"
    and "positive (pj_ecbProfilePositionAccelerationRpmS jc)" and "isfinite (pj_ecbProfilePositionDecelerationRpmS jc)"
    and "positive (pj_ecbProfileVelocityAccelerationRpmS jc)" and "isfinite (pj_ecbProfileVelocityDecelerationRpmS jc)"
    and idt: "in_motion jc" "axisControlModeFromString (pj_controlMode jc) \<noteq> AxisUnknown"
      "pj_protocol jc = DM \<longrightarrow> axisControlModeFromString (pj_controlMode jc) = AxisVelocity \<and>
        unat (toProtocolNodeId (pj_motorId jc)) \<le> 15"
  shows "well_formed jc'"
proof -
  from assms(1) obtain ip auto refresh a b c d e where jc': "jc' = default_ecb_ip (jc\<lparr>pj_ecbIp := ip,
      pj_ecbAutoDiscovery := auto, pj_ecbRefreshMs := refresh, pj_ecbProfilePositionMaxRpm := a,
      pj_ecbProfilePositionAccelerationRpmS := b, pj_ecbProfilePositionDecelerationRpmS := c,
      pj_ecbProfileVelocityAccelerationRpmS := d, pj_ecbProfileVelocityDecelerationRpmS := e\<rparr>)"
    and r: "parse_ecb_refresh jv jc = Parsed refresh"
    and "parsePositiveOptionalDouble jv ''ecb_profile_position_max_rpm'' (pj_name jc) (pj_ecbProfilePositionMaxRpm jc) = Parsed a"
      "parsePositiveOptionalDouble jv ''ecb_profile_position_acceleration_rpm_s'' (pj_name jc)
         (pj_ecbProfilePositionAccelerationRpmS jc) = Parsed b"
      "parseFiniteOptionalDouble jv ''ecb_profile_position_deceleration_rpm_s'' (pj_name jc)
         (pj_ecbProfilePositionDecelerationRpmS jc) = Parsed c"
      "parsePositiveOptionalDouble jv ''ecb_profile_velocity_acceleration_rpm_s'' (pj_name jc)
         (pj_ecbProfileVelocityAccelerationRpmS jc) = Parsed d"
      "parseFiniteOptionalDouble jv ''ecb_profile_velocity_deceleration_rpm_s'' (pj_name jc)
         (pj_ecbProfileVelocityDecelerationRpmS jc) = Parsed e"
    by (auto simp: parse_ecb_def Let_def)
  then have "positive a" "positive b" "isfinite c" "positive d" "isfinite e"
    using optional_Parsed(1,2) assms(3-7) by blast+
  moreover have "0 < sint refresh"
    using r assms(2) by (auto simp: parse_ecb_refresh_def split: option.splits XmlRpcValue.splits if_splits)
  ultimately show ?thesis
    using idt by (simp add: jc' well_formed_default_ip) (simp add: well_formed_def in_motion_def)
qed

lemma parse_joint_Parsed: "parse_joint what i jv = Parsed jc \<Longrightarrow> well_formed jc"
proof -
  assume "parse_joint what i jv = Parsed jc"
  then obtain jc0 jc1 where p: "parse_identity what i jv = Parsed jc0" "parse_motion jv jc0 = Parsed jc1" "parse_ecb jv jc1 = Parsed jc"
    by (auto simp: parse_joint_def)
  note id = parse_identity_Parsed [OF p(1)]
  note m = parse_motion_Parsed [OF p(2) id]
  from id m show ?thesis by (intro parse_ecb_Parsed [OF p(3)]) (auto simp: identified_def positive_iff)
qed

lemma parse_joints_Parsed: "parse_joints what i jvs = Parsed jcs \<Longrightarrow> list_all well_formed jcs \<and> length jcs = length jvs"
  by (induction jvs arbitrary: i jcs) (auto dest: parse_joint_Parsed)

section \<open>Properties\<close>

text \<open>
  C16: whatever the parameter server holds, when the parser succeeds there is a joint for every entry,
  and every joint is well formed: a known control mode, positive finite scales, a direction of plus
  or minus one, finite offset and decelerations, positive limits and refresh period, and, on a DM
  bus, velocity control and a node number that feedback can be matched with.
\<close>

theorem parsed_joints_well_formed:
  assumes "parse what v = Parsed jcs"
  shows "jcs \<noteq> [] \<and> list_all well_formed jcs \<and> (\<exists>jvs. v = XmlArray jvs \<and> length jcs = length jvs)"
  using assms by (auto simp: parse_def split: XmlRpcValue.splits if_splits dest: parse_joints_Parsed)

definition witness_entry :: XmlRpcValue where
  "witness_entry = XmlStruct [(''name'', XmlString ''wheel''), (''motor_id'', XmlString ''0x141''), (''protocol'', XmlString ''MT''),
     (''can_device'', XmlString ''can0''), (''control_mode'', XmlString ''velocity''), (''velocity_scale'', XmlDouble (Fin (1 / 4)))]"

lemma parse_witness:
  "parse [] (XmlArray [witness_entry]) = Parsed [default_ParsedJointConfig\<lparr>pj_name := ''wheel'', pj_canDevice := ''can0'',
     pj_controlMode := ''velocity'', pj_motorId := 0x141, pj_velocityScale := Fin (1 / 4)\<rparr>]"
  by (simp add: parse_def parse_joint_def witness_entry_def parse_identity_def parse_motion_def parse_ecb_def Let_def
      axisControlModeFromString_def parseMotorId_def stoul_def split_sign_def split_base_def isspace_def digits_of_def
      digit_value_def number_value_def parse_scale_def dle_def require_def parsePositiveOptionalDouble_def
      parseFiniteOptionalDouble_def parseNonNegativeOptionalDouble_def parseDirectionSign_def parseOptionalDouble_def
      parse_ecb_ip_def parse_ecb_discovery_def parse_ecb_refresh_def default_ecb_ip_def default_ParsedJointConfig_def)

theorem parsed_joints_well_formed_witness:
  "\<exists>jc. parse [] (XmlArray [witness_entry]) = Parsed [jc] \<and> well_formed jc"
  using parsed_joints_well_formed [OF parse_witness] parse_witness by simp

lemma digit_value_char: "k < 10 \<Longrightarrow> digit_value (char_of (48 + k :: nat)) = k"
  by (simp add: digit_value_def take_bit_eq_mod)

lemma show_nat_all_digits:
  "(\<forall>c \<in> set (show_nat n). digit_value c < 10) \<and> number_value 10 (map digit_value (show_nat n)) = n \<and>
   (0 < n \<longrightarrow> digit_value (hd (show_nat n)) \<noteq> 0)"
proof (induction n rule: show_nat.induct)
  case (1 n)
  show ?case
  proof (cases "n < 10")
    case True
    then show ?thesis by (subst (1 2 3) show_nat.simps) (simp add: digit_value_char number_value_def)
  next
    case False
    then have "0 < n div 10" by simp
    with 1 [OF False] False show ?thesis
      by (subst (1 2 3) show_nat.simps) (auto simp: digit_value_char number_value_def)
  qed
qed

lemma digit_char_cases:
  assumes "digit_value c < 10"
  shows "\<not> isspace c" "c \<noteq> CHR ''-''" "c \<noteq> CHR ''+''" "c \<noteq> CHR ''x''" "c \<noteq> CHR ''X''"
  using assms by (auto simp: isspace_def digit_value_def)

lemma stoul_show_nat: "n < 2 ^ 64 \<Longrightarrow> stoul (show_nat n) = Some (of_nat n)"
proof -
  assume n: "n < 2 ^ 64"
  note d = show_nat_all_digits [of n]
  obtain c cs where s: "show_nat n = c # cs" using show_nat_ne_Nil [of n] by (cases "show_nat n") auto
  have digits: "digits_of 10 (show_nat n) = map digit_value (show_nat n)"
    using d by (simp add: digits_of_def takeWhile_eq_all_conv)
  have c: "digit_value c < 10" using d s by simp
  have sign: "split_sign (dropWhile isspace (show_nat n)) = (False, show_nat n)"
    using digit_char_cases [OF c] by (simp add: split_sign_def s)
  have hex: "take 2 (show_nat n) \<notin> {''0x'', ''0X''}"
  proof (cases cs)
    case (Cons c' cs')
    then have "digit_value c' < 10" using d s by simp
    from digit_char_cases [OF this] show ?thesis by (simp add: s Cons)
  qed (simp add: s)
  show ?thesis
  proof (cases "n = 0")
    case True
    moreover have "char_of (48 :: nat) = CHR ''0''" by (simp add: char_of_eq_iff)
    ultimately show ?thesis
      by (simp add: stoul_def show_nat.simps split_sign_def split_base_def isspace_def digits_of_def digit_value_def number_value_def)
  next
    case False
    then have "take 1 (show_nat n) \<noteq> ''0''" using d s by (auto simp: digit_value_def)
    then have "split_base (show_nat n) = (10, show_nat n)" using hex by (simp add: split_base_def)
    then show ?thesis using n d unfolding stoul_def sign by (simp add: digits Let_def)
  qed
qed

text \<open>
  A motor id given as a decimal number is read modulo \<open>2^32\<close>: it is accepted exactly when that
  remainder is a 16-bit number, which is then the motor id.
\<close>

lemma motor_id_strings:
  assumes "n < 2 ^ 64"
  shows "parseMotorId what (XmlString (show_nat n)) name =
    (if n mod 2 ^ 32 \<le> 65535 then Parsed (of_nat (n mod 2 ^ 32))
     else Refused (joint_error name (''motor_id out of range [0, 65535]: '' @
       show_int (signed_take_bit 31 (int n)) @ ''.'')))"
proof -
  let ?m = "ucast (of_nat n :: u64) :: i32"
  have m: "?m = of_nat n" by (simp add: word_unat_eq_iff unat_ucast_mod unat_of_nat mod_mod_cancel)
  have sint: "sint (of_nat n :: i32) = signed_take_bit 31 (int n)" by (simp add: signed_of_nat)
  define r where "r = int (n mod 2 ^ 32)"
  have r: "0 \<le> r" "r < 4294967296" "int n mod 4294967296 = r" by (simp_all add: r_def zmod_int)
  have "signed_take_bit 31 (int n) = (int n + 2147483648) mod 4294967296 - 2147483648"
    by (simp add: signed_take_bit_eq_take_bit_shift take_bit_eq_mod)
  also have "(int n + 2147483648) mod 4294967296 = (r + 2147483648) mod 4294967296"
    unfolding r(3) [symmetric] by (simp add: mod_add_left_eq)
  also have "\<dots> = (if r < 2147483648 then r + 2147483648 else r - 2147483648)"
    using r(1,2) mod_pos_pos_trivial [of "r - 2147483648" 4294967296] mod_add_self2 [of "r - 2147483648" 4294967296]
    by (auto simp: mod_pos_pos_trivial add.commute)
  finally have val: "signed_take_bit 31 (int n) = (if r < 2147483648 then r else r - 4294967296)" by auto
  then have range: "signed_take_bit 31 (int n) < 0 \<or> 65535 < signed_take_bit 31 (int n) \<longleftrightarrow> \<not> n mod 2 ^ 32 \<le> 65535"
    using r(1,2) by (auto simp: r_def)
  have "ucast (of_nat n :: i32) = (of_nat (n mod 2 ^ 32) :: motor_id)"
    by (simp add: word_unat_eq_iff unat_ucast_mod unat_of_nat)
  then show ?thesis
    using range by (simp add: parseMotorId_def stoul_show_nat [OF assms] m sint)
qed

lemma motor_id_strings_witness:
  "parseMotorId [] (XmlString (show_nat 4294967301)) ''wheel'' = Parsed 5"
  using motor_id_strings [of 4294967301 "[]" "''wheel''"] by simp

end
