(* ===== verification/Can_Driver_Hw.thy ===== *)
theory Can_Driver_Hw
  imports Can_Driver_Io Can_Driver_Runtime Joint_Config_Parser Refresh_Scheduler
begin

text \<open>
  \<open>CanDriverHW.cpp\<close>: the hardware interface.  It reads the parameters, sets up the joints and their
  groups, brings devices to standby with the hooks it gives the runtime, serves the operations on
  joints that services and topics use, and runs the control cycle.

  The runtime's owner data are the joints and the valid flags, which the gate's callbacks and the
  hooks write; everything else of the object is in the record \<open>CanDriverHW\<close>.  The environment
  \<open>hw_env\<close> holds what is outside: clocks, protocol objects by their calls, the joint limits of
  \<open>joint_limits_interface\<close>, the file of zero offsets.
\<close>

section \<open>Parameters\<close>

record runtime_params =
  pm_directCmdTimeoutSec :: dbl
  pm_statePublishPeriodSec :: dbl
  pm_motorQueryHz :: dbl
  pm_directCmdQueueSize :: i32
  pm_debugBypassRosControl :: bool
  pm_startupPositionSyncTimeoutSec :: dbl
  pm_startupPositionLimitToleranceRad :: dbl
  pm_startupProbeQueryHz :: dbl
  pm_mtCommunicationTimeoutOnInitMs :: u32
  pm_refreshInterFrameGapSec :: dbl
  pm_controlInterFrameGapSec :: dbl
  pm_safetyFeedbackFreshnessTimeoutSec :: dbl
  pm_ppFastWriteEnabled :: bool
  pm_ppPositionDefaultVelocityRadS :: dbl
  pm_ppCspDefaultVelocityRadS :: dbl
  pm_safetyStopOnFault :: bool
  pm_safetyRequireEnabledForMotion :: bool
  pm_lifecycleRequireEnabledForRunning :: bool
  pm_maxPositionStepRad :: dbl
  pm_safetyHoldAfterDeviceRecover :: bool
  pm_ppLocalZeroOffsetPersistenceEnabled :: bool
  pm_ppZeroOffsetPersistOnApplyToMotor :: bool
  pm_ppLocalZeroOffsetFilePath :: string

text \<open>\<open>getParam\<close> by name and type; \<open>None\<close> when it returns false.\<close>

record param_server =
  ps_double :: "string \<Rightarrow> dbl option"
  ps_int :: "string \<Rightarrow> i32 option"
  ps_bool :: "string \<Rightarrow> bool option"
  ps_string :: "string \<Rightarrow> string option"

text \<open>A parameter or its default, and the default again when the value is not acceptable.\<close>

definition or_fallback :: "('a \<Rightarrow> bool) \<Rightarrow> 'a \<Rightarrow> 'a option \<Rightarrow> 'a" where
  "or_fallback acceptable fallback param =
     (let v = (case param of None \<Rightarrow> fallback | Some x \<Rightarrow> x) in if acceptable v then v else fallback)"

definition not_negative :: "dbl \<Rightarrow> bool" where
  "not_negative x \<longleftrightarrow> isfinite x \<and> \<not> dlt x (Fin 0)"

definition kDefaultPpVelocityRadS :: dbl where
  "kDefaultPpVelocityRadS = ddiv (dmul (Fin 20) M_PI) (Fin 60)"

definition read_params :: "string \<Rightarrow> param_server \<Rightarrow> runtime_params" where
  "read_params defaultLocalZeroOffsetFilePath ps = \<lparr>
     pm_directCmdTimeoutSec = or_fallback not_negative (Fin (1 / 2)) (ps_double ps ''direct_cmd_timeout_sec''),
     pm_statePublishPeriodSec = or_fallback positive (round64 (1 / 10)) (ps_double ps ''motor_state_period_sec''),
     pm_motorQueryHz = or_fallback isfinite (Fin 0) (ps_double ps ''motor_query_hz''),
     pm_directCmdQueueSize = or_fallback (\<lambda>n. 0 < sint n) 1 (ps_int ps ''direct_cmd_queue_size''),
     pm_debugBypassRosControl = or_fallback (\<lambda>_. True) False (ps_bool ps ''debug_bypass_ros_control''),
     pm_startupPositionSyncTimeoutSec = or_fallback not_negative (Fin 3) (ps_double ps ''startup_position_sync_timeout_sec''),
     pm_startupPositionLimitToleranceRad =
       or_fallback not_negative (round64 (1 / 10000)) (ps_double ps ''startup_position_limit_tolerance_rad''),
     pm_startupProbeQueryHz = or_fallback positive (Fin 20) (ps_double ps ''startup_probe_query_hz''),
     pm_mtCommunicationTimeoutOnInitMs =
       scast (or_fallback (\<lambda>n. 0 \<le> sint n) 0 (ps_int ps ''mt_communication_timeout_on_init_ms'')),
     pm_refreshInterFrameGapSec = or_fallback not_negative (round64 (1 / 1000)) (ps_double ps ''refresh_inter_frame_gap_sec''),
     pm_controlInterFrameGapSec = or_fallback not_negative (Fin 0) (ps_double ps ''control_inter_frame_gap_sec''),
     pm_safetyFeedbackFreshnessTimeoutSec =
       or_fallback positive (Fin (1 / 2)) (ps_double ps ''safety_feedback_freshness_timeout_sec''),
     pm_ppFastWriteEnabled = or_fallback (\<lambda>_. True) False (ps_bool ps ''pp_fast_write_enabled''),
     pm_ppPositionDefaultVelocityRadS =
       or_fallback positive kDefaultPpVelocityRadS (ps_double ps ''pp_position_default_velocity_rad_s''),
     pm_ppCspDefaultVelocityRadS = or_fallback positive kDefaultPpVelocityRadS (ps_double ps ''pp_csp_default_velocity_rad_s''),
     pm_safetyStopOnFault = or_fallback (\<lambda>_. True) True (ps_bool ps ''safety_stop_on_fault''),
     pm_safetyRequireEnabledForMotion = or_fallback (\<lambda>_. True) True (ps_bool ps ''safety_require_enabled_for_motion''),
     pm_lifecycleRequireEnabledForRunning = or_fallback (\<lambda>_. True) True (ps_bool ps ''lifecycle_require_enabled_for_running''),
     pm_maxPositionStepRad = or_fallback not_negative (Fin 0) (ps_double ps ''max_position_step_rad''),
     pm_safetyHoldAfterDeviceRecover = or_fallback (\<lambda>_. True) True (ps_bool ps ''safety_hold_after_device_recover''),
     pm_ppLocalZeroOffsetPersistenceEnabled =
       or_fallback (\<lambda>_. True) False (ps_bool ps ''pp_local_zero_offset_persistence_enabled''),
     pm_ppZeroOffsetPersistOnApplyToMotor =
       or_fallback (\<lambda>_. True) True (ps_bool ps ''pp_zero_offset_persist_on_apply_to_motor''),
     pm_ppLocalZeroOffsetFilePath =
       or_fallback (\<lambda>s. s \<noteq> []) defaultLocalZeroOffsetFilePath (ps_string ps ''pp_local_zero_offset_file'')\<rparr>"

text \<open>\<open>static_cast<std::int64_t>\<close> of a double, unspecified (here 0) when it is not finite.\<close>

fun dtrunc :: "dbl \<Rightarrow> int" where
  "dtrunc (Fin q) = (if 0 \<le> q then \<lfloor>q\<rfloor> else \<lceil>q\<rceil>)"
| "dtrunc _ = 0"

definition freshness_timeout_ns :: "runtime_params \<Rightarrow> int" where
  "freshness_timeout_ns pm = dtrunc (dmul (pm_safetyFeedbackFreshnessTimeoutSec pm) (Fin (10 ^ 9)))"

text \<open>The settings of the device manager that follow from the parameters, in the order they are made.\<close>

datatype manager_setting =
  SetPpFastWriteEnabled bool | SetRefreshRateHz dbl | SetRefreshInterFrameGapUs u32
| SetControlInterFrameGapUs u32 | SetMtCommunicationTimeoutOnInitMs u32

definition gap_us :: "dbl \<Rightarrow> u32" where
  "gap_us sec = word_of_int (llround 0 (dmul sec (Fin (10 ^ 6))))"

definition manager_settings :: "runtime_params \<Rightarrow> manager_setting list" where
  "manager_settings pm =
     [SetPpFastWriteEnabled (pm_ppFastWriteEnabled pm), SetRefreshRateHz (pm_motorQueryHz pm),
      SetRefreshInterFrameGapUs (gap_us (pm_refreshInterFrameGapSec pm)),
      SetControlInterFrameGapUs (gap_us (pm_controlInterFrameGapSec pm)),
      SetMtCommunicationTimeoutOnInitMs (pm_mtCommunicationTimeoutOnInitMs pm)]"

section \<open>State and environment\<close>

type_synonym 'l joint_buffers = "'l CanDriverJointConfig list \<times> bool list"
type_synonym ('l, 'w) driver_runtime = "('l joint_buffers, 'w) CanDriverRuntime"

record ('l, 'w) CanDriverHW =
  hw_coordinator :: "('l, 'w) driver_runtime OperationalCoordinator"
  hw_jointIndexByName :: "string \<rightharpoonup> nat"
  hw_jointGroups :: "CanDriverDeviceProtocolGroup list"
  hw_rawCommandBuffer :: "i32 list"
  hw_preparedCommandBuffer :: "CanDriverPreparedCommand list"
  hw_jointZeroOffsetRadByMotorId :: "u16 \<rightharpoonup> dbl"
  hw_params :: runtime_params

record ('l, 'w) hw_env =
  he_deviceManager :: "'w IDeviceManager"
  he_setDeviceRefreshRateHz :: "string \<Rightarrow> dbl \<Rightarrow> 'w \<Rightarrow> 'w"
  he_setting :: "manager_setting \<Rightarrow> 'w \<Rightarrow> 'w"
  he_io :: "'w motor_io"
  he_castOk :: "string \<Rightarrow> CanType \<Rightarrow> 'w \<Rightarrow> bool"
  he_issuePp :: "string \<Rightarrow> motor_id \<Rightarrow> PpRefreshQuery \<Rightarrow> 'w \<Rightarrow> bool \<times> 'w"
  he_issueMt :: "string \<Rightarrow> motor_id \<Rightarrow> MtRefreshQuery \<Rightarrow> 'w \<Rightarrow> 'w"
  he_issueDm :: "string \<Rightarrow> motor_id \<Rightarrow> DmRefreshQuery \<Rightarrow> 'w \<Rightarrow> bool \<times> 'w"
  he_setMode :: "MotorMode \<Rightarrow> 'w motor_action"
  he_setPositionOffset :: "i32 \<Rightarrow> 'w motor_action"
  he_setMotorDefaultPositionVelocityRaw :: "string \<Rightarrow> motor_id \<Rightarrow> i32 \<Rightarrow> 'w \<Rightarrow> 'w"
  he_setMotorDefaultCspVelocityRaw :: "string \<Rightarrow> motor_id \<Rightarrow> i32 \<Rightarrow> 'w \<Rightarrow> 'w"
  he_clock :: "'w steady_clock"
  he_rosNow :: "'w \<Rightarrow> int"
  he_toSec :: "int \<Rightarrow> dbl"
  he_limits :: "'l joint_limits"
  he_noLimits :: 'l
  he_setPositionLimits :: "dbl \<Rightarrow> dbl \<Rightarrow> 'l \<Rightarrow> 'l"
  he_enforceLimits :: "'l CanDriverJointConfig list \<Rightarrow> 'l CanDriverJointConfig list"
  he_loadOffsets :: "'w \<Rightarrow> (u16 \<rightharpoonup> dbl) option \<times> 'w"
  he_saveOffsets :: "(u16 \<rightharpoonup> dbl) \<Rightarrow> 'w \<Rightarrow> bool \<times> 'w"
  he_spins :: nat

abbreviation runtime_of :: "('l, 'w) CanDriverHW \<Rightarrow> ('l, 'w) driver_runtime" where
  "runtime_of hw \<equiv> oc_world (hw_coordinator hw)"

abbreviation joints_of :: "('l, 'w) CanDriverHW \<Rightarrow> 'l CanDriverJointConfig list" where
  "joints_of hw \<equiv> fst (rt_owner (runtime_of hw))"

abbreviation world_of :: "('l, 'w) CanDriverHW \<Rightarrow> 'w" where
  "world_of hw \<equiv> lo_world (rt_lifecycleDriverOps (runtime_of hw))"

definition set_runtime :: "('l, 'w) driver_runtime \<Rightarrow> ('l, 'w) CanDriverHW \<Rightarrow> ('l, 'w) CanDriverHW" where
  "set_runtime s hw = hw\<lparr>hw_coordinator := (hw_coordinator hw)\<lparr>oc_world := s\<rparr>\<rparr>"

definition set_joints :: "'l joint_buffers \<Rightarrow> ('l, 'w) CanDriverHW \<Rightarrow> ('l, 'w) CanDriverHW" where
  "set_joints js hw = set_runtime ((runtime_of hw)\<lparr>rt_owner := js\<rparr>) hw"

definition set_world :: "'w \<Rightarrow> ('h, 'w) CanDriverRuntime \<Rightarrow> ('h, 'w) CanDriverRuntime" where
  "set_world w s = s\<lparr>rt_lifecycleDriverOps := (rt_lifecycleDriverOps s)\<lparr>lo_world := w\<rparr>\<rparr>"

section \<open>Setting up the joints\<close>

definition motorIdMatchesJoint :: "u16 \<Rightarrow> 'l CanDriverJointConfig \<Rightarrow> bool" where
  "motorIdMatchesJoint requestedMotorId candidate \<longleftrightarrow>
     jc_motorId candidate = requestedMotorId \<or>
     jc_protocol candidate = MT \<and> toMtProtocolNodeId requestedMotorId = toMtProtocolNodeId (jc_motorId candidate)"

definition makeMotorTarget :: "'l CanDriverJointConfig \<Rightarrow> Target" where
  "makeMotorTarget jc = \<lparr>tg_name = jc_name jc, tg_canDevice = jc_canDevice jc, tg_protocol = jc_protocol jc,
     tg_motorId = jc_motorId jc\<rparr>"

text \<open>The joint of a parsed configuration; the stored zero offset of its motor wins over the configured one.\<close>

definition joint_of_parsed :: "'l \<Rightarrow> (u16 \<rightharpoonup> dbl) \<Rightarrow> ParsedJointConfig \<Rightarrow> 'l CanDriverJointConfig" where
  "joint_of_parsed noLimits offsets p = (default_joint noLimits)\<lparr>
     jc_name := pj_name p, jc_canDevice := pj_canDevice p, jc_controlMode := pj_controlMode p,
     jc_motorId := pj_motorId p, jc_protocol := pj_protocol p, jc_positionScale := pj_positionScale p,
     jc_velocityScale := pj_velocityScale p, jc_directionSign := pj_directionSign p,
     jc_zeroOffsetRad := (case offsets (pj_motorId p) of Some z \<Rightarrow> z | None \<Rightarrow> pj_zeroOffsetRad p),
     jc_ipMaxVelocity := pj_ipMaxVelocity p, jc_ipMaxAcceleration := pj_ipMaxAcceleration p,
     jc_ipMaxJerk := pj_ipMaxJerk p, jc_ipGoalTolerance := pj_ipGoalTolerance p, jc_ecbIp := pj_ecbIp p,
     jc_ecbAutoDiscovery := pj_ecbAutoDiscovery p, jc_ecbRefreshMs := pj_ecbRefreshMs p,
     jc_ecbProfilePositionMaxRpm := pj_ecbProfilePositionMaxRpm p,
     jc_ecbProfilePositionAccelerationRpmS := pj_ecbProfilePositionAccelerationRpmS p,
     jc_ecbProfilePositionDecelerationRpmS := pj_ecbProfilePositionDecelerationRpmS p,
     jc_ecbProfileVelocityAccelerationRpmS := pj_ecbProfileVelocityAccelerationRpmS p,
     jc_ecbProfileVelocityDecelerationRpmS := pj_ecbProfileVelocityDecelerationRpmS p\<rparr>"

definition note_offset :: "(u16 \<rightharpoonup> dbl) \<Rightarrow> ParsedJointConfig \<Rightarrow> (u16 \<rightharpoonup> dbl)" where
  "note_offset offsets p =
     (if offsets (pj_motorId p) = None \<and> isfinite (pj_zeroOffsetRad p) \<and> \<not> deq (pj_zeroOffsetRad p) (Fin 0)
      then offsets(pj_motorId p \<mapsto> pj_zeroOffsetRad p) else offsets)"

text \<open>
  The loop over the parsed joints: it refuses a name used before, and a motor whose device, protocol and
  node number were used before; the joints before the refusal stay.
\<close>

fun setup_joints ::
    "'l \<Rightarrow> ParsedJointConfig list \<Rightarrow> string set \<Rightarrow> (string \<times> CanType \<times> u8) set \<Rightarrow>
     'l CanDriverJointConfig list \<times> (u16 \<rightharpoonup> dbl) \<Rightarrow> bool \<times> 'l CanDriverJointConfig list \<times> (u16 \<rightharpoonup> dbl)" where
  "setup_joints noLimits [] names nodes (joints, offsets) = (True, joints, offsets)"
| "setup_joints noLimits (p # ps) names nodes (joints, offsets) =
     (let node = (pj_canDevice p, pj_protocol p, toProtocolNodeId (pj_motorId p))
      in if pj_name p \<in> names \<or> node \<in> nodes then (False, joints, offsets)
         else setup_joints noLimits ps (insert (pj_name p) names) (insert node nodes)
                (joints @ [joint_of_parsed noLimits offsets p], note_offset offsets p))"

text \<open>The groups in the order of the map: by device, then by protocol.\<close>

fun type_index :: "CanType \<Rightarrow> nat" where
  "type_index MT = 0" | "type_index PP = 1" | "type_index DM = 2" | "type_index ECB = 3"

fun string_less :: "string \<Rightarrow> string \<Rightarrow> bool" where
  "string_less [] [] = False"
| "string_less [] (_ # _) = True"
| "string_less (_ # _) [] = False"
| "string_less (a # as) (b # bs) =
     (let m = of_char a :: nat; n = of_char b in m < n \<or> m = n \<and> string_less as bs)"

definition key_less :: "string \<times> CanType \<Rightarrow> string \<times> CanType \<Rightarrow> bool" where
  "key_less a b \<longleftrightarrow> string_less (fst a) (fst b) \<or> fst a = fst b \<and> type_index (snd a) < type_index (snd b)"

fun add_to_groups :: "string \<times> CanType \<Rightarrow> nat \<Rightarrow> ((string \<times> CanType) \<times> nat list) list \<Rightarrow> ((string \<times> CanType) \<times> nat list) list" where
  "add_to_groups key i [] = [(key, [i])]"
| "add_to_groups key i ((k, is) # rest) =
     (if key = k then (k, is @ [i]) # rest
      else if key_less key k then (key, [i]) # (k, is) # rest
      else (k, is) # add_to_groups key i rest)"

definition rebuildJointGroups :: "'l CanDriverJointConfig list \<Rightarrow> CanDriverDeviceProtocolGroup list" where
  "rebuildJointGroups joints =
     map (\<lambda>((device, protocol), is). \<lparr>gr_canDevice = device, gr_protocol = protocol, gr_jointIndices = is\<rparr>)
       (fold (\<lambda>i. add_to_groups (jc_canDevice (joints ! i), jc_protocol (joints ! i)) i) [0..<length joints] [])"

section \<open>Startup synchronisation\<close>

definition startupFeedbackSatisfiesRequirement :: "'l CanDriverJointConfig \<Rightarrow> AxisFeedbackState \<Rightarrow> bool" where
  "startupFeedbackSatisfiesRequirement joint feedback =
     (if \<not> fb_feedbackSeen feedback \<or> fb_lastRxSteadyNs feedback \<le> 0 then False
      else if controlModeUsesPositionSemantics (joint_mode joint) then fb_positionValid feedback
      else fb_velocityValid feedback \<or> fb_enabledValid feedback \<or> fb_faultValid feedback \<or>
           fb_currentValid feedback \<or> fb_positionValid feedback)"

definition issueStartupProbeForJoint :: "('l, 'w) hw_env \<Rightarrow> 'l CanDriverJointConfig \<Rightarrow> 'w \<Rightarrow> bool \<times> 'w" where
  "issueStartupProbeForJoint env joint w =
     (let device = jc_canDevice joint; mid = jc_motorId joint;
          needsPositionFeedback = controlModeUsesPositionSemantics (joint_mode joint)
      in if \<not> idm_getProtocol (he_deviceManager env) device (jc_protocol joint) w \<or> \<not> he_castOk env device (jc_protocol joint) w
         then (False, w)
         else case jc_protocol joint of
           PP \<Rightarrow> he_issuePp env device mid (if needsPositionFeedback then PpPosition else PpVelocity) w
         | MT \<Rightarrow> (True, he_issueMt env device mid (if needsPositionFeedback then MtMultiTurnAngle else MtState) w)
         | DM \<Rightarrow> he_issueDm env device mid DmKeepalive w
         | ECB \<Rightarrow> (False, w))"

definition axis_feedback :: "('l, 'w) hw_env \<Rightarrow> 'l CanDriverJointConfig \<Rightarrow> 'w \<Rightarrow> AxisFeedbackState option" where
  "axis_feedback env joint w =
     Option.bind (idm_getSharedDriverState (he_deviceManager env) w)
       (\<lambda>shared. getAxisFeedback shared (MakeAxisKey (jc_canDevice joint) (jc_protocol joint) (jc_motorId joint)))"

definition startup_satisfied :: "('l, 'w) hw_env \<Rightarrow> 'l CanDriverJointConfig \<Rightarrow> 'w \<Rightarrow> bool" where
  "startup_satisfied env joint w =
     (case axis_feedback env joint w of None \<Rightarrow> False | Some feedback \<Rightarrow> startupFeedbackSatisfiesRequirement joint feedback)"

text \<open>The inner loop: until the answer to a probe is there, or anything newer than before, or its deadline.\<close>

definition probe_answered :: "('l, 'w) hw_env \<Rightarrow> 'l CanDriverJointConfig \<Rightarrow> int \<Rightarrow> 'w \<Rightarrow> bool" where
  "probe_answered env joint lastRxBefore w =
     (case axis_feedback env joint w of
        None \<Rightarrow> False
      | Some feedback \<Rightarrow> startupFeedbackSatisfiesRequirement joint feedback \<or> lastRxBefore < fb_lastRxSteadyNs feedback)"

abbreviation env_now :: "('l, 'w) hw_env \<Rightarrow> 'w \<Rightarrow> time_ns" where
  "env_now env w \<equiv> ck_now (he_clock env) w"

abbreviation env_sleep :: "('l, 'w) hw_env \<Rightarrow> time_ns \<Rightarrow> 'w \<Rightarrow> 'w" where
  "env_sleep env d w \<equiv> ck_sleep_for (he_clock env) d w"

fun answer_loop :: "('l, 'w) hw_env \<Rightarrow> 'l CanDriverJointConfig \<Rightarrow> int \<Rightarrow> time_ns \<Rightarrow> nat \<Rightarrow> 'w \<Rightarrow> 'w" where
  "answer_loop env joint lastRxBefore deadline 0 w = w"
| "answer_loop env joint lastRxBefore deadline (Suc n) w =
     (if env_now env w < deadline \<and> \<not> probe_answered env joint lastRxBefore w
      then answer_loop env joint lastRxBefore deadline n (env_sleep env (ms 20) w) else w)"

definition kStartupProbeSingleRequestTimeout :: time_ns where "kStartupProbeSingleRequestTimeout = ms 250"

text \<open>One round of the probing loop: \<open>None\<close> ends it, otherwise it goes round again.\<close>

definition probe_round :: "('l, 'w) hw_env \<Rightarrow> time_ns \<Rightarrow> 'l CanDriverJointConfig \<Rightarrow> int \<Rightarrow> time_ns \<Rightarrow> 'w \<Rightarrow> bool \<times> 'w" where
  "probe_round env gap joint lastRxBefore startupDeadline w =
     (if startup_satisfied env joint w then (False, w)
      else case issueStartupProbeForJoint env joint w of
        (issued, w1) \<Rightarrow>
          if \<not> issued then (True, env_sleep env (ms 20) w1)
          else let perRequestDeadline = min startupDeadline (env_now env w1 + kStartupProbeSingleRequestTimeout);
                   w2 = answer_loop env joint lastRxBefore perRequestDeadline
                          (poll_rounds kStartupProbeSingleRequestTimeout (ms 20)) w1
               in if startup_satisfied env joint w2 then (False, w2) else (True, env_sleep env gap w2))"

fun probe_loop :: "('l, 'w) hw_env \<Rightarrow> time_ns \<Rightarrow> 'l CanDriverJointConfig \<Rightarrow> int \<Rightarrow> time_ns \<Rightarrow> nat \<Rightarrow> 'w \<Rightarrow> 'w" where
  "probe_loop env gap joint lastRxBefore startupDeadline 0 w = w"
| "probe_loop env gap joint lastRxBefore startupDeadline (Suc n) w =
     (if env_now env w < startupDeadline
      then case probe_round env gap joint lastRxBefore startupDeadline w of
             (again, w1) \<Rightarrow> if again then probe_loop env gap joint lastRxBefore startupDeadline n w1 else w1
      else w)"

text \<open>
  How often it can go round: every round sleeps for the gap between frames, cut to milliseconds, or
  longer; when the gap is shorter than a millisecond the world says how often it spins.
\<close>

definition probe_rounds :: "('l, 'w) hw_env \<Rightarrow> time_ns \<Rightarrow> time_ns \<Rightarrow> nat" where
  "probe_rounds env timeout gap = (if 0 < gap then poll_rounds timeout (min gap (ms 20)) else he_spins env)"

definition probe_joint :: "('l, 'w) hw_env \<Rightarrow> time_ns \<Rightarrow> time_ns \<Rightarrow> time_ns \<Rightarrow> 'l CanDriverJointConfig \<Rightarrow> 'w \<Rightarrow> 'w" where
  "probe_joint env timeout gap startupDeadline joint w =
     (let lastRxBefore = (case axis_feedback env joint w of None \<Rightarrow> 0 | Some feedback \<Rightarrow> fb_lastRxSteadyNs feedback)
      in probe_loop env gap joint lastRxBefore startupDeadline (probe_rounds env timeout gap) w)"

text \<open>The snapshot of a joint from its feedback, and a pass over the joints.\<close>

definition startup_snapshot :: "'l CanDriverJointConfig \<Rightarrow> AxisFeedbackState \<Rightarrow> dbl \<times> dbl \<times> dbl" where
  "startup_snapshot jc feedback =
     (if fb_positionValid feedback then rawPositionToJointPosition jc (dbl_of_int (fb_position feedback)) else Fin 0,
      if fb_velocityValid feedback then dmul (dbl_of_int (sint (fb_velocity feedback))) (effectiveVelocityScale jc) else Fin 0,
      if fb_currentValid feedback then dbl_of_int (sint (fb_current feedback)) else Fin 0)"

definition sync_pass :: "('l, 'w) hw_env \<Rightarrow> 'l CanDriverJointConfig list \<Rightarrow> nat list \<Rightarrow> 'w \<Rightarrow>
    (nat \<rightharpoonup> dbl \<times> dbl \<times> dbl) \<Rightarrow> bool \<times> (nat \<rightharpoonup> dbl \<times> dbl \<times> dbl)" where
  "sync_pass env joints targets w snapshots =
     fold (\<lambda>i (allValid, snapshots).
         case axis_feedback env (joints ! i) w of
           None \<Rightarrow> (False, snapshots)
         | Some feedback \<Rightarrow>
             if startupFeedbackSatisfiesRequirement (joints ! i) feedback
             then (allValid, snapshots(i \<mapsto> startup_snapshot (joints ! i) feedback)) else (False, snapshots))
       targets (True, snapshots)"

fun sync_passes :: "('l, 'w) hw_env \<Rightarrow> 'l CanDriverJointConfig list \<Rightarrow> nat list \<Rightarrow> nat \<Rightarrow>
    (nat \<rightharpoonup> dbl \<times> dbl \<times> dbl) \<Rightarrow> 'w \<Rightarrow> bool \<times> (nat \<rightharpoonup> dbl \<times> dbl \<times> dbl) \<times> 'w" where
  "sync_passes env joints targets 0 snapshots w = (False, snapshots, w)"
| "sync_passes env joints targets (Suc n) snapshots w =
     (case sync_pass env joints targets w snapshots of
        (allValid, snapshots1) \<Rightarrow>
          if allValid then (True, snapshots1, w)
          else sync_passes env joints targets n snapshots1 (if n = 0 then w else env_sleep env (ms 20) w))"

text \<open>Without a shared store: every pass reads the protocol objects.\<close>

fun cached_passes :: "('l, 'w) hw_env \<Rightarrow> CanDriverDeviceProtocolGroup list \<Rightarrow> 'l CanDriverJointConfig list \<Rightarrow> nat \<Rightarrow>
    (nat \<rightharpoonup> dbl \<times> dbl \<times> dbl) \<times> 'w \<Rightarrow> (nat \<rightharpoonup> dbl \<times> dbl \<times> dbl) \<times> 'w" where
  "cached_passes env groups joints 0 p = p"
| "cached_passes env groups joints (Suc n) p =
     (case fold (read_group (he_deviceManager env) (he_io env) joints) groups p of
        (snapshots, w) \<Rightarrow> cached_passes env groups joints n (snapshots, if n = 0 then w else env_sleep env (ms 20) w))"

text \<open>\<open>max(1, ceil(timeout / 0.02))\<close>, and the time-out in nanoseconds.\<close>

definition startup_passes :: "dbl \<Rightarrow> nat" where
  "startup_passes timeout = (case ddiv timeout (round64 (1 / 50)) of Fin q \<Rightarrow> nat (max 1 \<lceil>q\<rceil>) | _ \<Rightarrow> 1)"

definition timeout_ns :: "dbl \<Rightarrow> time_ns" where
  "timeout_ns timeout = dtrunc (dmul timeout (Fin (10 ^ 9)))"

text \<open>The gap between frames as the sleep of the probing loop: whole milliseconds.\<close>

definition probe_gap :: "dbl \<Rightarrow> time_ns" where
  "probe_gap gap = ms (dtrunc (dmul gap (Fin 1000)))"

text \<open>What the joints are set to: feedback and commands, and whether one is outside its limits.\<close>

definition startup_out_of_range :: "'l joint_limits \<Rightarrow> dbl \<Rightarrow> 'l CanDriverJointConfig \<Rightarrow> bool" where
  "startup_out_of_range lims tolerance jc \<longleftrightarrow>
     controlModeUsesPositionSemantics (joint_mode jc) \<and> jc_hasLimits jc \<and> jl_has_position_limits lims (jc_limits jc) \<and>
     (dlt (jc_pos jc) (dsub (jl_min_position lims (jc_limits jc)) tolerance) \<or>
      dlt (dadd (jl_max_position lims (jc_limits jc)) tolerance) (jc_pos jc))"

definition startup_joint :: "(dbl \<times> dbl \<times> dbl) option \<Rightarrow> 'l CanDriverJointConfig \<Rightarrow> 'l CanDriverJointConfig" where
  "startup_joint snapshot jc =
     (let jc1 = (case snapshot of None \<Rightarrow> jc | Some (pos, vel, eff) \<Rightarrow> jc\<lparr>jc_pos := pos, jc_vel := vel, jc_eff := eff\<rparr>);
          jc2 = (if controlModeUsesPositionSemantics (joint_mode jc1) then jc1\<lparr>jc_posCmd := jc_pos jc1\<rparr>
                 else jc1\<lparr>jc_velCmd := Fin 0\<rparr>)
      in jc2\<lparr>jc_hasDirectPosCmd := False, jc_hasDirectVelCmd := False, jc_stopIssuedOnFault := False\<rparr>)"

definition on_device :: "string \<Rightarrow> 'l CanDriverJointConfig \<Rightarrow> bool" where
  "on_device deviceFilter jc \<longleftrightarrow> deviceFilter = [] \<or> jc_canDevice jc = deviceFilter"

definition finish_startup ::
    "'l joint_limits \<Rightarrow> dbl \<Rightarrow> string \<Rightarrow> (nat \<rightharpoonup> dbl \<times> dbl \<times> dbl) \<Rightarrow> 'l CanDriverJointConfig list \<Rightarrow>
     bool \<times> 'l CanDriverJointConfig list" where
  "finish_startup lims tolerance deviceFilter snapshots joints =
     (let joints1 = map (\<lambda>i. if on_device deviceFilter (joints ! i) then startup_joint (snapshots i) (joints ! i) else joints ! i)
                      [0..<length joints]
      in (list_all (\<lambda>jc. on_device deviceFilter jc \<longrightarrow> \<not> startup_out_of_range lims tolerance jc) joints1, joints1))"

text \<open>The feedback of the joints: all of it, or what there was when the time was over.\<close>

definition collect_feedback ::
    "('l, 'w) hw_env \<Rightarrow> runtime_params \<Rightarrow> CanDriverDeviceProtocolGroup list \<Rightarrow> string \<Rightarrow> 'l CanDriverJointConfig list \<Rightarrow>
     nat list \<Rightarrow> 'w \<Rightarrow> bool \<times> (nat \<rightharpoonup> dbl \<times> dbl \<times> dbl) \<times> 'w" where
  "collect_feedback env pm groups deviceFilter joints targets w =
     (let timeout = pm_startupPositionSyncTimeoutSec pm; maxPasses = startup_passes timeout;
          gap = probe_gap (pm_refreshInterFrameGapSec pm)
      in if idm_getSharedDriverState (he_deviceManager env) w \<noteq> None
         then let startupDeadline = env_now env w + timeout_ns timeout;
                  w1 = fold (\<lambda>i. probe_joint env (timeout_ns timeout) gap startupDeadline (joints ! i)) targets w
              in sync_passes env joints targets maxPasses Map.empty w1
         else case cached_passes env (filter (\<lambda>grp. deviceFilter = [] \<or> gr_canDevice grp = deviceFilter) groups)
                     joints maxPasses (Map.empty, w) of
                (snapshots, w1) \<Rightarrow> (True, snapshots, w1))"

definition syncStartupPositionAndCommands ::
    "('l, 'w) hw_env \<Rightarrow> runtime_params \<Rightarrow> CanDriverDeviceProtocolGroup list \<Rightarrow> string \<Rightarrow> ('l, 'w) driver_runtime \<Rightarrow>
     bool \<times> ('l, 'w) driver_runtime" where
  "syncStartupPositionAndCommands env pm groups deviceFilter s =
     (let rate = (\<lambda>hz w. if deviceFilter \<noteq> [] then he_setDeviceRefreshRateHz env deviceFilter hz w else w);
          restore = rate (pm_motorQueryHz pm);
          w = rate (Fin 0) (lo_world (rt_lifecycleDriverOps s));
          joints = fst (rt_owner s);
          targets = filter (\<lambda>i. on_device deviceFilter (joints ! i)) [0..<length joints]
      in if targets = [] then (True, set_world (restore w) s)
         else case collect_feedback env pm groups deviceFilter joints targets w of
           (allValid, snapshots, w1) \<Rightarrow>
             if \<not> allValid then (False, set_world (restore w1) s)
             else case finish_startup (he_limits env) (pm_startupPositionLimitToleranceRad pm) deviceFilter snapshots joints of
               (inRange, joints1) \<Rightarrow>
                 (inRange, set_world (restore w1) (s\<lparr>rt_owner := (joints1, snd (rt_owner s))\<rparr>)))"

section \<open>The other steps to standby\<close>

text \<open>One action of the executor on the motor of a joint.\<close>

definition execute_on :: "('l, 'w) hw_env \<Rightarrow> 'w motor_action \<Rightarrow> 'l CanDriverJointConfig \<Rightarrow> 'w \<Rightarrow> Status \<times> 'w" where
  "execute_on env action jc w = execute \<lparr>ex_deviceManager = Some (he_deviceManager env)\<rparr> (Some action) (makeMotorTarget jc) w"

text \<open>Every CSP joint is switched to its mode; a failure is noted and the others are still tried.\<close>

definition applyInitialModes :: "('l, 'w) hw_env \<Rightarrow> string \<Rightarrow> 'l CanDriverJointConfig list \<Rightarrow> 'w \<Rightarrow> bool \<times> 'w" where
  "applyInitialModes env deviceFilter joints w =
     fold (\<lambda>jc (allOk, w).
         if \<not> on_device deviceFilter jc \<or> joint_mode jc \<noteq> AxisCsp then (allOk, w)
         else case execute_on env (he_setMode env ModeCSP) jc w of (status, w1) \<Rightarrow> (allOk \<and> status = Ok, w1))
       joints (True, w)"

text \<open>The stored zero offsets are written to the PP motors under position control; the first failure ends it.\<close>

fun restore_offsets :: "('l, 'w) hw_env \<Rightarrow> (u16 \<rightharpoonup> dbl) \<Rightarrow> string \<Rightarrow> 'l CanDriverJointConfig list \<Rightarrow> 'w \<Rightarrow> bool \<times> 'w" where
  "restore_offsets env persistedOffsets deviceFilter [] w = (True, w)"
| "restore_offsets env persistedOffsets deviceFilter (joint # joints) w =
     (if jc_protocol joint \<noteq> PP \<or> \<not> controlModeUsesPositionSemantics (joint_mode joint) \<or> \<not> on_device deviceFilter joint
      then restore_offsets env persistedOffsets deviceFilter joints w
      else case persistedOffsets (jc_motorId joint) of
        None \<Rightarrow> restore_offsets env persistedOffsets deviceFilter joints w
      | Some offset \<Rightarrow>
          (case scaleAndClampToInt32 offset (effectivePositionScale joint) 0 of
             (ok, rawOffset) \<Rightarrow>
               if \<not> ok then (False, w)
               else case execute_on env (he_setPositionOffset env rawOffset) joint w of
                 (status, w1) \<Rightarrow> if status \<noteq> Ok then (False, w1)
                                else restore_offsets env persistedOffsets deviceFilter joints w1))"

definition applyPersistedPpZeroOffsets ::
    "('l, 'w) hw_env \<Rightarrow> runtime_params \<Rightarrow> (u16 \<rightharpoonup> dbl) \<Rightarrow> string \<Rightarrow> 'l CanDriverJointConfig list \<Rightarrow> 'w \<Rightarrow> bool \<times> 'w" where
  "applyPersistedPpZeroOffsets env pm offsets deviceFilter joints w =
     (if \<not> pm_ppLocalZeroOffsetPersistenceEnabled pm then (True, w)
      else restore_offsets env offsets deviceFilter joints w)"

text \<open>The default velocities of the PP motors, in their raw units; the first that does not convert ends it.\<close>

fun velocities_of_group ::
    "('l, 'w) hw_env \<Rightarrow> runtime_params \<Rightarrow> string \<Rightarrow> 'l CanDriverJointConfig list \<Rightarrow> 'w \<Rightarrow> bool \<times> 'w" where
  "velocities_of_group env pm device [] w = (True, w)"
| "velocities_of_group env pm device (joint # joints) w =
     (case scaleAndClampToInt32 (pm_ppPositionDefaultVelocityRadS pm) (jc_velocityScale joint) 0 of
        (ok, rawVelocity) \<Rightarrow>
          if \<not> ok then (False, w)
          else let w1 = he_setMotorDefaultPositionVelocityRaw env device (jc_motorId joint) rawVelocity w
               in case scaleAndClampToInt32 (pm_ppCspDefaultVelocityRadS pm) (jc_velocityScale joint) rawVelocity of
                    (ok1, rawCspVelocity) \<Rightarrow>
                      if \<not> ok1 then (False, w1)
                      else velocities_of_group env pm device joints
                             (he_setMotorDefaultCspVelocityRaw env device (jc_motorId joint) rawCspVelocity w1))"

fun applyPerAxisPpDefaultVelocities ::
    "('l, 'w) hw_env \<Rightarrow> runtime_params \<Rightarrow> string \<Rightarrow> CanDriverDeviceProtocolGroup list \<Rightarrow> 'l CanDriverJointConfig list \<Rightarrow>
     'w \<Rightarrow> bool \<times> 'w" where
  "applyPerAxisPpDefaultVelocities env pm deviceFilter [] joints w = (True, w)"
| "applyPerAxisPpDefaultVelocities env pm deviceFilter (grp # groups) joints w =
     (if gr_protocol grp \<noteq> PP \<or> (deviceFilter \<noteq> [] \<and> gr_canDevice grp \<noteq> deviceFilter) \<or>
         \<not> idm_getProtocol (he_deviceManager env) (gr_canDevice grp) PP w \<or> \<not> he_castOk env (gr_canDevice grp) PP w
      then applyPerAxisPpDefaultVelocities env pm deviceFilter groups joints w
      else case velocities_of_group env pm (gr_canDevice grp) (map (\<lambda>i. joints ! i) (gr_jointIndices grp)) w of
        (ok, w1) \<Rightarrow> if \<not> ok then (False, w1) else applyPerAxisPpDefaultVelocities env pm deviceFilter groups joints w1)"

section \<open>Hooks and callbacks\<close>

definition hold_joint :: "'l CanDriverJointConfig \<Rightarrow> 'l CanDriverJointConfig" where
  "hold_joint jc =
     (let jc1 = jc\<lparr>jc_hasDirectPosCmd := False, jc_hasDirectVelCmd := False\<rparr>;
          jc2 = (if controlModeUsesVelocitySemantics (joint_mode jc) then jc1\<lparr>jc_velCmd := Fin 0\<rparr>
                 else jc1\<lparr>jc_posCmd := jc_pos jc\<rparr>)
      in jc2\<lparr>jc_requireCommandAlignment := False\<rparr>)"

definition holdCommandsForLifecycleTransition :: "'l joint_buffers \<Rightarrow> 'l joint_buffers" where
  "holdCommandsForLifecycleTransition js = (map hold_joint (fst js), map (\<lambda>_. False) (snd js))"

definition captureCommandSnapshots :: "'l joint_buffers \<Rightarrow> Snapshot list" where
  "captureCommandSnapshots js =
     map (\<lambda>jc. \<lparr>sn_controlMode = joint_mode jc,
                sn_commandValue = fst (controlModeSelectedCommandValue jc (joint_mode jc)),
                sn_hasDirectCommand = controlModeHasDirectCommand jc (joint_mode jc),
                sn_targetNearActual = controlModeTargetNearActual jc (joint_mode jc)\<rparr>) (fst js)"

text \<open>The devices of the joints, each once and in order.\<close>

fun insert_device :: "string \<Rightarrow> string list \<Rightarrow> string list" where
  "insert_device d [] = [d]"
| "insert_device d (e # es) = (if d = e then e # es else if string_less d e then d # e # es else e # insert_device d es)"

definition configured_devices :: "'l CanDriverJointConfig list \<Rightarrow> string list" where
  "configured_devices joints = fold (\<lambda>jc. insert_device (jc_canDevice jc)) joints []"

definition clear_command_flags :: "'l CanDriverJointConfig \<Rightarrow> 'l CanDriverJointConfig" where
  "clear_command_flags jc = jc\<lparr>jc_hasDirectPosCmd := False, jc_hasDirectVelCmd := False, jc_stopIssuedOnFault := False\<rparr>"

definition startup_query_hz :: "runtime_params \<Rightarrow> dbl" where
  "startup_query_hz pm =
     (if dlt (Fin 0) (pm_motorQueryHz pm) then dmin (pm_startupProbeQueryHz pm) (pm_motorQueryHz pm)
      else pm_startupProbeQueryHz pm)"

text \<open>A step that works on the world of the runtime and reads its joints.\<close>

definition on_joints_world :: "('l CanDriverJointConfig list \<Rightarrow> 'w \<Rightarrow> bool \<times> 'w) \<Rightarrow> ('l, 'w) driver_runtime \<Rightarrow> bool \<times> ('l, 'w) driver_runtime" where
  "on_joints_world f s = (case f (fst (rt_owner s)) (lo_world (rt_lifecycleDriverOps s)) of (ok, w) \<Rightarrow> (ok, set_world w s))"

definition hw_hooks :: "('l, 'w) hw_env \<Rightarrow> ('l, 'w) CanDriverHW \<Rightarrow> ('l joint_buffers, 'w) hooks" where
  "hw_hooks env hw =
     (let pm = hw_params hw; groups = hw_jointGroups hw
      in \<lparr>lh_recover_devices = Some (\<lambda>s. (configured_devices (fst (rt_owner s)), s)),
          lh_clear_command_state = Some (\<lambda>s. s\<lparr>rt_owner := (map clear_command_flags (fst (rt_owner s)), snd (rt_owner s))\<rparr>),
          lh_enable_healthy = Some (on_ops_check (enableHealthy (he_clock env))),
          lh_motion_healthy = Some (on_ops_check (motionHealthy (he_clock env))),
          lh_startup_query_hz = Some (\<lambda>s. (startup_query_hz pm, s)),
          lh_set_device_refresh_rate =
            Some (\<lambda>device hz s. set_world (he_setDeviceRefreshRateHz env device hz (lo_world (rt_lifecycleDriverOps s))) s),
          lh_apply_persisted_pp_zero_offsets =
            Some (\<lambda>device. on_joints_world (applyPersistedPpZeroOffsets env pm (hw_jointZeroOffsetRadByMotorId hw) device)),
          lh_sync_startup_position_and_commands = Some (syncStartupPositionAndCommands env pm groups),
          lh_apply_pp_default_velocities =
            Some (\<lambda>device. on_joints_world (applyPerAxisPpDefaultVelocities env pm device groups)),
          lh_apply_initial_modes = Some (\<lambda>device. on_joints_world (applyInitialModes env device))\<rparr>)"

text \<open>A lifecycle request; the hooks see the members as they are when it is made.\<close>

definition hw_request :: "('l, 'w) hw_env \<Rightarrow> OpRequest \<Rightarrow> ('l, 'w) CanDriverHW \<Rightarrow> Result \<times> ('l, 'w) CanDriverHW" where
  "hw_request env req hw =
     (case serve req (configureLifecycleCoordinator (he_clock env) (hw_hooks env hw) (hw_coordinator hw)) of
        (r, c) \<Rightarrow> (r, hw\<lparr>hw_coordinator := c\<rparr>))"

section \<open>Construction and initialisation\<close>

definition default_params :: runtime_params where
  "default_params = \<lparr>pm_directCmdTimeoutSec = Fin (1 / 2), pm_statePublishPeriodSec = round64 (1 / 10), pm_motorQueryHz = Fin 0,
     pm_directCmdQueueSize = 1, pm_debugBypassRosControl = False, pm_startupPositionSyncTimeoutSec = Fin 1,
     pm_startupPositionLimitToleranceRad = round64 (1 / 10000), pm_startupProbeQueryHz = Fin 5,
     pm_mtCommunicationTimeoutOnInitMs = 0, pm_refreshInterFrameGapSec = round64 (1 / 1000),
     pm_controlInterFrameGapSec = Fin 0, pm_safetyFeedbackFreshnessTimeoutSec = Fin (1 / 2),
     pm_ppFastWriteEnabled = False, pm_ppPositionDefaultVelocityRadS = Fin 0, pm_ppCspDefaultVelocityRadS = Fin 0,
     pm_safetyStopOnFault = True, pm_safetyRequireEnabledForMotion = True, pm_lifecycleRequireEnabledForRunning = True,
     pm_maxPositionStepRad = Fin 0, pm_safetyHoldAfterDeviceRecover = True,
     pm_ppLocalZeroOffsetPersistenceEnabled = False, pm_ppZeroOffsetPersistOnApplyToMotor = True,
     pm_ppLocalZeroOffsetFilePath = []\<rparr>"

definition new_CanDriverHW :: "('l, 'w) hw_env \<Rightarrow> 'w \<Rightarrow> ('l, 'w) CanDriverHW" where
  "new_CanDriverHW env w = \<lparr>
     hw_coordinator = new_coordinator no_ops
       (configureCommandGate (Some captureCommandSnapshots) (Some holdCommandsForLifecycleTransition)
          (new_runtime (he_deviceManager env) ([], []) w)),
     hw_jointIndexByName = Map.empty, hw_jointGroups = [], hw_rawCommandBuffer = [], hw_preparedCommandBuffer = [],
     hw_jointZeroOffsetRadByMotorId = Map.empty, hw_params = default_params\<rparr>"

definition resetInternalState :: "('l, 'w) CanDriverHW \<Rightarrow> ('l, 'w) CanDriverHW" where
  "resetInternalState hw =
     (let hw1 = set_joints ([], []) hw
      in hw1\<lparr>hw_jointIndexByName := Map.empty, hw_jointGroups := [], hw_rawCommandBuffer := [],
             hw_preparedCommandBuffer := [], hw_jointZeroOffsetRadByMotorId := Map.empty,
             hw_coordinator := reset_runtime (hw_coordinator hw1)\<rparr>)"

definition loadRuntimeParams ::
    "('l, 'w) hw_env \<Rightarrow> string \<Rightarrow> param_server \<Rightarrow> ('l, 'w) CanDriverHW \<Rightarrow> bool \<times> ('l, 'w) CanDriverHW" where
  "loadRuntimeParams env defaultPath ps hw =
     (let pm = read_params defaultPath ps;
          hw1 = hw\<lparr>hw_params := pm, hw_jointZeroOffsetRadByMotorId := Map.empty\<rparr>;
          s = runtime_of hw1; w = lo_world (rt_lifecycleDriverOps s)
      in case (if pm_ppLocalZeroOffsetPersistenceEnabled pm then he_loadOffsets env w else (Some Map.empty, w)) of
           (None, w1) \<Rightarrow> (False, set_runtime (set_world w1 s) hw1)
         | (Some offsets, w1) \<Rightarrow>
             let s1 = set_world (fold (he_setting env) (manager_settings pm) w1) s;
                 s2 = s1\<lparr>rt_lifecycleDriverOps := setFeedbackFreshnessTimeoutNs (freshness_timeout_ns pm) (rt_lifecycleDriverOps s1)\<rparr>
             in (True, (set_runtime s2 hw1)\<lparr>hw_jointZeroOffsetRadByMotorId := offsets\<rparr>))"

definition blank_prepared :: CanDriverPreparedCommand where
  "blank_prepared = \<lparr>pc_valid = False, pc_jointIndex = 0, pc_motorId = LeftWheel, pc_route = RoutePosition, pc_jointName = []\<rparr>"

text \<open>The parsed joints; a refusal is followed by a reset in \<open>init\<close>, an exception of the parser leaves it.\<close>

definition parseAndSetupJoints ::
    "('l, 'w) hw_env \<Rightarrow> ParsedJointConfig list \<Rightarrow> ('l, 'w) CanDriverHW \<Rightarrow> bool \<times> ('l, 'w) CanDriverHW" where
  "parseAndSetupJoints env parsed hw =
     (case setup_joints (he_noLimits env) parsed {} {} (joints_of hw, hw_jointZeroOffsetRadByMotorId hw) of
        (ok, joints, offsets) \<Rightarrow>
          let hw1 = (set_joints (joints, snd (rt_owner (runtime_of hw))) hw)\<lparr>
                hw_jointIndexByName := map_of (zip (map jc_name joints) [0..<length joints]),
                hw_jointZeroOffsetRadByMotorId := offsets\<rparr>
          in if \<not> ok then (False, hw1)
             else let s = runtime_of hw1;
                      s1 = s\<lparr>rt_owner := (joints, map (\<lambda>_. False) joints),
                             rt_lifecycleDriverOps := setTargets (map makeMotorTarget joints) (rt_lifecycleDriverOps s)\<rparr>
                  in (True, (set_runtime s1 hw1)\<lparr>hw_jointGroups := rebuildJointGroups joints,
                        hw_rawCommandBuffer := map (\<lambda>_. 0) joints,
                        hw_preparedCommandBuffer := map (\<lambda>_. blank_prepared) joints\<rparr>))"

text \<open>
  \<open>init\<close>; \<open>limits\<close> stands for \<open>loadJointLimits\<close>, which sets the limits of each joint from the robot description
  and the parameters.  The registration of the ROS interfaces changes no state of the driver.
\<close>

definition hw_init ::
    "('l, 'w) hw_env \<Rightarrow> string \<Rightarrow> param_server \<Rightarrow> XmlRpcValue option \<Rightarrow> string \<Rightarrow>
     ('l CanDriverJointConfig \<Rightarrow> 'l option) \<Rightarrow> ('l, 'w) CanDriverHW \<Rightarrow> bool parsed \<times> ('l, 'w) CanDriverHW" where
  "hw_init env defaultPath ps joints_param what limits hw =
     (case loadRuntimeParams env defaultPath ps (resetInternalState hw) of
        (loaded, hw1) \<Rightarrow>
          if \<not> loaded then (Parsed False, hw1)
          else (case joints_param of
            None \<Rightarrow> (Parsed False, resetInternalState hw1)
          | Some jointList \<Rightarrow>
              (case parse what jointList of
                 Raised \<Rightarrow> (Raised, hw1)
               | Refused _ \<Rightarrow> (Parsed False, resetInternalState hw1)
               | Parsed parsed \<Rightarrow>
                   (case parseAndSetupJoints env parsed hw1 of
                      (ok, hw2) \<Rightarrow>
                        if \<not> ok then (Parsed False, resetInternalState hw2)
                        else let hw3 = set_joints (map (\<lambda>jc. case limits jc of None \<Rightarrow> jc
                                                      | Some l \<Rightarrow> jc\<lparr>jc_limits := l, jc_hasLimits := True\<rparr>) (joints_of hw2),
                                                   snd (rt_owner (runtime_of hw2))) hw2
                             in (Parsed True, hw3\<lparr>hw_coordinator := SetConfigured (hw_coordinator hw3)\<rparr>)))))"

section \<open>Operations on joints\<close>

text \<open>The joints with a motor id; an operation by motor id needs exactly one.\<close>

definition matching_joints :: "u16 \<Rightarrow> 'l CanDriverJointConfig list \<Rightarrow> nat list" where
  "matching_joints motorId joints = filter (\<lambda>i. motorIdMatchesJoint motorId (joints ! i)) [0..<length joints]"

definition lookupJointByMotorId :: "u16 \<Rightarrow> ('l, 'w) CanDriverHW \<Rightarrow> 'l CanDriverJointConfig option" where
  "lookupJointByMotorId motorId hw =
     (case matching_joints motorId (joints_of hw) of [i] \<Rightarrow> Some (joints_of hw ! i) | _ \<Rightarrow> None)"

definition update_joint :: "nat \<Rightarrow> ('l CanDriverJointConfig \<Rightarrow> 'l CanDriverJointConfig) \<Rightarrow> ('l, 'w) CanDriverHW \<Rightarrow> ('l, 'w) CanDriverHW" where
  "update_joint i f hw = set_joints ((joints_of hw)[i := f (joints_of hw ! i)], snd (rt_owner (runtime_of hw))) hw"

definition acceptDirectCommand :: "nat \<Rightarrow> bool \<Rightarrow> dbl \<Rightarrow> int \<Rightarrow> ('l, 'w) CanDriverHW \<Rightarrow> ('l, 'w) CanDriverHW" where
  "acceptDirectCommand jointIndex isVelocity v stamp hw =
     (if \<not> rt_active (runtime_of hw) \<or> length (joints_of hw) \<le> jointIndex then hw
      else update_joint jointIndex (\<lambda>jc.
             if isVelocity then jc\<lparr>jc_directVelCmd := v, jc_hasDirectVelCmd := True, jc_lastDirectVelTime := stamp\<rparr>
             else jc\<lparr>jc_directPosCmd := v, jc_hasDirectPosCmd := True, jc_lastDirectPosTime := stamp\<rparr>) hw)"

definition clearDirectCommand :: "string \<Rightarrow> ('l, 'w) CanDriverHW \<Rightarrow> ('l, 'w) CanDriverHW" where
  "clearDirectCommand jointName hw =
     (case hw_jointIndexByName hw jointName of
        None \<Rightarrow> hw
      | Some i \<Rightarrow> update_joint i (\<lambda>jc. jc\<lparr>jc_hasDirectPosCmd := False, jc_hasDirectVelCmd := False\<rparr>) hw)"

definition switch_joint :: "AxisControlMode \<Rightarrow> 'l CanDriverJointConfig \<Rightarrow> 'l CanDriverJointConfig" where
  "switch_joint mode jc = jc\<lparr>jc_controlMode := axisControlModeName mode, jc_hasDirectPosCmd := False, jc_hasDirectVelCmd := False,
     jc_posCmd := jc_pos jc, jc_velCmd := Fin 0, jc_requireCommandAlignment := True\<rparr>"

definition commitModeSwitch :: "u16 \<Rightarrow> AxisControlMode \<Rightarrow> ('l, 'w) CanDriverHW \<Rightarrow> bool \<times> ('l, 'w) CanDriverHW" where
  "commitModeSwitch motorId mode hw =
     (case matching_joints motorId (joints_of hw) of
        [i] \<Rightarrow>
          let (joints, valid) = rt_owner (runtime_of hw)
          in (True, set_joints (joints[i := switch_joint mode (joints ! i)], valid[i := False]) hw)
      | _ \<Rightarrow> (False, hw))"

definition getZeroOffset :: "u16 \<Rightarrow> ('l, 'w) CanDriverHW \<Rightarrow> dbl option" where
  "getZeroOffset motorId hw =
     (case matching_joints motorId (joints_of hw) of
        [] \<Rightarrow> Some (Fin 0)
      | [i] \<Rightarrow>
          (let matched = joints_of hw ! i; offsets = hw_jointZeroOffsetRadByMotorId hw
           in case offsets (jc_motorId matched) of
                Some z \<Rightarrow> Some z
              | None \<Rightarrow> (case offsets motorId of Some z \<Rightarrow> Some z | None \<Rightarrow> Some (jc_zeroOffsetRad matched)))
      | _ \<Rightarrow> None)"

definition commitZero ::
    "('l, 'w) hw_env \<Rightarrow> u16 \<Rightarrow> dbl \<Rightarrow> dbl \<Rightarrow> bool \<Rightarrow> ('l, 'w) CanDriverHW \<Rightarrow> bool \<times> ('l, 'w) CanDriverHW" where
  "commitZero env motorId zeroOffset previousZeroOffset applyToMotor hw =
     (case matching_joints motorId (joints_of hw) of
        [i] \<Rightarrow>
          let joint = joints_of hw ! i; canonicalMotorId = jc_motorId joint;
              stored = (if applyToMotor then Fin 0 else zeroOffset);
              rollback = (if applyToMotor then Fin 0 else previousZeroOffset);
              offsets = (hw_jointZeroOffsetRadByMotorId hw)(canonicalMotorId \<mapsto> stored);
              hw1 = (update_joint i (\<lambda>jc. jc\<lparr>jc_zeroOffsetRad := stored\<rparr>) hw)\<lparr>hw_jointZeroOffsetRadByMotorId := offsets\<rparr>
          in if \<not> pm_ppLocalZeroOffsetPersistenceEnabled (hw_params hw) then (True, hw1)
             else case he_saveOffsets env offsets (world_of hw1) of
               (saved, w) \<Rightarrow>
                 let hw2 = set_runtime (set_world w (runtime_of hw1)) hw1
                 in if saved then (True, hw2)
                    else (False, (update_joint i (\<lambda>jc. jc\<lparr>jc_zeroOffsetRad := jc_zeroOffsetRad joint\<rparr>) hw2)\<lparr>
                            hw_jointZeroOffsetRadByMotorId := offsets(canonicalMotorId \<mapsto> rollback)\<rparr>)
      | _ \<Rightarrow> (False, hw))"

definition commitLimits ::
    "('l, 'w) hw_env \<Rightarrow> u16 \<Rightarrow> dbl \<Rightarrow> dbl \<Rightarrow> dbl \<Rightarrow> bool \<Rightarrow> ('l, 'w) CanDriverHW \<Rightarrow> bool \<times> ('l, 'w) CanDriverHW" where
  "commitLimits env motorId baseMin baseMax zeroOffset applyToMotor hw =
     (case matching_joints motorId (joints_of hw) of
        [i] \<Rightarrow>
          let stored = (if applyToMotor then Fin 0 else zeroOffset);
              canonicalMotorId = jc_motorId (joints_of hw ! i)
          in (True, (update_joint i (\<lambda>jc. jc\<lparr>jc_hasLimits := True,
                       jc_limits := he_setPositionLimits env baseMin baseMax (jc_limits jc), jc_zeroOffsetRad := stored\<rparr>) hw)\<lparr>
                 hw_jointZeroOffsetRadByMotorId := (hw_jointZeroOffsetRadByMotorId hw)(canonicalMotorId \<mapsto> stored)\<rparr>)
      | _ \<Rightarrow> (False, hw))"

text \<open>The feedback of an axis in the store, when it is fresh.\<close>

definition getFreshAxisFeedback :: "('l, 'w) hw_env \<Rightarrow> 'l CanDriverJointConfig \<Rightarrow> ('l, 'w) CanDriverHW \<Rightarrow> AxisFeedbackState option" where
  "getFreshAxisFeedback env joint hw =
     (case axis_feedback env joint (world_of hw) of
        None \<Rightarrow> None
      | Some feedback \<Rightarrow>
          if sharedFeedbackFresh feedback (env_now env (world_of hw)) (freshness_timeout_ns (hw_params hw)) then Some feedback else None)"

definition requireAxisDisabledForConfiguration ::
    "('l, 'w) hw_env \<Rightarrow> 'l CanDriverJointConfig \<Rightarrow> string \<Rightarrow> ('l, 'w) CanDriverHW \<Rightarrow> string option" where
  "requireAxisDisabledForConfiguration env joint operation hw =
     (case getFreshAxisFeedback env joint hw of
        None \<Rightarrow> Some (operation @ '' requires fresh enable-state feedback while the motor is disabled.'')
      | Some feedback \<Rightarrow>
          if \<not> fb_enabledValid feedback
          then Some (operation @ '' requires fresh enable-state feedback while the motor is disabled.'')
          else if fb_enabled feedback then Some (operation @ '' requires the motor to be disabled first.'')
          else None)"

section \<open>The control cycle\<close>

definition lifecycleDetailIsFaultTrigger :: "string \<Rightarrow> bool" where
  "lifecycleDetailIsFaultTrigger detail \<longleftrightarrow> \<not> sublist ''Feedback stale.'' detail"

definition lifecycleHealthHealthy :: "('l, 'w) hw_env \<Rightarrow> ('l, 'w) CanDriverHW \<Rightarrow> bool \<times> string \<times> ('l, 'w) CanDriverHW" where
  "lifecycleHealthHealthy env hw =
     (let s = runtime_of hw;
          run = (\<lambda>check. case check [] (rt_lifecycleDriverOps s) of
                   (ok, detail, l) \<Rightarrow> (ok, detail, set_runtime (s\<lparr>rt_lifecycleDriverOps := l\<rparr>) hw))
      in if oc_mode (hw_coordinator hw) = Armed then run (enableHealthySnapshot (he_clock env))
         else if oc_mode (hw_coordinator hw) = Running
         then (if \<not> pm_lifecycleRequireEnabledForRunning (hw_params hw) then run (enableHealthySnapshot (he_clock env))
               else run (motionHealthySnapshot (he_clock env)))
         else (True, [], hw))"

text \<open>What \<open>write\<close> and \<open>publishMotorStates\<close> end with: a fault seen, or an unhealthy lifecycle, is reported.\<close>

definition report_health :: "('l, 'w) hw_env \<Rightarrow> bool \<Rightarrow> ('l, 'w) CanDriverHW \<Rightarrow> ('l, 'w) CanDriverHW" where
  "report_health env anyFault hw =
     (if anyFault then hw\<lparr>hw_coordinator := UpdateFromFeedback True (hw_coordinator hw)\<rparr>
      else case lifecycleHealthHealthy env hw of
        (ok, detail, hw1) \<Rightarrow>
          hw1\<lparr>hw_coordinator := UpdateFromFeedback (\<not> ok \<and> lifecycleDetailIsFaultTrigger detail) (hw_coordinator hw1)\<rparr>)"

definition read_cycle :: "('l, 'w) hw_env \<Rightarrow> ('l, 'w) CanDriverHW \<Rightarrow> ('l, 'w) CanDriverHW" where
  "read_cycle env hw =
     (if \<not> rt_active (runtime_of hw) then hw
      else case SyncJointFeedback (he_deviceManager env) (he_io env) (hw_jointGroups hw) (joints_of hw) (world_of hw) of
        (joints, w) \<Rightarrow> set_runtime (set_world w ((runtime_of hw)\<lparr>rt_owner := (joints, snd (rt_owner (runtime_of hw)))\<rparr>)) hw)"

definition write_config :: "runtime_params \<Rightarrow> WriteConfig" where
  "write_config pm = \<lparr>wc_directCmdTimeoutSec = pm_directCmdTimeoutSec pm, wc_debugBypassRosControl = pm_debugBypassRosControl pm,
     wc_safetyStopOnFault = pm_safetyStopOnFault pm,
     wc_safetyRequireEnabledForMotion = pm_safetyRequireEnabledForMotion pm,
     wc_maxPositionStepRad = pm_maxPositionStepRad pm,
     wc_safetyHoldAfterDeviceRecover = pm_safetyHoldAfterDeviceRecover pm,
     wc_feedbackFreshnessTimeoutNs = freshness_timeout_ns pm\<rparr>"

text \<open>The buffers, the gate and the world as the working state of a cycle, and back.\<close>

definition cycle_of :: "('l, 'w) CanDriverHW \<Rightarrow> ('l, 'w) io_cycle" where
  "cycle_of hw = \<lparr>ic_joints = joints_of hw, ic_rawCommandBuffer = hw_rawCommandBuffer hw,
     ic_commandValidBuffer = snd (rt_owner (runtime_of hw)), ic_preparedCommandBuffer = hw_preparedCommandBuffer hw,
     ic_commandGate = rt_commandGate (runtime_of hw), ic_anyFaultObserved = False, ic_world = world_of hw\<rparr>"

definition put_cycle :: "('l, 'w) io_cycle \<Rightarrow> ('l, 'w) CanDriverHW \<Rightarrow> ('l, 'w) CanDriverHW" where
  "put_cycle s hw =
     (set_runtime (set_world (ic_world s) ((runtime_of hw)\<lparr>rt_owner := (ic_joints s, ic_commandValidBuffer s),
        rt_commandGate := ic_commandGate s\<rparr>)) hw)\<lparr>hw_rawCommandBuffer := ic_rawCommandBuffer s,
        hw_preparedCommandBuffer := ic_preparedCommandBuffer s\<rparr>"

definition invalidate_commands :: "('l, 'w) CanDriverHW \<Rightarrow> ('l, 'w) CanDriverHW" where
  "invalidate_commands hw = set_joints (joints_of hw, map (\<lambda>_. False) (snd (rt_owner (runtime_of hw)))) hw"

definition run_cycle :: "('l, 'w) hw_env \<Rightarrow> ('l, 'w) CanDriverHW \<Rightarrow> ('l, 'w) io_cycle" where
  "run_cycle env hw =
     (let config = write_config (hw_params hw); s = cycle_of hw;
          s1 = s\<lparr>ic_joints := he_enforceLimits env (ic_joints s)\<rparr>;
          s2 = PrepareCommands (he_limits env) (he_toSec env) config (he_rosNow env (ic_world s1)) s1
      in DispatchPreparedCommands (he_deviceManager env) (he_io env) (ck_now (he_clock env)) config (hw_jointGroups hw) s2)"

definition write_cycle :: "('l, 'w) hw_env \<Rightarrow> ('l, 'w) CanDriverHW \<Rightarrow> ('l, 'w) CanDriverHW" where
  "write_cycle env hw =
     (if \<not> rt_active (runtime_of hw) then hw
      else if oc_mode (hw_coordinator hw) \<noteq> Running then invalidate_commands hw
      else case consumeFreshCommandLatchIfSatisfied (rt_owner (runtime_of hw)) (rt_commandGate (runtime_of hw)) of
        (satisfied, gate) \<Rightarrow>
          let hw1 = set_runtime ((runtime_of hw)\<lparr>rt_commandGate := gate\<rparr>) hw
          in if \<not> satisfied then invalidate_commands hw1
             else let s = run_cycle env hw1 in report_health env (ic_anyFaultObserved s) (put_cycle s hw1))"

text \<open>The messages that are published and the driver afterwards.\<close>

definition publishMotorStates :: "('l, 'w) hw_env \<Rightarrow> ('l, 'w) CanDriverHW \<Rightarrow> MotorState list \<times> ('l, 'w) CanDriverHW" where
  "publishMotorStates env hw =
     (if \<not> rt_active (runtime_of hw) then ([], hw)
      else case BuildMotorStateMessages (env_now env (world_of hw)) (freshness_timeout_ns (hw_params hw)) (hw_jointGroups hw)
                  (joints_of hw) (idm_getSharedDriverState (he_deviceManager env) (world_of hw)) of
        (messages, anyFault) \<Rightarrow> (messages, report_health env anyFault hw))"

definition publishLifecycleState :: "('l, 'w) CanDriverHW \<Rightarrow> string" where
  "publishLifecycleState hw = SystemOpModeName (oc_mode (hw_coordinator hw))"

record JointRuntimeStateView =
  jv_jointName :: string
  jv_controlMode :: string
  jv_position :: dbl
  jv_velocity :: dbl
  jv_effort :: dbl
  jv_deviceReady :: bool
  jv_enabled :: bool
  jv_fault :: bool
  jv_feedbackFresh :: bool
  jv_commandValid :: bool

text \<open>One view of every joint; a device is asked once whether it is ready.\<close>

definition joint_view ::
    "('l, 'w) hw_env \<Rightarrow> runtime_params \<Rightarrow> bool \<Rightarrow> 'l CanDriverJointConfig \<Rightarrow> 'w \<Rightarrow> JointRuntimeStateView" where
  "joint_view env pm deviceReady joint w =
     (let feedback = axis_feedback env joint w;
          command = Option.bind (idm_getSharedDriverState (he_deviceManager env) w)
            (\<lambda>shared. getAxisCommand shared (MakeAxisKey (jc_canDevice joint) (jc_protocol joint) (jc_motorId joint)))
      in \<lparr>jv_jointName = jc_name joint, jv_controlMode = jc_controlMode joint, jv_position = jc_pos joint,
          jv_velocity = jc_vel joint, jv_effort = jc_eff joint, jv_deviceReady = deviceReady,
          jv_enabled = (case feedback of None \<Rightarrow> False | Some fb \<Rightarrow> fb_enabledValid fb \<and> fb_enabled fb),
          jv_fault = (case feedback of None \<Rightarrow> False | Some fb \<Rightarrow> fb_faultValid fb \<and> fb_fault fb),
          jv_feedbackFresh = (case feedback of None \<Rightarrow> False
            | Some fb \<Rightarrow> sharedFeedbackFresh fb (env_now env w) (freshness_timeout_ns pm)),
          jv_commandValid = (case command of None \<Rightarrow> False | Some c \<Rightarrow> ac_valid c)\<rparr>)"

fun view_joints ::
    "('l, 'w) hw_env \<Rightarrow> runtime_params \<Rightarrow> (string \<rightharpoonup> bool) \<Rightarrow> 'l CanDriverJointConfig list \<Rightarrow> 'w \<Rightarrow> JointRuntimeStateView list \<times> 'w" where
  "view_joints env pm deviceReadyByName [] w = ([], w)"
| "view_joints env pm deviceReadyByName (joint # joints) w =
     (case (case deviceReadyByName (jc_canDevice joint) of
              Some ready \<Rightarrow> (ready, w) | None \<Rightarrow> idm_isDeviceReady (he_deviceManager env) (jc_canDevice joint) w) of
        (ready, w1) \<Rightarrow> apfst (Cons (joint_view env pm ready joint w1))
          (view_joints env pm (deviceReadyByName(jc_canDevice joint \<mapsto> ready)) joints w1))"

definition snapshotJointRuntimeStates :: "('l, 'w) hw_env \<Rightarrow> ('l, 'w) CanDriverHW \<Rightarrow> JointRuntimeStateView list \<times> ('l, 'w) CanDriverHW" where
  "snapshotJointRuntimeStates env hw =
     (case view_joints env (hw_params hw) Map.empty (joints_of hw) (world_of hw) of
        (views, w) \<Rightarrow> (views, set_runtime (set_world w (runtime_of hw)) hw))"

definition directCommandEndpoints :: "('l, 'w) CanDriverHW \<Rightarrow> (string \<times> nat) list" where
  "directCommandEndpoints hw = zip (map jc_name (joints_of hw)) [0..<length (joints_of hw)]"

end
