(* ===== verification/Can_Driver_Hw_Correctness.thy ===== *)
theory Can_Driver_Hw_Correctness
  imports Can_Driver_Hw "HOL-Library.Multiset"
begin

text \<open>
  What holds of the hardware interface.  The runtime's contracts are interpreted on the hooks that
  the interface installs, the coordinator's latch on the runtime's notifications; then the
  operations as the steps of a machine with its invariant, and the properties.
\<close>

section \<open>The configuration of the joints\<close>

text \<open>A joint without what changes while the driver runs.\<close>

definition config_of :: "'l CanDriverJointConfig \<Rightarrow> 'l CanDriverJointConfig" where
  "config_of jc = jc\<lparr>jc_pos := Fin 0, jc_vel := Fin 0, jc_eff := Fin 0, jc_posCmd := Fin 0, jc_velCmd := Fin 0,
     jc_directPosCmd := Fin 0, jc_directVelCmd := Fin 0, jc_hasDirectPosCmd := False, jc_hasDirectVelCmd := False,
     jc_lastDirectPosTime := 0, jc_lastDirectVelTime := 0, jc_stopIssuedOnFault := False,
     jc_requireCommandAlignment := False\<rparr>"

lemma config_of_sel:
  "config_of a = config_of b \<Longrightarrow> jc_name a = jc_name b \<and> jc_canDevice a = jc_canDevice b \<and> jc_protocol a = jc_protocol b \<and>
     jc_motorId a = jc_motorId b \<and> jc_controlMode a = jc_controlMode b"
  unfolding config_of_def by (cases a; cases b) simp

lemma config_of_upd [simp]:
  "config_of (jc\<lparr>jc_pos := v\<rparr>) = config_of jc" "config_of (jc\<lparr>jc_vel := v\<rparr>) = config_of jc"
  "config_of (jc\<lparr>jc_eff := v\<rparr>) = config_of jc" "config_of (jc\<lparr>jc_posCmd := v\<rparr>) = config_of jc"
  "config_of (jc\<lparr>jc_velCmd := v\<rparr>) = config_of jc" "config_of (jc\<lparr>jc_directPosCmd := v\<rparr>) = config_of jc"
  "config_of (jc\<lparr>jc_directVelCmd := v\<rparr>) = config_of jc" "config_of (jc\<lparr>jc_hasDirectPosCmd := b\<rparr>) = config_of jc"
  "config_of (jc\<lparr>jc_hasDirectVelCmd := b\<rparr>) = config_of jc" "config_of (jc\<lparr>jc_lastDirectPosTime := t\<rparr>) = config_of jc"
  "config_of (jc\<lparr>jc_lastDirectVelTime := t\<rparr>) = config_of jc" "config_of (jc\<lparr>jc_stopIssuedOnFault := b\<rparr>) = config_of jc"
  "config_of (jc\<lparr>jc_requireCommandAlignment := b\<rparr>) = config_of jc"
  by (simp_all add: config_of_def)

lemma config_of_steps [simp]:
  "config_of (startup_joint snapshot jc) = config_of jc" "config_of (hold_joint jc) = config_of jc"
  "config_of (clear_command_flags jc) = config_of jc" "config_of (clear_joint_command jc) = config_of jc"
  "config_of (clearDirectCommandForControlMode jc m) = config_of jc"
  by (simp_all add: startup_joint_def hold_joint_def clear_command_flags_def clear_joint_command_def
      clearDirectCommandForControlMode_def Let_def split: option.split prod.split)

abbreviation config_list :: "'l CanDriverJointConfig list \<Rightarrow> 'l CanDriverJointConfig list" where
  "config_list joints \<equiv> map config_of joints"

lemma config_list_nth: "(\<And>i. i < length joints \<Longrightarrow> config_of (f i) = config_of (joints ! i)) \<Longrightarrow>
    config_list (map f [0..<length joints]) = config_list joints"
  by (rule nth_equalityI) simp_all

lemma config_list_map: "(\<And>jc. config_of (f jc) = config_of jc) \<Longrightarrow> config_list (map f joints) = config_list joints"
  by simp

lemma config_list_update: "(i < length joints \<Longrightarrow> config_of jc = config_of (joints ! i)) \<Longrightarrow>
    config_list (joints[i := jc]) = config_list joints"
  by (cases "i < length joints") (simp_all add: map_update list_update_same_conv list_update_beyond)

lemma config_list_length: "config_list a = config_list b \<Longrightarrow> length a = length b"
  by (metis length_map)

section \<open>What the hooks respect\<close>

text \<open>
  A lifecycle operation keeps the gate, the joints' configuration, the sizes, the device manager and the
  configured targets; it activates no targets.
\<close>

definition runtime_kept :: "('l, 'w) driver_runtime \<Rightarrow> ('l, 'w) driver_runtime \<Rightarrow> bool" where
  "runtime_kept s s' \<longleftrightarrow> rt_commandGate s' = rt_commandGate s \<and>
     config_list (fst (rt_owner s')) = config_list (fst (rt_owner s)) \<and>
     length (snd (rt_owner s')) = length (snd (rt_owner s)) \<and>
     lo_deviceManager (rt_lifecycleDriverOps s') = lo_deviceManager (rt_lifecycleDriverOps s) \<and>
     lo_targets (rt_lifecycleDriverOps s') = lo_targets (rt_lifecycleDriverOps s) \<and>
     set (lo_activeTargets (rt_lifecycleDriverOps s')) \<subseteq> set (lo_activeTargets (rt_lifecycleDriverOps s))"

lemma kept_refl: "runtime_kept s s"
  by (simp add: runtime_kept_def)

lemma kept_trans: "runtime_kept s s1 \<Longrightarrow> runtime_kept s1 s2 \<Longrightarrow> runtime_kept s s2"
  by (auto simp: runtime_kept_def)

lemma kept_world [simp]: "runtime_kept s (set_world w s') = runtime_kept s s'"
  by (simp add: runtime_kept_def set_world_def)

lemma kept_owner: "config_list (fst js) = config_list (fst (rt_owner s)) \<Longrightarrow> length (snd js) = length (snd (rt_owner s)) \<Longrightarrow>
    runtime_kept s (s\<lparr>rt_owner := js\<rparr>)"
  by (simp add: runtime_kept_def)

lemma kept_ops:
  assumes "\<And>l. same_config l (snd (f l))"
  shows "runtime_kept s (snd (on_ops f s))"
  using assms [of "rt_lifecycleDriverOps s"] by (simp add: runtime_kept_def on_ops_def same_config_def split_beta)

lemma kept_check:
  assumes "\<And>l. same_config l (snd (snd (f l)))"
  shows "runtime_kept s (snd (snd (on_ops_check f detail s)))"
  using assms [of "rt_lifecycleDriverOps s"] by (simp add: runtime_kept_def on_ops_check_def same_config_def split_beta)

lemma kept_shutdown: "runtime_kept s (snd (on_ops (shutdownDevice d) s))"
  by (auto simp: runtime_kept_def on_ops_def shutdownDevice_def deactivateTargetsForDevice_def split: option.split)

lemma finish_startup_config: "config_list (snd (finish_startup lims tolerance d snapshots joints)) = config_list joints"
  unfolding finish_startup_def Let_def snd_conv by (rule config_list_nth) simp

lemma runtime_kept_sync: "runtime_kept s (snd (syncStartupPositionAndCommands env pm groups d s))"
proof -
  have "runtime_kept s (s\<lparr>rt_owner := (snd (finish_startup lims tolerance d snapshots (fst (rt_owner s))), snd (rt_owner s))\<rparr>)"
    for lims tolerance snapshots by (rule kept_owner) (simp_all only: fst_conv snd_conv finish_startup_config)
  then show ?thesis
    by (simp add: syncStartupPositionAndCommands_def Let_def kept_refl split_beta del: list.map_comp)
qed

lemma kept_joints_world: "runtime_kept s (snd (on_joints_world f s))"
  by (simp add: on_joints_world_def kept_refl split: prod.split)

interpretation kept: runtime_contract "hw_hooks env hw" runtime_kept "he_clock env" for env hw
proof unfold_locales
  show "runtime_kept s s1 \<Longrightarrow> runtime_kept s1 s2 \<Longrightarrow> runtime_kept s s2" for s s1 s2 :: "('a, 'b) driver_runtime"
    by (rule kept_trans)
  show "runtime_kept s (snd (on_ops (prepareDevice d l) s))" for s :: "('a, 'b) driver_runtime" and d l
    by (rule kept_ops) (rule same_config_prepare)
  show "runtime_kept s (snd (on_ops (recoverAll (he_clock env)) s))" for s :: "('a, 'b) driver_runtime"
    by (rule kept_ops) (rule same_config_recoverAll)
qed (auto simp: hw_hooks_def Let_def kept_refl runtime_kept_sync kept_joints_world kept_shutdown, simp_all add: runtime_kept_def)

section \<open>The latch of the runtime\<close>

definition latch_ready :: "('l, 'w) driver_runtime \<Rightarrow> bool" where
  "latch_ready s \<longleftrightarrow> cg_snapshotProvider (rt_commandGate s) = Some captureCommandSnapshots"

text \<open>Blocked, on the commands of the joints as they are.\<close>

definition latch_armed :: "('l, 'w) driver_runtime \<Rightarrow> bool" where
  "latch_armed s \<longleftrightarrow> latch_ready s \<and> cg_freshCommandRequired (rt_commandGate s) \<and>
     cg_baselines (rt_commandGate s) = captureCommandSnapshots (rt_owner s)"

lemma kept_ready: "runtime_kept s s' \<Longrightarrow> latch_ready s' = latch_ready s"
  by (simp add: runtime_kept_def latch_ready_def)

interpretation rl: command_latch runtime_hold runtime_arm latch_ready latch_armed
  by unfold_locales (auto simp: latch_ready_def latch_armed_def runtime_hold_def runtime_arm_def armFreshCommandLatch_def)

lemma hooks_bound: "rl.bound (lifecycle_driver_ops (he_clock env) (hw_hooks env hw))"
proof -
  have init: "latch_ready (snd (initializeLifecycleDevice (hw_hooks env hw) d l s)) = latch_ready s" for d l s
    by (rule kept_ready [OF kept.R_init])
  have recover: "latch_ready (snd (recoverLifecycleDevices (he_clock env) (hw_hooks env hw) s)) = latch_ready s" for s
    by (rule kept_ready [OF kept.R_recover])
  have enable: "latch_ready (snd (on_ops (enableAll (he_clock env)) s)) = latch_ready s" for s
    by (rule kept_ready [OF kept_ops [OF same_config_ops(1)]])
  have healthy: "latch_ready (snd (snd (on_ops_check (enableHealthy (he_clock env)) detail s))) = latch_ready s"
    "latch_ready (snd (snd (on_ops_check (motionHealthy (he_clock env)) detail s))) = latch_ready s" for detail s
    by (rule kept_ready [OF kept_check], rule same_config_health)+
  show ?thesis
    by (simp add: rl.bound_def lifecycle_driver_ops_def init recover enable) (simp add: hw_hooks_def Let_def healthy)
qed

text \<open>A request that brings the driver closer to moving leaves the latch armed on the commands as they are.\<close>

lemma request_arms:
  assumes "latch_ready (runtime_of hw)" and "hw_request env req hw = (r, hw1)"
    and "oc_mode (hw_coordinator hw1) \<noteq> oc_mode (hw_coordinator hw)"
    and "(\<exists>d l. req = ReqInit d l) \<or> req \<in> {ReqEnable, ReqRelease, ReqRecover}"
  shows "latch_armed (runtime_of hw1)"
proof -
  define c where "c = configureLifecycleCoordinator (he_clock env) (hw_hooks env hw) (hw_coordinator hw)"
  have c: "oc_driverOps c = lifecycle_driver_ops (he_clock env) (hw_hooks env hw)" "oc_world c = runtime_of hw"
    "oc_mode c = oc_mode (hw_coordinator hw)"
    by (simp_all add: c_def configureLifecycleCoordinator_def SetDriverOps_def)
  have hw1: "hw_coordinator hw1 = snd (serve req c)"
    using assms(2) by (auto simp: hw_request_def c_def split: prod.splits)
  from rl.request_blocks [of c req] hooks_bound [of env hw] assms(1,3,4) show ?thesis by (simp add: c hw1)
qed
section \<open>What the steps to standby do to the world\<close>

text \<open>
  The steps are made of a few calls on the environment.  A preorder on worlds that these calls respect
  is respected by every step.
\<close>

locale env_closed =
  fixes env :: "('l, 'w) hw_env" and Q :: "'w \<Rightarrow> 'w \<Rightarrow> bool"
  assumes Q_refl: "Q w w"
    and Q_trans: "Q w w1 \<Longrightarrow> Q w1 w2 \<Longrightarrow> Q w w2"
    and Q_rate: "Q w (he_setDeviceRefreshRateHz env d hz w)"
    and Q_ready: "Q w (snd (idm_isDeviceReady (he_deviceManager env) d w))"
    and Q_readings: "Q w (snd (io_getPosition (he_io env) d t m w))" "Q w (snd (io_getVelocity (he_io env) d t m w))"
      "Q w (snd (io_getCurrent (he_io env) d t m w))"
    and Q_issue: "Q w (snd (he_issuePp env d m pq w))" "Q w (he_issueMt env d m mq w)" "Q w (snd (he_issueDm env d m dq w))"
    and Q_actions: "Q w (snd (he_setMode env mode d t m w))" "Q w (snd (he_setPositionOffset env n d t m w))"
    and Q_velocities: "Q w (he_setMotorDefaultPositionVelocityRaw env d m n w)" "Q w (he_setMotorDefaultCspVelocityRaw env d m n w)"
    and Q_sleep: "Q w (ck_sleep_for (he_clock env) dt w)"
begin

lemma Q_probe: "Q w (snd (issueStartupProbeForJoint env joint w))"
  by (cases "jc_protocol joint") (simp_all add: issueStartupProbeForJoint_def Let_def Q_refl Q_issue)

lemma Q_answer: "Q w (answer_loop env joint lastRx deadline n w)"
  by (induction n arbitrary: w) (auto simp: Q_refl intro: Q_trans [OF Q_sleep])

lemma Q_round: "Q w (snd (probe_round env gap joint lastRx deadline w))"
proof -
  obtain issued w1 where p: "issueStartupProbeForJoint env joint w = (issued, w1)" by fastforce
  with Q_probe [of w joint] have Q1: "Q w w1" by simp
  have Q2: "Q w (answer_loop env joint lastRx d n w1)" for d n by (rule Q_trans [OF Q1 Q_answer])
  show ?thesis
    by (simp add: probe_round_def p Let_def Q_refl Q2 Q_trans [OF Q1 Q_sleep] Q_trans [OF Q2 Q_sleep])
qed

lemma Q_probe_loop: "Q w (probe_loop env gap joint lastRx deadline n w)"
proof (induction n arbitrary: w)
  case (Suc n)
  obtain again w1 where p: "probe_round env gap joint lastRx deadline w = (again, w1)" by fastforce
  with Q_round [of w gap joint lastRx deadline] have "Q w w1" by simp
  with Suc.IH Q_trans show ?case by (auto simp: p Q_refl)
qed (simp add: Q_refl)

lemma Q_fold: "(\<And>x s. Q (g s) (g (f x s))) \<Longrightarrow> Q (g s) (g (fold f xs s))"
  by (induction xs arbitrary: s) (auto intro: Q_refl Q_trans)

lemma Q_sync_passes: "Q w (snd (snd (sync_passes env joints targets n snapshots w)))"
proof (induction n arbitrary: snapshots w)
  case (Suc n)
  obtain ok snapshots1 where p: "sync_pass env joints targets w snapshots = (ok, snapshots1)" by fastforce
  have Q1: "Q w (if n = 0 then w else env_sleep env (ms 20) w)" by (simp add: Q_refl Q_sleep)
  show ?case using Q_trans [OF Q1 Suc.IH] by (simp add: p Q_refl)
qed (simp add: Q_refl)

lemma Q_read_joint: "Q w (snd (read_joint (he_io env) grp joint w))"
proof -
  obtain p w1 where p: "io_getPosition (he_io env) (gr_canDevice grp) (gr_protocol grp) (jc_motorId joint) w = (p, w1)" by fastforce
  obtain v w2 where v: "io_getVelocity (he_io env) (gr_canDevice grp) (gr_protocol grp) (jc_motorId joint) w1 = (v, w2)" by fastforce
  obtain c w3 where c: "io_getCurrent (he_io env) (gr_canDevice grp) (gr_protocol grp) (jc_motorId joint) w2 = (c, w3)" by fastforce
  from Q_readings p v c have "Q w w1" "Q w1 w2" "Q w2 w3" by (metis snd_conv)+
  then show ?thesis by (auto simp: read_joint_def p v c intro: Q_trans)
qed

lemma Q_read_group: "Q (snd s) (snd (read_group (he_deviceManager env) (he_io env) joints grp s))"
proof -
  have "Q (snd s) (snd (fold (\<lambda>i (snapshots, w). case read_joint (he_io env) grp (joints ! i) w of (r, w1) \<Rightarrow> (snapshots(i \<mapsto> r), w1)) is s))"
    for "is" and s :: "(nat \<rightharpoonup> dbl \<times> dbl \<times> dbl) \<times> 'w"
  proof (rule Q_fold)
    fix i and s :: "(nat \<rightharpoonup> dbl \<times> dbl \<times> dbl) \<times> 'w"
    show "Q (snd s) (snd (case s of (snapshots, w) \<Rightarrow> case read_joint (he_io env) grp (joints ! i) w of (r, w1) \<Rightarrow> (snapshots(i \<mapsto> r), w1)))"
      using Q_read_joint [of "snd s" grp "joints ! i"] by (simp add: split_beta)
  qed
  from this [of "(fst s, snd s)" "gr_jointIndices grp"] show ?thesis
    by (cases s) (simp only: read_group_def prod.case split: if_split, simp add: Q_refl)
qed

lemma Q_cached_passes: "Q (snd p) (snd (cached_passes env groups joints n p))"
proof (induction n arbitrary: p)
  case (Suc n)
  obtain snapshots w where f: "fold (read_group (he_deviceManager env) (he_io env) joints) groups p = (snapshots, w)" by fastforce
  with Q_fold [where g = snd and f = "read_group (he_deviceManager env) (he_io env) joints", OF Q_read_group, of p groups]
  have Q1: "Q (snd p) w" by simp
  have "Q w (if n = 0 then w else env_sleep env (ms 20) w)" by (simp add: Q_refl Q_sleep)
  with Q1 Suc.IH [of "(snapshots, if n = 0 then w else env_sleep env (ms 20) w)"] show ?case
    by (auto simp: f split: if_splits intro: Q_trans)
qed (simp add: Q_refl)

lemma Q_collect: "Q w (snd (snd (collect_feedback env pm groups d joints targets w)))"
proof -
  have probes: "Q w (fold (\<lambda>i. probe_joint env timeout gap deadline (joints ! i)) targets w)" for timeout gap deadline w
    by (rule Q_fold [where g = id, simplified]) (simp add: probe_joint_def Let_def Q_probe_loop)
  show ?thesis
    using Q_trans [OF probes Q_sync_passes] Q_cached_passes [of "(Map.empty, w)"]
    by (simp add: collect_feedback_def Let_def split_beta)
qed

lemma Q_sync: "Q (lo_world (rt_lifecycleDriverOps s)) (lo_world (rt_lifecycleDriverOps (snd (syncStartupPositionAndCommands env pm groups d s))))"
proof -
  let ?w = "lo_world (rt_lifecycleDriverOps s)"
  define rate where "rate hz w = (if d \<noteq> [] then he_setDeviceRefreshRateHz env d hz w else w)" for hz w
  have r: "Q w (rate hz w)" for hz w by (simp add: rate_def Q_refl Q_rate)
  have collected: "Q ?w (snd (snd (collect_feedback env pm groups d joints targets (rate (Fin 0) ?w))))" for joints targets
    by (rule Q_trans [OF r Q_collect])
  show ?thesis
    by (simp add: syncStartupPositionAndCommands_def Let_def set_world_def split_beta rate_def [symmetric]
        Q_trans [OF r r] Q_trans [OF collected r])
qed

lemma Q_execute: "(\<And>d t m w. Q w (snd (action d t m w))) \<Longrightarrow> Q w (snd (execute_on env action jc w))"
  unfolding execute_on_def execute_def
  by (auto simp: Let_def Q_refl split: option.split prod.split outcome.split) (metis Q_ready Q_trans snd_conv)+

lemma Q_modes: "Q w (snd (applyInitialModes env d joints w))"
proof -
  have "Q (snd s) (snd (fold (\<lambda>jc (allOk, w). if \<not> on_device d jc \<or> joint_mode jc \<noteq> AxisCsp then (allOk, w)
      else case execute_on env (he_setMode env ModeCSP) jc w of (status, w1) \<Rightarrow> (allOk \<and> status = Ok, w1)) joints s))"
    for s :: "bool \<times> 'w"
    by (rule Q_fold) (auto simp: Q_refl split_beta intro: Q_execute Q_actions)
  from this [of "(True, w)"] show ?thesis by (simp add: applyInitialModes_def)
qed

lemma Q_offsets: "Q w (snd (restore_offsets env offsets d joints w))"
proof (induction joints arbitrary: w)
  case (Cons joint joints)
  have "Q w (snd (execute_on env (he_setPositionOffset env n) joint w))" for n by (rule Q_execute) (rule Q_actions)
  with Cons.IH Q_trans show ?case by (auto simp: Q_refl split: option.split prod.split) (metis snd_conv)+
qed (simp add: Q_refl)

lemma Q_group_velocities: "Q w (snd (velocities_of_group env pm d joints w))"
proof (induction joints arbitrary: w)
  case (Cons joint joints)
  have "Q w (snd (velocities_of_group env pm d joints
      (he_setMotorDefaultCspVelocityRaw env d m n (he_setMotorDefaultPositionVelocityRaw env d m n' w))))" for m n n'
    by (rule Q_trans [OF Q_velocities(1) Q_trans [OF Q_velocities(2) Cons.IH]])
  then show ?case by (auto simp: Q_refl Q_velocities Let_def split: prod.split)
qed (simp add: Q_refl)

lemma Q_default_velocities: "Q w (snd (applyPerAxisPpDefaultVelocities env pm d groups joints w))"
proof (induction groups arbitrary: w)
  case (Cons grp groups)
  obtain ok w1 where v: "velocities_of_group env pm (gr_canDevice grp) (map (\<lambda>i. joints ! i) (gr_jointIndices grp)) w = (ok, w1)"
    by fastforce
  then have "Q w w1" using Q_group_velocities by (metis snd_conv)
  with Cons.IH Q_trans show ?case by (auto simp: v)
qed (simp add: Q_refl)

end


section \<open>A failed initialisation\<close>

text \<open>The environment with a list of the calls that open and close devices; nothing else is noted.\<close>

definition silent_io :: "'w motor_io \<Rightarrow> ('w \<times> 'c) motor_io" where
  "silent_io io = \<lparr>
     io_getPosition = (\<lambda>d t m. on_fst (io_getPosition io d t m)),
     io_getVelocity = (\<lambda>d t m. on_fst (io_getVelocity io d t m)),
     io_getCurrent = (\<lambda>d t m. on_fst (io_getCurrent io d t m)),
     io_hasFault = (\<lambda>d t m. on_fst (io_hasFault io d t m)),
     io_isEnabled = (\<lambda>d t m. on_fst (io_isEnabled io d t m)),
     io_Stop = (\<lambda>d t m. on_fst (io_Stop io d t m)),
     io_setVelocity = (\<lambda>d t m v. on_fst (io_setVelocity io d t m v)),
     io_setPosition = (\<lambda>d t m v. on_fst (io_setPosition io d t m v)),
     io_quickSetPosition = (\<lambda>d t m v. on_fst (io_quickSetPosition io d t m v))\<rparr>"

definition logged_env :: "('l, 'w) hw_env \<Rightarrow> ('l, 'w \<times> device_call list) hw_env" where
  "logged_env env = \<lparr>
     he_deviceManager = logged_dm (he_deviceManager env),
     he_setDeviceRefreshRateHz = (\<lambda>d hz. apfst (he_setDeviceRefreshRateHz env d hz)),
     he_setting = (\<lambda>x. apfst (he_setting env x)),
     he_io = silent_io (he_io env),
     he_castOk = (\<lambda>d t w. he_castOk env d t (fst w)),
     he_issuePp = (\<lambda>d m pq. on_fst (he_issuePp env d m pq)),
     he_issueMt = (\<lambda>d m mq. apfst (he_issueMt env d m mq)),
     he_issueDm = (\<lambda>d m dq. on_fst (he_issueDm env d m dq)),
     he_setMode = (\<lambda>mode d t m. on_fst (he_setMode env mode d t m)),
     he_setPositionOffset = (\<lambda>n d t m. on_fst (he_setPositionOffset env n d t m)),
     he_setMotorDefaultPositionVelocityRaw = (\<lambda>d m n. apfst (he_setMotorDefaultPositionVelocityRaw env d m n)),
     he_setMotorDefaultCspVelocityRaw = (\<lambda>d m n. apfst (he_setMotorDefaultCspVelocityRaw env d m n)),
     he_clock = \<lparr>ck_now = (\<lambda>w. ck_now (he_clock env) (fst w)), ck_sleep_for = (\<lambda>dt. apfst (ck_sleep_for (he_clock env) dt))\<rparr>,
     he_rosNow = (\<lambda>w. he_rosNow env (fst w)),
     he_toSec = he_toSec env, he_limits = he_limits env, he_noLimits = he_noLimits env,
     he_setPositionLimits = he_setPositionLimits env, he_enforceLimits = he_enforceLimits env,
     he_loadOffsets = on_fst (he_loadOffsets env),
     he_saveOffsets = (\<lambda>offsets. on_fst (he_saveOffsets env offsets)),
     he_spins = he_spins env\<rparr>"

lemma on_fst_log [simp]: "snd (snd (on_fst f w)) = snd w"
  by (simp add: on_fst_def split_beta)

interpretation logged: env_closed "logged_env env" "\<lambda>w w'. snd w' = snd w" for env
  by unfold_locales (simp_all add: logged_env_def logged_dm_def recorded_dm_def silent_io_def)

lemma same_devices_world: "snd w = snd (lo_world (rt_lifecycleDriverOps s)) \<Longrightarrow> same_devices s (set_world w s)"
  by (simp add: same_devices_def set_world_def)

lemma same_devices_sync: "same_devices s (snd (syncStartupPositionAndCommands (logged_env env) pm groups d s))"
  using logged.Q_sync [where env = env and s = s and pm = pm and groups = groups and d = d]
  by (simp add: same_devices_def) (simp add: syncStartupPositionAndCommands_def Let_def set_world_def split_beta)

lemma same_devices_joints:
  assumes "\<And>joints w. snd (snd (f joints w)) = snd w"
  shows "same_devices s (snd (on_joints_world f s))"
  using assms [of "fst (rt_owner s)" "lo_world (rt_lifecycleDriverOps s)"]
  by (auto simp: on_joints_world_def split_beta intro: same_devices_world)

interpretation devices: quiet_hooks "hw_hooks (logged_env env) hw" for env hw
proof unfold_locales
  show "same_devices s (snd (g d s))"
    if "lh_apply_persisted_pp_zero_offsets (hw_hooks (logged_env env) hw) = Some g" for s g d
    using that logged.Q_offsets
    by (auto simp: hw_hooks_def Let_def applyPersistedPpZeroOffsets_def intro!: same_devices_joints)
qed (auto simp: hw_hooks_def Let_def same_devices_sync logged.Q_modes logged.Q_default_velocities logged.Q_rate
    intro!: same_devices_joints same_devices_world, simp_all add: same_devices_def)

text \<open>
  C7: a device initialisation request is all or nothing.  Whatever the motors answer, when the request
  fails none of the devices it opened is left open and the driver is not activated; when it succeeds
  the driver is active, all required devices of the list are open, and no others (device names in the
  list being different).
\<close>

theorem init_rolls_back:
  assumes "lo_deviceManager (rt_lifecycleDriverOps s) = Some (logged_dm (he_deviceManager env))" and "up_of s = {}"
    and "initializeLifecycleDevice (hw_hooks (logged_env env) hw) device loopback s = (r, s1)"
  shows "if res_ok r
    then rt_active s1 \<and> (distinct (map fst (device_specs device)) \<longrightarrow> up_of s1 \<noteq> {} \<and>
      {d. (d, False) \<in> set (device_specs device) \<and> d \<noteq> []} \<subseteq> up_of s1 \<and> up_of s1 \<subseteq> fst ` set (device_specs device))
    else up_of s1 = {} \<and> rt_active s1 = rt_active s"
  using assms by (rule devices.init_up)


text \<open>An environment whose calls all succeed, and a driver of two joints on it.\<close>

definition hw_witness_env :: "(unit, unit) hw_env" where
  "hw_witness_env = \<lparr>
     he_deviceManager = Can_Driver_Io.witness_dm, he_setDeviceRefreshRateHz = (\<lambda>_ _ w. w), he_setting = (\<lambda>_ w. w),
     he_io = witness_io, he_castOk = (\<lambda>_ _ _. True), he_issuePp = (\<lambda>_ _ _ w. (True, w)), he_issueMt = (\<lambda>_ _ _ w. w),
     he_issueDm = (\<lambda>_ _ _ w. (True, w)), he_setMode = (\<lambda>_ _ _ _ w. (Returns True, w)),
     he_setPositionOffset = (\<lambda>_ _ _ _ w. (Returns True, w)), he_setMotorDefaultPositionVelocityRaw = (\<lambda>_ _ _ w. w),
     he_setMotorDefaultCspVelocityRaw = (\<lambda>_ _ _ w. w), he_clock = \<lparr>ck_now = (\<lambda>_. 0), ck_sleep_for = (\<lambda>_ w. w)\<rparr>,
     he_rosNow = (\<lambda>_. 0), he_toSec = (\<lambda>_. Fin 0), he_limits = witness_limits, he_noLimits = (),
     he_setPositionLimits = (\<lambda>_ _ l. l), he_enforceLimits = id, he_loadOffsets = (\<lambda>w. (Some Map.empty, w)),
     he_saveOffsets = (\<lambda>_ w. (True, w)), he_spins = 0\<rparr>"

definition witness_target :: Target where
  "witness_target = \<lparr>tg_name = ''wheel'', tg_canDevice = ''can0'', tg_protocol = MT, tg_motorId = LeftWheel\<rparr>"

definition witness_runtime_state :: "((unit CanDriverJointConfig list \<times> bool list), unit \<times> device_call list) CanDriverRuntime" where
  "witness_runtime_state =
     (let s = Can_Driver_Runtime.new_runtime (logged_dm Can_Driver_Io.witness_dm) ([], []) ((), [])
      in s\<lparr>rt_lifecycleDriverOps := setTargets [witness_target] (rt_lifecycleDriverOps s)\<rparr>)"

text \<open>The device \<open>can0\<close> is opened, the device \<open>can1\<close> has no motors, so the request fails.\<close>

theorem init_rolls_back_witness:
  "let (r, s1) = initializeLifecycleDevice (hw_hooks (logged_env hw_witness_env) (new_CanDriverHW (logged_env hw_witness_env) ((), [])))
         ''can0, can1'' False witness_runtime_state
   in snd (lo_world (rt_lifecycleDriverOps s1)) = [CallInit ''can0'' True, CallShutdown ''can0''] \<and> up_of s1 = {} \<and> \<not> rt_active s1"
proof -
  have specs: "device_specs ''can0, can1'' = [(''can0'', False), (''can1'', False)]"
    by (simp add: device_specs_def token_spec_def trimCopy_def isspace_def optionalPrefix_def List.map_filter_simps)
  let ?init = "initializeLifecycleDevice (hw_hooks (logged_env hw_witness_env) (new_CanDriverHW (logged_env hw_witness_env) ((), [])))
    ''can0, can1'' False witness_runtime_state"
  have run: "\<not> res_ok (fst ?init) \<and>
      snd (lo_world (rt_lifecycleDriverOps (snd ?init))) = [CallInit ''can0'' True, CallShutdown ''can0'']"
    by (simp add: initializeLifecycleDevice_def specs prepareLifecycleDeviceForStandby_def hw_hooks_def Let_def set_rate_def
        set_world_def on_ops_def prepareDevice_def witness_runtime_state_def Can_Driver_Runtime.new_runtime_def
        setTargets_def clear_trackers_def configure_def new_LifecycleDriverOps_def targetsSnapshot_def witness_target_def
        logged_dm_def recorded_dm_def noting_def logged_env_def hw_witness_env_def Can_Driver_Io.witness_dm_def
        applyPersistedPpZeroOffsets_def on_joints_world_def new_CanDriverHW_def default_params_def
        syncStartupPositionAndCommands_def applyPerAxisPpDefaultVelocities.simps applyInitialModes_def
        restoreSteadyRefresh_def shutdownDevice_def deactivateTargetsForDevice_def startup_query_hz_def)
  have dm: "lo_deviceManager (rt_lifecycleDriverOps witness_runtime_state) = Some (logged_dm (he_deviceManager hw_witness_env))"
    and up: "up_of witness_runtime_state = {}" and inactive: "\<not> rt_active witness_runtime_state"
    by (simp_all add: witness_runtime_state_def Can_Driver_Runtime.new_runtime_def hw_witness_env_def setTargets_def configure_def
        new_LifecycleDriverOps_def devices_up_def Let_def)
  from init_rolls_back [OF dm up, of _ "''can0, can1''" False "fst ?init" "snd ?init"] run inactive
  show ?thesis by (simp add: split_beta Let_def)
qed


section \<open>Old commands\<close>

text \<open>
  A control cycle in which the controllers and topics have set the joints to \<open>js\<close> and the rest of the
  driver has brought the world to \<open>w\<close>.
\<close>

definition cycle :: "('l, 'w) hw_env \<Rightarrow> 'l joint_buffers \<times> 'w \<Rightarrow> ('l, 'w) CanDriverHW \<Rightarrow> ('l, 'w) CanDriverHW" where
  "cycle env jw hw = write_cycle env (set_runtime (set_world (snd jw) ((runtime_of hw)\<lparr>rt_owner := fst jw\<rparr>)) hw)"

lemma runtime_set [simp]:
  "oc_world (hw_coordinator (set_runtime s hw)) = s" "oc_mode (hw_coordinator (set_runtime s hw)) = oc_mode (hw_coordinator hw)"
  "set_runtime s (set_runtime s' hw) = set_runtime s hw"
  "hw_params (set_runtime s hw) = hw_params hw" "hw_jointGroups (set_runtime s hw) = hw_jointGroups hw"
  "hw_rawCommandBuffer (set_runtime s hw) = hw_rawCommandBuffer hw"
  "hw_preparedCommandBuffer (set_runtime s hw) = hw_preparedCommandBuffer hw"
  "hw_jointIndexByName (set_runtime s hw) = hw_jointIndexByName hw"
  "hw_jointZeroOffsetRadByMotorId (set_runtime s hw) = hw_jointZeroOffsetRadByMotorId hw"
  by (simp_all add: set_runtime_def)

lemma world_set [simp]:
  "rt_active (set_world w s) = rt_active s" "rt_commandGate (set_world w s) = rt_commandGate s"
  "rt_owner (set_world w s) = rt_owner s" "lo_world (rt_lifecycleDriverOps (set_world w s)) = w"
  by (simp_all add: set_world_def)

lemma runtime_eta [simp]: "set_runtime (runtime_of hw) hw = hw"
  by (cases hw) (simp add: set_runtime_def)

text \<open>What a blocked cycle leaves behind.\<close>

definition gate_armed_on :: "Snapshot list \<Rightarrow> ('l, 'w) CanDriverHW \<Rightarrow> bool" where
  "gate_armed_on base hw \<longleftrightarrow> latch_ready (runtime_of hw) \<and> cg_freshCommandRequired (rt_commandGate (runtime_of hw)) \<and>
     cg_baselines (rt_commandGate (runtime_of hw)) = base"

lemma blocked_cycle:
  assumes "gate_armed_on base hw" and "\<not> opens base (captureCommandSnapshots js)"
  shows "gate_armed_on base (cycle env (js, w) hw) \<and> world_of (cycle env (js, w) hw) = w \<and>
    joints_of (cycle env (js, w) hw) = fst js \<and>
    (rt_active (runtime_of hw) \<longrightarrow> True \<notin> set (snd (rt_owner (runtime_of (cycle env (js, w) hw)))))"
proof -
  let ?g = "rt_commandGate (runtime_of hw)"
  have g: "cg_snapshotProvider ?g = Some captureCommandSnapshots" "cg_freshCommandRequired ?g" "cg_baselines ?g = base"
    using assms(1) by (simp_all add: gate_armed_on_def latch_ready_def)
  have no: "\<not> opens (cg_baselines ?g) (captureCommandSnapshots js)" using assms(2) g(3) by simp
  have "consumeFreshCommandLatchIfSatisfied js ?g = (False, ?g)"
    using consume_armed(1) [OF g(1,2), of js] consume_armed(2) [OF g(1,2) no] no by (metis prod.collapse)
  then show ?thesis
    using assms(1) by (auto simp: cycle_def write_cycle_def invalidate_commands_def set_joints_def gate_armed_on_def latch_ready_def)
qed

lemma blocked_cycles:
  "gate_armed_on base hw \<Longrightarrow> \<forall>jw \<in> set cycles. \<not> opens base (captureCommandSnapshots (fst jw)) \<Longrightarrow>
   gate_armed_on base (fold (cycle env) cycles hw)"
proof (induction cycles arbitrary: hw)
  case (Cons jw cycles)
  obtain js w where jw: "jw = (js, w)" by fastforce
  from blocked_cycle [OF Cons.prems(1), of js env w] Cons.prems(2) have "gate_armed_on base (cycle env jw hw)" by (simp add: jw)
  from Cons.IH [OF this] Cons.prems(2) show ?case by simp
qed simp

text \<open>
  C6: no old command reaches a motor.  After a request that brought the driver closer to moving
  (initialisation, enable, release, recover), the control cycles make no call at all, whatever the
  other threads do to the world in between, until the commands of the joints differ from those at
  the time of the request or one agrees with the measured position.
\<close>

theorem no_motion_until_fresh:
  assumes "latch_ready (runtime_of hw)" and "hw_request env req hw = (r, hw1)"
    and "oc_mode (hw_coordinator hw1) \<noteq> oc_mode (hw_coordinator hw)"
    and "(\<exists>d l. req = ReqInit d l) \<or> req \<in> {ReqEnable, ReqRelease, ReqRecover}"
    and "\<forall>jw \<in> set (cycles @ [(js, w)]).
      \<not> opens (captureCommandSnapshots (rt_owner (runtime_of hw1))) (captureCommandSnapshots (fst jw))"
  shows "world_of (cycle env (js, w) (fold (cycle env) cycles hw1)) = w \<and>
    joints_of (cycle env (js, w) (fold (cycle env) cycles hw1)) = fst js"
proof -
  let ?base = "captureCommandSnapshots (rt_owner (runtime_of hw1))"
  have "gate_armed_on ?base hw1"
    using request_arms [OF assms(1-4)] by (simp add: latch_armed_def gate_armed_on_def)
  then have "gate_armed_on ?base (fold (cycle env) cycles hw1)" using assms(5) by (intro blocked_cycles) simp_all
  from blocked_cycle [OF this, of js env w] assms(5) show ?thesis by simp
qed


lemma tiny_doubles:
  obtains a b where "round64 (1 / 10 ^ 12) = Fin a" "0 < a" "round64 (1 / 10 ^ 9) = Fin b" "a < b" "b < 1"
proof -
  have "(2 powi (- 1000) :: rat) \<le> 2 powi (- 40)" by (rule power_int_increasing) simp_all
  also have "(2 powi (- 40) :: rat) = 1 / 2 ^ 40" by (simp add: power_int_def field_simps)
  finally have small: "(2 powi (- 1000) :: rat) \<le> 1 / 10 ^ 12" "(2 powi (- 1000) :: rat) \<le> 1 / 10 ^ 9" by simp_all
  have "(1 / 10 ^ 12 :: rat) \<le> 2 ^ 1000" "(1 / 10 ^ 9 :: rat) \<le> 2 ^ 1000" by (simp_all add: le_divide_eq)
  with round64_near [of "1 / 10 ^ 12" "1 / 10 ^ 12"] round64_near [of "1 / 10 ^ 9" "1 / 10 ^ 9"] small
  obtain a b where a: "round64 (1 / 10 ^ 12) = Fin a" "\<bar>a - 1 / 10 ^ 12\<bar> \<le> 1 / 10 ^ 12 / 2 ^ 53"
    and b: "round64 (1 / 10 ^ 9) = Fin b" "\<bar>b - 1 / 10 ^ 9\<bar> \<le> 1 / 10 ^ 9 / 2 ^ 53" by fastforce
  have decimal: "(10 :: rat) ^ 12 = 1000000000000" "(10 :: rat) ^ 9 = 1000000000" by simp_all
  have "(1 / 10 ^ 12 / 2 ^ 53 :: rat) \<le> 1 / 10000000000000" by simp
  from order_trans [OF a(2) this] have "\<bar>a - 1 / 1000000000000\<bar> \<le> 1 / 10000000000000" by (simp only: decimal)
  then have a_range: "0 < a \<and> a < 2 / 1000000000000" by linarith
  have "(1 / 10 ^ 9 / 2 ^ 53 :: rat) \<le> 1 / 10000000000" by simp
  from order_trans [OF b(2) this] have "\<bar>b - 1 / 1000000000\<bar> \<le> 1 / 10000000000" by (simp only: decimal)
  then have "2 / 1000000000000 < b \<and> b < 1" by linarith
  with a_range show thesis using that a(1) b(1) by (meson less_trans)
qed

text \<open>A joint under position control whose command is far from where it is, on an armed driver.\<close>

definition witness_position_joint :: "unit CanDriverJointConfig" where
  "witness_position_joint = (default_joint ())\<lparr>jc_name := ''wheel'', jc_canDevice := ''can0'', jc_controlMode := ''position'',
     jc_posCmd := Fin 5\<rparr>"

definition witness_driver :: "(unit, unit) CanDriverHW" where
  "witness_driver =
     (let hw = new_CanDriverHW hw_witness_env (); s = runtime_of hw
      in hw\<lparr>hw_coordinator := \<lparr>oc_mode = Armed, oc_driverOps = no_ops,
            oc_world = s\<lparr>rt_active := True, rt_owner := ([witness_position_joint], [False]),
              rt_lifecycleDriverOps := setTargets [witness_target] (rt_lifecycleDriverOps s)\<rparr>\<rparr>\<rparr>)"

lemma witness_latch: "latch_ready (runtime_of witness_driver)"
  by (simp add: latch_ready_def witness_driver_def new_CanDriverHW_def new_coordinator_def configureCommandGate_def
      Command_Gate.configure_def Let_def)

lemma retry_ok: "check s = (None, s1) \<Longrightarrow> retry ck deadline interval retryable check n s = (None, s1)"
  by (cases n) simp_all

lemma witness_healthy: "motionHealthy ck (rt_lifecycleDriverOps (runtime_of witness_driver)) =
    (True, [], rt_lifecycleDriverOps (runtime_of witness_driver))"
proof -
  let ?l = "rt_lifecycleDriverOps (runtime_of witness_driver)"
  have "motionHealthyOnce ck ?l = (None, ?l)"
    by (simp add: motionHealthyOnce_def lifecycleTargetsSnapshot_def witness_driver_def new_CanDriverHW_def new_coordinator_def
        configureCommandGate_def Can_Driver_Runtime.new_runtime_def hw_witness_env_def Can_Driver_Io.witness_dm_def setTargets_def
        clear_trackers_def configure_def new_LifecycleDriverOps_def Let_def motion_health_check_def isDeviceReady_def axis_inputs_def
        no_feedback_check_def queryMotorFault_def ask_protocol_def getSharedDriverState_def getProtocol_def getDeviceMutex_def)
  from retry_ok [of "motionHealthyOnce ck", OF this] show ?thesis by (simp add: motionHealthy_def)
qed

lemma witness_release:
  "runtime_of (snd (hw_request hw_witness_env ReqRelease witness_driver)) =
     (runtime_of witness_driver)\<lparr>rt_commandGate := armFreshCommandLatch ([witness_position_joint], [False]) (rt_commandGate (runtime_of witness_driver))\<rparr>"
  "oc_mode (hw_coordinator (snd (hw_request hw_witness_env ReqRelease witness_driver))) = Running"
proof -
  have "rt_owner (runtime_of witness_driver) = ([witness_position_joint], [False])" "oc_mode (hw_coordinator witness_driver) = Armed"
    by (simp_all add: witness_driver_def Let_def)
  then show "runtime_of (snd (hw_request hw_witness_env ReqRelease witness_driver)) =
     (runtime_of witness_driver)\<lparr>rt_commandGate := armFreshCommandLatch ([witness_position_joint], [False]) (rt_commandGate (runtime_of witness_driver))\<rparr>"
    "oc_mode (hw_coordinator (snd (hw_request hw_witness_env ReqRelease witness_driver))) = Running"
    by (simp_all add: hw_request_def configureLifecycleCoordinator_def SetDriverOps_def lifecycle_driver_ops_def hw_hooks_def Let_def
        RequestRelease_def DoTransition_def guarded_def on_ops_check_def witness_healthy arm_fresh_command_latch_def notify_def
        runtime_arm_def)
qed

theorem no_motion_until_fresh_witness:
  "let hw1 = snd (hw_request hw_witness_env ReqRelease witness_driver); js = ([witness_position_joint], [True])
   in oc_mode (hw_coordinator hw1) = Running \<and>
      joints_of (cycle hw_witness_env (js, ()) (fold (cycle hw_witness_env) [(js, ()), (js, ())] hw1)) = [witness_position_joint]"
proof -
  let ?hw1 = "snd (hw_request hw_witness_env ReqRelease witness_driver)"
  let ?js = "([witness_position_joint], [True])"
  have "oc_mode (hw_coordinator witness_driver) = Armed" "rt_owner (runtime_of witness_driver) = ([witness_position_joint], [False])"
    by (simp_all add: witness_driver_def Let_def)
  then have moved: "oc_mode (hw_coordinator ?hw1) \<noteq> oc_mode (hw_coordinator witness_driver)"
    and owner: "rt_owner (runtime_of ?hw1) = ([witness_position_joint], [False])"
    by (simp_all add: witness_release)
  obtain a b where t: "round64 (1 / 10 ^ 12) = Fin a" "0 < a" "round64 (1 / 10 ^ 9) = Fin b" "a < b" "b < 1" by (rule tiny_doubles)
  have blocked: "\<not> opens (captureCommandSnapshots (rt_owner (runtime_of ?hw1))) (captureCommandSnapshots ?js)"
    using t round64_int [of 5] round64_int [of 0] round64_int [of 1]
    by (simp add: owner opens_def captureCommandSnapshots_def snapshotCommandChanged_def witness_position_joint_def default_joint_def
        joint_mode_def axisControlModeFromString_def controlModeTargetNearActual_def controlModeSelectedCommandValue_def
        controlModeHasDirectCommand_def controlModeFallbackCommandValue_def controlModeActualFeedbackValue_def
        controlModeUsesVelocitySemantics_def controlModeAlignmentTolerance_def controlModeScale_def effectivePositionScale_def
        dsub_def dmax_def Let_def)
  from no_motion_until_fresh [OF witness_latch _ moved, where r = "fst (hw_request hw_witness_env ReqRelease witness_driver)"
      and cycles = "[(?js, ()), (?js, ())]" and js = ?js and w = "()"] blocked
  show ?thesis by (simp add: witness_release)
qed

text \<open>
  C35: the latch does not hold when commands were held before it was armed, as they are when a lost
  device is ready again while the driver is running: it opens in the next cycle as soon as a joint
  under position control has any finite command at all.  A controller that goes on writing its old set
  point counts as giving a fresh command, and one that writes nothing counts as aligned.
\<close>

theorem hold_defeats_latch:
  assumes "i < length joints" and "controlModeUsesPositionSemantics (joint_mode (joints ! i))"
    and "jc_pos (joints ! i) = Fin p" and "isfinite (effectivePositionScale (joints ! i))"
    and "cg_snapshotProvider gate = Some captureCommandSnapshots"
    and "held = holdCommandsForLifecycleTransition (joints, valid)"
    and "length joints1 = length joints" and "joints1 ! i = (fst held ! i)\<lparr>jc_posCmd := Fin c\<rparr>"
  shows "fst (consumeFreshCommandLatchIfSatisfied (joints1, valid1) (armFreshCommandLatch held gate))"
proof -
  let ?jc = "joints ! i"
  have held: "fst held ! i = hold_joint ?jc" "length (fst held) = length joints"
    using assms(1,6) by (simp_all add: holdCommandsForLifecycleTransition_def)
  have mode: "joint_mode (hold_joint ?jc) = joint_mode ?jc" "joint_mode (joints1 ! i) = joint_mode ?jc"
    by (simp_all add: joint_mode_def hold_joint_def Let_def assms(8) held)
  have position: "\<not> controlModeUsesVelocitySemantics (joint_mode ?jc)"
    using assms(2) by (simp add: controlModeUsesPositionSemantics_def)
  obtain q where q: "effectivePositionScale ?jc = Fin q" using assms(4) by (auto simp: isfinite_iff)
  obtain a b where t: "round64 (1 / 10 ^ 12) = Fin a" "0 < a" "round64 (1 / 10 ^ 9) = Fin b" "a < b" "b < 1" by (rule tiny_doubles)
  define before where "before = captureCommandSnapshots held ! i"
  define after where "after = captureCommandSnapshots (joints1, valid1) ! i"
  have before: "before = \<lparr>sn_controlMode = joint_mode ?jc, sn_commandValue = Fin p, sn_hasDirectCommand = False,
      sn_targetNearActual = sn_targetNearActual before\<rparr>"
    using assms(1,3) position held
    by (simp add: before_def captureCommandSnapshots_def mode controlModeSelectedCommandValue_def controlModeHasDirectCommand_def
        controlModeFallbackCommandValue_def Let_def) (simp add: hold_joint_def Let_def)
  have "jc_hasDirectPosCmd (joints1 ! i) = False" "jc_pos (joints1 ! i) = Fin p" "jc_posCmd (joints1 ! i) = Fin c"
    "effectivePositionScale (joints1 ! i) = Fin q"
    using assms(3) position q by (simp_all add: assms(8) held hold_joint_def Let_def effectivePositionScale_def)
  then have after: "after = \<lparr>sn_controlMode = joint_mode ?jc, sn_commandValue = Fin c, sn_hasDirectCommand = False,
      sn_targetNearActual = dle (dabs (dsub (Fin c) (Fin p))) (dmax (Fin \<bar>q\<bar>) (Fin b))\<rparr>"
    using assms(1,7) position t(3)
    by (simp add: after_def captureCommandSnapshots_def mode controlModeSelectedCommandValue_def controlModeHasDirectCommand_def
        controlModeFallbackCommandValue_def controlModeTargetNearActual_def controlModeActualFeedbackValue_def
        controlModeAlignmentTolerance_def controlModeScale_def Let_def)
  have "round64 (c - p) \<noteq> NaN" by (simp add: round64_def fp_round_def inf_of_sign_def Let_def)
  then have "snapshotCommandChanged after before \<or> sn_targetNearActual after"
    using t by (subst (1) before) (cases "round64 (c - p)"; auto simp: after snapshotCommandChanged_def dsub_def dmax_def dle_def)
  then have "opens (captureCommandSnapshots held) (captureCommandSnapshots (joints1, valid1))"
    using assms(1,7) held(2) unfolding opens_def before_def after_def
    by (auto simp: captureCommandSnapshots_def)
  moreover have "cg_snapshotProvider (armFreshCommandLatch held gate) = Some captureCommandSnapshots"
    "cg_freshCommandRequired (armFreshCommandLatch held gate)"
    "cg_baselines (armFreshCommandLatch held gate) = captureCommandSnapshots held"
    using assms(5) by (simp_all add: armFreshCommandLatch_def)
  ultimately show ?thesis by (simp add: consume_armed(1))
qed


theorem hold_defeats_latch_witness:
  "fst (consumeFreshCommandLatchIfSatisfied ([witness_position_joint], [True])
     (armFreshCommandLatch (holdCommandsForLifecycleTransition ([witness_position_joint], [True]))
        (rt_commandGate (runtime_of witness_driver))))"
proof (rule hold_defeats_latch [OF _ _ _ _ _ refl])
  show "cg_snapshotProvider (rt_commandGate (runtime_of witness_driver)) = Some captureCommandSnapshots"
    using witness_latch by (simp add: latch_ready_def)
  show "isfinite (effectivePositionScale ([witness_position_joint] ! 0))"
    using round64_int [of 1] by (simp add: witness_position_joint_def default_joint_def effectivePositionScale_def)
  show "[witness_position_joint] ! 0 =
      (fst (holdCommandsForLifecycleTransition ([witness_position_joint], [True])) ! 0)\<lparr>jc_posCmd := Fin 5\<rparr>"
    by (simp add: holdCommandsForLifecycleTransition_def hold_joint_def witness_position_joint_def default_joint_def Let_def
        joint_mode_def axisControlModeFromString_def controlModeUsesVelocitySemantics_def)
qed (simp_all add: witness_position_joint_def default_joint_def joint_mode_def axisControlModeFromString_def
    controlModeUsesPositionSemantics_def controlModeUsesVelocitySemantics_def)

section \<open>Health\<close>

text \<open>The verdict on an axis that has been seen but not lately.\<close>

definition stale :: "readiness_config \<Rightarrow> AxisFeedbackState \<Rightarrow> DeviceHealthState option \<Rightarrow> time_ns \<Rightarrow> bool" where
  "stale cfg fb h now \<longleftrightarrow> fb_feedbackSeen fb \<and> \<not> feedback_fresh cfg fb now \<and> \<not> fb_degraded fb \<and>
     \<not> max 1 (cfg_degradedTimeoutThreshold cfg) \<le> fb_consecutiveTimeoutCount fb \<and>
     (case h of None \<Rightarrow> True | Some d \<Rightarrow> dh_transportReady d)"

lemma stale_fields:
  assumes "stale cfg fb h now"
  shows "rd_deviceReady (EvaluateBase cfg fb c i h now)" and "rd_feedbackSeen (EvaluateBase cfg fb c i h now)"
    and "\<not> rd_degraded (EvaluateBase cfg fb c i h now)" and "\<not> rd_feedbackFresh (EvaluateBase cfg fb c i h now)"
    and "\<not> rd_axisReadyForEnable (EvaluateBase cfg fb c i h now)" and "\<not> rd_axisReadyForRun (EvaluateBase cfg fb c i h now)"
  using assms by (simp_all only: stale_def EvaluateBase_def Let_def AxisReadiness.select_convs) auto

lemma stale_reason:
  assumes "rd_deviceReady r" and "rd_feedbackSeen r" and "\<not> rd_degraded r" and "\<not> rd_feedbackFresh r"
  shows "DescribeBlockReason r = ''Feedback stale.''" and "DescribeBlockReason (r\<lparr>rd_recoverConfirmed := b\<rparr>) = ''Feedback stale.''"
  using assms by (simp_all add: DescribeBlockReason_def)

lemma stale_verdict:
  assumes "stale (lo_config s) fb h now" and "evaluateAxisReadiness now k fb c i h s = (readiness, s1)"
  shows "\<not> ReadyForRun readiness \<and> DescribeBlockReason readiness = ''Feedback stale.''"
proof -
  have "fst (evaluateAxisReadiness now k fb c i h s) = (EvaluateBase (lo_config s) fb c i h now)\<lparr>rd_recoverConfirmed := False\<rparr>"
    using stale_fields(5) [OF assms(1)] by (simp add: evaluateAxisReadiness_def Evaluate_def Let_def)
  then have "readiness = (EvaluateBase (lo_config s) fb c i h now)\<lparr>rd_recoverConfirmed := False\<rparr>" using assms(2) by simp
  then show ?thesis
    using stale_reason(2) [OF stale_fields(1-4)] stale_fields(6) assms(1) by (simp add: ReadyForRun_def)
qed

text \<open>
  C36: a stale axis hides faults.  While the first axis of a running driver is stale (seen, but not within
  the freshness time-out), its own fault flag and everything that is wrong with the axes behind it are
  no reason for the health check to fault the driver, which goes on running.
\<close>

theorem stale_axis_masks:
  assumes "oc_mode (hw_coordinator hw) = Running" and "pm_lifecycleRequireEnabledForRunning (hw_params hw)"
    and "l = rt_lifecycleDriverOps (runtime_of hw)" and "lifecycleTargetsSnapshot l = tgt # tgts"
    and "isDeviceReady (tg_canDevice tgt) l = (True, l1)" and "axis_inputs tgt l1 = Some (fb, c, h)"
    and "fb_faultValid fb" and "fb_enabledValid fb" and "stale (lo_config l1) (assume_mode tgt c fb) h (now_of (he_clock env) l1)"
  shows "oc_mode (hw_coordinator (report_health env False hw)) = Running"
proof -
  obtain readiness l2 where v: "evaluateAxisReadiness (now_of (he_clock env) l1) (target_key tgt) (assume_mode tgt c fb) c
      (axis_intent tgt l1) h l1 = (readiness, l2)" by fastforce
  from stale_verdict [OF assms(9) this] assms(5-8) v
  have check: "motion_health_check (he_clock env) tgt l = (Some (tg_name tgt @ '': '' @ ''Feedback stale.''), l2)"
    by (simp add: motion_health_check_def fill_fault_def)
  have "sublist ''Feedback stale.'' (tg_name tgt @ '': '' @ ''Feedback stale.'')"
    unfolding sublist_def by (metis append.assoc append.right_neutral)
  with check assms(1-4) show ?thesis
    by (simp add: report_health_def lifecycleHealthHealthy_def motionHealthySnapshot_def motionHealthyOnce_def
        UpdateFromFeedback_def lifecycleDetailIsFaultTrigger_def Let_def del: append.simps)
qed

text \<open>The first axis is stale and faulty; the second one has never been heard of.\<close>

definition stale_store :: SharedDriverState where
  "stale_store = (let key = target_key witness_target
     in mutateDeviceHealth ''can0'' (\<lambda>h. h\<lparr>dh_transportReady := True\<rparr>)
          (mutateAxisFeedback key (\<lambda>fb. fb\<lparr>fb_feedbackSeen := True, fb_lastRxSteadyNs := 1, fb_faultValid := True, fb_fault := True,
             fb_enabledValid := True, fb_enabled := True\<rparr>) \<lparr>sds_axisFeedback = Map.empty, sds_axisCommands = Map.empty,
               sds_axisIntents = Map.empty, sds_deviceHealth = Map.empty\<rparr>))"

definition stale_env :: "(unit, unit) hw_env" where
  "stale_env = hw_witness_env\<lparr>he_deviceManager := Can_Driver_Io.witness_dm\<lparr>idm_getSharedDriverState := \<lambda>_. Some stale_store\<rparr>,
     he_clock := \<lparr>ck_now = (\<lambda>_. ms 2000), ck_sleep_for = (\<lambda>_ w. w)\<rparr>\<rparr>"

definition stale_driver :: "(unit, unit) CanDriverHW" where
  "stale_driver =
     (let hw = new_CanDriverHW stale_env (); s = runtime_of hw
      in hw\<lparr>hw_coordinator := \<lparr>oc_mode = Running, oc_driverOps = no_ops, oc_world = s\<lparr>rt_active := True,
            rt_lifecycleDriverOps := setTargets [witness_target, witness_target\<lparr>tg_motorId := 2\<rparr>]
              (rt_lifecycleDriverOps s)\<rparr>\<rparr>\<rparr>)"

theorem stale_axis_masks_witness:
  "oc_mode (hw_coordinator (report_health stale_env False stale_driver)) = Running \<and>
   getAxisFeedback stale_store (target_key witness_target) \<noteq> None"
proof -
  let ?l = "rt_lifecycleDriverOps (runtime_of stale_driver)"
  note d = stale_driver_def new_CanDriverHW_def new_coordinator_def configureCommandGate_def Can_Driver_Runtime.new_runtime_def
    stale_env_def hw_witness_env_def Can_Driver_Io.witness_dm_def setTargets_def clear_trackers_def configure_def
    new_LifecycleDriverOps_def Let_def default_params_def
  obtain fb where fb: "getAxisFeedback stale_store (target_key witness_target) = Some fb"
    and fields: "fb_faultValid fb" "fb_enabledValid fb" "fb_feedbackSeen fb" "\<not> fb_degraded fb" "fb_consecutiveTimeoutCount fb = 0"
      "fb_lastRxSteadyNs fb = 1"
    by (simp add: stale_store_def sds_defs getAxisFeedback_def Let_def default_feedback_def map_modify_def map_at_def
        recomputeAxisObservedLocked_def kDefaultFeedbackDegradedTimeoutThreshold_def)
  obtain h where h: "getDeviceHealth stale_store ''can0'' = Some h" "dh_transportReady h"
    by (simp add: stale_store_def sds_defs getDeviceHealth_def Let_def map_modify_def map_at_def)
  have ready: "isDeviceReady (tg_canDevice witness_target) ?l = (True, ?l)"
    by (simp add: isDeviceReady_def d)
  have inputs: "axis_inputs witness_target ?l = Some (fb, getAxisCommand stale_store (target_key witness_target), Some h)"
    using fb h by (simp add: axis_inputs_def getSharedDriverState_def d) (simp add: witness_target_def)
  have snapshot: "lifecycleTargetsSnapshot ?l = witness_target # [witness_target\<lparr>tg_motorId := 2\<rparr>]"
    by (simp add: lifecycleTargetsSnapshot_def d)
  have "stale (lo_config ?l) (assume_mode witness_target c fb) (Some h) (now_of (he_clock stale_env) ?l)" for c
    using fields h(2)
    by (simp add: stale_def assume_mode_def d default_readiness_config_def feedback_fresh_def
        kDefaultFeedbackDegradedTimeoutThreshold_def split: option.split)
  from stale_axis_masks [OF _ _ refl snapshot ready inputs fields(1,2) this] fb show ?thesis
    by (simp add: stale_driver_def new_CanDriverHW_def default_params_def Let_def)
qed

section \<open>Setting up joints\<close>

text \<open>What the parsed joints that were accepted have in common, and the joints that they become.\<close>

abbreviation wire_node :: "ParsedJointConfig \<Rightarrow> string \<times> CanType \<times> u8" where
  "wire_node p \<equiv> (pj_canDevice p, pj_protocol p, toProtocolNodeId (pj_motorId p))"

definition parsed_target :: "ParsedJointConfig \<Rightarrow> Target" where
  "parsed_target p = \<lparr>tg_name = pj_name p, tg_canDevice = pj_canDevice p, tg_protocol = pj_protocol p, tg_motorId = pj_motorId p\<rparr>"

lemma target_of_parsed [simp]: "makeMotorTarget (joint_of_parsed none offsets p) = parsed_target p"
  by (simp add: makeMotorTarget_def joint_of_parsed_def parsed_target_def)

lemma setup_joints_accepts:
  "setup_joints none ps names nodes (joints, offsets) = (True, joints1, offsets1) \<Longrightarrow>
   distinct (map pj_name ps) \<and> pj_name ` set ps \<inter> names = {} \<and> distinct (map wire_node ps) \<and> wire_node ` set ps \<inter> nodes = {} \<and>
   map makeMotorTarget joints1 = map makeMotorTarget joints @ map parsed_target ps"
proof (induction ps arbitrary: names nodes joints offsets)
  case (Cons p ps)
  have new: "pj_name p \<notin> names" "wire_node p \<notin> nodes"
    and run: "setup_joints none ps (insert (pj_name p) names) (insert (wire_node p) nodes)
      (joints @ [joint_of_parsed none offsets p], note_offset offsets p) = (True, joints1, offsets1)"
    using Cons.prems by (auto simp: Let_def split: if_splits)
  from Cons.IH [OF run] new show ?case by auto
qed simp

lemma target_name: "tg_name (makeMotorTarget jc) = jc_name jc"
  by (simp add: makeMotorTarget_def)

text \<open>The groups: every joint is in one group, that of its device and protocol.\<close>

definition groups_of :: "Target list \<Rightarrow> CanDriverDeviceProtocolGroup list \<Rightarrow> bool" where
  "groups_of tgts groups \<longleftrightarrow> mset (concat (map gr_jointIndices groups)) = mset [0..<length tgts] \<and>
     (\<forall>grp \<in> set groups. \<forall>i \<in> set (gr_jointIndices grp).
        tg_canDevice (tgts ! i) = gr_canDevice grp \<and> tg_protocol (tgts ! i) = gr_protocol grp)"

lemma mset_add_to_groups: "mset (concat (map snd (add_to_groups key i gs))) = add_mset i (mset (concat (map snd gs)))"
  by (induction key i gs rule: add_to_groups.induct) auto

definition keyed :: "(nat \<Rightarrow> string \<times> CanType) \<Rightarrow> ((string \<times> CanType) \<times> nat list) list \<Rightarrow> bool" where
  "keyed f gs \<longleftrightarrow> (\<forall>e \<in> set gs. \<forall>j \<in> set (snd e). f j = fst e)"

lemma keyed_simps [simp]: "keyed f []" "keyed f (e # gs) \<longleftrightarrow> (\<forall>j \<in> set (snd e). f j = fst e) \<and> keyed f gs"
  by (simp_all add: keyed_def)

lemma keyed_add: "keyed f gs \<Longrightarrow> f i = key \<Longrightarrow> keyed f (add_to_groups key i gs)"
  by (induction key i gs rule: add_to_groups.induct) auto

lemma fold_groups:
  "keyed key gs \<Longrightarrow> keyed key (fold (\<lambda>i. add_to_groups (key i) i) is gs) \<and>
     mset (concat (map snd (fold (\<lambda>i. add_to_groups (key i) i) is gs))) = mset is + mset (concat (map snd gs))"
proof (induction "is" arbitrary: gs)
  case (Cons i "is")
  from Cons.IH [OF keyed_add [OF Cons.prems refl], of i] show ?case by (simp add: mset_add_to_groups)
qed simp

lemma rebuild_groups: "groups_of (map makeMotorTarget joints) (rebuildJointGroups joints)"
proof -
  define key where "key i = (jc_canDevice (joints ! i), jc_protocol (joints ! i))" for i
  define gs where "gs = fold (\<lambda>i. add_to_groups (key i) i) [0..<length joints] []"
  have gs: "keyed key gs" "mset (concat (map snd gs)) = mset [0..<length joints]"
    using fold_groups [of key "[]" "[0..<length joints]"] by (simp_all add: gs_def)
  define as_group where "as_group = (\<lambda>((device, protocol), is). \<lparr>gr_canDevice = device, gr_protocol = protocol, gr_jointIndices = is\<rparr>)"
  have sel: "gr_jointIndices (as_group e) = snd e" "gr_canDevice (as_group e) = fst (fst e)" "gr_protocol (as_group e) = snd (fst e)" for e
    by (simp_all add: as_group_def split_beta)
  have groups: "rebuildJointGroups joints = map as_group gs"
    by (simp add: rebuildJointGroups_def gs_def key_def as_group_def)
  have "j < length joints" if "e \<in> set gs" "j \<in> set (snd e)" for e j
  proof -
    have "j \<in> set_mset (mset (concat (map snd gs)))" using that by auto
    then show ?thesis unfolding gs(2) by simp
  qed
  then have "tg_canDevice (map makeMotorTarget joints ! j) = fst (fst e) \<and> tg_protocol (map makeMotorTarget joints ! j) = snd (fst e)"
    if "e \<in> set gs" "j \<in> set (snd e)" for e j
    using that gs(1) by (auto simp: keyed_def key_def makeMotorTarget_def prod_eq_iff)
  with gs(2) show ?thesis by (simp add: groups_of_def groups sel comp_def)
qed

end
