(* ===== verification/Can_Driver_Hw_Invariant.thy ===== *)
theory Can_Driver_Hw_Invariant
  imports Can_Driver_Hw_Correctness
begin

text \<open>
  The hardware interface as a machine: its operations as steps, the states that can be reached, and the
  invariant that keeps every index into the joints and the buffers in range.
\<close>

section \<open>Requests\<close>

text \<open>A preorder on worlds that the driver operations respect is respected by every request.\<close>

locale world_preorder =
  fixes R :: "'w \<Rightarrow> 'w \<Rightarrow> bool"
  assumes refl: "R w w" and trans: "R w w1 \<Longrightarrow> R w1 w2 \<Longrightarrow> R w w2"
begin

definition harmless :: "'w DriverOps \<Rightarrow> bool" where
  "harmless ops \<longleftrightarrow>
     (\<forall>f d l w. op_init_device ops = Some f \<longrightarrow> R w (snd (f d l w))) \<and>
     (\<forall>f w. op_enable_all ops = Some f \<longrightarrow> R w (snd (f w))) \<and>
     (\<forall>f w. op_disable_all ops = Some f \<longrightarrow> R w (snd (f w))) \<and>
     (\<forall>f w. op_halt_all ops = Some f \<longrightarrow> R w (snd (f w))) \<and>
     (\<forall>f w. op_recover_all ops = Some f \<longrightarrow> R w (snd (f w))) \<and>
     (\<forall>f b w. op_shutdown_all ops = Some f \<longrightarrow> R w (snd (f b w))) \<and>
     (\<forall>f d w. op_enable_healthy ops = Some f \<longrightarrow> R w (snd (snd (f d w)))) \<and>
     (\<forall>f d w. op_motion_healthy ops = Some f \<longrightarrow> R w (snd (snd (f d w)))) \<and>
     (\<forall>f w. op_hold_commands ops = Some f \<longrightarrow> R w (f w)) \<and>
     (\<forall>f w. op_arm_fresh_command_latch ops = Some f \<longrightarrow> R w (f w))"

text \<open>An action, on coordinators with given operations.\<close>

definition action_ok :: "'w DriverOps \<Rightarrow> 'w action \<Rightarrow> bool" where
  "action_ok ops act \<longleftrightarrow> (\<forall>d c. oc_driverOps c = ops \<longrightarrow> R (oc_world c) (oc_world (snd (snd (act d c)))))"

lemma notify_R: "harmless (oc_driverOps c) \<Longrightarrow> R (oc_world c) (oc_world (hold_commands c))"
  "harmless (oc_driverOps c) \<Longrightarrow> R (oc_world c) (oc_world (arm_fresh_command_latch c))"
  by (auto simp: harmless_def hold_commands_def arm_fresh_command_latch_def notify_def refl split: option.split)

lemma arm_hold_R: "harmless (oc_driverOps c) \<Longrightarrow> R (oc_world c) (oc_world (arm_fresh_command_latch (hold_commands c)))"
  using notify_R(1) [of c] notify_R(2) [of "hold_commands c"] by (auto intro: trans)

lemma call_op_R:
  assumes "\<And>f w. operation = Some f \<Longrightarrow> R w (snd (f w))" and "\<And>c. oc_driverOps c = ops \<Longrightarrow> R (oc_world c) (oc_world (fin c))"
    and "\<And>c. oc_world (failed c) = oc_world c" and "oc_driverOps c = ops"
  shows "R (oc_world c) (oc_world (snd (snd (call_op operation m failed fin d c))))"
proof (cases operation)
  case (Some f)
  obtain r w where f: "f (oc_world c) = (r, w)" by fastforce
  with assms(1) [OF Some, of "oc_world c"] have "R (oc_world c) w" by simp
  with assms(2) [of "c\<lparr>oc_world := w\<rparr>"] assms(3,4) show ?thesis
    by (auto simp: call_op_def Some f intro: trans)
qed (simp add: call_op_def assms(3) refl)

lemma guarded_R:
  assumes "\<And>f d w. check = Some f \<Longrightarrow> R w (snd (snd (f d w)))"
    and "\<And>d c. oc_driverOps c = ops \<Longrightarrow> R (oc_world c) (oc_world (snd (snd (k d c))))" and "oc_driverOps c = ops"
  shows "R (oc_world c) (oc_world (snd (snd (guarded check k d c))))"
proof (cases check)
  case (Some f)
  obtain ok d' w where f: "f d (oc_world c) = (ok, d', w)" by (metis prod_cases3)
  with assms(1) [OF Some, of "oc_world c" d] have "R (oc_world c) w" by simp
  with assms(2) [of "c\<lparr>oc_world := w\<rparr>" d'] assms(3) show ?thesis by (auto simp: guarded_def Some f intro: trans)
qed (simp add: guarded_def assms)

lemma DoTransition_R:
  assumes "\<And>d c. oc_driverOps c = ops \<Longrightarrow> R (oc_world c) (oc_world (snd (snd (act d c))))" and "oc_driverOps c = ops"
  shows "R (oc_world c) (oc_world (snd (DoTransition from to (Some act) c)))"
  using assms(1) [OF assms(2), of "[]"] by (auto simp: DoTransition_def Let_def refl split: prod.split)

lemma serve_R:
  assumes "harmless (oc_driverOps c)"
  shows "R (oc_world c) (oc_world (snd (serve req c)))"
proof -
  let ?ops = "oc_driverOps c"
  note r = assms [unfolded harmless_def]
  have hold: "R (oc_world c1) (oc_world (snd (snd (call_op operation m (\<lambda>c. c) (\<lambda>c. c) d (hold_commands c1)))))"
    if "\<And>f w. operation = Some f \<Longrightarrow> R w (snd (f w))" "oc_driverOps c1 = ?ops" for operation m d c1
    using notify_R(1) [of c1] call_op_R [of operation ?ops "\<lambda>c. c" "\<lambda>c. c" "hold_commands c1" m d] that assms
    by (auto intro: trans refl)
  have fin: "R (oc_world c1) (oc_world ((arm_fresh_command_latch \<circ> hold_commands) c1))" if "oc_driverOps c1 = ?ops" for c1
    using arm_hold_R [of c1] that assms by simp
  show ?thesis
  proof (cases req)
    case (ReqInit device loopback)
    show ?thesis unfolding ReqInit serve.simps RequestInit_def
      by (rule DoTransition_R [OF _ HOL.refl], rule call_op_R [where ops = ?ops]) (use r fin in auto)
  next
    case ReqEnable
    have "R (oc_world c) (oc_world (snd (RevalidateArmedEnable c)))"
      using r by (auto simp: RevalidateArmedEnable_def refl split: option.split prod.split) (metis snd_conv)+
    moreover have "R (oc_world c) (oc_world (snd (DoTransition [Standby] Armed
        (Some (\<lambda>detail c. guarded (op_enable_healthy (oc_driverOps c))
           (\<lambda>detail c. call_op (op_enable_all (oc_driverOps c)) ''enable path not available''
              (\<lambda>c. c) (arm_fresh_command_latch \<circ> hold_commands) detail c) detail c)) c)))"
      by (rule DoTransition_R [OF _ HOL.refl], rule guarded_R [where ops = ?ops], use r in fastforce,
          rule call_op_R [where ops = ?ops]) (use r fin in auto)
    ultimately show ?thesis by (simp add: ReqEnable RequestEnable_def)
  next
    case ReqDisable
    show ?thesis unfolding ReqDisable serve.simps RequestDisable_def Let_def
      by (rule DoTransition_R [OF _ HOL.refl], rule hold) (use r in auto)
  next
    case ReqRelease
    show ?thesis unfolding ReqRelease serve.simps RequestRelease_def
      by (rule DoTransition_R [OF _ HOL.refl], rule guarded_R [where ops = ?ops]) (use r assms notify_R(2) in auto)
  next
    case ReqHalt
    show ?thesis unfolding ReqHalt serve.simps RequestHalt_def Let_def
      by (rule DoTransition_R [OF _ HOL.refl], rule hold) (use r in auto)
  next
    case ReqRecover
    have "R (oc_world c1) (oc_world (snd (snd (call_op (op_recover_all (oc_driverOps c1)) m (\<lambda>c. c\<lparr>oc_mode := Faulted\<rparr>)
        (arm_fresh_command_latch \<circ> hold_commands) d (c1\<lparr>oc_mode := Recovering\<rparr>)))))" if "oc_driverOps c1 = ?ops" for c1 m d
      using call_op_R [of "op_recover_all (oc_driverOps c1)" ?ops "arm_fresh_command_latch \<circ> hold_commands"
          "\<lambda>c. c\<lparr>oc_mode := Faulted\<rparr>" "c1\<lparr>oc_mode := Recovering\<rparr>" m d] r fin that by auto
    then show ?thesis unfolding ReqRecover serve.simps RequestRecover_def Let_def
      by (intro DoTransition_R [OF _ HOL.refl]) simp
  next
    case (ReqShutdown force)
    have "R (oc_world c1) (oc_world (snd (snd (call_op (map_option (\<lambda>f. f force) (op_shutdown_all (oc_driverOps c1))) m
        (\<lambda>c. c\<lparr>oc_mode := Configured\<rparr>) (\<lambda>c. c\<lparr>oc_mode := Configured\<rparr>) d (c1\<lparr>oc_mode := ShuttingDown\<rparr>)))))"
      if "oc_driverOps c1 = ?ops" for c1 m d
      using call_op_R [of "map_option (\<lambda>f. f force) (op_shutdown_all (oc_driverOps c1))" ?ops
          "\<lambda>c. c\<lparr>oc_mode := Configured\<rparr>" "\<lambda>c. c\<lparr>oc_mode := Configured\<rparr>" "c1\<lparr>oc_mode := ShuttingDown\<rparr>" m d] r that
      by (simp add: refl) (metis (no_types))
    then show ?thesis unfolding ReqShutdown serve.simps RequestShutdown_def Let_def
      by (intro DoTransition_R [OF _ HOL.refl]) simp
  qed
qed

end

section \<open>The shape of the driver\<close>

abbreviation targets_of :: "'l CanDriverJointConfig list \<Rightarrow> Target list" where
  "targets_of joints \<equiv> map makeMotorTarget joints"

definition gate_bound :: "('l, 'w) driver_runtime \<Rightarrow> bool" where
  "gate_bound s \<longleftrightarrow> latch_ready s \<and> cg_holdCallback (rt_commandGate s) = Some holdCommandsForLifecycleTransition"

text \<open>What an operation of the running driver keeps of the runtime: everything that buffers and indices rest on.\<close>

definition driver_kept :: "('l, 'w) driver_runtime \<Rightarrow> ('l, 'w) driver_runtime \<Rightarrow> bool" where
  "driver_kept s s' \<longleftrightarrow> (gate_bound s \<longrightarrow> gate_bound s' \<and>
     targets_of (fst (rt_owner s')) = targets_of (fst (rt_owner s)) \<and>
     length (snd (rt_owner s')) = length (snd (rt_owner s)) \<and>
     lo_deviceManager (rt_lifecycleDriverOps s') = lo_deviceManager (rt_lifecycleDriverOps s) \<and>
     lo_targets (rt_lifecycleDriverOps s') = lo_targets (rt_lifecycleDriverOps s) \<and>
     set (lo_activeTargets (rt_lifecycleDriverOps s')) \<subseteq> set (lo_activeTargets (rt_lifecycleDriverOps s)))"

lemma driver_kept_refl: "driver_kept s s"
  by (simp add: driver_kept_def)

lemma driver_kept_trans: "driver_kept s s1 \<Longrightarrow> driver_kept s1 s2 \<Longrightarrow> driver_kept s s2"
  by (auto simp: driver_kept_def)

interpretation dk: world_preorder driver_kept
  by unfold_locales (auto intro: driver_kept_refl driver_kept_trans)

lemma makeMotorTarget_config: "config_of a = config_of b \<Longrightarrow> makeMotorTarget a = makeMotorTarget b"
  by (drule config_of_sel) (simp add: makeMotorTarget_def)

lemma targets_of_config:
  assumes "config_list a = config_list b" shows "targets_of a = targets_of b"
proof (rule nth_equalityI)
  show len: "length (targets_of a) = length (targets_of b)" using config_list_length [OF assms] by simp
  show "targets_of a ! i = targets_of b ! i" if "i < length (targets_of a)" for i
    using that len arg_cong [OF assms, of "\<lambda>xs. xs ! i"] by (auto intro: makeMotorTarget_config)
qed

lemma runtime_kept_driver: "runtime_kept s s' \<Longrightarrow> driver_kept s s'"
  using targets_of_config by (auto simp: driver_kept_def runtime_kept_def gate_bound_def latch_ready_def)

lemma driver_kept_hold: "driver_kept s (runtime_hold s)"
proof -
  have "targets_of (map hold_joint joints) = targets_of joints" for joints :: "'a CanDriverJointConfig list"
    by (rule targets_of_config) (rule config_list_map, simp)
  then show ?thesis
    by (auto simp: driver_kept_def gate_bound_def latch_ready_def runtime_hold_def holdCommands_def
        holdCommandsForLifecycleTransition_def simp del: map_map)
qed

lemma driver_kept_arm: "driver_kept s (runtime_arm s)"
  by (auto simp: driver_kept_def gate_bound_def latch_ready_def runtime_arm_def armFreshCommandLatch_def)

lemma driver_kept_shutdown: "driver_kept s (snd (shutdownLifecycleDriver (hw_hooks env hw) force s))"
proof -
  have "targets_of (map clear_command_flags joints) = targets_of joints" for joints :: "'a CanDriverJointConfig list"
    by (rule targets_of_config) (rule config_list_map, simp)
  then show ?thesis
    by (auto simp: driver_kept_def gate_bound_def latch_ready_def shutdownLifecycleDriver_def on_ops_def shutdownAll_def
        clearActiveTargets_def hw_hooks_def Let_def simp del: map_map split: option.splits prod.splits)
qed

lemma driver_ops_harmless: "dk.harmless (lifecycle_driver_ops (he_clock env) (hw_hooks env hw))"
proof -
  have "driver_kept s (snd (initializeLifecycleDevice (hw_hooks env hw) d l s))" for d l s
    by (rule runtime_kept_driver) (rule kept.R_init)
  moreover have "driver_kept s (snd (recoverLifecycleDevices (he_clock env) (hw_hooks env hw) s))" for s
    by (rule runtime_kept_driver) (rule kept.R_recover)
  moreover have "driver_kept s (snd (on_ops (enableAll (he_clock env)) s))" "driver_kept s (snd (on_ops disableAll s))"
    "driver_kept s (snd (on_ops haltAll s))" for s :: "('a, 'b) driver_runtime"
    by (rule runtime_kept_driver, rule kept_ops, rule same_config_ops)+
  moreover have "driver_kept s (snd (snd (on_ops_check (enableHealthy (he_clock env)) detail s)))"
    "driver_kept s (snd (snd (on_ops_check (motionHealthy (he_clock env)) detail s)))" for detail and s :: "('a, 'b) driver_runtime"
    by (rule runtime_kept_driver, rule kept_check, rule same_config_health)+
  moreover have "lh_enable_healthy (hw_hooks env hw) = Some (on_ops_check (enableHealthy (he_clock env)))"
    "lh_motion_healthy (hw_hooks env hw) = Some (on_ops_check (motionHealthy (he_clock env)))"
    by (simp_all add: hw_hooks_def Let_def)
  ultimately show ?thesis
    by (simp add: dk.harmless_def lifecycle_driver_ops_def driver_kept_shutdown driver_kept_hold driver_kept_arm)
qed

section \<open>The control cycle\<close>

definition cycle_bound :: "('l, 'w) io_cycle \<Rightarrow> bool" where
  "cycle_bound s \<longleftrightarrow> cg_snapshotProvider (ic_commandGate s) = Some captureCommandSnapshots \<and>
     cg_holdCallback (ic_commandGate s) = Some holdCommandsForLifecycleTransition"

definition cycle_kept :: "('l, 'w) io_cycle \<Rightarrow> ('l, 'w) io_cycle \<Rightarrow> bool" where
  "cycle_kept s s' \<longleftrightarrow> (cycle_bound s \<longrightarrow> cycle_bound s' \<and> targets_of (ic_joints s') = targets_of (ic_joints s) \<and>
     length (ic_commandValidBuffer s') = length (ic_commandValidBuffer s) \<and>
     length (ic_rawCommandBuffer s') = length (ic_rawCommandBuffer s) \<and>
     length (ic_preparedCommandBuffer s') = length (ic_preparedCommandBuffer s))"

lemma cycle_kept_refl: "cycle_kept s s"
  by (simp add: cycle_kept_def)

lemma cycle_kept_trans: "cycle_kept s s1 \<Longrightarrow> cycle_kept s1 s2 \<Longrightarrow> cycle_kept s s2"
  by (auto simp: cycle_kept_def)

lemma cycle_kept_fold: "(\<And>x s. cycle_kept s (f x s)) \<Longrightarrow> cycle_kept s (fold f xs s)"
  by (induction xs arbitrary: s) (auto intro: cycle_kept_refl cycle_kept_trans)

lemma targets_update: "(\<And>jc. makeMotorTarget (f jc) = makeMotorTarget jc) \<Longrightarrow> targets_of (js[i := f (js ! i)]) = targets_of js"
  by (cases "i < length js") (simp_all add: map_update list_update_same_conv list_update_beyond)

lemma target_steps [simp]:
  "makeMotorTarget (clear_joint_command jc) = makeMotorTarget jc" "makeMotorTarget (jc\<lparr>jc_stopIssuedOnFault := b\<rparr>) = makeMotorTarget jc"
  by (rule makeMotorTarget_config, simp)+

lemma cycle_kept_world: "cycle_kept s (snd (on_world f s))"
  by (auto simp: cycle_kept_def cycle_bound_def on_world_def split: prod.split)

lemma cycle_kept_joint:
  assumes "\<And>jc. makeMotorTarget (f jc) = makeMotorTarget jc"
  shows "cycle_kept s (s\<lparr>ic_joints := (ic_joints s)[i := f (ic_joints s ! i)]\<rparr>)"
  using targets_update [of f, OF assms] by (simp add: cycle_kept_def cycle_bound_def)

lemma cycle_kept_clear: "cycle_kept s (clearGroupCommands grp s)"
  unfolding clearGroupCommands_def
  by (rule cycle_kept_fold) (simp add: cycle_kept_def cycle_bound_def targets_update [of clear_joint_command])

lemma cycle_kept_ask: "cycle_kept s (snd (ask_flag query grp mid known s))"
  using cycle_kept_world [of s "query (gr_canDevice grp) (gr_protocol grp) mid"]
  by (auto simp: ask_flag_def cycle_kept_refl split: option.split prod.split outcome.split)

lemma cycle_kept_enabled: "cycle_kept s (dispatch_enabled config io grp status i s)"
proof -
  let ?q = "ask_flag (io_isEnabled io) grp (pc_motorId (ic_preparedCommandBuffer s ! i)) (map_option fst status) s"
  obtain r s1 where q: "?q = (r, s1)" by fastforce
  with cycle_kept_ask have k: "cycle_kept s s1" by (metis snd_conv)
  have "cycle_kept s1 (send_motion io grp c raw s1)" for c raw
    by (simp add: send_motion_def cycle_kept_world)
  with k show ?thesis by (auto simp: dispatch_enabled_def q intro: cycle_kept_trans split: option.split)
qed

lemma cycle_kept_dispatch: "cycle_kept s (dispatch_joint config io grp statuses i s)"
proof -
  let ?q = "ask_flag (io_hasFault io) grp (pc_motorId (ic_preparedCommandBuffer s ! i)) (map_option snd (statuses i)) s"
  obtain r s1 where q: "?q = (r, s1)" by fastforce
  with cycle_kept_ask have k: "cycle_kept s s1" by (metis snd_conv)
  define s2 where "s2 b = s1\<lparr>ic_joints := (ic_joints s1)[i := (ic_joints s1 ! i)\<lparr>jc_stopIssuedOnFault := b\<rparr>]\<rparr>" for b
  have k2: "cycle_kept s (s2 b)" for b
    unfolding s2_def by (rule cycle_kept_trans [OF k cycle_kept_joint]) simp
  have fault: "cycle_kept s (s2 b\<lparr>ic_anyFaultObserved := True\<rparr>)" for b
    using k2 [of b] by (auto simp: cycle_kept_def cycle_bound_def)
  have "cycle_kept s (dispatch_enabled config io grp status i s1)" "cycle_kept s (dispatch_enabled config io grp status i (s2 b))"
    "cycle_kept s (snd (on_world f (s2 b\<lparr>ic_anyFaultObserved := True\<rparr>)))" for status b f
    by (rule cycle_kept_trans [OF k cycle_kept_enabled], rule cycle_kept_trans [OF k2 cycle_kept_enabled],
        rule cycle_kept_trans [OF fault cycle_kept_world])
  with k fault show ?thesis by (auto simp: dispatch_joint_def q Let_def s2_def [symmetric] cycle_kept_refl split: option.split)
qed

lemma observe_gate:
  "cg_snapshotProvider (snd (observeDeviceReady d ready g)) = cg_snapshotProvider g"
  "cg_holdCallback (snd (observeDeviceReady d ready g)) = cg_holdCallback g"
  by (simp_all add: observeDeviceReady_def Let_def split: option.split)

lemma cycle_kept_hold: "cycle_kept s (hold_and_arm s)"
proof -
  have "targets_of (map hold_joint joints) = targets_of joints" for joints :: "'a CanDriverJointConfig list"
    by (rule targets_of_config) (rule config_list_map, simp)
  then show ?thesis
    by (auto simp: cycle_kept_def cycle_bound_def hold_and_arm_def holdCommands_def armFreshCommandLatch_def Let_def
        holdCommandsForLifecycleTransition_def simp del: map_map)
qed

lemma cycle_kept_group: "cycle_kept s (dispatch_group dm io clock config grp s)"
proof -
  obtain ready s1 where r: "on_world (idm_isDeviceReady dm (gr_canDevice grp)) s = (ready, s1)" by fastforce
  with cycle_kept_world have k1: "cycle_kept s s1" by (metis snd_conv)
  obtain ev gate where g: "observeDeviceReady (gr_canDevice grp) ready (ic_commandGate s1) = (ev, gate)" by fastforce
  define s2 where "s2 = s1\<lparr>ic_commandGate := gate\<rparr>"
  have "cycle_kept s1 s2"
    using observe_gate [of "gr_canDevice grp" ready "ic_commandGate s1"] by (simp add: s2_def cycle_kept_def cycle_bound_def g)
  with k1 have k2: "cycle_kept s s2" by (rule cycle_kept_trans)
  have "cycle_kept s2 (fold (dispatch_joint config io grp statuses) is s2)" for statuses "is"
    by (rule cycle_kept_fold) (rule cycle_kept_dispatch)
  with k2 show ?thesis
    by (auto simp: dispatch_group_def r g Let_def s2_def [symmetric] intro: cycle_kept_trans cycle_kept_clear cycle_kept_hold)
qed

lemma find_active_config: "config_list (snd (find_active_direct toSec config now joints)) = config_list joints"
  by (induction joints) simp_all

lemma prepare_joint_config: "config_of (fst (prepare_joint lims toSec config now active joint raw)) = config_of joint"
  by (auto simp: prepare_joint_def choose_command_def Let_def split: option.split prod.split)

lemma prepare_shape:
  assumes "s' = PrepareCommands lims toSec config now s"
  shows "targets_of (ic_joints s') = targets_of (ic_joints s)" and "ic_commandGate s' = ic_commandGate s"
    and "length (ic_commandValidBuffer s') = length (ic_joints s)" and "length (ic_rawCommandBuffer s') = length (ic_joints s)"
    and "length (ic_preparedCommandBuffer s') = length (ic_joints s)"
proof -
  obtain active joints where f: "(if wc_debugBypassRosControl config then (False, ic_joints s)
      else find_active_direct toSec config now (ic_joints s)) = (active, joints)" by fastforce
  then have c: "config_list joints = config_list (ic_joints s)"
    using find_active_config [of toSec config now "ic_joints s"] by (auto split: if_splits)
  note len = config_list_length [OF c]
  have s': "ic_joints s' = map (\<lambda>i. fst (prepare_joint lims toSec config now active (joints ! i) (ic_rawCommandBuffer s ! i)))
      [0..<length joints]"
    unfolding assms PrepareCommands_def f Let_def prod.case by simp
  have "config_list (ic_joints s') = config_list joints"
    unfolding s' by (rule config_list_nth) (rule prepare_joint_config)
  with c show "targets_of (ic_joints s') = targets_of (ic_joints s)" by (metis targets_of_config)
  show "ic_commandGate s' = ic_commandGate s"
    unfolding assms PrepareCommands_def f Let_def prod.case by simp
  show "length (ic_commandValidBuffer s') = length (ic_joints s)" "length (ic_rawCommandBuffer s') = length (ic_joints s)"
    "length (ic_preparedCommandBuffer s') = length (ic_joints s)"
    unfolding assms PrepareCommands_def f Let_def prod.case by (simp_all add: len)
qed

section \<open>The invariant\<close>

text \<open>The motor of a joint as the check for duplicates sees it.\<close>

definition target_node :: "Target \<Rightarrow> string \<times> CanType \<times> u8" where
  "target_node tgt = (tg_canDevice tgt, tg_protocol tgt, toProtocolNodeId (tg_motorId tgt))"

definition hw_inv :: "('l, 'w) hw_env \<Rightarrow> ('l, 'w) CanDriverHW \<Rightarrow> bool" where
  "hw_inv env hw \<longleftrightarrow>
     (let s = runtime_of hw; l = rt_lifecycleDriverOps s; ts = targets_of (joints_of hw); n = length ts
      in gate_bound s \<and> lo_deviceManager l = Some (he_deviceManager env) \<and>
         lo_targets l = ts \<and> lo_activeTargets l = [] \<and> distinct (map tg_name ts) \<and> distinct (map target_node ts) \<and>
         hw_jointIndexByName hw = map_of (zip (map tg_name ts) [0..<n]) \<and> groups_of ts (hw_jointGroups hw) \<and>
         length (snd (rt_owner s)) = n \<and> length (hw_rawCommandBuffer hw) = n \<and> length (hw_preparedCommandBuffer hw) = n)"

lemma inv_kept:
  assumes "hw_inv env hw" and "driver_kept (runtime_of hw) (runtime_of hw')"
    and "hw_jointIndexByName hw' = hw_jointIndexByName hw" and "hw_jointGroups hw' = hw_jointGroups hw"
    and "length (hw_rawCommandBuffer hw') = length (hw_rawCommandBuffer hw)"
    and "length (hw_preparedCommandBuffer hw') = length (hw_preparedCommandBuffer hw)"
  shows "hw_inv env hw'"
  using assms unfolding hw_inv_def driver_kept_def Let_def by simp

lemma inv_runtime: "hw_inv env hw \<Longrightarrow> driver_kept (runtime_of hw) s \<Longrightarrow> hw_inv env (set_runtime s hw)"
  by (erule inv_kept) simp_all

lemma inv_coordinator: "hw_inv env hw \<Longrightarrow> driver_kept (runtime_of hw) (oc_world c) \<Longrightarrow> hw_inv env (hw\<lparr>hw_coordinator := c\<rparr>)"
  by (erule inv_kept) simp_all

lemma inv_others [simp]:
  "hw_inv env (hw\<lparr>hw_jointZeroOffsetRadByMotorId := m\<rparr>) = hw_inv env hw" "hw_inv env (hw\<lparr>hw_params := pm\<rparr>) = hw_inv env hw"
  by (simp_all add: hw_inv_def)

lemma inv_joints:
  assumes "hw_inv env hw" and "targets_of joints = targets_of (joints_of hw)"
    and "length valid = length (snd (rt_owner (runtime_of hw)))"
  shows "hw_inv env (set_joints (joints, valid) hw)"
  unfolding set_joints_def
  by (rule inv_runtime [OF assms(1)]) (simp add: driver_kept_def gate_bound_def latch_ready_def assms(2,3))

lemma inv_update_joint:
  assumes "hw_inv env hw" and "\<And>jc. makeMotorTarget (f jc) = makeMotorTarget jc"
  shows "hw_inv env (update_joint i f hw)"
  unfolding update_joint_def by (rule inv_joints [OF assms(1)]) (simp_all add: targets_update [of f] assms(2))

lemma inv_world: "hw_inv env (set_runtime (set_world w (runtime_of hw)) hw) = hw_inv env hw"
  unfolding hw_inv_def Let_def by (simp add: gate_bound_def latch_ready_def)  (simp add: set_world_def)

lemma inv_request: "hw_inv env hw \<Longrightarrow> hw_inv env (snd (hw_request env req hw))"
proof -
  define c where "c = configureLifecycleCoordinator (he_clock env) (hw_hooks env hw) (hw_coordinator hw)"
  have c: "oc_driverOps c = lifecycle_driver_ops (he_clock env) (hw_hooks env hw)" "oc_world c = runtime_of hw"
    by (simp_all add: c_def configureLifecycleCoordinator_def SetDriverOps_def)
  have "driver_kept (oc_world c) (oc_world (snd (serve req c)))"
    by (rule dk.serve_R) (simp add: c driver_ops_harmless)
  then show "hw_inv env hw \<Longrightarrow> hw_inv env (snd (hw_request env req hw))"
    by (simp add: hw_request_def c_def [symmetric] split_beta inv_coordinator c)
qed

lemma inv_read: "hw_inv env hw \<Longrightarrow> hw_inv env (read_cycle env hw)"
proof -
  assume inv: "hw_inv env hw"
  obtain joints w where r: "SyncJointFeedback (he_deviceManager env) (he_io env) (hw_jointGroups hw) (joints_of hw) (world_of hw) =
      (joints, w)" by fastforce
  have "config_list joints = config_list (joints_of hw)"
    using r by (auto simp: SyncJointFeedback_def intro!: config_list_nth split: prod.splits option.splits)
  then have "targets_of joints = targets_of (joints_of hw)" by (rule targets_of_config)
  then have "driver_kept (runtime_of hw) (set_world w ((runtime_of hw)\<lparr>rt_owner := (joints, snd (rt_owner (runtime_of hw)))\<rparr>))"
    by (simp add: driver_kept_def gate_bound_def latch_ready_def set_world_def)
  with inv show ?thesis by (simp add: read_cycle_def r inv_runtime)
qed

lemma snapshot_checks_same:
  "same_config l (snd (snd (enableHealthySnapshot ck detail l)))" "same_config l (snd (snd (motionHealthySnapshot ck detail l)))"
proof -
  have *: "snd (snd (case p of (None, s1) \<Rightarrow> (True, detail, s1) | (Some d, s1) \<Rightarrow> (False, d, s1))) = snd p"
    for p :: "string option \<times> 'a LifecycleDriverOps" by (simp add: split_beta split: option.split)
  show "same_config l (snd (snd (enableHealthySnapshot ck detail l)))"
    "same_config l (snd (snd (motionHealthySnapshot ck detail l)))"
    unfolding enableHealthySnapshot_def motionHealthySnapshot_def * by (rule sc.R_rounds)+
qed

lemma same_config_driver:
  assumes "same_config (rt_lifecycleDriverOps s) l" shows "driver_kept s (s\<lparr>rt_lifecycleDriverOps := l\<rparr>)"
  using assms by (auto simp: driver_kept_def gate_bound_def latch_ready_def same_config_def)

lemma update_feedback_world [simp]: "oc_world (UpdateFromFeedback unhealthy c) = oc_world c"
  by (simp add: UpdateFromFeedback_def Let_def)

lemma inv_report:
  assumes "hw_inv env hw" shows "hw_inv env (report_health env anyFault hw)"
proof -
  let ?s = "runtime_of hw"
  have "hw_inv env (snd (snd (lifecycleHealthHealthy env hw)))"
    using same_config_driver [OF snapshot_checks_same(1), of ?s "he_clock env" "[]"]
      same_config_driver [OF snapshot_checks_same(2), of ?s "he_clock env" "[]"] assms
    by (simp add: lifecycleHealthHealthy_def Let_def split_beta inv_runtime)
  with assms show ?thesis
    by (auto simp: report_health_def split_beta intro!: inv_coordinator driver_kept_refl)
qed

lemma inv_invalidate: "hw_inv env hw \<Longrightarrow> hw_inv env (invalidate_commands hw)"
  unfolding invalidate_commands_def by (rule inv_joints) simp_all

text \<open>The cycle works on buffers of the right sizes and leaves such buffers.\<close>

lemma inv_cycle:
  assumes "\<And>js. targets_of (he_enforceLimits env js) = targets_of js" and "hw_inv env hw"
  shows "hw_inv env (put_cycle (run_cycle env hw) hw)"
proof -
  define s where "s = cycle_of hw"
  define s1 where "s1 = s\<lparr>ic_joints := he_enforceLimits env (ic_joints s)\<rparr>"
  define s2 where "s2 = PrepareCommands (he_limits env) (he_toSec env) (write_config (hw_params hw))
    (he_rosNow env (ic_world s1)) s1"
  have run: "run_cycle env hw = DispatchPreparedCommands (he_deviceManager env) (he_io env) (ck_now (he_clock env))
      (write_config (hw_params hw)) (hw_jointGroups hw) s2"
    by (simp add: run_cycle_def s2_def s1_def s_def Let_def)
  note shape = prepare_shape [OF s2_def]
  have ts: "targets_of (ic_joints s1) = targets_of (joints_of hw)" by (simp add: s1_def s_def cycle_of_def assms(1))
  then have len: "length (ic_joints s1) = length (joints_of hw)" by (metis length_map)
  have bound: "cycle_bound s2"
    using assms(2) shape(2)
    by (simp add: cycle_bound_def hw_inv_def gate_bound_def latch_ready_def Let_def s1_def s_def cycle_of_def)
  have "cycle_kept s2 (run_cycle env hw)"
    unfolding run DispatchPreparedCommands_def by (rule cycle_kept_fold) (rule cycle_kept_group)
  with bound shape ts len have r: "cycle_bound (run_cycle env hw)" "targets_of (ic_joints (run_cycle env hw)) = targets_of (joints_of hw)"
    "length (ic_commandValidBuffer (run_cycle env hw)) = length (joints_of hw)"
    "length (ic_rawCommandBuffer (run_cycle env hw)) = length (joints_of hw)"
    "length (ic_preparedCommandBuffer (run_cycle env hw)) = length (joints_of hw)"
    by (simp_all add: cycle_kept_def)
  from r(2) have "length (ic_joints (run_cycle env hw)) = length (joints_of hw)" by (metis length_map)
  with r assms(2) show ?thesis
    unfolding hw_inv_def Let_def put_cycle_def
    by (simp add: gate_bound_def latch_ready_def cycle_bound_def del: map_map) (simp add: set_world_def del: map_map)
qed

lemma consume_gate:
  "cg_snapshotProvider (snd (consumeFreshCommandLatchIfSatisfied js g)) = cg_snapshotProvider g"
  "cg_holdCallback (snd (consumeFreshCommandLatchIfSatisfied js g)) = cg_holdCallback g"
  by (simp_all add: consumeFreshCommandLatchIfSatisfied_def Let_def split: option.split)

lemma inv_write:
  assumes "\<And>js. targets_of (he_enforceLimits env js) = targets_of js" and "hw_inv env hw"
  shows "hw_inv env (write_cycle env hw)"
proof -
  obtain ok g where g: "consumeFreshCommandLatchIfSatisfied (rt_owner (runtime_of hw)) (rt_commandGate (runtime_of hw)) = (ok, g)"
    by fastforce
  have "driver_kept (runtime_of hw) ((runtime_of hw)\<lparr>rt_commandGate := g\<rparr>)"
    using consume_gate [of "rt_owner (runtime_of hw)" "rt_commandGate (runtime_of hw)"]
    by (simp add: driver_kept_def gate_bound_def latch_ready_def g)
  with assms(2) have inv: "hw_inv env (set_runtime ((runtime_of hw)\<lparr>rt_commandGate := g\<rparr>) hw)" by (rule inv_runtime)
  show ?thesis
    using assms(2) inv inv_cycle [OF assms(1) inv]
    by (auto simp: write_cycle_def g Let_def intro!: inv_invalidate inv_report)
qed

section \<open>Initialisation and the operations on joints\<close>

text \<open>What a reset needs, and what it gives.\<close>

definition attached :: "('l, 'w) hw_env \<Rightarrow> ('l, 'w) CanDriverHW \<Rightarrow> bool" where
  "attached env hw \<longleftrightarrow> gate_bound (runtime_of hw) \<and>
     lo_deviceManager (rt_lifecycleDriverOps (runtime_of hw)) = Some (he_deviceManager env)"

lemma inv_attached: "hw_inv env hw \<Longrightarrow> attached env hw"
  by (simp add: hw_inv_def attached_def Let_def)

lemma no_groups [simp]: "groups_of [] []"
  by (simp add: groups_of_def)

lemma inv_new: "hw_inv env (new_CanDriverHW env w)"
  unfolding hw_inv_def Let_def
  by (simp add: new_CanDriverHW_def new_coordinator_def configureCommandGate_def Can_Driver_Runtime.new_runtime_def Let_def
      gate_bound_def latch_ready_def Command_Gate.configure_def Lifecycle_Driver_Ops.configure_def clear_trackers_def
      new_LifecycleDriverOps_def)

lemma reset_inv: "attached env hw \<Longrightarrow> hw_inv env (resetInternalState hw) \<and> joints_of (resetInternalState hw) = []"
  unfolding hw_inv_def Let_def
  by (simp add: attached_def resetInternalState_def Let_def reset_runtime_def SetInactive_def ForceMode_def set_joints_def
      gate_bound_def latch_ready_def Command_Gate.reset_def setTargets_def clear_trackers_def)

lemma load_inv:
  assumes "hw_inv env hw" and "loadRuntimeParams env path ps hw = (ok, hw1)"
  shows "hw_inv env hw1 \<and> joints_of hw1 = joints_of hw"
proof -
  have k: "driver_kept s (set_world w s)" "driver_kept s ((set_world w s)\<lparr>rt_lifecycleDriverOps :=
      setFeedbackFreshnessTimeoutNs t (rt_lifecycleDriverOps (set_world w' s))\<rparr>)" for s :: "('a, 'b) driver_runtime" and w w' t
    by (simp_all add: driver_kept_def gate_bound_def latch_ready_def set_world_def setFeedbackFreshnessTimeoutNs_def clear_trackers_def)
  define pm where "pm = read_params path ps"
  define hw0 where "hw0 = hw\<lparr>hw_params := pm, hw_jointZeroOffsetRadByMotorId := Map.empty\<rparr>"
  have inv0: "hw_inv env hw0" "runtime_of hw0 = runtime_of hw" using assms(1) by (simp_all add: hw0_def)
  obtain offs w1 where l: "(if pm_ppLocalZeroOffsetPersistenceEnabled pm then he_loadOffsets env (world_of hw)
      else (Some Map.empty, world_of hw)) = (offs, w1)" by fastforce
  have load: "loadRuntimeParams env path ps hw =
     (case offs of None \<Rightarrow> (False, set_runtime (set_world w1 (runtime_of hw0)) hw0)
      | Some offsets \<Rightarrow>
          let s1 = set_world (fold (he_setting env) (manager_settings pm) w1) (runtime_of hw0);
              s2 = s1\<lparr>rt_lifecycleDriverOps := setFeedbackFreshnessTimeoutNs (freshness_timeout_ns pm) (rt_lifecycleDriverOps s1)\<rparr>
          in (True, (set_runtime s2 hw0)\<lparr>hw_jointZeroOffsetRadByMotorId := offsets\<rparr>))"
    unfolding loadRuntimeParams_def Let_def pm_def [symmetric] hw0_def [symmetric] inv0(2) l prod.case
    by (cases offs) simp_all
  show ?thesis
    using assms(2) k [of "runtime_of hw"] inv0 unfolding load
    by (auto simp: Let_def inv_runtime split: option.splits)
qed

lemma setup_inv:
  assumes "hw_inv env hw" and "joints_of hw = []" and "parseAndSetupJoints env parsed hw = (ok, hw1)"
  shows "if ok then hw_inv env hw1 else attached env hw1"
proof -
  obtain joints offsets where s: "setup_joints (he_noLimits env) parsed {} {} ([], hw_jointZeroOffsetRadByMotorId hw) = (ok, joints, offsets)"
    using assms(2,3) by (cases "setup_joints (he_noLimits env) parsed {} {} (joints_of hw, hw_jointZeroOffsetRadByMotorId hw)")
      (auto simp: parseAndSetupJoints_def Let_def split: if_splits)
  show ?thesis
  proof (cases ok)
    case True
    from True s have s': "setup_joints (he_noLimits env) parsed {} {} ([], hw_jointZeroOffsetRadByMotorId hw) = (True, joints, offsets)" by simp
    from setup_joints_accepts [OF s'] have ts: "targets_of joints = map parsed_target parsed"
      "distinct (map pj_name parsed)" "distinct (map wire_node parsed)" by simp_all
    have m: "map tg_name (targets_of joints) = map pj_name parsed" "map target_node (targets_of joints) = map wire_node parsed"
      by (simp_all add: ts(1) comp_def parsed_target_def target_node_def)
    have d: "distinct (map tg_name (targets_of joints))" "distinct (map target_node (targets_of joints))"
      unfolding m by (fact ts)+
    have names: "map jc_name joints = map tg_name (targets_of joints)" by (simp add: makeMotorTarget_def)
    from True assms s d names rebuild_groups [of joints] show ?thesis
      unfolding hw_inv_def Let_def
      by (auto simp: parseAndSetupJoints_def Let_def gate_bound_def latch_ready_def setTargets_def clear_trackers_def set_joints_def
          simp del: map_map)
  next
    case False
    with assms s show ?thesis
      by (auto simp: parseAndSetupJoints_def Let_def attached_def hw_inv_def gate_bound_def latch_ready_def set_joints_def)
  qed
qed

lemma inv_init:
  assumes "hw_inv env hw" shows "hw_inv env (snd (hw_init env path ps jp what limits hw))"
proof -
  note r0 = reset_inv [OF inv_attached [OF assms]]
  obtain loaded hw1 where l: "loadRuntimeParams env path ps (resetInternalState hw) = (loaded, hw1)" by fastforce
  from load_inv [OF _ l] r0 have inv1: "hw_inv env hw1" "joints_of hw1 = []" by simp_all
  have reset1: "hw_inv env (resetInternalState hw1)" using reset_inv [OF inv_attached [OF inv1(1)]] by simp
  have accepted: "hw_inv env (snd (case parseAndSetupJoints env parsed hw1 of (ok, hw2) \<Rightarrow>
      if \<not> ok then (Parsed False, resetInternalState hw2)
      else let hw3 = set_joints (map (\<lambda>jc. case limits jc of None \<Rightarrow> jc | Some l \<Rightarrow> jc\<lparr>jc_limits := l, jc_hasLimits := True\<rparr>)
                                  (joints_of hw2), snd (rt_owner (runtime_of hw2))) hw2
           in (Parsed True, hw3\<lparr>hw_coordinator := SetConfigured (hw_coordinator hw3)\<rparr>)))" for parsed
  proof -
    obtain ok hw2 where p: "parseAndSetupJoints env parsed hw1 = (ok, hw2)" by fastforce
    define js where "js = map (\<lambda>jc. case limits jc of None \<Rightarrow> jc | Some l \<Rightarrow> jc\<lparr>jc_limits := l, jc_hasLimits := True\<rparr>) (joints_of hw2)"
    have "targets_of js = targets_of (joints_of hw2)"
      by (simp add: js_def makeMotorTarget_def comp_def split: option.split)
    then have "ok \<Longrightarrow> hw_inv env (set_joints (js, snd (rt_owner (runtime_of hw2))) hw2)"
      using setup_inv [OF inv1 p] by (intro inv_joints) simp_all
    then show ?thesis
      using setup_inv [OF inv1 p] reset_inv [of env hw2] unfolding p js_def [symmetric] prod.case
      by (auto simp: Let_def SetConfigured_def ForceMode_def intro!: inv_coordinator driver_kept_refl)
  qed
  show ?thesis
    unfolding hw_init_def l prod.case
    using inv1 reset1 accepted by (auto split: option.split parsed.split)
qed

lemma inv_direct: "hw_inv env hw \<Longrightarrow> hw_inv env (acceptDirectCommand i isVelocity v stamp hw)"
  by (auto simp: acceptDirectCommand_def makeMotorTarget_def intro!: inv_update_joint)

lemma inv_clear: "hw_inv env hw \<Longrightarrow> hw_inv env (clearDirectCommand name hw)"
  by (auto simp: clearDirectCommand_def makeMotorTarget_def intro!: inv_update_joint split: option.split)

lemma inv_mode_switch: "hw_inv env hw \<Longrightarrow> hw_inv env (snd (commitModeSwitch motorId mode hw))"
proof -
  have "targets_of (js[i := switch_joint mode (js ! i)]) = targets_of js" for js :: "'a CanDriverJointConfig list" and i
    by (rule targets_update) (simp add: switch_joint_def makeMotorTarget_def)
  then show "hw_inv env hw \<Longrightarrow> hw_inv env (snd (commitModeSwitch motorId mode hw))"
    by (auto simp: commitModeSwitch_def split_beta intro!: inv_joints split: list.split)
qed

lemma inv_zero_offset: "hw_inv env hw \<Longrightarrow> hw_inv env (update_joint i (\<lambda>jc. jc\<lparr>jc_zeroOffsetRad := z\<rparr>) hw)"
  by (erule inv_update_joint) (simp add: makeMotorTarget_def)

lemma inv_commitZero:
  assumes "hw_inv env hw" shows "hw_inv env (snd (commitZero env motorId z previous applyToMotor hw))"
proof -
  define stored where "stored = (if applyToMotor then Fin 0 else z)"
  have "hw_inv env (snd (case he_saveOffsets env offsets w of (saved, w1) \<Rightarrow>
      let hw2 = set_runtime (set_world w1 (runtime_of hw1)) hw1
      in if saved then (True, hw2)
         else (False, (update_joint i (\<lambda>jc. jc\<lparr>jc_zeroOffsetRad := old\<rparr>) hw2)\<lparr>hw_jointZeroOffsetRadByMotorId := offsets1\<rparr>)))"
    if "hw_inv env hw1" for offsets offsets1 w i old hw1
    using that by (auto simp: Let_def inv_world inv_zero_offset split: prod.split)
  with assms show ?thesis
    unfolding commitZero_def Let_def stored_def [symmetric]
    by (auto simp: inv_zero_offset Let_def split: list.split)
qed

lemma inv_commitLimits: "hw_inv env hw \<Longrightarrow> hw_inv env (snd (commitLimits env motorId lo hi z applyToMotor hw))"
  by (auto simp: commitLimits_def Let_def makeMotorTarget_def intro!: inv_update_joint split: list.split)

lemma inv_views: "hw_inv env hw \<Longrightarrow> hw_inv env (snd (snapshotJointRuntimeStates env hw))"
  by (simp add: snapshotJointRuntimeStates_def inv_world split: prod.split)

lemma inv_publish: "hw_inv env hw \<Longrightarrow> hw_inv env (snd (publishMotorStates env hw))"
  by (simp add: publishMotorStates_def inv_report split: prod.split)

section \<open>The machine\<close>

text \<open>
  The states that the node can bring the interface to: by its initialisation, lifecycle requests, control
  cycles, publishing, the operations that services and topics call, what the controllers write into the
  command fields of the handles, and whatever the rest of the program does to the world in between.
\<close>

definition controller_writes :: "(nat \<Rightarrow> dbl \<times> dbl) \<Rightarrow> ('l, 'w) CanDriverHW \<Rightarrow> ('l, 'w) CanDriverHW" where
  "controller_writes c hw = set_joints
     (map (\<lambda>i. (joints_of hw ! i)\<lparr>jc_posCmd := fst (c i), jc_velCmd := snd (c i)\<rparr>) [0..<length (joints_of hw)],
      snd (rt_owner (runtime_of hw))) hw"

inductive hw_reachable :: "('l, 'w) hw_env \<Rightarrow> ('l, 'w) CanDriverHW \<Rightarrow> bool" for env :: "('l, 'w) hw_env" where
  created: "hw_reachable env (new_CanDriverHW env w)"
| initialised: "hw_reachable env hw \<Longrightarrow> hw_reachable env (snd (hw_init env path ps joints what limits hw))"
| requested: "hw_reachable env hw \<Longrightarrow> hw_reachable env (snd (hw_request env req hw))"
| has_read: "hw_reachable env hw \<Longrightarrow> hw_reachable env (read_cycle env hw)"
| written: "hw_reachable env hw \<Longrightarrow> hw_reachable env (write_cycle env hw)"
| published: "hw_reachable env hw \<Longrightarrow> hw_reachable env (snd (publishMotorStates env hw))"
| viewed: "hw_reachable env hw \<Longrightarrow> hw_reachable env (snd (snapshotJointRuntimeStates env hw))"
| commanded: "hw_reachable env hw \<Longrightarrow> hw_reachable env (acceptDirectCommand i isVelocity v stamp hw)"
| cleared: "hw_reachable env hw \<Longrightarrow> hw_reachable env (clearDirectCommand name hw)"
| switched: "hw_reachable env hw \<Longrightarrow> hw_reachable env (snd (commitModeSwitch motorId mode hw))"
| zeroed: "hw_reachable env hw \<Longrightarrow> hw_reachable env (snd (commitZero env motorId z previous applyToMotor hw))"
| limited: "hw_reachable env hw \<Longrightarrow> hw_reachable env (snd (commitLimits env motorId lo hi z applyToMotor hw))"
| controlled: "hw_reachable env hw \<Longrightarrow> hw_reachable env (controller_writes c hw)"
| others: "hw_reachable env hw \<Longrightarrow> hw_reachable env (set_runtime (set_world w (runtime_of hw)) hw)"

lemma groups_in_range:
  assumes "groups_of ts groups" and "grp \<in> set groups" and "i \<in> set (gr_jointIndices grp)"
  shows "i < length ts"
proof -
  have "mset (concat (map gr_jointIndices groups)) = mset [0..<length ts]" using assms(1) unfolding groups_of_def by blast
  then have "set (concat (map gr_jointIndices groups)) = set [0..<length ts]" by (rule mset_eq_setD)
  moreover have "i \<in> set (concat (map gr_jointIndices groups))" using assms(2,3) by auto
  ultimately show ?thesis by simp
qed

lemma inv_controller: "hw_inv env hw \<Longrightarrow> hw_inv env (controller_writes c hw)"
proof -
  have "config_list (map (\<lambda>i. (js ! i)\<lparr>jc_posCmd := fst (c i), jc_velCmd := snd (c i)\<rparr>) [0..<length js]) = config_list js"
    for js :: "'a CanDriverJointConfig list" by (rule config_list_nth) simp
  then show "hw_inv env hw \<Longrightarrow> hw_inv env (controller_writes c hw)"
    unfolding controller_writes_def by (intro inv_joints targets_of_config) simp_all
qed

lemma reachable_inv:
  assumes "\<And>js. targets_of (he_enforceLimits env js) = targets_of js"
  shows "hw_reachable env hw \<Longrightarrow> hw_inv env hw"
proof (induction rule: hw_reachable.induct)
  case (written hw)
  then show ?case using inv_write [OF assms] by blast
qed (simp_all add: inv_new inv_init inv_request inv_read inv_publish inv_views inv_direct inv_clear inv_mode_switch
    inv_commitZero inv_commitLimits inv_controller inv_world)

section \<open>Properties\<close>

text \<open>
  C8: in every state the interface can reach, no two joints have one name, or one device, family and low
  byte of the motor id, the groups partition the joints by device and protocol, looking a joint up by name gives its index, all buffers
  have a place for every joint, the lifecycle works on exactly the motors of the joints, and no motor
  is ever on the list of activated ones, so that lifecycle requests always act on all of them.
  \<open>enforceLimits\<close> changes no joint's name, device, family and motor id.
\<close>

theorem hardware_invariant:
  assumes "\<And>js. targets_of (he_enforceLimits env js) = targets_of js" and "hw_reachable env hw"
  shows "hw_inv env hw \<and>
    (\<forall>grp \<in> set (hw_jointGroups hw). \<forall>i \<in> set (gr_jointIndices grp). i < length (joints_of hw) \<and>
       i < length (hw_rawCommandBuffer hw) \<and> i < length (hw_preparedCommandBuffer hw) \<and> i < length (snd (rt_owner (runtime_of hw)))) \<and>
    (\<forall>name i. hw_jointIndexByName hw name = Some i \<longleftrightarrow> i < length (joints_of hw) \<and> jc_name (joints_of hw ! i) = name)"
proof -
  let ?ts = "targets_of (joints_of hw)"
  have inv: "hw_inv env hw" using reachable_inv assms by blast
  note facts = inv [unfolded hw_inv_def Let_def]
  have groups: "i < length (joints_of hw)" if "grp \<in> set (hw_jointGroups hw)" "i \<in> set (gr_jointIndices grp)" for grp i
    using groups_in_range [OF _ that, of ?ts] facts by simp
  have "hw_jointIndexByName hw name = Some i \<longleftrightarrow> i < length (joints_of hw) \<and> jc_name (joints_of hw ! i) = name" for name i
  proof -
    have "hw_jointIndexByName hw name = Some i \<longleftrightarrow> (name, i) \<in> set (zip (map tg_name ?ts) [0..<length ?ts])"
      using facts by (simp only: map_of_eq_Some_iff length_map length_upt minus_nat.diff_0 map_fst_zip)
    also have "\<dots> \<longleftrightarrow> i < length (joints_of hw) \<and> jc_name (joints_of hw ! i) = name"
      by (auto simp: set_zip target_name intro!: exI [of _ i])
    finally show ?thesis .
  qed
  with inv groups facts show ?thesis by simp
qed

definition no_params :: param_server where
  "no_params = \<lparr>ps_double = (\<lambda>_. None), ps_int = (\<lambda>_. None), ps_bool = (\<lambda>_. None), ps_string = (\<lambda>_. None)\<rparr>"

theorem hardware_invariant_witness:
  "let hw = snd (hw_init hw_witness_env [] no_params (Some (XmlArray [witness_entry])) [] (\<lambda>_. None) (new_CanDriverHW hw_witness_env ()))
   in length (joints_of hw) = 1 \<and> hw_jointIndexByName hw ''wheel'' = Some 0"
proof -
  define hw where "hw = snd (hw_init hw_witness_env [] no_params (Some (XmlArray [witness_entry])) [] (\<lambda>_. None)
    (new_CanDriverHW hw_witness_env ()))"
  have "hw_reachable hw_witness_env hw" unfolding hw_def by (intro hw_reachable.intros)
  moreover have "targets_of (he_enforceLimits hw_witness_env js) = targets_of js" for js by (simp add: hw_witness_env_def)
  moreover have "length (joints_of hw) = 1 \<and> jc_name (joints_of hw ! 0) = ''wheel''"
  proof -
    note r0 = reset_inv [OF inv_attached [OF inv_new [of hw_witness_env "()"]]]
    obtain loaded hw1 where l: "loadRuntimeParams hw_witness_env [] no_params (resetInternalState (new_CanDriverHW hw_witness_env ())) =
        (loaded, hw1)" by fastforce
    have "\<not> pm_ppLocalZeroOffsetPersistenceEnabled (read_params [] no_params)"
      by (simp add: read_params_def or_fallback_def no_params_def)
    then have "loaded" using l by (simp add: loadRuntimeParams_def Let_def)
    moreover have "joints_of hw1 = []" using load_inv [OF _ l] r0 by simp
    ultimately show ?thesis
      unfolding hw_def
      by (simp add: hw_init_def l parse_witness parseAndSetupJoints_def Let_def set_joints_def SetConfigured_def ForceMode_def
          joint_of_parsed_def)
  qed
  ultimately show ?thesis
    using hardware_invariant [of hw_witness_env hw] unfolding hw_def [symmetric] Let_def by simp
qed

lemma unat_and_ff: "unat (m AND 0xFF :: u16) = unat m mod 256"
proof -
  have "m AND 0xFF = take_bit 8 m" by (simp add: take_bit_eq_mask mask_eq_exp_minus_1)
  then show ?thesis by (simp only: unsigned_take_bit_eq) (simp add: take_bit_eq_mod)
qed

lemma mt_node_numbers:
  fixes n :: u16
  assumes "n < 0x40"
  shows "toMtProtocolNodeId (0x140 + n) = toMtProtocolNodeId n" and "toMtProtocolNodeId (0x140 + n) \<noteq> toMtProtocolNodeId (0x40 + n)"
    and "toProtocolNodeId (0x140 + n) \<noteq> toProtocolNodeId n" and "toProtocolNodeId (0x140 + n) = toProtocolNodeId (0x40 + n)"
proof -
  have n: "unat n < 64" using assms by (simp add: word_less_nat_alt)
  then have u: "unat (0x140 + n) = 320 + unat n" "unat (0x40 + n) = 64 + unat n" by (simp_all add: unat_word_ariths)
  have low: "unat (toProtocolNodeId m) = unat m mod 256" for m
    by (simp add: toProtocolNodeId_def toSystemMotorId_def unat_ucast_mod unat_and_ff)
  have mt: "unat (toMtProtocolNodeId m) = (if unat m < 0x140 then unat m mod 256 else (unat m - 0x140) mod 256)" for m
    using unat_toMtProtocolNodeId [of m]
    by (auto simp: toMtProtocolNodeId_def toSystemMotorId_def unat_ucast_mod unat_and_ff word_le_nat_alt kMtSendBaseId_def)
  show "toMtProtocolNodeId (0x140 + n) = toMtProtocolNodeId n" "toMtProtocolNodeId (0x140 + n) \<noteq> toMtProtocolNodeId (0x40 + n)"
    "toProtocolNodeId (0x140 + n) \<noteq> toProtocolNodeId n" "toProtocolNodeId (0x140 + n) = toProtocolNodeId (0x40 + n)"
    using n by (auto simp: word_unat_eq_iff mt low u mod_if)
qed

text \<open>The converse mistake: different motors are refused.\<close>

lemma mt_distinct_refused:
  assumes "pj_protocol q = pj_protocol p" and "pj_canDevice q = pj_canDevice p"
    and "pj_motorId p = 0x140 + n" and "pj_motorId q = 0x40 + n" and "n < 0x40"
  shows "\<not> fst (setup_joints none [p, q] {} {} ([], offsets)) \<and>
    toMtProtocolNodeId (pj_motorId p) \<noteq> toMtProtocolNodeId (pj_motorId q)"
  using mt_node_numbers [OF assms(5)] assms by (simp add: Let_def)

text \<open>
  C37: one MT motor can be configured twice.  The check for duplicates looks at the low byte of the motor
  id, MT frames at the id less \<open>0x140\<close>: two joints with MT ids \<open>0x140 + n\<close> and \<open>n\<close> on one device are
  accepted although they have the same node number on the bus, so both of them command the same motor,
  and no operation by motor id finds either of them.
\<close>

theorem mt_alias_accepted:
  assumes "pj_protocol p = MT" and "pj_protocol q = MT" and "pj_canDevice q = pj_canDevice p" and "pj_name q \<noteq> pj_name p"
    and "pj_motorId p = 0x140 + n" and "pj_motorId q = n" and "n < 0x40"
  shows "toMtProtocolNodeId (pj_motorId p) = toMtProtocolNodeId (pj_motorId q) \<and>
    (\<exists>joints offsets'. setup_joints none [p, q] {} {} ([], offsets) = (True, joints, offsets') \<and> length joints = 2 \<and>
       (\<forall>hw. joints_of hw = joints \<longrightarrow> lookupJointByMotorId (pj_motorId p) hw = None \<and> lookupJointByMotorId (pj_motorId q) hw = None))"
proof -
  note nodes = mt_node_numbers [OF assms(7)]
  define offsets1 where "offsets1 = note_offset offsets p"
  define a where "a = joint_of_parsed none offsets p"
  define b where "b = joint_of_parsed none offsets1 q"
  have run: "setup_joints none [p, q] {} {} ([], offsets) = (True, [a, b], note_offset offsets1 q)"
    using assms nodes(3) by (auto simp: a_def b_def offsets1_def Let_def)
  have "motorIdMatchesJoint m a \<and> motorIdMatchesJoint m b" if "m = pj_motorId p \<or> m = pj_motorId q" for m
    using that assms nodes(1) by (auto simp: motorIdMatchesJoint_def a_def b_def joint_of_parsed_def)
  then have "matching_joints m [a, b] = [0, 1]" if "m = pj_motorId p \<or> m = pj_motorId q" for m
    using that by (auto simp: matching_joints_def upt_rec)
  then have "lookupJointByMotorId (pj_motorId p) hw = None \<and> lookupJointByMotorId (pj_motorId q) hw = None"
    if "joints_of hw = [a, b]" for hw :: "('a, 'b) CanDriverHW"
    by (simp add: lookupJointByMotorId_def that)
  with run nodes(1) assms(5,6) show ?thesis
    by (intro conjI exI [of _ "[a, b]"] exI [of _ "note_offset offsets1 q"]) simp_all
qed

theorem mt_alias_accepted_witness:
  "fst (setup_joints () [default_ParsedJointConfig\<lparr>pj_name := ''left'', pj_canDevice := ''can0'', pj_motorId := 0x141\<rparr>,
     default_ParsedJointConfig\<lparr>pj_name := ''right'', pj_canDevice := ''can0'', pj_motorId := 1\<rparr>] {} {} ([], Map.empty))"
  using mt_alias_accepted [of "default_ParsedJointConfig\<lparr>pj_name := ''left'', pj_canDevice := ''can0'', pj_motorId := 0x141\<rparr>"
      "default_ParsedJointConfig\<lparr>pj_name := ''right'', pj_canDevice := ''can0'', pj_motorId := 1\<rparr>" 1 "()" Map.empty]
  by (auto simp: default_ParsedJointConfig_def simp del: setup_joints.simps)

end
