(* ===== verification/Lifecycle_Service_Gateway.thy ===== *)
theory Lifecycle_Service_Gateway
  imports Operational_Coordinator
begin

text \<open>
  \<open>lifecycle_service_gateway.cpp\<close>: the services that forward lifecycle requests to the coordinator
  and turn its results into responses.  A service handler takes the coordinator, if there is one.
\<close>

record service_response =
  sr_success :: bool
  sr_message :: string

definition service_answer :: "bool \<Rightarrow> string \<Rightarrow> service_response" where
  "service_answer ok message = \<lparr>sr_success = ok, sr_message = message\<rparr>"

definition kGlobalRecoverMotorId :: u16 where "kGlobalRecoverMotorId = 0xFFFF"

definition isAlreadyMessage :: "string \<Rightarrow> bool" where
  "isAlreadyMessage message \<longleftrightarrow> take 8 message = ''already ''"

text \<open>The canonical messages; a null pointer is \<open>None\<close>.\<close>

definition selectSuccessMessage :: "Result \<Rightarrow> string option \<Rightarrow> string option \<Rightarrow> string" where
  "selectSuccessMessage r canonicalSuccess canonicalAlready =
     (if isAlreadyMessage (res_message r)
      then (case canonicalAlready of None \<Rightarrow> res_message r | Some m \<Rightarrow> m)
      else case canonicalSuccess of None \<Rightarrow> res_message r | Some m \<Rightarrow> if m \<noteq> [] then m else res_message r)"

definition selectFailureMessage :: "Result \<Rightarrow> string \<Rightarrow> string" where
  "selectFailureMessage r fallback = (if res_message r = [] then fallback else res_message r)"

definition ensureGatewayReady :: "'w OperationalCoordinator option \<Rightarrow> service_response option" where
  "ensureGatewayReady coordinator =
     (case coordinator of None \<Rightarrow> Some (service_answer False ''lifecycle gateway not initialized'') | Some _ \<Rightarrow> None)"

text \<open>What the handlers have in common: a request, and the message for each outcome.\<close>

definition forward ::
    "('w OperationalCoordinator \<Rightarrow> Result \<times> 'w OperationalCoordinator) \<Rightarrow> (Result \<Rightarrow> string) \<Rightarrow> string \<Rightarrow>
     'w OperationalCoordinator option \<Rightarrow> service_response \<times> 'w OperationalCoordinator option" where
  "forward request success fallback coordinator =
     (case (ensureGatewayReady coordinator, coordinator) of
        (None, Some c) \<Rightarrow>
          (case request c of (r, c1) \<Rightarrow>
             (service_answer (res_ok r) (if res_ok r then success r else selectFailureMessage r fallback), Some c1))
      | (Some refusal, _) \<Rightarrow> (refusal, coordinator))"

definition onInit :: "string \<Rightarrow> bool \<Rightarrow> 'w OperationalCoordinator option \<Rightarrow> service_response \<times> 'w OperationalCoordinator option" where
  "onInit device loopback =
     forward (RequestInit device loopback)
       (\<lambda>r. selectSuccessMessage r (Some ''initialized (standby)'') (Some ''already initialized'')) ''init failed''"

definition onShutdown :: "bool \<Rightarrow> 'w OperationalCoordinator option \<Rightarrow> service_response \<times> 'w OperationalCoordinator option" where
  "onShutdown force = forward (RequestShutdown force) (\<lambda>_. ''communication stopped; call ~/init first'') ''shutdown failed''"

definition onRecover :: "u16 \<Rightarrow> 'w OperationalCoordinator option \<Rightarrow> service_response \<times> 'w OperationalCoordinator option" where
  "onRecover motorId coordinator =
     (if ensureGatewayReady coordinator = None \<and> motorId \<noteq> kGlobalRecoverMotorId
      then (service_answer False ''per-motor recover has been removed; use motor_id=65535 for global recover'', coordinator)
      else forward RequestRecover (\<lambda>r. selectSuccessMessage r (Some ''recovered (standby)'') None) ''recover failed'' coordinator)"

definition onEnable :: "'w OperationalCoordinator option \<Rightarrow> service_response \<times> 'w OperationalCoordinator option" where
  "onEnable = forward RequestEnable
     (\<lambda>r. selectSuccessMessage r (Some ''enabled (armed)'') (Some ''already enabled'')) ''enable failed''"

definition onDisable :: "'w OperationalCoordinator option \<Rightarrow> service_response \<times> 'w OperationalCoordinator option" where
  "onDisable = forward RequestDisable
     (\<lambda>r. selectSuccessMessage r (Some ''disabled (standby)'') (Some ''already disabled'')) ''disable failed''"

definition onHalt :: "'w OperationalCoordinator option \<Rightarrow> service_response \<times> 'w OperationalCoordinator option" where
  "onHalt = forward RequestHalt (\<lambda>r. selectSuccessMessage r (Some ''halted'') (Some ''already halted'')) ''halt failed''"

definition onResume :: "'w OperationalCoordinator option \<Rightarrow> service_response \<times> 'w OperationalCoordinator option" where
  "onResume = forward RequestRelease
     (\<lambda>r. selectSuccessMessage r (Some ''resumed'') (Some ''already running''))
     ''resume failed; call ~/enable (or ~/recover then ~/enable) first''"

section \<open>Facts\<close>

lemma forward_none [simp]: "forward request success fallback None = (service_answer False ''lifecycle gateway not initialized'', None)"
  by (simp add: forward_def ensureGatewayReady_def)

lemma forward_some [simp]:
  "forward request success fallback (Some c) =
     (case request c of (r, c1) \<Rightarrow> (service_answer (res_ok r) (if res_ok r then success r else selectFailureMessage r fallback), Some c1))"
  by (simp add: forward_def ensureGatewayReady_def)

text \<open>The services by name, as data.\<close>

datatype lifecycle_service =
  SrvInit string bool | SrvShutdown bool | SrvRecover u16 | SrvEnable | SrvDisable | SrvHalt | SrvResume

fun call_service :: "lifecycle_service \<Rightarrow> 'w OperationalCoordinator option \<Rightarrow> service_response \<times> 'w OperationalCoordinator option" where
  "call_service (SrvInit device loopback) = onInit device loopback"
| "call_service (SrvShutdown force) = onShutdown force"
| "call_service (SrvRecover motorId) = onRecover motorId"
| "call_service SrvEnable = onEnable"
| "call_service SrvDisable = onDisable"
| "call_service SrvHalt = onHalt"
| "call_service SrvResume = onResume"

text \<open>The request behind a service; none for the recovery of a single motor, which is gone.\<close>

fun request_of :: "lifecycle_service \<Rightarrow> OpRequest option" where
  "request_of (SrvInit device loopback) = Some (ReqInit device loopback)"
| "request_of (SrvShutdown force) = Some (ReqShutdown force)"
| "request_of (SrvRecover motorId) = (if motorId = kGlobalRecoverMotorId then Some ReqRecover else None)"
| "request_of SrvEnable = Some ReqEnable"
| "request_of SrvDisable = Some ReqDisable"
| "request_of SrvHalt = Some ReqHalt"
| "request_of SrvResume = Some ReqRelease"

lemma success_not_empty [simp]:
  "m \<noteq> [] \<Longrightarrow> already \<noteq> Some [] \<Longrightarrow> selectSuccessMessage r (Some m) already \<noteq> []"
  by (auto simp: selectSuccessMessage_def isAlreadyMessage_def split: option.splits)

lemma service_forwards:
  assumes "request_of srv = Some req"
  shows "\<exists>success fallback. call_service srv = forward (serve req) success fallback \<and> (\<forall>r. success r \<noteq> []) \<and> fallback \<noteq> []"
proof -
  have serve_eq: "serve (ReqInit d l) = RequestInit d l" "serve (ReqShutdown f) = RequestShutdown f" "serve ReqRecover = RequestRecover"
    "serve ReqEnable = RequestEnable" "serve ReqDisable = RequestDisable" "serve ReqHalt = RequestHalt" "serve ReqRelease = RequestRelease"
    for d l f by (simp_all add: fun_eq_iff)
  have recover: "onRecover kGlobalRecoverMotorId = forward RequestRecover
      (\<lambda>r. selectSuccessMessage r (Some ''recovered (standby)'') None) ''recover failed''"
    by (simp add: onRecover_def fun_eq_iff)
  have ex: "\<exists>s f. forward q success fallback = forward q s f \<and> (\<forall>r. s r \<noteq> []) \<and> f \<noteq> []"
    if "\<And>r. success r \<noteq> []" "fallback \<noteq> []" for q :: "'a OperationalCoordinator \<Rightarrow> Result \<times> 'a OperationalCoordinator"
      and success fallback using that by blast
  show ?thesis
    using assms
    by (cases srv) (auto simp: onInit_def onShutdown_def recover onEnable_def onDisable_def onHalt_def onResume_def serve_eq
        intro!: ex split: if_splits)
qed

section \<open>Properties\<close>

text \<open>
  A lifecycle service answers success exactly when the coordinator accepted the request behind it, every
  answer carries a message, and a service that stands for no request (recovery of a single motor, or
  any without a coordinator) answers failure and changes nothing.
\<close>

lemma services_answer_truthfully:
  assumes "call_service srv coordinator = (resp, coordinator1)"
  shows "sr_message resp \<noteq> [] \<and>
    (case (request_of srv, coordinator) of
       (Some req, Some c) \<Rightarrow> sr_success resp = res_ok (fst (serve req c)) \<and> coordinator1 = Some (snd (serve req c))
     | _ \<Rightarrow> \<not> sr_success resp \<and> coordinator1 = coordinator)"
proof (cases "request_of srv")
  case None
  then show ?thesis
    using assms by (cases srv) (auto simp: onRecover_def service_answer_def ensureGatewayReady_def split: if_splits option.splits)
next
  case (Some req)
  from service_forwards [OF this] obtain success fallback where
    f: "call_service srv coordinator = forward (serve req) success fallback coordinator" "\<And>r. success r \<noteq> []" "fallback \<noteq> []" by metis
  from assms [unfolded f(1)] f(2,3) Some show ?thesis
    by (cases coordinator) (auto simp: service_answer_def selectFailureMessage_def split: prod.splits if_splits)
qed

lemma services_answer_truthfully_witness:
  "\<not> sr_success (fst (call_service (SrvRecover 5) (Some (new_coordinator no_ops (0 :: nat)))))"
  using services_answer_truthfully [of "SrvRecover 5" "Some (new_coordinator no_ops (0 :: nat))"
      "fst (call_service (SrvRecover 5) (Some (new_coordinator no_ops (0 :: nat))))"
      "snd (call_service (SrvRecover 5) (Some (new_coordinator no_ops (0 :: nat))))"]
  by (simp add: kGlobalRecoverMotorId_def)

end
