(* ===== verification/Motor_Maintenance.thy ===== *)
theory Motor_Maintenance
  imports Can_Driver_Hw_Correctness
begin

text \<open>
  \<open>motor_maintenance_service.cpp\<close>: the services on single motors, named by motor id: enabling, disabling,
  stopping and switching the mode; setting the zero of an axis and its position limits.

  The service sees the driver through the callbacks it was configured with, which work on a state
  \<open>'s\<close>; a callback may be empty.  What it reaches directly (protocol objects, the steady clock, the
  robot description) is in \<open>service_env\<close>.  Pointers for results are never null.
\<close>

section \<open>State and environment\<close>

record ('l, 's) MotorMaintenanceService =
  mm_isActive :: "('s \<Rightarrow> bool) option"
  mm_motorActionExecutor :: "'s MotorActionExecutor option"
  mm_lookupJointByMotorId :: "(u16 \<Rightarrow> 's \<Rightarrow> 'l CanDriverJointConfig option) option"
  mm_clearDirectCommand :: "(string \<Rightarrow> 's \<Rightarrow> 's) option"
  mm_commitModeSwitch :: "(u16 \<Rightarrow> AxisControlMode \<Rightarrow> 's \<Rightarrow> bool \<times> 's) option"
  mm_commitZero :: "(u16 \<Rightarrow> dbl \<Rightarrow> dbl \<Rightarrow> bool \<Rightarrow> 's \<Rightarrow> bool \<times> 's) option"
  mm_getZeroOffset :: "(u16 \<Rightarrow> 's \<Rightarrow> dbl option) option"
  mm_commitLimits :: "(u16 \<Rightarrow> dbl \<Rightarrow> dbl \<Rightarrow> dbl \<Rightarrow> bool \<Rightarrow> 's \<Rightarrow> bool \<times> 's) option"
  mm_getFreshAxisFeedback :: "('l CanDriverJointConfig \<Rightarrow> 's \<Rightarrow> AxisFeedbackState option) option"
  mm_requireAxisDisabledForConfiguration :: "('l CanDriverJointConfig \<Rightarrow> string \<Rightarrow> 's \<Rightarrow> string option) option"
  mm_getProtocol :: "(string \<Rightarrow> CanType \<Rightarrow> 's \<Rightarrow> bool) option"
  mm_getDeviceMutex :: "(string \<Rightarrow> 's \<Rightarrow> bool) option"
  mm_persistZeroOffsetOnApplyToMotor :: bool

text \<open>The limits of a joint in the robot description.\<close>

datatype urdf_answer = NoDescription | NoSuchJoint | NoPositionLimits | PositionLimits dbl dbl

record 's service_env =
  se_Enable :: "'s motor_action"
  se_Disable :: "'s motor_action"
  se_Stop :: "'s motor_action"
  se_setMode :: "MotorMode \<Rightarrow> 's motor_action"
  se_setPosition :: "i32 \<Rightarrow> 's motor_action"
  se_setVelocity :: "i32 \<Rightarrow> 's motor_action"
  se_quickSetPosition :: "i32 \<Rightarrow> 's motor_action"
  se_getPosition :: "string \<Rightarrow> CanType \<Rightarrow> motor_id \<Rightarrow> 's \<Rightarrow> int \<times> 's"
  se_setPositionOffset :: "i32 \<Rightarrow> 's motor_action"
  se_readPositionOffset :: "string \<Rightarrow> CanType \<Rightarrow> motor_id \<Rightarrow> 's \<Rightarrow> i32 option \<times> 's"
  se_persistParameters :: "'s motor_action"
  se_configurePositionLimits :: "i32 \<Rightarrow> i32 \<Rightarrow> bool \<Rightarrow> 's motor_action"
  se_isEyouCan :: "string \<Rightarrow> 's \<Rightarrow> bool"
  se_issueModeQuery :: "string \<Rightarrow> motor_id \<Rightarrow> 's \<Rightarrow> 's"
  se_clock :: "'s steady_clock"
  se_urdf :: "string \<Rightarrow> urdf_answer"

definition status_message :: "string \<Rightarrow> string \<Rightarrow> Status \<Rightarrow> string" where
  "status_message rejected otherwise st =
     (case st of
        DeviceNotReady \<Rightarrow> ''CAN device not ready.''
      | ProtocolUnavailable \<Rightarrow> ''Protocol not available.''
      | Rejected \<Rightarrow> rejected
      | _ \<Rightarrow> otherwise)"

definition svc_active :: "('l, 's) MotorMaintenanceService \<Rightarrow> 's \<Rightarrow> bool" where
  "svc_active svc s = (case mm_isActive svc of None \<Rightarrow> False | Some f \<Rightarrow> f s)"

definition svc_lookup :: "('l, 's) MotorMaintenanceService \<Rightarrow> u16 \<Rightarrow> 's \<Rightarrow> 'l CanDriverJointConfig option" where
  "svc_lookup svc motorId s = Option.bind (mm_lookupJointByMotorId svc) (\<lambda>f. f motorId s)"

definition svc_feedback :: "('l, 's) MotorMaintenanceService \<Rightarrow> 'l CanDriverJointConfig \<Rightarrow> 's \<Rightarrow> AxisFeedbackState option" where
  "svc_feedback svc joint s = Option.bind (mm_getFreshAxisFeedback svc) (\<lambda>f. f joint s)"

text \<open>Why the axis may not be configured now, if it may not.\<close>

definition svc_refusal :: "('l, 's) MotorMaintenanceService \<Rightarrow> 'l CanDriverJointConfig \<Rightarrow> string \<Rightarrow> 's \<Rightarrow> string option" where
  "svc_refusal svc joint operation s =
     (case mm_requireAxisDisabledForConfiguration svc of
        None \<Rightarrow> Some (operation @ '' requires the motor to be disabled first.'')
      | Some check \<Rightarrow> map_option (\<lambda>m. if m = [] then operation @ '' requires the motor to be disabled first.'' else m)
                        (check joint operation s))"

section \<open>Switching the mode\<close>

definition decodeModeSelection :: "dbl \<Rightarrow> AxisControlMode option" where
  "decodeModeSelection v =
     (if deq v (Fin 0) then Some AxisPosition
      else if deq v (Fin 1) then Some AxisVelocity
      else if deq v (Fin 2) then Some AxisCsp
      else None)"

definition modeSwitchRequiresDisabledAxis :: "CanType \<Rightarrow> bool" where
  "modeSwitchRequiresDisabledAxis protocol \<longleftrightarrow> protocol = PP \<or> protocol = ECB"

text \<open>
  The polling loop until the deadline; the number of rounds is that of the sleeps that fit before it.
\<close>

fun confirm_loop ::
    "('l, 's) MotorMaintenanceService \<Rightarrow> 's service_env \<Rightarrow> 'l CanDriverJointConfig \<Rightarrow> MotorMode \<Rightarrow> time_ns \<Rightarrow> nat \<Rightarrow> 's \<Rightarrow> bool \<times> 's" where
  "confirm_loop svc env joint expectedMode deadline 0 s = (False, s)"
| "confirm_loop svc env joint expectedMode deadline (Suc n) s =
     (if deadline \<le> ck_now (se_clock env) s then (False, s)
      else let s1 = se_issueModeQuery env (jc_canDevice joint) (jc_motorId joint) s
           in case svc_feedback svc joint s1 of
                Some fb \<Rightarrow> if fb_modeValid fb \<and> fb_mode fb = expectedMode then (True, s1)
                           else confirm_loop svc env joint expectedMode deadline n (ck_sleep_for (se_clock env) (ms 20) s1)
              | None \<Rightarrow> confirm_loop svc env joint expectedMode deadline n (ck_sleep_for (se_clock env) (ms 20) s1))"

definition waitForPpModeConfirmation ::
    "('l, 's) MotorMaintenanceService \<Rightarrow> 's service_env \<Rightarrow> 'l CanDriverJointConfig \<Rightarrow> MotorMode \<Rightarrow> 's \<Rightarrow> string option \<times> 's" where
  "waitForPpModeConfirmation svc env joint expectedMode s =
     (if jc_protocol joint \<noteq> PP \<or> mm_getProtocol svc = None \<or> \<not> se_isEyouCan env (jc_canDevice joint) s then (None, s)
      else if mm_getFreshAxisFeedback svc = None then (Some ''Mode confirmation requires fresh feedback access.'', s)
      else case confirm_loop svc env joint expectedMode (ck_now (se_clock env) s + ms 500) (poll_rounds (ms 500) (ms 20)) s of
        (confirmed, s1) \<Rightarrow>
          (if confirmed then None else Some ''Timed out waiting for mode confirmation from PP feedback.'', s1))"

text \<open>What is commanded right after the switch: an error, nothing, or a raw value.\<close>

definition mode_preload ::
    "('l, 's) MotorMaintenanceService \<Rightarrow> CanType \<Rightarrow> 'l CanDriverJointConfig \<Rightarrow> MotorMode \<Rightarrow> 's \<Rightarrow> string + i32 option" where
  "mode_preload svc protocol joint mode s =
     (if mode = ModeVelocity then Inr (Some 0)
      else case svc_feedback svc joint s of
        Some fb \<Rightarrow> if fb_positionValid fb then Inr (Some (clampToInt32 (dbl_of_int (fb_position fb))))
                   else if protocol = MT then Inr None
                   else Inl ''Current position feedback unavailable or stale for mode preload.''
      | None \<Rightarrow> if protocol = MT then Inr None
                else Inl ''Current position feedback unavailable or stale for mode preload.'')"

definition preload_action :: "'s service_env \<Rightarrow> MotorMode \<Rightarrow> i32 \<Rightarrow> 's motor_action" where
  "preload_action env mode raw =
     (case mode of
        ModePosition \<Rightarrow> se_setPosition env raw
      | ModeVelocity \<Rightarrow> se_setVelocity env 0
      | ModeCSP \<Rightarrow> se_quickSetPosition env raw)"

text \<open>The steps after the motor has accepted the mode.\<close>

definition finish_mode_switch ::
    "('l, 's) MotorMaintenanceService \<Rightarrow> 's service_env \<Rightarrow> 's MotorActionExecutor \<Rightarrow> 'l CanDriverJointConfig \<Rightarrow> u16 \<Rightarrow>
     AxisControlMode \<Rightarrow> (u16 \<Rightarrow> AxisControlMode \<Rightarrow> 's \<Rightarrow> bool \<times> 's) \<Rightarrow> 's \<Rightarrow> Result \<times> 's" where
  "finish_mode_switch svc env ex axis motorId controlMode commit s =
     (let mode = protocolMotorModeFromAxisControlMode controlMode
      in case svc_lookup svc motorId s of
           None \<Rightarrow> (result False ''Motor ID not found.'', s)
         | Some snapshot \<Rightarrow>
             (case mode_preload svc (jc_protocol axis) snapshot mode s of
                Inl message \<Rightarrow> (result False message, s)
              | Inr preload \<Rightarrow>
                  (case (case preload of None \<Rightarrow> (Ok, s)
                         | Some raw \<Rightarrow> execute ex (Some (preload_action env mode raw)) (makeMotorTarget snapshot) s) of
                     (st, s1) \<Rightarrow>
                       if st \<noteq> Ok
                       then (result False (status_message ''Set mode preload command rejected.'' ''Command execution failed.'' st), s1)
                       else case commit motorId controlMode s1 of
                              (ok, s2) \<Rightarrow> (if ok then result True ''OK'' else result False ''Failed to update local joint mode state.'', s2))))"

definition handleSetModeRequest ::
    "('l, 's) MotorMaintenanceService \<Rightarrow> 's service_env \<Rightarrow> 'l CanDriverJointConfig \<Rightarrow> u16 \<Rightarrow> dbl \<Rightarrow> 's \<Rightarrow> Result \<times> 's" where
  "handleSetModeRequest svc env axis motorId modeValue s =
     (case (mm_motorActionExecutor svc, mm_commitModeSwitch svc) of
        (Some ex, Some commit) \<Rightarrow>
          (case decodeModeSelection modeValue of
             None \<Rightarrow> (result False ''CMD_SET_MODE value must be 0 (position), 1 (velocity) or 2 (csp).'', s)
           | Some controlMode \<Rightarrow>
               (let mode = protocolMotorModeFromAxisControlMode controlMode;
                    refusal = (if modeSwitchRequiresDisabledAxis (jc_protocol axis)
                               then svc_refusal svc axis ''Mode switch'' s else None)
                in case refusal of
                     Some message \<Rightarrow> (result False message, s)
                   | None \<Rightarrow>
                       (case execute ex (Some (se_setMode env mode)) (makeMotorTarget axis) s of
                          (st, s1) \<Rightarrow>
                            if st \<noteq> Ok
                            then (result False (status_message ''Set mode command rejected.'' ''Command execution failed.'' st), s1)
                            else case waitForPpModeConfirmation svc env axis mode s1 of
                                   (Some message, s2) \<Rightarrow> (result False message, s2)
                                 | (None, s2) \<Rightarrow> finish_mode_switch svc env ex axis motorId controlMode commit s2)))
      | _ \<Rightarrow> (result False ''Motor maintenance service not configured.'', s))"

definition SetModeByMotorId ::
    "('l, 's) MotorMaintenanceService \<Rightarrow> 's service_env \<Rightarrow> u16 \<Rightarrow> dbl \<Rightarrow> 's \<Rightarrow> Result \<times> 's" where
  "SetModeByMotorId svc env motorId modeValue s =
     (if \<not> svc_active svc s then (result False ''Driver inactive.'', s)
      else case svc_lookup svc motorId s of
        None \<Rightarrow> (result False ''Motor ID not found.'', s)
      | Some axis \<Rightarrow> handleSetModeRequest svc env axis motorId modeValue s)"

section \<open>Motor commands\<close>

definition CMD_ENABLE :: u8 where "CMD_ENABLE = 0"
definition CMD_DISABLE :: u8 where "CMD_DISABLE = 1"
definition CMD_STOP :: u8 where "CMD_STOP = 2"
definition CMD_SET_MODE :: u8 where "CMD_SET_MODE = 3"

text \<open>The table of the plain commands: action, name, and whether direct commands are dropped.\<close>

definition command_entry :: "'s service_env \<Rightarrow> u8 \<Rightarrow> ('s motor_action \<times> string \<times> bool) option" where
  "command_entry env command =
     (if command = CMD_ENABLE then Some (se_Enable env, ''Enable'', False)
      else if command = CMD_DISABLE then Some (se_Disable env, ''Disable'', True)
      else if command = CMD_STOP then Some (se_Stop env, ''Stop'', True)
      else None)"

definition onMotorCommand ::
    "('l, 's) MotorMaintenanceService \<Rightarrow> 's service_env \<Rightarrow> u16 \<Rightarrow> u8 \<Rightarrow> dbl \<Rightarrow> 's \<Rightarrow> Result \<times> 's" where
  "onMotorCommand svc env motorId command v s =
     (if \<not> svc_active svc s then (result False ''Driver inactive.'', s)
      else case svc_lookup svc motorId s of
        None \<Rightarrow> (result False ''Motor ID not found.'', s)
      | Some axis \<Rightarrow>
          if command = CMD_SET_MODE then handleSetModeRequest svc env axis motorId v s
          else case command_entry env command of
            None \<Rightarrow> (result False ''Unknown command.'', s)
          | Some (action, name, clearDirect) \<Rightarrow>
              (case mm_motorActionExecutor svc of
                 None \<Rightarrow> (result False ''Motor maintenance service not configured.'', s)
               | Some ex \<Rightarrow>
                   (case execute ex (Some action) (makeMotorTarget axis) s of
                      (st, s1) \<Rightarrow>
                        if st \<noteq> Ok
                        then (result False (status_message (name @ '' command rejected.'') ''Command execution failed.'' st), s1)
                        else (result True ''OK'',
                              case mm_clearDirectCommand svc of
                                None \<Rightarrow> s1 | Some clear \<Rightarrow> if clearDirect then clear (jc_name axis) s1 else s1))))"

section \<open>Position and zero offset of an axis\<close>

text \<open>The position, and whether it comes from fresh feedback; otherwise the motor is asked five times.\<close>

fun ask_position :: "'s service_env \<Rightarrow> 'l CanDriverJointConfig \<Rightarrow> nat \<Rightarrow> int \<Rightarrow> 's \<Rightarrow> int \<times> 's" where
  "ask_position env axis 0 rawPos s = (rawPos, s)"
| "ask_position env axis (Suc n) rawPos s =
     (case se_getPosition env (jc_canDevice axis) (jc_protocol axis) (jc_motorId axis) s of
        (raw, s1) \<Rightarrow> ask_position env axis n raw (ck_sleep_for (se_clock env) (ms 15) s1))"

definition resolveCurrentReportedPosition ::
    "('l, 's) MotorMaintenanceService \<Rightarrow> 's service_env \<Rightarrow> 'l CanDriverJointConfig \<Rightarrow> 's \<Rightarrow> (string + dbl \<times> bool) \<times> 's" where
  "resolveCurrentReportedPosition svc env axis s =
     (case (mm_getProtocol svc, mm_getDeviceMutex svc) of
        (Some proto, Some mutex) \<Rightarrow>
          if \<not> proto (jc_canDevice axis) (jc_protocol axis) s \<or> \<not> mutex (jc_canDevice axis) s
          then (Inl ''Protocol not available.'', s)
          else let ask = (case ask_position env axis 5 0 s of
                       (raw, s1) \<Rightarrow> (Inr (rawPositionToJointPosition axis (dbl_of_int raw), False), s1))
               in (case svc_feedback svc axis s of
                     Some fb \<Rightarrow> if fb_positionValid fb
                                then (Inr (rawPositionToJointPosition axis (dbl_of_int (fb_position fb)), True), s)
                                else ask
                   | None \<Rightarrow> ask)
      | _ \<Rightarrow> (Inl ''Protocol not available.'', s))"

text \<open>The zero offset: the motor's own when it is to be written and can be read, otherwise the driver's.\<close>

definition resolveCurrentZeroOffset ::
    "('l, 's) MotorMaintenanceService \<Rightarrow> 's service_env \<Rightarrow> 'l CanDriverJointConfig \<Rightarrow> bool \<Rightarrow> 's \<Rightarrow> dbl \<times> 's" where
  "resolveCurrentZeroOffset svc env axis applyToMotor s =
     (let fallback = (\<lambda>s. case Option.bind (mm_getZeroOffset svc) (\<lambda>f. f (jc_motorId axis) s) of
                          None \<Rightarrow> Fin 0 | Some z \<Rightarrow> z);
          readable = (case mm_getProtocol svc of None \<Rightarrow> False
                      | Some proto \<Rightarrow> proto (jc_canDevice axis) (jc_protocol axis) s)
      in if applyToMotor \<and> readable
         then (case se_readPositionOffset env (jc_canDevice axis) (jc_protocol axis) (jc_motorId axis) s of
                 (Some offsetRaw, s1) \<Rightarrow> (dmul (dbl_of_int (sint offsetRaw)) (effectivePositionScale axis), s1)
               | (None, s1) \<Rightarrow> (fallback s1, s1))
         else (fallback s, s))"

section \<open>Setting the zero\<close>

text \<open>Writing the offset register and, if wanted, saving it: \<open>Inl\<close> the error, an exception, or success.\<close>

datatype write_outcome = Written | WriteError string | WriteThrows

definition writePositionOffset ::
    "'s service_env \<Rightarrow> string \<Rightarrow> CanType \<Rightarrow> motor_id \<Rightarrow> i32 \<Rightarrow> bool \<Rightarrow> 's \<Rightarrow> write_outcome \<times> 's" where
  "writePositionOffset env device protocol mid rawOffset persistToMotor s =
     (case se_setPositionOffset env rawOffset device protocol mid s of
        (Throws, s1) \<Rightarrow> (WriteThrows, s1)
      | (Returns ok, s1) \<Rightarrow>
          if \<not> ok then (WriteError ''Protocol rejected zero offset setting.'', s1)
          else if \<not> persistToMotor then (Written, s1)
          else (case se_persistParameters env device protocol mid s1 of
                  (Throws, s2) \<Rightarrow> (WriteThrows, s2)
                | (Returns ok2, s2) \<Rightarrow> (if ok2 then Written else WriteError ''Protocol rejected zero offset persistence.'', s2)))"

text \<open>
  The action that writes the new offset and, when that fails, the previous one again.  The text of the
  error is a variable of the caller, here the second component of the state.
\<close>

definition zero_action :: "'s service_env \<Rightarrow> i32 \<Rightarrow> i32 \<Rightarrow> bool \<Rightarrow> ('s \<times> string) motor_action" where
  "zero_action env rawOffset previousRawOffset persistToMotor = (\<lambda>device protocol mid (s, text).
     case writePositionOffset env device protocol mid rawOffset persistToMotor s of
       (WriteThrows, s1) \<Rightarrow> (Throws, s1, text)
     | (Written, s1) \<Rightarrow> (Returns True, s1, text)
     | (WriteError m, s1) \<Rightarrow>
         (case writePositionOffset env device protocol mid previousRawOffset persistToMotor s1 of
            (WriteThrows, s2) \<Rightarrow> (Throws, s2, m)
          | (WriteError m2, s2) \<Rightarrow> (Returns False, s2, m @ '' Rollback failed: '' @ m2)
          | (Written, s2) \<Rightarrow> (Returns False, s2, m @ '' Rolled back previous zero offset.'')))"

record SetZeroResponse =
  sz_success :: bool
  sz_message :: string
  sz_previous_zero_offset_rad :: dbl
  sz_current_position_rad :: dbl
  sz_applied_zero_offset_rad :: dbl

definition set_zero_response :: "bool \<Rightarrow> string \<Rightarrow> dbl \<Rightarrow> dbl \<Rightarrow> dbl \<Rightarrow> SetZeroResponse" where
  "set_zero_response ok message previous current applied =
     \<lparr>sz_success = ok, sz_message = message, sz_previous_zero_offset_rad = previous,
      sz_current_position_rad = current, sz_applied_zero_offset_rad = applied\<rparr>"

text \<open>Writing the zero to the motor: an error message, or nothing.\<close>

definition write_zero ::
    "('l, 's) MotorMaintenanceService \<Rightarrow> 's service_env \<Rightarrow> 'l CanDriverJointConfig \<Rightarrow> dbl \<Rightarrow> dbl \<Rightarrow> 's \<Rightarrow> string option \<times> 's" where
  "write_zero svc env axis resolvedZeroOffset previousZeroOffset s =
     (case svc_refusal svc axis ''Writing zero offset'' s of
        Some message \<Rightarrow> (Some message, s)
      | None \<Rightarrow>
          (case (scaleAndClampToInt32 resolvedZeroOffset (effectivePositionScale axis) 0,
                 scaleAndClampToInt32 previousZeroOffset (effectivePositionScale axis) 0) of
             ((ok, rawOffset), (okPrevious, previousRawOffset)) \<Rightarrow>
               if \<not> ok then (Some ''Failed to convert zero offset to protocol raw value.'', s)
               else if \<not> okPrevious then (Some ''Failed to convert previous zero offset to protocol raw value.'', s)
               else case mm_motorActionExecutor svc of
                 None \<Rightarrow> (Some ''Motor maintenance service not configured.'', s)
               | Some ex \<Rightarrow>
                   (case execute \<lparr>ex_deviceManager = map_option recorded_dm (ex_deviceManager ex)\<rparr>
                           (Some (zero_action env rawOffset previousRawOffset (mm_persistZeroOffsetOnApplyToMotor svc)))
                           (makeMotorTarget axis) (s, ''Set zero execution failed.'') of
                      (st, s1, text) \<Rightarrow>
                        (if st = Ok then None else Some (status_message text ''Set zero execution failed.'' st), s1))))"

definition SetZeroByMotorId ::
    "('l, 's) MotorMaintenanceService \<Rightarrow> 's service_env \<Rightarrow> u16 \<Rightarrow> dbl \<Rightarrow> bool \<Rightarrow> bool \<Rightarrow> 's \<Rightarrow> SetZeroResponse \<times> 's" where
  "SetZeroByMotorId svc env motorId zeroOffsetRad useCurrentPositionAsZero applyToMotor s =
     (let failed = (\<lambda>message. set_zero_response False message (Fin 0) (Fin 0) (Fin 0))
      in if \<not> svc_active svc s then (failed ''Driver inactive.'', s)
         else case svc_lookup svc motorId s of
           None \<Rightarrow> (failed ''Motor ID not found.'', s)
         | Some axis \<Rightarrow>
             if \<not> controlModeUsesPositionSemantics (joint_mode axis)
             then (failed ''Only position-semantic joints support zero/position limits.'', s)
             else if useCurrentPositionAsZero \<and> \<not> applyToMotor
             then (failed ''Automatic zeroing requires apply_to_motor=true.'', s)
             else case resolveCurrentReportedPosition svc env axis s of
               (Inl message, s1) \<Rightarrow> (failed message, s1)
             | (Inr (current, hasFreshFeedback), s1) \<Rightarrow>
                 if useCurrentPositionAsZero \<and> \<not> hasFreshFeedback
                 then (set_zero_response False ''Current position feedback unavailable or stale; cannot auto-zero.''
                         (Fin 0) current (Fin 0), s1)
                 else case resolveCurrentZeroOffset svc env axis applyToMotor s1 of
                   (previous, s2) \<Rightarrow>
                     (let resolved = (if useCurrentPositionAsZero then dneg (dsub current previous) else zeroOffsetRad)
                      in case (if applyToMotor then write_zero svc env axis resolved previous s2 else (None, s2)) of
                           (Some message, s3) \<Rightarrow> (set_zero_response False message previous current resolved, s3)
                         | (None, s3) \<Rightarrow>
                             (case mm_commitZero svc of
                                None \<Rightarrow> (set_zero_response False ''Failed to update local zero state.'' previous current resolved, s3)
                              | Some commit \<Rightarrow>
                                  (case commit motorId resolved previous applyToMotor s3 of
                                     (ok, s4) \<Rightarrow> (set_zero_response ok (if ok then ''OK'' else ''Failed to update local zero state.'')
                                                   previous current resolved, s4)))))"

section \<open>Position limits\<close>

definition resolveBaseLimits :: "'s service_env \<Rightarrow> 'l CanDriverJointConfig \<Rightarrow> bool \<Rightarrow> dbl \<Rightarrow> dbl \<Rightarrow> string + dbl \<times> dbl" where
  "resolveBaseLimits env axis useUrdfLimits requestedMinRad requestedMaxRad =
     (if \<not> useUrdfLimits then Inr (requestedMinRad, requestedMaxRad)
      else case se_urdf env (jc_name axis) of
        NoDescription \<Rightarrow> Inl ''robot_description not found; cannot read URDF limits.''
      | NoSuchJoint \<Rightarrow> Inl (''Joint not found in URDF: '' @ jc_name axis)
      | NoPositionLimits \<Rightarrow> Inl (''URDF has no position limits for joint: '' @ jc_name axis)
      | PositionLimits lo hi \<Rightarrow> Inr (lo, hi))"

record ApplyLimitsResponse =
  al_success :: bool
  al_message :: string
  al_active_zero_offset_rad :: dbl
  al_applied_min_rad :: dbl
  al_applied_max_rad :: dbl
  al_current_position_rad :: dbl

definition apply_limits_response :: "bool \<Rightarrow> string \<Rightarrow> dbl \<Rightarrow> dbl \<Rightarrow> dbl \<Rightarrow> dbl \<Rightarrow> ApplyLimitsResponse" where
  "apply_limits_response ok message zero lo hi current =
     \<lparr>al_success = ok, al_message = message, al_active_zero_offset_rad = zero, al_applied_min_rad = lo,
      al_applied_max_rad = hi, al_current_position_rad = current\<rparr>"

definition write_limits ::
    "('l, 's) MotorMaintenanceService \<Rightarrow> 's service_env \<Rightarrow> 'l CanDriverJointConfig \<Rightarrow> dbl \<Rightarrow> dbl \<Rightarrow> 's \<Rightarrow> string option \<times> 's" where
  "write_limits svc env axis lo hi s =
     (case svc_refusal svc axis ''Writing hardware limits'' s of
        Some message \<Rightarrow> (Some message, s)
      | None \<Rightarrow>
          (case (scaleAndClampToInt32 lo (effectivePositionScale axis) 0, scaleAndClampToInt32 hi (effectivePositionScale axis) 0) of
             ((okA, rawLimitA), (okB, rawLimitB)) \<Rightarrow>
               if \<not> okA \<or> \<not> okB then (Some ''Failed to convert limits to protocol raw values.'', s)
               else let (rawMin, rawMax) = (if sint rawLimitB < sint rawLimitA then (rawLimitB, rawLimitA) else (rawLimitA, rawLimitB))
                    in case mm_motorActionExecutor svc of
                         None \<Rightarrow> (Some ''Motor maintenance service not configured.'', s)
                       | Some ex \<Rightarrow>
                           (case execute ex (Some (se_configurePositionLimits env rawMin rawMax True)) (makeMotorTarget axis) s of
                              (st, s1) \<Rightarrow>
                                (if st = Ok then None
                                 else Some (status_message ''Protocol rejected position limit setting.'' ''Set limits execution failed.'' st), s1))))"

definition ApplyLimitsByMotorId ::
    "('l, 's) MotorMaintenanceService \<Rightarrow> 's service_env \<Rightarrow> u16 \<Rightarrow> dbl \<Rightarrow> dbl \<Rightarrow> bool \<Rightarrow> bool \<Rightarrow> bool \<Rightarrow> 's \<Rightarrow> ApplyLimitsResponse \<times> 's" where
  "ApplyLimitsByMotorId svc env motorId minPositionRad maxPositionRad useUrdfLimits applyToMotor requireCurrentInsideLimits s =
     (let failed = (\<lambda>message. apply_limits_response False message (Fin 0) (Fin 0) (Fin 0) (Fin 0))
      in if \<not> svc_active svc s then (failed ''Driver inactive.'', s)
         else case svc_lookup svc motorId s of
           None \<Rightarrow> (failed ''Motor ID not found.'', s)
         | Some axis \<Rightarrow>
             if \<not> controlModeUsesPositionSemantics (joint_mode axis)
             then (failed ''Only position-semantic joints support zero/position limits.'', s)
             else case resolveBaseLimits env axis useUrdfLimits minPositionRad maxPositionRad of
               Inl message \<Rightarrow> (failed message, s)
             | Inr (lo, hi) \<Rightarrow>
                 (case resolveCurrentReportedPosition svc env axis s of
                    (Inl message, s1) \<Rightarrow> (failed message, s1)
                  | (Inr (current, _), s1) \<Rightarrow>
                      (case resolveCurrentZeroOffset svc env axis applyToMotor s1 of
                         (zero, s2) \<Rightarrow>
                           if \<not> isfinite lo \<or> \<not> isfinite hi \<or> dle hi lo
                           then (apply_limits_response False ''Invalid limit range.'' zero (Fin 0) (Fin 0) current, s2)
                           else if requireCurrentInsideLimits \<and> (dlt current lo \<or> dlt hi current)
                           then (apply_limits_response False ''Current position is outside requested limit range.'' zero lo hi current, s2)
                           else case (if applyToMotor then write_limits svc env axis lo hi s2 else (None, s2)) of
                             (Some message, s3) \<Rightarrow> (apply_limits_response False message zero lo hi current, s3)
                           | (None, s3) \<Rightarrow>
                               (case mm_commitLimits svc of
                                  None \<Rightarrow> (apply_limits_response False ''Failed to update local limit state.'' zero lo hi current, s3)
                                | Some commit \<Rightarrow>
                                    (case commit motorId lo hi zero applyToMotor s3 of
                                       (ok, s4) \<Rightarrow> (apply_limits_response ok (if ok then ''OK'' else ''Failed to update local limit state.'')
                                                     zero lo hi current, s4))))))"

text \<open>The handlers of the two services.\<close>

definition onSetZero ::
    "('l, 's) MotorMaintenanceService \<Rightarrow> 's service_env \<Rightarrow> u16 \<Rightarrow> dbl \<Rightarrow> bool \<Rightarrow> bool \<Rightarrow> 's \<Rightarrow> SetZeroResponse \<times> 's" where
  "onSetZero svc env motorId zeroOffsetRad useCurrentPositionAsZero applyToMotor s =
     SetZeroByMotorId svc env motorId zeroOffsetRad useCurrentPositionAsZero applyToMotor s"

definition onApplyLimits ::
    "('l, 's) MotorMaintenanceService \<Rightarrow> 's service_env \<Rightarrow> u16 \<Rightarrow> dbl \<Rightarrow> dbl \<Rightarrow> bool \<Rightarrow> bool \<Rightarrow> bool \<Rightarrow> 's \<Rightarrow>
     ApplyLimitsResponse \<times> 's" where
  "onApplyLimits svc env motorId lo hi useUrdfLimits applyToMotor requireCurrentInsideLimits s =
     ApplyLimitsByMotorId svc env motorId lo hi useUrdfLimits applyToMotor requireCurrentInsideLimits s"

text \<open>Both in one service: the zero, then the limits, with the current position required to be inside.\<close>

record SetZeroLimitResponse =
  szl_success :: bool
  szl_message :: string
  szl_applied_zero_offset_rad :: dbl
  szl_applied_min_rad :: dbl
  szl_applied_max_rad :: dbl
  szl_current_position_rad :: dbl

definition onSetZeroLimit ::
    "('l, 's) MotorMaintenanceService \<Rightarrow> 's service_env \<Rightarrow> u16 \<Rightarrow> dbl \<Rightarrow> bool \<Rightarrow> dbl \<Rightarrow> dbl \<Rightarrow> bool \<Rightarrow> bool \<Rightarrow> 's \<Rightarrow>
     SetZeroLimitResponse \<times> 's" where
  "onSetZeroLimit svc env motorId zeroOffsetRad useCurrentPositionAsZero lo hi useUrdfLimits applyToMotor s =
     (case SetZeroByMotorId svc env motorId zeroOffsetRad useCurrentPositionAsZero applyToMotor s of
        (zero, s1) \<Rightarrow>
          if \<not> sz_success zero
          then (\<lparr>szl_success = False, szl_message = sz_message zero, szl_applied_zero_offset_rad = sz_applied_zero_offset_rad zero,
                 szl_applied_min_rad = Fin 0, szl_applied_max_rad = Fin 0, szl_current_position_rad = sz_current_position_rad zero\<rparr>, s1)
          else case ApplyLimitsByMotorId svc env motorId lo hi useUrdfLimits applyToMotor True s1 of
            (limits, s2) \<Rightarrow>
              (\<lparr>szl_success = al_success limits, szl_message = al_message limits,
                szl_applied_zero_offset_rad = al_active_zero_offset_rad limits, szl_applied_min_rad = al_applied_min_rad limits,
                szl_applied_max_rad = al_applied_max_rad limits, szl_current_position_rad = al_current_position_rad limits\<rparr>, s2))"

section \<open>The service of the driver\<close>

text \<open>
  What \<open>CanDriverHW::configureMotorMaintenanceService\<close> gives the service: callbacks on the driver's members,
  the executor and the protocol objects on its world.
\<close>

definition on_driver :: "('w \<Rightarrow> 'r \<times> 'w) \<Rightarrow> ('l, 'w) CanDriverHW \<Rightarrow> 'r \<times> ('l, 'w) CanDriverHW" where
  "on_driver f hw = (case f (world_of hw) of (r, w) \<Rightarrow> (r, set_runtime (set_world w (runtime_of hw)) hw))"

definition in_driver :: "('w \<Rightarrow> 'w) \<Rightarrow> ('l, 'w) CanDriverHW \<Rightarrow> ('l, 'w) CanDriverHW" where
  "in_driver f hw = set_runtime (set_world (f (world_of hw)) (runtime_of hw)) hw"

definition driver_dm :: "'w IDeviceManager \<Rightarrow> ('l, 'w) CanDriverHW IDeviceManager" where
  "driver_dm dm = \<lparr>
     idm_initDevice = (\<lambda>d ms l. on_driver (idm_initDevice dm d ms l)),
     idm_shutdownDevice = (\<lambda>d. in_driver (idm_shutdownDevice dm d)),
     idm_shutdownAll = in_driver (idm_shutdownAll dm),
     idm_getProtocol = (\<lambda>d t hw. idm_getProtocol dm d t (world_of hw)),
     idm_getDeviceMutex = (\<lambda>d hw. idm_getDeviceMutex dm d (world_of hw)),
     idm_isDeviceReady = (\<lambda>d. on_driver (idm_isDeviceReady dm d)),
     idm_getSharedDriverState = (\<lambda>hw. idm_getSharedDriverState dm (world_of hw)),
     pr_Enable = (\<lambda>d t m. on_driver (pr_Enable dm d t m)),
     pr_Disable = (\<lambda>d t m. on_driver (pr_Disable dm d t m)),
     pr_Stop = (\<lambda>d t m. on_driver (pr_Stop dm d t m)),
     pr_ResetFault = (\<lambda>d t m. on_driver (pr_ResetFault dm d t m)),
     pr_hasFault = (\<lambda>d t m. on_driver (pr_hasFault dm d t m)),
     pr_isEnabled = (\<lambda>d t m. on_driver (pr_isEnabled dm d t m))\<rparr>"

definition driver_service_env :: "'w service_env \<Rightarrow> ('l, 'w) CanDriverHW service_env" where
  "driver_service_env base = \<lparr>
     se_Enable = (\<lambda>d t m. on_driver (se_Enable base d t m)),
     se_Disable = (\<lambda>d t m. on_driver (se_Disable base d t m)),
     se_Stop = (\<lambda>d t m. on_driver (se_Stop base d t m)),
     se_setMode = (\<lambda>mode d t m. on_driver (se_setMode base mode d t m)),
     se_setPosition = (\<lambda>v d t m. on_driver (se_setPosition base v d t m)),
     se_setVelocity = (\<lambda>v d t m. on_driver (se_setVelocity base v d t m)),
     se_quickSetPosition = (\<lambda>v d t m. on_driver (se_quickSetPosition base v d t m)),
     se_getPosition = (\<lambda>d t m. on_driver (se_getPosition base d t m)),
     se_setPositionOffset = (\<lambda>v d t m. on_driver (se_setPositionOffset base v d t m)),
     se_readPositionOffset = (\<lambda>d t m. on_driver (se_readPositionOffset base d t m)),
     se_persistParameters = (\<lambda>d t m. on_driver (se_persistParameters base d t m)),
     se_configurePositionLimits = (\<lambda>lo hi e d t m. on_driver (se_configurePositionLimits base lo hi e d t m)),
     se_isEyouCan = (\<lambda>d hw. se_isEyouCan base d (world_of hw)),
     se_issueModeQuery = (\<lambda>d m. in_driver (se_issueModeQuery base d m)),
     se_clock = \<lparr>ck_now = (\<lambda>hw. ck_now (se_clock base) (world_of hw)), ck_sleep_for = (\<lambda>dt. in_driver (ck_sleep_for (se_clock base) dt))\<rparr>,
     se_urdf = se_urdf base\<rparr>"

definition driver_service :: "('l, 'w) hw_env \<Rightarrow> runtime_params \<Rightarrow> ('l, ('l, 'w) CanDriverHW) MotorMaintenanceService" where
  "driver_service env pm = \<lparr>
     mm_isActive = Some (\<lambda>hw. rt_active (runtime_of hw)),
     mm_motorActionExecutor = Some \<lparr>ex_deviceManager = Some (driver_dm (he_deviceManager env))\<rparr>,
     mm_lookupJointByMotorId = Some lookupJointByMotorId,
     mm_clearDirectCommand = Some clearDirectCommand,
     mm_commitModeSwitch = Some commitModeSwitch,
     mm_commitZero = Some (commitZero env),
     mm_getZeroOffset = Some getZeroOffset,
     mm_commitLimits = Some (commitLimits env),
     mm_getFreshAxisFeedback = Some (getFreshAxisFeedback env),
     mm_requireAxisDisabledForConfiguration = Some (requireAxisDisabledForConfiguration env),
     mm_getProtocol = Some (\<lambda>d t hw. idm_getProtocol (he_deviceManager env) d t (world_of hw)),
     mm_getDeviceMutex = Some (\<lambda>d hw. idm_getDeviceMutex (he_deviceManager env) d (world_of hw)),
     mm_persistZeroOffsetOnApplyToMotor = pm_ppZeroOffsetPersistOnApplyToMotor pm\<rparr>"

section \<open>What the services respect\<close>

text \<open>A preorder on states that reading and waiting respect; and one that asking a motor or a device respects too.\<close>

locale service_reads =
  fixes svc :: "('l, 's) MotorMaintenanceService" and env :: "'s service_env" and R :: "'s \<Rightarrow> 's \<Rightarrow> bool"
  assumes R_refl: "R s s"
    and R_trans: "R s s1 \<Longrightarrow> R s1 s2 \<Longrightarrow> R s s2"
    and R_sleep: "R s (ck_sleep_for (se_clock env) dt s)"
    and R_getPosition: "R s (snd (se_getPosition env d t m s))"
    and R_readOffset: "R s (snd (se_readPositionOffset env d t m s))"
begin

lemma R_ask: "R s (snd (ask_position env axis n raw s))"
proof (induction n arbitrary: raw s)
  case (Suc n)
  obtain r s1 where p: "se_getPosition env (jc_canDevice axis) (jc_protocol axis) (jc_motorId axis) s = (r, s1)" by fastforce
  with R_getPosition have "R s s1" by (metis snd_conv)
  then have "R s (ck_sleep_for (se_clock env) (ms 15) s1)" by (rule R_trans [OF _ R_sleep])
  then have "R s (snd (ask_position env axis n r (ck_sleep_for (se_clock env) (ms 15) s1)))" using Suc.IH by (rule R_trans)
  then show ?case by (simp only: ask_position.simps p prod.case)
qed (simp add: R_refl)

lemma R_position: "R s (snd (resolveCurrentReportedPosition svc env axis s))"
  using R_ask [of s axis 5 0]
  by (auto simp: resolveCurrentReportedPosition_def R_refl Let_def split: option.split prod.split)

lemma R_zero: "R s (snd (resolveCurrentZeroOffset svc env axis apply_it s))"
  using R_readOffset [of s "jc_canDevice axis" "jc_protocol axis" "jc_motorId axis"]
  by (auto simp: resolveCurrentZeroOffset_def R_refl Let_def split: option.split prod.split)

end

locale service_steps = service_reads +
  assumes R_query: "R s (se_issueModeQuery env d m s)"
    and R_ready: "mm_motorActionExecutor svc = Some ex \<Longrightarrow> ex_deviceManager ex = Some dm \<Longrightarrow> R s (snd (idm_isDeviceReady dm d s))"
begin

lemma R_confirm: "R s (snd (confirm_loop svc env axis mode deadline n s))"
proof (induction n arbitrary: s)
  case (Suc n)
  let ?s1 = "se_issueModeQuery env (jc_canDevice axis) (jc_motorId axis) s"
  have "R s (snd (confirm_loop svc env axis mode deadline n (ck_sleep_for (se_clock env) (ms 20) ?s1)))"
    by (rule R_trans [OF R_query R_trans [OF R_sleep Suc.IH]])
  then show ?case by (simp add: Let_def R_refl R_query split: option.split)
qed (simp add: R_refl)

lemma R_wait: "R s (snd (waitForPpModeConfirmation svc env axis mode s))"
  using R_confirm [of s axis mode]
  by (auto simp: waitForPpModeConfirmation_def R_refl split: prod.split) (metis snd_conv)

lemma R_execute:
  assumes "mm_motorActionExecutor svc = Some ex" and "\<And>d t m s. R s (snd (action d t m s))"
  shows "R s (snd (execute ex (Some action) tgt s))"
proof (cases "ex_deviceManager ex")
  case (Some dm)
  obtain ready s1 where r: "idm_isDeviceReady dm (tg_canDevice tgt) s = (ready, s1)" by fastforce
  with R_ready [OF assms(1) Some] have "R s s1" by (metis snd_conv)
  moreover have "R s1 (snd (action (tg_canDevice tgt) (tg_protocol tgt) (tg_motorId tgt) s1))" by (rule assms(2))
  ultimately show ?thesis
    by (auto simp: execute_def Some r intro: R_trans split: prod.split outcome.split)
qed (simp add: execute_def R_refl)

end

text \<open>The driver's service: every step changes the world and nothing else of the driver.\<close>

definition same_driver :: "('l, 'w) CanDriverHW \<Rightarrow> ('l, 'w) CanDriverHW \<Rightarrow> bool" where
  "same_driver hw hw' \<longleftrightarrow> (\<exists>w. hw' = set_runtime (set_world w (runtime_of hw)) hw)"

lemma set_runtime_twice: "set_runtime s (set_runtime s' hw) = set_runtime s hw" "runtime_of (set_runtime s hw) = s"
  "set_runtime (runtime_of hw) hw = hw"
  by (cases hw, simp add: set_runtime_def)+

lemma set_world_twice: "set_world w (set_world w' s) = set_world w s" "set_world (lo_world (rt_lifecycleDriverOps s)) s = s"
  by (cases s, simp add: set_world_def)+

lemma same_driver_refl: "same_driver hw hw"
  unfolding same_driver_def by (rule exI [of _ "world_of hw"]) (simp add: set_runtime_twice set_world_twice)

lemma same_driver_trans: "same_driver hw hw1 \<Longrightarrow> same_driver hw1 hw2 \<Longrightarrow> same_driver hw hw2"
  by (auto simp: same_driver_def set_runtime_twice set_world_twice)

lemma same_driver_steps: "same_driver hw (snd (on_driver f hw))" "same_driver hw (in_driver g hw)"
  by (auto simp: on_driver_def in_driver_def same_driver_def split: prod.split)

lemma same_driver_joints:
  assumes "same_driver hw hw'"
  shows "joints_of hw' = joints_of hw" and "rt_owner (runtime_of hw') = rt_owner (runtime_of hw)" and "hw_params hw' = hw_params hw"
    and "hw_jointZeroOffsetRadByMotorId hw' = hw_jointZeroOffsetRadByMotorId hw" and "oc_mode (hw_coordinator hw') = oc_mode (hw_coordinator hw)"
  using assms by (auto simp: same_driver_def set_runtime_def set_world_def)

interpretation driver: service_steps "driver_service env pm" "driver_service_env base" same_driver for env pm base
proof unfold_locales
  show "same_driver hw hw1 \<Longrightarrow> same_driver hw1 hw2 \<Longrightarrow> same_driver hw hw2" for hw hw1 hw2 :: "('a, 'b) CanDriverHW"
    by (rule same_driver_trans)
qed (auto simp: driver_service_env_def driver_service_def driver_dm_def same_driver_refl same_driver_steps)

lemma driver_execute:
  assumes "mm_motorActionExecutor (driver_service env pm) = Some ex" and "\<And>d t m hw. same_driver hw (snd (action d t m hw))"
    and "execute ex (Some action) tgt hw = (st, hw1)"
  shows "same_driver hw hw1"
  using driver.R_execute [OF assms(1), of action hw tgt] assms(2,3) by (metis snd_conv)

lemma driver_actions:
  "same_driver hw (snd (se_setMode (driver_service_env base) mode d t m hw))"
  "same_driver hw (snd (preload_action (driver_service_env base) mode raw d t m hw))"
  "same_driver hw (snd (se_configurePositionLimits (driver_service_env base) lo hi e d t m hw))"
  by (simp_all add: driver_service_env_def same_driver_steps preload_action_def split: MotorMode.split)

section \<open>Limits\<close>

lemma response_sel [simp]:
  "al_success (apply_limits_response ok message zero lo hi current) = ok" "al_message (apply_limits_response ok message zero lo hi current) = message"
  "al_active_zero_offset_rad (apply_limits_response ok message zero lo hi current) = zero"
  "al_applied_min_rad (apply_limits_response ok message zero lo hi current) = lo"
  "al_applied_max_rad (apply_limits_response ok message zero lo hi current) = hi"
  "al_current_position_rad (apply_limits_response ok message zero lo hi current) = current"
  "sz_success (set_zero_response ok message previous current applied) = ok"
  "sz_message (set_zero_response ok message previous current applied) = message"
  by (simp_all add: apply_limits_response_def set_zero_response_def)

lemma apply_limits_success:
  assumes "ApplyLimitsByMotorId svc env motorId a b useUrdf applyToMotor inside s = (resp, s4)" and "al_success resp"
  obtains axis lo hi current fresh s1 zero s2 s3 commit where
    "svc_active svc s" "svc_lookup svc motorId s = Some axis" "resolveBaseLimits env axis useUrdf a b = Inr (lo, hi)"
    "resolveCurrentReportedPosition svc env axis s = (Inr (current, fresh), s1)"
    "resolveCurrentZeroOffset svc env axis applyToMotor s1 = (zero, s2)"
    "isfinite lo" "isfinite hi" "\<not> dle hi lo" "inside \<longrightarrow> \<not> dlt current lo \<and> \<not> dlt hi current"
    "(if applyToMotor then write_limits svc env axis lo hi s2 else (None, s2)) = (None, s3)"
    "mm_commitLimits svc = Some commit" "commit motorId lo hi zero applyToMotor s3 = (True, s4)"
    "resp = apply_limits_response True ''OK'' zero lo hi current"
proof -
  from assms obtain axis where a: "svc_active svc s" "svc_lookup svc motorId s = Some axis"
    by (auto simp: ApplyLimitsByMotorId_def Let_def split: if_splits option.splits)
  with assms obtain lo hi where l: "resolveBaseLimits env axis useUrdf a b = Inr (lo, hi)"
    by (cases "resolveBaseLimits env axis useUrdf a b") (auto simp: ApplyLimitsByMotorId_def Let_def split: if_splits)
  with a assms obtain current fresh s1 where p: "resolveCurrentReportedPosition svc env axis s = (Inr (current, fresh), s1)"
    by (cases "resolveCurrentReportedPosition svc env axis s"; cases "fst (resolveCurrentReportedPosition svc env axis s)")
      (auto simp: ApplyLimitsByMotorId_def Let_def split: if_splits)
  obtain zero s2 where z: "resolveCurrentZeroOffset svc env axis applyToMotor s1 = (zero, s2)" by fastforce
  obtain e s3 where w: "(if applyToMotor then write_limits svc env axis lo hi s2 else (None, s2)) = (e, s3)" by fastforce
  from assms show thesis
    unfolding ApplyLimitsByMotorId_def Let_def
    using a l p z w that [OF a l p z]
    by (auto split: if_splits option.splits prod.splits)
qed

lemma write_limits_driver:
  assumes "write_limits (driver_service env pm) (driver_service_env base) axis lo hi hw = (e, hw1)"
  shows "same_driver hw hw1"
proof -
  have "same_driver hw hw2" if "execute \<lparr>ex_deviceManager = Some (driver_dm (he_deviceManager env))\<rparr>
      (Some (se_configurePositionLimits (driver_service_env base) a b True)) tgt hw = (st, hw2)" for a b tgt st hw2
    by (rule driver_execute [OF _ driver_actions(3) that]) (simp add: driver_service_def)
  with assms show ?thesis
    by (auto simp: write_limits_def driver_service_def same_driver_refl Let_def split: option.splits prod.splits if_splits)
qed

text \<open>Applying limits never writes the motor's zero offset: nothing depends on the call that does.\<close>

lemma ask_ignores_offset: "ask_position (env\<lparr>se_setPositionOffset := f\<rparr>) axis n raw s = ask_position env axis n raw s"
  by (induction n arbitrary: raw s) (simp_all split: prod.split)

lemma apply_ignores_offset:
  "ApplyLimitsByMotorId svc (env\<lparr>se_setPositionOffset := f\<rparr>) motorId a b useUrdf applyToMotor inside s =
   ApplyLimitsByMotorId svc env motorId a b useUrdf applyToMotor inside s"
proof -
  have sel: "se_configurePositionLimits (env\<lparr>se_setPositionOffset := f\<rparr>) = se_configurePositionLimits env"
    "se_readPositionOffset (env\<lparr>se_setPositionOffset := f\<rparr>) = se_readPositionOffset env"
    "se_urdf (env\<lparr>se_setPositionOffset := f\<rparr>) = se_urdf env" by simp_all
  have "resolveCurrentReportedPosition svc (env\<lparr>se_setPositionOffset := f\<rparr>) axis s = resolveCurrentReportedPosition svc env axis s"
    "resolveCurrentZeroOffset svc (env\<lparr>se_setPositionOffset := f\<rparr>) axis applyToMotor s =
       resolveCurrentZeroOffset svc env axis applyToMotor s"
    "resolveBaseLimits (env\<lparr>se_setPositionOffset := f\<rparr>) axis useUrdf a b = resolveBaseLimits env axis useUrdf a b"
    "write_limits svc (env\<lparr>se_setPositionOffset := f\<rparr>) axis lo hi s = write_limits svc env axis lo hi s" for axis lo hi s
    unfolding resolveCurrentReportedPosition_def ask_ignores_offset resolveCurrentZeroOffset_def resolveBaseLimits_def write_limits_def sel
    by (rule refl)+
  then show ?thesis by (simp only: ApplyLimitsByMotorId_def)
qed

lemma lookup_some:
  "lookupJointByMotorId motorId hw = Some axis \<longleftrightarrow> (\<exists>i. matching_joints motorId (joints_of hw) = [i] \<and> axis = joints_of hw ! i)"
  by (auto simp: lookupJointByMotorId_def split: list.split)

text \<open>A motor that accepts everything and stands at zero; a driver whose joint has a zero offset of its own.\<close>

definition witness_base :: "unit service_env" where
  "witness_base = \<lparr>
     se_Enable = (\<lambda>_ _ _ w. (Returns True, w)), se_Disable = (\<lambda>_ _ _ w. (Returns True, w)), se_Stop = (\<lambda>_ _ _ w. (Returns True, w)),
     se_setMode = (\<lambda>_ _ _ _ w. (Returns True, w)), se_setPosition = (\<lambda>_ _ _ _ w. (Returns True, w)),
     se_setVelocity = (\<lambda>_ _ _ _ w. (Returns True, w)), se_quickSetPosition = (\<lambda>_ _ _ _ w. (Returns True, w)),
     se_getPosition = (\<lambda>_ _ _ w. (0, w)), se_setPositionOffset = (\<lambda>_ _ _ _ w. (Returns True, w)),
     se_readPositionOffset = (\<lambda>_ _ _ w. (Some 0, w)), se_persistParameters = (\<lambda>_ _ _ w. (Returns True, w)),
     se_configurePositionLimits = (\<lambda>_ _ _ _ _ _ w. (Returns True, w)), se_isEyouCan = (\<lambda>_ _. False),
     se_issueModeQuery = (\<lambda>_ _ w. w), se_clock = \<lparr>ck_now = (\<lambda>_. 0), ck_sleep_for = (\<lambda>_ w. w)\<rparr>, se_urdf = (\<lambda>_. NoDescription)\<rparr>"

definition offset_driver :: "(unit, unit) CanDriverHW" where
  "offset_driver = set_joints ([witness_position_joint\<lparr>jc_zeroOffsetRad := Fin 5\<rparr>], [False]) witness_driver"

abbreviation offset_joint :: "unit CanDriverJointConfig" where
  "offset_joint \<equiv> witness_position_joint\<lparr>jc_zeroOffsetRad := Fin 5\<rparr>"

text \<open>Its motor is known to be disabled, by fresh feedback.\<close>

definition idle_store :: SharedDriverState where
  "idle_store = mutateAxisFeedback (target_key witness_target)
     (\<lambda>fb. fb\<lparr>fb_feedbackSeen := True, fb_lastRxSteadyNs := 1, fb_enabledValid := True, fb_positionValid := True\<rparr>)
     \<lparr>sds_axisFeedback = Map.empty, sds_axisCommands = Map.empty, sds_axisIntents = Map.empty, sds_deviceHealth = Map.empty\<rparr>"

definition idle_env :: "(unit, unit) hw_env" where
  "idle_env = hw_witness_env\<lparr>he_deviceManager := Can_Driver_Io.witness_dm\<lparr>idm_getSharedDriverState := \<lambda>_. Some idle_store\<rparr>\<rparr>"

abbreviation idle_service :: "(unit, (unit, unit) CanDriverHW) MotorMaintenanceService" where
  "idle_service \<equiv> driver_service idle_env default_params"

abbreviation idle_motor :: "(unit, unit) CanDriverHW service_env" where
  "idle_motor \<equiv> driver_service_env witness_base"

lemma on_driver_const [simp]: "on_driver (\<lambda>w. (x, w)) hw = (x, hw)" "in_driver (\<lambda>w. w) hw = hw"
  by (simp_all add: on_driver_def in_driver_def set_runtime_twice set_world_twice)

lemma in_driver_unit [simp]: "in_driver f hw = hw" for hw :: "('l, unit) CanDriverHW"
  using on_driver_const(2) [of hw] by (simp add: in_driver_def)

lemma scale_one: "\<bar>k\<bar> \<le> 2 ^ 53 \<Longrightarrow> scaleAndClampToInt32 (Fin (of_int k)) (Fin 1) old = (True, clampToInt32 (Fin (of_int k)))"
  by (simp add: scaleAndClampToInt32_def round64_int)

lemma offset_driver_joints: "rt_owner (runtime_of offset_driver) = ([witness_position_joint\<lparr>jc_zeroOffsetRad := Fin 5\<rparr>], [False])"
  "rt_active (runtime_of offset_driver)"
  by (simp_all add: offset_driver_def set_joints_def set_runtime_def witness_driver_def Let_def)

lemma idle_feedback:
  obtains fb where "getFreshAxisFeedback idle_env offset_joint hw = Some fb" "fb_enabledValid fb" "\<not> fb_enabled fb" "fb_positionValid fb"
    "fb_position fb = 0"
proof -
  obtain fb where fb: "getAxisFeedback idle_store (target_key witness_target) = Some fb"
    and fields: "fb_feedbackSeen fb" "fb_lastRxSteadyNs fb = 1" "fb_enabledValid fb" "\<not> fb_enabled fb" "fb_positionValid fb" "fb_position fb = 0"
    by (simp add: idle_store_def sds_defs getAxisFeedback_def Let_def default_feedback_def map_modify_def map_at_def
        recomputeAxisObservedLocked_def kDefaultFeedbackDegradedTimeoutThreshold_def)
  have "target_key witness_target = MakeAxisKey ''can0'' MT LeftWheel" by (simp add: target_key_def witness_target_def)
  with fb have "getAxisFeedback idle_store (MakeAxisKey ''can0'' MT LeftWheel) = Some fb" by simp
  then have "getFreshAxisFeedback idle_env offset_joint hw = Some fb"
    using fields(1,2)
    by (simp add: getFreshAxisFeedback_def axis_feedback_def idle_env_def sharedFeedbackFresh_def witness_position_joint_def
        default_joint_def hw_witness_env_def witness_target_def)
  with fields that show thesis by blast
qed

lemma idle_steps:
  shows "svc_active idle_service offset_driver" and "svc_lookup idle_service LeftWheel offset_driver = Some offset_joint"
    and "svc_refusal idle_service offset_joint op hw = None"
    and "resolveCurrentReportedPosition idle_service idle_motor offset_joint hw = (Inr (Fin 5, True), hw)"
    and "resolveCurrentZeroOffset idle_service idle_motor offset_joint True hw = (Fin 0, hw)"
    and "joint_mode offset_joint = AxisPosition" and "effectivePositionScale offset_joint = Fin 1"
    and "execute \<lparr>ex_deviceManager = Some (driver_dm (he_deviceManager idle_env))\<rparr> (Some (\<lambda>d t m hw. (Returns True, hw))) tgt hw = (Ok, hw)"
proof -
  obtain fb where fb: "getFreshAxisFeedback idle_env offset_joint hw = Some fb" "fb_enabledValid fb" "\<not> fb_enabled fb" "fb_positionValid fb"
    "fb_position fb = 0" by (rule idle_feedback)
  show "svc_active idle_service offset_driver" "svc_lookup idle_service LeftWheel offset_driver = Some offset_joint"
    by (simp_all add: svc_active_def svc_lookup_def driver_service_def offset_driver_joints lookupJointByMotorId_def
        matching_joints_def motorIdMatchesJoint_def witness_position_joint_def default_joint_def)
  show scale: "effectivePositionScale offset_joint = Fin 1"
    using round64_int [of 1] by (simp add: effectivePositionScale_def witness_position_joint_def default_joint_def)
  show "joint_mode offset_joint = AxisPosition"
    by (simp add: joint_mode_def witness_position_joint_def axisControlModeFromString_def)
  show "svc_refusal idle_service offset_joint op hw = None"
    using fb by (simp add: svc_refusal_def driver_service_def requireAxisDisabledForConfiguration_def)
  show "resolveCurrentReportedPosition idle_service idle_motor offset_joint hw = (Inr (Fin 5, True), hw)"
    using fb scale round64_int [of 5] round64_int [of 0]
    by (simp add: resolveCurrentReportedPosition_def driver_service_def svc_feedback_def Let_def rawPositionToJointPosition_def
        idle_env_def Can_Driver_Io.witness_dm_def dbl_of_int_exact)
  show "resolveCurrentZeroOffset idle_service idle_motor offset_joint True hw = (Fin 0, hw)"
    using scale round64_int [of 0]
    by (simp add: resolveCurrentZeroOffset_def driver_service_def driver_service_env_def witness_base_def Let_def
        idle_env_def Can_Driver_Io.witness_dm_def dbl_of_int_exact)
  show "execute \<lparr>ex_deviceManager = Some (driver_dm (he_deviceManager idle_env))\<rparr> (Some (\<lambda>d t m hw. (Returns True, hw))) tgt hw = (Ok, hw)"
    by (simp add: execute_def driver_dm_def idle_env_def Can_Driver_Io.witness_dm_def)
qed

lemma idle_limits: "write_limits idle_service idle_motor offset_joint (Fin (- 1)) (Fin 1) hw = (None, hw)"
proof -
  have "se_configurePositionLimits idle_motor a b e = (\<lambda>d t m hw. (Returns True, hw))" for a b e
    by (simp add: driver_service_env_def witness_base_def fun_eq_iff)
  then show ?thesis
    using scale_one [of "- 1"] scale_one [of 1]
    by (simp add: write_limits_def idle_steps(3,7,8)) (simp add: driver_service_def idle_steps(8) Let_def split_beta)
qed

text \<open>
  C40: when the service answers that position limits were applied, they are the limits asked for, or those of
  the robot description as they stand (not shifted by the zero offset), finite and in order; the
  position was not outside them if that was required; and the joint's limits are set to them.  With
  \<open>apply_to_motor\<close> the driver's zero offset of the joint is set to zero, whatever it was, although nothing
  was written to the motor's own: a zero that was only known to the driver is lost.
\<close>

theorem limits_applied:
  fixes hw :: "('l, 'w) CanDriverHW"
  assumes "ApplyLimitsByMotorId (driver_service env pm) (driver_service_env base) motorId a b useUrdf applyToMotor inside hw = (resp, hw1)"
    and "al_success resp"
  shows "(\<exists>i axis lo hi. matching_joints motorId (joints_of hw) = [i] \<and> axis = joints_of hw ! i \<and>
      (lo, hi) = (if useUrdf then case se_urdf base (jc_name axis) of PositionLimits l u \<Rightarrow> (l, u) else (a, b)) \<and>
      isfinite lo \<and> isfinite hi \<and> dlt lo hi \<and> al_applied_min_rad resp = lo \<and> al_applied_max_rad resp = hi \<and>
      (inside \<longrightarrow> \<not> dlt (al_current_position_rad resp) lo \<and> \<not> dlt hi (al_current_position_rad resp)) \<and>
      joints_of hw1 = (joints_of hw)[i := axis\<lparr>jc_hasLimits := True, jc_limits := he_setPositionLimits env lo hi (jc_limits axis),
        jc_zeroOffsetRad := (if applyToMotor then Fin 0 else al_active_zero_offset_rad resp)\<rparr>]) \<and>
    (\<forall>f. ApplyLimitsByMotorId (driver_service env pm) ((driver_service_env base)\<lparr>se_setPositionOffset := f\<rparr>)
       motorId a b useUrdf applyToMotor inside hw = (resp, hw1))"
proof -
  let ?svc = "driver_service env pm" and ?env = "driver_service_env base :: ('l, 'w) CanDriverHW service_env"
  obtain axis lo hi current fresh s1 zero s2 s3 commit where run:
    "svc_active ?svc hw" "svc_lookup ?svc motorId hw = Some axis" "resolveBaseLimits ?env axis useUrdf a b = Inr (lo, hi)"
    "resolveCurrentReportedPosition ?svc ?env axis hw = (Inr (current, fresh), s1)"
    "resolveCurrentZeroOffset ?svc ?env axis applyToMotor s1 = (zero, s2)"
    "isfinite lo" "isfinite hi" "\<not> dle hi lo" "inside \<longrightarrow> \<not> dlt current lo \<and> \<not> dlt hi current"
    "(if applyToMotor then write_limits ?svc ?env axis lo hi s2 else (None, s2)) = (None, s3)"
    "mm_commitLimits ?svc = Some commit" "commit motorId lo hi zero applyToMotor s3 = (True, hw1)"
    "resp = apply_limits_response True ''OK'' zero lo hi current" by (rule apply_limits_success [OF assms])
  have "same_driver hw s1" "same_driver s1 s2" "same_driver s2 s3"
    using driver.R_position [of hw env pm base axis] driver.R_zero [of s1 env pm base axis applyToMotor] run(4,5,10)
      write_limits_driver same_driver_refl by (auto split: if_splits)
  then have "same_driver hw s3" by (blast intro: same_driver_trans)
  note same = same_driver_joints [OF this]
  from run(2) obtain i where i: "matching_joints motorId (joints_of hw) = [i]" "axis = joints_of hw ! i"
    by (auto simp: svc_lookup_def driver_service_def lookup_some)
  have "joints_of hw1 = (joints_of hw)[i := axis\<lparr>jc_hasLimits := True, jc_limits := he_setPositionLimits env lo hi (jc_limits axis),
        jc_zeroOffsetRad := (if applyToMotor then Fin 0 else zero)\<rparr>]"
    using run(11,12) i same
    by (auto simp: driver_service_def commitLimits_def Let_def update_joint_def set_joints_def set_runtime_twice)
  moreover have "(lo, hi) = (if useUrdf then case se_urdf base (jc_name axis) of PositionLimits l u \<Rightarrow> (l, u) else (a, b))"
    using run(3) by (auto simp: resolveBaseLimits_def driver_service_env_def split: if_splits urdf_answer.splits)
  moreover have "dlt lo hi"
    using run(6-8) by (cases lo; cases hi) (auto simp: dle_def)
  ultimately show ?thesis
    using i run(6,7,9,13) assms(1) by (auto simp: apply_ignores_offset)
qed

theorem limits_applied_witness:
  "let hw1 = snd (ApplyLimitsByMotorId idle_service idle_motor LeftWheel (Fin (- 1)) (Fin 1) False True False offset_driver)
   in jc_zeroOffsetRad (joints_of offset_driver ! 0) = Fin 5 \<and> jc_zeroOffsetRad (joints_of hw1 ! 0) = Fin 0"
proof -
  let ?run = "ApplyLimitsByMotorId idle_service idle_motor LeftWheel (Fin (- 1)) (Fin 1) False True False offset_driver"
  have commit: "fst (commitLimits idle_env LeftWheel (Fin (- 1)) (Fin 1) z True offset_driver)" for z
    by (simp add: commitLimits_def offset_driver_joints matching_joints_def motorIdMatchesJoint_def witness_position_joint_def
        default_joint_def Let_def)
  have ok: "al_success (fst ?run)"
    using commit [of "Fin 0"]
    by (simp add: ApplyLimitsByMotorId_def idle_steps controlModeUsesPositionSemantics_def controlModeUsesVelocitySemantics_def
        resolveBaseLimits_def dle_def idle_limits split_beta) (auto simp: driver_service_def split: prod.splits)
  have "matching_joints LeftWheel (joints_of offset_driver) = [0]"
    by (simp add: offset_driver_joints matching_joints_def motorIdMatchesJoint_def witness_position_joint_def default_joint_def)
  then have "jc_zeroOffsetRad (joints_of (snd ?run) ! 0) = Fin 0"
    using limits_applied [OF prod.collapse [symmetric] ok] by (auto simp: offset_driver_joints)
  then show ?thesis by (simp add: offset_driver_joints)
qed

section \<open>Switching the mode of a joint\<close>

lemma finish_mode_switch_success:
  assumes "finish_mode_switch svc env ex axis motorId controlMode commit s = (r, s2)" and "res_ok r"
  obtains s1 where "commit motorId controlMode s1 = (True, s2)"
    "s1 = s \<or> (\<exists>raw tgt. s1 = snd (execute ex (Some (preload_action env (protocolMotorModeFromAxisControlMode controlMode) raw)) tgt s))"
proof -
  let ?mode = "protocolMotorModeFromAxisControlMode controlMode"
  from assms obtain snapshot where a: "svc_lookup svc motorId s = Some snapshot"
    by (auto simp: finish_mode_switch_def Let_def split: option.splits)
  with assms obtain preload where p: "mode_preload svc (jc_protocol axis) snapshot ?mode s = Inr preload"
    by (auto simp: finish_mode_switch_def Let_def split: sum.splits)
  obtain st s1 where e: "(case preload of None \<Rightarrow> (Ok, s)
      | Some raw \<Rightarrow> execute ex (Some (preload_action env ?mode raw)) (makeMotorTarget snapshot) s) = (st, s1)" by fastforce
  obtain ok s3 where c: "commit motorId controlMode s1 = (ok, s3)" by fastforce
  from assms have "commit motorId controlMode s1 = (True, s2)"
    by (auto simp: finish_mode_switch_def Let_def a p e c split: if_splits)
  moreover have "s1 = s \<or> (\<exists>raw tgt. s1 = snd (execute ex (Some (preload_action env ?mode raw)) tgt s))"
    using e by (cases preload) (auto, metis snd_conv)
  ultimately show thesis by (rule that)
qed

lemma set_mode_success:
  assumes "handleSetModeRequest svc env axis motorId v s = (r, s4)" and "res_ok r"
  obtains ex commit mode s1 s2 where
    "mm_motorActionExecutor svc = Some ex" "mm_commitModeSwitch svc = Some commit" "decodeModeSelection v = Some mode"
    "modeSwitchRequiresDisabledAxis (jc_protocol axis) \<longrightarrow> svc_refusal svc axis ''Mode switch'' s = None"
    "execute ex (Some (se_setMode env (protocolMotorModeFromAxisControlMode mode))) (makeMotorTarget axis) s = (Ok, s1)"
    "waitForPpModeConfirmation svc env axis (protocolMotorModeFromAxisControlMode mode) s1 = (None, s2)"
    "finish_mode_switch svc env ex axis motorId mode commit s2 = (r, s4)"
proof -
  from assms obtain ex commit where ec: "mm_motorActionExecutor svc = Some ex" "mm_commitModeSwitch svc = Some commit"
    by (auto simp: handleSetModeRequest_def split: option.splits)
  with assms obtain mode where m: "decodeModeSelection v = Some mode"
    by (auto simp: handleSetModeRequest_def split: option.splits)
  obtain st s1 where e: "execute ex (Some (se_setMode env (protocolMotorModeFromAxisControlMode mode))) (makeMotorTarget axis) s = (st, s1)"
    by fastforce
  obtain w s2 where w: "waitForPpModeConfirmation svc env axis (protocolMotorModeFromAxisControlMode mode) s1 = (w, s2)" by fastforce
  show thesis
    using assms that [OF ec m]
    by (auto simp: handleSetModeRequest_def ec m e w Let_def split: option.splits if_splits)
qed



section \<open>The zero offset of the motor\<close>

text \<open>A raw count, scaled to joint units and back.\<close>

lemma count_roundtrip:
  assumes "effectivePositionScale axis = Fin c" and "2 powi (- 500) \<le> \<bar>c\<bar>" and "\<bar>c\<bar> \<le> 2 ^ 500"
  shows "scaleAndClampToInt32 (dmul (dbl_of_int (sint (n :: i32))) (effectivePositionScale axis)) (effectivePositionScale axis) old = (True, n)"
proof -
  define k where "k = sint n"
  have c0: "c \<noteq> 0" "0 < \<bar>c\<bar>" using assms(2) power_int_not_zero [of "2::rat" "- 500"] by (auto simp: not_le)
  have range: "- 2147483648 \<le> k" "k \<le> 2147483647" using sint_greater_eq [of n] sint_less [of n] by (simp_all add: k_def)
  then have nq: "\<bar>of_int k :: rat\<bar> \<le> 2147483648" by (simp add: abs_le_iff)
  then have "\<bar>of_int k * c\<bar> \<le> 2 ^ 34 * \<bar>c\<bar>" using c0 by (simp add: abs_mult)
  from round64_counts [OF assms(2,3) this] obtain a where
    a: "round64 (of_int k * c) = Fin a" "\<bar>a - of_int k * c\<bar> \<le> \<bar>c\<bar> / 2 ^ 19" by blast
  then have "\<bar>(a / c - of_int k) * c\<bar> \<le> 1 / 2 ^ 19 * \<bar>c\<bar>" using c0 by (simp add: left_diff_distrib)
  then have q: "\<bar>a / c - of_int k\<bar> \<le> 1 / 524288" using c0 by (simp add: abs_mult)
  then have "\<bar>a / c\<bar> \<le> 17179869184" using nq by linarith
  then have "\<bar>a / c\<bar> \<le> 2 ^ 34 * \<bar>1\<bar>" by simp
  from round64_counts [OF _ _ this] obtain v where
    v: "round64 (a / c) = Fin v" "\<bar>v - a / c\<bar> \<le> 1 / 524288" by (auto simp: power_int_le_one)
  have "round_away v = k" using q v(2) by (intro round_away_unique) linarith
  then have "clampToInt32 (Fin v) = n"
    using range sint_clampToInt32_Fin [of v] by (intro signed_word_eqI [where ?'a = int]) (simp add: k_def)
  moreover have "\<bar>k\<bar> \<le> 2 ^ 53" using range by simp
  ultimately show ?thesis
    using a v c0 assms(1) unfolding k_def [symmetric] by (simp add: scaleAndClampToInt32_def dbl_of_int_exact)
qed

text \<open>
  A motor with an offset register \<open>reg\<close>: writing sets it, saving and everything else leave it alone.
\<close>

definition offset_register :: "('s \<Rightarrow> i32) \<Rightarrow> ('l, 's) MotorMaintenanceService \<Rightarrow> 's service_env \<Rightarrow> bool" where
  "offset_register reg svc env \<longleftrightarrow>
     (\<forall>dt s. reg (ck_sleep_for (se_clock env) dt s) = reg s) \<and>
     (\<forall>d t m s. reg (snd (se_getPosition env d t m s)) = reg s) \<and>
     (\<forall>d t m s. fst (se_readPositionOffset env d t m s) = Some (reg s) \<and> reg (snd (se_readPositionOffset env d t m s)) = reg s) \<and>
     (\<forall>n d t m s. fst (se_setPositionOffset env n d t m s) = Returns True \<and> reg (snd (se_setPositionOffset env n d t m s)) = n) \<and>
     (\<forall>d t m s. fst (se_persistParameters env d t m s) \<noteq> Throws \<and> reg (snd (se_persistParameters env d t m s)) = reg s) \<and>
     (\<forall>ex dm d s. mm_motorActionExecutor svc = Some ex \<longrightarrow> ex_deviceManager ex = Some dm \<longrightarrow> reg (snd (idm_isDeviceReady dm d s)) = reg s) \<and>
     (\<forall>commit i z p a s. mm_commitZero svc = Some commit \<longrightarrow> reg (snd (commit i z p a s)) = reg s) \<and>
     mm_getProtocol svc = Some (\<lambda>_ _ _. True)"

lemma offset_register_reads: "offset_register reg svc env \<Longrightarrow> service_reads env (\<lambda>s s'. reg s' = reg s)"
  by unfold_locales (simp_all add: offset_register_def)

lemma write_register:
  assumes "offset_register reg svc env" and "writePositionOffset env d t m n persist s = (w, s1)"
  shows "w \<noteq> WriteThrows \<and> reg s1 = n"
proof -
  obtain o1 s2 where set: "se_setPositionOffset env n d t m s = (o1, s2)" by fastforce
  obtain o2 s3 where save: "se_persistParameters env d t m s2 = (o2, s3)" by fastforce
  have "o1 = Returns True" "reg s2 = n" "o2 \<noteq> Throws" "reg s3 = reg s2"
    using assms(1) set save unfolding offset_register_def by (metis fst_conv snd_conv)+
  with assms(2) show ?thesis
    by (cases o2) (auto simp: writePositionOffset_def set save split: if_splits)
qed

lemma zero_action_register:
  assumes "offset_register reg svc env" and "zero_action env new old persist d t m (s, text) = (res, s1, text1)"
  shows "res = Returns True \<and> reg s1 = new \<or> res = Returns False \<and> reg s1 = old"
proof -
  obtain w s2 where w: "writePositionOffset env d t m new persist s = (w, s2)" by fastforce
  obtain v s3 where v: "writePositionOffset env d t m old persist s2 = (v, s3)" by fastforce
  from write_register [OF assms(1) w] write_register [OF assms(1) v] assms(2) show ?thesis
    by (cases w; cases v) (auto simp: zero_action_def w v)
qed

lemma execute_zero_register:
  assumes "offset_register reg svc env" and "mm_motorActionExecutor svc = Some ex"
    and "execute \<lparr>ex_deviceManager = map_option recorded_dm (ex_deviceManager ex)\<rparr> (Some (zero_action env new old persist)) tgt (s, text) =
      (st, s1, text1)"
  shows "reg s1 = (if st = Ok then new else if st = Rejected then old else reg s)"
proof (cases "ex_deviceManager ex")
  case (Some dm)
  obtain ready s2 where r: "idm_isDeviceReady dm (tg_canDevice tgt) s = (ready, s2)" by fastforce
  then have "reg s2 = reg s" using assms(1,2) Some unfolding offset_register_def by (metis snd_conv)
  moreover obtain res s3 text3 where act: "zero_action env new old persist (tg_canDevice tgt) (tg_protocol tgt) (tg_motorId tgt) (s2, text) =
      (res, s3, text3)" by (metis prod_cases3)
  ultimately show ?thesis
    using assms(3) zero_action_register [OF assms(1) act]
    by (auto simp: execute_def Some recorded_dm_def on_fst_def r act split: if_splits)
qed (use assms(3) in \<open>simp add: execute_def\<close>)

lemma write_zero_register:
  assumes reg: "offset_register reg svc env"
    and scale: "effectivePositionScale axis = Fin c" "2 powi (- 500) \<le> \<bar>c\<bar>" "\<bar>c\<bar> \<le> 2 ^ 500"
    and previous: "previous = dmul (dbl_of_int (sint (reg s))) (effectivePositionScale axis)"
    and w: "write_zero svc env axis resolved previous s = (e, s1)"
  shows "reg s1 = (if e = None then snd (scaleAndClampToInt32 resolved (effectivePositionScale axis) 0) else reg s)"
proof -
  obtain ok n where new: "scaleAndClampToInt32 resolved (effectivePositionScale axis) 0 = (ok, n)" by fastforce
  have old: "scaleAndClampToInt32 previous (effectivePositionScale axis) 0 = (True, reg s)"
    unfolding previous by (rule count_roundtrip [OF scale])
  show ?thesis
  proof (cases "svc_refusal svc axis ''Writing zero offset'' s = None \<and> ok \<and> mm_motorActionExecutor svc \<noteq> None")
    case True
    then obtain ex where ex: "mm_motorActionExecutor svc = Some ex" by blast
    obtain st s2 msg where run: "execute \<lparr>ex_deviceManager = map_option recorded_dm (ex_deviceManager ex)\<rparr>
        (Some (zero_action env n (reg s) (mm_persistZeroOffsetOnApplyToMotor svc))) (makeMotorTarget axis)
        (s, ''Set zero execution failed.'') = (st, s2, msg)" by (metis prod_cases3)
    from execute_zero_register [OF reg ex run] w True show ?thesis
      unfolding new by (auto simp: write_zero_def new old ex run split: if_splits)
  next
    case False
    with w show ?thesis by (auto simp: write_zero_def new old split: option.splits if_splits)
  qed
qed


text \<open>A motor whose register is the whole state, and which cannot save its parameters.\<close>

definition offset_motor :: "i32 service_env" where
  "offset_motor = \<lparr>
     se_Enable = (\<lambda>_ _ _ s. (Returns True, s)), se_Disable = (\<lambda>_ _ _ s. (Returns True, s)), se_Stop = (\<lambda>_ _ _ s. (Returns True, s)),
     se_setMode = (\<lambda>_ _ _ _ s. (Returns True, s)), se_setPosition = (\<lambda>_ _ _ _ s. (Returns True, s)),
     se_setVelocity = (\<lambda>_ _ _ _ s. (Returns True, s)), se_quickSetPosition = (\<lambda>_ _ _ _ s. (Returns True, s)),
     se_getPosition = (\<lambda>_ _ _ s. (0, s)), se_setPositionOffset = (\<lambda>n _ _ _ s. (Returns True, n)),
     se_readPositionOffset = (\<lambda>_ _ _ s. (Some s, s)), se_persistParameters = (\<lambda>_ _ _ s. (Returns False, s)),
     se_configurePositionLimits = (\<lambda>_ _ _ _ _ _ s. (Returns True, s)), se_isEyouCan = (\<lambda>_ _. False),
     se_issueModeQuery = (\<lambda>_ _ s. s), se_clock = \<lparr>ck_now = (\<lambda>_. 0), ck_sleep_for = (\<lambda>_ s. s)\<rparr>, se_urdf = (\<lambda>_. NoDescription)\<rparr>"

definition register_dm :: "i32 IDeviceManager" where
  "register_dm = \<lparr>idm_initDevice = (\<lambda>_ _ _ w. (True, w)), idm_shutdownDevice = (\<lambda>_ w. w), idm_shutdownAll = (\<lambda>w. w),
     idm_getProtocol = (\<lambda>_ _ _. True), idm_getDeviceMutex = (\<lambda>_ _. True), idm_isDeviceReady = (\<lambda>_ w. (True, w)),
     idm_getSharedDriverState = (\<lambda>_. None), pr_Enable = (\<lambda>_ _ _ w. (Returns True, w)),
     pr_Disable = (\<lambda>_ _ _ w. (Returns True, w)), pr_Stop = (\<lambda>_ _ _ w. (Returns True, w)),
     pr_ResetFault = (\<lambda>_ _ _ w. (Returns True, w)), pr_hasFault = (\<lambda>_ _ _ w. (False, w)),
     pr_isEnabled = (\<lambda>_ _ _ w. (True, w))\<rparr>"

definition register_service :: "(unit, i32) MotorMaintenanceService" where
  "register_service = \<lparr>
     mm_isActive = Some (\<lambda>_. True), mm_motorActionExecutor = Some \<lparr>ex_deviceManager = Some register_dm\<rparr>,
     mm_lookupJointByMotorId = Some (\<lambda>_ _. Some offset_joint), mm_clearDirectCommand = None, mm_commitModeSwitch = None,
     mm_commitZero = Some (\<lambda>_ _ _ _ s. (True, s)), mm_getZeroOffset = None, mm_commitLimits = None, mm_getFreshAxisFeedback = None,
     mm_requireAxisDisabledForConfiguration = Some (\<lambda>_ _ _. None), mm_getProtocol = Some (\<lambda>_ _ _. True),
     mm_getDeviceMutex = Some (\<lambda>_ _. True), mm_persistZeroOffsetOnApplyToMotor = True\<rparr>"

lemma register_model: "offset_register id register_service offset_motor"
  by (simp add: offset_register_def register_service_def offset_motor_def register_dm_def)


end
