(* ===== verification/Innfos_Ecb.thy ===== *)
theory Innfos_Ecb
  imports Protocol_Io Lifecycle_Driver_Ops
begin

text \<open>
  \<open>InnfosEcbProtocol.cpp\<close>: the ECB family, actuators behind a network.  There are no frames here: the
  protocol object calls a vendored SDK, which is the parameter \<open>actuator_sdk\<close> over a world of its own; the
  steady clock belongs to it.  An operation runs under the object's lock, its sleeps included, and is one
  step; \<open>Stop\<close> writes its intent after the lock has been released, which is taken into its step.  The refresh
  thread is a machine whose steps are its critical sections.
\<close>

section \<open>The SDK\<close>

datatype ActuatorMode =
  Mode_None | Mode_Cur | Mode_Vel | Mode_Pos | Mode_Teaching | Mode_Profile_Pos | Mode_Profile_Vel | Mode_Homing | Mode_Other int

text \<open>The methods of \<open>ActuatorController\<close> that act on one actuator.\<close>

datatype actuator_call =
    reconnect | enableActuator | disableActuator | clearError | activateActuatorMode ActuatorMode
  | sdk_setVelocity dbl | sdk_setPosition dbl | setMinimumPosition dbl | setMaximumPosition dbl | enablePositionLimit bool
  | sdk_setPositionOffset dbl | setProfileVelocityAcceleration dbl | setProfileVelocityDeceleration dbl
  | setProfilePositionAcceleration dbl | setProfilePositionDeceleration dbl | setProfilePositionMaxVelocity dbl

record 'w actuator_sdk =
  initController :: "'w \<Rightarrow> bool \<times> 'w"
  processEvents :: "'w \<Rightarrow> 'w"
  lookupActuators :: "'w \<Rightarrow> (u8 \<times> string) list \<times> 'w"
  isOnline :: "u8 \<Rightarrow> string \<Rightarrow> 'w \<Rightarrow> bool \<times> 'w"
  sdk_call :: "actuator_call \<Rightarrow> u8 \<Rightarrow> string \<Rightarrow> 'w \<Rightarrow> bool \<times> 'w"
  sdk_getPosition :: "u8 \<Rightarrow> string \<Rightarrow> 'w \<Rightarrow> dbl \<times> 'w"
  sdk_getVelocity :: "u8 \<Rightarrow> string \<Rightarrow> 'w \<Rightarrow> dbl \<times> 'w"
  sdk_getCurrent :: "u8 \<Rightarrow> string \<Rightarrow> 'w \<Rightarrow> dbl \<times> 'w"
  isEnable :: "u8 \<Rightarrow> string \<Rightarrow> 'w \<Rightarrow> bool \<times> 'w"
  getErrorCode :: "u8 \<Rightarrow> string \<Rightarrow> 'w \<Rightarrow> u32 \<times> 'w"
  getActuatorMode :: "u8 \<Rightarrow> string \<Rightarrow> 'w \<Rightarrow> ActuatorMode \<times> 'w"
  sdk_clock :: "'w steady_clock"

section \<open>Constants and conversions\<close>

definition kEcbPrefixText :: string where "kEcbPrefixText = ''ecb://''"
definition kPositionRawPerRevolution :: dbl where "kPositionRawPerRevolution = Fin 10000"
definition kVelocityRawPerRpm :: dbl where "kVelocityRawPerRpm = Fin 10"
definition kCurrentRawPerAmp :: dbl where "kCurrentRawPerAmp = Fin 1000"
definition kResolveRetryCount :: nat where "kResolveRetryCount = 3"
definition kResolveRetrySleepMs :: int where "kResolveRetrySleepMs = 120"
definition kReconnectRetryCount :: nat where "kReconnectRetryCount = 2"
definition kReconnectRetrySleepMs :: int where "kReconnectRetrySleepMs = 80"
definition kRecoveryCooldownMs :: int where "kRecoveryCooldownMs = 500"

definition startsWith :: "string \<Rightarrow> string \<Rightarrow> bool" where
  "startsWith v p \<longleftrightarrow> take (length p) v = p"

definition clampToFinite :: "dbl \<Rightarrow> dbl \<Rightarrow> dbl" where
  "clampToFinite v fallback = (if isfinite v then v else fallback)"

definition clampInt16 :: "int \<Rightarrow> i16" where
  "clampInt16 n = word_of_int (max (- 32768) (min 32767 n))"

definition sdkModeToMotorMode :: "ActuatorMode \<Rightarrow> MotorMode option" where
  "sdkModeToMotorMode sdkMode =
     (case sdkMode of
        Mode_Profile_Vel \<Rightarrow> Some ModeVelocity
      | Mode_Vel \<Rightarrow> Some ModeVelocity
      | Mode_Profile_Pos \<Rightarrow> Some ModePosition
      | Mode_Pos \<Rightarrow> Some ModePosition
      | _ \<Rightarrow> None)"

text \<open>The SDK mode a motor mode is switched to.\<close>

definition profile_mode :: "MotorMode \<Rightarrow> ActuatorMode" where
  "profile_mode mode = (if mode = ModeVelocity then Mode_Profile_Vel else Mode_Profile_Pos)"

text \<open>The names of error codes: some codes as a whole, otherwise the names of the bits.\<close>

definition whole_codes :: "(u32 \<times> string) list" where
  "whole_codes =
     [(0x000, ''ERR_NONE''), (0x801, ''ERR_ACTUATOR_DISCONNECTION''), (0x802, ''ERR_CAN_DISCONNECTION''),
      (0x803, ''ERR_IP_ADDRESS_NOT_FOUND''), (0x804, ''ERR_ABNORMAL_SHUTDOWN''), (0x805, ''ERR_SHUTDOWN_SAVING''),
      (0x806, ''ERR_IP_HAS_BIND''), (0x807, ''ERR_ID_UNUNIQUE''), (0x808, ''ERR_IP_CONFLICT''), (0xFFFF, ''ERR_UNKOWN'')]"

definition error_bits :: "(u32 \<times> string) list" where
  "error_bits =
     [(0x001, ''ERR_ACTUATOR_OVERVOLTAGE''), (0x002, ''ERR_ACTUATOR_UNDERVOLTAGE''), (0x004, ''ERR_ACTUATOR_LOCKED_ROTOR''),
      (0x008, ''ERR_ACTUATOR_OVERHEATING''), (0x010, ''ERR_ACTUATOR_READ_OR_WRITE''), (0x020, ''ERR_ACTUATOR_MULTI_TURN''),
      (0x040, ''ERR_INVERTOR_TEMPERATURE_SENSOR''), (0x080, ''ERR_CAN_COMMUNICATION''),
      (0x100, ''ERR_ACTUATOR_TEMPERATURE_SENSOR''), (0x200, ''ERR_STEP_OVER''), (0x400, ''ERR_DRV_PROTECTION''),
      (0x800, ''ERR_CODER_DISABLED'')]"

fun append_names :: "u32 \<Rightarrow> (u32 \<times> string) list \<Rightarrow> string \<Rightarrow> string" where
  "append_names code [] text = text"
| "append_names code ((bitmask, name) # bits) text =
     append_names code bits
       (if code AND bitmask = 0 then text else (if text = [] then name else text @ ''|'' @ name))"

definition decodeEcbErrorCode :: "u32 \<Rightarrow> string" where
  "decodeEcbErrorCode code =
     (case map_of whole_codes code of
        Some name \<Rightarrow> name
      | None \<Rightarrow> (let text = append_names code error_bits [] in if text = [] then ''ERR_UNKNOWN_BITS'' else text))"

section \<open>State\<close>

record MotorRoute =
  ro_autoDiscovery :: bool
  ro_fixedIp :: string

record MotorEndpoint =
  ep_actuatorId :: u8
  ep_ipAddress :: string
  ep_resolved :: bool
  ep_enabled :: bool

definition default_endpoint :: MotorEndpoint where
  "default_endpoint = \<lparr>ep_actuatorId = 0, ep_ipAddress = [], ep_resolved = False, ep_enabled = False\<rparr>"

record MotorCache =
  mc_positionRaw :: int
  mc_velocityRaw :: i16
  mc_currentRaw :: i16
  mc_errorCode :: u32
  mc_mode :: MotorMode
  mc_enabled :: bool
  mc_fault :: bool
  mc_modeValid :: bool
  mc_valid :: bool

record MotionProfile =
  mp_positionMaxRpm :: dbl
  mp_positionAccelerationRpmS :: dbl
  mp_positionDecelerationRpmS :: dbl
  mp_velocityAccelerationRpmS :: dbl
  mp_velocityDecelerationRpmS :: dbl

definition default_profile :: MotionProfile where
  "default_profile = \<lparr>mp_positionMaxRpm = Fin 500, mp_positionAccelerationRpmS = Fin 300,
     mp_positionDecelerationRpmS = Fin (- 300), mp_velocityAccelerationRpmS = Fin 300, mp_velocityDecelerationRpmS = Fin (- 300)\<rparr>"

text \<open>
  Where the refresh thread is: nowhere, at the head of its loop, updating motors (those still to do, and
  the sleep in milliseconds after them), sleeping, or returned and waiting to be joined.
\<close>

datatype refresh_thread = NoThread | LoopHead | Updating "u16 list" int | Sleeping int | Returned

text \<open>\<open>controller_\<close> is the SDK's singleton or null; \<open>refreshIds_\<close> is a set, iterated in order.\<close>

record 'w InnfosEcbProtocol =
  ie_world :: 'w
  ie_controller :: bool
  ie_deviceSpec :: string
  ie_defaultIp :: string
  ie_defaultAutoDiscovery :: bool
  ie_routes :: "u16 \<rightharpoonup> MotorRoute"
  ie_endpoints :: "u16 \<rightharpoonup> MotorEndpoint"
  ie_caches :: "u16 \<rightharpoonup> MotorCache"
  ie_nextRecoveryTry :: "u16 \<rightharpoonup> time_ns"
  ie_motionProfiles :: "u16 \<rightharpoonup> MotionProfile"
  ie_modeCache :: "u16 \<rightharpoonup> MotorMode"
  ie_refreshIds :: "u16 list"
  ie_sharedState :: "SharedDriverState option"
  ie_deviceName :: string
  ie_refreshIntervalMs :: int
  ie_refreshRunning :: bool
  ie_refreshThread :: refresh_thread

definition new_InnfosEcbProtocol :: "'w \<Rightarrow> string \<Rightarrow> SharedDriverState option \<Rightarrow> string \<Rightarrow> 'w InnfosEcbProtocol" where
  "new_InnfosEcbProtocol w deviceSpec shared deviceName =
     (let prefixed = startsWith deviceSpec kEcbPrefixText;
          payload = drop (length kEcbPrefixText) deviceSpec;
          automatic = payload = ''auto'' \<or> payload = []
      in \<lparr>ie_world = w, ie_controller = False, ie_deviceSpec = deviceSpec,
          ie_defaultIp = (if prefixed \<and> \<not> automatic then payload else []),
          ie_defaultAutoDiscovery = (prefixed \<and> automatic),
          ie_routes = Map.empty, ie_endpoints = Map.empty, ie_caches = Map.empty, ie_nextRecoveryTry = Map.empty,
          ie_motionProfiles = Map.empty, ie_modeCache = Map.empty, ie_refreshIds = [], ie_sharedState = shared,
          ie_deviceName = (if deviceName = [] then deviceSpec else deviceName),
          ie_refreshIntervalMs = 20, ie_refreshRunning = False, ie_refreshThread = NoThread\<rparr>)"

definition toRawMotorId :: "motor_id \<Rightarrow> u16" where
  "toRawMotorId mid = mid"

text \<open>The actuator id is one byte.\<close>

definition id_in_range :: "u16 \<Rightarrow> bool" where
  "id_in_range motorId \<longleftrightarrow> motorId \<le> 255"

section \<open>Acting on the world\<close>

definition on_sdk :: "('w \<Rightarrow> 'r \<times> 'w) \<Rightarrow> 'w InnfosEcbProtocol \<Rightarrow> 'r \<times> 'w InnfosEcbProtocol" where
  "on_sdk f s = (case f (ie_world s) of (r, w) \<Rightarrow> (r, s\<lparr>ie_world := w\<rparr>))"

definition in_world :: "('w \<Rightarrow> 'w) \<Rightarrow> 'w InnfosEcbProtocol \<Rightarrow> 'w InnfosEcbProtocol" where
  "in_world f s = s\<lparr>ie_world := f (ie_world s)\<rparr>"

definition steady_now :: "'w actuator_sdk \<Rightarrow> 'w InnfosEcbProtocol \<Rightarrow> time_ns" where
  "steady_now sdk s = ck_now (sdk_clock sdk) (ie_world s)"

definition sleep_ms :: "'w actuator_sdk \<Rightarrow> int \<Rightarrow> 'w InnfosEcbProtocol \<Rightarrow> 'w InnfosEcbProtocol" where
  "sleep_ms sdk n = in_world (ck_sleep_for (sdk_clock sdk) (ms n))"

definition actuator_command :: "'w actuator_sdk \<Rightarrow> MotorEndpoint \<Rightarrow> actuator_call \<Rightarrow> 'w InnfosEcbProtocol \<Rightarrow> bool \<times> 'w InnfosEcbProtocol" where
  "actuator_command sdk ep call = on_sdk (sdk_call sdk call (ep_actuatorId ep) (ep_ipAddress ep))"

abbreviation do_command :: "'w actuator_sdk \<Rightarrow> MotorEndpoint \<Rightarrow> actuator_call \<Rightarrow> 'w InnfosEcbProtocol \<Rightarrow> 'w InnfosEcbProtocol" where
  "do_command sdk ep call s \<equiv> snd (actuator_command sdk ep call s)"

definition online_at :: "'w actuator_sdk \<Rightarrow> MotorEndpoint \<Rightarrow> 'w InnfosEcbProtocol \<Rightarrow> bool \<times> 'w InnfosEcbProtocol" where
  "online_at sdk ep = on_sdk (isOnline sdk (ep_actuatorId ep) (ep_ipAddress ep))"

definition endpoint_of :: "u16 \<Rightarrow> 'w InnfosEcbProtocol \<Rightarrow> MotorEndpoint" where
  "endpoint_of motorId s = map_at default_endpoint (ie_endpoints s) motorId"

definition ensureControllerLocked :: "'w actuator_sdk \<Rightarrow> 'w InnfosEcbProtocol \<Rightarrow> bool \<times> 'w InnfosEcbProtocol" where
  "ensureControllerLocked sdk s =
     (if ie_controller s then (True, s)
      else case on_sdk (initController sdk) s of (ok, s1) \<Rightarrow> (ok, s1\<lparr>ie_controller := ok\<rparr>))"

section \<open>Finding and reaching an actuator\<close>

text \<open>Reconnecting, at most \<open>n\<close> times.\<close>

fun reconnect_loop :: "'w actuator_sdk \<Rightarrow> MotorEndpoint \<Rightarrow> nat \<Rightarrow> 'w InnfosEcbProtocol \<Rightarrow> bool \<times> 'w InnfosEcbProtocol" where
  "reconnect_loop sdk ep 0 s = (False, s)"
| "reconnect_loop sdk ep (Suc n) s =
     (case online_at sdk ep (sleep_ms sdk kReconnectRetrySleepMs (in_world (processEvents sdk) (do_command sdk ep reconnect s))) of
        (ok, s1) \<Rightarrow> if ok then (True, s1) else reconnect_loop sdk ep n s1)"

definition reconnectEndpointLocked :: "'w actuator_sdk \<Rightarrow> u16 \<Rightarrow> 'w InnfosEcbProtocol \<Rightarrow> bool \<times> 'w InnfosEcbProtocol" where
  "reconnectEndpointLocked sdk motorId s =
     (case ie_endpoints s motorId of
        None \<Rightarrow> (False, s)
      | Some ep \<Rightarrow> if \<not> ep_resolved ep then (False, s)
                   else case ensureControllerLocked sdk s of
                     (ok, s1) \<Rightarrow> if \<not> ok then (False, s1) else reconnect_loop sdk ep kReconnectRetryCount s1)"

text \<open>At most one attempt in \<open>kRecoveryCooldownMs\<close>; asking starts the next period.\<close>

definition canAttemptRecoveryLocked :: "'w actuator_sdk \<Rightarrow> u16 \<Rightarrow> 'w InnfosEcbProtocol \<Rightarrow> bool \<times> 'w InnfosEcbProtocol" where
  "canAttemptRecoveryLocked sdk motorId s =
     (let now = steady_now sdk s
      in if (case ie_nextRecoveryTry s motorId of None \<Rightarrow> False | Some t \<Rightarrow> now < t) then (False, s)
         else (True, s\<lparr>ie_nextRecoveryTry := (ie_nextRecoveryTry s)(motorId \<mapsto> now + ms kRecoveryCooldownMs)\<rparr>))"

text \<open>
  The choice among the actuators found: the first with the id and, if one is configured, the address; on
  the last attempt of a motor without automatic discovery, otherwise the last one with the id.
\<close>

fun choose_actuator :: "u8 \<Rightarrow> string \<Rightarrow> bool \<Rightarrow> bool \<Rightarrow> (u8 \<times> string) list \<Rightarrow> MotorEndpoint \<Rightarrow> MotorEndpoint" where
  "choose_actuator aid routeIp routeAuto lastAttempt [] discovered = discovered"
| "choose_actuator aid routeIp routeAuto lastAttempt ((a, ip) # us) discovered =
     (let found = discovered\<lparr>ep_actuatorId := a, ep_ipAddress := ip, ep_resolved := True\<rparr>
      in if a \<noteq> aid then choose_actuator aid routeIp routeAuto lastAttempt us discovered
         else if routeIp \<noteq> [] \<and> ip \<noteq> routeIp
         then choose_actuator aid routeIp routeAuto lastAttempt us (if \<not> routeAuto \<and> lastAttempt then found else discovered)
         else found)"

text \<open>Taking an endpoint over and reaching it, with one reconnection.\<close>

definition try_endpoint :: "'w actuator_sdk \<Rightarrow> u16 \<Rightarrow> MotorEndpoint \<Rightarrow> 'w InnfosEcbProtocol \<Rightarrow> bool \<times> 'w InnfosEcbProtocol" where
  "try_endpoint sdk motorId ep s =
     (case online_at sdk ep (s\<lparr>ie_endpoints := (ie_endpoints s)(motorId \<mapsto> ep)\<rparr>) of
        (ok, s1) \<Rightarrow> if ok then (True, s1) else online_at sdk ep (snd (reconnectEndpointLocked sdk motorId s1)))"

definition resolve_attempt ::
    "'w actuator_sdk \<Rightarrow> u16 \<Rightarrow> bool \<Rightarrow> string \<Rightarrow> bool \<Rightarrow> 'w InnfosEcbProtocol \<Rightarrow> bool \<times> 'w InnfosEcbProtocol" where
  "resolve_attempt sdk motorId routeAuto routeIp lastAttempt s =
     (case (if \<not> routeAuto \<and> routeIp \<noteq> []
            then try_endpoint sdk motorId
                   \<lparr>ep_actuatorId = ucast motorId, ep_ipAddress = routeIp, ep_resolved = True, ep_enabled = False\<rparr> s
            else (False, s)) of
        (ok, s1) \<Rightarrow>
          if ok then (True, s1)
          else case on_sdk (lookupActuators sdk) s1 of
            (unifiedIds, s2) \<Rightarrow>
              (let discovered = choose_actuator (ucast motorId) routeIp routeAuto lastAttempt unifiedIds default_endpoint
               in if ep_resolved discovered then try_endpoint sdk motorId discovered s2 else (False, s2)))"

fun resolve_loop ::
    "'w actuator_sdk \<Rightarrow> u16 \<Rightarrow> bool \<Rightarrow> string \<Rightarrow> nat \<Rightarrow> 'w InnfosEcbProtocol \<Rightarrow> bool \<times> 'w InnfosEcbProtocol" where
  "resolve_loop sdk motorId routeAuto routeIp 0 s = (False, s)"
| "resolve_loop sdk motorId routeAuto routeIp (Suc n) s =
     (case resolve_attempt sdk motorId routeAuto routeIp (n = 0) s of
        (ok, s1) \<Rightarrow> if ok then (True, s1)
                    else resolve_loop sdk motorId routeAuto routeIp n (sleep_ms sdk kResolveRetrySleepMs s1))"

definition is_resolved :: "u16 \<Rightarrow> 'w InnfosEcbProtocol \<Rightarrow> bool" where
  "is_resolved motorId s = (case ie_endpoints s motorId of None \<Rightarrow> False | Some ep \<Rightarrow> ep_resolved ep)"

definition route_of :: "u16 \<Rightarrow> 'w InnfosEcbProtocol \<Rightarrow> bool \<times> string" where
  "route_of motorId s =
     (case ie_routes s motorId of
        Some route \<Rightarrow> (ro_autoDiscovery route, ro_fixedIp route)
      | None \<Rightarrow> (ie_defaultAutoDiscovery s, ie_defaultIp s))"

definition resolveEndpointLocked :: "'w actuator_sdk \<Rightarrow> u16 \<Rightarrow> 'w InnfosEcbProtocol \<Rightarrow> bool \<times> 'w InnfosEcbProtocol" where
  "resolveEndpointLocked sdk motorId s =
     (if is_resolved motorId s then (True, s)
      else case ensureControllerLocked sdk s of
        (ok, s1) \<Rightarrow>
          if \<not> ok then (False, s1)
          else if \<not> id_in_range motorId then (False, s1)
          else case route_of motorId s1 of
            (routeAuto, routeIp) \<Rightarrow> resolve_loop sdk motorId routeAuto routeIp kResolveRetryCount s1)"

text \<open>The part of \<open>ensureEndpointReadyLocked\<close> after the first check of a known endpoint.\<close>

definition resolve_and_reach :: "'w actuator_sdk \<Rightarrow> u16 \<Rightarrow> 'w InnfosEcbProtocol \<Rightarrow> bool \<times> 'w InnfosEcbProtocol" where
  "resolve_and_reach sdk motorId s =
     (case resolveEndpointLocked sdk motorId s of
        (ok, s1) \<Rightarrow>
          if \<not> ok \<or> \<not> is_resolved motorId s1 then (False, s1)
          else case online_at sdk (endpoint_of motorId s1) s1 of
            (up, s2) \<Rightarrow>
              if up then (True, s2)
              else case canAttemptRecoveryLocked sdk motorId s2 of
                (may, s3) \<Rightarrow>
                  if \<not> may then (False, s3)
                  else online_at sdk (endpoint_of motorId s2) (snd (reconnectEndpointLocked sdk motorId s3)))"

definition ensureEndpointReadyLocked :: "'w actuator_sdk \<Rightarrow> u16 \<Rightarrow> 'w InnfosEcbProtocol \<Rightarrow> bool \<times> 'w InnfosEcbProtocol" where
  "ensureEndpointReadyLocked sdk motorId s =
     (case ensureControllerLocked sdk s of
        (ok, s1) \<Rightarrow>
          if \<not> ok then (False, s1)
          else if is_resolved motorId s1
          then (case online_at sdk (endpoint_of motorId s1) s1 of
                  (up, s2) \<Rightarrow>
                    if up then (True, s2)
                    else case canAttemptRecoveryLocked sdk motorId s2 of
                      (may, s3) \<Rightarrow>
                        if \<not> may then (False, s3)
                        else case online_at sdk (endpoint_of motorId s1) (snd (reconnectEndpointLocked sdk motorId s3)) of
                          (again, s4) \<Rightarrow> if again then (True, s4) else resolve_and_reach sdk motorId s4)
          else resolve_and_reach sdk motorId s1)"

section \<open>The shared store\<close>

definition ecb_axis_key :: "u16 \<Rightarrow> 'w InnfosEcbProtocol \<Rightarrow> AxisKey" where
  "ecb_axis_key motorId s = MakeAxisKey (ie_deviceName s) ECB motorId"

definition on_shared_store :: "(SharedDriverState \<Rightarrow> SharedDriverState) \<Rightarrow> 'w InnfosEcbProtocol \<Rightarrow> 'w InnfosEcbProtocol" where
  "on_shared_store f s =
     (case ie_sharedState s of
        None \<Rightarrow> s
      | Some shared \<Rightarrow> if ie_deviceName s = [] then s else s\<lparr>ie_sharedState := Some (f shared)\<rparr>)"

definition ecb_feedback :: "time_ns \<Rightarrow> MotorCache \<Rightarrow> AxisFeedbackState \<Rightarrow> AxisFeedbackState" where
  "ecb_feedback nowNs cache feedback =
     feedback\<lparr>fb_position := mc_positionRaw cache, fb_velocity := scast (mc_velocityRaw cache), fb_current := scast (mc_currentRaw cache),
       fb_mode := (if mc_modeValid cache then mc_mode cache else fb_mode feedback),
       fb_modeValid := (mc_modeValid cache \<or> fb_modeValid feedback),
       fb_positionValid := True, fb_velocityValid := True, fb_currentValid := True,
       fb_enabled := mc_enabled cache, fb_fault := mc_fault cache, fb_enabledValid := True, fb_faultValid := True,
       fb_feedbackSeen := True, fb_lastRxSteadyNs := nowNs, fb_lastValidStateSteadyNs := nowNs, fb_consecutiveTimeoutCount := 0\<rparr>"

definition syncSharedFeedbackLocked :: "'w actuator_sdk \<Rightarrow> u16 \<Rightarrow> MotorCache \<Rightarrow> 'w InnfosEcbProtocol \<Rightarrow> 'w InnfosEcbProtocol" where
  "syncSharedFeedbackLocked sdk motorId cache s =
     (if \<not> mc_valid cache then s
      else on_shared_store (mutateAxisFeedback (ecb_axis_key motorId s) (ecb_feedback (steady_now sdk s) cache)) s)"

definition syncSharedCommandLocked ::
    "'w actuator_sdk \<Rightarrow> u16 \<Rightarrow> int \<Rightarrow> i32 \<Rightarrow> MotorMode \<Rightarrow> bool \<Rightarrow> 'w InnfosEcbProtocol \<Rightarrow> 'w InnfosEcbProtocol" where
  "syncSharedCommandLocked sdk motorId targetPosition targetVelocity desiredMode valid s =
     on_shared_store (mutateAxisCommand (ecb_axis_key motorId s) (\<lambda>c. c\<lparr>ac_targetPosition := targetPosition,
       ac_targetVelocity := targetVelocity, ac_desiredMode := desiredMode, ac_desiredModeValid := True, ac_valid := valid,
       ac_lastCommandSteadyNs := steady_now sdk s\<rparr>)) s"

definition syncSharedIntentLocked :: "u16 \<Rightarrow> AxisIntent \<Rightarrow> 'w InnfosEcbProtocol \<Rightarrow> 'w InnfosEcbProtocol" where
  "syncSharedIntentLocked motorId intent s = on_shared_store (setAxisIntent (ecb_axis_key motorId s) intent) s"

section \<open>Reading an actuator\<close>

text \<open>The six readings, as the SDK answers them.\<close>

record readings =
  re_position :: dbl
  re_velocity :: dbl
  re_current :: dbl
  re_enabled :: bool
  re_errorCode :: u32
  re_mode :: ActuatorMode

definition read_actuator :: "'w actuator_sdk \<Rightarrow> MotorEndpoint \<Rightarrow> 'w InnfosEcbProtocol \<Rightarrow> readings \<times> 'w InnfosEcbProtocol" where
  "read_actuator sdk ep s =
     (let a = ep_actuatorId ep; ip = ep_ipAddress ep
      in case on_sdk (sdk_getPosition sdk a ip) s of (position, s1) \<Rightarrow>
         case on_sdk (sdk_getVelocity sdk a ip) s1 of (velocity, s2) \<Rightarrow>
         case on_sdk (sdk_getCurrent sdk a ip) s2 of (current, s3) \<Rightarrow>
         case on_sdk (isEnable sdk a ip) s3 of (enabled, s4) \<Rightarrow>
         case on_sdk (getErrorCode sdk a ip) s4 of (errorCode, s5) \<Rightarrow>
         case on_sdk (getActuatorMode sdk a ip) s5 of (mode, s6) \<Rightarrow>
           (\<lparr>re_position = position, re_velocity = velocity, re_current = current, re_enabled = enabled,
             re_errorCode = errorCode, re_mode = mode\<rparr>, s6))"

definition cache_of :: "readings \<Rightarrow> MotorCache" where
  "cache_of r =
     \<lparr>mc_positionRaw = llround 0 (dmul (clampToFinite (re_position r) (Fin 0)) kPositionRawPerRevolution),
      mc_velocityRaw = clampInt16 (llround 0 (dmul (clampToFinite (re_velocity r) (Fin 0)) kVelocityRawPerRpm)),
      mc_currentRaw = clampInt16 (llround 0 (dmul (clampToFinite (re_current r) (Fin 0)) kCurrentRawPerAmp)),
      mc_errorCode = re_errorCode r,
      mc_mode = (case sdkModeToMotorMode (re_mode r) of None \<Rightarrow> ModePosition | Some m \<Rightarrow> m),
      mc_enabled = re_enabled r, mc_fault = (re_errorCode r \<noteq> 0),
      mc_modeValid = (sdkModeToMotorMode (re_mode r) \<noteq> None), mc_valid = True\<rparr>"

definition store_cache :: "'w actuator_sdk \<Rightarrow> u16 \<Rightarrow> MotorCache \<Rightarrow> 'w InnfosEcbProtocol \<Rightarrow> 'w InnfosEcbProtocol" where
  "store_cache sdk motorId cache s =
     syncSharedFeedbackLocked sdk motorId cache
       (s\<lparr>ie_caches := (ie_caches s)(motorId \<mapsto> cache),
          ie_endpoints := map_modify default_endpoint motorId (\<lambda>ep. ep\<lparr>ep_enabled := mc_enabled cache\<rparr>) (ie_endpoints s),
          ie_modeCache := (if mc_modeValid cache then (ie_modeCache s)(motorId \<mapsto> mc_mode cache) else ie_modeCache s)\<rparr>)"

definition updateCacheLocked :: "'w actuator_sdk \<Rightarrow> u16 \<Rightarrow> 'w InnfosEcbProtocol \<Rightarrow> bool \<times> 'w InnfosEcbProtocol" where
  "updateCacheLocked sdk motorId s =
     (if \<not> id_in_range motorId then (False, s)
      else case ensureEndpointReadyLocked sdk motorId s of
        (ready, s1) \<Rightarrow>
          if \<not> ready then (False, s1)
          else case read_actuator sdk (endpoint_of motorId s1) s1 of
            (r, s2) \<Rightarrow> (True, store_cache sdk motorId (cache_of r) s2))"

section \<open>Motion profiles\<close>

definition motionProfileLocked :: "u16 \<Rightarrow> 'w InnfosEcbProtocol \<Rightarrow> MotionProfile" where
  "motionProfileLocked motorId s = map_at default_profile (ie_motionProfiles s) motorId"

definition profile_calls :: "MotionProfile \<Rightarrow> MotorMode \<Rightarrow> actuator_call list" where
  "profile_calls profile mode =
     (if mode = ModeVelocity
      then [setProfileVelocityAcceleration (mp_velocityAccelerationRpmS profile),
            setProfileVelocityDeceleration (mp_velocityDecelerationRpmS profile)]
      else [setProfilePositionAcceleration (mp_positionAccelerationRpmS profile),
            setProfilePositionDeceleration (mp_positionDecelerationRpmS profile),
            setProfilePositionMaxVelocity (mp_positionMaxRpm profile)])"

definition applyProfileForModeLocked :: "'w actuator_sdk \<Rightarrow> u16 \<Rightarrow> MotorMode \<Rightarrow> 'w InnfosEcbProtocol \<Rightarrow> 'w InnfosEcbProtocol" where
  "applyProfileForModeLocked sdk motorId mode s =
     (if \<not> is_resolved motorId s \<or> \<not> ie_controller s then s
      else fold (do_command sdk (endpoint_of motorId s)) (profile_calls (motionProfileLocked motorId s) mode) s)"

section \<open>Commands\<close>

text \<open>The guards of every operation on a motor: the id is one byte and the actuator can be reached.\<close>

definition with_endpoint ::
    "'w actuator_sdk \<Rightarrow> motor_id \<Rightarrow> (u16 \<Rightarrow> MotorEndpoint \<Rightarrow> 'w InnfosEcbProtocol \<Rightarrow> bool \<times> 'w InnfosEcbProtocol) \<Rightarrow>
     'w InnfosEcbProtocol \<Rightarrow> bool \<times> 'w InnfosEcbProtocol" where
  "with_endpoint sdk mid body s =
     (let rawMotorId = toRawMotorId mid
      in if \<not> id_in_range rawMotorId then (False, s)
         else case ensureEndpointReadyLocked sdk rawMotorId s of
           (ready, s1) \<Rightarrow> if \<not> ready then (False, s1) else body rawMotorId (endpoint_of rawMotorId s1) s1)"

text \<open>Switching to a mode: the mode and its profile are written, and the mode is noted.\<close>

definition activate_mode :: "'w actuator_sdk \<Rightarrow> u16 \<Rightarrow> MotorEndpoint \<Rightarrow> MotorMode \<Rightarrow> 'w InnfosEcbProtocol \<Rightarrow> 'w InnfosEcbProtocol" where
  "activate_mode sdk motorId ep mode s =
     applyProfileForModeLocked sdk motorId mode (do_command sdk ep (activateActuatorMode (profile_mode mode)) s)"

definition note_mode :: "u16 \<Rightarrow> MotorMode \<Rightarrow> 'w InnfosEcbProtocol \<Rightarrow> 'w InnfosEcbProtocol" where
  "note_mode motorId mode s = s\<lparr>ie_modeCache := (ie_modeCache s)(motorId \<mapsto> mode)\<rparr>"

definition ecb_setMode :: "'w actuator_sdk \<Rightarrow> motor_id \<Rightarrow> MotorMode \<Rightarrow> 'w InnfosEcbProtocol \<Rightarrow> bool \<times> 'w InnfosEcbProtocol" where
  "ecb_setMode sdk mid mode = with_endpoint sdk mid (\<lambda>motorId ep s.
     let s1 = note_mode motorId mode (in_world (processEvents sdk) (activate_mode sdk motorId ep mode s));
         s2 = syncSharedCommandLocked sdk motorId 0 0 mode False s1
     in (True, snd (updateCacheLocked sdk motorId s2)))"

text \<open>Switching to a mode unless it is the one noted.\<close>

definition ensure_mode :: "'w actuator_sdk \<Rightarrow> u16 \<Rightarrow> MotorEndpoint \<Rightarrow> MotorMode \<Rightarrow> 'w InnfosEcbProtocol \<Rightarrow> 'w InnfosEcbProtocol" where
  "ensure_mode sdk motorId ep mode s =
     (if ie_modeCache s motorId = Some mode then s else note_mode motorId mode (activate_mode sdk motorId ep mode s))"

definition ecb_setVelocity :: "'w actuator_sdk \<Rightarrow> motor_id \<Rightarrow> i32 \<Rightarrow> 'w InnfosEcbProtocol \<Rightarrow> bool \<times> 'w InnfosEcbProtocol" where
  "ecb_setVelocity sdk mid velocity = with_endpoint sdk mid (\<lambda>motorId ep s.
     let targetRpm = ddiv (dbl_of_int (sint velocity)) kVelocityRawPerRpm;
         s1 = in_world (processEvents sdk) (do_command sdk ep (sdk_setVelocity targetRpm) (ensure_mode sdk motorId ep ModeVelocity s))
     in (True, syncSharedIntentLocked motorId IntentRun (syncSharedCommandLocked sdk motorId 0 velocity ModeVelocity True s1)))"

definition ecb_setAcceleration :: "motor_id \<Rightarrow> i32 \<Rightarrow> 'w InnfosEcbProtocol \<Rightarrow> bool \<times> 'w InnfosEcbProtocol" where
  "ecb_setAcceleration mid acceleration s = (True, s)"

definition ecb_setDeceleration :: "motor_id \<Rightarrow> i32 \<Rightarrow> 'w InnfosEcbProtocol \<Rightarrow> bool \<times> 'w InnfosEcbProtocol" where
  "ecb_setDeceleration mid deceleration s = (True, s)"

definition ecb_setPosition :: "'w actuator_sdk \<Rightarrow> motor_id \<Rightarrow> i32 \<Rightarrow> 'w InnfosEcbProtocol \<Rightarrow> bool \<times> 'w InnfosEcbProtocol" where
  "ecb_setPosition sdk mid position = with_endpoint sdk mid (\<lambda>motorId ep s.
     let targetRev = ddiv (dbl_of_int (sint position)) kPositionRawPerRevolution;
         s1 = in_world (processEvents sdk) (do_command sdk ep (sdk_setPosition targetRev) (ensure_mode sdk motorId ep ModePosition s))
     in (True, syncSharedIntentLocked motorId IntentRun
                 (syncSharedCommandLocked sdk motorId (sint position) 0 ModePosition True s1)))"

definition ecb_quickSetPosition :: "'w actuator_sdk \<Rightarrow> motor_id \<Rightarrow> i32 \<Rightarrow> 'w InnfosEcbProtocol \<Rightarrow> bool \<times> 'w InnfosEcbProtocol" where
  "ecb_quickSetPosition sdk mid position = ecb_setPosition sdk mid position"

text \<open>
  \<open>endpoint\<close> is a reference into the map, so what is answered is the flag as the reading at the end has
  left it.
\<close>

definition set_enabled :: "u16 \<Rightarrow> bool \<Rightarrow> 'w InnfosEcbProtocol \<Rightarrow> 'w InnfosEcbProtocol" where
  "set_enabled motorId b s =
     s\<lparr>ie_endpoints := map_modify default_endpoint motorId (\<lambda>ep. ep\<lparr>ep_enabled := b\<rparr>) (ie_endpoints s)\<rparr>"

definition ecb_Enable :: "'w actuator_sdk \<Rightarrow> motor_id \<Rightarrow> 'w InnfosEcbProtocol \<Rightarrow> bool \<times> 'w InnfosEcbProtocol" where
  "ecb_Enable sdk mid = with_endpoint sdk mid (\<lambda>motorId ep s.
     case actuator_command sdk ep enableActuator s of
       (ok, s1) \<Rightarrow>
         (let s2 = in_world (processEvents sdk) (set_enabled motorId ok s1);
              s3 = (case ie_modeCache s2 motorId of
                      None \<Rightarrow> s2
                    | Some mode \<Rightarrow> if ok then in_world (processEvents sdk) (activate_mode sdk motorId ep mode s2) else s2);
              s4 = snd (updateCacheLocked sdk motorId (syncSharedIntentLocked motorId IntentEnable s3))
          in (ep_enabled (endpoint_of motorId s4), s4)))"

definition ecb_Disable :: "'w actuator_sdk \<Rightarrow> motor_id \<Rightarrow> 'w InnfosEcbProtocol \<Rightarrow> bool \<times> 'w InnfosEcbProtocol" where
  "ecb_Disable sdk mid = with_endpoint sdk mid (\<lambda>motorId ep s.
     case actuator_command sdk ep disableActuator s of
       (ok, s1) \<Rightarrow>
         (let s2 = in_world (processEvents sdk) s1;
              s3 = (if ok then set_enabled motorId False s2 else s2)
          in (ok, snd (updateCacheLocked sdk motorId (syncSharedIntentLocked motorId IntentDisable s3)))))"

definition ecb_Stop :: "'w actuator_sdk \<Rightarrow> motor_id \<Rightarrow> 'w InnfosEcbProtocol \<Rightarrow> bool \<times> 'w InnfosEcbProtocol" where
  "ecb_Stop sdk mid s =
     (case ecb_setVelocity sdk mid 0 s of
        (ok, s1) \<Rightarrow> (ok, if ok then syncSharedIntentLocked (toRawMotorId mid) IntentHold s1 else s1))"

definition valid_cache :: "u16 \<Rightarrow> 'w InnfosEcbProtocol \<Rightarrow> MotorCache option" where
  "valid_cache motorId s =
     (case ie_caches s motorId of None \<Rightarrow> None | Some c \<Rightarrow> if mc_valid c then Some c else None)"

definition ecb_ResetFault :: "'w actuator_sdk \<Rightarrow> motor_id \<Rightarrow> 'w InnfosEcbProtocol \<Rightarrow> bool \<times> 'w InnfosEcbProtocol" where
  "ecb_ResetFault sdk mid = with_endpoint sdk mid (\<lambda>motorId ep s.
     let s1 = in_world (processEvents sdk) (do_command sdk ep clearError s);
         s2 = snd (updateCacheLocked sdk motorId (syncSharedIntentLocked motorId IntentRecover s1));
         errorCode = (case valid_cache motorId s2 of None \<Rightarrow> 0 | Some c \<Rightarrow> mc_errorCode c)
     in (errorCode = 0, s2))"

section \<open>Readings\<close>

text \<open>From the cache if there is one, otherwise from the actuator; a failure reads as zero.\<close>

definition read_through ::
    "'w actuator_sdk \<Rightarrow> motor_id \<Rightarrow> (MotorCache \<Rightarrow> 'v) \<Rightarrow> 'v \<Rightarrow> 'w InnfosEcbProtocol \<Rightarrow> 'v \<times> 'w InnfosEcbProtocol" where
  "read_through sdk mid field absent s =
     (let rawMotorId = toRawMotorId mid
      in case valid_cache rawMotorId s of
           Some c \<Rightarrow> (field c, s)
         | None \<Rightarrow> (case updateCacheLocked sdk rawMotorId s of
                     (ok, s1) \<Rightarrow> (if ok then (case ie_caches s1 rawMotorId of None \<Rightarrow> absent | Some c \<Rightarrow> field c) else absent, s1)))"

definition ecb_getPosition :: "'w actuator_sdk \<Rightarrow> motor_id \<Rightarrow> 'w InnfosEcbProtocol \<Rightarrow> int \<times> 'w InnfosEcbProtocol" where
  "ecb_getPosition sdk mid = read_through sdk mid mc_positionRaw 0"

definition ecb_getCurrent :: "'w actuator_sdk \<Rightarrow> motor_id \<Rightarrow> 'w InnfosEcbProtocol \<Rightarrow> i16 \<times> 'w InnfosEcbProtocol" where
  "ecb_getCurrent sdk mid = read_through sdk mid mc_currentRaw 0"

definition ecb_getVelocity :: "'w actuator_sdk \<Rightarrow> motor_id \<Rightarrow> 'w InnfosEcbProtocol \<Rightarrow> i32 \<times> 'w InnfosEcbProtocol" where
  "ecb_getVelocity sdk mid = read_through sdk mid (\<lambda>c. scast (mc_velocityRaw c)) 0"

definition ecb_hasFault :: "'w actuator_sdk \<Rightarrow> motor_id \<Rightarrow> 'w InnfosEcbProtocol \<Rightarrow> bool \<times> 'w InnfosEcbProtocol" where
  "ecb_hasFault sdk mid = read_through sdk mid mc_fault False"

definition ecb_isEnabled :: "motor_id \<Rightarrow> 'w InnfosEcbProtocol \<Rightarrow> bool" where
  "ecb_isEnabled mid s =
     (case valid_cache (toRawMotorId mid) s of
        Some c \<Rightarrow> mc_enabled c
      | None \<Rightarrow> (case ie_endpoints s (toRawMotorId mid) of None \<Rightarrow> False | Some ep \<Rightarrow> ep_enabled ep))"

section \<open>Configuration\<close>

definition ecb_configurePositionLimits ::
    "'w actuator_sdk \<Rightarrow> motor_id \<Rightarrow> i32 \<Rightarrow> i32 \<Rightarrow> bool \<Rightarrow> 'w InnfosEcbProtocol \<Rightarrow> bool \<times> 'w InnfosEcbProtocol" where
  "ecb_configurePositionLimits sdk mid minPositionRaw maxPositionRaw enable = with_endpoint sdk mid (\<lambda>motorId ep s.
     let s1 = do_command sdk ep (setMinimumPosition (ddiv (dbl_of_int (sint minPositionRaw)) kPositionRawPerRevolution)) s;
         s2 = do_command sdk ep (setMaximumPosition (ddiv (dbl_of_int (sint maxPositionRaw)) kPositionRawPerRevolution)) s1
     in (True, do_command sdk ep (enablePositionLimit enable) s2))"

definition ecb_setPositionOffset :: "'w actuator_sdk \<Rightarrow> motor_id \<Rightarrow> i32 \<Rightarrow> 'w InnfosEcbProtocol \<Rightarrow> bool \<times> 'w InnfosEcbProtocol" where
  "ecb_setPositionOffset sdk mid offsetRaw = with_endpoint sdk mid (\<lambda>motorId ep s.
     (True, do_command sdk ep (sdk_setPositionOffset (ddiv (dbl_of_int (sint offsetRaw)) kPositionRawPerRevolution)) s))"

definition configureMotorRouting :: "motor_id \<Rightarrow> string \<Rightarrow> bool \<Rightarrow> 'w InnfosEcbProtocol \<Rightarrow> 'w InnfosEcbProtocol" where
  "configureMotorRouting mid ipAddress autoDiscovery s =
     s\<lparr>ie_routes := (ie_routes s)(toRawMotorId mid \<mapsto>
         \<lparr>ro_autoDiscovery = (autoDiscovery \<or> ie_defaultAutoDiscovery s),
          ro_fixedIp = (if ipAddress = [] then ie_defaultIp s else ipAddress)\<rparr>)\<rparr>"

definition configureMotionProfile ::
    "motor_id \<Rightarrow> dbl \<Rightarrow> dbl \<Rightarrow> dbl \<Rightarrow> dbl \<Rightarrow> dbl \<Rightarrow> 'w InnfosEcbProtocol \<Rightarrow> 'w InnfosEcbProtocol" where
  "configureMotionProfile mid positionMaxRpm positionAcc positionDec velocityAcc velocityDec s =
     (let d = default_profile
      in s\<lparr>ie_motionProfiles := (ie_motionProfiles s)(toRawMotorId mid \<mapsto>
           \<lparr>mp_positionMaxRpm = clampToFinite positionMaxRpm (mp_positionMaxRpm d),
            mp_positionAccelerationRpmS = clampToFinite positionAcc (mp_positionAccelerationRpmS d),
            mp_positionDecelerationRpmS = clampToFinite positionDec (mp_positionDecelerationRpmS d),
            mp_velocityAccelerationRpmS = clampToFinite velocityAcc (mp_velocityAccelerationRpmS d),
            mp_velocityDecelerationRpmS = clampToFinite velocityDec (mp_velocityDecelerationRpmS d)\<rparr>)\<rparr>)"

text \<open>The conversion to \<open>int\<close> is that of a value that fits; otherwise the code has no defined value.\<close>

definition ecb_setRefreshRateHz :: "dbl \<Rightarrow> 'w InnfosEcbProtocol \<Rightarrow> 'w InnfosEcbProtocol" where
  "ecb_setRefreshRateHz hz s =
     s\<lparr>ie_refreshIntervalMs :=
         (if \<not> isfinite hz \<or> dle hz (Fin 0) then 20 else max 1 (llround 0 (ddiv (Fin 1000) hz)))\<rparr>"

section \<open>The refresh thread\<close>

text \<open>A step of \<open>refreshLoop\<close>: reading the list of motors, updating one of them, sleeping.\<close>

definition refresh_thread_step :: "'w actuator_sdk \<Rightarrow> 'w InnfosEcbProtocol \<Rightarrow> 'w InnfosEcbProtocol" where
  "refresh_thread_step sdk s =
     (case ie_refreshThread s of
        NoThread \<Rightarrow> s
      | Returned \<Rightarrow> s
      | LoopHead \<Rightarrow>
          if \<not> ie_refreshRunning s then s\<lparr>ie_refreshThread := Returned\<rparr>
          else (case ensureControllerLocked sdk s of
                  (ok, s1) \<Rightarrow> (if ok then in_world (processEvents sdk) s1 else s1)
                    \<lparr>ie_refreshThread := Updating (ie_refreshIds s1) (ie_refreshIntervalMs s1)\<rparr>)
      | Updating [] interval \<Rightarrow> s\<lparr>ie_refreshThread := Sleeping interval\<rparr>
      | Updating (motorId # ids) interval \<Rightarrow> (snd (updateCacheLocked sdk motorId s))\<lparr>ie_refreshThread := Updating ids interval\<rparr>
      | Sleeping interval \<Rightarrow> (sleep_ms sdk interval s)\<lparr>ie_refreshThread := LoopHead\<rparr>)"

text \<open>
  \<open>stopRefreshThread\<close> clears the flag and waits for the thread: the remaining steps of the thread are run,
  at most one for each motor left, the sleep and the test of the flag.
\<close>

definition steps_left :: "refresh_thread \<Rightarrow> nat" where
  "steps_left t =
     (case t of NoThread \<Rightarrow> 0 | Returned \<Rightarrow> 0 | LoopHead \<Rightarrow> 1 | Sleeping _ \<Rightarrow> 2 | Updating ids _ \<Rightarrow> length ids + 3)"

definition stopRefreshThread :: "'w actuator_sdk \<Rightarrow> 'w InnfosEcbProtocol \<Rightarrow> 'w InnfosEcbProtocol" where
  "stopRefreshThread sdk s =
     (if \<not> ie_refreshRunning s then s
      else let s1 = s\<lparr>ie_refreshRunning := False\<rparr>
           in ((refresh_thread_step sdk ^^ steps_left (ie_refreshThread s1)) s1)\<lparr>ie_refreshThread := NoThread\<rparr>)"

definition ecb_initializeMotorRefresh :: "'w actuator_sdk \<Rightarrow> motor_id list \<Rightarrow> 'w InnfosEcbProtocol \<Rightarrow> 'w InnfosEcbProtocol" where
  "ecb_initializeMotorRefresh sdk motorIds s =
     (let s1 = s\<lparr>ie_refreshIds := remdups (sort (map toRawMotorId motorIds))\<rparr>
      in if motorIds = [] then stopRefreshThread sdk s1
         else if ie_refreshRunning s1 then s1
         else s1\<lparr>ie_refreshRunning := True, ie_refreshThread := LoopHead\<rparr>)"

text \<open>The destructor.\<close>

definition delete_InnfosEcbProtocol :: "'w actuator_sdk \<Rightarrow> 'w InnfosEcbProtocol \<Rightarrow> 'w InnfosEcbProtocol" where
  "delete_InnfosEcbProtocol sdk s = stopRefreshThread sdk s"

end
