(* ===== verification/Innfos_Ecb_Correctness.thy ===== *)
theory Innfos_Ecb_Correctness
  imports Innfos_Ecb Call_Recording Driver_World
begin

text \<open>
  What holds of the ECB protocol object.  Every operation is built from a few kinds of steps on the object;
  the locales below carry a predicate from these steps to the operations, and each property of this
  theory is such a predicate.
\<close>

section \<open>What the small steps change\<close>

lemma on_sdk_snd: "snd (on_sdk f s) = s\<lparr>ie_world := snd (f (ie_world s))\<rparr>"
  by (simp add: on_sdk_def split_beta)

lemmas world_steps = on_sdk_snd in_world_def sleep_ms_def actuator_command_def online_at_def

lemma read_snd: "\<exists>w. snd (read_actuator sdk ep s) = s\<lparr>ie_world := w\<rparr>"
  by (simp add: read_actuator_def Let_def split_beta on_sdk_snd) blast

lemma controller_snd: "\<exists>w c. snd (ensureControllerLocked sdk s) = s\<lparr>ie_world := w, ie_controller := c\<rparr>"
proof (cases "ie_controller s")
  case True
  then have "snd (ensureControllerLocked sdk s) = s\<lparr>ie_world := ie_world s, ie_controller := ie_controller s\<rparr>"
    by (simp add: ensureControllerLocked_def)
  then show ?thesis by blast
next
  case False
  then show ?thesis by (simp add: ensureControllerLocked_def split_beta on_sdk_snd) blast
qed

lemma recovery_snd: "\<exists>t. snd (canAttemptRecoveryLocked sdk m s) = s\<lparr>ie_nextRecoveryTry := t\<rparr>"
proof -
  have "\<exists>t. s = s\<lparr>ie_nextRecoveryTry := t\<rparr>" by (rule exI [of _ "ie_nextRecoveryTry s"]) simp
  then show ?thesis by (auto simp: canAttemptRecoveryLocked_def Let_def split: option.split)
qed

lemma endpoints_kept [simp]:
  "ie_endpoints (snd (ensureControllerLocked sdk s)) = ie_endpoints s"
  "ie_endpoints (in_world f s) = ie_endpoints s"
  "ie_endpoints (sleep_ms sdk n s) = ie_endpoints s"
  "ie_endpoints (snd (online_at sdk ep s)) = ie_endpoints s"
  "ie_endpoints (do_command sdk ep c s) = ie_endpoints s"
  "ie_endpoints (snd (canAttemptRecoveryLocked sdk m s)) = ie_endpoints s"
  "ie_endpoints (snd (read_actuator sdk ep s)) = ie_endpoints s"
  using controller_snd [of sdk s] recovery_snd [of sdk m s] read_snd [of sdk ep s] by (auto simp: world_steps)

lemma endpoints_kept_notes [simp]:
  "ie_endpoints (note_mode k mode s) = ie_endpoints s"
  "ie_endpoints (on_shared_store g s) = ie_endpoints s"
  by (simp_all add: note_mode_def on_shared_store_def split: option.split)

lemma endpoints_kept_reconnect [simp]:
  "ie_endpoints (snd (reconnect_loop sdk ep n s)) = ie_endpoints s"
  "ie_endpoints (snd (reconnectEndpointLocked sdk m s)) = ie_endpoints s"
proof -
  show loop: "ie_endpoints (snd (reconnect_loop sdk ep n s)) = ie_endpoints s" for ep n s
    by (induction n arbitrary: s) (simp_all add: split_beta)
  show "ie_endpoints (snd (reconnectEndpointLocked sdk m s)) = ie_endpoints s"
    by (simp add: reconnectEndpointLocked_def loop split_beta split: option.split)
qed

lemma endpoints_kept_profile [simp]:
  "ie_endpoints (fold (do_command sdk ep) calls s) = ie_endpoints s"
  "ie_endpoints (applyProfileForModeLocked sdk m mode s) = ie_endpoints s"
  "ie_endpoints (activate_mode sdk m ep mode s) = ie_endpoints s"
proof -
  show loop: "ie_endpoints (fold (do_command sdk ep) calls s) = ie_endpoints s" for ep calls s
    by (induction calls arbitrary: s) simp_all
  show "ie_endpoints (applyProfileForModeLocked sdk m mode s) = ie_endpoints s" for s
    by (simp add: applyProfileForModeLocked_def loop)
  then show "ie_endpoints (activate_mode sdk m ep mode s) = ie_endpoints s" by (simp add: activate_mode_def)
qed

lemma endpoints_kept_sync [simp]:
  "ie_endpoints (syncSharedFeedbackLocked sdk m c s) = ie_endpoints s"
  "ie_endpoints (syncSharedCommandLocked sdk m p v mode valid s) = ie_endpoints s"
  "ie_endpoints (syncSharedIntentLocked m intent s) = ie_endpoints s"
  by (simp_all add: syncSharedFeedbackLocked_def syncSharedCommandLocked_def syncSharedIntentLocked_def)

lemma resolved_cong: "ie_endpoints s = ie_endpoints t \<Longrightarrow> is_resolved m s = is_resolved m t"
  by (simp add: is_resolved_def)

lemma resolved_kept [simp]:
  "is_resolved m (in_world f s) = is_resolved m s" "is_resolved m (do_command sdk ep c s) = is_resolved m s"
  "is_resolved m (note_mode k mode s) = is_resolved m s" "is_resolved m (activate_mode sdk k ep mode s) = is_resolved m s"
  "is_resolved m (syncSharedCommandLocked sdk k p v mode valid s) = is_resolved m s"
  "is_resolved m (syncSharedIntentLocked k intent s) = is_resolved m s"
  "is_resolved m (snd (read_actuator sdk ep s)) = is_resolved m s"
  "is_resolved m (snd (online_at sdk ep s)) = is_resolved m s"
  "is_resolved m (snd (canAttemptRecoveryLocked sdk k s)) = is_resolved m s"
  "is_resolved m (snd (reconnectEndpointLocked sdk k s)) = is_resolved m s"
  "is_resolved m (snd (ensureControllerLocked sdk s)) = is_resolved m s"
  by (simp_all add: is_resolved_def)

lemma resolved_enabled [simp]: "is_resolved m (set_enabled k b s) = is_resolved m s"
  by (auto simp: is_resolved_def set_enabled_def map_modify_def map_at_def default_endpoint_def split: option.split)

text \<open>The endpoint of a motor carries its own id.\<close>

definition own_endpoint :: "u16 \<Rightarrow> 'w InnfosEcbProtocol \<Rightarrow> bool" where
  "own_endpoint motorId s \<longleftrightarrow> (\<forall>ep. ie_endpoints s motorId = Some ep \<longrightarrow> ep_actuatorId ep = ucast motorId)"

lemma own_id: "own_endpoint m s \<Longrightarrow> is_resolved m s \<Longrightarrow> ep_actuatorId (endpoint_of m s) = ucast m"
  by (auto simp: own_endpoint_def is_resolved_def endpoint_of_def split: option.splits)

text \<open>An actuator that is ready has an endpoint; so \<open>endpoints_.at\<close> finds one.\<close>

lemma reach_resolved: "fst (resolve_and_reach sdk m s) \<Longrightarrow> is_resolved m (snd (resolve_and_reach sdk m s))"
  by (auto simp: resolve_and_reach_def split_beta split: if_splits)

lemma ready_resolved: "fst (ensureEndpointReadyLocked sdk m s) \<Longrightarrow> is_resolved m (snd (ensureEndpointReadyLocked sdk m s))"
  by (auto simp: ensureEndpointReadyLocked_def split_beta reach_resolved split: if_splits)

section \<open>From steps to operations\<close>

text \<open>Steps that reach no further than the world and the recovery times.\<close>

locale ecb_keeps =
  fixes sdk :: "'w actuator_sdk" and m :: u16 and P :: "'w InnfosEcbProtocol \<Rightarrow> bool"
  assumes own: "P s \<Longrightarrow> own_endpoint m s"
    and P_controller: "P s \<Longrightarrow> P (snd (ensureControllerLocked sdk s))"
    and P_events: "P s \<Longrightarrow> P (in_world (processEvents sdk) s)"
    and P_sleep: "P s \<Longrightarrow> P (sleep_ms sdk n s)"
    and P_online: "P s \<Longrightarrow> P (snd (online_at sdk ep s))"
    and P_command: "P s \<Longrightarrow> ep_actuatorId ep = ucast m \<Longrightarrow> P (do_command sdk ep c s)"
    and P_recovery: "P s \<Longrightarrow> P (snd (canAttemptRecoveryLocked sdk m s))"
begin

lemma P_reconnect_loop: "P s \<Longrightarrow> ep_actuatorId ep = ucast m \<Longrightarrow> P (snd (reconnect_loop sdk ep n s))"
  by (induction n arbitrary: s) (simp_all add: split_beta P_online P_sleep P_events P_command)

lemma P_reconnect: "P s \<Longrightarrow> P (snd (reconnectEndpointLocked sdk m s))"
  using own [of s] P_controller [of s]
  by (auto simp: reconnectEndpointLocked_def split_beta own_endpoint_def split: option.split intro!: P_reconnect_loop)

end

text \<open>Steps that find an endpoint.\<close>

locale ecb_resolves = ecb_keeps +
  assumes P_lookup: "P s \<Longrightarrow> P (snd (on_sdk (lookupActuators sdk) s))"
    and P_endpoint: "P s \<Longrightarrow> id_in_range m \<Longrightarrow> ep_resolved ep \<Longrightarrow> ep_actuatorId ep = ucast m \<Longrightarrow>
      P (s\<lparr>ie_endpoints := (ie_endpoints s)(m \<mapsto> ep)\<rparr>)"
begin

lemma P_try:
  "P s \<Longrightarrow> id_in_range m \<Longrightarrow> ep_resolved ep \<Longrightarrow> ep_actuatorId ep = ucast m \<Longrightarrow> P (snd (try_endpoint sdk m ep s))"
  by (auto simp: try_endpoint_def split_beta intro!: P_online P_reconnect P_endpoint)

lemma chosen: "ep_resolved (choose_actuator aid ip auto final us d) \<Longrightarrow> \<not> ep_resolved d \<or> ep_actuatorId d = aid \<Longrightarrow>
  ep_actuatorId (choose_actuator aid ip auto final us d) = aid"
  by (induction aid ip auto final us d rule: choose_actuator.induct) (auto simp: Let_def split: if_splits)

lemma P_attempt:
  assumes "P s" and "id_in_range m"
  shows "P (snd (resolve_attempt sdk m auto ip final s))"
proof -
  obtain ok s1 where first: "(if \<not> auto \<and> ip \<noteq> []
      then try_endpoint sdk m \<lparr>ep_actuatorId = ucast m, ep_ipAddress = ip, ep_resolved = True, ep_enabled = False\<rparr> s
      else (False, s)) = (ok, s1)" by fastforce
  have "P (snd (ok, s1))" unfolding first [symmetric] using assms by (simp add: P_try)
  then have "P s1" by simp
  moreover obtain us s2 where lookup: "on_sdk (lookupActuators sdk) s1 = (us, s2)" by fastforce
  ultimately have "P s2" using P_lookup [of s1] by simp
  then show ?thesis
    using \<open>P s1\<close> assms(2) chosen [of "ucast m" ip auto final us default_endpoint]
    unfolding resolve_attempt_def first
    by (simp add: lookup Let_def default_endpoint_def P_try)
qed

lemma P_resolve_loop: "P s \<Longrightarrow> id_in_range m \<Longrightarrow> P (snd (resolve_loop sdk m auto ip n s))"
  by (induction n arbitrary: s) (auto simp: split_beta intro!: P_attempt P_sleep)

lemma P_resolve: "P s \<Longrightarrow> P (snd (resolveEndpointLocked sdk m s))"
  using P_controller [of s]
  by (auto simp: resolveEndpointLocked_def split_beta intro!: P_resolve_loop)

end

text \<open>An endpoint is found; reaching it.\<close>

locale ecb_finds = ecb_keeps +
  assumes P_found: "P s \<Longrightarrow> P (snd (resolveEndpointLocked sdk m s))"
begin

lemma P_arrive: "P s \<Longrightarrow> P (snd (resolve_and_reach sdk m s))"
  by (auto simp: resolve_and_reach_def split_beta intro!: P_found P_online P_recovery P_reconnect)

lemma P_ready: "P s \<Longrightarrow> P (snd (ensureEndpointReadyLocked sdk m s))"
  by (auto simp: ensureEndpointReadyLocked_def split_beta intro!: P_arrive P_online P_recovery P_reconnect P_controller)

end

sublocale ecb_resolves < found: ecb_finds sdk m P
  by unfold_locales (rule P_resolve)

text \<open>Reading the actuator.\<close>

locale ecb_updates = ecb_finds +
  assumes P_read: "P s \<Longrightarrow> is_resolved m s \<Longrightarrow> P (snd (read_actuator sdk (endpoint_of m s) s))"
    and P_cache: "P s \<Longrightarrow> is_resolved m s \<Longrightarrow> P (store_cache sdk m (cache_of r) s)"
begin

lemma P_update: "P s \<Longrightarrow> P (snd (updateCacheLocked sdk m s))"
  using ready_resolved [of sdk m s] P_ready [of s]
  by (auto simp: updateCacheLocked_def split_beta intro!: P_cache P_read)

end

text \<open>The remaining steps: what operations note.\<close>

locale ecb_operates = ecb_updates +
  assumes P_note: "P s \<Longrightarrow> is_resolved m s \<Longrightarrow> P (note_mode m mode s)"
    and P_enabled: "P s \<Longrightarrow> is_resolved m s \<Longrightarrow> P (set_enabled m b s)"
    and P_target: "P s \<Longrightarrow> P (syncSharedCommandLocked sdk m p v mode valid s)"
    and P_intent: "P s \<Longrightarrow> P (syncSharedIntentLocked m intent s)"
begin

lemma P_calls: "P s \<Longrightarrow> ep_actuatorId ep = ucast m \<Longrightarrow> P (fold (do_command sdk ep) calls s)"
  by (induction calls arbitrary: s) (simp_all add: P_command)

lemma P_activate: "P s \<Longrightarrow> ep_actuatorId ep = ucast m \<Longrightarrow> P (activate_mode sdk m ep mode s)"
  using own_id [OF own, of "do_command sdk ep (activateActuatorMode (profile_mode mode)) s"]
  by (auto simp: activate_mode_def applyProfileForModeLocked_def intro!: P_calls P_command)

lemma P_ensure_mode: "P s \<Longrightarrow> is_resolved m s \<Longrightarrow> ep_actuatorId ep = ucast m \<Longrightarrow> P (ensure_mode sdk m ep mode s)"
  by (auto simp: ensure_mode_def intro!: P_note P_activate)

lemma P_with:
  assumes "P s" and "\<And>ep s. P s \<Longrightarrow> is_resolved m s \<Longrightarrow> ep_actuatorId ep = ucast m \<Longrightarrow> P (snd (body m ep s))"
  shows "P (snd (with_endpoint sdk m body s))"
  using assms ready_resolved [of sdk m s] P_ready [of s] own_id [OF own]
  by (auto simp: with_endpoint_def toRawMotorId_def Let_def split_beta)

lemma P_read_through: "P s \<Longrightarrow> P (snd (read_through sdk m field absent s))"
  by (auto simp: read_through_def toRawMotorId_def Let_def split_beta P_update split: option.split)

lemma P_velocity: "P s \<Longrightarrow> P (snd (ecb_setVelocity sdk m v s))"
  unfolding ecb_setVelocity_def Let_def
  by (rule P_with) (auto intro!: P_intent P_target P_events P_command P_ensure_mode)

lemma P_position: "P s \<Longrightarrow> P (snd (ecb_setPosition sdk m v s))"
  unfolding ecb_setPosition_def Let_def
  by (rule P_with) (auto intro!: P_intent P_target P_events P_command P_ensure_mode)

lemma P_mode: "P s \<Longrightarrow> P (snd (ecb_setMode sdk m mode s))"
  unfolding ecb_setMode_def Let_def
  by (rule P_with) (auto intro!: P_update P_target P_note P_events P_activate)

lemma P_enable: "P s \<Longrightarrow> P (snd (ecb_Enable sdk m s))"
  unfolding ecb_Enable_def Let_def
  by (rule P_with)
    (auto simp: split_beta intro!: P_update P_intent P_events P_activate P_enabled P_command split: option.split)

lemma P_disable: "P s \<Longrightarrow> P (snd (ecb_Disable sdk m s))"
  unfolding ecb_Disable_def Let_def
  by (rule P_with) (auto simp: split_beta intro!: P_update P_intent P_events P_enabled P_command)

lemma P_stop: "P s \<Longrightarrow> P (snd (ecb_Stop sdk m s))"
  by (auto simp: ecb_Stop_def split_beta toRawMotorId_def intro!: P_intent P_velocity)

lemma P_reset: "P s \<Longrightarrow> P (snd (ecb_ResetFault sdk m s))"
  unfolding ecb_ResetFault_def Let_def
  by (rule P_with) (auto intro!: P_update P_intent P_events P_command)

lemma P_limits: "P s \<Longrightarrow> P (snd (ecb_configurePositionLimits sdk m lo hi e s))"
  unfolding ecb_configurePositionLimits_def Let_def by (rule P_with) (auto intro!: P_command)

lemma P_offset: "P s \<Longrightarrow> P (snd (ecb_setPositionOffset sdk m n s))"
  unfolding ecb_setPositionOffset_def by (rule P_with) (auto intro!: P_command)

end

text \<open>The operations on one motor, as data.\<close>

datatype ecb_operation =
    OpSetMode MotorMode | OpSetVelocity i32 | OpSetPosition i32 | OpQuickSetPosition i32 | OpEnable | OpDisable | OpStop
  | OpResetFault | OpGetPosition | OpGetCurrent | OpGetVelocity | OpHasFault | OpLimits i32 i32 bool | OpOffset i32 | OpRefresh

text \<open>Whether the operation reports success (a reading always does) and the object afterwards.\<close>

fun perform :: "'w actuator_sdk \<Rightarrow> u16 \<Rightarrow> ecb_operation \<Rightarrow> 'w InnfosEcbProtocol \<Rightarrow> bool \<times> 'w InnfosEcbProtocol" where
  "perform sdk mid (OpSetMode mode) s = ecb_setMode sdk mid mode s"
| "perform sdk mid (OpSetVelocity v) s = ecb_setVelocity sdk mid v s"
| "perform sdk mid (OpSetPosition p) s = ecb_setPosition sdk mid p s"
| "perform sdk mid (OpQuickSetPosition p) s = ecb_quickSetPosition sdk mid p s"
| "perform sdk mid OpEnable s = ecb_Enable sdk mid s"
| "perform sdk mid OpDisable s = ecb_Disable sdk mid s"
| "perform sdk mid OpStop s = ecb_Stop sdk mid s"
| "perform sdk mid OpResetFault s = ecb_ResetFault sdk mid s"
| "perform sdk mid OpGetPosition s = (True, snd (ecb_getPosition sdk mid s))"
| "perform sdk mid OpGetCurrent s = (True, snd (ecb_getCurrent sdk mid s))"
| "perform sdk mid OpGetVelocity s = (True, snd (ecb_getVelocity sdk mid s))"
| "perform sdk mid OpHasFault s = (True, snd (ecb_hasFault sdk mid s))"
| "perform sdk mid (OpLimits lo hi enable) s = ecb_configurePositionLimits sdk mid lo hi enable s"
| "perform sdk mid (OpOffset n) s = ecb_setPositionOffset sdk mid n s"
| "perform sdk mid OpRefresh s = updateCacheLocked sdk mid s"

context ecb_operates
begin

lemma P_perform: "P s \<Longrightarrow> P (snd (perform sdk m op s))"
  by (cases op) (simp_all add: P_mode P_velocity P_position P_enable P_disable P_stop P_reset P_limits P_offset P_update
      ecb_quickSetPosition_def ecb_getPosition_def ecb_getCurrent_def ecb_getVelocity_def ecb_hasFault_def P_read_through)

end

section \<open>What every operation keeps\<close>

text \<open>
  Endpoints carry the id of their motor, caches are valid and say fault exactly when there is an error code,
  and what has a cache or a mode has an endpoint.
\<close>

definition ecb_data :: "'w InnfosEcbProtocol \<Rightarrow> bool" where
  "ecb_data s \<longleftrightarrow>
     (\<forall>k ep. ie_endpoints s k = Some ep \<longrightarrow> id_in_range k \<and> ep_resolved ep \<and> ep_actuatorId ep = ucast k) \<and>
     (\<forall>k c. ie_caches s k = Some c \<longrightarrow>
        mc_valid c \<and> (mc_fault c \<longleftrightarrow> mc_errorCode c \<noteq> 0) \<and> mc_mode c \<noteq> ModeCSP \<and> ie_endpoints s k \<noteq> None) \<and>
     (\<forall>k. ie_modeCache s k \<noteq> None \<longrightarrow> ie_endpoints s k \<noteq> None)"

definition ecb_config :: "'w InnfosEcbProtocol \<Rightarrow> string \<times> bool \<times> u16 list \<times> int \<times> bool \<times> refresh_thread" where
  "ecb_config s = (ie_deviceName s, ie_sharedState s \<noteq> None, ie_refreshIds s, ie_refreshIntervalMs s, ie_refreshRunning s, ie_refreshThread s)"

text \<open>No feedback of an ECB axis of the device says that the mode is CSP.\<close>

definition no_csp :: "string \<Rightarrow> SharedDriverState \<Rightarrow> bool" where
  "no_csp device shared \<longleftrightarrow>
     (\<forall>k fb. getAxisFeedback shared (MakeAxisKey device ECB k) = Some fb \<longrightarrow> fb_modeValid fb \<longrightarrow> fb_mode fb \<noteq> ModeCSP)"

definition never_csp :: "'w InnfosEcbProtocol \<Rightarrow> bool" where
  "never_csp s \<longleftrightarrow> (\<forall>shared. ie_sharedState s = Some shared \<longrightarrow> no_csp (ie_deviceName s) shared)"

text \<open>An operation on motor \<open>m\<close>: the above, the configuration, and the endpoints of the other motors.\<close>

definition ecb_kept :: "u16 \<Rightarrow> string \<times> bool \<times> u16 list \<times> int \<times> bool \<times> refresh_thread \<Rightarrow> (u16 \<rightharpoonup> MotorEndpoint) \<Rightarrow> 'w InnfosEcbProtocol \<Rightarrow> bool" where
  "ecb_kept m X E s \<longleftrightarrow> ecb_data s \<and> never_csp s \<and> ecb_config s = X \<and> (\<forall>k. k \<noteq> m \<longrightarrow> ie_endpoints s k = E k)"

lemma kept_on_world: "ecb_kept m X E (s\<lparr>ie_world := w\<rparr>) = ecb_kept m X E s"
  by (simp add: ecb_kept_def ecb_data_def never_csp_def ecb_config_def)

lemma kept_controller: "ecb_kept m X E (s\<lparr>ie_world := w, ie_controller := c\<rparr>) = ecb_kept m X E s"
  by (simp add: ecb_kept_def ecb_data_def never_csp_def ecb_config_def)

lemma kept_recovery: "ecb_kept m X E (s\<lparr>ie_nextRecoveryTry := t\<rparr>) = ecb_kept m X E s"
  by (simp add: ecb_kept_def ecb_data_def never_csp_def ecb_config_def)

lemma data_endpoint:
  "ecb_data s \<Longrightarrow> id_in_range m \<Longrightarrow> ep_resolved ep \<Longrightarrow> ep_actuatorId ep = ucast m \<Longrightarrow>
   ecb_data (s\<lparr>ie_endpoints := (ie_endpoints s)(m \<mapsto> ep)\<rparr>)"
  by (auto simp: ecb_data_def)

lemma never_csp_cong: "ie_sharedState s = ie_sharedState t \<Longrightarrow> ie_deviceName s = ie_deviceName t \<Longrightarrow> never_csp s = never_csp t"
  by (simp add: never_csp_def)

lemma kept_endpoint:
  assumes "ecb_kept m X E s" and "id_in_range m" and "ep_resolved ep" and "ep_actuatorId ep = ucast m"
  shows "ecb_kept m X E (s\<lparr>ie_endpoints := (ie_endpoints s)(m \<mapsto> ep)\<rparr>)"
proof -
  have "never_csp (s\<lparr>ie_endpoints := (ie_endpoints s)(m \<mapsto> ep)\<rparr>) = never_csp s" by (rule never_csp_cong) simp_all
  then show ?thesis using assms data_endpoint [of s m ep] by (simp add: ecb_kept_def ecb_config_def)
qed

interpretation kept: ecb_resolves sdk m "ecb_kept m X E" for sdk :: "'w actuator_sdk" and m X E
proof
  fix s :: "'w InnfosEcbProtocol" assume P: "ecb_kept m X E s"
  show "own_endpoint m s" using P by (simp add: ecb_kept_def ecb_data_def own_endpoint_def)
  show "ecb_kept m X E (snd (ensureControllerLocked sdk s))" using controller_snd [of sdk s] P by (auto simp: kept_controller)
  show "ecb_kept m X E (snd (canAttemptRecoveryLocked sdk m s))" using recovery_snd [of sdk m s] P by (auto simp: kept_recovery)
qed (simp_all add: world_steps kept_on_world kept_endpoint)

lemma cache_of_facts: "mc_valid (cache_of r)" "mc_fault (cache_of r) = (mc_errorCode (cache_of r) \<noteq> 0)" "mc_mode (cache_of r) \<noteq> ModeCSP"
  by (auto simp: cache_of_def sdkModeToMotorMode_def split: option.splits ActuatorMode.splits)

lemma no_csp_feedback:
  assumes "no_csp device shared" and "\<And>fb. (fb_modeValid fb \<longrightarrow> fb_mode fb \<noteq> ModeCSP) \<Longrightarrow> fb_modeValid (f fb) \<longrightarrow> fb_mode (f fb) \<noteq> ModeCSP"
  shows "no_csp device (mutateAxisFeedback key f shared)"
proof -
  have "fb_modeValid fb \<longrightarrow> fb_mode fb \<noteq> ModeCSP"
    if g: "getAxisFeedback (mutateAxisFeedback key f shared) (MakeAxisKey device ECB k) = Some fb" for k fb
  proof (cases "MakeAxisKey device ECB k = key")
    case True
    have "fb_modeValid old \<longrightarrow> fb_mode old \<noteq> ModeCSP" if "old = touch_feedback key (getAxisFeedback shared key)" for old
      using assms(1) that True
      by (cases "getAxisFeedback shared key") (auto simp: no_csp_def touch_feedback_def default_feedback_def)
    from assms(2) [OF this [OF refl]] g True show ?thesis by (auto simp: recomputeAxisObservedLocked_def)
  next
    case False
    with g assms(1) show ?thesis by (auto simp: no_csp_def)
  qed
  then show ?thesis by (auto simp: no_csp_def)
qed

lemma no_csp_touched:
  assumes "no_csp device shared"
    and "\<And>k. getAxisFeedback t k = getAxisFeedback shared k \<or> getAxisFeedback t k = Some (touch_feedback k (getAxisFeedback shared k))"
  shows "no_csp device t"
  unfolding no_csp_def
proof (intro allI impI)
  fix k fb assume g: "getAxisFeedback t (MakeAxisKey device ECB k) = Some fb" "fb_modeValid fb"
  then show "fb_mode fb \<noteq> ModeCSP"
    using assms(1) assms(2) [of "MakeAxisKey device ECB k"]
    by (cases "getAxisFeedback shared (MakeAxisKey device ECB k)") (auto simp: no_csp_def touch_feedback_def default_feedback_def)
qed

lemma no_csp_others:
  assumes "no_csp device shared"
  shows "no_csp device (mutateAxisCommand key g shared)" and "no_csp device (setAxisIntent key i shared)"
proof -
  show "no_csp device (mutateAxisCommand key g shared)"
    by (rule no_csp_touched [OF assms]) (metis getAxisFeedback_frame(2) getAxisFeedback_same(1))
  show "no_csp device (setAxisIntent key i shared)"
    by (rule no_csp_touched [OF assms]) (metis getAxisFeedback_frame(3) getAxisFeedback_same(2))
qed

lemma kept_store:
  assumes "ecb_kept m X E s" and "\<And>shared. no_csp (ie_deviceName s) shared \<Longrightarrow> no_csp (ie_deviceName s) (f shared)"
  shows "ecb_kept m X E (on_shared_store f s)"
  using assms by (auto simp: on_shared_store_def ecb_kept_def ecb_data_def never_csp_def ecb_config_def split: option.split)

lemma data_cache:
  assumes "ecb_data s" and "is_resolved m s"
  shows "ecb_data (s\<lparr>ie_caches := (ie_caches s)(m \<mapsto> cache_of r),
    ie_endpoints := map_modify default_endpoint m (\<lambda>ep. ep\<lparr>ep_enabled := b\<rparr>) (ie_endpoints s),
    ie_modeCache := (if v then (ie_modeCache s)(m \<mapsto> mode) else ie_modeCache s)\<rparr>)"
  using assms by (auto simp: ecb_data_def is_resolved_def map_modify_def map_at_def cache_of_facts split: option.splits)

lemma kept_cache:
  assumes "ecb_kept m X E s" and "is_resolved m s"
  shows "ecb_kept m X E (store_cache sdk m (cache_of r) s)"
proof -
  let ?t = "s\<lparr>ie_caches := (ie_caches s)(m \<mapsto> cache_of r),
    ie_endpoints := map_modify default_endpoint m (\<lambda>ep. ep\<lparr>ep_enabled := mc_enabled (cache_of r)\<rparr>) (ie_endpoints s),
    ie_modeCache := (if mc_modeValid (cache_of r) then (ie_modeCache s)(m \<mapsto> mc_mode (cache_of r)) else ie_modeCache s)\<rparr>"
  have "never_csp ?t = never_csp s" by (rule never_csp_cong) simp_all
  then have "ecb_kept m X E ?t"
    using assms data_cache [OF _ assms(2)] by (simp add: ecb_kept_def ecb_config_def map_modify_def)
  then show ?thesis
    unfolding store_cache_def syncSharedFeedbackLocked_def
    by (auto simp: ecb_feedback_def cache_of_facts intro!: kept_store no_csp_feedback)
qed

lemma kept_on_sync:
  "ecb_kept m X E s \<Longrightarrow> ecb_kept m X E (syncSharedCommandLocked sdk k p v mode valid s)"
  "ecb_kept m X E s \<Longrightarrow> ecb_kept m X E (syncSharedIntentLocked k intent s)"
  by (simp_all add: syncSharedCommandLocked_def syncSharedIntentLocked_def kept_store no_csp_others)

lemma data_enabled: "ecb_data s \<Longrightarrow> is_resolved m s \<Longrightarrow> ecb_data (set_enabled m b s)"
  by (auto simp: set_enabled_def ecb_data_def is_resolved_def map_modify_def map_at_def split: option.splits)

lemma kept_notes:
  assumes "ecb_kept m X E s" and "is_resolved m s"
  shows "ecb_kept m X E (note_mode m mode s)" and "ecb_kept m X E (set_enabled m b s)"
proof -
  have csp: "never_csp (note_mode m mode s) = never_csp s" "never_csp (set_enabled m b s) = never_csp s"
    by (rule never_csp_cong; simp add: note_mode_def set_enabled_def)+
  show "ecb_kept m X E (note_mode m mode s)"
    using assms csp by (auto simp: note_mode_def ecb_kept_def ecb_data_def ecb_config_def is_resolved_def split: option.splits)
  show "ecb_kept m X E (set_enabled m b s)"
    using assms csp data_enabled [of s m b]
    by (auto simp: ecb_kept_def ecb_config_def set_enabled_def map_modify_def)
qed

lemma kept_read: "ecb_kept m X E s \<Longrightarrow> ecb_kept m X E (snd (read_actuator sdk ep s))"
  using read_snd [of sdk ep s] by (auto simp: kept_on_world)

interpretation kept: ecb_operates sdk m "ecb_kept m X E" for sdk m X E
  by unfold_locales (simp_all add: kept_read kept_cache kept_notes kept_on_sync)

section \<open>Runs\<close>

text \<open>
  What can happen to the object: its operations, its configuration, its refresh thread, and what others do to
  the store: commands, intents, registrations and the axes of other devices, but no CSP mode among the feedback of
  its own axes, whose modes only this object writes.
\<close>

inductive ecb_step :: "'w actuator_sdk \<Rightarrow> 'w InnfosEcbProtocol \<Rightarrow> 'w InnfosEcbProtocol \<Rightarrow> bool" for sdk :: "'w actuator_sdk" where
  ecb_operation: "ecb_step sdk s (snd (perform sdk mid op s))"
| ecb_routing: "ecb_step sdk s (configureMotorRouting mid ip automatic s)"
| ecb_profile: "ecb_step sdk s (configureMotionProfile mid a b c d e s)"
| ecb_rate: "ecb_step sdk s (ecb_setRefreshRateHz hz s)"
| ecb_refresh: "ecb_step sdk s (ecb_initializeMotorRefresh sdk ids s)"
| ecb_thread: "ecb_step sdk s (refresh_thread_step sdk s)"
| ecb_others: "no_csp (ie_deviceName s) shared \<Longrightarrow> ecb_step sdk s (s\<lparr>ie_sharedState := Some shared\<rparr>)"

inductive ecb_reachable :: "'w actuator_sdk \<Rightarrow> 'w InnfosEcbProtocol \<Rightarrow> bool" for sdk :: "'w actuator_sdk" where
  ecb_start: "s = new_InnfosEcbProtocol w spec store name \<Longrightarrow>
    (\<And>shared. store = Some shared \<Longrightarrow> no_csp (ie_deviceName s) shared) \<Longrightarrow> ecb_reachable sdk s"
| ecb_next: "ecb_reachable sdk s \<Longrightarrow> ecb_step sdk s t \<Longrightarrow> ecb_reachable sdk t"

inductive_cases ecb_stepE: "ecb_step sdk s t"

lemma kept_self: "ecb_data s \<Longrightarrow> never_csp s \<Longrightarrow> ecb_kept m (ecb_config s) (ie_endpoints s) s"
  by (simp add: ecb_kept_def)

lemma kept_parts:
  assumes "ecb_kept m X E s"
  shows "ecb_data s" and "never_csp s" and "ecb_config s = X" and "k \<noteq> m \<Longrightarrow> ie_endpoints s k = E k"
  using assms by (simp_all add: ecb_kept_def)

text \<open>What is known of every motor, and of the refresh thread.\<close>

definition thread_ok :: "'w InnfosEcbProtocol \<Rightarrow> bool" where
  "thread_ok s \<longleftrightarrow> (ie_refreshRunning s \<longleftrightarrow> ie_refreshThread s \<noteq> NoThread) \<and> ie_refreshThread s \<noteq> Returned"

definition ecb_inv :: "'w InnfosEcbProtocol \<Rightarrow> bool" where
  "ecb_inv s \<longleftrightarrow> ecb_data s \<and> never_csp s \<and> thread_ok s \<and> 1 \<le> ie_refreshIntervalMs s \<and>
     sorted (ie_refreshIds s) \<and> distinct (ie_refreshIds s)"

text \<open>A step of the refresh thread keeps the data, and the configuration but for the place of the thread.\<close>

definition same_settings :: "'w InnfosEcbProtocol \<Rightarrow> 'w InnfosEcbProtocol \<Rightarrow> bool" where
  "same_settings s t \<longleftrightarrow> ie_deviceName t = ie_deviceName s \<and> ie_refreshIds t = ie_refreshIds s \<and>
     ie_refreshIntervalMs t = ie_refreshIntervalMs s \<and> ie_refreshRunning t = ie_refreshRunning s"

lemma same_settings_trans: "same_settings s t \<Longrightarrow> same_settings t u \<Longrightarrow> same_settings s u"
  by (simp add: same_settings_def)

lemma update_keeps:
  assumes "ecb_data s" and "never_csp s"
  shows "ecb_data (snd (updateCacheLocked sdk k s))" and "never_csp (snd (updateCacheLocked sdk k s))"
    and "ecb_config (snd (updateCacheLocked sdk k s)) = ecb_config s"
  by (rule kept_parts [OF kept.P_update [OF kept_self [OF assms]]])+

lemma thread_fields:
  "ecb_data (s\<lparr>ie_refreshThread := t\<rparr>) = ecb_data s" "never_csp (s\<lparr>ie_refreshThread := t\<rparr>) = never_csp s"
  "same_settings u (s\<lparr>ie_refreshThread := t\<rparr>) = same_settings u s"
  by (simp_all add: ecb_data_def never_csp_def same_settings_def)

lemma config_same: "ecb_config t = ecb_config s \<Longrightarrow> same_settings s t"
  by (simp add: ecb_config_def same_settings_def)

lemma world_fields:
  "ecb_data (s\<lparr>ie_world := w\<rparr>) = ecb_data s" "never_csp (s\<lparr>ie_world := w\<rparr>) = never_csp s"
  "ecb_config (s\<lparr>ie_world := w\<rparr>) = ecb_config s"
  "ecb_data (s\<lparr>ie_world := w, ie_controller := c\<rparr>) = ecb_data s" "never_csp (s\<lparr>ie_world := w, ie_controller := c\<rparr>) = never_csp s"
  "ecb_config (s\<lparr>ie_world := w, ie_controller := c\<rparr>) = ecb_config s"
  "ecb_data (s\<lparr>ie_controller := c\<rparr>) = ecb_data s" "never_csp (s\<lparr>ie_controller := c\<rparr>) = never_csp s"
  by (simp_all add: ecb_data_def never_csp_def ecb_config_def)

lemma thread_step_keeps:
  assumes "ecb_data s" and "never_csp s"
  shows "ecb_data (refresh_thread_step sdk s) \<and> never_csp (refresh_thread_step sdk s) \<and> same_settings s (refresh_thread_step sdk s)"
proof -
  obtain w c where head: "snd (ensureControllerLocked sdk s) = s\<lparr>ie_world := w, ie_controller := c\<rparr>" using controller_snd [of sdk s] by blast
  note update = update_keeps [OF assms]
  show ?thesis
  proof (cases "ie_refreshThread s")
    case (Updating ids interval)
    then show ?thesis
      using assms update config_same [OF update(3)]
      by (cases ids) (auto simp: refresh_thread_step_def thread_fields same_settings_def)
  qed (use assms head in \<open>auto simp: refresh_thread_step_def thread_fields world_steps world_fields config_same split_beta same_settings_def\<close>)
qed

lemma thread_steps_keep:
  "ecb_data s \<Longrightarrow> never_csp s \<Longrightarrow>
   ecb_data ((refresh_thread_step sdk ^^ n) s) \<and> never_csp ((refresh_thread_step sdk ^^ n) s) \<and>
   same_settings s ((refresh_thread_step sdk ^^ n) s)"
proof (induction n)
  case (Suc n)
  then show ?case
    using thread_step_keeps [of "(refresh_thread_step sdk ^^ n) s" sdk] same_settings_trans by (auto simp del: funpow.simps simp: funpow.simps(2)) 
qed (simp add: same_settings_def)

text \<open>Without the flag every step of the thread brings it closer to its end.\<close>

lemma thread_step_left:
  assumes "ecb_data s" and "never_csp s" and "\<not> ie_refreshRunning s" and "steps_left (ie_refreshThread s) = Suc n"
  shows "steps_left (ie_refreshThread (refresh_thread_step sdk s)) = n"
proof (cases "ie_refreshThread s")
  case (Updating ids interval)
  then show ?thesis using assms by (cases ids) (simp_all add: refresh_thread_step_def steps_left_def)
qed (use assms in \<open>simp_all add: refresh_thread_step_def steps_left_def\<close>)

lemma thread_ends:
  "ecb_data s \<Longrightarrow> never_csp s \<Longrightarrow> \<not> ie_refreshRunning s \<Longrightarrow> steps_left (ie_refreshThread s) = n \<Longrightarrow>
   steps_left (ie_refreshThread ((refresh_thread_step sdk ^^ n) s)) = 0"
proof (induction n arbitrary: s)
  case (Suc n)
  have "ecb_data (refresh_thread_step sdk s)" "never_csp (refresh_thread_step sdk s)" "\<not> ie_refreshRunning (refresh_thread_step sdk s)"
    using thread_step_keeps [OF Suc.prems(1,2), of sdk] Suc.prems(3) by (simp_all add: same_settings_def)
  from Suc.IH [OF this thread_step_left [OF Suc.prems]] show ?case by (simp add: funpow_swap1)
qed simp

lemma steps_left_0: "steps_left t = 0 \<longleftrightarrow> t = NoThread \<or> t = Returned"
  by (cases t) (simp_all add: steps_left_def)

lemma stop_keeps:
  assumes "ecb_data s" and "never_csp s" and "thread_ok s"
  shows "ecb_data (stopRefreshThread sdk s) \<and> never_csp (stopRefreshThread sdk s) \<and> thread_ok (stopRefreshThread sdk s) \<and>
    ie_refreshIntervalMs (stopRefreshThread sdk s) = ie_refreshIntervalMs s \<and>
    ie_refreshIds (stopRefreshThread sdk s) = ie_refreshIds s \<and> ie_refreshThread (stopRefreshThread sdk s) = NoThread"
proof (cases "ie_refreshRunning s")
  case True
  let ?s = "s\<lparr>ie_refreshRunning := False\<rparr>"
  have "ecb_data ?s" "never_csp ?s" using assms by (simp_all add: ecb_data_def never_csp_def)
  from thread_steps_keep [OF this, of "steps_left (ie_refreshThread ?s)" sdk] True show ?thesis
    by (simp add: stopRefreshThread_def Let_def thread_fields same_settings_def thread_ok_def)
qed (use assms in \<open>simp add: stopRefreshThread_def thread_ok_def\<close>)

lemma perform_keeps:
  assumes "ecb_data s" and "never_csp s"
  shows "ecb_data (snd (perform sdk k op s))" and "never_csp (snd (perform sdk k op s))"
    and "ecb_config (snd (perform sdk k op s)) = ecb_config s"
    and "j \<noteq> k \<Longrightarrow> ie_endpoints (snd (perform sdk k op s)) j = ie_endpoints s j"
  by (rule kept_parts [OF kept.P_perform [OF kept_self [OF assms]]]; assumption?)+

lemma initialize_keeps:
  assumes "ecb_inv s"
  shows "ecb_inv (ecb_initializeMotorRefresh sdk ids s)"
proof -
  let ?s = "s\<lparr>ie_refreshIds := remdups (sort (map toRawMotorId ids))\<rparr>"
  have s: "ecb_data ?s" "never_csp ?s" "thread_ok ?s" "1 \<le> ie_refreshIntervalMs ?s"
    using assms by (simp_all add: ecb_inv_def ecb_data_def never_csp_def thread_ok_def)
  show ?thesis
    using s stop_keeps [OF s(1-3), of sdk] distinct_remdups sorted_remdups
    by (auto simp: ecb_initializeMotorRefresh_def Let_def ecb_inv_def thread_ok_def ecb_data_def never_csp_def)
qed

lemma thread_step_ok:
  assumes "ecb_inv s"
  shows "ecb_inv (refresh_thread_step sdk s)"
proof -
  have inv: "ecb_data s" "never_csp s" "thread_ok s" using assms by (simp_all add: ecb_inv_def)
  note keep = thread_step_keeps [OF inv(1,2), of sdk]
  have "thread_ok (refresh_thread_step sdk s)"
  proof (cases "ie_refreshThread s")
    case (Updating ids interval)
    then show ?thesis using inv(3) keep
      by (cases ids) (auto simp: refresh_thread_step_def thread_ok_def same_settings_def)
  qed (use inv(3) keep in \<open>auto simp: refresh_thread_step_def thread_ok_def same_settings_def split_beta\<close>)
  with keep assms show ?thesis by (simp add: ecb_inv_def same_settings_def)
qed

lemma step_keeps_inv: "ecb_step sdk s t \<Longrightarrow> ecb_inv s \<Longrightarrow> ecb_inv t"
proof (induction rule: ecb_step.induct)
  case (ecb_operation s mid op)
  then show ?case
    using perform_keeps(1-3) [of s sdk mid op] by (auto simp: ecb_inv_def ecb_config_def thread_ok_def)
next
  case (ecb_rate s hz)
  then show ?case
    by (auto simp: ecb_inv_def ecb_data_def never_csp_def thread_ok_def ecb_setRefreshRateHz_def)
next
  case (ecb_others s shared)
  then show ?case
    by (auto simp: ecb_inv_def ecb_data_def never_csp_def no_csp_def thread_ok_def ecb_axis_key_def)
next
  case (ecb_refresh s ids) then show ?case by (rule initialize_keeps)
next
  case (ecb_thread s) then show ?case by (rule thread_step_ok)
qed (auto simp: ecb_inv_def ecb_data_def never_csp_def thread_ok_def configureMotorRouting_def
    configureMotionProfile_def Let_def)

section \<open>The address of a motor\<close>

definition at_address :: "u16 \<Rightarrow> u8 \<Rightarrow> string \<Rightarrow> 'w InnfosEcbProtocol \<Rightarrow> bool" where
  "at_address k a ip s \<longleftrightarrow> (\<exists>ep. ie_endpoints s k = Some ep \<and> ep_actuatorId ep = a \<and> ep_ipAddress ep = ip)"

lemma at_address_cong: "ie_endpoints s k = ie_endpoints t k \<Longrightarrow> at_address k a ip s = at_address k a ip t"
  by (simp add: at_address_def)

lemma address_resolved: "ecb_data s \<Longrightarrow> at_address m a ip s \<Longrightarrow> is_resolved m s"
  by (auto simp: at_address_def is_resolved_def ecb_data_def)

lemma address_found:
  assumes "ecb_kept m X E s" and "at_address k a ip s"
  shows "at_address k a ip (snd (resolveEndpointLocked sdk m s))"
proof (cases "k = m")
  case True
  then show ?thesis
    using assms address_resolved [of s m a ip] by (simp add: resolveEndpointLocked_def ecb_kept_def)
next
  case False
  have "ecb_kept m (ecb_config s) (ie_endpoints s) (snd (resolveEndpointLocked sdk m s))"
    using assms(1) by (intro kept.P_resolve kept_self) (simp_all add: ecb_kept_def)
  from kept_parts(4) [OF this False] assms(2) show ?thesis by (simp add: at_address_def)
qed

lemma address_noted:
  "at_address k a ip s \<Longrightarrow> at_address k a ip (set_enabled m b s)"
  "at_address k a ip s \<Longrightarrow> at_address k a ip (store_cache sdk m c s)"
  by (auto simp: at_address_def set_enabled_def store_cache_def map_modify_def)

lemma at_address_kept [simp]:
  "at_address k a ip (snd (ensureControllerLocked sdk s)) = at_address k a ip s"
  "at_address k a ip (in_world f s) = at_address k a ip s"
  "at_address k a ip (sleep_ms sdk n s) = at_address k a ip s"
  "at_address k a ip (snd (online_at sdk ep s)) = at_address k a ip s"
  "at_address k a ip (do_command sdk ep c s) = at_address k a ip s"
  "at_address k a ip (snd (canAttemptRecoveryLocked sdk m s)) = at_address k a ip s"
  "at_address k a ip (snd (read_actuator sdk ep s)) = at_address k a ip s"
  "at_address k a ip (note_mode m mode s) = at_address k a ip s"
  "at_address k a ip (syncSharedCommandLocked sdk m p v mode valid s) = at_address k a ip s"
  "at_address k a ip (syncSharedIntentLocked m intent s) = at_address k a ip s"
  by (simp_all add: at_address_def)

lemmas kept_steps = kept.own kept.P_controller kept.P_events kept.P_sleep kept.P_online kept.P_command kept.P_recovery
  kept.P_resolve kept_read kept_cache kept_notes kept_on_sync

interpretation address: ecb_operates sdk m "\<lambda>s. ecb_kept m X E s \<and> at_address k a ip s"
  for sdk :: "'w actuator_sdk" and m X E k a ip
proof unfold_locales
  show "own_endpoint m s" if "ecb_kept m X E s \<and> at_address k a ip s" for s :: "'w InnfosEcbProtocol"
    using that kept.own by blast
qed (auto simp: kept_steps address_noted intro: address_found)

lemma update_address:
  "ecb_data s \<Longrightarrow> never_csp s \<Longrightarrow> at_address k a ip s \<Longrightarrow> at_address k a ip (snd (updateCacheLocked sdk m s))"
  using address.P_update [of m "ecb_config s" "ie_endpoints s" s k a ip sdk] by (simp add: kept_self)

lemma thread_step_address:
  assumes "ecb_data s" and "never_csp s" and "at_address k a ip s"
  shows "at_address k a ip (refresh_thread_step sdk s)"
proof (cases "ie_refreshThread s")
  case (Updating ids interval)
  then show ?thesis
    using assms(3) update_address [OF assms] by (cases ids) (auto simp: refresh_thread_step_def at_address_def)
next
  case LoopHead
  have "at_address k a ip (snd (ensureControllerLocked sdk s))" using assms(3) by simp
  then show ?thesis
    using assms(3) by (simp add: refresh_thread_step_def LoopHead split_beta) (simp add: at_address_def)
next
  case (Sleeping interval)
  have "at_address k a ip (sleep_ms sdk interval s)" using assms(3) by simp
  then show ?thesis by (simp add: refresh_thread_step_def Sleeping) (simp add: at_address_def)
qed (use assms in \<open>simp_all add: refresh_thread_step_def\<close>)

lemma thread_steps_address:
  "ecb_data s \<Longrightarrow> never_csp s \<Longrightarrow> at_address k a ip s \<Longrightarrow> at_address k a ip ((refresh_thread_step sdk ^^ n) s)"
proof (induction n)
  case (Suc n)
  with thread_steps_keep [of s n sdk] show ?case by (simp add: thread_step_address)
qed simp

lemma step_address:
  assumes "ecb_step sdk s t" and "ecb_inv s" and "at_address k a ip s"
  shows "at_address k a ip t"
  using assms
proof (induction rule: ecb_step.induct)
  case (ecb_operation s mid op)
  then show ?case
    using address.P_perform [of mid "ecb_config s" "ie_endpoints s" s k a ip sdk op] by (simp add: kept_self ecb_inv_def)
next
  case (ecb_refresh s ids)
  let ?s = "s\<lparr>ie_refreshIds := remdups (sort (map toRawMotorId ids)), ie_refreshRunning := False\<rparr>"
  have "ecb_data ?s" "never_csp ?s" "at_address k a ip ?s"
    using ecb_refresh by (simp_all add: ecb_inv_def ecb_data_def never_csp_def at_address_def)
  from thread_steps_address [OF this, of "steps_left (ie_refreshThread s)" sdk] ecb_refresh(2) show ?case
    by (auto simp: ecb_initializeMotorRefresh_def stopRefreshThread_def Let_def at_address_def)
next
  case (ecb_thread s)
  then show ?case by (simp add: thread_step_address ecb_inv_def)
qed (auto simp: at_address_def configureMotorRouting_def configureMotionProfile_def ecb_setRefreshRateHz_def Let_def)

text \<open>An actuator that does not answer at its address is not ready.\<close>

lemma online_answer: "fst (online_at sdk ep s) = fst (isOnline sdk (ep_actuatorId ep) (ep_ipAddress ep) (ie_world s))"
  by (simp add: online_at_def on_sdk_def split_beta)

lemma offline_not_ready:
  assumes "is_resolved k s" and "\<And>w. \<not> fst (isOnline sdk (ep_actuatorId (endpoint_of k s)) (ep_ipAddress (endpoint_of k s)) w)"
  shows "\<not> fst (ensureEndpointReadyLocked sdk k s)"
proof -
  have off: "\<not> fst (online_at sdk (endpoint_of k s) t)" for t using assms(2) by (simp add: online_answer)
  have same: "endpoint_of k t = endpoint_of k s \<and> is_resolved k t" if "ie_endpoints t = ie_endpoints s" for t
    using that assms(1) resolved_cong [of t s k] by (simp add: endpoint_of_def)
  have late: "\<not> fst (resolve_and_reach sdk k t)" if "ie_endpoints t = ie_endpoints s" for t
    using same [OF that] off by (simp add: resolve_and_reach_def resolveEndpointLocked_def split_beta endpoint_of_def)
  show ?thesis
    using same [of "snd (ensureControllerLocked sdk s)"] off
    by (simp add: ensureEndpointReadyLocked_def split_beta late)
qed

lemma not_ready_refused:
  assumes "\<not> fst (ensureEndpointReadyLocked sdk k s)" and "op \<notin> {OpGetPosition, OpGetCurrent, OpGetVelocity, OpHasFault}"
  shows "\<not> fst (perform sdk k op s)"
  using assms
  by (cases op) (auto simp: ecb_setMode_def ecb_setVelocity_def ecb_setPosition_def ecb_quickSetPosition_def ecb_Enable_def
      ecb_Disable_def ecb_Stop_def ecb_ResetFault_def ecb_configurePositionLimits_def ecb_setPositionOffset_def updateCacheLocked_def
      with_endpoint_def toRawMotorId_def Let_def split_beta)

section \<open>The calls to the SDK\<close>

text \<open>The SDK with a list of the calls on actuators.\<close>

definition recorded_sdk :: "'w actuator_sdk \<Rightarrow> ('w \<times> (u8 \<times> string \<times> actuator_call) list) actuator_sdk" where
  "recorded_sdk sdk = \<lparr>
     initController = on_fst (initController sdk), processEvents = (\<lambda>(w, c). (processEvents sdk w, c)),
     lookupActuators = on_fst (lookupActuators sdk), isOnline = (\<lambda>a ip. on_fst (isOnline sdk a ip)),
     sdk_call = (\<lambda>call a ip. noting (\<lambda>_. (a, ip, call)) (sdk_call sdk call a ip)),
     sdk_getPosition = (\<lambda>a ip. on_fst (sdk_getPosition sdk a ip)), sdk_getVelocity = (\<lambda>a ip. on_fst (sdk_getVelocity sdk a ip)),
     sdk_getCurrent = (\<lambda>a ip. on_fst (sdk_getCurrent sdk a ip)), isEnable = (\<lambda>a ip. on_fst (isEnable sdk a ip)),
     getErrorCode = (\<lambda>a ip. on_fst (getErrorCode sdk a ip)), getActuatorMode = (\<lambda>a ip. on_fst (getActuatorMode sdk a ip)),
     sdk_clock = \<lparr>ck_now = (\<lambda>w. ck_now (sdk_clock sdk) (fst w)), ck_sleep_for = (\<lambda>d (w, c). (ck_sleep_for (sdk_clock sdk) d w, c))\<rparr>\<rparr>"

definition actuator_calls :: "('w \<times> 'c list) InnfosEcbProtocol \<Rightarrow> 'c list" where
  "actuator_calls s = snd (ie_world s)"

text \<open>All calls after \<open>L\<close> are to actuator \<open>m\<close>.\<close>

definition addressed :: "u16 \<Rightarrow> (u8 \<times> string \<times> actuator_call) list \<Rightarrow> ('w \<times> (u8 \<times> string \<times> actuator_call) list) InnfosEcbProtocol \<Rightarrow> bool" where
  "addressed m L s \<longleftrightarrow> (\<exists>new. actuator_calls s = L @ new \<and> (\<forall>c \<in> set new. fst c = ucast m))"

lemma snd_on_fst: "snd (snd (on_fst f w)) = snd w"
  by (simp add: on_fst_def split_beta)

lemma calls_kept [simp]:
  "actuator_calls (snd (ensureControllerLocked (recorded_sdk sdk) s)) = actuator_calls s"
  "actuator_calls (in_world (processEvents (recorded_sdk sdk)) s) = actuator_calls s"
  "actuator_calls (sleep_ms (recorded_sdk sdk) n s) = actuator_calls s"
  "actuator_calls (snd (online_at (recorded_sdk sdk) ep s)) = actuator_calls s"
  "actuator_calls (snd (canAttemptRecoveryLocked (recorded_sdk sdk) m s)) = actuator_calls s"
  "actuator_calls (snd (on_sdk (lookupActuators (recorded_sdk sdk)) s)) = actuator_calls s"
  "actuator_calls (snd (read_actuator (recorded_sdk sdk) ep s)) = actuator_calls s"
  "actuator_calls (note_mode m mode s) = actuator_calls s" "actuator_calls (set_enabled m b s) = actuator_calls s"
  "actuator_calls (on_shared_store f s) = actuator_calls s" "actuator_calls (s\<lparr>ie_endpoints := E\<rparr>) = actuator_calls s"
  by (simp_all add: actuator_calls_def world_steps ensureControllerLocked_def canAttemptRecoveryLocked_def Let_def split_beta
      recorded_sdk_def snd_on_fst read_actuator_def note_mode_def set_enabled_def on_shared_store_def split: option.split)

lemma store_world [simp]: "ie_world (on_shared_store f s) = ie_world s"
  by (simp add: on_shared_store_def split: option.split)

lemma calls_sync [simp]:
  "actuator_calls (syncSharedCommandLocked sdk m p v mode valid s) = actuator_calls s"
  "actuator_calls (syncSharedIntentLocked m intent s) = actuator_calls s"
  "actuator_calls (store_cache sdk m c s) = actuator_calls s"
  by (simp_all add: syncSharedCommandLocked_def syncSharedIntentLocked_def syncSharedFeedbackLocked_def store_cache_def)
    (simp_all add: actuator_calls_def)

lemma calls_command: "actuator_calls (do_command (recorded_sdk sdk) ep c s) = actuator_calls s @ [(ep_actuatorId ep, ep_ipAddress ep, c)]"
  by (simp add: actuator_calls_def world_steps recorded_sdk_def noting_def split_beta)

lemma addressed_command: "addressed m L s \<Longrightarrow> ep_actuatorId ep = ucast m \<Longrightarrow> addressed m L (do_command (recorded_sdk sdk) ep c s)"
  by (auto simp: addressed_def calls_command)

lemma addressed_cong: "actuator_calls t = actuator_calls s \<Longrightarrow> addressed m L t = addressed m L s"
  by (simp add: addressed_def)

lemma addressed_kept [simp]:
  "addressed m L (snd (ensureControllerLocked (recorded_sdk sdk) s)) = addressed m L s"
  "addressed m L (in_world (processEvents (recorded_sdk sdk)) s) = addressed m L s"
  "addressed m L (sleep_ms (recorded_sdk sdk) n s) = addressed m L s"
  "addressed m L (snd (online_at (recorded_sdk sdk) ep s)) = addressed m L s"
  "addressed m L (snd (canAttemptRecoveryLocked (recorded_sdk sdk) k s)) = addressed m L s"
  "addressed m L (snd (on_sdk (lookupActuators (recorded_sdk sdk)) s)) = addressed m L s"
  "addressed m L (snd (read_actuator (recorded_sdk sdk) ep s)) = addressed m L s"
  "addressed m L (note_mode k mode s) = addressed m L s" "addressed m L (set_enabled k b s) = addressed m L s"
  "addressed m L (s\<lparr>ie_endpoints := E\<rparr>) = addressed m L s"
  "addressed m L (syncSharedCommandLocked (recorded_sdk sdk) k p v mode valid s) = addressed m L s"
  "addressed m L (syncSharedIntentLocked k intent s) = addressed m L s"
  "addressed m L (store_cache (recorded_sdk sdk) k c s) = addressed m L s"
  by (rule addressed_cong; simp)+

interpretation calls: ecb_resolves "recorded_sdk sdk" m "\<lambda>s. ecb_kept m X E s \<and> addressed m L s"
  for sdk :: "'w actuator_sdk" and m X E L
proof unfold_locales
  show "own_endpoint m s" if "ecb_kept m X E s \<and> addressed m L s" for s :: "('w \<times> (u8 \<times> string \<times> actuator_call) list) InnfosEcbProtocol"
    using that kept.own by blast
qed (auto simp: kept_steps kept.P_lookup kept_endpoint addressed_command)

interpretation calls: ecb_operates "recorded_sdk sdk" m "\<lambda>s. ecb_kept m X E s \<and> addressed m L s"
  for sdk :: "'w actuator_sdk" and m X E L
  by unfold_locales (simp_all add: kept_steps)

text \<open>An id that does not fit into a byte changes nothing.\<close>

lemma out_of_range_ignored:
  assumes "\<not> id_in_range k" and "ecb_data s"
  shows "snd (perform sdk k op s) = s"
proof -
  have "ie_caches s k = None" using assms unfolding ecb_data_def by (metis option.exhaust)
  then show ?thesis
    using assms(1)
    by (cases op) (auto simp: ecb_setMode_def ecb_setVelocity_def ecb_setPosition_def ecb_quickSetPosition_def ecb_Enable_def
        ecb_Disable_def ecb_Stop_def ecb_ResetFault_def ecb_configurePositionLimits_def ecb_setPositionOffset_def updateCacheLocked_def
        ecb_getPosition_def ecb_getCurrent_def ecb_getVelocity_def ecb_hasFault_def read_through_def valid_cache_def
        with_endpoint_def toRawMotorId_def Let_def split_beta)
qed

section \<open>CSP\<close>

text \<open>The store holds the wish for CSP mode on an axis.\<close>

definition wants_csp :: "u16 \<Rightarrow> 'w InnfosEcbProtocol \<Rightarrow> bool" where
  "wants_csp k s \<longleftrightarrow> (\<exists>shared c. ie_sharedState s = Some shared \<and> getAxisCommand shared (ecb_axis_key k s) = Some c \<and>
     ac_desiredModeValid c \<and> ac_desiredMode c = ModeCSP)"

lemma wants_csp_cong:
  "ie_sharedState t = ie_sharedState s \<Longrightarrow> ie_deviceName t = ie_deviceName s \<Longrightarrow> wants_csp k t = wants_csp k s"
  by (simp add: wants_csp_def ecb_axis_key_def)

lemma wants_csp_kept [simp]:
  "wants_csp k (snd (ensureControllerLocked sdk s)) = wants_csp k s"
  "wants_csp k (in_world f s) = wants_csp k s"
  "wants_csp k (sleep_ms sdk n s) = wants_csp k s"
  "wants_csp k (snd (online_at sdk ep s)) = wants_csp k s"
  "wants_csp k (do_command sdk ep c s) = wants_csp k s"
  "wants_csp k (snd (canAttemptRecoveryLocked sdk m s)) = wants_csp k s"
  "wants_csp k (snd (on_sdk (lookupActuators sdk) s)) = wants_csp k s"
  "wants_csp k (snd (read_actuator sdk ep s)) = wants_csp k s"
  "wants_csp k (s\<lparr>ie_endpoints := E\<rparr>) = wants_csp k s"
  using controller_snd [of sdk s] recovery_snd [of sdk m s] read_snd [of sdk ep s]
  by (auto simp: world_steps wants_csp_def ecb_axis_key_def)

lemma wants_csp_feedback:
  assumes "wants_csp k s"
  shows "wants_csp k (on_shared_store (mutateAxisFeedback key f) s)"
proof -
  from assms obtain shared c where c: "ie_sharedState s = Some shared" "getAxisCommand shared (ecb_axis_key k s) = Some c"
    "ac_desiredModeValid c" "ac_desiredMode c = ModeCSP" by (auto simp: wants_csp_def)
  have "\<exists>c'. getAxisCommand (mutateAxisFeedback key f shared) (ecb_axis_key k s) = Some c' \<and>
      ac_desiredModeValid c' \<and> ac_desiredMode c' = ModeCSP"
    using c(2-4) by (cases "ecb_axis_key k s = key") (auto simp: touch_command_def)
  then show ?thesis using c(1) assms by (auto simp: on_shared_store_def wants_csp_def ecb_axis_key_def)
qed

lemma wants_csp_cache: "wants_csp k s \<Longrightarrow> wants_csp k (store_cache sdk m c s)"
  unfolding store_cache_def syncSharedFeedbackLocked_def
  by (auto intro!: wants_csp_feedback) (auto simp: wants_csp_def ecb_axis_key_def)

interpretation csp: ecb_resolves sdk m "\<lambda>s. ecb_kept m X E s \<and> wants_csp k s" for sdk :: "'w actuator_sdk" and m X E k
proof unfold_locales
  show "own_endpoint m s" if "ecb_kept m X E s \<and> wants_csp k s" for s :: "'w InnfosEcbProtocol"
    using that kept.own by blast
qed (auto simp: kept_steps kept.P_lookup kept_endpoint)

interpretation csp: ecb_updates sdk m "\<lambda>s. ecb_kept m X E s \<and> wants_csp k s" for sdk :: "'w actuator_sdk" and m X E k
  by unfold_locales (simp_all add: kept_steps wants_csp_cache)

lemma update_csp:
  "ecb_data s \<Longrightarrow> never_csp s \<Longrightarrow> wants_csp k s \<Longrightarrow> wants_csp k (snd (updateCacheLocked sdk m s))"
  using csp.P_update [of m "ecb_config s" "ie_endpoints s" s k sdk] by (simp add: kept_self)

lemma updates_csp:
  "ecb_data s \<Longrightarrow> never_csp s \<Longrightarrow> wants_csp k s \<Longrightarrow>
   never_csp (fold (\<lambda>j u. snd (updateCacheLocked sdk j u)) js s) \<and> wants_csp k (fold (\<lambda>j u. snd (updateCacheLocked sdk j u)) js s)"
proof (induction js arbitrary: s)
  case (Cons j js)
  show ?case using Cons.IH [OF update_keeps(1,2) [OF Cons.prems(1,2)] update_csp [OF Cons.prems]] by simp
qed simp

lemma not_ready_csp:
  assumes "never_csp t" and "wants_csp k t" and "ie_sharedState t = Some shared" and "getAxisFeedback shared (ecb_axis_key k t) = Some fb"
  shows "\<not> MotionReady (Evaluate cfg fb (getAxisCommand shared (ecb_axis_key k t)) i h now)"
proof -
  obtain c where c: "getAxisCommand shared (ecb_axis_key k t) = Some c" "ac_desiredModeValid c" "ac_desiredMode c = ModeCSP"
    using assms(2,3) by (auto simp: wants_csp_def)
  moreover have "fb_modeValid fb \<longrightarrow> fb_mode fb \<noteq> ModeCSP"
    using assms(1,3,4) by (auto simp: never_csp_def no_csp_def ecb_axis_key_def)
  ultimately show ?thesis by (auto simp: MotionReady_def ReadyForRun_def Evaluate_def Let_def readyForRun_iff)
qed

lemma csp_command_noted:
  assumes "ie_sharedState s = Some shared" and "ie_deviceName s \<noteq> []"
  shows "wants_csp k (syncSharedCommandLocked sdk k p v ModeCSP valid s)"
  using assms by (auto simp: syncSharedCommandLocked_def on_shared_store_def wants_csp_def ecb_axis_key_def)

lemma csp_mode_set:
  assumes "ecb_data s" and "never_csp s" and "ie_sharedState s \<noteq> None" and "ie_deviceName s \<noteq> []"
    and "ecb_setMode sdk k ModeCSP s = (True, s1)"
  shows "ecb_data s1 \<and> never_csp s1 \<and> wants_csp k s1"
proof -
  let ?K = "ecb_kept k (ecb_config s) (ie_endpoints s)"
  define s2 where "s2 = snd (ensureEndpointReadyLocked sdk k s)"
  define s3 where "s3 = note_mode k ModeCSP (in_world (processEvents sdk) (activate_mode sdk k (endpoint_of k s2) ModeCSP s2))"
  have ready: "fst (ensureEndpointReadyLocked sdk k s)" and s1: "s1 = snd (updateCacheLocked sdk k (syncSharedCommandLocked sdk k 0 0 ModeCSP False s3))"
    using assms(5) by (auto simp: ecb_setMode_def with_endpoint_def toRawMotorId_def Let_def split_beta s2_def s3_def split: if_splits)
  have k2: "?K s2" "is_resolved k s2"
    using kept.found.P_ready [OF kept_self [OF assms(1,2)], of k sdk] ready_resolved [OF ready] by (simp_all add: s2_def)
  then have "?K s3" unfolding s3_def by (intro kept.P_note kept.P_events kept.P_activate) (simp_all add: own_id kept.own)
  moreover from kept_parts(3) [OF this] assms(3,4) obtain shared where "ie_sharedState s3 = Some shared" "ie_deviceName s3 \<noteq> []"
    by (auto simp: ecb_config_def)
  ultimately have K: "?K (syncSharedCommandLocked sdk k 0 0 ModeCSP False s3)"
    and w: "wants_csp k (syncSharedCommandLocked sdk k 0 0 ModeCSP False s3)"
    by (simp_all add: kept_on_sync csp_command_noted)
  then show ?thesis
    unfolding s1 using update_keeps [OF kept_parts(1,2) [OF K]] update_csp [OF kept_parts(1,2) [OF K] w] by simp
qed

section \<open>Properties\<close>

text \<open>An SDK whose actuators are all online, stand still and do what they are told.\<close>

definition witness_sdk :: "unit actuator_sdk" where
  "witness_sdk = \<lparr>initController = (\<lambda>w. (True, w)), processEvents = (\<lambda>w. w), lookupActuators = (\<lambda>w. ([], w)),
     isOnline = (\<lambda>a ip w. (ip = ''10.0.0.5'', w)), sdk_call = (\<lambda>c a ip w. (True, w)), sdk_getPosition = (\<lambda>a ip w. (Fin 0, w)),
     sdk_getVelocity = (\<lambda>a ip w. (Fin 0, w)), sdk_getCurrent = (\<lambda>a ip w. (Fin 0, w)), isEnable = (\<lambda>a ip w. (True, w)),
     getErrorCode = (\<lambda>a ip w. (0, w)), getActuatorMode = (\<lambda>a ip w. (Mode_Profile_Pos, w)),
     sdk_clock = \<lparr>ck_now = (\<lambda>_. 1), ck_sleep_for = (\<lambda>_ w. w)\<rparr>\<rparr>"

definition witness_object :: "'w \<Rightarrow> 'w InnfosEcbProtocol" where
  "witness_object w = new_InnfosEcbProtocol w ''ecb://10.0.0.5'' (Some empty_SharedDriverState) ''ecb0''"

lemma witness_fields:
  "ie_defaultIp (witness_object w) = ''10.0.0.5''" "ie_defaultAutoDiscovery (witness_object w) = False"
  "ie_routes (witness_object w) = Map.empty" "ie_endpoints (witness_object w) = Map.empty" "ie_caches (witness_object w) = Map.empty"
  "ie_controller (witness_object w) = False" "ie_sharedState (witness_object w) = Some empty_SharedDriverState"
  "ie_deviceName (witness_object w) = ''ecb0''" "ie_refreshRunning (witness_object w) = False" "ie_modeCache (witness_object w) = Map.empty"
  by (simp_all add: witness_object_def new_InnfosEcbProtocol_def startsWith_def kEcbPrefixText_def Let_def)

lemma witness_object_reachable: "ecb_reachable sdk (witness_object w)"
  by (rule ecb_start [OF witness_object_def]) (auto simp: empty_SharedDriverState_def getAxisFeedback_def no_csp_def)

lemma ecb_reachable_inv:
  assumes "ecb_reachable sdk s"
  shows "ecb_inv s"
  using assms
proof induction
  case (ecb_start s w spec store name)
  then show ?case
    by (auto simp: new_InnfosEcbProtocol_def Let_def ecb_inv_def ecb_data_def never_csp_def no_csp_def thread_ok_def ecb_axis_key_def)
qed (rule step_keeps_inv)

text \<open>
  C27: an ECB protocol object stays consistent through any sequence of operations, configuration changes, turns of its
  refresh thread and writes of others to the store: the endpoint of a motor is resolved and carries the
  id of that motor, which fits into a byte; what has a cached reading or a cached mode has an endpoint; a reading
  says fault exactly when it has an error code; the refresh interval is positive, the motors to refresh are in
  order and listed once, and the thread exists exactly while the running flag is set.
\<close>

theorem ecb_invariant:
  assumes "ecb_reachable sdk s"
  shows "ecb_inv s"
  using assms by (rule ecb_reachable_inv)

theorem ecb_invariant_witness:
  "ecb_inv (snd (perform witness_sdk 5 (OpSetVelocity 100) (ecb_initializeMotorRefresh witness_sdk [7, 5, 7] (witness_object ()))))"
  by (rule ecb_invariant [OF ecb_next [OF ecb_next [OF witness_object_reachable ecb_refresh] ecb_operation]])



text \<open>
  C28: the address of a motor is final.  Once an actuator has been found for a motor, its endpoint keeps the
  address through every run, and the search is never repeated: while the actuator does not answer at that
  address every operation but the readings fails, even if it has moved to another address.
\<close>

theorem ecb_address_is_final:
  assumes "ecb_reachable sdk s" and "ie_endpoints s k = Some ep" and "(ecb_step sdk)\<^sup>*\<^sup>* s t"
  shows "(\<exists>ep'. ie_endpoints t k = Some ep' \<and> ep_actuatorId ep' = ucast k \<and> ep_ipAddress ep' = ep_ipAddress ep) \<and>
    ((\<forall>w. \<not> fst (isOnline sdk (ucast k) (ep_ipAddress ep) w)) \<longrightarrow>
     op \<notin> {OpGetPosition, OpGetCurrent, OpGetVelocity, OpHasFault} \<longrightarrow> \<not> fst (perform sdk k op t))"
proof -
  have "ecb_inv s" by (rule ecb_reachable_inv [OF assms(1)])
  then have "at_address k (ucast k) (ep_ipAddress ep) s" using assms(2) by (auto simp: at_address_def ecb_inv_def ecb_data_def)
  with assms(3) \<open>ecb_inv s\<close> have t: "ecb_inv t \<and> at_address k (ucast k) (ep_ipAddress ep) t"
    by (induction rule: rtranclp_induct) (auto intro: step_keeps_inv step_address)
  then obtain ep' where ep: "ie_endpoints t k = Some ep'" "ep_actuatorId ep' = ucast k" "ep_ipAddress ep' = ep_ipAddress ep"
    by (auto simp: at_address_def)
  have "is_resolved k t" using t address_resolved by (auto simp: ecb_inv_def)
  moreover have "endpoint_of k t = ep'" using ep(1) by (simp add: endpoint_of_def)
  ultimately show ?thesis using ep offline_not_ready [of k t sdk] not_ready_refused [of sdk k t op] by auto
qed

text \<open>A motor that is configured at an address at which nothing answers.\<close>

definition silent_sdk :: "unit actuator_sdk" where
  "silent_sdk = witness_sdk\<lparr>isOnline := \<lambda>a ip w. (ip = ''10.0.0.9'', w)\<rparr>"

lemma unit_world [simp]: "s\<lparr>ie_world := w\<rparr> = s" for s :: "unit InnfosEcbProtocol"
  by (cases s) simp

lemma silent_taken_over:
  "\<exists>ep. ie_endpoints (snd (perform silent_sdk 5 OpRefresh (witness_object ()))) 5 = Some ep \<and> ep_ipAddress ep = ''10.0.0.5''"
proof -
  have off: "online_at silent_sdk ep s = (ep_ipAddress ep = ''10.0.0.9'', s)" for ep s
    by (simp add: online_at_def on_sdk_def silent_sdk_def)
  have other: "do_command silent_sdk ep c s = s" "in_world f s = s" "sleep_ms silent_sdk n s = s"
    "on_sdk (lookupActuators silent_sdk) s = ([], s)" "on_sdk (initController silent_sdk) s = (True, s)"
    for ep c f n and s :: "unit InnfosEcbProtocol"
    by (simp_all add: world_steps) (simp_all add: on_sdk_def silent_sdk_def witness_sdk_def)
  have retries: "kResolveRetryCount = Suc (Suc (Suc 0))" "kReconnectRetryCount = Suc (Suc 0)" and range: "id_in_range 5"
    by (simp_all add: kResolveRetryCount_def kReconnectRetryCount_def id_in_range_def)
  show ?thesis
    by (simp add: updateCacheLocked_def range ensureEndpointReadyLocked_def ensureControllerLocked_def is_resolved_def
        resolve_and_reach_def resolveEndpointLocked_def route_of_def witness_fields other retries
        resolve_attempt_def try_endpoint_def off reconnectEndpointLocked_def default_endpoint_def Let_def)
qed

theorem ecb_address_is_final_witness:
  "\<not> fst (perform silent_sdk 5 OpEnable (snd (perform silent_sdk 5 OpRefresh (witness_object ()))))"
proof -
  obtain ep where ep: "ie_endpoints (snd (perform silent_sdk 5 OpRefresh (witness_object ()))) 5 = Some ep" "ep_ipAddress ep = ''10.0.0.5''"
    using silent_taken_over by blast
  have "ecb_reachable silent_sdk (snd (perform silent_sdk 5 OpRefresh (witness_object ())))"
    by (rule ecb_next [OF witness_object_reachable ecb_operation])
  from ecb_address_is_final [OF this ep(1) rtranclp.rtrancl_refl, of OpEnable] ep(2) show ?thesis
    by (auto simp: silent_sdk_def)
qed

text \<open>A motor whose actuator answers, set to CSP mode.\<close>

lemma witness_csp_set:
  obtains s1 shared fb where "ecb_setMode witness_sdk 5 ModeCSP (witness_object ()) = (True, s1)" "ie_sharedState s1 = Some shared"
    "getAxisFeedback shared (ecb_axis_key 5 s1) = Some fb"
proof -
  have on: "online_at witness_sdk ep s = (ep_ipAddress ep = ''10.0.0.5'', s)" for ep s
    by (simp add: online_at_def on_sdk_def witness_sdk_def)
  have other: "do_command witness_sdk ep c s = s" "in_world f s = s" "on_sdk (initController witness_sdk) s = (True, s)"
    for ep c f and s :: "unit InnfosEcbProtocol"
    by (simp_all add: world_steps) (simp_all add: on_sdk_def witness_sdk_def)
  have retries: "kResolveRetryCount = Suc (Suc (Suc 0))" and range: "id_in_range 5"
    by (simp_all add: kResolveRetryCount_def id_in_range_def)
  let ?ep = "\<lparr>ep_actuatorId = 5, ep_ipAddress = ''10.0.0.5'', ep_resolved = True, ep_enabled = False\<rparr>"
  have ready: "ensureEndpointReadyLocked witness_sdk 5 (witness_object ()) =
      (True, witness_object ()\<lparr>ie_controller := True, ie_endpoints := [5 \<mapsto> ?ep]\<rparr>)"
    by (simp add: ensureEndpointReadyLocked_def ensureControllerLocked_def is_resolved_def resolve_and_reach_def resolveEndpointLocked_def
        route_of_def witness_fields other retries range resolve_attempt_def try_endpoint_def on endpoint_of_def)
  let ?s1 = "snd (ecb_setMode witness_sdk 5 ModeCSP (witness_object ()))"
  have set: "ecb_setMode witness_sdk 5 ModeCSP (witness_object ()) = (True, ?s1)"
    by (simp add: ecb_setMode_def with_endpoint_def toRawMotorId_def range ready)
  have again: "ensureEndpointReadyLocked witness_sdk 5 s = (True, s)"
    if "ie_controller s" "ie_endpoints s = [5 \<mapsto> ?ep]" for s
    using that by (simp add: ensureEndpointReadyLocked_def ensureControllerLocked_def is_resolved_def endpoint_of_def on)
  have read: "\<exists>r. read_actuator witness_sdk ep s = (r, s)" for ep s
    by (simp add: read_actuator_def Let_def split_beta on_sdk_snd)
  let ?s2 = "syncSharedCommandLocked witness_sdk 5 0 0 ModeCSP False
     (note_mode 5 ModeCSP (witness_object ()\<lparr>ie_controller := True, ie_endpoints := [5 \<mapsto> ?ep]\<rparr>))"
  have shared: "ie_controller ?s2" "ie_endpoints ?s2 = [5 \<mapsto> ?ep]" "\<exists>d. ie_sharedState ?s2 = Some d" "ie_deviceName ?s2 = ''ecb0''"
    by (simp_all add: syncSharedCommandLocked_def on_shared_store_def note_mode_def witness_fields)
  have "fold (do_command witness_sdk ep) cs s = s" for ep cs s by (induction cs) (simp_all add: other)
  then have s1: "?s1 = snd (updateCacheLocked witness_sdk 5 ?s2)"
    by (simp add: ecb_setMode_def with_endpoint_def toRawMotorId_def range ready activate_mode_def applyProfileForModeLocked_def other)
  obtain r where "read_actuator witness_sdk (endpoint_of 5 ?s2) ?s2 = (r, ?s2)" using read by blast
  then have s1: "?s1 = store_cache witness_sdk 5 (cache_of r) ?s2"
    unfolding s1 updateCacheLocked_def by (simp only: range again [OF shared(1,2)]) simp
  have "\<exists>shared fb. ie_sharedState ?s1 = Some shared \<and> getAxisFeedback shared (ecb_axis_key 5 ?s1) = Some fb"
    unfolding s1 using shared(3,4)
    by (auto simp: store_cache_def syncSharedFeedbackLocked_def on_shared_store_def cache_of_def ecb_axis_key_def)
  then show thesis using that [OF set] by blast
qed

text \<open>
  C29: an ECB axis in CSP mode is never ready to move.  Setting CSP mode reports success, but the mode that is
  read back is only ever position or velocity: however often the motors are read afterwards, the readiness of the axis
  stays refused.
\<close>

theorem ecb_csp_never_ready:
  assumes "ecb_reachable sdk s" and "ie_sharedState s \<noteq> None" and "ie_deviceName s \<noteq> []"
    and "ecb_setMode sdk k ModeCSP s = (True, s1)" and "t = fold (\<lambda>j u. snd (updateCacheLocked sdk j u)) js s1"
    and "ie_sharedState t = Some shared" and "getAxisFeedback shared (ecb_axis_key k t) = Some fb"
  shows "\<not> MotionReady (Evaluate cfg fb (getAxisCommand shared (ecb_axis_key k t)) i h now)"
proof -
  have "ecb_data s" "never_csp s" using ecb_reachable_inv [OF assms(1)] by (simp_all add: ecb_inv_def)
  from csp_mode_set [OF this assms(2-4)] have "ecb_data s1" "never_csp s1" "wants_csp k s1" by simp_all
  from updates_csp [OF this, of sdk js] have "never_csp t" "wants_csp k t" by (simp_all add: assms(5))
  then show ?thesis using assms(6,7) by (rule not_ready_csp)
qed

theorem ecb_csp_never_ready_witness:
  "\<exists>s1 shared fb. ecb_setMode witness_sdk 5 ModeCSP (witness_object ()) = (True, s1) \<and> ie_sharedState s1 = Some shared \<and>
     getAxisFeedback shared (ecb_axis_key 5 s1) = Some fb \<and>
     \<not> MotionReady (Evaluate default_readiness_config fb (getAxisCommand shared (ecb_axis_key 5 s1)) IntentNone None 1)"
proof -
  obtain s1 shared fb where w: "ecb_setMode witness_sdk 5 ModeCSP (witness_object ()) = (True, s1)" "ie_sharedState s1 = Some shared"
    "getAxisFeedback shared (ecb_axis_key 5 s1) = Some fb" by (rule witness_csp_set)
  have "\<not> MotionReady (Evaluate default_readiness_config fb (getAxisCommand shared (ecb_axis_key 5 s1)) IntentNone None 1)"
    by (rule ecb_csp_never_ready [OF witness_object_reachable _ _ w(1) _ w(2,3), where js = "[]"]) (simp_all add: witness_fields)
  with w show ?thesis by blast
qed

text \<open>Commanded values and what is read back of them.\<close>

lemma count_over:
  assumes "\<bar>n\<bar> \<le> 2147483648" and "1 \<le> d" and "d \<le> (10000 :: int)"
  shows "llround 0 (dmul (clampToFinite (ddiv (dbl_of_int n) (Fin (of_int d))) (Fin 0)) (Fin (of_int d))) = n"
proof -
  let ?d = "of_int d :: rat"
  have d: "1 \<le> ?d" "?d \<le> 10000" using assms(2,3) by simp_all
  have n: "\<bar>of_int n :: rat\<bar> \<le> 2147483648" using assms(1) by (metis of_int_abs of_int_le_iff of_int_numeral)
  have "\<bar>of_int n / ?d\<bar> \<le> \<bar>of_int n\<bar>" using d(1) by (simp add: abs_div_pos [symmetric] divide_le_eq mult_le_cancel_left1)
  then have "\<bar>of_int n / ?d\<bar> \<le> 2 ^ 34 * \<bar>1\<bar>" using n by simp
  from round64_counts [OF _ _ this] obtain v where
    v: "round64 (of_int n / ?d) = Fin v" "\<bar>v - of_int n / ?d\<bar> \<le> 1 / 524288" by (auto simp: power_int_le_one)
  have "\<bar>(v - of_int n / ?d) * ?d\<bar> \<le> 1 / 524288 * 10000"
    unfolding abs_mult using v(2) d by (intro mult_mono) simp_all
  then have e: "\<bar>v * ?d - of_int n\<bar> \<le> 10000 / 524288" using d(1) by (simp add: left_diff_distrib)
  then have "\<bar>v * ?d\<bar> \<le> 17179869184" using n by linarith
  then have "\<bar>v * ?d\<bar> \<le> 2 ^ 34 * \<bar>1\<bar>" by simp
  from round64_counts [OF _ _ this] obtain x where
    x: "round64 (v * ?d) = Fin x" "\<bar>x - v * ?d\<bar> \<le> 1 / 524288" by (auto simp: power_int_le_one)
  have "round_away x = n" using e x(2) by (intro round_away_unique) linarith
  moreover have "- (2 ^ 63) \<le> n" "n < 2 ^ 63" using assms(1) by (simp_all add: abs_le_iff)
  ultimately show ?thesis
    using v x assms(1) d(1) by (simp add: dbl_of_int_exact clampToFinite_def)
qed



section \<open>The object behind the device manager\<close>

text \<open>
  What the device manager asks of an ECB object, on the objects of this model: the store is the manager's,
  put into the object before a call and taken back after it.  Every object has a world of its own.
\<close>

definition with_store ::
    "('w InnfosEcbProtocol \<Rightarrow> 'r \<times> 'w InnfosEcbProtocol) \<Rightarrow> 'w InnfosEcbProtocol \<Rightarrow> SharedDriverState \<Rightarrow>
     'r \<times> 'w InnfosEcbProtocol \<times> SharedDriverState" where
  "with_store f p shared =
     (case f (p\<lparr>ie_sharedState := Some shared\<rparr>) of
        (r, q) \<Rightarrow> (r, q, case ie_sharedState q of None \<Rightarrow> shared | Some shared' \<Rightarrow> shared'))"

definition api_answer :: "bool \<times> 'v \<Rightarrow> outcome \<times> 'v" where
  "api_answer = map_prod Returns id"

definition innfos_api :: "'w actuator_sdk \<Rightarrow> 'w \<Rightarrow> 'w InnfosEcbProtocol ecb_api" where
  "innfos_api sdk w = \<lparr>
     eb_new = (\<lambda>device. new_InnfosEcbProtocol w device (Some empty_SharedDriverState) device),
     eb_setRefreshRateHz = ecb_setRefreshRateHz,
     eb_initializeMotorRefresh = (\<lambda>ids p shared. snd (with_store (\<lambda>s. ((), ecb_initializeMotorRefresh sdk ids s)) p shared)),
     eb_Enable = (\<lambda>mid. with_store (\<lambda>s. api_answer (ecb_Enable sdk mid s))),
     eb_Disable = (\<lambda>mid. with_store (\<lambda>s. api_answer (ecb_Disable sdk mid s))),
     eb_Stop = (\<lambda>mid. with_store (\<lambda>s. api_answer (ecb_Stop sdk mid s))),
     eb_ResetFault = (\<lambda>mid. with_store (\<lambda>s. api_answer (ecb_ResetFault sdk mid s))),
     eb_hasFault = (\<lambda>mid. with_store (\<lambda>s. api_answer (ecb_hasFault sdk mid s))),
     eb_isEnabled = ecb_isEnabled\<rparr>"

text \<open>What the manager does with an object are steps of the object.\<close>

lemma api_steps:
  assumes "ecb_reachable sdk p" and "no_csp (ie_deviceName p) shared"
  shows "ecb_reachable sdk (fst (snd (eb_Enable (innfos_api sdk w) mid p shared)))"
    and "ecb_reachable sdk (fst (snd (eb_Disable (innfos_api sdk w) mid p shared)))"
    and "ecb_reachable sdk (fst (snd (eb_Stop (innfos_api sdk w) mid p shared)))"
    and "ecb_reachable sdk (fst (snd (eb_ResetFault (innfos_api sdk w) mid p shared)))"
    and "ecb_reachable sdk (fst (snd (eb_hasFault (innfos_api sdk w) mid p shared)))"
    and "ecb_reachable sdk (fst (eb_initializeMotorRefresh (innfos_api sdk w) ids p shared))"
    and "ecb_reachable sdk (eb_setRefreshRateHz (innfos_api sdk w) hz p)"
proof -
  have s: "ecb_reachable sdk (p\<lparr>ie_sharedState := Some shared\<rparr>)" by (rule ecb_next [OF assms(1) ecb_others [OF assms(2)]])
  have steps: "ecb_reachable sdk (snd (perform sdk mid op (p\<lparr>ie_sharedState := Some shared\<rparr>)))" for op
    by (rule ecb_next [OF s ecb_operation])
  show "ecb_reachable sdk (fst (snd (eb_Enable (innfos_api sdk w) mid p shared)))"
    using steps [of OpEnable] by (simp add: innfos_api_def with_store_def api_answer_def split_beta)
  show "ecb_reachable sdk (fst (snd (eb_Disable (innfos_api sdk w) mid p shared)))"
    using steps [of OpDisable] by (simp add: innfos_api_def with_store_def api_answer_def split_beta)
  show "ecb_reachable sdk (fst (snd (eb_Stop (innfos_api sdk w) mid p shared)))"
    using steps [of OpStop] by (simp add: innfos_api_def with_store_def api_answer_def split_beta)
  show "ecb_reachable sdk (fst (snd (eb_ResetFault (innfos_api sdk w) mid p shared)))"
    using steps [of OpResetFault] by (simp add: innfos_api_def with_store_def api_answer_def split_beta)
  show "ecb_reachable sdk (fst (snd (eb_hasFault (innfos_api sdk w) mid p shared)))"
    using steps [of OpHasFault] by (simp add: innfos_api_def with_store_def api_answer_def split_beta)
  show "ecb_reachable sdk (fst (eb_initializeMotorRefresh (innfos_api sdk w) ids p shared))"
    using ecb_next [OF s ecb_refresh [where ids = ids]] by (simp add: innfos_api_def with_store_def)
  show "ecb_reachable sdk (eb_setRefreshRateHz (innfos_api sdk w) hz p)"
    using ecb_next [OF assms(1) ecb_rate [where hz = hz]] by (simp add: innfos_api_def)
qed

text \<open>The device manager with these objects is an \<open>IDeviceManager\<close> on which the lifecycle operations end.\<close>

interpretation innfos: steady_world driver_clock "manager_api \<lparr>me_ecb = innfos_api sdk w, me_open = opens, me_dm = dms\<rparr>"
  for sdk w opens dms
  by (rule steady.steady_world_axioms)

end
