(* ===== verification/Spec2Isabelle.thy ===== *)
theory Spec2Isabelle
  imports Operational_Coordinator Device_Runtime Mt_Can Eyou_Can_Correctness Damiao_Can_Correctness Lifecycle_Driver_Ops Driver_World Can_Driver_Hw_Invariant Lifecycle_Service_Gateway Motor_Maintenance Innfos_Ecb_Correctness
begin

text \<open>
  \<^bold>\<open>A model of the CAN motor driver and the theorems that make it correct.\<close>

  The program is a ROS driver for motors on CAN buses.  Commands and service requests enter
  from above; a lifecycle state machine (\<open>OperationalCoordinator\<close>) decides whether the motors may
  move, a command gate keeps stale commands back, protocol objects (one per device and motor
  family: \<open>MtCan\<close>, \<open>EyouCan\<close>, \<open>DamiaoCan\<close>, \<open>InnfosEcbProtocol\<close>) translate commands to CAN frames
  and responses to readings, a transmit worker per device (\<open>DeviceRuntime\<close>) queues the frames by
  priority and sends them over SocketCAN or UDP, a refresh thread per device asks the motors for
  their state, and a store shared by all (\<open>SharedDriverState\<close>) holds what is known of each axis,
  from which the readiness evaluator decides whether an axis may be enabled or run.  The device
  manager creates, reinitialises and shuts down what belongs to a device; the lifecycle
  operations act on the motors through it.

  \<^bold>\<open>Theories and what they model\<close>

  \<^item> \<open>Driver_Prelude\<close>: machine integers as words, \<open>operator[]\<close> of the standard maps, decimal
    printing, splitting words into bytes, CAN identifiers under the receive mask.
  \<^item> \<open>Can_Types\<close>: \<open>CanType.h\<close>, \<open>MotorID.h\<close>, \<open>CanProtocol.h\<close> (modes), \<open>CanTransport.h\<close> (frames, send
    results), \<open>CanTxDispatcher.h\<close> (requests and their priority, as the order of the categories).
  \<^item> \<open>Ieee_Double\<close>: the C++ \<open>double\<close>, with round-to-nearest-even arithmetic on rationals, overflow
    to the infinities and NaN; conversions to integers take the value of an out-of-range
    conversion as a parameter.
  \<^item> \<open>Safe_Command\<close> (\<open>SafeCommand.cpp\<close>): scaling and clamping of commands.
  \<^item> \<open>Axis_Command_Semantics\<close> (\<open>AxisCommandSemantics.h\<close>, the joint of \<open>CanDriverHwTypes.h\<close>): control
    modes, the selection of commands, units.
  \<^item> \<open>Shared_Driver_State\<close> (\<open>SharedDriverState.h\<close>): the store; its interface to every client is the
    locale \<open>axis_store\<close>, interpreted for feedback, commands, intents and device health.
  \<^item> \<open>Axis_Readiness\<close> (\<open>AxisReadinessEvaluator.h\<close>): the evaluation and the reason text.
  \<^item> \<open>Refresh_Scheduler\<close> (\<open>RefreshScheduler.h\<close>): the query plans of the three motor families.
  \<^item> \<open>Command_Gate\<close> (\<open>command_gate.cpp\<close>): the fresh-command latch and device events; what a client
    relies on is the locale \<open>command_latch\<close>, interpreted on the gate.
  \<^item> \<open>Operational_Coordinator\<close> (\<open>operational_coordinator.cpp\<close>, and the two gate callbacks of
    \<open>CanDriverRuntime.cpp\<close>): the lifecycle, with the driver operations as functions on a world
    of the caller; \<open>DoTransition\<close> also in the form in which another thread acts between its
    action and its final store.
  \<^item> \<open>Device_Runtime\<close> (\<open>DeviceRuntime.cpp\<close>): queues, coalescing of control frames, eviction, the
    worker loop as a machine whose steps are the critical sections, shutdown, statistics.
  \<^item> \<open>Protocol_Io\<close>: what the protocol objects share, and the locale \<open>read_slots\<close> of their read
    tracking, interpreted for both.
  \<^item> \<open>Mt_Rmd_Protocol\<close> (\<open>MtRmdProtocol.h\<close>) and \<open>Mt_Can\<close> (\<open>MtCan.cpp\<close>): the MT family.
  \<^item> \<open>Eyou_Can\<close> (\<open>EyouCan.cpp\<close>) and \<open>Eyou_Can_Correctness\<close>: the PP family; the blocking operations
    take what the other threads do while they wait.
  \<^item> \<open>Ieee_Single\<close>, \<open>Damiao_Can\<close> (\<open>DamiaoCan.cpp\<close>) and \<open>Damiao_Can_Correctness\<close>: binary32
    arithmetic and bit patterns, and the DM family.
  \<^item> \<open>Motor_Action_Executor\<close> (\<open>motor_action_executor.cpp\<close>, \<open>IDeviceManager.h\<close>) and
    \<open>Lifecycle_Driver_Ops\<close> (\<open>lifecycle_driver_ops.cpp\<close>): the driver operations behind the lifecycle
    requests, over a device manager and a clock that are parameters.
  \<^item> \<open>Device_Refresh\<close> (\<open>DeviceRefreshWorker.h\<close>, the tick and sleep functions of
    \<open>DeviceManager.cpp\<close>): the refresh thread; the locale \<open>issue_loop\<close> is the contract of its loops
    that stop at the first query issued.
  \<^item> \<open>Socket_Can_Controller\<close> (\<open>SocketCanController.cpp\<close>) and \<open>Udp_Can_Transport\<close>
    (\<open>UdpCanTransport.cpp\<close>): the transports; what the kernel answers is an argument.
  \<^item> \<open>Device_Manager\<close> (\<open>DeviceManager.cpp\<close>), \<open>Device_Manager_Correctness\<close>, and \<open>Driver_World\<close>: the
    manager; its view of a device and the invariant; the manager with all its threads as a step
    relation, and as the implementation of \<open>IDeviceManager\<close>, on which the locale \<open>steady_world\<close> of
    the lifecycle operations is interpreted.
  \<^item> \<open>Joint_Config_Parser\<close> (\<open>JointConfigParser.cpp\<close>): from the list of the parameter server to joint
    configurations, over \<open>XmlRpcValue\<close> as a tagged union.
  \<^item> \<open>Call_Recording\<close>: worlds that carry the list of the calls made, for statements about what is sent.
  \<^item> \<open>Can_Driver_Io\<close> (\<open>CanDriverIoRuntime.h\<close>): one control cycle, from reading the feedback over the
    choice, limiting and conversion of commands to what is sent.
  \<^item> \<open>Can_Driver_Runtime\<close> (\<open>CanDriverRuntime.cpp\<close>): the object that owns gate, lifecycle operations and
    coordinator; what it relies on in its owner's hooks is the locale \<open>quiet_hooks\<close>, and what the hooks
    may not touch the locale \<open>runtime_contract\<close>.
  \<^item> \<open>Can_Driver_Hw\<close> (\<open>CanDriverHW.cpp\<close>) and \<open>Can_Driver_Hw_Correctness\<close>: the hardware interface, with
    its parameters, joints, groups, startup synchronisation, operations and control cycle; both
    locales of the runtime are interpreted on its hooks, and \<open>command_latch\<close> on the runtime.
    \<open>Can_Driver_Hw_Invariant\<close>: the interface as a machine with its invariant; what a lifecycle
    request does to any preorder on the coordinator's world is the locale \<open>world_preorder\<close>.
  \<^item> \<open>Lifecycle_Service_Gateway\<close> (\<open>lifecycle_service_gateway.cpp\<close>): the services over the coordinator.
  \<^item> \<open>Motor_Maintenance\<close> (\<open>motor_maintenance_service.cpp\<close>, and its wiring in \<open>CanDriverHW.cpp\<close>): commands,
    mode, zero and limits of single motors, over the callbacks the service is configured with; what
    reading, waiting and commanding respect are the locales \<open>service_reads\<close> and \<open>service_steps\<close>,
    interpreted on the driver.
  \<^item> \<open>Innfos_Ecb\<close> (\<open>InnfosEcbProtocol.cpp\<close>) and \<open>Innfos_Ecb_Correctness\<close>: the ECB family over the vendored
    SDK, the parameter \<open>actuator_sdk\<close>.  The locales \<open>ecb_keeps\<close>, \<open>ecb_resolves\<close>, \<open>ecb_finds\<close>, \<open>ecb_updates\<close>
    and \<open>ecb_operates\<close> carry a predicate from the small steps on the object to its operations; they are
    interpreted for the invariant, the address of a motor, the calls made and the mode read back.
    \<open>innfos_api\<close> is the \<open>ecb_api\<close> of the device manager on these objects.

  Definitions carry the names of the source; where both protocol objects have an operation of
  one name, those of \<open>EyouCan\<close> are prefixed \<open>ey_\<close> and the public ones of \<open>MtCan\<close> \<open>mt_\<close>.  The state of a
  class is a record whose fields are its members; an operation takes and returns the state, and
  the time when the code reads the clock.  An operation under one lock is one step.  Requests
  handed to the dispatcher are appended to \<open>io_outbox\<close>; the dispatcher is \<open>Device_Runtime\<close>, and the
  completions it calls are the protocols' \<open>onReadDispatchResult\<close>.

  \<^bold>\<open>What is shown\<close>

  \<^item> Transmission: queue bounds and at most one control frame per CAN id in every interleaving,
    conservation of frames in the 64-bit statistics, every tracked read answered once, the worker
    drains the queues in priority order within four steps per request, and the control queue
    as the map from CAN ids to the latest frame.
  \<^item> Lifecycle: the transition table, motion only after initialisation, enable and release,
    latched faults, stale commands blocked after every transition; and the window in which a
    release overwrites a fault.
  \<^item> Protocols: invariants of both objects over every sequence of operations, exact encodings and
    readings, no read queued twice, silent MT motors lose readiness, PP position commands only
    reach motors with the right velocity, saved parameters only when acknowledged.
  \<^item> Store, readiness, scheduling, commands: injective keys, isolation of axes, consistency of the
    store, what makes an axis ready and that the reason text is complete, budget and freedom from
    starvation of query plans, rounding and saturation of commands, exact position hold.
  \<^item> Devices: in every interleaving of the callers, refresh, receive and transmit threads a protocol
    object has its transport, dispatcher and lock, received frames reach each object of the device
    once, a failed initialisation leaves nothing behind, at most one refresh query is outstanding
    on a device, and stopping a refresh thread ends it.
  \<^item> Wire formats: frames of the kernel and UDP datagrams are read back as they were written, and
    so are UDP device specifications.
  \<^item> Lifecycle operations: their polling loops end on the device manager; an axis counts as
    recovered only after enough fresh samples; a batch is the sequence of its calls.
  \<^item> Control loop: a motion command comes from a valid command of its joint, goes to a motor known to
    be enabled and free of faults, and lies within the position limits; a joint that waits for an
    aligned command sends no other; a held joint sends the count that was read.  After a request that
    brings the driver closer to moving nothing is sent until a command is fresh; and the case in
    which a device that comes back defeats this.
  \<^item> Start-up: what the parser accepts is well formed, motor id texts are read modulo \<open>2^32\<close>, device
    lists are read back as written, a device initialisation is all or nothing; a stale axis hides
    faults from the health report.  In every reachable state of the interface the groups partition the
    joints, lookups and buffers fit them; and one MT motor can be configured twice.
  \<^item> Services: a lifecycle service answers what the coordinator decided; a mode switch disarms its joint
    and touches no other; a zero that cannot be saved is taken back from the motor; what applied limits are,
    and the local zero offset that is lost with them.
  \<^item> ECB motors: the invariant of the object, calls only to the actuator of the motor, counts read back as
    they were commanded; an address that is final once found, and CSP mode that is accepted but never
    leaves the axis ready.
  \<^item> Across components, below: coalescing by CAN id loses PP register writes.

  \<^bold>\<open>Bounds\<close>

  Loops are structural, over queues, motors or planned queries; the worker loops are step
  functions, and \<open>worker_drains\<close> gives the number of steps that suffices.  The loops of the
  lifecycle operations that poll until a deadline are bounded by \<open>poll_rounds\<close>, the number of sleeps
  that fit before it; \<open>lifecycle_loops_end\<close> shows that the unbounded loops return the same.  The
  blocking waits take a finite list of actions of other threads; the end of the list is the
  timeout.  The startup synchronisation probes each joint for at most \<open>probe_rounds\<close> rounds, the number of gaps that
  fit into its time-out, or \<open>he_spins\<close> where the clock stands still, and makes \<open>startup_passes\<close> passes,
  as the code does.  The confirmation of a PP mode polls for at most as many rounds of 20 ms as fit
  into its 500 ms.  An ECB motor is searched for three times, with at most two reconnections for an address, as
  the code does; when the ECB refresh thread is stopped it has at most \<open>steps_left\<close> steps to make.

  \<^bold>\<open>What is not modelled\<close>

  Log output; the calls of the socket interface, whose answers are arguments; of the hardware
  interface the registration of handles, the loading of joint limits and the text of the offset file
  (parameters in \<open>hw_env\<close>) and \<open>initDevice\<close>, which nothing calls; the registration of the ROS services
  and topics (\<open>driver_ros_endpoints.cpp\<close>) and the node; the robot description, of which the
  limits of a joint are a parameter; the vendored Innfos SDK, whose answers are the parameter \<open>actuator_sdk\<close>; each
  ECB object has a world of its own, so that what one object does to the SDK is not seen by another.
\<close>

section \<open>Properties across components\<close>

text \<open>The requests an operation of a PP protocol object hands to the dispatcher.\<close>

definition handed_over :: "ey_can \<Rightarrow> ey_can \<Rightarrow> request list" where
  "handed_over s t = drop (length (io_outbox s)) (io_outbox t)"

lemma limits_handed_over:
  assumes "io_canController s" and "io_txDispatcher s" and "sint lo \<le> sint hi" and "n = toProtocolNodeId mid"
  shows "fst (configurePositionLimits mid lo hi True s)"
    and "handed_over s (snd (configurePositionLimits mid lo hi True s)) =
      [write_request n 0x39 hi kWriteCommand, write_request n 0x3A lo kWriteCommand, write_request n 0x38 1 kWriteCommand]"
  using assms by (simp_all add: configurePositionLimits_def Let_def handed_over_def)

text \<open>
  C24: position limits of a PP motor are lost when the transmit worker is busy: the three register
  writes of \<open>configurePositionLimits\<close> (upper limit, lower limit, enable) have the same CAN id, so
  when the worker takes none of them in between, the control queue is left with the write that
  enables the limits, and neither limit is sent, although the operation reports success.
\<close>

theorem pp_limit_writes_coalesce:
  assumes "rt_reachable rt" and "\<not> rt_stopRequested rt"
    and "io_canController s" and "io_txDispatcher s" and "sint lo \<le> sint hi" and "n = toProtocolNodeId mid"
    and "rs = handed_over s (snd (configurePositionLimits mid lo hi True s))"
  shows "fst (configurePositionLimits mid lo hi True s) \<and>
    rs = [write_request n 0x39 hi kWriteCommand, write_request n 0x3A lo kWriteCommand, write_request n 0x38 1 kWriteCommand] \<and>
    {r \<in> set (rt_controlQueue (fold (submit now) rs rt)). can_id r = ucast (kEyouIdFrameBase + ucast n :: u16)} =
      {write_request n 0x38 1 kWriteCommand}"
proof -
  note limits = limits_handed_over [OF assms(3-6)]
  have rs: "rs = [write_request n 0x39 hi kWriteCommand, write_request n 0x3A lo kWriteCommand, write_request n 0x38 1 kWriteCommand]"
    unfolding assms(7) by (rule limits(2))
  have "{r \<in> set (rt_controlQueue (fold (submit now) rs rt)). can_id r = ucast (kEyouIdFrameBase + ucast n :: u16)} = {last rs}"
    by (rule burst_keeps_last [OF rt_reachable_inv [OF assms(1)] assms(2)]) (auto simp: rs write_request_def)
  with rs limits(1) show ?thesis by simp
qed

theorem pp_limit_writes_coalesce_witness:
  "{r \<in> set (rt_controlQueue (fold (submit 9) (handed_over (new_EyouCan True True None ''can0'')
       (snd (configurePositionLimits 5 (- 100) 100 True (new_EyouCan True True None ''can0'')))) witness_runtime)).
     can_id r = ucast (kEyouIdFrameBase + 5 :: u16)} = {write_request 5 0x38 1 kWriteCommand}"
proof -
  let ?s = "new_EyouCan True True None ''can0''"
  have "\<not> rt_stopRequested witness_runtime" by (simp add: witness_eval)
  moreover have "io_canController ?s" "io_txDispatcher ?s" by (simp_all add: new_EyouCan_def)
  moreover have "sint (- 100 :: i32) \<le> sint (100 :: i32)" by simp
  moreover have "5 = toProtocolNodeId 5" by (simp add: toProtocolNodeId_def toSystemMotorId_def)
  ultimately have "{r \<in> set (rt_controlQueue (fold (submit 9) (handed_over ?s (snd (configurePositionLimits 5 (- 100) 100 True ?s)))
      witness_runtime)). can_id r = ucast (kEyouIdFrameBase + ucast (5 :: u8) :: u16)} = {write_request 5 0x38 1 kWriteCommand}"
    using pp_limit_writes_coalesce [OF witness_runtime_reachable _ _ _ _ _ refl, of ?s "- 100" 100 5 5 9] by blast
  then show ?thesis by simp
qed

end
